(* ===== verification/Prelude.thy ===== *)
theory Prelude
  imports Complex_Main "HOL-Library.List_Lexorder" "HOL-Library.Char_ord"
begin

text \<open>
  Shared vocabulary of the development: the transaction monad in which the handlers of
  the backend are written, the triples their invariants are stated with, and tables
  (lists of rows looked up by their key), each with the lemmas the components use.
\<close>

named_theorems tx_run \<open>running a transaction step on a state\<close>
named_theorems keeps_intros \<open>invariant-preservation rules, by the shape of the program\<close>
named_theorems triple_intros \<open>triple rules, by the shape of the program\<close>

section \<open>Transactions\<close>

text \<open>
  An async method of the backend takes a session, reads and changes rows and either
  returns or raises. A raised exception rolls the caller's transaction back, so an error
  carries no state.
\<close>

type_synonym ('s, 'e, 'a) tx = "'s \<Rightarrow> 'e + ('a \<times> 's)"

definition returnT :: "'a \<Rightarrow> ('s, 'e, 'a) tx" where
  "returnT x = (\<lambda>s. Inr (x, s))"

definition throwT :: "'e \<Rightarrow> ('s, 'e, 'a) tx" where
  "throwT e = (\<lambda>s. Inl e)"

definition bindT :: "('s, 'e, 'a) tx \<Rightarrow> ('a \<Rightarrow> ('s, 'e, 'b) tx) \<Rightarrow> ('s, 'e, 'b) tx" where
  "bindT m f = (\<lambda>s. case m s of Inl e \<Rightarrow> Inl e | Inr r \<Rightarrow> f (fst r) (snd r))"

definition thenT :: "('s, 'e, 'a) tx \<Rightarrow> ('s, 'e, 'b) tx \<Rightarrow> ('s, 'e, 'b) tx" where
  "thenT m n = bindT m (\<lambda>_. n)"

definition getsT :: "('s \<Rightarrow> 'a) \<Rightarrow> ('s, 'e, 'a) tx" where
  "getsT f = (\<lambda>s. Inr (f s, s))"

definition modifyT :: "('s \<Rightarrow> 's) \<Rightarrow> ('s, 'e, unit) tx" where
  "modifyT f = (\<lambda>s. Inr ((), f s))"

definition liftT :: "'e + 'a \<Rightarrow> ('s, 'e, 'a) tx" where
  "liftT r = (case r of Inl e \<Rightarrow> throwT e | Inr x \<Rightarrow> returnT x)"

definition checkT :: "bool \<Rightarrow> 'e \<Rightarrow> ('s, 'e, unit) tx" where
  "checkT b e = (if b then returnT () else throwT e)"

definition whenT :: "bool \<Rightarrow> ('s, 'e, unit) tx \<Rightarrow> ('s, 'e, unit) tx" where
  "whenT b m = (if b then m else returnT ())"

definition someT :: "'a option \<Rightarrow> 'e \<Rightarrow> ('s, 'e, 'a) tx" where
  "someT x e = (case x of None \<Rightarrow> throwT e | Some y \<Rightarrow> returnT y)"

text \<open>A savepoint: on an error the state is as before, and the handler goes on from it.\<close>

definition tryT :: "('s, 'e, 'a) tx \<Rightarrow> ('e \<Rightarrow> ('s, 'e, 'a) tx) \<Rightarrow> ('s, 'e, 'a) tx" where
  "tryT m h = (\<lambda>s. case m s of Inl e \<Rightarrow> h e s | Inr r \<Rightarrow> Inr r)"

primrec forT :: "'x list \<Rightarrow> ('x \<Rightarrow> ('s, 'e, unit) tx) \<Rightarrow> ('s, 'e, unit) tx" where
  "forT [] f = returnT ()"
| "forT (x # xs) f = bindT (f x) (\<lambda>_. forT xs f)"

primrec mapT :: "'x list \<Rightarrow> ('x \<Rightarrow> ('s, 'e, 'y) tx) \<Rightarrow> ('s, 'e, 'y list) tx" where
  "mapT [] f = returnT []"
| "mapT (x # xs) f = bindT (f x) (\<lambda>y. bindT (mapT xs f) (\<lambda>ys. returnT (y # ys)))"

text \<open>A step on a part of the state.\<close>

definition zoomT :: "('s \<Rightarrow> 'p) \<Rightarrow> ('p \<Rightarrow> 's \<Rightarrow> 's) \<Rightarrow> ('p, 'e, 'a) tx \<Rightarrow> ('s, 'e, 'a) tx" where
  "zoomT get put m = (\<lambda>s. case m (get s) of Inl e \<Rightarrow> Inl e | Inr r \<Rightarrow> Inr (fst r, put (snd r) s))"

text \<open>Keep the elements for which the check, which may change the state, says yes.\<close>

primrec filterT :: "'x list \<Rightarrow> ('x \<Rightarrow> ('s, 'e, bool) tx) \<Rightarrow> ('s, 'e, 'x list) tx" where
  "filterT [] f = returnT []"
| "filterT (x # xs) f =
     bindT (f x) (\<lambda>b. bindT (filterT xs f) (\<lambda>ys. returnT (if b then x # ys else ys)))"

lemma run_returnT [tx_run]: "returnT x s = Inr (x, s)"
  by (simp add: returnT_def)

lemma run_throwT [tx_run]: "throwT e s = Inl e"
  by (simp add: throwT_def)

lemma run_bindT [tx_run]:
  "bindT m f s = (case m s of Inl e \<Rightarrow> Inl e | Inr r \<Rightarrow> f (fst r) (snd r))"
  by (simp add: bindT_def)

lemma run_thenT [tx_run]:
  "thenT m n s = (case m s of Inl e \<Rightarrow> Inl e | Inr r \<Rightarrow> n (snd r))"
  by (simp add: thenT_def bindT_def)

lemma run_getsT [tx_run]: "getsT f s = Inr (f s, s)"
  by (simp add: getsT_def)

lemma run_modifyT [tx_run]: "modifyT f s = Inr ((), f s)"
  by (simp add: modifyT_def)

lemma run_liftT [tx_run]: "liftT r s = (case r of Inl e \<Rightarrow> Inl e | Inr x \<Rightarrow> Inr (x, s))"
  by (simp add: liftT_def throwT_def returnT_def split: sum.splits)

lemma run_checkT [tx_run]: "checkT b e s = (if b then Inr ((), s) else Inl e)"
  by (simp add: checkT_def throwT_def returnT_def)

lemma run_whenT [tx_run]: "whenT b m s = (if b then m s else Inr ((), s))"
  by (simp add: whenT_def returnT_def)

lemma run_someT [tx_run]:
  "someT x e s = (case x of None \<Rightarrow> Inl e | Some y \<Rightarrow> Inr (y, s))"
  by (simp add: someT_def throwT_def returnT_def split: option.splits)

lemma run_tryT [tx_run]: "tryT m h s = (case m s of Inl e \<Rightarrow> h e s | Inr r \<Rightarrow> Inr r)"
  by (simp add: tryT_def)

lemma run_zoomT [tx_run]:
  "zoomT get put m s = (case m (get s) of Inl e \<Rightarrow> Inl e | Inr r \<Rightarrow> Inr (fst r, put (snd r) s))"
  by (simp add: zoomT_def)

lemma bindT_Inr_iff:
  "bindT m f s = Inr r \<longleftrightarrow> (\<exists>x s'. m s = Inr (x, s') \<and> f x s' = Inr r)"
  by (auto simp: bindT_def split: sum.splits)

lemma bindT_assoc: "bindT (bindT m f) g = bindT m (\<lambda>x. bindT (f x) g)"
  by (auto simp: bindT_def fun_eq_iff split: sum.splits)

lemma bindT_returnT: "bindT (returnT x) f = f x"
  by (simp add: bindT_def returnT_def)

text \<open>Fallible code without state.\<close>

definition bind_err :: "'e + 'a \<Rightarrow> ('a \<Rightarrow> 'e + 'b) \<Rightarrow> 'e + 'b" where
  "bind_err r f = (case r of Inl e \<Rightarrow> Inl e | Inr x \<Rightarrow> f x)"

primrec map_err :: "'a list \<Rightarrow> ('a \<Rightarrow> 'e + 'b) \<Rightarrow> 'e + 'b list" where
  "map_err [] f = Inr []"
| "map_err (x # xs) f = bind_err (f x) (\<lambda>y. bind_err (map_err xs f) (\<lambda>ys. Inr (y # ys)))"

section \<open>Triples\<close>

text \<open>
  \<open>triple P m Q\<close>: from a state satisfying \<open>P\<close>, every result \<open>m\<close> returns satisfies
  \<open>Q\<close>. It says nothing of a run that raises; that an operation does return is stated
  separately, as an equation.
\<close>

definition triple :: "('s \<Rightarrow> bool) \<Rightarrow> ('s, 'e, 'a) tx \<Rightarrow> ('a \<Rightarrow> 's \<Rightarrow> bool) \<Rightarrow> bool" where
  "triple P m Q \<longleftrightarrow> (\<forall>s x s'. P s \<longrightarrow> m s = Inr (x, s') \<longrightarrow> Q x s')"

definition keeps :: "('s \<Rightarrow> bool) \<Rightarrow> ('s, 'e, 'a) tx \<Rightarrow> bool" where
  "keeps I m \<longleftrightarrow> triple I m (\<lambda>_. I)"

lemma tripleI: "(\<And>s x s'. P s \<Longrightarrow> m s = Inr (x, s') \<Longrightarrow> Q x s') \<Longrightarrow> triple P m Q"
  by (simp add: triple_def)

lemma tripleD: "triple P m Q \<Longrightarrow> P s \<Longrightarrow> m s = Inr (x, s') \<Longrightarrow> Q x s'"
  by (simp add: triple_def)

lemma keepsI: "(\<And>s x s'. I s \<Longrightarrow> m s = Inr (x, s') \<Longrightarrow> I s') \<Longrightarrow> keeps I m"
  by (simp add: keeps_def triple_def)

lemma keepsD: "keeps I m \<Longrightarrow> I s \<Longrightarrow> m s = Inr (x, s') \<Longrightarrow> I s'"
  by (auto simp: keeps_def triple_def)

lemma triple_conseq:
  "triple P m Q \<Longrightarrow> (\<And>s. P' s \<Longrightarrow> P s) \<Longrightarrow> (\<And>x s. Q x s \<Longrightarrow> Q' x s) \<Longrightarrow> triple P' m Q'"
  unfolding triple_def by blast

lemma triple_pre: "triple P m Q \<Longrightarrow> (\<And>s. P' s \<Longrightarrow> P s) \<Longrightarrow> triple P' m Q"
  unfolding triple_def by blast

lemma triple_post: "triple P m Q \<Longrightarrow> (\<And>x s. Q x s \<Longrightarrow> Q' x s) \<Longrightarrow> triple P m Q'"
  unfolding triple_def by blast

lemma triple_conj:
  "triple P m Q \<Longrightarrow> triple P' m Q' \<Longrightarrow> triple (\<lambda>s. P s \<and> P' s) m (\<lambda>x s. Q x s \<and> Q' x s)"
proof (rule tripleI)
  fix s x s'
  assume "triple P m Q" "triple P' m Q'" "P s \<and> P' s" "m s = Inr (x, s')"
  then show "Q x s' \<and> Q' x s'"
    using tripleD [of P m Q s x s'] tripleD [of P' m Q' s x s'] by simp
qed

lemma triple_bind [triple_intros]:
  "triple P m R \<Longrightarrow> (\<And>x. triple (R x) (f x) Q) \<Longrightarrow> triple P (bindT m f) Q"
proof (rule tripleI)
  fix s y s''
  assume m: "triple P m R" and f: "\<And>x. triple (R x) (f x) Q" and P: "P s"
    and run: "bindT m f s = Inr (y, s'')"
  from run obtain x s' where 1: "m s = Inr (x, s')" and 2: "f x s' = Inr (y, s'')"
    by (auto simp: bindT_Inr_iff)
  from m P 1 have "R x s'" by (rule tripleD)
  with f 2 show "Q y s''" by (blast intro: tripleD)
qed

lemma triple_return: "triple (\<lambda>s. Q x s) (returnT x) Q"
  by (simp add: triple_def returnT_def)

lemma triple_gets: "triple (\<lambda>s. Q (f s) s) (getsT f) Q"
  by (simp add: triple_def getsT_def)

lemma triple_modify: "triple (\<lambda>s. Q () (f s)) (modifyT f) Q"
  by (simp add: triple_def modifyT_def)

lemma triple_throw [triple_intros]: "triple P (throwT e) Q"
  by (simp add: triple_def throwT_def)

lemma triple_bind_gets [triple_intros]:
  "(\<And>v. triple (\<lambda>s. P s \<and> f s = v) (g v) Q) \<Longrightarrow> triple P (bindT (getsT f) g) Q"
  by (auto simp: triple_def bindT_def getsT_def)

lemma triple_bind_some [triple_intros]:
  "(\<And>v. x = Some v \<Longrightarrow> triple P (g v) Q) \<Longrightarrow> triple P (bindT (someT x e) g) Q"
  by (cases x) (auto simp: triple_def bindT_def someT_def throwT_def returnT_def)

lemma triple_bind_check [triple_intros]:
  "(b \<Longrightarrow> triple P (g ()) Q) \<Longrightarrow> triple P (bindT (checkT b e) g) Q"
  by (auto simp: triple_def bindT_def checkT_def throwT_def returnT_def)

subsection \<open>Preservation, by the shape of the program\<close>

lemma keeps_return [keeps_intros]: "keeps I (returnT x)"
  by (simp add: keeps_def triple_def returnT_def)

lemma keeps_throw [keeps_intros]: "keeps I (throwT e)"
  by (simp add: keeps_def triple_def throwT_def)

lemma keeps_gets [keeps_intros]: "keeps I (getsT f)"
  by (simp add: keeps_def triple_def getsT_def)

lemma keeps_lift [keeps_intros]: "keeps I (liftT r)"
  by (simp add: keeps_def triple_def liftT_def throwT_def returnT_def split: sum.splits)

lemma keeps_check [keeps_intros]: "keeps I (checkT b e)"
  by (simp add: keeps_def triple_def checkT_def throwT_def returnT_def)

lemma keeps_some [keeps_intros]: "keeps I (someT x e)"
  by (simp add: keeps_def triple_def someT_def throwT_def returnT_def split: option.splits)

lemma keeps_bind [keeps_intros]:
  "keeps I m \<Longrightarrow> (\<And>x. keeps I (f x)) \<Longrightarrow> keeps I (bindT m f)"
  unfolding keeps_def by (rule triple_bind)

lemma keeps_then [keeps_intros]: "keeps I m \<Longrightarrow> keeps I n \<Longrightarrow> keeps I (thenT m n)"
  by (simp add: thenT_def keeps_bind)

lemma keeps_when [keeps_intros]: "(b \<Longrightarrow> keeps I m) \<Longrightarrow> keeps I (whenT b m)"
  by (simp add: whenT_def keeps_return)

lemma keeps_if [keeps_intros]:
  "(b \<Longrightarrow> keeps I m) \<Longrightarrow> (\<not> b \<Longrightarrow> keeps I n) \<Longrightarrow> keeps I (if b then m else n)"
  by simp

lemma keeps_case_option [keeps_intros]:
  "(x = None \<Longrightarrow> keeps I m) \<Longrightarrow> (\<And>v. x = Some v \<Longrightarrow> keeps I (f v)) \<Longrightarrow>
   keeps I (case x of None \<Rightarrow> m | Some v \<Rightarrow> f v)"
  by (cases x) simp_all

lemma keeps_case_sum [keeps_intros]:
  "(\<And>e. x = Inl e \<Longrightarrow> keeps I (g e)) \<Longrightarrow> (\<And>v. x = Inr v \<Longrightarrow> keeps I (f v)) \<Longrightarrow>
   keeps I (case x of Inl e \<Rightarrow> g e | Inr v \<Rightarrow> f v)"
  by (cases x) simp_all

lemma keeps_let [keeps_intros]: "keeps I (f v) \<Longrightarrow> keeps I (let x = v in f x)"
  by simp

lemma keeps_for [keeps_intros]:
  "(\<And>x. x \<in> set xs \<Longrightarrow> keeps I (f x)) \<Longrightarrow> keeps I (forT xs f)"
  by (induction xs) (simp_all add: keeps_return keeps_bind)

lemma keeps_map [keeps_intros]:
  "(\<And>x. x \<in> set xs \<Longrightarrow> keeps I (f x)) \<Longrightarrow> keeps I (mapT xs f)"
  by (induction xs) (simp_all add: keeps_return keeps_bind)

lemma keeps_filter [keeps_intros]:
  "(\<And>x. x \<in> set xs \<Longrightarrow> keeps I (f x)) \<Longrightarrow> keeps I (filterT xs f)"
  by (induction xs) (simp_all add: keeps_return keeps_bind)

lemma keeps_try [keeps_intros]:
  "keeps I m \<Longrightarrow> (\<And>e. keeps I (h e)) \<Longrightarrow> keeps I (tryT m h)"
proof (rule keepsI)
  fix s x s'
  assume m: "keeps I m" and h: "\<And>e. keeps I (h e)" and I: "I s"
    and run: "tryT m h s = Inr (x, s')"
  show "I s'"
  proof (cases "m s")
    case (Inl e)
    with run have "h e s = Inr (x, s')" by (simp add: tryT_def)
    with h I show ?thesis by (rule keepsD)
  next
    case (Inr r)
    with run have "m s = Inr (x, s')" by (simp add: tryT_def)
    with m I show ?thesis by (rule keepsD)
  qed
qed

lemma keeps_conj: "keeps I m \<Longrightarrow> keeps J m \<Longrightarrow> keeps (\<lambda>s. I s \<and> J s) m"
  by (auto simp: keeps_def triple_def)

lemma keeps_modify: "(\<And>s. I s \<Longrightarrow> I (f s)) \<Longrightarrow> keeps I (modifyT f)"
  by (simp add: keeps_def triple_def modifyT_def)

section \<open>Relations respected by a transaction\<close>

text \<open>
  \<open>obeys R m\<close>: whenever \<open>m\<close> returns, the states before and after are related. For a preorder
  the rules follow the shape of the program.
\<close>

definition obeys :: "('s \<Rightarrow> 's \<Rightarrow> bool) \<Rightarrow> ('s, 'e, 'a) tx \<Rightarrow> bool" where
  "obeys R m \<longleftrightarrow> (\<forall>s x s'. m s = Inr (x, s') \<longrightarrow> R s s')"

lemma obeysI: "(\<And>s x s'. m s = Inr (x, s') \<Longrightarrow> R s s') \<Longrightarrow> obeys R m"
  by (simp add: obeys_def)

lemma obeysD: "obeys R m \<Longrightarrow> m s = Inr (x, s') \<Longrightarrow> R s s'"
  by (simp add: obeys_def)

lemma obeys_modify: "(\<And>s. R s (f s)) \<Longrightarrow> obeys R (modifyT f)"
  by (simp add: obeys_def run_modifyT)

locale step_preorder =
  fixes R :: "'s \<Rightarrow> 's \<Rightarrow> bool"
  assumes refl: "R s s" and trans: "R s t \<Longrightarrow> R t u \<Longrightarrow> R s u"
begin

lemma bind: "obeys R m \<Longrightarrow> (\<And>x. obeys R (f x)) \<Longrightarrow> obeys R (bindT m f)"
  unfolding obeys_def bindT_Inr_iff using trans by blast

lemma basic:
  "obeys R (returnT x)" "obeys R (throwT e)" "obeys R (getsT g)" "obeys R (liftT r)"
  "obeys R (checkT b e)" "obeys R (someT v e)"
  by (auto simp: obeys_def tx_run refl split: sum.splits option.splits if_splits)

lemma branches:
  "(b \<Longrightarrow> obeys R m) \<Longrightarrow> (\<not> b \<Longrightarrow> obeys R n) \<Longrightarrow> obeys R (if b then m else n)"
  "(x = None \<Longrightarrow> obeys R m) \<Longrightarrow> (\<And>v. x = Some v \<Longrightarrow> obeys R (f v)) \<Longrightarrow>
   obeys R (case x of None \<Rightarrow> m | Some v \<Rightarrow> f v)"
  "(\<And>a b. obeys R (h a b)) \<Longrightarrow> obeys R (case p of (a, b) \<Rightarrow> h a b)"
  "obeys R (k y) \<Longrightarrow> obeys R (let z = y in k z)"
  by (simp, cases x, simp_all) (cases p, simp)

lemma loops:
  "(\<And>x. x \<in> set xs \<Longrightarrow> obeys R (f x)) \<Longrightarrow> obeys R (forT xs f)"
  "(\<And>x. x \<in> set ys \<Longrightarrow> obeys R (g x)) \<Longrightarrow> obeys R (mapT ys g)"
proof -
  show "(\<And>x. x \<in> set xs \<Longrightarrow> obeys R (f x)) \<Longrightarrow> obeys R (forT xs f)"
    by (induction xs) (simp_all add: basic bind)
  show "(\<And>x. x \<in> set ys \<Longrightarrow> obeys R (g x)) \<Longrightarrow> obeys R (mapT ys g)"
    by (induction ys) (simp_all add: basic bind)
qed

lemma savepoint:
  assumes "obeys R m" "\<And>e. obeys R (h e)"
  shows "obeys R (tryT m h)"
  using assms by (auto simp: obeys_def tryT_def split: sum.splits)

lemmas rules = bind basic branches loops savepoint

end

section \<open>Tables\<close>

text \<open>A table is the list of its rows, in the order they were inserted.\<close>

definition find_row :: "('r \<Rightarrow> 'k) \<Rightarrow> 'k \<Rightarrow> 'r list \<Rightarrow> 'r option" where
  "find_row key k rows = find (\<lambda>r. key r = k) rows"

definition update_row :: "('r \<Rightarrow> 'k) \<Rightarrow> 'k \<Rightarrow> ('r \<Rightarrow> 'r) \<Rightarrow> 'r list \<Rightarrow> 'r list" where
  "update_row key k f rows = map (\<lambda>r. if key r = k then f r else r) rows"

lemma find_row_Nil [simp]: "find_row key k [] = None"
  by (simp add: find_row_def)

lemma find_row_Cons [simp]:
  "find_row key k (r # rs) = (if key r = k then Some r else find_row key k rs)"
  by (simp add: find_row_def)

lemma find_row_append:
  "find_row key k (rs @ rs') = (case find_row key k rs of None \<Rightarrow> find_row key k rs' | Some r \<Rightarrow> Some r)"
  by (induction rs) simp_all

lemma find_row_key: "find_row key k rs = Some r \<Longrightarrow> key r = k"
  by (induction rs) (auto split: if_splits)

lemma find_row_in: "find_row key k rs = Some r \<Longrightarrow> r \<in> set rs"
  by (induction rs) (auto split: if_splits)

lemma find_row_None_iff: "find_row key k rs = None \<longleftrightarrow> k \<notin> key ` set rs"
  by (induction rs) auto

lemma find_row_unique:
  "distinct (map key rs) \<Longrightarrow> r \<in> set rs \<Longrightarrow> find_row key (key r) rs = Some r"
  by (induction rs) (auto simp: rev_image_eqI)

lemma find_row_update:
  assumes "\<And>r. key (f r) = key r"
  shows "find_row key j (update_row key k f rs) =
    (if j = k then map_option f (find_row key k rs) else find_row key j rs)"
  by (induction rs) (auto simp: update_row_def assms)

lemma update_row_Nil [simp]: "update_row key k f [] = []"
  by (simp add: update_row_def)

lemma update_row_Cons [simp]:
  "update_row key k f (r # rs) = (if key r = k then f r else r) # update_row key k f rs"
  by (simp add: update_row_def)

lemma update_row_keys:
  assumes "\<And>r. key (f r) = key r"
  shows "map key (update_row key k f rs) = map key rs"
  by (simp add: update_row_def assms)

lemma set_update_row:
  "r \<in> set (update_row key k f rs) \<Longrightarrow>
   (\<exists>r0 \<in> set rs. key r0 = k \<and> r = f r0) \<or> (r \<in> set rs \<and> key r \<noteq> k)"
  by (auto simp: update_row_def split: if_splits)

lemma update_row_absent: "k \<notin> key ` set rows \<Longrightarrow> update_row key k g rows = rows"
  by (induction rows) auto

lemma length_update_row [simp]: "length (update_row key k f rs) = length rs"
  by (simp add: update_row_def)

section \<open>Small helpers of the standard library\<close>

text \<open>Python's \<open>dict\<close> in insertion order: assignment keeps the place of a key it has.\<close>

fun dict_set :: "'k \<Rightarrow> 'v \<Rightarrow> ('k \<times> 'v) list \<Rightarrow> ('k \<times> 'v) list" where
  "dict_set k v [] = [(k, v)]"
| "dict_set k v ((k', v') # d) = (if k' = k then (k, v) # d else (k', v') # dict_set k v d)"

definition dict_merge :: "('k \<times> 'v) list \<Rightarrow> ('k \<times> 'v) list \<Rightarrow> ('k \<times> 'v) list" where
  "dict_merge d e = fold (\<lambda>(k, v) acc. dict_set k v acc) e d"

lemma map_of_dict_set [simp]: "map_of (dict_set k v d) = (map_of d)(k \<mapsto> v)"
  by (induction k v d rule: dict_set.induct) auto

lemma keys_dict_set [simp]: "set (map fst (dict_set k v d)) = insert k (set (map fst d))"
  by (induction k v d rule: dict_set.induct) auto

lemma distinct_dict_set: "distinct (map fst d) \<Longrightarrow> distinct (map fst (dict_set k v d))"
proof (induction k v d rule: dict_set.induct)
  case (2 k v k' v' d)
  then show ?case using keys_dict_set [of k v d] by auto
qed simp

lemma map_of_dict_merge:
  "distinct (map fst e) \<Longrightarrow> map_of (dict_merge d e) = map_of d ++ map_of e"
  unfolding dict_merge_def
proof (induction e arbitrary: d)
  case Nil
  then show ?case by simp
next
  case (Cons kv e)
  obtain k v where kv: "kv = (k, v)" by fastforce
  with Cons.prems have "k \<notin> dom (map_of e)"
    by (simp add: dom_map_of_conv_image_fst)
  then have upd: "(map_of d)(k \<mapsto> v) ++ map_of e = (map_of d ++ map_of e)(k \<mapsto> v)"
    by (rule map_add_upd_left)
  have "map_of (fold (\<lambda>(k, v) acc. dict_set k v acc) (kv # e) d) = (map_of d)(k \<mapsto> v) ++ map_of e"
    using Cons.IH [of "dict_set k v d"] Cons.prems by (simp add: kv del: fun_upd_apply)
  also have "\<dots> = map_of d ++ (map_of e)(k \<mapsto> v)"
    by (simp only: upd map_add_upd)
  also have "(map_of e)(k \<mapsto> v) = map_of (kv # e)"
    by (simp add: kv)
  finally show ?case .
qed

text \<open>
  The identifier pattern \<open>^[a-z][a-z0-9_]*$\<close> of \<open>re.match\<close>: \<open>$\<close> also matches before
  one final newline. A dotted name is identifiers joined by single dots.
\<close>

definition drop_newline :: "string \<Rightarrow> string" where
  "drop_newline t = (if t \<noteq> [] \<and> last t = CHR 0x0A then butlast t else t)"

definition plain_ident :: "string \<Rightarrow> bool" where
  "plain_ident t =
     (t \<noteq> [] \<and> hd t \<in> set ''abcdefghijklmnopqrstuvwxyz'' \<and>
      set t \<subseteq> set ''abcdefghijklmnopqrstuvwxyz0123456789_'')"

definition match_ident :: "string \<Rightarrow> bool" where
  "match_ident t = plain_ident (drop_newline t)"

fun split_on :: "char \<Rightarrow> string \<Rightarrow> string list" where
  "split_on d [] = [[]]"
| "split_on d (c # cs) =
     (if c = d then [] # split_on d cs
      else case split_on d cs of [] \<Rightarrow> [[c]] | w # ws \<Rightarrow> (c # w) # ws)"

definition match_dotted :: "string \<Rightarrow> bool" where
  "match_dotted t = list_all plain_ident (split_on (CHR ''.'') (drop_newline t))"

text \<open>Keep an optional text only when it is not empty.\<close>

definition nonempty :: "'a list option \<Rightarrow> 'a list option" where
  "nonempty v = (case v of Some (x # xs) \<Rightarrow> Some (x # xs) | _ \<Rightarrow> None)"

definition first_some :: "'a list \<Rightarrow> 'a option" where
  "first_some xs = (case xs of [] \<Rightarrow> None | x # _ \<Rightarrow> Some x)"

definition last_some :: "'a list \<Rightarrow> 'a option" where
  "last_some xs = first_some (rev xs)"

lemma first_some_in: "first_some xs = Some x \<Longrightarrow> x \<in> set xs"
  by (cases xs) (auto simp: first_some_def)

lemma first_some_None [simp]: "first_some xs = None \<longleftrightarrow> xs = []"
  by (cases xs) (auto simp: first_some_def)

end
