(* ===== verification/Models.thy ===== *)
theory Models
  imports Prelude
begin

text \<open>
  The vocabulary of the database models (\<open>db/models/tasks.py\<close>, \<open>agents.py\<close>,
  \<open>runtime.py\<close>): the state enumerations with the strings they are stored as, the
  identifiers, instants and JSON values the columns hold, the actor of
  \<open>runtime/actor.py\<close>, and the errors the modelled code raises.
\<close>

section \<open>Column types\<close>

text \<open>
  Identifiers are UUIDs drawn from an increasing supply (\<open>infra/ids.py\<close>, whose bit
  layout and monotonicity are the theory \<open>Ids\<close>). Instants and durations count
  microseconds, the resolution of Python's \<open>datetime\<close>. Amounts of money are rationals.
\<close>

type_synonym uuid = nat
type_synonym instant = int
type_synonym duration = int
type_synonym money = rat

text \<open>A JSON value as Python holds it; a float is given by the text \<open>repr\<close> writes for it.\<close>

datatype json =
    JNull | JBool bool | JInt int | JFloat string | JStr string | JArr "json list"
  | JObj "(string \<times> json) list"

type_synonym dict = "(string \<times> json) list"

definition dict_get :: "dict \<Rightarrow> string \<Rightarrow> json option" where
  "dict_get d k = map_of d k"

text \<open>Truth of a JSON value in a Python condition.\<close>

fun json_truthy :: "json \<Rightarrow> bool" where
  "json_truthy JNull = False"
| "json_truthy (JBool b) = b"
| "json_truthy (JInt n) = (n \<noteq> 0)"
| "json_truthy (JFloat r) = (r \<notin> {''0.0'', ''-0.0''})"
| "json_truthy (JStr s) = (s \<noteq> [])"
| "json_truthy (JArr xs) = (xs \<noteq> [])"
| "json_truthy (JObj d) = (d \<noteq> [])"

text \<open>\<open>x or {}\<close> on an optional dictionary.\<close>

definition or_empty :: "dict option \<Rightarrow> dict" where
  "or_empty d = (case d of None \<Rightarrow> [] | Some d' \<Rightarrow> d')"

section \<open>State enumerations\<close>

datatype workflow_run_state = W_RUNNING | W_SUCCEEDED | W_FAILED | W_CANCELLED

datatype task_state =
    T_PENDING | T_READY | T_RUNNING | T_WAITING_APPROVAL | T_BLOCKED_BUDGET
  | T_SUCCEEDED | T_FAILED | T_CANCELLED

datatype agent_run_state =
    R_CREATED | R_RUNNING | R_WAITING_APPROVAL | R_EVALUATING | R_REPAIRING
  | R_COMPLETED | R_FAILED | R_ABORTED

definition AGENT_RUN_TERMINAL :: "agent_run_state list" where
  "AGENT_RUN_TERMINAL = [R_COMPLETED, R_FAILED, R_ABORTED]"

datatype activity_state =
  A_IDLE | A_THINKING | A_WORKING | A_WAITING | A_REVIEWING | A_COMPLETED | A_FAILED | A_PAUSED

datatype agent_status = AG_ACTIVE | AG_PAUSED | AG_RETIRED

datatype approval_state = P_PENDING | P_APPROVED | P_REJECTED | P_RETURNED | P_EXPIRED

primrec workflow_run_state_value :: "workflow_run_state \<Rightarrow> string" where
  "workflow_run_state_value W_RUNNING = ''RUNNING''"
| "workflow_run_state_value W_SUCCEEDED = ''SUCCEEDED''"
| "workflow_run_state_value W_FAILED = ''FAILED''"
| "workflow_run_state_value W_CANCELLED = ''CANCELLED''"

primrec task_state_value :: "task_state \<Rightarrow> string" where
  "task_state_value T_PENDING = ''PENDING''"
| "task_state_value T_READY = ''READY''"
| "task_state_value T_RUNNING = ''RUNNING''"
| "task_state_value T_WAITING_APPROVAL = ''WAITING_APPROVAL''"
| "task_state_value T_BLOCKED_BUDGET = ''BLOCKED_BUDGET''"
| "task_state_value T_SUCCEEDED = ''SUCCEEDED''"
| "task_state_value T_FAILED = ''FAILED''"
| "task_state_value T_CANCELLED = ''CANCELLED''"

primrec agent_run_state_value :: "agent_run_state \<Rightarrow> string" where
  "agent_run_state_value R_CREATED = ''CREATED''"
| "agent_run_state_value R_RUNNING = ''RUNNING''"
| "agent_run_state_value R_WAITING_APPROVAL = ''WAITING_APPROVAL''"
| "agent_run_state_value R_EVALUATING = ''EVALUATING''"
| "agent_run_state_value R_REPAIRING = ''REPAIRING''"
| "agent_run_state_value R_COMPLETED = ''COMPLETED''"
| "agent_run_state_value R_FAILED = ''FAILED''"
| "agent_run_state_value R_ABORTED = ''ABORTED''"

primrec approval_state_value :: "approval_state \<Rightarrow> string" where
  "approval_state_value P_PENDING = ''PENDING''"
| "approval_state_value P_APPROVED = ''APPROVED''"
| "approval_state_value P_REJECTED = ''REJECTED''"
| "approval_state_value P_RETURNED = ''RETURNED''"
| "approval_state_value P_EXPIRED = ''EXPIRED''"

text \<open>The enumerations are finite; \<open>enum\<close> lets statements over all states be evaluated.\<close>

instantiation task_state :: enum
begin

definition enum_task_state :: "task_state list" where
  "enum_task_state = [T_PENDING, T_READY, T_RUNNING, T_WAITING_APPROVAL, T_BLOCKED_BUDGET,
     T_SUCCEEDED, T_FAILED, T_CANCELLED]"

definition enum_all_task_state :: "(task_state \<Rightarrow> bool) \<Rightarrow> bool" where
  "enum_all_task_state P = list_all P enum_class.enum"

definition enum_ex_task_state :: "(task_state \<Rightarrow> bool) \<Rightarrow> bool" where
  "enum_ex_task_state P = list_ex P enum_class.enum"

instance
proof
  have mem: "s \<in> set enum_class.enum" for s :: task_state
    by (cases s) (simp_all add: enum_task_state_def)
  show "(UNIV :: task_state set) = set enum_class.enum" using mem by blast
  show "distinct (enum_class.enum :: task_state list)" by (simp add: enum_task_state_def)
  show "enum_class.enum_all P = Ball UNIV P" for P :: "task_state \<Rightarrow> bool"
    using mem by (auto simp: enum_all_task_state_def list_all_iff)
  show "enum_class.enum_ex P = Bex UNIV P" for P :: "task_state \<Rightarrow> bool"
    using mem by (auto simp: enum_ex_task_state_def list_ex_iff)
qed

end

instantiation agent_run_state :: enum
begin

definition enum_agent_run_state :: "agent_run_state list" where
  "enum_agent_run_state = [R_CREATED, R_RUNNING, R_WAITING_APPROVAL, R_EVALUATING, R_REPAIRING,
     R_COMPLETED, R_FAILED, R_ABORTED]"

definition enum_all_agent_run_state :: "(agent_run_state \<Rightarrow> bool) \<Rightarrow> bool" where
  "enum_all_agent_run_state P = list_all P enum_class.enum"

definition enum_ex_agent_run_state :: "(agent_run_state \<Rightarrow> bool) \<Rightarrow> bool" where
  "enum_ex_agent_run_state P = list_ex P enum_class.enum"

instance
proof
  have mem: "s \<in> set enum_class.enum" for s :: agent_run_state
    by (cases s) (simp_all add: enum_agent_run_state_def)
  show "(UNIV :: agent_run_state set) = set enum_class.enum" using mem by blast
  show "distinct (enum_class.enum :: agent_run_state list)" by (simp add: enum_agent_run_state_def)
  show "enum_class.enum_all P = Ball UNIV P" for P :: "agent_run_state \<Rightarrow> bool"
    using mem by (auto simp: enum_all_agent_run_state_def list_all_iff)
  show "enum_class.enum_ex P = Bex UNIV P" for P :: "agent_run_state \<Rightarrow> bool"
    using mem by (auto simp: enum_ex_agent_run_state_def list_ex_iff)
qed

end

section \<open>Actors\<close>

datatype actor = Actor_agent uuid | Actor_system string | Actor_human string

datatype actor_class = K_agent | K_system | K_human

primrec actor_kind :: "actor \<Rightarrow> actor_class" where
  "actor_kind (Actor_agent i) = K_agent"
| "actor_kind (Actor_system n) = K_system"
| "actor_kind (Actor_human u) = K_human"

section \<open>Errors\<close>

text \<open>One constructor per exception class of the modelled code, with what it carries.\<close>

datatype err =
    IllegalTransition string string string "string list"
  | GuardRejected string string string string
  | ValueError string
  | KeyError string
  | IndexError
  | AttributeError
  | AssertionError
  | OutOfFuel
  | EventEmitError string
  | ActivityError string
  | LeaseLost uuid
  | AgentBusy uuid
  | InvalidTemplate string
  | WorkflowError string
  | ApprovalError string
  | PolicyError string
  | ServiceError string
  | ScheduleError string
  | BudgetExceeded string money money money
  | ModelConfigError string
  | FxError string
  | IntegrityError string
  | InvalidOperation
  | TypeError
  | ModelCallFailed string
  | TraceError string
  | UnknownBehavior string
  | RuntimeError string
  | InvalidToolDefinition string
  | UnknownTool string
  | HandlerError string
  | LedgerError string
  | CustomerError string
  | MembershipError string
  | OrderError string
  | NotificationRefused string
  | CommandError string
  | UnknownCommand string
  | Refused string
  | CycleAlreadyOpen nat string
  | OpportunityError string
  | OrganizationError string
  | ReportingError string
  | CompanyAlreadyExists string
  | StartWorkflowError string
  | WorkflowNotAllowed string string
  | DuplicateOpportunity string
  | DuplicateKey string string
  | UnknownUnit string
  | Contradiction string
  | RosterBusy string
  | WrongCompany string

end
