(* ===== verification/Events.thy ===== *)
theory Events
  imports Models
begin

text \<open>
  The event catalogue of the runtime (\<open>runtime/events/catalog.py\<close>): one constructor per
  payload class, its arguments the class's fields in order; and the envelope of
  \<open>runtime/events/schema.py\<close>.
\<close>

section \<open>Parts\<close>

record progress =
  pg_label :: string
  pg_current :: nat
  pg_target :: "nat option"

record handoff =
  ho_to_role :: string
  ho_task_id :: uuid

record link =
  lk_label :: string
  lk_href :: string

record produced_ref =
  pr_type :: string
  pr_id :: uuid

record unlocked_task =
  ut_task_id :: uuid
  ut_required_role :: string

datatype think_phase = Plan | Reason | Finalize
datatype review_phase = Evaluate | Repair
datatype wait_reason = Wait_approval | Wait_budget | Wait_upstream | Wait_rate_limit
datatype idle_reason = Failure_acknowledged | Waiting_cleared | Initialized | Run_ended
datatype abort_reason = Abort_budget | Abort_policy | Abort_timeout | Abort_human
datatype side_effect = SE_read | SE_write | SE_irreversible
datatype persistence = Persisted | Ephemeral

section \<open>Payloads\<close>

text \<open>Events of agents: \<open>AgentCreated\<close> to \<open>AgentHeartbeat\<close>.\<close>

datatype agent_payload =
    AgentCreated string string "string list" string "uuid option" "string option" "string option"
      "string option"
      \<comment> \<open>role, display name, capabilities, avatar, department id and key, zone, business unit\<close>
  | AgentPaused "string option"
  | AgentResumed "string option"
  | AgentRetired string string "string option"
  | AgentIdle idle_reason
  | AgentRunStarted nat string string "string option"
  | AgentThinking think_phase nat "link list"
  | AgentWorking string string nat "progress option" "link list"
  | AgentWaiting wait_reason "uuid option" "uuid option" "string list"
      \<comment> \<open>reason, approval, blocked task, roles waited on\<close>
  | AgentReviewing review_phase nat nat "link list"
  | AgentRunCompleted "string option" money nat int "handoff list" "instant option" "link list"
      \<comment> \<open>summary, cost, steps, duration, hand-off, display until, links\<close>
  | AgentRunFailed string string nat bool
      \<comment> \<open>error class, message, attempt, final\<close>
  | AgentRunAborted abort_reason "string option" bool
  | AgentStepProgress nat nat "progress option"
  | AgentHeartbeat instant

text \<open>Events of tool calls: \<open>ToolCalled\<close> to \<open>ToolDenied\<close>.\<close>

datatype tool_payload =
    ToolCalled string string "string option" side_effect nat
  | ToolCompleted string string int "string option" "money option" "produced_ref list"
  | ToolFailed string string string string bool
  | ToolDenied string string string string "uuid option"

text \<open>Events of workflow runs: \<open>WorkflowRunCreated\<close> to \<open>WorkflowRunCancelled\<close>.\<close>

datatype workflow_payload =
    WorkflowRunCreated string dict uuid "uuid list"
  | WorkflowRunExtended string nat "uuid list"
  | WorkflowRunCompleted int
  | WorkflowRunFailed int "uuid option" "string option"
  | WorkflowRunCancelled int string

text \<open>Events of tasks: \<open>TaskCreated\<close> to \<open>TaskBlocked\<close>.\<close>

datatype task_payload =
    TaskCreated string string string "uuid list" "uuid option" "money option"
      \<comment> \<open>name, display name, required role, dependencies, workflow run, budget\<close>
  | TaskReady string
  | TaskStarted uuid uuid nat
      \<comment> \<open>run, agent, attempt\<close>
  | TaskWaiting wait_reason "uuid option"
  | TaskSucceeded "uuid option" "string option" "unlocked_task list"
  | TaskFailed "uuid option" bool string
  | TaskCancelled string
  | TaskBlocked

text \<open>Events of approvals: \<open>ApprovalRequested\<close> to \<open>ApprovalDelegated\<close>.\<close>

datatype approval_payload =
    ApprovalRequested string string uuid string "instant option"
  | ApprovalApproved string string uuid "string option"
  | ApprovalRejected string string uuid "string option"
  | ApprovalReturned string string uuid string
  | ApprovalExpired string string uuid
  | ApprovalDelegated string string uuid uuid

text \<open>Events of governance and the scheduler: \<open>PolicyDenied\<close> to \<open>ScheduleFired\<close>.\<close>

datatype governance_payload =
    PolicyDenied string string "string option"
  | BudgetExhausted string "uuid option" "uuid option" money money money string
      \<comment> \<open>scope, project, task, limit, spent, requested, currency\<close>
  | ScheduleFired string instant

text \<open>
  Of the company's events (\<open>company/events.py\<close>), those the realtime reducer follows:
  \<open>AgentAssigned\<close> (role, role id, department, its key, zone and business unit, previous role and
  department), \<open>CycleStarted\<close> and \<open>CycleStageChanged\<close>.
\<close>

datatype company_payload =
    AgentAssigned string uuid uuid "string option" "string option" "string option"
      "string option" "uuid option"
  | CycleStarted nat string "instant option"
  | CycleStageChanged string string "instant option"

text \<open>
  The other events of the company (\<open>company/events.py\<close>), by section: \<open>CompanyCreated\<close> to
  \<open>StrategyUpdated\<close>, projects, cycles, opportunities and proposals, the organisation, money and
  customers.
\<close>

datatype goal_payload =
    CompanyCreated string string "string option"
  | GoalCreated string string string rat "instant option" "uuid option"
  | GoalUpdated "rat option" "rat option" "string option"
  | PolicyUpdated string json json
      \<comment> \<open>key, value, previous\<close>
  | StrategyUpdated string "uuid option"
  | TeamMessagePosted string string "string option" "uuid option"
      \<comment> \<open>message, kind, what it refers to\<close>

datatype project_payload =
    ProjectProposed string "string option"
  | ProjectApproved string "string option"
  | ProjectRejected string "string option"
  | ProjectPaused string "string option" string
      \<comment> \<open>name, reason, trigger\<close>
  | ProjectResumed string "string option"
  | ProjectKillProposed string "string option" "uuid option"
  | ProjectKilled string "string option"
  | ProjectCompleted string "string option"

datatype cycle_payload =
    CycleStageTimeout string "uuid list"
  | CyclePlanFallback string
  | CycleReviewed string
  | CycleCompleted nat

datatype opportunity_payload =
    OpportunityDiscovered string string "string option" "string option"
  | OpportunitySignalRecorded string string string "string option" "rat option"
  | OpportunityScored string rat "rat option" "string option"
  | OpportunityAdvanced string string string "string option"
      \<comment> \<open>key, from, to, reason\<close>
  | OpportunityRejected string string string
  | OpportunityExpired string string
  | ProposalDrafted string nat string
  | ProposalSubmitted string nat "money option"
  | ProposalDecided string nat string "string option"
  | ProposalSuperseded string nat nat

datatype organization_payload =
    BusinessUnitCreated string string string "uuid option" "money option"
  | BusinessUnitPaused string string "string option" string
  | BusinessUnitScaled string string money "string option"
  | BusinessUnitWoundDown string string string
  | DepartmentCreated string string "uuid option" "uuid option"
  | ProductCreated string string uuid string

datatype money_payload =
    BudgetAllocated uuid "uuid option" string money string
  | BudgetWarning "uuid option" "uuid option" "uuid option" string money money rat
      \<comment> \<open>budget, project, business unit, period, spent, cap, ratio\<close>
  | ExpenseRecorded uuid "uuid option" string money string
  | RevenueRecorded uuid "uuid option" string money string
      \<comment> \<open>transaction, project, category, amount, currency\<close>
  | CustomerAcquired string string "uuid option" "uuid option"
  | CustomerChurned string string "uuid option" "string option" "int option"
  | CustomerReturned string string "uuid option" "int option"
  | MembershipGranted uuid uuid uuid uuid instant instant bool
      \<comment> \<open>customer, business unit, product, payment, from, until, extended\<close>
  | MembershipExpired uuid uuid uuid instant
  | PaymentReceived uuid uuid uuid uuid "uuid option" string money string
      \<comment> \<open>payment, transaction, customer, business unit, membership, provider, amount, currency\<close>
  | KpiSnapshotCreated uuid "uuid option" "uuid option" dict

datatype business_payload =
    GoalB goal_payload
  | ProjectB project_payload
  | CycleB cycle_payload
  | OpportunityB opportunity_payload
  | OrganizationB organization_payload
  | MoneyB money_payload

fun business_event_type :: "business_payload \<Rightarrow> string" where
  "business_event_type (GoalB (CompanyCreated _ _ _)) = ''COMPANY_CREATED''"
| "business_event_type (GoalB (GoalCreated _ _ _ _ _ _)) = ''GOAL_CREATED''"
| "business_event_type (GoalB (GoalUpdated _ _ _)) = ''GOAL_UPDATED''"
| "business_event_type (GoalB (PolicyUpdated _ _ _)) = ''POLICY_UPDATED''"
| "business_event_type (GoalB (StrategyUpdated _ _)) = ''STRATEGY_UPDATED''"
| "business_event_type (GoalB (TeamMessagePosted _ _ _ _)) = ''TEAM_MESSAGE_POSTED''"
| "business_event_type (ProjectB (ProjectProposed _ _)) = ''PROJECT_PROPOSED''"
| "business_event_type (ProjectB (ProjectApproved _ _)) = ''PROJECT_APPROVED''"
| "business_event_type (ProjectB (ProjectRejected _ _)) = ''PROJECT_REJECTED''"
| "business_event_type (ProjectB (ProjectPaused _ _ _)) = ''PROJECT_PAUSED''"
| "business_event_type (ProjectB (ProjectResumed _ _)) = ''PROJECT_RESUMED''"
| "business_event_type (ProjectB (ProjectKillProposed _ _ _)) = ''PROJECT_KILL_PROPOSED''"
| "business_event_type (ProjectB (ProjectKilled _ _)) = ''PROJECT_KILLED''"
| "business_event_type (ProjectB (ProjectCompleted _ _)) = ''PROJECT_COMPLETED''"
| "business_event_type (CycleB (CycleStageTimeout _ _)) = ''CYCLE_STAGE_TIMEOUT''"
| "business_event_type (CycleB (CyclePlanFallback _)) = ''CYCLE_PLAN_FALLBACK''"
| "business_event_type (CycleB (CycleReviewed _)) = ''CYCLE_REVIEWED''"
| "business_event_type (CycleB (CycleCompleted _)) = ''CYCLE_COMPLETED''"
| "business_event_type (OpportunityB (OpportunityDiscovered _ _ _ _)) = ''OPPORTUNITY_DISCOVERED''"
| "business_event_type (OpportunityB (OpportunitySignalRecorded _ _ _ _ _)) = ''OPPORTUNITY_SIGNAL_RECORDED''"
| "business_event_type (OpportunityB (OpportunityScored _ _ _ _)) = ''OPPORTUNITY_SCORED''"
| "business_event_type (OpportunityB (OpportunityAdvanced _ _ _ _)) = ''OPPORTUNITY_ADVANCED''"
| "business_event_type (OpportunityB (OpportunityRejected _ _ _)) = ''OPPORTUNITY_REJECTED''"
| "business_event_type (OpportunityB (OpportunityExpired _ _)) = ''OPPORTUNITY_EXPIRED''"
| "business_event_type (OpportunityB (ProposalDrafted _ _ _)) = ''PROPOSAL_DRAFTED''"
| "business_event_type (OpportunityB (ProposalSubmitted _ _ _)) = ''PROPOSAL_SUBMITTED''"
| "business_event_type (OpportunityB (ProposalDecided _ _ _ _)) = ''PROPOSAL_DECIDED''"
| "business_event_type (OpportunityB (ProposalSuperseded _ _ _)) = ''PROPOSAL_SUPERSEDED''"
| "business_event_type (OrganizationB (BusinessUnitCreated _ _ _ _ _)) = ''BUSINESS_UNIT_CREATED''"
| "business_event_type (OrganizationB (BusinessUnitPaused _ _ _ _)) = ''BUSINESS_UNIT_PAUSED''"
| "business_event_type (OrganizationB (BusinessUnitScaled _ _ _ _)) = ''BUSINESS_UNIT_SCALED''"
| "business_event_type (OrganizationB (BusinessUnitWoundDown _ _ _)) = ''BUSINESS_UNIT_WOUND_DOWN''"
| "business_event_type (OrganizationB (DepartmentCreated _ _ _ _)) = ''DEPARTMENT_CREATED''"
| "business_event_type (OrganizationB (ProductCreated _ _ _ _)) = ''PRODUCT_CREATED''"
| "business_event_type (MoneyB (BudgetAllocated _ _ _ _ _)) = ''BUDGET_ALLOCATED''"
| "business_event_type (MoneyB (BudgetWarning _ _ _ _ _ _ _)) = ''BUDGET_WARNING''"
| "business_event_type (MoneyB (ExpenseRecorded _ _ _ _ _)) = ''EXPENSE_RECORDED''"
| "business_event_type (MoneyB (RevenueRecorded _ _ _ _ _)) = ''REVENUE_RECORDED''"
| "business_event_type (MoneyB (CustomerAcquired _ _ _ _)) = ''CUSTOMER_ACQUIRED''"
| "business_event_type (MoneyB (CustomerChurned _ _ _ _ _)) = ''CUSTOMER_CHURNED''"
| "business_event_type (MoneyB (CustomerReturned _ _ _ _)) = ''CUSTOMER_RETURNED''"
| "business_event_type (MoneyB (MembershipGranted _ _ _ _ _ _ _)) = ''MEMBERSHIP_GRANTED''"
| "business_event_type (MoneyB (MembershipExpired _ _ _ _)) = ''MEMBERSHIP_EXPIRED''"
| "business_event_type (MoneyB (PaymentReceived _ _ _ _ _ _ _ _)) = ''PAYMENT_RECEIVED''"
| "business_event_type (MoneyB (KpiSnapshotCreated _ _ _ _)) = ''KPI_SNAPSHOT_CREATED''"

datatype payload =
    AgentP agent_payload
  | ToolP tool_payload
  | WorkflowP workflow_payload
  | TaskP task_payload
  | ApprovalP approval_payload
  | GovernanceP governance_payload
  | CompanyP company_payload
  | BusinessP business_payload

fun event_type :: "payload \<Rightarrow> string" where
  "event_type (AgentP (AgentCreated _ _ _ _ _ _ _ _)) = ''AGENT_CREATED''"
| "event_type (AgentP (AgentPaused _)) = ''AGENT_PAUSED''"
| "event_type (AgentP (AgentResumed _)) = ''AGENT_RESUMED''"
| "event_type (AgentP (AgentRetired _ _ _)) = ''AGENT_RETIRED''"
| "event_type (AgentP (AgentIdle _)) = ''AGENT_IDLE''"
| "event_type (AgentP (AgentRunStarted _ _ _ _)) = ''AGENT_RUN_STARTED''"
| "event_type (AgentP (AgentThinking _ _ _)) = ''AGENT_THINKING''"
| "event_type (AgentP (AgentWorking _ _ _ _ _)) = ''AGENT_WORKING''"
| "event_type (AgentP (AgentWaiting _ _ _ _)) = ''AGENT_WAITING''"
| "event_type (AgentP (AgentReviewing _ _ _ _)) = ''AGENT_REVIEWING''"
| "event_type (AgentP (AgentRunCompleted _ _ _ _ _ _ _)) = ''AGENT_RUN_COMPLETED''"
| "event_type (AgentP (AgentRunFailed _ _ _ _)) = ''AGENT_RUN_FAILED''"
| "event_type (AgentP (AgentRunAborted _ _ _)) = ''AGENT_RUN_ABORTED''"
| "event_type (AgentP (AgentStepProgress _ _ _)) = ''AGENT_STEP_PROGRESS''"
| "event_type (AgentP (AgentHeartbeat _)) = ''AGENT_HEARTBEAT''"
| "event_type (ToolP (ToolCalled _ _ _ _ _)) = ''TOOL_CALLED''"
| "event_type (ToolP (ToolCompleted _ _ _ _ _ _)) = ''TOOL_COMPLETED''"
| "event_type (ToolP (ToolFailed _ _ _ _ _)) = ''TOOL_FAILED''"
| "event_type (ToolP (ToolDenied _ _ _ _ _)) = ''TOOL_DENIED''"
| "event_type (WorkflowP (WorkflowRunCreated _ _ _ _)) = ''WORKFLOW_RUN_CREATED''"
| "event_type (WorkflowP (WorkflowRunExtended _ _ _)) = ''WORKFLOW_RUN_EXTENDED''"
| "event_type (WorkflowP (WorkflowRunCompleted _)) = ''WORKFLOW_RUN_COMPLETED''"
| "event_type (WorkflowP (WorkflowRunFailed _ _ _)) = ''WORKFLOW_RUN_FAILED''"
| "event_type (WorkflowP (WorkflowRunCancelled _ _)) = ''WORKFLOW_RUN_CANCELLED''"
| "event_type (TaskP (TaskCreated _ _ _ _ _ _)) = ''TASK_CREATED''"
| "event_type (TaskP (TaskReady _)) = ''TASK_READY''"
| "event_type (TaskP (TaskStarted _ _ _)) = ''TASK_STARTED''"
| "event_type (TaskP (TaskWaiting _ _)) = ''TASK_WAITING''"
| "event_type (TaskP (TaskSucceeded _ _ _)) = ''TASK_SUCCEEDED''"
| "event_type (TaskP (TaskFailed _ _ _)) = ''TASK_FAILED''"
| "event_type (TaskP (TaskCancelled _)) = ''TASK_CANCELLED''"
| "event_type (TaskP TaskBlocked) = ''TASK_BLOCKED''"
| "event_type (ApprovalP (ApprovalRequested _ _ _ _ _)) = ''APPROVAL_REQUESTED''"
| "event_type (ApprovalP (ApprovalApproved _ _ _ _)) = ''APPROVAL_APPROVED''"
| "event_type (ApprovalP (ApprovalRejected _ _ _ _)) = ''APPROVAL_REJECTED''"
| "event_type (ApprovalP (ApprovalReturned _ _ _ _)) = ''APPROVAL_RETURNED''"
| "event_type (ApprovalP (ApprovalExpired _ _ _)) = ''APPROVAL_EXPIRED''"
| "event_type (ApprovalP (ApprovalDelegated _ _ _ _)) = ''APPROVAL_DELEGATED''"
| "event_type (GovernanceP (PolicyDenied _ _ _)) = ''POLICY_DENIED''"
| "event_type (GovernanceP (BudgetExhausted _ _ _ _ _ _ _)) = ''BUDGET_EXHAUSTED''"
| "event_type (GovernanceP (ScheduleFired _ _)) = ''SCHEDULE_FIRED''"
| "event_type (CompanyP (AgentAssigned _ _ _ _ _ _ _ _)) = ''AGENT_ASSIGNED''"
| "event_type (CompanyP (CycleStarted _ _ _)) = ''CYCLE_STARTED''"
| "event_type (CompanyP (CycleStageChanged _ _ _)) = ''CYCLE_STAGE_CHANGED''"
| "event_type (BusinessP p) = business_event_type p"

text \<open>Two payload classes are registered as ephemeral; every other one is persisted.\<close>

fun payload_persistence :: "payload \<Rightarrow> persistence" where
  "payload_persistence (AgentP (AgentStepProgress _ _ _)) = Ephemeral"
| "payload_persistence (AgentP (AgentHeartbeat _)) = Ephemeral"
| "payload_persistence p = Persisted"

text \<open>The classes with a \<open>links\<close> field, and the field itself (\<open>"links" in model_fields\<close>).\<close>

fun with_links :: "agent_payload \<Rightarrow> link list \<Rightarrow> agent_payload" where
  "with_links (AgentThinking a b _) ls = AgentThinking a b ls"
| "with_links (AgentWorking a b c d _) ls = AgentWorking a b c d ls"
| "with_links (AgentReviewing a b c _) ls = AgentReviewing a b c ls"
| "with_links (AgentRunCompleted a b c d e f _) ls = AgentRunCompleted a b c d e f ls"
| "with_links p ls = p"

fun has_links_field :: "agent_payload \<Rightarrow> bool" where
  "has_links_field (AgentThinking _ _ _) = True"
| "has_links_field (AgentWorking _ _ _ _ _) = True"
| "has_links_field (AgentReviewing _ _ _ _) = True"
| "has_links_field (AgentRunCompleted _ _ _ _ _ _ _) = True"
| "has_links_field _ = False"

section \<open>Envelopes\<close>

record envelope =
  e_event_id :: uuid
  e_seq :: "nat option"
  e_company_id :: uuid
  e_occurred_at :: instant
  e_aggregate_type :: string
  e_aggregate_id :: uuid
  e_agent_id :: "uuid option"
  e_task_id :: "uuid option"
  e_run_id :: "uuid option"
  e_workflow_run_id :: "uuid option"
  e_cycle_id :: "uuid option"
  e_correlation_id :: "uuid option"
  e_causation_id :: "uuid option"
  e_actor :: actor
  e_payload :: payload

text \<open>\<open>EventEnvelope.persistence\<close> and its event type, a property of the payload's class.\<close>

definition e_persistence :: "envelope \<Rightarrow> persistence" where
  "e_persistence e = payload_persistence (e_payload e)"

definition e_event_type :: "envelope \<Rightarrow> string" where
  "e_event_type e = event_type (e_payload e)"

text \<open>\<open>event_type.startswith("TASK_")\<close> holds of the task payloads and of no other.\<close>

definition is_task_event :: "envelope \<Rightarrow> bool" where
  "is_task_event e = (take 5 (e_event_type e) = ''TASK_'')"

lemma business_not_task: "take 5 (business_event_type p) \<noteq> ''TASK_''"
  by (cases p rule: business_event_type.cases) simp_all

lemma is_task_event_iff: "is_task_event e \<longleftrightarrow> (\<exists>p. e_payload e = TaskP p)"
  unfolding is_task_event_def e_event_type_def
  by (cases "e_payload e" rule: event_type.cases) (simp_all add: business_not_task)

text \<open>\<open>event_type.startswith("AGENT_")\<close> likewise (used to choose an event's aggregate).\<close>

definition is_agent_type :: "payload \<Rightarrow> bool" where
  "is_agent_type p = (take 6 (event_type p) = ''AGENT_'')"

lemma is_agent_type_AgentP [simp]: "is_agent_type (AgentP p)"
  unfolding is_agent_type_def by (cases p) simp_all

lemma is_agent_type_TaskP [simp]: "\<not> is_agent_type (TaskP p)"
  unfolding is_agent_type_def by (cases p) simp_all

text \<open>
  The registry in which \<open>@event\<close> enters payload classes: keyed by type and version. A
  second class under one key is refused; registering a class again is harmless.
\<close>

definition valid_event_type :: "string \<Rightarrow> bool" where
  "valid_event_type t =
     (let u = drop_newline t
      in u \<noteq> [] \<and> hd u \<in> set ''ABCDEFGHIJKLMNOPQRSTUVWXYZ'' \<and>
         list_all (\<lambda>w. w \<noteq> [] \<and> set w \<subseteq> set ''ABCDEFGHIJKLMNOPQRSTUVWXYZ0123456789'')
           (split_on (CHR ''_'') u))"

definition register_event ::
    "((string \<times> int) \<times> 'c) list \<Rightarrow> string \<Rightarrow> int \<Rightarrow> 'c \<Rightarrow> err + ((string \<times> int) \<times> 'c) list" where
  "register_event reg t version cls =
     (if \<not> valid_event_type t then Inl (ValueError t)
      else if version < 1 then Inl (ValueError t)
      else case map_of reg (t, version) of
             Some existing \<Rightarrow> if existing \<noteq> cls then Inl (KeyError t) else Inr reg
           | None \<Rightarrow> Inr (dict_set (t, version) cls reg))"

definition payload_class :: "((string \<times> int) \<times> 'c) list \<Rightarrow> string \<Rightarrow> int \<Rightarrow> err + 'c" where
  "payload_class reg t version =
     (case map_of reg (t, version) of Some c \<Rightarrow> Inr c | None \<Rightarrow> Inl (KeyError t))"

lemma register_event_lookup:
  "register_event reg t v c = Inr reg' \<Longrightarrow> payload_class reg' t v = Inr c"
  by (auto simp: register_event_def payload_class_def split: if_splits option.splits)

lemma register_event_other:
  "register_event reg t v c = Inr reg' \<Longrightarrow> (t', v') \<noteq> (t, v) \<Longrightarrow>
   payload_class reg' t' v' = payload_class reg t' v'"
  by (auto simp: register_event_def payload_class_def split: if_splits option.splits)

end
