(* ===== verification/Db.thy ===== *)
theory Db
  imports Events
begin

text \<open>
  The rows of the runtime's tables and the database state the transactions run on. One
  record per model class (\<open>db/models/tasks.py\<close>, \<open>agents.py\<close>, \<open>runtime.py\<close>), its fields
  the columns. Rows are kept in insertion order, which is their \<open>(created_at, id)\<close> order:
  both come from increasing supplies.
\<close>

section \<open>Rows\<close>

record workflow_run =
  w_id :: uuid
  w_company_id :: uuid
  w_project_id :: uuid
  w_cycle_id :: "uuid option"
  w_template_name :: string
  w_params :: dict
  w_state :: workflow_run_state
  w_finished_at :: "instant option"
  w_created_at :: instant

record task =
  t_id :: uuid
  t_company_id :: uuid
  t_project_id :: uuid
  t_workflow_run_id :: "uuid option"
  t_cycle_id :: "uuid option"
  t_name :: string
  t_display_name :: string
  t_required_role :: string
  t_state :: task_state
  t_depends_on :: "uuid list"
  t_input :: dict
  t_output :: "dict option"
  t_output_schema_ref :: "string option"
  t_attempt :: nat
  t_max_attempts :: nat
  t_budget_usd :: "money option"
  t_priority :: int
  t_available_at :: "instant option"
  t_lease_owner :: "string option"
  t_lease_until :: "instant option"
  t_lease_token :: "uuid option"
  t_created_at :: instant

record agent_run =
  r_id :: uuid
  r_company_id :: uuid
  r_task_id :: uuid
  r_agent_id :: uuid
  r_attempt :: nat
  r_state :: agent_run_state
  r_input :: dict
  r_output :: "dict option"
  r_evaluation :: "dict option"
  r_handoff :: "handoff list option"
  r_error :: "(string \<times> string) option"
  r_cost_usd :: money
  r_tokens_in :: nat
  r_tokens_out :: nat
  r_steps_count :: nat
  r_started_at :: "instant option"
  r_finished_at :: "instant option"
  r_created_at :: instant

record agent =
  a_id :: uuid
  a_company_id :: uuid
  a_role :: string
  a_role_id :: "uuid option"
  a_department_id :: "uuid option"
  a_display_name :: string
  a_description :: "string option"
  a_avatar_key :: string
  a_tools :: "string list"
  a_per_run_usd :: "money option"
  a_status :: agent_status
  a_created_at :: instant

text \<open>
  \<open>agent_activity.detail\<close>: the dump of the event's payload, updated with the context
  values that are present. \<open>d_extra_links\<close> is the \<open>links\<close> key for a payload class that
  has no field of that name.
\<close>

record activity_detail =
  d_payload :: agent_payload
  d_run_id :: "uuid option"
  d_task_id :: "uuid option"
  d_workflow_run_id :: "uuid option"
  d_task_name :: "string option"
  d_extra_links :: "link list"

record agent_activity =
  ac_agent_id :: uuid
  ac_company_id :: uuid
  ac_state :: activity_state
  ac_detail :: activity_detail
  ac_run_id :: "uuid option"
  ac_task_id :: "uuid option"
  ac_since :: instant
  ac_last_event_seq :: nat
  ac_updated_at :: instant

record state_transition =
  st_id :: uuid
  st_company_id :: uuid
  st_entity_type :: string
  st_entity_id :: uuid
  st_from_state :: string
  st_to_state :: string
  st_reason :: "string option"
  st_actor :: actor

text \<open>
  An approval's \<open>payload\<close> is a JSON object; the keys the service itself reads and writes,
  \<open>delegated\<close> and \<open>delegated_before\<close>, are kept apart from the rest.
\<close>

record approval =
  ap_id :: uuid
  ap_company_id :: uuid
  ap_kind :: string
  ap_ref_type :: string
  ap_ref_id :: uuid
  ap_task_id :: "uuid option"
  ap_run_id :: "uuid option"
  ap_action :: "string option"
  ap_payload :: dict
  ap_delegated :: "(uuid \<times> instant) option"
  ap_delegated_before :: bool
  ap_summary :: string
  ap_requested_by :: actor
  ap_state :: approval_state
  ap_expires_at :: instant
  ap_decided_by :: "actor option"
  ap_decided_at :: "instant option"
  ap_reason :: "string option"
  ap_created_at :: instant

record policy_decision =
  pd_company_id :: uuid
  pd_actor :: actor
  pd_role :: "string option"
  pd_action :: string
  pd_outcome :: string
  pd_rule_id :: string
  pd_agent_id :: "uuid option"
  pd_run_id :: "uuid option"
  pd_task_id :: "uuid option"

section \<open>Check constraints\<close>

text \<open>\<open>lease_iff_running\<close>, \<open>attempt_within_max\<close>, \<open>max_attempts_positive\<close> of \<open>tasks\<close>.\<close>

definition lease_iff_running :: "task \<Rightarrow> bool" where
  "lease_iff_running t \<longleftrightarrow>
     (t_state t = T_RUNNING) =
     (t_lease_owner t \<noteq> None \<and> t_lease_until t \<noteq> None \<and> t_lease_token t \<noteq> None)"

definition task_checks :: "task \<Rightarrow> bool" where
  "task_checks t \<longleftrightarrow> 1 \<le> t_max_attempts t \<and> t_attempt t \<le> t_max_attempts t \<and> lease_iff_running t"

text \<open>\<open>finished_iff_terminal\<close>, \<open>attempt_positive\<close> of \<open>agent_runs\<close>.\<close>

definition finished_iff_terminal :: "agent_run \<Rightarrow> bool" where
  "finished_iff_terminal r \<longleftrightarrow>
     (r_state r \<in> set AGENT_RUN_TERMINAL) = (r_finished_at r \<noteq> None)"

definition run_checks :: "agent_run \<Rightarrow> bool" where
  "run_checks r \<longleftrightarrow> 1 \<le> r_attempt r \<and> finished_iff_terminal r"

text \<open>\<open>decided_iff_decided\<close>, \<open>run_implies_task\<close> of \<open>approvals\<close>.\<close>

definition decided_iff_decided :: "approval \<Rightarrow> bool" where
  "decided_iff_decided p \<longleftrightarrow>
     (ap_state p \<in> {P_APPROVED, P_REJECTED, P_RETURNED}) =
     (ap_decided_at p \<noteq> None \<and> ap_decided_by p \<noteq> None)"

definition approval_checks :: "approval \<Rightarrow> bool" where
  "approval_checks p \<longleftrightarrow>
     decided_iff_decided p \<and> (ap_run_id p = None \<or> ap_task_id p \<noteq> None)"

section \<open>The database\<close>

text \<open>
  \<open>clock\<close> is the time the transaction reads; \<open>next_id\<close> supplies identifiers; \<open>next_seq\<close>
  is the identity column of \<open>events\<close>. \<open>cancelling\<close> is the workflow engine's dictionary of
  runs being cancelled as a whole, with the operator's reason.
\<close>

record db =
  clock :: instant
  next_id :: uuid
  next_seq :: nat
  tasks :: "task list"
  runs :: "agent_run list"
  workflows :: "workflow_run list"
  agents :: "agent list"
  activities :: "agent_activity list"
  approvals :: "approval list"
  audit :: "state_transition list"
  events :: "envelope list"
  decisions :: "policy_decision list"
  cancelling :: "(uuid \<times> string) list"

type_synonym 'a db_tx = "(db, err, 'a) tx"

definition uuid7 :: "uuid db_tx" where
  "uuid7 = (\<lambda>s. Inr (next_id s, s\<lparr>next_id := Suc (next_id s)\<rparr>))"

definition task_of :: "db \<Rightarrow> uuid \<Rightarrow> task option" where
  "task_of s i = find_row t_id i (tasks s)"

definition run_of :: "db \<Rightarrow> uuid \<Rightarrow> agent_run option" where
  "run_of s i = find_row r_id i (runs s)"

definition workflow_of :: "db \<Rightarrow> uuid \<Rightarrow> workflow_run option" where
  "workflow_of s i = find_row w_id i (workflows s)"

definition agent_of :: "db \<Rightarrow> uuid \<Rightarrow> agent option" where
  "agent_of s i = find_row a_id i (agents s)"

definition activity_of :: "db \<Rightarrow> uuid \<Rightarrow> agent_activity option" where
  "activity_of s i = find_row ac_agent_id i (activities s)"

definition approval_of :: "db \<Rightarrow> uuid \<Rightarrow> approval option" where
  "approval_of s i = find_row ap_id i (approvals s)"

text \<open>A required row: the code goes on to use an attribute of the row it fetched.\<close>

definition get_task :: "uuid \<Rightarrow> task db_tx" where
  "get_task i = bindT (getsT (\<lambda>s. task_of s i)) (\<lambda>t. someT t AttributeError)"

definition get_run :: "uuid \<Rightarrow> agent_run db_tx" where
  "get_run i = bindT (getsT (\<lambda>s. run_of s i)) (\<lambda>r. someT r AttributeError)"

definition get_workflow :: "uuid \<Rightarrow> workflow_run db_tx" where
  "get_workflow i = bindT (getsT (\<lambda>s. workflow_of s i)) (\<lambda>r. someT r AttributeError)"

definition get_agent :: "uuid \<Rightarrow> agent db_tx" where
  "get_agent i = bindT (getsT (\<lambda>s. agent_of s i)) (\<lambda>r. someT r AttributeError)"

definition upd_task :: "uuid \<Rightarrow> (task \<Rightarrow> task) \<Rightarrow> unit db_tx" where
  "upd_task i f = modifyT (\<lambda>s. s\<lparr>tasks := update_row t_id i f (tasks s)\<rparr>)"

definition upd_run :: "uuid \<Rightarrow> (agent_run \<Rightarrow> agent_run) \<Rightarrow> unit db_tx" where
  "upd_run i f = modifyT (\<lambda>s. s\<lparr>runs := update_row r_id i f (runs s)\<rparr>)"

definition upd_workflow :: "uuid \<Rightarrow> (workflow_run \<Rightarrow> workflow_run) \<Rightarrow> unit db_tx" where
  "upd_workflow i f = modifyT (\<lambda>s. s\<lparr>workflows := update_row w_id i f (workflows s)\<rparr>)"

definition upd_approval :: "uuid \<Rightarrow> (approval \<Rightarrow> approval) \<Rightarrow> unit db_tx" where
  "upd_approval i f = modifyT (\<lambda>s. s\<lparr>approvals := update_row ap_id i f (approvals s)\<rparr>)"

end
