(* ===== verification/Fsm.thy ===== *)
theory Fsm
  imports Db
begin

text \<open>
  The generic state machine of \<open>runtime/fsm.py\<close> and the lifecycles that
  \<open>runtime/lifecycles.py\<close> declares with it: the check of a move, the breadth-first
  \<open>shortest_path\<close>, and the transition that updates an entity and appends its audit row.
\<close>

section \<open>State machines\<close>

record ('s, 'x) state_machine =
  entity_type :: string
  states :: "'s list"
  fsm_transitions :: "('s \<times> 's list) list"
  initial :: 's
  state_value :: "'s \<Rightarrow> string"
  guards :: "(('s \<times> 's) \<times> ('x \<Rightarrow> string option)) list"

definition targets :: "('s, 'x) state_machine \<Rightarrow> 's \<Rightarrow> 's list" where
  "targets m s = (case map_of (fsm_transitions m) s of None \<Rightarrow> [] | Some ts \<Rightarrow> ts)"

text \<open>\<open>StateMachine.__post_init__\<close>: what a declaration must satisfy.\<close>

fun check_sources :: "('s, 'x) state_machine \<Rightarrow> ('s \<times> 's list) list \<Rightarrow> err + unit" where
  "check_sources m [] = Inr ()"
| "check_sources m ((source, ts) # rest) =
     (if \<not> (set (source # ts) \<subseteq> set (states m)) then Inl (ValueError ''unknown states in transitions'')
      else if source \<in> set ts then Inl (ValueError ''self-transition is not allowed'')
      else check_sources m rest)"

fun check_guards :: "('s, 'x) state_machine \<Rightarrow> ('s \<times> 's) list \<Rightarrow> err + unit" where
  "check_guards m [] = Inr ()"
| "check_guards m ((source, target) # rest) =
     (if target \<notin> set (targets m source) then Inl (ValueError ''guard on undeclared transition'')
      else check_guards m rest)"

definition post_init :: "('s, 'x) state_machine \<Rightarrow> err + unit" where
  "post_init m =
     (if initial m \<notin> set (states m) then Inl (ValueError ''initial state not in states'')
      else case check_sources m (fsm_transitions m) of
             Inl e \<Rightarrow> Inl e
           | Inr _ \<Rightarrow> check_guards m (map fst (guards m)))"

definition allowed_from :: "('s, 'x) state_machine \<Rightarrow> 's \<Rightarrow> 's list" where
  "allowed_from m s = targets m s"

definition can :: "('s, 'x) state_machine \<Rightarrow> 's \<Rightarrow> 's \<Rightarrow> bool" where
  "can m from_state to_state = (to_state \<in> set (allowed_from m from_state))"

definition is_terminal :: "('s, 'x) state_machine \<Rightarrow> 's \<Rightarrow> bool" where
  "is_terminal m s = (allowed_from m s = [])"

definition terminal_states :: "('s, 'x) state_machine \<Rightarrow> 's list" where
  "terminal_states m = filter (is_terminal m) (states m)"

definition illegal :: "('s, 'x) state_machine \<Rightarrow> 's \<Rightarrow> 's \<Rightarrow> err" where
  "illegal m s t =
     IllegalTransition (entity_type m) (state_value m s) (state_value m t)
       (sort (map (state_value m) (allowed_from m s)))"

section \<open>Shortest paths\<close>

text \<open>
  The breadth-first search. \<open>previous\<close> maps each state met to the state it was first met
  from; the newest entry comes first. The loop over a state's successors stops when the
  goal is met.
\<close>

fun bfs_visit ::
    "'s \<Rightarrow> 's \<Rightarrow> 's \<Rightarrow> 's list \<Rightarrow> ('s \<times> 's) list \<Rightarrow> 's list \<Rightarrow> ('s \<times> 's) list + (('s \<times> 's) list \<times> 's list)" where
  "bfs_visit start goal current [] previous frontier = Inr (previous, frontier)"
| "bfs_visit start goal current (nxt # rest) previous frontier =
     (if nxt \<in> fst ` set previous \<or> nxt = start
      then bfs_visit start goal current rest previous frontier
      else if nxt = goal then Inl ((nxt, current) # previous)
      else bfs_visit start goal current rest ((nxt, current) # previous) (frontier @ [nxt]))"

definition successors :: "('s, 'x) state_machine \<Rightarrow> 's \<Rightarrow> 's list" where
  "successors m s = sort_key (state_value m) (allowed_from m s)"

text \<open>
  Walking \<open>previous\<close> back from the goal: \<open>path = [goal]; while path[-1] != start: ...\<close>.
  The fuel is the number of entries, which bounds the walk.
\<close>

fun walk_back :: "nat \<Rightarrow> ('s \<times> 's) list \<Rightarrow> 's \<Rightarrow> 's list \<Rightarrow> err + 's list" where
  "walk_back fuel previous start [] = Inl (KeyError ''empty'')"
| "walk_back fuel previous start (s # path) =
     (if s = start then Inr (s # path)
      else case fuel of
             0 \<Rightarrow> Inl OutOfFuel
           | Suc n \<Rightarrow> (case map_of previous s of
                        None \<Rightarrow> Inl (KeyError ''previous'')
                      | Some p \<Rightarrow> walk_back n previous start (p # s # path)))"

function bfs_loop ::
    "('s, 'x) state_machine \<Rightarrow> 's \<Rightarrow> 's \<Rightarrow> ('s \<times> 's) list \<Rightarrow> 's list \<Rightarrow> err + 's list" where
  "bfs_loop m start goal previous [] = Inl (illegal m start goal)"
| "bfs_loop m start goal previous (current # frontier) =
     (case bfs_visit start goal current (successors m current) previous frontier of
        Inl previous' \<Rightarrow>
          (case walk_back (length previous') previous' start [goal] of
             Inl e \<Rightarrow> Inl e
           | Inr path \<Rightarrow> Inr (tl path))
      | Inr (previous', frontier') \<Rightarrow> bfs_loop m start goal previous' frontier')"
  by pat_completeness auto

definition all_targets :: "('s, 'x) state_machine \<Rightarrow> 's set" where
  "all_targets m = (\<Union>st \<in> set (fsm_transitions m). set (snd st))"

lemma finite_all_targets [simp]: "finite (all_targets m)"
  by (simp add: all_targets_def)

lemma set_successors [simp]: "set (successors m s) = set (targets m s)"
  by (simp add: successors_def allowed_from_def)

lemma targets_in_all: "set (targets m s) \<subseteq> all_targets m"
  unfolding targets_def all_targets_def
  by (cases "map_of (fsm_transitions m) s") (force dest: map_of_SomeD)+

text \<open>Each round of the search either removes a frontier state or records a new one.\<close>

definition unmet :: "('s, 'x) state_machine \<Rightarrow> ('s \<times> 's) list \<Rightarrow> nat" where
  "unmet m previous = card (all_targets m - fst ` set previous)"

lemma bfs_visit_measure:
  "bfs_visit start goal current ss previous frontier = Inr (previous', frontier') \<Longrightarrow>
   set ss \<subseteq> all_targets m \<Longrightarrow>
   2 * unmet m previous' + length frontier' \<le> 2 * unmet m previous + length frontier"
proof (induction start goal current ss previous frontier rule: bfs_visit.induct)
  case (1 start goal current previous frontier)
  then show ?case by simp
next
  case (2 start goal current nxt rest previous frontier)
  show ?case
  proof (cases "nxt \<in> fst ` set previous \<or> nxt = start")
    case True
    with 2 show ?thesis by simp
  next
    case False
    with "2.prems" have ng: "nxt \<noteq> goal" by (auto split: if_splits)
    have "2 * unmet m previous' + length frontier'
        \<le> 2 * unmet m ((nxt, current) # previous) + length (frontier @ [nxt])"
      using False ng "2.prems" by (intro "2.IH"(2)) auto
    moreover have "Suc (unmet m ((nxt, current) # previous)) = unmet m previous"
    proof -
      have "nxt \<in> all_targets m - fst ` set previous"
        using False "2.prems"(2) by auto
      then have "card (all_targets m - fst ` set previous) =
          Suc (card (all_targets m - fst ` set previous - {nxt}))"
        by (intro card.remove) simp_all
      moreover have "all_targets m - fst ` set ((nxt, current) # previous)
          = all_targets m - fst ` set previous - {nxt}" by auto
      ultimately show ?thesis by (simp add: unmet_def)
    qed
    ultimately show ?thesis by simp
  qed
qed

termination bfs_loop
proof (relation "measure (\<lambda>(m, start, goal, previous, frontier). 2 * unmet m previous + length frontier)",
    goal_cases)
  case 1
  show ?case by simp
next
  case (2 m start goal previous current frontier x y z)
  then show ?case
    using bfs_visit_measure [of start goal current "successors m current" previous frontier y z m]
      targets_in_all [of m current] by auto
qed

definition shortest_path :: "('s, 'x) state_machine \<Rightarrow> 's \<Rightarrow> 's \<Rightarrow> err + 's list" where
  "shortest_path m start goal = (if start = goal then Inr [] else bfs_loop m start goal [] [start])"

section \<open>Checking and moving\<close>

definition check :: "('s, 'x) state_machine \<Rightarrow> 's \<Rightarrow> 'x \<Rightarrow> 's \<Rightarrow> err + ('s \<times> 's)" where
  "check m current entity target =
     (if target \<notin> set (allowed_from m current) then Inl (illegal m current target)
      else case map_of (guards m) (current, target) of
             None \<Rightarrow> Inr (current, target)
           | Some guard \<Rightarrow>
               (case guard entity of
                  None \<Rightarrow> Inr (current, target)
                | Some reason \<Rightarrow>
                    Inl (GuardRejected (entity_type m) (state_value m current)
                           (state_value m target) reason)))"

text \<open>
  A stateful entity: how its row is read, what state, company and identity the row has, and
  how its state is written (the protocol \<open>StatefulEntity\<close> and \<open>state_attr\<close>).
\<close>

record ('s, 'x) stateful =
  ent_get :: "'x db_tx"
  ent_state :: "'x \<Rightarrow> 's"
  ent_company_id :: "'x \<Rightarrow> uuid"
  ent_id :: "'x \<Rightarrow> uuid"
  ent_set_state :: "'s \<Rightarrow> unit db_tx"

definition add_transition ::
    "string \<Rightarrow> uuid \<Rightarrow> uuid \<Rightarrow> string \<Rightarrow> string \<Rightarrow> actor \<Rightarrow> string option \<Rightarrow> state_transition db_tx" where
  "add_transition entity company_id i from_state to_state actor reason =
     bindT uuid7 (\<lambda>row_id.
     let row = \<lparr>st_id = row_id, st_company_id = company_id, st_entity_type = entity,
                st_entity_id = i, st_from_state = from_state, st_to_state = to_state,
                st_reason = reason, st_actor = actor\<rparr>
     in bindT (modifyT (\<lambda>s. s\<lparr>audit := audit s @ [row]\<rparr>)) (\<lambda>_. returnT row))"

text \<open>\<open>StateMachine.transition\<close>: check, set the state, append the audit row.\<close>

definition transition ::
    "('s, 'x) state_machine \<Rightarrow> ('s, 'x) stateful \<Rightarrow> 's \<Rightarrow> actor \<Rightarrow> string option \<Rightarrow>
     state_transition db_tx" where
  "transition m ent to_state actor reason =
     bindT (ent_get ent) (\<lambda>x.
     bindT (liftT (check m (ent_state ent x) x to_state)) (\<lambda>(current, target).
     bindT (ent_set_state ent target) (\<lambda>_.
     add_transition (entity_type m) (ent_company_id ent x) (ent_id ent x)
       (state_value m current) (state_value m target) actor reason)))"

text \<open>\<open>StateMachine.transition_via\<close>: every hop of the shortest path, each audited.\<close>

definition transition_via ::
    "('s, 'x) state_machine \<Rightarrow> ('s, 'x) stateful \<Rightarrow> 's \<Rightarrow> actor \<Rightarrow> string option \<Rightarrow>
     state_transition list db_tx" where
  "transition_via m ent to_state actor reason =
     bindT (ent_get ent) (\<lambda>x.
     bindT (liftT (shortest_path m (ent_state ent x) to_state)) (\<lambda>path.
     mapT path (\<lambda>hop. transition m ent hop actor reason)))"

section \<open>The lifecycles\<close>

definition TASK_FSM :: "(task_state, task) state_machine" where
  "TASK_FSM = \<lparr>
     entity_type = ''task'',
     states = [T_PENDING, T_READY, T_RUNNING, T_WAITING_APPROVAL, T_BLOCKED_BUDGET,
       T_SUCCEEDED, T_FAILED, T_CANCELLED],
     fsm_transitions = [
       (T_PENDING, [T_READY, T_CANCELLED]),
       (T_READY, [T_RUNNING, T_WAITING_APPROVAL, T_BLOCKED_BUDGET, T_CANCELLED, T_SUCCEEDED, T_FAILED]),
       (T_RUNNING, [T_SUCCEEDED, T_FAILED, T_READY, T_WAITING_APPROVAL, T_BLOCKED_BUDGET, T_CANCELLED]),
       (T_WAITING_APPROVAL, [T_READY, T_SUCCEEDED, T_CANCELLED]),
       (T_BLOCKED_BUDGET, [T_READY, T_FAILED, T_CANCELLED])],
     initial = T_PENDING, state_value = task_state_value, guards = []\<rparr>"

definition AGENT_RUN_FSM :: "(agent_run_state, agent_run) state_machine" where
  "AGENT_RUN_FSM = \<lparr>
     entity_type = ''agent_run'',
     states = [R_CREATED, R_RUNNING, R_WAITING_APPROVAL, R_EVALUATING, R_REPAIRING, R_COMPLETED,
       R_FAILED, R_ABORTED],
     fsm_transitions = [
       (R_CREATED, [R_RUNNING, R_ABORTED]),
       (R_RUNNING, [R_EVALUATING, R_WAITING_APPROVAL, R_FAILED, R_ABORTED]),
       (R_WAITING_APPROVAL, [R_RUNNING, R_ABORTED]),
       (R_EVALUATING, [R_COMPLETED, R_REPAIRING, R_FAILED, R_ABORTED]),
       (R_REPAIRING, [R_RUNNING, R_FAILED, R_ABORTED])],
     initial = R_CREATED, state_value = agent_run_state_value, guards = []\<rparr>"

definition WORKFLOW_RUN_FSM :: "(workflow_run_state, workflow_run) state_machine" where
  "WORKFLOW_RUN_FSM = \<lparr>
     entity_type = ''workflow_run'',
     states = [W_RUNNING, W_SUCCEEDED, W_FAILED, W_CANCELLED],
     fsm_transitions = [(W_RUNNING, [W_SUCCEEDED, W_FAILED, W_CANCELLED])],
     initial = W_RUNNING, state_value = workflow_run_state_value, guards = []\<rparr>"

definition APPROVAL_FSM :: "(approval_state, approval) state_machine" where
  "APPROVAL_FSM = \<lparr>
     entity_type = ''approval'',
     states = [P_PENDING, P_APPROVED, P_REJECTED, P_RETURNED, P_EXPIRED],
     fsm_transitions = [(P_PENDING, [P_APPROVED, P_REJECTED, P_RETURNED, P_EXPIRED])],
     initial = P_PENDING, state_value = approval_state_value, guards = []\<rparr>"

section \<open>The entities\<close>

definition task_entity :: "uuid \<Rightarrow> (task_state, task) stateful" where
  "task_entity i = \<lparr>ent_get = get_task i, ent_state = t_state, ent_company_id = t_company_id,
     ent_id = t_id, ent_set_state = (\<lambda>st. upd_task i (\<lambda>t. t\<lparr>t_state := st\<rparr>))\<rparr>"

definition run_entity :: "uuid \<Rightarrow> (agent_run_state, agent_run) stateful" where
  "run_entity i = \<lparr>ent_get = get_run i, ent_state = r_state, ent_company_id = r_company_id,
     ent_id = r_id, ent_set_state = (\<lambda>st. upd_run i (\<lambda>r. r\<lparr>r_state := st\<rparr>))\<rparr>"

definition workflow_entity :: "uuid \<Rightarrow> (workflow_run_state, workflow_run) stateful" where
  "workflow_entity i = \<lparr>ent_get = get_workflow i, ent_state = w_state,
     ent_company_id = w_company_id, ent_id = w_id,
     ent_set_state = (\<lambda>st. upd_workflow i (\<lambda>w. w\<lparr>w_state := st\<rparr>))\<rparr>"

definition get_approval :: "uuid \<Rightarrow> approval db_tx" where
  "get_approval i = bindT (getsT (\<lambda>s. approval_of s i)) (\<lambda>r. someT r AttributeError)"

definition approval_entity :: "uuid \<Rightarrow> (approval_state, approval) stateful" where
  "approval_entity i = \<lparr>ent_get = get_approval i, ent_state = ap_state,
     ent_company_id = ap_company_id, ent_id = ap_id,
     ent_set_state = (\<lambda>st. upd_approval i (\<lambda>p. p\<lparr>ap_state := st\<rparr>))\<rparr>"

definition task_transition :: "uuid \<Rightarrow> task_state \<Rightarrow> actor \<Rightarrow> string option \<Rightarrow> state_transition db_tx" where
  "task_transition i st actor reason = transition TASK_FSM (task_entity i) st actor reason"

definition run_transition :: "uuid \<Rightarrow> agent_run_state \<Rightarrow> actor \<Rightarrow> string option \<Rightarrow> state_transition db_tx" where
  "run_transition i st actor reason = transition AGENT_RUN_FSM (run_entity i) st actor reason"

definition workflow_transition ::
    "uuid \<Rightarrow> workflow_run_state \<Rightarrow> actor \<Rightarrow> string option \<Rightarrow> state_transition db_tx" where
  "workflow_transition i st actor reason = transition WORKFLOW_RUN_FSM (workflow_entity i) st actor reason"

definition approval_transition ::
    "uuid \<Rightarrow> approval_state \<Rightarrow> actor \<Rightarrow> string option \<Rightarrow> state_transition db_tx" where
  "approval_transition i st actor reason = transition APPROVAL_FSM (approval_entity i) st actor reason"

end
