(* ===== verification/Calendar.thy ===== *)
theory Calendar
  imports Models
begin

text \<open>
  Python's proleptic Gregorian calendar (\<open>datetime\<close>): day numbers, with 0 for 1970-01-01, to dates
  and back, and the parts of a UTC instant.
\<close>

section \<open>Dates\<close>

definition leap_year :: "int \<Rightarrow> bool" where
  "leap_year y \<longleftrightarrow> y mod 4 = 0 \<and> (y mod 100 \<noteq> 0 \<or> y mod 400 = 0)"

definition days_in_month :: "int \<Rightarrow> int \<Rightarrow> int" where
  "days_in_month y m =
     (if m = 2 then (if leap_year y then 29 else 28) else if m \<in> {4, 6, 9, 11} then 30 else 31)"

definition days_before_year :: "int \<Rightarrow> int" where
  "days_before_year y = (let k = y - 1 in 365 * k + k div 4 - k div 100 + k div 400)"

definition days_before_month :: "int \<Rightarrow> int \<Rightarrow> int" where
  "days_before_month y m =
     (if m \<le> 1 then 0
      else if m = 2 then 31
      else (if m = 3 then 59 else if m = 4 then 90 else if m = 5 then 120 else if m = 6 then 151
            else if m = 7 then 181 else if m = 8 then 212 else if m = 9 then 243 else if m = 10 then 273
            else if m = 11 then 304 else 334) + (if leap_year y then 1 else 0))"

definition EPOCH :: int where
  "EPOCH = 719162"

definition day_number :: "int \<Rightarrow> int \<Rightarrow> int \<Rightarrow> int" where
  "day_number y m d = days_before_year y + days_before_month y m + (d - 1) - EPOCH"

text \<open>The year is estimated from the mean length of a year, which is off by at most one.\<close>

definition year_of :: "int \<Rightarrow> int" where
  "year_of n =
     (let y = 400 * n div 146097 + 1
      in if n < days_before_year y then y - 1 else if days_before_year (y + 1) \<le> n then y + 1 else y)"

fun month_from :: "int \<Rightarrow> int \<Rightarrow> int list \<Rightarrow> int" where
  "month_from y doy [] = 1"
| "month_from y doy (m # ms) = (if days_before_month y m \<le> doy then m else month_from y doy ms)"

definition civil :: "int \<Rightarrow> int \<times> int \<times> int" where
  "civil days =
     (let n = days + EPOCH; y = year_of n; doy = n - days_before_year y;
          m = month_from y doy [12, 11, 10, 9, 8, 7, 6, 5, 4, 3, 2]
      in (y, m, doy - days_before_month y m + 1))"

lemma div_step:
  assumes c: "0 < (c :: int)"
  shows "(k + 1) div c = k div c + (if (k + 1) mod c = 0 then 1 else 0)"
proof (cases "k mod c = c - 1")
  case True
  then have "k + 1 = c * (k div c) + c" using mult_div_mod_eq [of c k] by linarith
  then have eq: "k + 1 = c * (k div c + 1) + 0" by (simp only: distrib_left mult_1_right add_0_right)
  show ?thesis using int_div_pos_eq [OF eq] int_mod_pos_eq [OF eq] c by simp
next
  case False
  then have small: "0 \<le> k mod c + 1" "k mod c + 1 < c"
    using c pos_mod_bound [of c k] pos_mod_sign [of c k] by linarith+
  have eq: "k + 1 = c * (k div c) + (k mod c + 1)" using mult_div_mod_eq [of c k] by linarith
  show ?thesis
    using int_div_pos_eq [OF eq small] int_mod_pos_eq [OF eq small] pos_mod_sign [OF c, of k] by simp
qed

lemma days_before_next_year: "days_before_year (y + 1) = days_before_year y + (if leap_year y then 366 else 365)"
proof -
  have "y mod 400 mod 100 = y mod 100" "y mod 100 mod 4 = y mod 4" by (simp_all add: mod_mod_cancel)
  then have nested: "y mod 400 = 0 \<Longrightarrow> y mod 100 = 0" "y mod 100 = 0 \<Longrightarrow> y mod 4 = 0" by force+
  have steps: "y div c = (y - 1) div c + (if y mod c = 0 then 1 else 0)" if "0 < c" for c
    using div_step [OF that, of "y - 1"] by simp
  show ?thesis
    unfolding days_before_year_def Let_def leap_year_def add_diff_cancel_right' steps [of 4, simplified]
      steps [of 100, simplified] steps [of 400, simplified]
    using nested by (cases "y mod 400 = 0"; cases "y mod 100 = 0"; cases "y mod 4 = 0") simp_all
qed

lemma days_before_year_bounds:
  "146097 * y \<le> 400 * days_before_year y + 146796" "400 * days_before_year y + 145701 \<le> 146097 * y"
proof -
  define k a b c where "k = y - 1" and "a = k div 4" and "b = k div 100" and "c = k div 400"
  have "k = 4 * a + k mod 4" "k = 100 * b + k mod 100" "k = 400 * c + k mod 400"
    by (simp_all add: a_def b_def c_def)
  moreover have "0 \<le> k mod 4" "k mod 4 \<le> 3" "0 \<le> k mod 100" "k mod 100 \<le> 99" "0 \<le> k mod 400" "k mod 400 \<le> 399"
    by simp_all
  moreover have "days_before_year y = 365 * k + a - b + c" "y = k + 1"
    by (simp_all add: days_before_year_def Let_def k_def a_def b_def c_def)
  ultimately show "146097 * y \<le> 400 * days_before_year y + 146796"
    "400 * days_before_year y + 145701 \<le> 146097 * y" by linarith+
qed

lemma year_of_bounds: "days_before_year (year_of n) \<le> n" "n < days_before_year (year_of n + 1)"
proof -
  define e where "e = 400 * n div 146097"
  have e: "146097 * e \<le> 400 * n" "400 * n < 146097 * e + 146097"
    using mult_div_mod_eq [of 146097 "400 * n"] pos_mod_bound [of 146097 "400 * n"] pos_mod_sign [of 146097 "400 * n"]
    unfolding e_def by linarith+
  have low: "days_before_year e \<le> n" using e(1) days_before_year_bounds(2) [of e] by linarith
  have high: "n < days_before_year (e + 3)"
    using e(2) days_before_year_bounds(1) [of "e + 3"] unfolding distrib_left by linarith
  have y: "year_of n = (if n < days_before_year (e + 1) then e
      else if days_before_year (e + 2) \<le> n then e + 2 else e + 1)"
    by (simp add: year_of_def Let_def e_def [symmetric] add.commute)
  show "days_before_year (year_of n) \<le> n" "n < days_before_year (year_of n + 1)"
    using low high by (auto simp: y add.commute)
qed

lemma month_from_bounds:
  assumes "0 \<le> doy" "doy < (if leap_year y then 366 else 365)"
    and m: "m = month_from y doy [12, 11, 10, 9, 8, 7, 6, 5, 4, 3, 2]"
  shows "1 \<le> m \<and> m \<le> 12 \<and> days_before_month y m \<le> doy \<and> doy < days_before_month y m + days_in_month y m"
  using assms by (auto simp: days_before_month_def days_in_month_def split: if_splits)

lemma civil_valid:
  assumes "civil n = (y, m, d)"
  shows "1 \<le> m" "m \<le> 12" "1 \<le> d" "d \<le> days_in_month y m" "day_number y m d = n"
proof -
  let ?n = "n + EPOCH"
  have y: "y = year_of ?n" and m: "m = month_from y (?n - days_before_year y) [12, 11, 10, 9, 8, 7, 6, 5, 4, 3, 2]"
    and d: "d = ?n - days_before_year y - days_before_month y m + 1"
    using assms unfolding civil_def Let_def by blast+
  have doy: "0 \<le> ?n - days_before_year y" "?n - days_before_year y < (if leap_year y then 366 else 365)"
    using year_of_bounds [of ?n] days_before_next_year [of y] unfolding y by linarith+
  note found = month_from_bounds [OF doy m]
  show "1 \<le> m" "m \<le> 12" using found by blast+
  show "1 \<le> d" "d \<le> days_in_month y m" using found unfolding d by linarith+
  show "day_number y m d = n" unfolding d day_number_def by simp
qed

text \<open>The calendar goes forward: a later year or month begins after every day of an earlier one.\<close>

lemma year_length: "days_before_year (y + 1) = days_before_year y + days_before_month y 12 + 31"
  by (simp add: days_before_next_year days_before_month_def)

lemma next_month: "1 \<le> m \<Longrightarrow> m < 12 \<Longrightarrow> days_before_month y (m + 1) = days_before_month y m + days_in_month y m"
proof -
  assume "1 \<le> m" "m < 12"
  then have "m = 1 \<or> m = 2 \<or> m = 3 \<or> m = 4 \<or> m = 5 \<or> m = 6 \<or> m = 7 \<or> m = 8 \<or> m = 9 \<or> m = 10 \<or> m = 11" by arith
  then show "days_before_month y (m + 1) = days_before_month y m + days_in_month y m"
    by (elim disjE) (simp_all add: days_before_month_def days_in_month_def)
qed

lemma days_in_month_bounds: "28 \<le> days_in_month y m" "days_in_month y m \<le> 31"
  by (auto simp: days_in_month_def)

section \<open>Instants\<close>

definition DAY :: duration where
  "DAY = 86400000000"

text \<open>\<open>datetime.replace(hour=0, ...)\<close> of a UTC instant, and the first of its month.\<close>

definition day_start :: "instant \<Rightarrow> instant" where
  "day_start ts = ts - ts mod 86400000000"

definition month_start :: "instant \<Rightarrow> instant" where
  "month_start ts =
     (let days = ts div 86400000000; (y, m, d) = civil days in (days - (d - 1)) * 86400000000)"

end
