(* ===== verification/Pystr.thy ===== *)
theory Pystr
  imports Calendar
begin

text \<open>
  The string operations of Python's standard library that the runtime uses: \<open>str\<close> of
  numbers and JSON values, \<open>str.lower\<close>, \<open>str.strip\<close>, \<open>str.format\<close> with named fields,
  and \<open>datetime.isoformat\<close> of a UTC instant.
\<close>

section \<open>Numbers\<close>

definition digit :: "nat \<Rightarrow> char" where
  "digit n = char_of (48 + n)"

fun nat_str :: "nat \<Rightarrow> string" where
  "nat_str n = (if n < 10 then [digit n] else nat_str (n div 10) @ [digit (n mod 10)])"

declare nat_str.simps [simp del]

definition int_str :: "int \<Rightarrow> string" where
  "int_str i = (if i < 0 then CHR ''-'' # nat_str (nat (- i)) else nat_str (nat i))"

definition pad :: "nat \<Rightarrow> nat \<Rightarrow> string" where
  "pad width n = (let t = nat_str n in replicate (width - length t) (CHR ''0'') @ t)"

definition hex_digit :: "nat \<Rightarrow> char" where
  "hex_digit n = (if n < 10 then digit n else char_of (87 + n))"

text \<open>\<open>str(uuid)\<close>: 32 hexadecimal digits in groups of 8, 4, 4, 4 and 12.\<close>

fun hex_fixed :: "nat \<Rightarrow> nat \<Rightarrow> string" where
  "hex_fixed 0 n = []"
| "hex_fixed (Suc k) n = hex_fixed k (n div 16) @ [hex_digit (n mod 16)]"

definition uuid_str :: "uuid \<Rightarrow> string" where
  "uuid_str u =
     (let h = hex_fixed 32 u
      in take 8 h @ ''-'' @ take 4 (drop 8 h) @ ''-'' @ take 4 (drop 12 h) @ ''-'' @
         take 4 (drop 16 h) @ ''-'' @ drop 20 h)"

section \<open>Case and white space\<close>

definition lower_char :: "char \<Rightarrow> char" where
  "lower_char c = (let n = (of_char c :: nat) in if 65 \<le> n \<and> n \<le> 90 then char_of (n + 32) else c)"

definition lower :: "string \<Rightarrow> string" where
  "lower = map lower_char"

definition is_space :: "char \<Rightarrow> bool" where
  "is_space c = (let n = (of_char c :: nat) in n = 32 \<or> (9 \<le> n \<and> n \<le> 13) \<or> (28 \<le> n \<and> n \<le> 31))"

definition strip :: "string \<Rightarrow> string" where
  "strip t = rev (dropWhile is_space (rev (dropWhile is_space t)))"

section \<open>Text of JSON values\<close>

definition repr_char :: "char \<Rightarrow> char \<Rightarrow> string" where
  "repr_char q c =
     (let n = (of_char c :: nat) in
      if c = q \<or> n = 92 then [char_of (92 :: nat), c]
      else if n = 10 then [char_of (92 :: nat), CHR ''n'']
      else if n = 13 then [char_of (92 :: nat), CHR ''r'']
      else if n = 9 then [char_of (92 :: nat), CHR ''t'']
      else if n < 32 \<or> n = 127
      then [char_of (92 :: nat), CHR ''x'', hex_digit (n div 16), hex_digit (n mod 16)]
      else [c])"

definition repr_str :: "string \<Rightarrow> string" where
  "repr_str t =
     (let dq = char_of (34 :: nat); sq = char_of (39 :: nat);
          q = (if sq \<in> set t \<and> dq \<notin> set t then dq else sq)
      in [q] @ concat (map (repr_char q) t) @ [q])"

fun join :: "string \<Rightarrow> string list \<Rightarrow> string" where
  "join sep [] = []"
| "join sep [t] = t"
| "join sep (t # ts) = t @ sep @ join sep ts"

fun json_repr :: "json \<Rightarrow> string" where
  "json_repr JNull = ''None''"
| "json_repr (JBool b) = (if b then ''True'' else ''False'')"
| "json_repr (JInt n) = int_str n"
| "json_repr (JFloat r) = r"
| "json_repr (JStr t) = repr_str t"
| "json_repr (JArr xs) = ''['' @ join '', '' (map json_repr xs) @ '']''"
| "json_repr (JObj d) = ''{'' @ join '', '' (map (\<lambda>kv. repr_str (fst kv) @ '': '' @ json_repr (snd kv)) d) @ ''}''"

fun json_str :: "json \<Rightarrow> string" where
  "json_str (JStr t) = t"
| "json_str v = json_repr v"

section \<open>Format strings\<close>

text \<open>
  \<open>template.format(**params)\<close> with plain named fields. A missing name raises KeyError, an
  empty (positional) one IndexError, unbalanced braces ValueError. Fields with attribute,
  index, conversion or format parts are not used by the code and are refused.
\<close>

datatype format_error = FmtKeyError string | FmtIndexError | FmtValueError

definition format_field :: "dict \<Rightarrow> string \<Rightarrow> format_error + string" where
  "format_field params name =
     (if name = [] then Inl FmtIndexError
      else if list_ex (\<lambda>c. c \<in> set name) [CHR ''.'', CHR ''['', CHR ''!'', CHR '':''] then Inl FmtValueError
      else case map_of params name of
             None \<Rightarrow> Inl (FmtKeyError name)
           | Some v \<Rightarrow> Inr (json_str v))"

definition prepend :: "string \<Rightarrow> format_error + string \<Rightarrow> format_error + string" where
  "prepend t r = (case r of Inl e \<Rightarrow> Inl e | Inr u \<Rightarrow> Inr (t @ u))"

fun format_go :: "dict \<Rightarrow> string option \<Rightarrow> string \<Rightarrow> format_error + string" where
  "format_go params None [] = Inr []"
| "format_go params (Some acc) [] = Inl FmtValueError"
| "format_go params None (c # cs) =
     (if c = CHR ''{'' then
        (case cs of
           [] \<Rightarrow> Inl FmtValueError
         | d # ds \<Rightarrow> if d = CHR ''{'' then prepend [c] (format_go params None ds)
                    else format_go params (Some []) cs)
      else if c = CHR ''}'' then
        (case cs of
           [] \<Rightarrow> Inl FmtValueError
         | d # ds \<Rightarrow> if d = CHR ''}'' then prepend [c] (format_go params None ds)
                    else Inl FmtValueError)
      else prepend [c] (format_go params None cs))"
| "format_go params (Some acc) (c # cs) =
     (if c = CHR ''}'' then
        (case format_field params (rev acc) of
           Inl e \<Rightarrow> Inl e
         | Inr t \<Rightarrow> prepend t (format_go params None cs))
      else format_go params (Some (c # acc)) cs)"

definition py_format :: "string \<Rightarrow> dict \<Rightarrow> format_error + string" where
  "py_format template params = format_go params None template"

lemma format_go_plain:
  "CHR ''{'' \<notin> set t \<Longrightarrow> CHR ''}'' \<notin> set t \<Longrightarrow> format_go params None t = Inr t"
  by (induction t) (auto simp: prepend_def)

lemma py_format_plain:
  "CHR ''{'' \<notin> set t \<Longrightarrow> CHR ''}'' \<notin> set t \<Longrightarrow> py_format t params = Inr t"
  by (simp add: py_format_def format_go_plain)

section \<open>Instants\<close>

text \<open>The ISO text of a UTC instant, as \<open>datetime.isoformat\<close> writes it.\<close>

definition isoformat :: "instant \<Rightarrow> string" where
  "isoformat ts =
     (let us = ts mod 1000000; secs = ts div 1000000; days = secs div 86400; sod = secs mod 86400;
          (y, m, d) = civil days
      in pad 4 (nat y) @ ''-'' @ pad 2 (nat m) @ ''-'' @ pad 2 (nat d) @ ''T'' @
         pad 2 (nat (sod div 3600)) @ '':'' @ pad 2 (nat (sod div 60 mod 60)) @ '':'' @
         pad 2 (nat (sod mod 60)) @ (if us = 0 then [] else ''.'' @ pad 6 (nat us)) @ ''+00:00'')"

text \<open>\<open>max(0, int((end - start).total_seconds() * 1000))\<close>: whole milliseconds.\<close>

definition ms_between :: "instant \<Rightarrow> instant \<Rightarrow> int" where
  "ms_between start finish = max 0 ((finish - start) div 1000)"

text \<open>
  JSON text as \<open>json.dumps\<close> of Python's standard library writes it: with or without escapes for
  characters outside ASCII, with or without sorted keys, on one line or indented; and the order
  of keys a value has after being written with sorted keys and read back. Text here is Latin-1.
\<close>

section \<open>Strings\<close>

definition BACKSLASH :: char where
  "BACKSLASH = char_of (92 :: nat)"

definition QUOTE :: char where
  "QUOTE = char_of (34 :: nat)"

definition NEWLINE :: char where
  "NEWLINE = char_of (10 :: nat)"

text \<open>\<open>ensure_ascii\<close> also escapes everything that is not printable ASCII.\<close>

definition escape_char :: "bool \<Rightarrow> char \<Rightarrow> string" where
  "escape_char ascii c =
     (let n = (of_char c :: nat) in
      if n = 34 \<or> n = 92 then [BACKSLASH, c]
      else if n = 10 then [BACKSLASH, CHR ''n'']
      else if n = 13 then [BACKSLASH, CHR ''r'']
      else if n = 9 then [BACKSLASH, CHR ''t'']
      else if n = 8 then [BACKSLASH, CHR ''b'']
      else if n = 12 then [BACKSLASH, CHR ''f'']
      else if n < 32 \<or> (ascii \<and> 126 < n) then [BACKSLASH, CHR ''u''] @ hex_fixed 4 n
      else [c])"

definition dump_str :: "bool \<Rightarrow> string \<Rightarrow> string" where
  "dump_str ascii t = QUOTE # concat (map (escape_char ascii) t) @ [QUOTE]"

definition dump_float :: "string \<Rightarrow> string" where
  "dump_float r =
     (if r = ''nan'' then ''NaN'' else if r = ''inf'' then ''Infinity''
      else if r = ''-inf'' then ''-Infinity'' else r)"

section \<open>Values\<close>

text \<open>On one line: the separators are \<open>\", \"\<close> and \<open>\": \"\<close> unless the writer chose others.\<close>

fun dumps_with :: "bool \<Rightarrow> string \<Rightarrow> string \<Rightarrow> json \<Rightarrow> string" where
  "dumps_with ascii isep ksep JNull = ''null''"
| "dumps_with ascii isep ksep (JBool b) = (if b then ''true'' else ''false'')"
| "dumps_with ascii isep ksep (JInt n) = int_str n"
| "dumps_with ascii isep ksep (JFloat r) = dump_float r"
| "dumps_with ascii isep ksep (JStr t) = dump_str ascii t"
| "dumps_with ascii isep ksep (JArr xs) = ''['' @ join isep (map (dumps_with ascii isep ksep) xs) @ '']''"
| "dumps_with ascii isep ksep (JObj d) =
     ''{'' @ join isep (map (\<lambda>kv. dump_str ascii (fst kv) @ ksep @ dumps_with ascii isep ksep (snd kv)) d) @ ''}''"

definition dumps :: "bool \<Rightarrow> json \<Rightarrow> string" where
  "dumps ascii v = dumps_with ascii '', '' '': '' v"

text \<open>\<open>indent=2\<close>; \<open>level\<close> counts the spaces before the line the value ends on.\<close>

fun dumps_indent :: "nat \<Rightarrow> json \<Rightarrow> string" where
  "dumps_indent level (JArr []) = ''[]''"
| "dumps_indent level (JObj []) = ''{}''"
| "dumps_indent level (JArr (x # xs)) =
     (let inner = NEWLINE # replicate (level + 2) (CHR '' '')
      in ''['' @ inner @ join ('','' @ inner) (map (dumps_indent (level + 2)) (x # xs)) @
         NEWLINE # replicate level (CHR '' '') @ '']'')"
| "dumps_indent level (JObj (kv # kvs)) =
     (let inner = NEWLINE # replicate (level + 2) (CHR '' '')
      in ''{'' @ inner @ join ('','' @ inner)
           (map (\<lambda>p. dump_str False (fst p) @ '': '' @ dumps_indent (level + 2) (snd p)) (kv # kvs)) @
         NEWLINE # replicate level (CHR '' '') @ ''}'')"
| "dumps_indent level v = dumps False v"

section \<open>Sorted keys\<close>

text \<open>What \<open>sort_keys\<close> writes, which is also the value read back from that text.\<close>

fun sort_json :: "json \<Rightarrow> json" where
  "sort_json (JArr xs) = JArr (map sort_json xs)"
| "sort_json (JObj d) = JObj (sort_key fst (map (\<lambda>kv. (fst kv, sort_json (snd kv))) d))"
| "sort_json v = v"

definition dumps_sorted :: "bool \<Rightarrow> json \<Rightarrow> string" where
  "dumps_sorted ascii v = dumps ascii (sort_json v)"

lemma map_of_sort_key:
  assumes "distinct (map fst d)"
  shows "map_of (sort_key fst d) = map_of d"
proof -
  have "distinct (map fst (sort_key fst d))" using assms by (simp add: distinct_map)
  then show ?thesis using assms by (intro map_of_inject_set [THEN iffD2]) simp_all
qed

lemma map_of_map_snd: "map_of (map (\<lambda>kv. (fst kv, f (snd kv))) d) k = map_option f (map_of d k)"
  by (induction d) auto

end
