(* ===== verification/Outbox.thy ===== *)
theory Outbox
  imports Fsm Pystr
begin

text \<open>
  The transactional outbox (\<open>runtime/events/outbox.py\<close>) and the construction of envelopes
  (\<open>new_event\<close> of \<open>runtime/events/schema.py\<close>): emitting appends the event with the next
  sequence number; reading is tolerant of events this process cannot validate, and pages
  follow the stored rows.
\<close>

section \<open>Building envelopes\<close>

record refs =
  ref_agent_id :: "uuid option"
  ref_task_id :: "uuid option"
  ref_run_id :: "uuid option"
  ref_workflow_run_id :: "uuid option"
  ref_cycle_id :: "uuid option"
  ref_correlation_id :: "uuid option"
  ref_causation_id :: "uuid option"

definition no_refs :: refs where
  "no_refs = \<lparr>ref_agent_id = None, ref_task_id = None, ref_run_id = None,
     ref_workflow_run_id = None, ref_cycle_id = None, ref_correlation_id = None,
     ref_causation_id = None\<rparr>"

definition new_event ::
    "payload \<Rightarrow> uuid \<Rightarrow> actor \<Rightarrow> string \<Rightarrow> uuid \<Rightarrow> refs \<Rightarrow> instant option \<Rightarrow> envelope db_tx" where
  "new_event p company_id actor aggregate_type aggregate_id refs occurred_at =
     bindT uuid7 (\<lambda>event_id.
     bindT (getsT clock) (\<lambda>now.
     returnT \<lparr>e_event_id = event_id, e_seq = None, e_company_id = company_id,
       e_occurred_at = (case occurred_at of None \<Rightarrow> now | Some t \<Rightarrow> t),
       e_aggregate_type = aggregate_type, e_aggregate_id = aggregate_id,
       e_agent_id = ref_agent_id refs, e_task_id = ref_task_id refs, e_run_id = ref_run_id refs,
       e_workflow_run_id = ref_workflow_run_id refs, e_cycle_id = ref_cycle_id refs,
       e_correlation_id = ref_correlation_id refs, e_causation_id = ref_causation_id refs,
       e_actor = actor, e_payload = p\<rparr>))"

section \<open>Writing\<close>

definition emit :: "envelope \<Rightarrow> envelope db_tx" where
  "emit envelope =
     (if e_persistence envelope = Ephemeral
      then throwT (EventEmitError ''ephemeral; it is never written to the log'')
      else if e_seq envelope \<noteq> None
      then throwT (EventEmitError ''already persisted'')
      else bindT (getsT next_seq) (\<lambda>seq.
           let stored = envelope\<lparr>e_seq := Some seq\<rparr>
           in bindT (modifyT (\<lambda>s. s\<lparr>next_seq := Suc seq, events := events s @ [stored]\<rparr>)) (\<lambda>_.
              returnT stored)))"

definition EPHEMERAL_MAX_BYTES :: nat where
  "EPHEMERAL_MAX_BYTES = 7900"

text \<open>
  \<open>publish_ephemeral\<close>: what is sent to live viewers, or a refusal; nothing is stored. The
  serialisation of an envelope is pydantic's, a parameter.
\<close>

definition publish_ephemeral :: "(envelope \<Rightarrow> string) \<Rightarrow> envelope \<Rightarrow> string db_tx" where
  "publish_ephemeral dump_json envelope =
     (if e_persistence envelope \<noteq> Ephemeral then throwT (EventEmitError ''persisted; use emit()'')
      else let data = dump_json envelope
           in if length data > EPHEMERAL_MAX_BYTES then throwT (EventEmitError ''payload exceeds'')
              else returnT data)"

section \<open>Reading\<close>

text \<open>
  Whether a stored row validates depends on the classes registered in the reading process:
  \<open>known\<close>. The set of events already warned about is kept below \<open>SKIPPED_MAX\<close>.
\<close>

definition SKIPPED_MAX :: nat where
  "SKIPPED_MAX = 10000"

definition read_envelope ::
    "(envelope \<Rightarrow> bool) \<Rightarrow> uuid list \<Rightarrow> envelope \<Rightarrow> envelope option \<times> uuid list" where
  "read_envelope known skipped row =
     (if known row then (Some row, skipped)
      else if e_event_id row \<in> set skipped then (None, skipped)
      else (None, e_event_id row # (if length skipped \<ge> SKIPPED_MAX then [] else skipped)))"

fun read_envelopes ::
    "(envelope \<Rightarrow> bool) \<Rightarrow> uuid list \<Rightarrow> envelope list \<Rightarrow> envelope list \<times> uuid list" where
  "read_envelopes known skipped [] = ([], skipped)"
| "read_envelopes known skipped (row # rows) =
     (let (env, skipped1) = read_envelope known skipped row;
          (envs, skipped2) = read_envelopes known skipped1 rows
      in (case env of None \<Rightarrow> envs | Some e \<Rightarrow> e # envs, skipped2))"

definition seq_of :: "envelope \<Rightarrow> nat" where
  "seq_of e = (case e_seq e of None \<Rightarrow> 0 | Some q \<Rightarrow> q)"

record event_filter =
  ef_after_seq :: nat
  ef_until_seq :: "nat option"
  ef_event_types :: "string list"
  ef_agent_id :: "uuid option"
  ef_run_id :: "uuid option"
  ef_correlation_id :: "uuid option"

definition matches_filter :: "uuid \<Rightarrow> event_filter \<Rightarrow> envelope \<Rightarrow> bool" where
  "matches_filter company_id f e \<longleftrightarrow>
     e_company_id e = company_id \<and> seq_of e > ef_after_seq f \<and>
     (case ef_until_seq f of None \<Rightarrow> True | Some u \<Rightarrow> seq_of e \<le> u) \<and>
     (ef_event_types f = [] \<or> e_event_type e \<in> set (ef_event_types f)) \<and>
     (case ef_agent_id f of None \<Rightarrow> True | Some i \<Rightarrow> e_agent_id e = Some i) \<and>
     (case ef_run_id f of None \<Rightarrow> True | Some i \<Rightarrow> e_run_id e = Some i) \<and>
     (case ef_correlation_id f of None \<Rightarrow> True | Some i \<Rightarrow> e_correlation_id e = Some i)"

definition event_rows :: "envelope list \<Rightarrow> uuid \<Rightarrow> event_filter \<Rightarrow> nat \<Rightarrow> envelope list" where
  "event_rows evlog company_id f limit =
     take limit (sort_key seq_of (filter (matches_filter company_id f) evlog))"

definition load_events ::
    "(envelope \<Rightarrow> bool) \<Rightarrow> uuid list \<Rightarrow> envelope list \<Rightarrow> uuid \<Rightarrow> event_filter \<Rightarrow> nat \<Rightarrow>
     envelope list \<times> uuid list" where
  "load_events known skipped evlog company_id f limit =
     read_envelopes known skipped (event_rows evlog company_id f limit)"

definition load_event_page ::
    "(envelope \<Rightarrow> bool) \<Rightarrow> uuid list \<Rightarrow> envelope list \<Rightarrow> uuid \<Rightarrow> event_filter \<Rightarrow> nat \<Rightarrow>
     envelope list \<times> nat \<times> bool" where
  "load_event_page known skipped evlog company_id f limit =
     (let rows = event_rows evlog company_id f (limit + 1);
          page = take limit rows
      in (fst (read_envelopes known skipped page),
          (case last_some page of None \<Rightarrow> ef_after_seq f | Some e \<Rightarrow> seq_of e),
          length rows > limit))"

end
