(* ===== verification/Activity.thy ===== *)
theory Activity
  imports Outbox
begin

text \<open>
  Agent activity (\<open>runtime/activity/service.py\<close>): the one row per agent that says what the
  agent is doing, written in the transaction of the event it is derived from.
\<close>

definition COMPLETED_DISPLAY :: duration where
  "COMPLETED_DISPLAY = 20 * 1000000"

fun state_by_payload :: "agent_payload \<Rightarrow> activity_state option" where
  "state_by_payload (AgentIdle _) = Some A_IDLE"
| "state_by_payload (AgentResumed _) = Some A_IDLE"
| "state_by_payload (AgentThinking _ _ _) = Some A_THINKING"
| "state_by_payload (AgentWorking _ _ _ _ _) = Some A_WORKING"
| "state_by_payload (AgentWaiting _ _ _ _) = Some A_WAITING"
| "state_by_payload (AgentReviewing _ _ _ _) = Some A_REVIEWING"
| "state_by_payload (AgentRunCompleted _ _ _ _ _ _ _) = Some A_COMPLETED"
| "state_by_payload (AgentRunFailed _ _ _ _) = Some A_FAILED"
| "state_by_payload (AgentRunAborted _ _ _) = Some A_FAILED"
| "state_by_payload (AgentPaused _) = Some A_PAUSED"
| "state_by_payload _ = None"

fun display_until :: "agent_payload \<Rightarrow> instant option" where
  "display_until (AgentRunCompleted _ _ _ _ _ u _) = u"
| "display_until _ = None"

definition effective_state :: "agent_activity \<Rightarrow> instant \<Rightarrow> activity_state" where
  "effective_state activity now =
     (if ac_state activity = A_COMPLETED then
        (case display_until (d_payload (ac_detail activity)) of
           Some until \<Rightarrow> if until \<le> now then A_IDLE else ac_state activity
         | None \<Rightarrow> ac_state activity)
      else ac_state activity)"

record activity_context =
  cx_run_id :: "uuid option"
  cx_task_id :: "uuid option"
  cx_workflow_run_id :: "uuid option"
  cx_cycle_id :: "uuid option"
  cx_correlation_id :: "uuid option"
  cx_causation_id :: "uuid option"
  cx_task_name :: "string option"
  cx_links :: "link list"

definition no_context :: activity_context where
  "no_context = \<lparr>cx_run_id = None, cx_task_id = None, cx_workflow_run_id = None,
     cx_cycle_id = None, cx_correlation_id = None, cx_causation_id = None, cx_task_name = None,
     cx_links = []\<rparr>"

text \<open>\<open>_check\<close>: the transitions that would lose information are refused, in this order.\<close>

fun is_non_final :: "agent_payload \<Rightarrow> bool" where
  "is_non_final (AgentRunFailed _ _ _ final) = (\<not> final)"
| "is_non_final (AgentRunAborted _ _ final) = (\<not> final)"
| "is_non_final _ = False"

fun is_paused_payload :: "agent_payload \<Rightarrow> bool" where
  "is_paused_payload (AgentPaused _) = True"
| "is_paused_payload _ = False"

fun is_resumed_payload :: "agent_payload \<Rightarrow> bool" where
  "is_resumed_payload (AgentResumed _) = True"
| "is_resumed_payload _ = False"

fun idle_refused :: "activity_state \<Rightarrow> agent_payload \<Rightarrow> bool" where
  "idle_refused current (AgentIdle Failure_acknowledged) = (current \<noteq> A_FAILED)"
| "idle_refused current (AgentIdle Waiting_cleared) = (current \<noteq> A_WAITING)"
| "idle_refused current (AgentIdle Initialized) = True"
| "idle_refused current _ = False"

definition activity_check :: "activity_state \<Rightarrow> agent_payload \<Rightarrow> err + unit" where
  "activity_check current p =
     (if state_by_payload p = None then Inl (ActivityError ''does not change agent activity'')
      else if is_non_final p then Inl (ActivityError ''a non-final run end is trace data'')
      else if is_paused_payload p \<and> current = A_PAUSED then Inl (ActivityError ''already PAUSED'')
      else if current = A_PAUSED \<and> \<not> is_resumed_payload p
      then Inl (ActivityError ''not allowed until resumed'')
      else if is_resumed_payload p \<and> current \<noteq> A_PAUSED then Inl (ActivityError ''cannot resume'')
      else if idle_refused current p then Inl (ActivityError ''not valid from this state'')
      else Inr ())"

definition runless :: "activity_state \<Rightarrow> bool" where
  "runless st \<longleftrightarrow> st = A_IDLE \<or> st = A_PAUSED"

fun with_display_until :: "instant \<Rightarrow> agent_payload \<Rightarrow> agent_payload" where
  "with_display_until now (AgentRunCompleted a b c d e None g) =
     AgentRunCompleted a b c d e (Some (now + COMPLETED_DISPLAY)) g"
| "with_display_until now p = p"

definition upsert_activity :: "agent_activity \<Rightarrow> db \<Rightarrow> db" where
  "upsert_activity row s =
     (if activity_of s (ac_agent_id row) = None
      then s\<lparr>activities := activities s @ [row]\<rparr>
      else s\<lparr>activities := update_row ac_agent_id (ac_agent_id row) (\<lambda>_. row) (activities s)\<rparr>)"

text \<open>\<open>_write\<close>: the event first, then the row derived from the same payload.\<close>

definition write_activity ::
    "agent \<Rightarrow> agent_payload \<Rightarrow> activity_state \<Rightarrow> actor \<Rightarrow> agent_activity option \<Rightarrow> activity_context \<Rightarrow>
     (agent_activity \<times> envelope) db_tx" where
  "write_activity ag p0 state actor current cx =
     bindT (getsT clock) (\<lambda>now.
     let p1 = with_display_until now p0;
         p = (if cx_links cx \<noteq> [] \<and> has_links_field p1 then with_links p1 (cx_links cx) else p1)
     in bindT (new_event (AgentP p) (a_company_id ag) actor
          (if cx_run_id cx \<noteq> None then ''agent_run'' else ''agent'')
          (case cx_run_id cx of Some r \<Rightarrow> r | None \<Rightarrow> a_id ag)
          \<lparr>ref_agent_id = Some (a_id ag), ref_task_id = cx_task_id cx, ref_run_id = cx_run_id cx,
           ref_workflow_run_id = cx_workflow_run_id cx, ref_cycle_id = cx_cycle_id cx,
           ref_correlation_id = cx_correlation_id cx, ref_causation_id = cx_causation_id cx\<rparr>
          (Some now)) (\<lambda>unsent.
        bindT (emit unsent) (\<lambda>envelope.
        let no_run = runless state;
            run_id = (if no_run then None else cx_run_id cx);
            task_id = (if no_run then None else cx_task_id cx);
            detail = \<lparr>d_payload = p, d_run_id = run_id, d_task_id = task_id,
              d_workflow_run_id = (if no_run then None else cx_workflow_run_id cx),
              d_task_name = (if no_run then None else nonempty (cx_task_name cx)),
              d_extra_links = (if \<not> no_run \<and> \<not> has_links_field p then cx_links cx else [])\<rparr>;
            since = (case current of
                       Some c \<Rightarrow> if ac_state c = state then ac_since c else now
                     | None \<Rightarrow> now);
            row = \<lparr>ac_agent_id = a_id ag, ac_company_id = a_company_id ag, ac_state = state,
              ac_detail = detail, ac_run_id = run_id, ac_task_id = task_id, ac_since = since,
              ac_last_event_seq = seq_of envelope, ac_updated_at = now\<rparr>
        in bindT (modifyT (upsert_activity row)) (\<lambda>_. returnT (row, envelope)))))"

definition initialize_activity :: "agent \<Rightarrow> actor \<Rightarrow> (agent_activity \<times> envelope) db_tx" where
  "initialize_activity ag actor =
     bindT (getsT (\<lambda>s. activity_of s (a_id ag))) (\<lambda>existing.
     bindT (checkT (existing = None) (ActivityError ''already initialized'')) (\<lambda>_.
     write_activity ag (AgentIdle Initialized) A_IDLE actor None no_context))"

definition set_activity ::
    "agent \<Rightarrow> agent_payload \<Rightarrow> actor \<Rightarrow> activity_context \<Rightarrow> (agent_activity \<times> envelope) db_tx" where
  "set_activity ag p actor cx =
     bindT (getsT (\<lambda>s. activity_of s (a_id ag))) (\<lambda>row.
     bindT (someT row (ActivityError ''not initialized'')) (\<lambda>current.
     bindT (liftT (activity_check (ac_state current) p)) (\<lambda>_.
     bindT (someT (state_by_payload p) (KeyError ''state'')) (\<lambda>state.
     write_activity ag p state actor (Some current) cx))))"

definition set_activity_unless_paused ::
    "agent \<Rightarrow> agent_payload \<Rightarrow> actor \<Rightarrow> activity_context \<Rightarrow> (agent_activity \<times> envelope) option db_tx" where
  "set_activity_unless_paused ag p actor cx =
     bindT (getsT (\<lambda>s. map_option ac_state (activity_of s (a_id ag)))) (\<lambda>current.
     if current = Some A_PAUSED then returnT None
     else bindT (set_activity ag p actor cx) (\<lambda>r. returnT (Some r)))"

end
