(* ===== verification/TaskManager.thy ===== *)
theory TaskManager
  imports Activity
begin

text \<open>
  The task manager (\<open>runtime/task_manager.py\<close>): the queue, the claims with their leases and
  tokens, and the lifecycle of tasks and their agent runs. Every method is a transaction
  step over the database; the workflow engine plugs in through the two hooks.
\<close>

section \<open>Configuration and claims\<close>

record claim =
  cl_task_id :: uuid
  cl_run_id :: uuid
  cl_agent_id :: uuid
  cl_token :: uuid
  cl_resumed :: bool

record task_manager =
  tm_lease :: duration
  tm_retry_base :: duration
  tm_retry_max :: duration
  on_task_finished :: "(uuid \<Rightarrow> unlocked_task list db_tx) option"
  on_task_failed :: "(uuid \<Rightarrow> unit db_tx) option"
  link_hooks :: "(uuid \<Rightarrow> uuid option \<Rightarrow> link list db_tx) list"

definition tm_actor :: actor where
  "tm_actor = Actor_system ''task_manager''"

definition finished_hook :: "task_manager \<Rightarrow> uuid \<Rightarrow> unlocked_task list db_tx" where
  "finished_hook tm i = (case on_task_finished tm of None \<Rightarrow> returnT [] | Some hook \<Rightarrow> hook i)"

definition failed_hook :: "task_manager \<Rightarrow> uuid \<Rightarrow> unit db_tx" where
  "failed_hook tm i = (case on_task_failed tm of None \<Rightarrow> returnT () | Some hook \<Rightarrow> hook i)"

text \<open>Every domain's links; a hook that fails adds none (it runs in a savepoint).\<close>

primrec collect_links ::
    "(uuid \<Rightarrow> uuid option \<Rightarrow> link list db_tx) list \<Rightarrow> uuid \<Rightarrow> uuid option \<Rightarrow> link list db_tx" where
  "collect_links [] i r = returnT []"
| "collect_links (hook # hooks) i r =
     bindT (tryT (hook i r) (\<lambda>e. returnT [])) (\<lambda>ls.
     bindT (collect_links hooks i r) (\<lambda>rest. returnT (ls @ rest)))"

definition activity_links :: "task_manager \<Rightarrow> uuid \<Rightarrow> uuid option \<Rightarrow> link list db_tx" where
  "activity_links tm i r = collect_links (link_hooks tm) i r"

section \<open>Internals\<close>

text \<open>\<open>_emit\<close>: the aggregate is the run for \<open>AGENT_*\<close> payloads of a run, else the task.\<close>

definition tm_emit :: "uuid \<Rightarrow> payload \<Rightarrow> uuid option \<Rightarrow> unit db_tx" where
  "tm_emit i p run_id =
     bindT (get_task i) (\<lambda>t.
     bindT (case run_id of None \<Rightarrow> returnT None | Some r \<Rightarrow> bindT (get_run r) (\<lambda>x. returnT (Some x)))
       (\<lambda>run.
     let of_run = (run \<noteq> None \<and> is_agent_type p)
     in bindT (new_event p (t_company_id t) tm_actor
          (if of_run then ''agent_run'' else ''task'')
          (case run of Some r \<Rightarrow> if is_agent_type p then r_id r else t_id t | None \<Rightarrow> t_id t)
          \<lparr>ref_agent_id = map_option r_agent_id run, ref_task_id = Some (t_id t),
           ref_run_id = map_option r_id run, ref_workflow_run_id = t_workflow_run_id t,
           ref_cycle_id = t_cycle_id t, ref_correlation_id = t_workflow_run_id t,
           ref_causation_id = None\<rparr>
          None) (\<lambda>envelope.
        bindT (emit envelope) (\<lambda>_. returnT ()))))"

definition task_context :: "task \<Rightarrow> uuid option \<Rightarrow> activity_context" where
  "task_context t run_id =
     no_context\<lparr>cx_run_id := run_id, cx_task_id := Some (t_id t),
       cx_workflow_run_id := t_workflow_run_id t, cx_task_name := Some (t_display_name t)\<rparr>"

text \<open>\<open>_activity\<close>: unless paused, with the task (and run) as context.\<close>

definition tm_activity :: "uuid \<Rightarrow> agent_payload \<Rightarrow> uuid \<Rightarrow> uuid option \<Rightarrow> unit db_tx" where
  "tm_activity agent_id p i run_id =
     bindT (get_agent agent_id) (\<lambda>ag.
     bindT (get_task i) (\<lambda>t.
     bindT (set_activity_unless_paused ag p tm_actor (task_context t run_id)) (\<lambda>_. returnT ())))"

definition backoff :: "task_manager \<Rightarrow> nat \<Rightarrow> duration" where
  "backoff tm attempt = min (tm_retry_max tm) (tm_retry_base tm * 2 ^ (attempt - 1))"

definition release_lease :: "uuid \<Rightarrow> unit db_tx" where
  "release_lease i =
     upd_task i (\<lambda>t. t\<lparr>t_lease_owner := None, t_lease_until := None, t_lease_token := None\<rparr>)"

definition is_open_run :: "agent_run \<Rightarrow> bool" where
  "is_open_run r \<longleftrightarrow> r_state r \<notin> set AGENT_RUN_TERMINAL"

definition open_run_of_agent :: "uuid \<Rightarrow> db \<Rightarrow> agent_run option" where
  "open_run_of_agent agent_id s = find (\<lambda>r. r_agent_id r = agent_id \<and> is_open_run r) (runs s)"

definition open_run_of_task :: "uuid \<Rightarrow> db \<Rightarrow> agent_run option" where
  "open_run_of_task i s = find (\<lambda>r. r_task_id r = i \<and> is_open_run r) (runs s)"

definition locked_task :: "claim \<Rightarrow> task db_tx" where
  "locked_task c =
     bindT (getsT (\<lambda>s. task_of s (cl_task_id c))) (\<lambda>row.
     case row of
       None \<Rightarrow> throwT (LeaseLost (cl_task_id c))
     | Some t \<Rightarrow>
         if t_state t \<noteq> T_RUNNING \<or> t_lease_token t \<noteq> Some (cl_token c)
         then throwT (LeaseLost (cl_task_id c)) else returnT t)"

definition claimed_run :: "claim \<Rightarrow> agent_run db_tx" where
  "claimed_run c =
     bindT (getsT (\<lambda>s. run_of s (cl_run_id c))) (\<lambda>row.
     case row of
       None \<Rightarrow> throwT (LeaseLost (cl_run_id c))
     | Some r \<Rightarrow> if is_open_run r then returnT r else throwT (LeaseLost (cl_run_id c)))"

text \<open>\<open>_finish_run\<close>: along the legal path, \<open>finished_at\<close> set right before the last hop.\<close>

definition finish_run :: "uuid \<Rightarrow> agent_run_state \<Rightarrow> instant \<Rightarrow> unit db_tx" where
  "finish_run run_id target now =
     bindT (get_run run_id) (\<lambda>r.
     bindT (liftT (shortest_path AGENT_RUN_FSM (r_state r) target)) (\<lambda>path.
     bindT (mapT (butlast path) (\<lambda>hop. run_transition run_id hop tm_actor None)) (\<lambda>_.
     bindT (upd_run run_id (\<lambda>r. r\<lparr>r_finished_at := Some now\<rparr>)) (\<lambda>_.
     bindT (someT (last_some path) (KeyError ''path'')) (\<lambda>final.
     bindT (run_transition run_id final tm_actor None) (\<lambda>_. returnT ()))))))"

primrec abort_reason_value :: "abort_reason \<Rightarrow> string" where
  "abort_reason_value Abort_budget = ''budget''"
| "abort_reason_value Abort_policy = ''policy''"
| "abort_reason_value Abort_timeout = ''timeout''"
| "abort_reason_value Abort_human = ''human''"

definition abort_run :: "uuid \<Rightarrow> abort_reason \<Rightarrow> string option \<Rightarrow> unit db_tx" where
  "abort_run run_id reason message =
     bindT (upd_run run_id (\<lambda>r. r\<lparr>r_error := Some (''Aborted:'' @ abort_reason_value reason,
        take 2000 (case message of None \<Rightarrow> [] | Some m \<Rightarrow> m))\<rparr>)) (\<lambda>_.
     bindT (getsT clock) (\<lambda>now. finish_run run_id R_ABORTED now))"

section \<open>Creating tasks\<close>

record new_task =
  nt_company_id :: uuid
  nt_project_id :: uuid
  nt_name :: string
  nt_display_name :: string
  nt_required_role :: string
  nt_workflow_run_id :: "uuid option"
  nt_cycle_id :: "uuid option"
  nt_depends_on :: "uuid list"
  nt_input :: dict
  nt_output_schema_ref :: "string option"
  nt_budget_usd :: "money option"
  nt_max_attempts :: nat
  nt_priority :: int
  nt_ready :: "bool option"
  nt_task_id :: "uuid option"

definition mark_ready :: "uuid \<Rightarrow> unit db_tx" where
  "mark_ready i =
     bindT (task_transition i T_READY tm_actor None) (\<lambda>_.
     bindT (get_task i) (\<lambda>t.
     tm_emit i (TaskP (TaskReady (t_required_role t))) None))"

definition mark_idle_agents_waiting :: "uuid \<Rightarrow> unit db_tx" where
  "mark_idle_agents_waiting i =
     bindT (get_task i) (\<lambda>t.
     bindT (getsT (\<lambda>s. sort (remdups (map t_required_role
        (filter (\<lambda>u. t_id u \<in> set (t_depends_on t)) (tasks s)))))) (\<lambda>upstream_roles.
     bindT (getsT (\<lambda>s. filter (\<lambda>a. a_company_id a = t_company_id t \<and> a_role a = t_required_role t
        \<and> activity_of s (a_id a) \<noteq> None) (agents s))) (\<lambda>rows.
     forT rows (\<lambda>ag.
       bindT (getsT (\<lambda>s. (activity_of s (a_id ag), clock s))) (\<lambda>(row, now).
       case row of
         None \<Rightarrow> returnT ()
       | Some activity \<Rightarrow>
           if effective_state activity now \<noteq> A_IDLE then returnT ()
           else bindT (set_activity_unless_paused ag
                  (AgentWaiting Wait_upstream None (Some i) upstream_roles) tm_actor
                  (task_context t None)) (\<lambda>_. returnT ()))))))"

text \<open>
  \<open>add_task\<close>: the flush applies the table's primary key and \<open>max_attempts_positive\<close>.
\<close>

definition add_task :: "new_task \<Rightarrow> uuid db_tx" where
  "add_task nt =
     bindT (case nt_task_id nt of Some i \<Rightarrow> returnT i | None \<Rightarrow> uuid7) (\<lambda>i.
     bindT (getsT (\<lambda>s. task_of s i)) (\<lambda>existing.
     bindT (checkT (existing = None \<and> 1 \<le> nt_max_attempts nt) (IntegrityError ''tasks'')) (\<lambda>_.
     bindT (getsT clock) (\<lambda>now.
     let t = \<lparr>t_id = i, t_company_id = nt_company_id nt, t_project_id = nt_project_id nt,
              t_workflow_run_id = nt_workflow_run_id nt, t_cycle_id = nt_cycle_id nt,
              t_name = nt_name nt, t_display_name = nt_display_name nt,
              t_required_role = nt_required_role nt, t_state = T_PENDING,
              t_depends_on = nt_depends_on nt, t_input = nt_input nt, t_output = None,
              t_output_schema_ref = nt_output_schema_ref nt, t_attempt = 0,
              t_max_attempts = nt_max_attempts nt, t_budget_usd = nt_budget_usd nt,
              t_priority = nt_priority nt, t_available_at = None, t_lease_owner = None,
              t_lease_until = None, t_lease_token = None, t_created_at = now\<rparr>
     in bindT (modifyT (\<lambda>s. s\<lparr>tasks := tasks s @ [t]\<rparr>)) (\<lambda>_.
        bindT (tm_emit i (TaskP (TaskCreated (nt_name nt) (nt_display_name nt)
           (nt_required_role nt) (nt_depends_on nt) (nt_workflow_run_id nt) (nt_budget_usd nt)))
           None) (\<lambda>_.
        bindT (if (case nt_ready nt of Some b \<Rightarrow> b | None \<Rightarrow> nt_depends_on nt = [])
               then mark_ready i else mark_idle_agents_waiting i) (\<lambda>_.
        returnT i)))))))"

section \<open>Claiming\<close>

definition take_task ::
    "task_manager \<Rightarrow> uuid \<Rightarrow> uuid \<Rightarrow> string \<Rightarrow> instant \<Rightarrow> uuid option \<Rightarrow> claim db_tx" where
  "take_task tm i agent_id worker_id now resume =
     bindT (case resume of
              Some r \<Rightarrow> returnT r
            | None \<Rightarrow>
                bindT (upd_task i (\<lambda>t. t\<lparr>t_attempt := Suc (t_attempt t)\<rparr>)) (\<lambda>_.
                bindT (get_task i) (\<lambda>t.
                bindT uuid7 (\<lambda>run_id.
                bindT (modifyT (\<lambda>s. s\<lparr>runs := runs s @ [
                  \<lparr>r_id = run_id, r_company_id = t_company_id t, r_task_id = i,
                   r_agent_id = agent_id, r_attempt = t_attempt t, r_state = R_CREATED,
                   r_input = t_input t, r_output = None, r_evaluation = None, r_handoff = None, r_error = None,
                   r_cost_usd = 0, r_tokens_in = 0, r_tokens_out = 0, r_steps_count = 0, r_started_at = None, r_finished_at = None,
                   r_created_at = now\<rparr>]\<rparr>)) (\<lambda>_. returnT run_id))))) (\<lambda>run_id.
     bindT uuid7 (\<lambda>token.
     bindT (upd_task i (\<lambda>t. t\<lparr>t_lease_owner := Some worker_id,
        t_lease_until := Some (now + tm_lease tm), t_lease_token := Some token,
        t_available_at := None\<rparr>)) (\<lambda>_.
     bindT (task_transition i T_RUNNING tm_actor None) (\<lambda>_.
     bindT (get_task i) (\<lambda>t.
     bindT (tm_emit i (TaskP (TaskStarted run_id agent_id (t_attempt t))) (Some run_id)) (\<lambda>_.
     returnT \<lparr>cl_task_id = i, cl_run_id = run_id, cl_agent_id = agent_id, cl_token = token,
              cl_resumed = (resume \<noteq> None)\<rparr>))))))"

definition suspended_elsewhere :: "db \<Rightarrow> uuid \<Rightarrow> bool" where
  "suspended_elsewhere s i \<longleftrightarrow>
     list_ex (\<lambda>r. r_task_id r = i \<and> r_state r = R_WAITING_APPROVAL) (runs s)"

definition claimable :: "db \<Rightarrow> agent \<Rightarrow> instant \<Rightarrow> task \<Rightarrow> bool" where
  "claimable s ag now t \<longleftrightarrow>
     t_company_id t = a_company_id ag \<and> t_required_role t = a_role ag \<and> t_state t = T_READY \<and>
     t_attempt t < t_max_attempts t \<and>
     (case t_available_at t of None \<Rightarrow> True | Some at_time \<Rightarrow> at_time \<le> now) \<and>
     \<not> suspended_elsewhere s (t_id t)"

text \<open>\<open>ORDER BY priority, created_at LIMIT 1\<close>: a stable sort of rows kept in creation order.\<close>

definition best_claimable :: "db \<Rightarrow> agent \<Rightarrow> instant \<Rightarrow> task option" where
  "best_claimable s ag now = first_some (sort_key t_priority (filter (claimable s ag now) (tasks s)))"

definition claim_next :: "task_manager \<Rightarrow> agent \<Rightarrow> string \<Rightarrow> claim option db_tx" where
  "claim_next tm ag worker_id =
     bindT (getsT clock) (\<lambda>now.
     bindT (getsT (open_run_of_agent (a_id ag))) (\<lambda>open_run.
     case open_run of
       Some r \<Rightarrow>
         bindT (checkT (r_state r = R_WAITING_APPROVAL) (AgentBusy (a_id ag))) (\<lambda>_.
         bindT (getsT (\<lambda>s. find (\<lambda>t. t_id t = r_task_id r \<and> t_state t = T_READY) (tasks s))) (\<lambda>row.
         bindT (someT row (AgentBusy (a_id ag))) (\<lambda>t.
         bindT (take_task tm (t_id t) (a_id ag) worker_id now (Some (r_id r))) (\<lambda>c.
         returnT (Some c)))))
     | None \<Rightarrow>
         bindT (getsT (\<lambda>s. best_claimable s ag now)) (\<lambda>row.
         case row of
           None \<Rightarrow> returnT None
         | Some t \<Rightarrow> bindT (take_task tm (t_id t) (a_id ag) worker_id now None) (\<lambda>c.
             returnT (Some c)))))"

definition heartbeat :: "task_manager \<Rightarrow> claim \<Rightarrow> instant db_tx" where
  "heartbeat tm c =
     bindT (locked_task c) (\<lambda>t.
     bindT (getsT clock) (\<lambda>now.
     bindT (upd_task (t_id t) (\<lambda>t. t\<lparr>t_lease_until := Some (now + tm_lease tm)\<rparr>)) (\<lambda>_.
     returnT (now + tm_lease tm))))"

section \<open>Finishing\<close>

definition succeed :: "task_manager \<Rightarrow> claim \<Rightarrow> dict option \<Rightarrow> string option \<Rightarrow> unlocked_task list db_tx" where
  "succeed tm c output output_summary =
     bindT (locked_task c) (\<lambda>t.
     bindT (claimed_run c) (\<lambda>r.
     bindT (getsT clock) (\<lambda>now.
     bindT (upd_task (t_id t) (\<lambda>t. t\<lparr>t_output := output\<rparr>)) (\<lambda>_.
     bindT (release_lease (t_id t)) (\<lambda>_.
     bindT (task_transition (t_id t) T_SUCCEEDED tm_actor None) (\<lambda>_.
     bindT (finished_hook tm (t_id t)) (\<lambda>unlocked.
     bindT (tm_emit (t_id t) (TaskP (TaskSucceeded (Some (r_id r)) output_summary unlocked))
        (Some (r_id r))) (\<lambda>_.
     bindT (upd_run (r_id r) (\<lambda>r. r\<lparr>r_output := output, r_handoff := Some (map (\<lambda>u.
        \<lparr>ho_to_role = ut_required_role u, ho_task_id = ut_task_id u\<rparr>) unlocked)\<rparr>)) (\<lambda>_.
     bindT (finish_run (r_id r) R_COMPLETED now) (\<lambda>_.
     bindT (activity_links tm (t_id t) (Some (r_id r))) (\<lambda>links.
     bindT (get_run (r_id r)) (\<lambda>r.
     bindT (get_agent (cl_agent_id c)) (\<lambda>ag.
     bindT (set_activity_unless_paused ag
        (AgentRunCompleted output_summary (r_cost_usd r) (r_steps_count r)
           (ms_between (case r_started_at r of Some st \<Rightarrow> st | None \<Rightarrow> r_created_at r) now)
           (map (\<lambda>u. \<lparr>ho_to_role = ut_required_role u, ho_task_id = ut_task_id u\<rparr>) unlocked)
           None [])
        tm_actor ((task_context t (Some (r_id r)))\<lparr>cx_links := links\<rparr>)) (\<lambda>_.
     returnT unlocked))))))))))))))"

fun ended_error_class :: "agent_payload \<Rightarrow> string" where
  "ended_error_class (AgentRunFailed error_class _ _ _) = error_class"
| "ended_error_class _ = ''LeaseExpired''"

text \<open>\<open>_requeue\<close>: RUNNING back to READY with backoff, after a non-final end of the run.\<close>

definition requeue :: "task_manager \<Rightarrow> uuid \<Rightarrow> uuid option \<Rightarrow> agent_payload \<Rightarrow> unit db_tx" where
  "requeue tm i run_id ended =
     bindT (getsT clock) (\<lambda>now.
     bindT (upd_task i (\<lambda>t. t\<lparr>t_available_at := Some (now + backoff tm (t_attempt t))\<rparr>)) (\<lambda>_.
     bindT (task_transition i T_READY tm_actor None) (\<lambda>_.
     bindT (tm_emit i (TaskP (TaskFailed run_id False (ended_error_class ended))) run_id) (\<lambda>_.
     bindT (get_task i) (\<lambda>t.
     bindT (tm_emit i (TaskP (TaskReady (t_required_role t))) None) (\<lambda>_.
     case run_id of
       None \<Rightarrow> returnT ()
     | Some r \<Rightarrow>
         bindT (tm_emit i (AgentP ended) (Some r)) (\<lambda>_.
         bindT (get_run r) (\<lambda>run.
         tm_activity (r_agent_id run) (AgentIdle Run_ended) i (Some r)))))))))"

definition fail_task :: "task_manager \<Rightarrow> claim \<Rightarrow> string \<Rightarrow> string \<Rightarrow> bool \<Rightarrow> bool db_tx" where
  "fail_task tm c error_class message retryable =
     bindT (locked_task c) (\<lambda>t.
     bindT (claimed_run c) (\<lambda>r.
     bindT (getsT clock) (\<lambda>now.
     bindT (upd_run (r_id r) (\<lambda>r. r\<lparr>r_error := Some (error_class, take 2000 message)\<rparr>)) (\<lambda>_.
     bindT (finish_run (r_id r) R_FAILED now) (\<lambda>_.
     let retry = (retryable \<and> t_attempt t < t_max_attempts t);
         failed = AgentRunFailed error_class (take 2000 message) (t_attempt t) (\<not> retry)
     in bindT (release_lease (t_id t)) (\<lambda>_.
        if retry then bindT (requeue tm (t_id t) (Some (r_id r)) failed) (\<lambda>_. returnT True)
        else
          bindT (task_transition (t_id t) T_FAILED tm_actor None) (\<lambda>_.
          bindT (tm_emit (t_id t) (TaskP (TaskFailed (Some (r_id r)) True error_class)) (Some (r_id r))) (\<lambda>_.
          bindT (tm_activity (cl_agent_id c) failed (t_id t) (Some (r_id r))) (\<lambda>_.
          bindT (failed_hook tm (t_id t)) (\<lambda>_. returnT False))))))))))"

definition abort_task :: "task_manager \<Rightarrow> claim \<Rightarrow> abort_reason \<Rightarrow> string option \<Rightarrow> unit db_tx" where
  "abort_task tm c reason message =
     bindT (locked_task c) (\<lambda>t.
     bindT (claimed_run c) (\<lambda>r.
     bindT (abort_run (r_id r) reason message) (\<lambda>_.
     bindT (release_lease (t_id t)) (\<lambda>_.
     if reason = Abort_budget then
       bindT (task_transition (t_id t) T_BLOCKED_BUDGET tm_actor None) (\<lambda>_.
       bindT (tm_emit (t_id t) (TaskP TaskBlocked) (Some (r_id r))) (\<lambda>_.
       bindT (tm_emit (t_id t) (AgentP (AgentRunAborted Abort_budget message False)) (Some (r_id r))) (\<lambda>_.
       tm_activity (cl_agent_id c) (AgentWaiting Wait_budget None (Some (t_id t)) []) (t_id t) None)))
     else
       bindT (if reason = Abort_policy then
          bindT (task_transition (t_id t) T_FAILED tm_actor None) (\<lambda>_.
          bindT (tm_emit (t_id t) (TaskP (TaskFailed (Some (r_id r)) True ''PolicyDenied'')) (Some (r_id r))) (\<lambda>_.
          tm_activity (cl_agent_id c) (AgentRunAborted Abort_policy message True) (t_id t) (Some (r_id r))))
        else
          bindT (task_transition (t_id t) T_CANCELLED tm_actor None) (\<lambda>_.
          bindT (tm_emit (t_id t) (TaskP (TaskCancelled (case message of Some (x # xs) \<Rightarrow> x # xs | _ \<Rightarrow> ''human''))) (Some (r_id r))) (\<lambda>_.
          tm_activity (cl_agent_id c) (AgentIdle Run_ended) (t_id t) (Some (r_id r))))) (\<lambda>_.
       failed_hook tm (t_id t))))))"

fun blocked_task :: "agent_payload \<Rightarrow> uuid option" where
  "blocked_task (AgentWaiting _ _ blocked _) = blocked"
| "blocked_task _ = None"

definition agents_waiting_on :: "db \<Rightarrow> task \<Rightarrow> agent list" where
  "agents_waiting_on s t =
     filter (\<lambda>a. a_company_id a = t_company_id t \<and>
       (case activity_of s (a_id a) of
          None \<Rightarrow> False
        | Some activity \<Rightarrow> ac_state activity = A_WAITING \<and>
            blocked_task (d_payload (ac_detail activity)) = Some (t_id t))) (agents s)"

definition cancel_task :: "task_manager \<Rightarrow> uuid \<Rightarrow> string \<Rightarrow> unit db_tx" where
  "cancel_task tm i reason =
     bindT (get_task i) (\<lambda>t.
     if is_terminal TASK_FSM (t_state t) then returnT ()
     else
       bindT (getsT (open_run_of_task i)) (\<lambda>run.
       bindT (case run of None \<Rightarrow> returnT () | Some r \<Rightarrow> abort_run (r_id r) Abort_human (Some reason)) (\<lambda>_.
       bindT (getsT (\<lambda>s. filter (\<lambda>a. case run of None \<Rightarrow> True | Some r \<Rightarrow> a_id a \<noteq> r_agent_id r)
          (agents_waiting_on s t))) (\<lambda>waiting_agents.
       bindT (release_lease i) (\<lambda>_.
       bindT (task_transition i T_CANCELLED tm_actor None) (\<lambda>_.
       bindT (tm_emit i (TaskP (TaskCancelled reason)) (map_option r_id run)) (\<lambda>_.
       bindT (case run of
                None \<Rightarrow> returnT ()
              | Some r \<Rightarrow> tm_activity (r_agent_id r) (AgentIdle Run_ended) i (Some (r_id r))) (\<lambda>_.
       bindT (forT waiting_agents (\<lambda>ag.
          bindT (set_activity_unless_paused ag (AgentIdle Waiting_cleared) tm_actor no_context)
            (\<lambda>_. returnT ()))) (\<lambda>_.
       failed_hook tm i)))))))))"

section \<open>Approvals and nodes without a run\<close>

definition suspend_for_approval :: "claim \<Rightarrow> uuid \<Rightarrow> unit db_tx" where
  "suspend_for_approval c approval_id =
     bindT (locked_task c) (\<lambda>t.
     bindT (claimed_run c) (\<lambda>r.
     bindT (liftT (shortest_path AGENT_RUN_FSM (r_state r) R_WAITING_APPROVAL)) (\<lambda>path.
     bindT (mapT path (\<lambda>hop. run_transition (r_id r) hop tm_actor None)) (\<lambda>_.
     bindT (release_lease (t_id t)) (\<lambda>_.
     bindT (task_transition (t_id t) T_WAITING_APPROVAL tm_actor None) (\<lambda>_.
     bindT (tm_emit (t_id t) (TaskP (TaskWaiting Wait_approval (Some approval_id))) (Some (r_id r))) (\<lambda>_.
     tm_activity (cl_agent_id c) (AgentWaiting Wait_approval (Some approval_id) (Some (t_id t)) [])
       (t_id t) (Some (r_id r)))))))))"

definition await_approval :: "uuid \<Rightarrow> uuid \<Rightarrow> unit db_tx" where
  "await_approval i approval_id =
     bindT (task_transition i T_WAITING_APPROVAL tm_actor None) (\<lambda>_.
     tm_emit i (TaskP (TaskWaiting Wait_approval (Some approval_id))) None)"

definition release_after_approval :: "uuid \<Rightarrow> unit db_tx" where
  "release_after_approval i =
     bindT (task_transition i T_READY tm_actor None) (\<lambda>_.
     bindT (get_task i) (\<lambda>t.
     tm_emit i (TaskP (TaskReady (t_required_role t))) None))"

definition complete_without_run ::
    "task_manager \<Rightarrow> uuid \<Rightarrow> dict option \<Rightarrow> string option \<Rightarrow> unlocked_task list db_tx" where
  "complete_without_run tm i output output_summary =
     bindT (upd_task i (\<lambda>t. t\<lparr>t_output := output\<rparr>)) (\<lambda>_.
     bindT (task_transition i T_SUCCEEDED tm_actor None) (\<lambda>_.
     bindT (finished_hook tm i) (\<lambda>unlocked.
     bindT (tm_emit i (TaskP (TaskSucceeded None output_summary unlocked)) None) (\<lambda>_.
     returnT unlocked))))"

definition fail_without_run :: "task_manager \<Rightarrow> uuid \<Rightarrow> string \<Rightarrow> string \<Rightarrow> unit db_tx" where
  "fail_without_run tm i error_class message =
     bindT (upd_task i (\<lambda>t. t\<lparr>t_output := Some [(''error_class'', JStr error_class),
        (''message'', JStr message)]\<rparr>)) (\<lambda>_.
     bindT (task_transition i T_FAILED tm_actor (Some (take 500 message))) (\<lambda>_.
     bindT (tm_emit i (TaskP (TaskFailed None True error_class)) None) (\<lambda>_.
     failed_hook tm i)))"

section \<open>Maintenance\<close>

definition release_one :: "task_manager \<Rightarrow> uuid \<Rightarrow> unit db_tx" where
  "release_one tm i =
     bindT (get_task i) (\<lambda>t.
     if t_attempt t < t_max_attempts t then mark_ready i
     else
       bindT (task_transition i T_FAILED tm_actor None) (\<lambda>_.
       bindT (tm_emit i (TaskP (TaskFailed None True ''BudgetExhausted'')) None) (\<lambda>_.
       failed_hook tm i)))"

definition release_blocked :: "task_manager \<Rightarrow> uuid \<Rightarrow> nat db_tx" where
  "release_blocked tm company_id =
     bindT (getsT (\<lambda>s. map t_id (filter (\<lambda>t. t_company_id t = company_id \<and>
        t_state t = T_BLOCKED_BUDGET) (tasks s)))) (\<lambda>ids.
     bindT (forT ids (release_one tm)) (\<lambda>_.
     returnT (length ids)))"

definition lease_expired :: "instant \<Rightarrow> task \<Rightarrow> bool" where
  "lease_expired now t \<longleftrightarrow> t_state t = T_RUNNING \<and>
     (case t_lease_until t of None \<Rightarrow> False | Some until \<Rightarrow> until < now)"

definition reap_one :: "task_manager \<Rightarrow> uuid \<Rightarrow> unit db_tx" where
  "reap_one tm i =
     bindT (get_task i) (\<lambda>t.
     bindT (getsT (open_run_of_task i)) (\<lambda>run.
     bindT (someT (t_lease_until t) AttributeError) (\<lambda>until.
     let retry = (t_attempt t < t_max_attempts t);
         message = ''lease expired at '' @ isoformat until;
         expired = AgentRunAborted Abort_timeout (Some message) (\<not> retry)
     in bindT (case run of None \<Rightarrow> returnT ()
               | Some r \<Rightarrow> abort_run (r_id r) Abort_timeout (Some message)) (\<lambda>_.
        bindT (release_lease i) (\<lambda>_.
        if retry then requeue tm i (map_option r_id run) expired
        else
          bindT (task_transition i T_FAILED tm_actor None) (\<lambda>_.
          bindT (tm_emit i (TaskP (TaskFailed (map_option r_id run) True ''LeaseExpired''))
             (map_option r_id run)) (\<lambda>_.
          bindT (case run of None \<Rightarrow> returnT ()
                 | Some r \<Rightarrow> tm_activity (r_agent_id r) expired i (Some (r_id r))) (\<lambda>_.
          failed_hook tm i))))))))"

definition reap_expired_leases :: "task_manager \<Rightarrow> nat \<Rightarrow> uuid list db_tx" where
  "reap_expired_leases tm limit =
     bindT (getsT clock) (\<lambda>now.
     bindT (getsT (\<lambda>s. map t_id (take limit (filter (lease_expired now) (tasks s))))) (\<lambda>ids.
     bindT (forT ids (reap_one tm)) (\<lambda>_.
     returnT ids)))"

end
