(* ===== verification/FsmPaths.thy ===== *)
theory FsmPaths
  imports Fsm
begin

text \<open>
  Correctness of the breadth-first search: \<open>shortest_path\<close> returns a legal path to the goal, no
  legal path is shorter, and it fails exactly when there is none.
\<close>

section \<open>Legal paths\<close>

fun hops :: "('s, 'x) state_machine \<Rightarrow> 's \<Rightarrow> 's list \<Rightarrow> 's \<Rightarrow> bool" where
  "hops m s [] g = (s = g)"
| "hops m s (x # xs) g = (x \<in> set (targets m s) \<and> hops m x xs g)"

lemma hops_append: "hops m s (p @ q) g \<longleftrightarrow> (\<exists>y. hops m s p y \<and> hops m y q g)"
  by (induction p arbitrary: s) auto

lemma hops_snoc: "hops m s (p @ [x]) g \<longleftrightarrow> x = g \<and> (\<exists>y. hops m s p y \<and> x \<in> set (targets m y))"
  by (auto simp: hops_append)

lemma hops_last: "hops m s p g \<Longrightarrow> p \<noteq> [] \<Longrightarrow> last p = g"
proof (induction p arbitrary: s)
  case (Cons x xs)
  then show ?case by (cases xs) auto
qed simp

text \<open>Reachable within a number of hops.\<close>

definition in_hops :: "('s, 'x) state_machine \<Rightarrow> 's \<Rightarrow> nat \<Rightarrow> 's \<Rightarrow> bool" where
  "in_hops m s k x \<longleftrightarrow> (\<exists>p. hops m s p x \<and> length p \<le> k)"

lemma in_hops_0 [simp]: "in_hops m s 0 x \<longleftrightarrow> s = x"
  by (auto simp: in_hops_def)

lemma in_hops_mono: "in_hops m s j x \<Longrightarrow> j \<le> k \<Longrightarrow> in_hops m s k x"
  unfolding in_hops_def using le_trans by blast

lemma in_hops_Suc:
  "in_hops m s (Suc k) x \<longleftrightarrow> in_hops m s k x \<or> (\<exists>y. in_hops m s k y \<and> x \<in> set (targets m y))"
proof
  assume "in_hops m s (Suc k) x"
  then obtain p where p: "hops m s p x" "length p \<le> Suc k" by (auto simp: in_hops_def)
  show "in_hops m s k x \<or> (\<exists>y. in_hops m s k y \<and> x \<in> set (targets m y))"
  proof (cases p rule: rev_cases)
    case Nil
    with p have "hops m s [] x" by simp
    then have "in_hops m s k x" unfolding in_hops_def by (intro exI [of _ "[]"]) simp
    then show ?thesis ..
  next
    case (snoc q z)
    with p obtain y where "hops m s q y" "x \<in> set (targets m y)" "length q \<le> k"
      by (auto simp: hops_snoc)
    then show ?thesis unfolding in_hops_def by blast
  qed
next
  assume "in_hops m s k x \<or> (\<exists>y. in_hops m s k y \<and> x \<in> set (targets m y))"
  then show "in_hops m s (Suc k) x"
  proof
    assume "in_hops m s k x"
    then show ?thesis by (rule in_hops_mono) simp
  next
    assume "\<exists>y. in_hops m s k y \<and> x \<in> set (targets m y)"
    then obtain y p where "hops m s p y" "length p \<le> k" "x \<in> set (targets m y)"
      by (auto simp: in_hops_def)
    then show ?thesis unfolding in_hops_def
      by (intro exI [of _ "p @ [x]"]) (auto simp: hops_snoc)
  qed
qed

section \<open>The tree of first visits\<close>

fun tree :: "('s, 'x) state_machine \<Rightarrow> 's \<Rightarrow> ('s \<times> 's) list \<Rightarrow> bool" where
  "tree m start [] = True"
| "tree m start ((n, p) # ps) =
     (n \<noteq> start \<and> n \<notin> fst ` set ps \<and> n \<in> set (targets m p) \<and>
      (p = start \<or> p \<in> fst ` set ps) \<and> tree m start ps)"

fun tree_path :: "('s \<times> 's) list \<Rightarrow> 's \<Rightarrow> 's list" where
  "tree_path [] n = []"
| "tree_path ((k, p) # ps) n = (if n = k then tree_path ps p @ [k] else tree_path ps n)"

definition visited :: "'s \<Rightarrow> ('s \<times> 's) list \<Rightarrow> 's set" where
  "visited start ps = insert start (fst ` set ps)"

lemma visited_Nil [simp]: "visited start [] = {start}"
  by (simp add: visited_def)

lemma visited_Cons [simp]: "visited start ((n, p) # ps) = insert n (visited start ps)"
  by (auto simp: visited_def)

lemma tree_path_start: "tree m start ps \<Longrightarrow> tree_path ps start = []"
  by (induction ps) auto

lemma tree_path_hops: "tree m start ps \<Longrightarrow> n \<in> visited start ps \<Longrightarrow> hops m start (tree_path ps n) n"
proof (induction ps arbitrary: n)
  case (Cons np ps)
  obtain k p where np: "np = (k, p)" by fastforce
  show ?case
  proof (cases "n = k")
    case True
    moreover have "hops m start (tree_path ps p) p" using Cons np by (auto simp: visited_def)
    ultimately show ?thesis using Cons.prems by (auto simp: np hops_snoc)
  next
    case False
    then show ?thesis using Cons np by auto
  qed
qed (simp add: visited_def)

lemma tree_path_append:
  "tree m start (new @ ps) \<Longrightarrow> n \<notin> fst ` set new \<Longrightarrow> tree_path (new @ ps) n = tree_path ps n"
  by (induction new) auto

lemma tree_drop: "tree m start (xs @ ps) \<Longrightarrow> tree m start ps"
proof (induction xs)
  case (Cons np xs)
  then show ?case by (cases np) simp
qed simp

lemma length_tree_path: "tree m start ps \<Longrightarrow> length (tree_path ps n) \<le> length ps"
proof (induction ps arbitrary: n)
  case (Cons np ps)
  obtain k p where np: "np = (k, p)" by fastforce
  show ?case using Cons.IH [of p] Cons.IH [of n] Cons.prems by (auto simp: np)
qed simp

text \<open>Walking \<open>previous\<close> back from a visited state yields its path in the tree.\<close>

lemma walk_back_tree:
  assumes "tree m start ps" "n \<in> visited start ps"
    and "\<And>k. k \<in> fst ` set ps \<Longrightarrow> map_of full k = map_of ps k"
    and "length (tree_path ps n) \<le> fuel"
  shows "walk_back fuel full start (n # rest) = Inr (start # tree_path ps n @ (if n = start then tl (n # rest) else rest))"
  using assms
proof (induction ps arbitrary: n fuel rest)
  case Nil
  then show ?case by (simp add: visited_def)
next
  case (Cons np ps)
  obtain k p where np: "np = (k, p)" by fastforce
  have agree: "map_of full j = map_of ps j" if "j \<in> fst ` set ps" for j
  proof -
    have "j \<noteq> k" using Cons.prems(1) that by (auto simp: np)
    moreover have "map_of full j = map_of (np # ps) j" using that by (intro Cons.prems(3)) simp
    ultimately show ?thesis by (simp add: np)
  qed
  show ?case
  proof (cases "n = k")
    case True
    then have ns: "n \<noteq> start" and full: "map_of full n = Some p"
      using Cons.prems(1,3) by (auto simp: np)
    have pv: "p \<in> visited start ps" using Cons.prems(1) by (auto simp: np visited_def)
    obtain f where f: "fuel = Suc f" and lf: "length (tree_path ps p) \<le> f"
      using Cons.prems(4) True by (cases fuel) (auto simp: np)
    have "walk_back fuel full start (n # rest) = walk_back f full start (p # n # rest)"
      using ns full f by simp
    also have "\<dots> = Inr (start # tree_path ps p @ (if p = start then tl (p # n # rest) else n # rest))"
      using Cons.prems(1) pv agree lf by (intro Cons.IH) (auto simp: np)
    finally show ?thesis using True ns by (simp add: np)
  next
    case False
    then have "n \<in> visited start ps" using Cons.prems(2) by (simp add: np)
    then have "walk_back fuel full start (n # rest) =
        Inr (start # tree_path ps n @ (if n = start then tl (n # rest) else rest))"
      using Cons.prems(1,4) agree False by (intro Cons.IH) (auto simp: np)
    with False show ?thesis by (simp only: np tree_path.simps if_False)
  qed
qed

section \<open>One round\<close>

lemma bfs_visit_Inr:
  assumes "bfs_visit start goal current ss previous frontier = Inr (previous', frontier')"
    and "tree m start previous" "current \<in> visited start previous"
    and "set ss \<subseteq> set (targets m current)" "goal \<notin> visited start previous"
  obtains new where "previous' = new @ previous" "frontier' = frontier @ map fst (rev new)"
    "\<forall>np \<in> set new. snd np = current" "tree m start previous'"
    "set ss \<subseteq> visited start previous'" "goal \<notin> visited start previous'"
  using assms
proof (induction start goal current ss previous frontier arbitrary: thesis rule: bfs_visit.induct)
  case (1 start goal current previous frontier)
  then show ?case by (intro "1.prems"(1) [of "[]"]) auto
next
  case (2 start goal current nxt rest previous frontier)
  show ?case
  proof (cases "nxt \<in> fst ` set previous \<or> nxt = start")
    case True
    show ?thesis
    proof (rule "2.IH"(1) [OF True])
      show "bfs_visit start goal current rest previous frontier = Inr (previous', frontier')"
        using "2.prems"(2) True by auto
      show "tree m start previous" "current \<in> visited start previous" "goal \<notin> visited start previous"
        "set rest \<subseteq> set (targets m current)" using "2.prems" by auto
      fix new
      assume new: "previous' = new @ previous" "frontier' = frontier @ map fst (rev new)"
        "\<forall>np\<in>set new. snd np = current" "tree m start previous'"
        "set rest \<subseteq> visited start previous'" "goal \<notin> visited start previous'"
      moreover have "nxt \<in> visited start previous'" using True new(1) by (auto simp: visited_def)
      ultimately show thesis by (intro "2.prems"(1) [of new]) auto
    qed
  next
    case False
    then have ng: "nxt \<noteq> goal" using "2.prems"(2) by (auto split: if_splits)
    show ?thesis
    proof (rule "2.IH"(2) [OF False ng])
      show "bfs_visit start goal current rest ((nxt, current) # previous) (frontier @ [nxt]) =
          Inr (previous', frontier')" using "2.prems"(2) False ng by auto
      show "tree m start ((nxt, current) # previous)" using "2.prems" False by (auto simp: visited_def)
      show "current \<in> visited start ((nxt, current) # previous)" "set rest \<subseteq> set (targets m current)"
        "goal \<notin> visited start ((nxt, current) # previous)" using "2.prems" ng by auto
      fix new
      assume new: "previous' = new @ (nxt, current) # previous"
        "frontier' = (frontier @ [nxt]) @ map fst (rev new)"
        "\<forall>np\<in>set new. snd np = current" "tree m start previous'"
        "set rest \<subseteq> visited start previous'" "goal \<notin> visited start previous'"
      moreover have "nxt \<in> visited start previous'" using new(1) by (auto simp: visited_def)
      ultimately show thesis by (intro "2.prems"(1) [of "new @ [(nxt, current)]"]) auto
    qed
  qed
qed

lemma bfs_visit_Inl:
  assumes "bfs_visit start goal current ss previous frontier = Inl previous'"
    and "tree m start previous" "current \<in> visited start previous"
    and "set ss \<subseteq> set (targets m current)" "goal \<notin> visited start previous"
  obtains new where "previous' = (goal, current) # new @ previous"
    "\<forall>np \<in> set new. snd np = current" "tree m start previous'" "goal \<notin> fst ` set (new @ previous)"
  using assms
proof (induction start goal current ss previous frontier arbitrary: thesis rule: bfs_visit.induct)
  case (1 start goal current previous frontier)
  then show ?case by simp
next
  case (2 start goal current nxt rest previous frontier)
  consider (old) "nxt \<in> fst ` set previous \<or> nxt = start"
    | (goal) "nxt = goal" "\<not> (nxt \<in> fst ` set previous \<or> nxt = start)"
    | (new) "nxt \<noteq> goal" "\<not> (nxt \<in> fst ` set previous \<or> nxt = start)" by blast
  then show ?case
  proof cases
    case old
    then have "bfs_visit start goal current rest previous frontier = Inl previous'"
      using "2.prems"(2) by auto
    from "2.IH"(1) [OF old _ this "2.prems"(3,4) _ "2.prems"(6)] "2.prems"(1,5) show ?thesis
      by auto
  next
    case goal
    then have "previous' = (goal, current) # previous" using "2.prems"(2) by auto
    moreover have "tree m start ((goal, current) # previous)"
    proof -
      have "current = start \<or> current \<in> fst ` set previous"
        using "2.prems"(4) by (simp add: visited_def)
      with "2.prems"(3,5,6) goal show ?thesis by (simp add: visited_def)
    qed
    moreover have "goal \<notin> fst ` set previous" using "2.prems"(6) by (auto simp: visited_def)
    ultimately show ?thesis by (intro "2.prems"(1) [of "[]"]) auto
  next
    case new
    show ?thesis
    proof (rule "2.IH"(2) [OF new(2,1)])
      show "bfs_visit start goal current rest ((nxt, current) # previous) (frontier @ [nxt]) =
          Inl previous'" using "2.prems"(2) new by auto
      show "tree m start ((nxt, current) # previous)" using "2.prems" new by (auto simp: visited_def)
      show "current \<in> visited start ((nxt, current) # previous)" "set rest \<subseteq> set (targets m current)"
        "goal \<notin> visited start ((nxt, current) # previous)" using "2.prems" new by auto
      fix ns
      assume "previous' = (goal, current) # ns @ (nxt, current) # previous"
        "\<forall>np\<in>set ns. snd np = current" "tree m start previous'"
        "goal \<notin> fst ` set (ns @ (nxt, current) # previous)"
      then show thesis by (intro "2.prems"(1) [of "ns @ [(nxt, current)]"]) auto
    qed
  qed
qed

section \<open>The search\<close>

definition depth :: "('s \<times> 's) list \<Rightarrow> 's \<Rightarrow> nat" where
  "depth ps n = length (tree_path ps n)"

text \<open>
  The invariant of the loop: the tree; what is off the frontier is closed under successors;
  the frontier is ordered by depth within one level; every state at most as deep as its head
  has been visited.
\<close>

definition bfs_inv :: "('s, 'x) state_machine \<Rightarrow> 's \<Rightarrow> 's \<Rightarrow> ('s \<times> 's) list \<Rightarrow> 's list \<Rightarrow> bool" where
  "bfs_inv m start goal previous frontier \<longleftrightarrow>
     tree m start previous \<and> set frontier \<subseteq> visited start previous \<and>
     goal \<notin> visited start previous \<and>
     (\<forall>v \<in> visited start previous - set frontier. set (targets m v) \<subseteq> visited start previous) \<and>
     sorted (map (depth previous) frontier) \<and>
     (\<forall>f \<in> set frontier. depth previous f \<le> Suc (depth previous (hd frontier))) \<and>
     (\<forall>v \<in> visited start previous. \<forall>k. in_hops m start k v \<longrightarrow> depth previous v \<le> k) \<and>
     (frontier \<noteq> [] \<longrightarrow>
        (\<forall>x. in_hops m start (depth previous (hd frontier)) x \<longrightarrow> x \<in> visited start previous))"

lemma bfs_inv_closed:
  assumes "bfs_inv m start goal previous []" "hops m start p x"
  shows "x \<in> visited start previous"
proof -
  have "hops m s p x \<Longrightarrow> s \<in> visited start previous \<Longrightarrow> x \<in> visited start previous" for s
    using assms(1) by (induction p arbitrary: s) (auto simp: bfs_inv_def)
  with assms(2) show ?thesis by (simp add: visited_def)
qed

lemma depth_new:
  assumes "tree m start (new @ previous)" "\<forall>np \<in> set new. snd np = current"
    "current \<in> visited start previous" "n \<in> fst ` set new"
  shows "depth (new @ previous) n = Suc (depth previous current)"
  using assms
proof (induction new)
  case (Cons np new)
  obtain k p where np: "np = (k, p)" by fastforce
  have cur: "p = current" using Cons.prems(2) by (simp add: np)
  have "current \<notin> fst ` set new"
    if t: "tree m start (new @ previous)" for new
  proof
    assume "current \<in> fst ` set new"
    then obtain xs q ys where "new = xs @ (current, q) # ys" by (auto dest!: split_list)
    with t have "tree m start ((current, q) # ys @ previous)"
      using tree_drop [of m start xs "(current, q) # ys @ previous"] by simp
    with Cons.prems(3) show False by (auto simp: visited_def)
  qed
  then have "tree_path (new @ previous) current = tree_path previous current"
    using Cons.prems(1) by (intro tree_path_append) (auto simp: np)
  then show ?case
    using Cons cur by (auto simp: np depth_def)
qed simp

lemma depth_old:
  "tree m start (new @ previous) \<Longrightarrow> n \<in> visited start previous \<Longrightarrow>
   depth (new @ previous) n = depth previous n"
proof (induction new)
  case (Cons np new)
  then show ?case by (cases np) (auto simp: depth_def visited_def)
qed simp

lemma bfs_inv_step:
  assumes inv: "bfs_inv m start goal previous (current # frontier)"
    and visit: "bfs_visit start goal current (successors m current) previous frontier =
      Inr (previous', frontier')"
  shows "bfs_inv m start goal previous' frontier'"
proof -
  have tr: "tree m start previous" and cv: "current \<in> visited start previous"
    and fv: "set frontier \<subseteq> visited start previous" and g: "goal \<notin> visited start previous"
    and closed: "\<forall>v \<in> visited start previous - set (current # frontier).
        set (targets m v) \<subseteq> visited start previous"
    and sorted: "sorted (map (depth previous) (current # frontier))"
    and level: "\<forall>f \<in> set frontier. depth previous f \<le> Suc (depth previous current)"
    and near: "\<forall>x. in_hops m start (depth previous current) x \<longrightarrow> x \<in> visited start previous"
    and opt: "\<forall>v \<in> visited start previous. \<forall>k. in_hops m start k v \<longrightarrow> depth previous v \<le> k"
    using inv by (auto simp: bfs_inv_def)
  obtain new where p': "previous' = new @ previous" and f': "frontier' = frontier @ map fst (rev new)"
    and new: "\<forall>np \<in> set new. snd np = current" and tr': "tree m start previous'"
    and succ: "set (targets m current) \<subseteq> visited start previous'"
    and g': "goal \<notin> visited start previous'"
    using bfs_visit_Inr [OF visit tr cv _ g] by auto
  have sub: "visited start previous \<subseteq> visited start previous'" by (auto simp: p' visited_def)
  have old: "depth previous' n = depth previous n" if "n \<in> visited start previous" for n
    using depth_old [OF tr' [unfolded p'] that] p' by simp
  have fresh: "depth previous' n = Suc (depth previous current)" if "n \<in> fst ` set new" for n
    using depth_new [OF tr' [unfolded p'] new cv that] p' by simp
  have dF: "depth previous' f = depth previous f" if "f \<in> set frontier" for f
    using old fv that by blast
  have mono: "depth previous f \<ge> depth previous current" if "f \<in> set frontier" for f
    using sorted that by simp
  have sorted': "sorted (map (depth previous') frontier')"
  proof -
    have eq: "map (depth previous') frontier = map (depth previous) frontier"
      using dF by (intro map_cong) auto
    have "sorted (map (depth previous') frontier)" unfolding eq using sorted by simp
    moreover have "map (depth previous') (map fst (rev new)) =
        map (\<lambda>_. Suc (depth previous current)) (map fst (rev new))"
      using fresh by (intro map_cong) auto
    ultimately show ?thesis
      using level dF by (simp add: f' sorted_append map_replicate_const sorted_replicate)
  qed
  have range: "depth previous current \<le> depth previous' f \<and> depth previous' f \<le> Suc (depth previous current)"
    if "f \<in> set frontier'" for f
    using that level mono dF fresh by (force simp: f')
  have closed': "set (targets m v) \<subseteq> visited start previous'"
    if "v \<in> visited start previous' - set frontier'" for v
  proof (cases "v = current")
    case True
    with succ show ?thesis by simp
  next
    case False
    have "v \<in> visited start previous" using that by (auto simp: p' f' visited_def)
    moreover have "v \<notin> set frontier" using that by (simp add: f')
    ultimately show ?thesis using closed False sub by auto
  qed
  have near': "x \<in> visited start previous'"
    if ne: "frontier' \<noteq> []" and w: "in_hops m start (depth previous' (hd frontier')) x" for x
  proof (cases "depth previous' (hd frontier') = depth previous current")
    case True
    with w near sub show ?thesis by auto
  next
    case False
    then have hd: "depth previous' (hd frontier') = Suc (depth previous current)"
      using range [of "hd frontier'"] ne by simp
    have all: "depth previous' f = Suc (depth previous current)" if "f \<in> set frontier'" for f
    proof -
      have "depth previous' (hd frontier') \<le> depth previous' f"
        using sorted' that by (cases frontier') auto
      with hd range [OF that] show ?thesis by simp
    qed
    from w hd consider "in_hops m start (depth previous current) x"
      | y where "in_hops m start (depth previous current) y" "x \<in> set (targets m y)"
      by (auto simp: in_hops_Suc)
    then show ?thesis
    proof cases
      case 1
      with near sub show ?thesis by auto
    next
      case 2
      have yv: "y \<in> visited start previous" using 2(1) near by blast
      show ?thesis
      proof (cases "y \<in> set frontier'")
        case True
        then have "depth previous y = Suc (depth previous current)" using all old [OF yv] by simp
        moreover have "depth previous y \<le> depth previous current" using opt yv 2(1) by blast
        ultimately show ?thesis by simp
      next
        case False
        then show ?thesis using closed' yv sub 2(2) by auto
      qed
    qed
  qed
  have opt': "depth previous' v \<le> k" if v: "v \<in> visited start previous'" and w: "in_hops m start k v" for v k
  proof (cases "v \<in> visited start previous")
    case True
    with opt w old show ?thesis by auto
  next
    case False
    then have "v \<in> fst ` set new" using v by (auto simp: p' visited_def)
    moreover have "\<not> k \<le> depth previous current"
      using near False in_hops_mono [OF w] by blast
    ultimately show ?thesis using fresh by simp
  qed
  show ?thesis
    unfolding bfs_inv_def
    using tr' sorted' closed' g' near' opt'
  proof (intro conjI)
    show "set frontier' \<subseteq> visited start previous'" using fv sub by (auto simp: f' p' visited_def)
    show "\<forall>f\<in>set frontier'. depth previous' f \<le> Suc (depth previous' (hd frontier'))"
    proof
      fix f assume f: "f \<in> set frontier'"
      then have "hd frontier' \<in> set frontier'" by (cases frontier') auto
      with range [of "hd frontier'"] range [OF f] show
        "depth previous' f \<le> Suc (depth previous' (hd frontier'))" by linarith
    qed
  qed auto
qed

lemma bfs_inv_init: "start \<noteq> goal \<Longrightarrow> bfs_inv m start goal [] [start]"
  by (auto simp: bfs_inv_def depth_def)

text \<open>What a result of the search must be.\<close>

definition search_ok :: "('s, 'x) state_machine \<Rightarrow> 's \<Rightarrow> 's \<Rightarrow> err + 's list \<Rightarrow> bool" where
  "search_ok m start goal r \<longleftrightarrow>
     (case r of
        Inr p \<Rightarrow> hops m start p goal \<and> (\<forall>q. hops m start q goal \<longrightarrow> length p \<le> length q)
      | Inl e \<Rightarrow> e = illegal m start goal \<and> \<not> (\<exists>q. hops m start q goal))"

lemma bfs_found:
  assumes inv: "bfs_inv m start goal previous (current # frontier)" and ne: "start \<noteq> goal"
    and visit: "bfs_visit start goal current (successors m current) previous frontier = Inl previous'"
  shows "walk_back (length previous') previous' start [goal] = Inr (start # tree_path previous' goal)"
    and "hops m start (tree_path previous' goal) goal"
    and "hops m start q goal \<Longrightarrow> length (tree_path previous' goal) \<le> length q"
proof -
  have tr: "tree m start previous" and cv: "current \<in> visited start previous"
    and g: "goal \<notin> visited start previous"
    and near: "\<forall>x. in_hops m start (depth previous current) x \<longrightarrow> x \<in> visited start previous"
    using inv by (auto simp: bfs_inv_def)
  obtain new where p': "previous' = (goal, current) # new @ previous"
    and new: "\<forall>np \<in> set new. snd np = current" and tr': "tree m start previous'"
    using bfs_visit_Inl [OF visit tr cv _ g] by auto
  have gv: "goal \<in> visited start previous'" by (simp add: p')
  have "walk_back (length previous') previous' start [goal] =
      Inr (start # tree_path previous' goal @ (if goal = start then tl [goal] else []))"
    using tr' gv length_tree_path [OF tr'] by (intro walk_back_tree) auto
  with ne show "walk_back (length previous') previous' start [goal] = Inr (start # tree_path previous' goal)"
    by simp
  show "hops m start (tree_path previous' goal) goal" using tree_path_hops [OF tr' gv] .
  have "depth previous' goal = Suc (depth previous current)"
    using depth_new [of m start "(goal, current) # new" previous current goal] tr' new cv p' by simp
  moreover assume q: "hops m start q goal"
  have "\<not> length q \<le> depth previous current"
    using near g q by (auto simp: in_hops_def)
  ultimately show "length (tree_path previous' goal) \<le> length q" by (simp add: depth_def)
qed

lemma bfs_loop_ok:
  "start \<noteq> goal \<Longrightarrow> bfs_inv m start goal previous frontier \<Longrightarrow>
   search_ok m start goal (bfs_loop m start goal previous frontier)"
proof (induction m start goal previous frontier rule: bfs_loop.induct)
  case (1 m start goal previous)
  then show ?case using bfs_inv_closed [OF "1.prems"(2)] by (auto simp: search_ok_def bfs_inv_def)
next
  case (2 m start goal previous current frontier)
  show ?case
  proof (cases "bfs_visit start goal current (successors m current) previous frontier")
    case (Inl previous')
    then show ?thesis
      using bfs_found [OF "2.prems"(2,1) Inl] by (simp add: search_ok_def)
  next
    case (Inr r)
    obtain previous' frontier' where r: "r = (previous', frontier')" by fastforce
    have "bfs_inv m start goal previous' frontier'"
      using bfs_inv_step [OF "2.prems"(2)] Inr r by simp
    then have "search_ok m start goal (bfs_loop m start goal previous' frontier')"
      using "2.IH" [OF Inr [unfolded r] refl] "2.prems"(1) by blast
    then show ?thesis using Inr r by simp
  qed
qed

lemma shortest_path_ok: "search_ok m start goal (shortest_path m start goal)"
proof (cases "start = goal")
  case True
  then show ?thesis by (auto simp: shortest_path_def search_ok_def)
next
  case False
  then show ?thesis using bfs_loop_ok [OF False bfs_inv_init [OF False]] by (simp add: shortest_path_def)
qed

lemma shortest_path_hops: "shortest_path m s g = Inr p \<Longrightarrow> hops m s p g"
  using shortest_path_ok [of m s g] by (simp add: search_ok_def)

lemma shortest_path_Nil: "shortest_path m s g = Inr p \<Longrightarrow> p = [] \<longleftrightarrow> s = g"
  using shortest_path_hops [of m s g p] by (auto simp: shortest_path_def)

section \<open>The property\<close>

text \<open>
  C27. \<open>StateMachine.shortest_path\<close> returns a path exactly when the goal can be reached: every
  hop of it is a legal transition, it ends at the goal, and no legal path is shorter. When no
  path exists it raises \<open>IllegalTransition\<close>. It always returns, for any machine.
\<close>

theorem shortest_path_correct:
  "case shortest_path m start goal of
     Inr p \<Rightarrow> hops m start p goal \<and> (\<forall>q. hops m start q goal \<longrightarrow> length p \<le> length q)
   | Inl e \<Rightarrow> e = illegal m start goal \<and> (\<forall>q. \<not> hops m start q goal)"
  using shortest_path_ok [of m start goal] by (simp add: search_ok_def split: sum.splits)

theorem shortest_path_correct_witness:
  "hops AGENT_RUN_FSM R_CREATED [R_RUNNING, R_EVALUATING, R_COMPLETED] R_COMPLETED \<and>
   length [R_RUNNING, R_EVALUATING, R_COMPLETED] \<le>
     length [R_RUNNING, R_WAITING_APPROVAL, R_RUNNING, R_EVALUATING, R_COMPLETED]"
proof -
  let ?q = "[R_RUNNING, R_WAITING_APPROVAL, R_RUNNING, R_EVALUATING, R_COMPLETED]"
  have e: "shortest_path AGENT_RUN_FSM R_CREATED R_COMPLETED = Inr [R_RUNNING, R_EVALUATING, R_COMPLETED]"
    and q: "hops AGENT_RUN_FSM R_CREATED ?q R_COMPLETED"
    by code_simp+
  show ?thesis
    using shortest_path_correct [of AGENT_RUN_FSM R_CREATED R_COMPLETED] q unfolding e by auto
qed

end
