(* ===== verification/Frame.thy ===== *)
theory Frame
  imports TaskManager FsmPaths
begin

text \<open>
  What an operation leaves alone. \<open>frames m\<close>: the tables of tasks and of runs are as before
  and identifiers were only drawn, never put back, and no time passed. Events, audit rows, activity rows and
  workflow rows are written by operations that frame.
\<close>

named_theorems frame_intros \<open>frames, by the shape of the program\<close>

definition frame_step :: "db \<Rightarrow> db \<Rightarrow> bool" where
  "frame_step s s' \<longleftrightarrow> tasks s' = tasks s \<and> runs s' = runs s \<and> next_id s \<le> next_id s' \<and>
     clock s' = clock s"

abbreviation frames :: "'a db_tx \<Rightarrow> bool" where
  "frames \<equiv> obeys frame_step"

interpretation frame: step_preorder frame_step
  by unfold_locales (auto simp: frame_step_def)

lemmas frames_gets = frame.basic(3)

lemmas [frame_intros] = frame.rules

lemma framesI:
  "(\<And>s x s'. m s = Inr (x, s') \<Longrightarrow> tasks s' = tasks s \<and> runs s' = runs s \<and> next_id s \<le> next_id s' \<and>
     clock s' = clock s) \<Longrightarrow>
   frames m"
  by (simp add: obeys_def frame_step_def)

lemma framesD:
  "frames m \<Longrightarrow> m s = Inr (x, s') \<Longrightarrow> tasks s' = tasks s \<and> runs s' = runs s \<and> next_id s \<le> next_id s' \<and>
     clock s' = clock s"
  using obeysD [of frame_step m s x s'] by (simp add: frame_step_def)

lemma frames_uuid7 [frame_intros]: "frames uuid7"
  by (rule framesI) (auto simp: uuid7_def)

lemma frames_modify:
  "(\<And>s. tasks (f s) = tasks s \<and> runs (f s) = runs s \<and> next_id s \<le> next_id (f s) \<and> clock (f s) = clock s) \<Longrightarrow>
   frames (modifyT f)"
  by (rule framesI) (auto simp: tx_run)

section \<open>The operations that frame\<close>

lemma frames_get_task [frame_intros]: "frames (get_task i)"
  unfolding get_task_def by (intro frame_intros)

lemma frames_get_run [frame_intros]: "frames (get_run i)"
  unfolding get_run_def by (intro frame_intros)

lemma frames_get_agent [frame_intros]: "frames (get_agent i)"
  unfolding get_agent_def by (intro frame_intros)

lemma frames_get_workflow [frame_intros]: "frames (get_workflow i)"
  unfolding get_workflow_def by (intro frame_intros)

lemma frames_get_approval [frame_intros]: "frames (get_approval i)"
  unfolding get_approval_def by (intro frame_intros)

lemma frames_upd_workflow [frame_intros]: "frames (upd_workflow i f)"
  unfolding upd_workflow_def by (rule frames_modify) simp

lemma frames_upd_approval [frame_intros]: "frames (upd_approval i f)"
  unfolding upd_approval_def by (rule frames_modify) simp

lemma frames_add_transition [frame_intros]: "frames (add_transition e c i a b actor reason)"
  unfolding add_transition_def Let_def by (intro frame_intros frames_modify) simp

lemma frames_new_event [frame_intros]: "frames (new_event p c actor at1 ai refs o1)"
  unfolding new_event_def by (intro frame_intros)

lemma frames_emit [frame_intros]: "frames (emit e)"
  unfolding emit_def Let_def by (intro frame_intros frames_modify) simp

lemma frames_write_activity [frame_intros]: "frames (write_activity ag p st actor cur cx)"
  unfolding write_activity_def Let_def
  by (intro frame_intros frames_modify) (simp add: upsert_activity_def)

lemma frames_set_activity [frame_intros]: "frames (set_activity ag p actor cx)"
  unfolding set_activity_def by (intro frame_intros)

lemma frames_set_activity_unless_paused [frame_intros]:
  "frames (set_activity_unless_paused ag p actor cx)"
  unfolding set_activity_unless_paused_def by (intro frame_intros)

lemma frames_tm_emit [frame_intros]: "frames (tm_emit i p r)"
  unfolding tm_emit_def Let_def by (intro frame_intros)

lemma frames_tm_activity [frame_intros]: "frames (tm_activity a p i r)"
  unfolding tm_activity_def by (intro frame_intros)

lemma frames_mark_idle_agents_waiting [frame_intros]: "frames (mark_idle_agents_waiting i)"
  unfolding mark_idle_agents_waiting_def by (intro frame_intros)

lemma frames_transition:
  assumes "frames (ent_get ent)" "\<And>st. frames (ent_set_state ent st)"
  shows "frames (transition m ent st actor reason)"
  unfolding transition_def by (intro frame_intros assms)

lemma frames_workflow_transition [frame_intros]: "frames (workflow_transition i st actor reason)"
  unfolding workflow_transition_def
  by (rule frames_transition) (simp_all add: workflow_entity_def frame_intros)

lemma frames_approval_transition [frame_intros]: "frames (approval_transition i st actor reason)"
  unfolding approval_transition_def
  by (rule frames_transition) (simp_all add: approval_entity_def frame_intros)

lemma frames_collect_links:
  "(\<And>h i r. h \<in> set hooks \<Longrightarrow> frames (h i r)) \<Longrightarrow> frames (collect_links hooks i r)"
proof (induction hooks)
  case Nil
  then show ?case by (simp add: frame.basic)
next
  case (Cons h hooks)
  then show ?case unfolding collect_links.simps by (intro frame_intros) simp_all
qed

lemma frames_locked_task [frame_intros]: "frames (locked_task c)"
  unfolding locked_task_def by (intro frame_intros)

lemma frames_claimed_run [frame_intros]: "frames (claimed_run c)"
  unfolding claimed_run_def by (intro frame_intros)

end
