(* ===== verification/Cells.thy ===== *)
theory Cells
  imports Frame
begin

text \<open>
  The invariant that ties tasks to their runs, and the way it is proved. The \<^emph>\<open>cell\<close> of a task
  is its row together with its open run, if it has one. An operation works on one cell; the
  others are framed. \<open>Rt X\<close> says that every cell is consistent, \<open>Fo X i t o\<close> that every cell but
  that of \<open>i\<close> is, and what the cell of \<open>i\<close> holds. \<open>X\<close> lists tasks that already succeeded and
  whose run is about to be finished by the transaction in progress.
\<close>

section \<open>Cells\<close>

definition runs_of :: "uuid \<Rightarrow> agent_run list \<Rightarrow> agent_run list" where
  "runs_of i R = filter (\<lambda>r. r_task_id r = i) R"

definition cell :: "agent_run list \<Rightarrow> task \<Rightarrow> agent_run option \<Rightarrow> bool" where
  "cell R t o1 \<longleftrightarrow>
     filter is_open_run (runs_of (t_id t) R) = (case o1 of None \<Rightarrow> [] | Some r \<Rightarrow> [r]) \<and>
     (\<forall>r \<in> set (runs_of (t_id t) R). (\<not> is_open_run r \<longrightarrow> run_checks r) \<and>
        1 \<le> r_attempt r \<and> r_attempt r \<le> t_attempt t)"

text \<open>Which open run a task of each state has.\<close>

fun coupled :: "task_state \<Rightarrow> agent_run option \<Rightarrow> bool" where
  "coupled T_RUNNING (Some r) = True"
| "coupled T_RUNNING None = False"
| "coupled T_READY (Some r) = (r_state r = R_WAITING_APPROVAL)"
| "coupled T_WAITING_APPROVAL (Some r) = (r_state r = R_WAITING_APPROVAL)"
| "coupled _ (Some r) = False"
| "coupled _ None = True"

definition open_checks :: "agent_run option \<Rightarrow> bool" where
  "open_checks o1 \<longleftrightarrow> (case o1 of None \<Rightarrow> True | Some r \<Rightarrow> run_checks r)"

definition fits :: "(uuid \<Rightarrow> agent_run option) \<Rightarrow> task \<Rightarrow> agent_run option \<Rightarrow> bool" where
  "fits X t o1 \<longleftrightarrow>
     task_checks t \<and> open_checks o1 \<and>
     (case X (t_id t) of
        None \<Rightarrow> coupled (t_state t) o1
      | Some r \<Rightarrow> t_state t = T_SUCCEEDED \<and> o1 = Some r)"

definition consistent :: "(uuid \<Rightarrow> agent_run option) \<Rightarrow> uuid set \<Rightarrow> task list \<Rightarrow> agent_run list \<Rightarrow> bool" where
  "consistent X J T R \<longleftrightarrow>
     distinct (map t_id T) \<and> distinct (map r_id R) \<and>
     (\<forall>r \<in> set R. r_task_id r \<in> t_id ` set T) \<and> dom X \<subseteq> t_id ` set T \<and>
     distinct (map r_agent_id (filter is_open_run R)) \<and>
     (\<forall>t \<in> set T. t_id t \<notin> J \<longrightarrow> (\<exists>o1. cell R t o1 \<and> fits X t o1))"

text \<open>Run identifiers come from the supply, so the next one is new.\<close>

definition fresh :: "agent_run list \<Rightarrow> uuid \<Rightarrow> bool" where
  "fresh R n \<longleftrightarrow> (\<forall>r \<in> set R. r_id r < n)"

definition asr :: "(task list \<Rightarrow> agent_run list \<Rightarrow> bool) \<Rightarrow> db \<Rightarrow> bool" where
  "asr A s \<longleftrightarrow> A (tasks s) (runs s) \<and> fresh (runs s) (next_id s)"

definition Rt :: "(uuid \<Rightarrow> agent_run option) \<Rightarrow> db \<Rightarrow> bool" where
  "Rt X = asr (consistent X {})"

definition focused ::
    "(uuid \<Rightarrow> agent_run option) \<Rightarrow> uuid \<Rightarrow> task \<Rightarrow> agent_run option \<Rightarrow> task list \<Rightarrow> agent_run list \<Rightarrow> bool" where
  "focused X i t o1 T R \<longleftrightarrow> consistent X {i} T R \<and> find_row t_id i T = Some t \<and> cell R t o1"

definition Fo :: "(uuid \<Rightarrow> agent_run option) \<Rightarrow> uuid \<Rightarrow> task \<Rightarrow> agent_run option \<Rightarrow> db \<Rightarrow> bool" where
  "Fo X i t o1 = asr (focused X i t o1)"

text \<open>The invariant between transactions: no cell is exempt.\<close>

definition runtime_ok :: "db \<Rightarrow> bool" where
  "runtime_ok = Rt Map.empty"

section \<open>Framing\<close>

lemma fresh_mono: "fresh R n \<Longrightarrow> n \<le> m \<Longrightarrow> fresh R m"
  by (auto simp: fresh_def)

lemma triple_frame: "frames m \<Longrightarrow> triple (asr A) m (\<lambda>_. asr A)"
proof (rule tripleI)
  fix s x s'
  assume "frames m" "asr A s" "m s = Inr (x, s')"
  then show "asr A s'" using framesD [of m s x s'] fresh_mono [of "runs s" "next_id s" "next_id s'"]
    by (simp add: asr_def)
qed

lemma triple_frame_bind:
  "frames m \<Longrightarrow> (\<And>x. triple (asr A) (k x) Q) \<Longrightarrow> triple (asr A) (bindT m k) Q"
  by (rule triple_bind [OF triple_frame])

lemma keeps_frame: "frames m \<Longrightarrow> keeps (Rt X) m"
  unfolding keeps_def Rt_def by (rule triple_frame)

lemma Fo_frame: "frames m \<Longrightarrow> (\<And>x. triple (Fo X i t o1) (k x) Q) \<Longrightarrow> triple (Fo X i t o1) (bindT m k) Q"
  unfolding Fo_def by (rule triple_frame_bind)

section \<open>Opening and closing a cell\<close>

lemma find_row_cell:
  assumes "consistent X {} T R" "find_row t_id i T = Some t"
  obtains o1 where "focused X i t o1 T R" "fits X t o1" "t_id t = i"
proof -
  have "t \<in> set T" "t_id t = i" using assms(2) by (auto dest: find_row_in find_row_key)
  with assms(1) obtain o1 where "cell R t o1" "fits X t o1" by (auto simp: consistent_def)
  moreover have "consistent X {i} T R" using assms(1) by (auto simp: consistent_def)
  ultimately show thesis using assms(2) \<open>t_id t = i\<close> that by (simp add: focused_def)
qed

lemma consistent_close:
  assumes "focused X i t o1 T R" "fits X t o1"
  shows "consistent X {} T R"
proof -
  have d: "distinct (map t_id T)" and i: "find_row t_id i T = Some t" and c: "cell R t o1"
    using assms(1) by (auto simp: focused_def consistent_def)
  have "\<exists>o1. cell R u o1 \<and> fits X u o1" if u: "u \<in> set T" for u
  proof (cases "t_id u = i")
    case True
    have "find_row t_id (t_id u) T = Some u" using find_row_unique [of t_id T u, OF d u] .
    with True i c assms(2) show ?thesis by auto
  next
    case False
    with assms(1) u show ?thesis by (auto simp: focused_def consistent_def)
  qed
  with assms(1) show ?thesis by (auto simp: focused_def consistent_def)
qed

lemma Fo_close: "Fo X i t o1 s \<Longrightarrow> fits X t o1 \<Longrightarrow> Rt X s"
  unfolding Fo_def Rt_def asr_def using consistent_close by blast

lemma Fo_id: "Fo X i t o1 s \<Longrightarrow> t_id t = i"
  by (auto simp: Fo_def asr_def focused_def dest: find_row_key)

lemma Rt_open:
  assumes "Rt X s" "task_of s i = Some t"
  obtains o1 where "Fo X i t o1 s" "fits X t o1" "t_id t = i"
proof -
  have c: "consistent X {} (tasks s) (runs s)" and f: "fresh (runs s) (next_id s)"
    and r: "find_row t_id i (tasks s) = Some t"
    using assms by (auto simp: Rt_def asr_def task_of_def)
  obtain o1 where "focused X i t o1 (tasks s) (runs s)" "fits X t o1" "t_id t = i"
    using find_row_cell [OF c r] .
  with f that show thesis by (simp add: Fo_def asr_def)
qed

text \<open>Going on with the invariant once the cell fits again.\<close>

lemma triple_close:
  assumes "fits X t o1" "triple (Rt X) m Q"
  shows "triple (Fo X i t o1) m Q"
proof (rule triple_pre [OF assms(2)])
  fix s assume "Fo X i t o1 s"
  then show "Rt X s" using assms(1) by (rule Fo_close)
qed

lemma keeps_close: "fits X t o1 \<Longrightarrow> keeps (Rt X) m \<Longrightarrow> triple (Fo X i t o1) m (\<lambda>_. Rt X)"
  unfolding keeps_def by (rule triple_close)

text \<open>Reading a task opens its cell.\<close>

lemma open_get_task:
  assumes "\<And>t o1. t_id t = i \<Longrightarrow> fits X t o1 \<Longrightarrow> triple (Fo X i t o1) (k t) Q"
  shows "triple (Rt X) (bindT (get_task i) k) Q"
proof (rule tripleI)
  fix s x s'
  assume R: "Rt X s" and run: "bindT (get_task i) k s = Inr (x, s')"
  from run obtain t where t: "task_of s i = Some t" and k: "k t s = Inr (x, s')"
    by (auto simp: get_task_def tx_run split: option.splits)
  obtain o1 where "Fo X i t o1 s" "fits X t o1" "t_id t = i" using Rt_open [OF R t] .
  with assms [of t o1] k show "Q x s'" by (auto dest: tripleD)
qed

lemma open_task_row:
  assumes "\<And>t o1. t_id t = i \<Longrightarrow> fits X t o1 \<Longrightarrow> triple (Fo X i t o1) (k (Some t)) Q"
    and "triple (Rt X) (k None) Q"
  shows "triple (Rt X) (bindT (getsT (\<lambda>s. task_of s i)) k) Q"
proof (rule tripleI)
  fix s x s'
  assume R: "Rt X s" and run: "bindT (getsT (\<lambda>s. task_of s i)) k s = Inr (x, s')"
  have k: "k (task_of s i) s = Inr (x, s')" using run by (simp add: tx_run)
  show "Q x s'"
  proof (cases "task_of s i")
    case None
    with k R assms(2) show ?thesis by (auto dest: tripleD)
  next
    case (Some t)
    obtain o1 where "Fo X i t o1 s" "fits X t o1" "t_id t = i" using Rt_open [OF R Some] .
    with assms(1) [of t o1] k Some show ?thesis by (auto dest: tripleD)
  qed
qed

section \<open>Steps on the open cell\<close>

lemma find_update_same:
  "find_row key i T = Some t \<Longrightarrow> (\<And>r. key (f r) = key r) \<Longrightarrow>
   find_row key i (update_row key i f T) = Some (f t)"
  using find_row_update [of key f i i T] by simp

lemma focused_upd_task:
  assumes foc: "focused X i t o1 T R" and f: "\<And>u. t_id (f u) = t_id u"
    and att: "t_attempt t \<le> t_attempt (f t)"
  shows "focused X i (f t) o1 (update_row t_id i f T) R"
proof -
  have keys: "map t_id (update_row t_id i f T) = map t_id T" by (rule update_row_keys) (rule f)
  have ids: "t_id ` set (update_row t_id i f T) = t_id ` set T" using arg_cong [OF keys, of set] by simp
  have "\<exists>o1. cell R u o1 \<and> fits X u o1"
    if "u \<in> set (update_row t_id i f T)" "t_id u \<noteq> i" for u
    using set_update_row [OF that(1)] that(2) foc f by (auto simp: focused_def consistent_def)
  then have "consistent X {i} (update_row t_id i f T) R"
    using foc keys ids by (auto simp: focused_def consistent_def)
  moreover have "cell R (f t) o1" using foc att f by (force simp: focused_def cell_def)
  ultimately show ?thesis
    using foc find_update_same [of t_id i T t f] f by (simp add: focused_def)
qed

lemma Fo_upd_task:
  assumes f: "\<And>u. t_id (f u) = t_id u" and att: "t_attempt t \<le> t_attempt (f t)"
    and k: "triple (Fo X i (f t) o1) (k ()) Q"
  shows "triple (Fo X i t o1) (bindT (upd_task i f) k) Q"
proof (rule triple_bind)
  show "triple (Fo X i t o1) (upd_task i f) (\<lambda>_. Fo X i (f t) o1)"
    using focused_upd_task [OF _ f att]
    by (auto simp: triple_def upd_task_def tx_run Fo_def asr_def)
  show "triple (Fo X i (f t) o1) (k x) Q" for x :: unit using k by simp
qed

lemma Fo_get_task:
  assumes "triple (Fo X i t o1) (k t) Q"
  shows "triple (Fo X i t o1) (bindT (get_task i) k) Q"
proof (rule tripleI)
  fix s x s'
  assume F: "Fo X i t o1 s" and run: "bindT (get_task i) k s = Inr (x, s')"
  have "task_of s i = Some t" using F by (auto simp: Fo_def asr_def focused_def task_of_def)
  with run have "k t s = Inr (x, s')" by (simp add: get_task_def tx_run)
  with assms F show "Q x s'" by (rule tripleD)
qed

text \<open>A task's transition, when it happens, is legal and sets the state.\<close>

lemma check_Inr: "check m s x target = Inr v \<Longrightarrow> target \<in> set (targets m s) \<and> v = (s, target)"
  by (auto simp: check_def allowed_from_def split: if_splits option.splits)

lemma Fo_task_transition:
  assumes k: "\<And>x. st \<in> set (targets TASK_FSM (t_state t)) \<Longrightarrow>
      triple (Fo X i (t\<lparr>t_state := st\<rparr>) o1) (k x) Q"
  shows "triple (Fo X i t o1) (bindT (task_transition i st actor reason) k) Q"
proof -
  have "triple (Fo X i t o1) (task_transition i st actor reason)
      (\<lambda>_ s. st \<in> set (targets TASK_FSM (t_state t)) \<and> Fo X i (t\<lparr>t_state := st\<rparr>) o1 s)"
    unfolding task_transition_def transition_def task_entity_def stateful.simps
  proof (rule Fo_get_task, rule triple_bind)
    show "triple (Fo X i t o1) (liftT (check TASK_FSM (t_state t) t st))
        (\<lambda>v s. st \<in> set (targets TASK_FSM (t_state t)) \<and> v = (t_state t, st) \<and> Fo X i t o1 s)"
      by (auto simp: triple_def tx_run split: sum.splits dest: check_Inr)
    show "triple (\<lambda>s. st \<in> set (targets TASK_FSM (t_state t)) \<and> v = (t_state t, st) \<and> Fo X i t o1 s)
        (case v of (current, target) \<Rightarrow> bindT (upd_task i (\<lambda>t. t\<lparr>t_state := target\<rparr>)) (\<lambda>_.
           add_transition (entity_type TASK_FSM) (t_company_id t) (t_id t)
             (state_value TASK_FSM current) (state_value TASK_FSM target) actor reason))
        (\<lambda>_ s. st \<in> set (targets TASK_FSM (t_state t)) \<and> Fo X i (t\<lparr>t_state := st\<rparr>) o1 s)" for v
    proof (cases "st \<in> set (targets TASK_FSM (t_state t)) \<and> v = (t_state t, st)")
      case True
      have "triple (Fo X i t o1) (bindT (upd_task i (\<lambda>t. t\<lparr>t_state := st\<rparr>)) (\<lambda>_.
           add_transition (entity_type TASK_FSM) (t_company_id t) (t_id t)
             (state_value TASK_FSM (t_state t)) (state_value TASK_FSM st) actor reason))
         (\<lambda>_. Fo X i (t\<lparr>t_state := st\<rparr>) o1)"
        by (rule Fo_upd_task) (simp_all add: Fo_def triple_frame frames_add_transition)
      with True show ?thesis by (simp add: triple_def)
    next
      case False
      then show ?thesis by (auto simp: triple_def)
    qed
  qed
  then show ?thesis
  proof (rule triple_bind)
    fix x
    show "triple (\<lambda>s. st \<in> set (targets TASK_FSM (t_state t)) \<and> Fo X i (t\<lparr>t_state := st\<rparr>) o1 s) (k x) Q"
      using k [of x] by (auto simp: triple_def)
  qed
qed

section \<open>Steps on the open run of the cell\<close>

text \<open>What an update of a run may not change.\<close>

definition run_keeps :: "(agent_run \<Rightarrow> agent_run) \<Rightarrow> bool" where
  "run_keeps g \<longleftrightarrow> (\<forall>r. r_id (g r) = r_id r \<and> r_task_id (g r) = r_task_id r \<and>
     r_agent_id (g r) = r_agent_id r \<and> r_attempt (g r) = r_attempt r)"

definition after_run :: "agent_run \<Rightarrow> agent_run option" where
  "after_run r = (if is_open_run r then Some r else None)"

lemma runs_of_update:
  "run_keeps g \<Longrightarrow> runs_of j (update_row r_id k g R) = update_row r_id k g (runs_of j R)"
  by (induction R) (auto simp: runs_of_def run_keeps_def)

lemma filter_open_update:
  assumes "filter is_open_run rs = [r]" "distinct (map r_id rs)"
  shows "filter is_open_run (update_row r_id (r_id r) g rs) =
    (case after_run (g r) of None \<Rightarrow> [] | Some r' \<Rightarrow> [r'])"
  using assms
proof (induction rs)
  case (Cons x xs)
  show ?case
  proof (cases "is_open_run x")
    case True
    with Cons.prems have "x = r" "filter is_open_run xs = []" "r_id r \<notin> r_id ` set xs" by auto
    then show ?thesis by (simp add: update_row_absent after_run_def)
  next
    case False
    with Cons.prems have "filter is_open_run xs = [r]" by simp
    moreover from this have "r \<in> set xs" by (simp add: filter_eq_Cons_iff) auto
    ultimately show ?thesis using Cons False by auto
  qed
qed simp

lemma agents_update:
  assumes g: "run_keeps g" and cl: "\<And>x. x \<in> set R \<Longrightarrow> r_id x = k \<Longrightarrow> is_open_run (g x) \<Longrightarrow> is_open_run x"
    and d: "distinct (map r_agent_id (filter is_open_run R))"
  shows "distinct (map r_agent_id (filter is_open_run (update_row r_id k g R)))"
proof -
  let ?h = "\<lambda>x. if r_id x = k then g x else x"
  have "map r_agent_id (filter is_open_run (update_row r_id k g R)) =
      map r_agent_id (filter (\<lambda>x. is_open_run (?h x)) R)"
    using g by (induction R) (auto simp: run_keeps_def)
  also have "filter (\<lambda>x. is_open_run (?h x)) R = filter (\<lambda>x. is_open_run (?h x)) (filter is_open_run R)"
    using cl by (auto simp: filter_filter intro!: filter_cong)
  finally have "map r_agent_id (filter is_open_run (update_row r_id k g R)) =
      map r_agent_id (filter (\<lambda>x. is_open_run (?h x)) (filter is_open_run R))" .
  then show ?thesis using distinct_map_filter [OF d] by (simp only:)
qed

lemma cell_open:
  assumes "cell R t (Some r)"
  shows "r \<in> set R" "r_task_id r = t_id t" "is_open_run r" "1 \<le> r_attempt r" "r_attempt r \<le> t_attempt t"
proof -
  have f: "filter is_open_run (runs_of (t_id t) R) = [r]" using assms by (simp add: cell_def)
  then have "r \<in> set (filter is_open_run (runs_of (t_id t) R))" by simp
  then have r: "r \<in> set (runs_of (t_id t) R)" "is_open_run r" by auto
  then show "r \<in> set R" "r_task_id r = t_id t" "is_open_run r" by (auto simp: runs_of_def)
  from r(1) assms show "1 \<le> r_attempt r" "r_attempt r \<le> t_attempt t" by (auto simp: cell_def)
qed

lemma distinct_runs_of: "distinct (map r_id R) \<Longrightarrow> distinct (map r_id (runs_of i R))"
  by (simp add: runs_of_def distinct_map_filter)

lemma cell_upd_run:
  assumes c: "cell R t (Some r)" and d: "distinct (map r_id R)" and g: "run_keeps g"
    and ok: "\<not> is_open_run (g r) \<Longrightarrow> run_checks (g r)"
  shows "cell (update_row r_id (r_id r) g R) t (after_run (g r))"
proof -
  have f: "filter is_open_run (runs_of (t_id t) R) = [r]" using c by (simp add: cell_def)
  have d': "distinct (map r_id (runs_of (t_id t) R))" using d by (rule distinct_runs_of)
  have r: "r \<in> set (runs_of (t_id t) R)" using cell_open [OF c] by (simp add: runs_of_def)
  have "(\<not> is_open_run u \<longrightarrow> run_checks u) \<and> 1 \<le> r_attempt u \<and> r_attempt u \<le> t_attempt t"
    if "u \<in> set (update_row r_id (r_id r) g (runs_of (t_id t) R))" for u
    using set_update_row [OF that]
  proof
    assume "\<exists>v\<in>set (runs_of (t_id t) R). r_id v = r_id r \<and> u = g v"
    then obtain v where v: "v \<in> set (runs_of (t_id t) R)" "r_id v = r_id r" "u = g v" by blast
    then have "v = r" using r d' by (auto simp: distinct_map dest: inj_onD)
    with v ok g cell_open [OF c] show ?thesis by (auto simp: run_keeps_def)
  next
    assume "u \<in> set (runs_of (t_id t) R) \<and> r_id u \<noteq> r_id r"
    with c show ?thesis by (auto simp: cell_def)
  qed
  then show ?thesis
    using filter_open_update [OF f d'] by (simp add: cell_def runs_of_update [OF g])
qed

lemma focused_upd_run:
  assumes foc: "focused X i t (Some r) T R" and g: "run_keeps g"
    and ok: "\<not> is_open_run (g r) \<Longrightarrow> run_checks (g r)"
  shows "focused X i t (after_run (g r)) T (update_row r_id (r_id r) g R)"
proof -
  let ?R = "update_row r_id (r_id r) g R"
  have c: "cell R t (Some r)" and cons: "consistent X {i} T R" and ti: "t_id t = i"
    using foc by (auto simp: focused_def dest: find_row_key)
  have d: "distinct (map r_id R)" using cons by (simp add: consistent_def)
  have "map r_id ?R = map r_id R" using g by (intro update_row_keys) (simp add: run_keeps_def)
  then have d': "distinct (map r_id ?R)" using d by simp
  have only: "x = r" if "x \<in> set R" "r_id x = r_id r" for x
    using that d cell_open(1) [OF c] by (auto simp: distinct_map dest: inj_onD)
  have "distinct (map r_agent_id (filter is_open_run ?R))"
    using cons only cell_open(3) [OF c] by (intro agents_update [OF g]) (auto simp: consistent_def)
  moreover have "\<forall>u \<in> set ?R. r_task_id u \<in> t_id ` set T"
    using cons g by (auto simp: consistent_def run_keeps_def dest!: set_update_row)
  moreover have "\<exists>o1. cell ?R u o1 \<and> fits X u o1" if u: "u \<in> set T" "t_id u \<noteq> i" for u
  proof -
    have "runs_of (t_id u) ?R = runs_of (t_id u) R"
      unfolding runs_of_update [OF g]
    proof (rule update_row_absent)
      show "r_id r \<notin> r_id ` set (runs_of (t_id u) R)"
        using only cell_open(2) [OF c] u(2) ti by (auto simp: runs_of_def)
    qed
    with cons u show ?thesis by (auto simp: consistent_def cell_def)
  qed
  ultimately have "consistent X {i} T ?R" using cons d' by (auto simp: consistent_def)
  with foc cell_upd_run [OF c d g ok] show ?thesis by (simp add: focused_def)
qed

lemma fresh_upd_run: "run_keeps g \<Longrightarrow> fresh R n \<Longrightarrow> fresh (update_row r_id k g R) n"
  using set_update_row [of _ r_id k g R] by (force simp: fresh_def run_keeps_def)

lemma Fo_upd_run:
  assumes g: "run_keeps g" and ok: "\<not> is_open_run (g r) \<Longrightarrow> run_checks (g r)" and k: "kk = r_id r"
    and cont: "triple (Fo X i t (after_run (g r))) (k ()) Q"
  shows "triple (Fo X i t (Some r)) (bindT (upd_run kk g) k) Q"
proof (rule triple_bind)
  show "triple (Fo X i t (Some r)) (upd_run kk g) (\<lambda>_. Fo X i t (after_run (g r)))"
    using focused_upd_run [OF _ g ok] fresh_upd_run [OF g]
    by (auto simp: triple_def upd_run_def tx_run Fo_def asr_def k)
  show "triple (Fo X i t (after_run (g r))) (k x) Q" for x :: unit using cont by simp
qed

lemma Fo_get_run:
  assumes k: "kk = r_id r" and cont: "triple (Fo X i t (Some r)) (k r) Q"
  shows "triple (Fo X i t (Some r)) (bindT (get_run kk) k) Q"
proof (rule tripleI)
  fix s x s'
  assume F: "Fo X i t (Some r) s" and run: "bindT (get_run kk) k s = Inr (x, s')"
  have "distinct (map r_id (runs s))" "r \<in> set (runs s)"
    using F cell_open(1) [of "runs s" t r] by (auto simp: Fo_def asr_def focused_def consistent_def)
  then have "run_of s kk = Some r" using find_row_unique [of r_id "runs s" r] by (simp add: run_of_def k)
  with run have "k r s = Inr (x, s')" by (simp add: get_run_def tx_run)
  with cont F show "Q x s'" by (rule tripleD)
qed

lemma terminal_iff: "targets AGENT_RUN_FSM st = [] \<longleftrightarrow> st \<in> set AGENT_RUN_TERMINAL"
  by (cases st) (simp_all add: targets_def AGENT_RUN_FSM_def AGENT_RUN_TERMINAL_def)

lemma Fo_run_transition:
  assumes k: "kk = r_id r" and open1: "st \<notin> set AGENT_RUN_TERMINAL \<or> run_checks (r\<lparr>r_state := st\<rparr>)"
    and cont: "\<And>x. st \<in> set (targets AGENT_RUN_FSM (r_state r)) \<Longrightarrow>
      triple (Fo X i t (after_run (r\<lparr>r_state := st\<rparr>))) (k x) Q"
  shows "triple (Fo X i t (Some r)) (bindT (run_transition kk st actor reason) k) Q"
proof -
  let ?A = "Fo X i t (after_run (r\<lparr>r_state := st\<rparr>))"
  let ?legal = "st \<in> set (targets AGENT_RUN_FSM (r_state r))"
  have "triple (Fo X i t (Some r)) (run_transition kk st actor reason) (\<lambda>_ s. ?legal \<and> ?A s)"
    unfolding run_transition_def transition_def run_entity_def stateful.simps
  proof (rule Fo_get_run [OF k], rule triple_bind)
    show "triple (Fo X i t (Some r)) (liftT (check AGENT_RUN_FSM (r_state r) r st))
        (\<lambda>v s. ?legal \<and> v = (r_state r, st) \<and> Fo X i t (Some r) s)"
      by (auto simp: triple_def tx_run split: sum.splits dest: check_Inr)
    show "triple (\<lambda>s. ?legal \<and> v = (r_state r, st) \<and> Fo X i t (Some r) s)
        (case v of (current, target) \<Rightarrow> bindT (upd_run kk (\<lambda>r. r\<lparr>r_state := target\<rparr>)) (\<lambda>_.
           add_transition (entity_type AGENT_RUN_FSM) (r_company_id r) (r_id r)
             (state_value AGENT_RUN_FSM current) (state_value AGENT_RUN_FSM target) actor reason))
        (\<lambda>_ s. ?legal \<and> ?A s)" for v
    proof (cases "?legal \<and> v = (r_state r, st)")
      case True
      have "triple (Fo X i t (Some r)) (bindT (upd_run kk (\<lambda>r. r\<lparr>r_state := st\<rparr>)) (\<lambda>_.
           add_transition (entity_type AGENT_RUN_FSM) (r_company_id r) (r_id r)
             (state_value AGENT_RUN_FSM (r_state r)) (state_value AGENT_RUN_FSM st) actor reason))
         (\<lambda>_. ?A)"
        by (rule Fo_upd_run)
          (use open1 k in \<open>auto simp: run_keeps_def is_open_run_def Fo_def triple_frame frames_add_transition\<close>)
      with True show ?thesis by (simp add: triple_def)
    next
      case False
      then show ?thesis by (auto simp: triple_def)
    qed
  qed
  then show ?thesis
  proof (rule triple_bind)
    fix x
    show "triple (\<lambda>s. ?legal \<and> ?A s) (k x) Q" using cont [of x] by (auto simp: triple_def)
  qed
qed

end
