(* ===== verification/RuntimeInv.thy ===== *)
theory RuntimeInv
  imports Cells
begin

text \<open>
  Every operation of the task manager keeps tasks and runs consistent (\<open>Rt\<close>), whatever the
  workflow engine's hooks do, as long as the hooks keep it too.
\<close>

section \<open>Ending a run\<close>

lemma triple_assume: "(\<And>s. P s \<Longrightarrow> C) \<Longrightarrow> (C \<Longrightarrow> triple P m Q) \<Longrightarrow> triple P m Q"
  unfolding triple_def by blast

lemma Fo_open_run:
  assumes "Fo X i t (Some r) s"
  shows "is_open_run r \<and> 1 \<le> r_attempt r \<and> r_attempt r \<le> t_attempt t \<and> r_task_id r = i"
  using assms cell_open [of "runs s" t r] Fo_id [OF assms] by (auto simp: Fo_def asr_def focused_def)

lemma liftT_Inr_iff: "liftT v s = Inr (x, s') \<longleftrightarrow> v = Inr x \<and> s' = s"
  by (cases v) (auto simp: run_liftT)

lemma hops_butlast: "hops m s p g \<Longrightarrow> x \<in> set (butlast p) \<Longrightarrow> targets m x \<noteq> []"
proof (induction p arbitrary: s)
  case (Cons y ys)
  then show ?case by (cases ys) auto
qed simp

lemma hops_butlast_end: "hops m s p g \<Longrightarrow> p \<noteq> [] \<Longrightarrow> \<exists>y. hops m s (butlast p) y \<and> g \<in> set (targets m y)"
  by (cases p rule: rev_cases) (auto simp: hops_snoc)

lemma Fo_hops:
  assumes "hops AGENT_RUN_FSM (r_state r) p g" "\<And>st. st \<in> set p \<Longrightarrow> st \<notin> set AGENT_RUN_TERMINAL"
    and "kk = r_id r"
  shows "triple (Fo X i t (Some r)) (mapT p (\<lambda>hop. run_transition kk hop actor reason))
    (\<lambda>_. Fo X i t (Some (r\<lparr>r_state := g\<rparr>)))"
  using assms
proof (induction p arbitrary: r)
  case Nil
  then have "r\<lparr>r_state := g\<rparr> = r" by (cases r) simp
  then show ?case by (simp add: triple_def tx_run)
next
  case (Cons st p)
  let ?r = "r\<lparr>r_state := st\<rparr>"
  have st: "after_run ?r = Some ?r" using Cons.prems(2) by (simp add: after_run_def is_open_run_def)
  have "triple (Fo X i t (Some ?r)) (mapT p (\<lambda>hop. run_transition kk hop actor reason))
      (\<lambda>_. Fo X i t (Some (?r\<lparr>r_state := g\<rparr>)))"
    using Cons.prems by (intro Cons.IH) auto
  then have "triple (Fo X i t (after_run ?r))
      (bindT (mapT p (\<lambda>hop. run_transition kk hop actor reason)) (\<lambda>ys. returnT (y # ys)))
      (\<lambda>_. Fo X i t (Some (r\<lparr>r_state := g\<rparr>)))" for y
    unfolding st by (rule triple_bind) (simp add: triple_def tx_run)
  then show ?case
    unfolding mapT.simps using Cons.prems(2,3) by (intro Fo_run_transition) auto
qed

lemma Fo_finish_run:
  assumes kk: "kk = r_id r" and done_state: "target \<in> set AGENT_RUN_TERMINAL"
    and cont: "triple (Fo X i t None) (k ()) Q"
  shows "triple (Fo X i t (Some r)) (bindT (finish_run kk target now) k) Q"
proof (rule triple_assume [OF Fo_open_run], assumption)
  assume "is_open_run r \<and> 1 \<le> r_attempt r \<and> r_attempt r \<le> t_attempt t \<and> r_task_id r = i"
  then have o1: "is_open_run r" and a: "1 \<le> r_attempt r" by auto
  have main: "triple (Fo X i t (Some r)) (finish_run kk target now) (\<lambda>_. Fo X i t None)"
    unfolding finish_run_def
  proof (rule Fo_get_run [OF kk], rule triple_bind)
    show "triple (Fo X i t (Some r)) (liftT (shortest_path AGENT_RUN_FSM (r_state r) target))
        (\<lambda>p s. hops AGENT_RUN_FSM (r_state r) p target \<and> p \<noteq> [] \<and> Fo X i t (Some r) s)"
    proof (rule tripleI)
      fix s p s'
      assume F: "Fo X i t (Some r) s"
        and run: "liftT (shortest_path AGENT_RUN_FSM (r_state r) target) s = Inr (p, s')"
      from run have sp: "shortest_path AGENT_RUN_FSM (r_state r) target = Inr p" and "s' = s"
        by (simp_all only: liftT_Inr_iff)
      moreover have "r_state r \<noteq> target" using o1 done_state by (auto simp: is_open_run_def)
      ultimately show "hops AGENT_RUN_FSM (r_state r) p target \<and> p \<noteq> [] \<and> Fo X i t (Some r) s'"
        using F shortest_path_hops [OF sp] shortest_path_Nil [OF sp] by simp
    qed
    fix p
    show "triple (\<lambda>s. hops AGENT_RUN_FSM (r_state r) p target \<and> p \<noteq> [] \<and> Fo X i t (Some r) s)
        (bindT (mapT (butlast p) (\<lambda>hop. run_transition kk hop tm_actor None)) (\<lambda>_.
         bindT (upd_run kk (\<lambda>r. r\<lparr>r_finished_at := Some now\<rparr>)) (\<lambda>_.
         bindT (someT (last_some p) (KeyError ''path'')) (\<lambda>final.
         bindT (run_transition kk final tm_actor None) (\<lambda>_. returnT ())))))
        (\<lambda>_. Fo X i t None)"
    proof (rule triple_assume)
      fix s assume "hops AGENT_RUN_FSM (r_state r) p target \<and> p \<noteq> [] \<and> Fo X i t (Some r) s"
      then show "hops AGENT_RUN_FSM (r_state r) p target \<and> p \<noteq> []" by simp
    next
      assume p: "hops AGENT_RUN_FSM (r_state r) p target \<and> p \<noteq> []"
      obtain y where y: "hops AGENT_RUN_FSM (r_state r) (butlast p) y"
        "target \<in> set (targets AGENT_RUN_FSM y)"
        using hops_butlast_end [OF conjunct1 [OF p] conjunct2 [OF p]] by (elim exE conjE)
      have non: "st \<notin> set AGENT_RUN_TERMINAL" if "st \<in> set (butlast p)" for st
        using hops_butlast [OF conjunct1 [OF p] that] by (simp add: terminal_iff)
      have yo: "y \<notin> set AGENT_RUN_TERMINAL" using y(2) by (auto simp: terminal_iff [symmetric])
      have fin: "last_some p = Some target"
        using hops_last [of AGENT_RUN_FSM "r_state r" p target] p
        by (cases p rule: rev_cases) (auto simp: last_some_def first_some_def)
      let ?r = "r\<lparr>r_state := y\<rparr>" and ?f = "r\<lparr>r_state := y, r_finished_at := Some now\<rparr>"
      have "triple (Fo X i t (Some r))
          (bindT (mapT (butlast p) (\<lambda>hop. run_transition kk hop tm_actor None)) (\<lambda>_.
           bindT (upd_run kk (\<lambda>r. r\<lparr>r_finished_at := Some now\<rparr>)) (\<lambda>_.
           bindT (run_transition kk target tm_actor None) (\<lambda>_. returnT ()))))
          (\<lambda>_. Fo X i t None)"
      proof (rule triple_bind [OF Fo_hops [OF y(1) non kk]], assumption)
        have u: "after_run ?f = Some ?f" using yo by (simp add: after_run_def is_open_run_def)
        have v: "after_run (?f\<lparr>r_state := target\<rparr>) = None" "run_checks (?f\<lparr>r_state := target\<rparr>)"
          using done_state a by (simp_all add: after_run_def is_open_run_def run_checks_def finished_iff_terminal_def)
        have last: "triple (Fo X i t (Some ?f))
            (bindT (run_transition kk target tm_actor None) (\<lambda>_. returnT ())) (\<lambda>_. Fo X i t None)"
          using kk v by (intro Fo_run_transition) (simp_all add: triple_def tx_run)
        show "triple (Fo X i t (Some ?r)) (bindT (upd_run kk (\<lambda>r. r\<lparr>r_finished_at := Some now\<rparr>)) (\<lambda>_.
           bindT (run_transition kk target tm_actor None) (\<lambda>_. returnT ()))) (\<lambda>_. Fo X i t None)"
          using kk yo u last
          by (intro Fo_upd_run) (simp_all add: run_keeps_def is_open_run_def after_run_def)
      qed
      then show ?thesis
        unfolding fin someT_def option.case bindT_returnT by (rule triple_pre) simp
    qed
  qed
  from main show ?thesis by (rule triple_bind) (use cont in simp)
qed

lemma Fo_abort_run:
  assumes kk: "kk = r_id r" and cont: "triple (Fo X i t None) (k ()) Q"
  shows "triple (Fo X i t (Some r)) (bindT (abort_run kk reason message) k) Q"
proof (rule triple_assume [OF Fo_open_run], assumption)
  assume "is_open_run r \<and> 1 \<le> r_attempt r \<and> r_attempt r \<le> t_attempt t \<and> r_task_id r = i"
  then show ?thesis
    unfolding abort_run_def bindT_assoc
    by (intro Fo_upd_run Fo_frame [OF frames_gets] assms)
      (use kk cont in \<open>auto simp: run_keeps_def is_open_run_def after_run_def AGENT_RUN_TERMINAL_def
        intro!: Fo_finish_run\<close>)
qed

lemma Fo_release_lease:
  assumes "triple (Fo X i (t\<lparr>t_lease_owner := None, t_lease_until := None, t_lease_token := None\<rparr>) o1) (k ()) Q"
  shows "triple (Fo X i t o1) (bindT (release_lease i) k) Q"
  unfolding release_lease_def by (rule Fo_upd_task) (use assms in simp_all)

end
