(* ===== verification/TaskOps.thy ===== *)
theory TaskOps
  imports RuntimeInv
begin

text \<open>
  The task manager's operations, one by one: each keeps \<open>Rt\<close>. The two locales state what the
  operations need of the hooks: the hook on a failed task, then also the hook on a finished one
  and the links of the domains.
\<close>

definition no_lease :: "task \<Rightarrow> task" where
  "no_lease t = t\<lparr>t_lease_owner := None, t_lease_until := None, t_lease_token := None\<rparr>"

lemma no_lease_simps [simp]:
  "t_id (no_lease t) = t_id t" "t_state (no_lease t) = t_state t"
  "t_attempt (no_lease t) = t_attempt t" "t_max_attempts (no_lease t) = t_max_attempts t"
  "t_lease_owner (no_lease t) = None" "t_lease_until (no_lease t) = None"
  "t_lease_token (no_lease t) = None"
  by (simp_all add: no_lease_def)

lemma Fo_release:
  "triple (Fo X i (no_lease t) o1) (k ()) Q \<Longrightarrow> triple (Fo X i t o1) (bindT (release_lease i) k) Q"
  unfolding no_lease_def by (rule Fo_release_lease)

lemma find_filter: "find P xs = first_some (filter P xs)"
  by (induction xs) (auto simp: first_some_def)

lemma open_run_of_task_cell: "Fo X i t o1 s \<Longrightarrow> open_run_of_task i s = o1"
proof -
  assume F: "Fo X i t o1 s"
  then have "filter is_open_run (runs_of i (runs s)) = (case o1 of None \<Rightarrow> [] | Some r \<Rightarrow> [r])"
    using Fo_id [OF F] by (auto simp: Fo_def asr_def focused_def cell_def)
  then have "filter (\<lambda>r. r_task_id r = i \<and> is_open_run r) (runs s) =
      (case o1 of None \<Rightarrow> [] | Some r \<Rightarrow> [r])"
    by (simp add: runs_of_def filter_filter conj_commute)
  then show ?thesis
    by (cases o1) (simp_all add: open_run_of_task_def find_filter first_some_def)
qed

lemma Fo_open_run_of_task:
  assumes "triple (Fo X i t o1) (k o1) Q"
  shows "triple (Fo X i t o1) (bindT (getsT (open_run_of_task i)) k) Q"
proof (rule tripleI)
  fix s x s'
  assume F: "Fo X i t o1 s" and run: "bindT (getsT (open_run_of_task i)) k s = Inr (x, s')"
  have "k o1 s = Inr (x, s')" using run open_run_of_task_cell [OF F] by (simp add: tx_run)
  with assms F show "Q x s'" by (rule tripleD)
qed

text \<open>When a cell without an open run fits again.\<close>

lemma fits_closed:
  assumes "task_checks t" "X (t_id t) = None" "t_state t \<noteq> T_RUNNING"
  shows "fits X t None"
proof -
  have "coupled (t_state t) None" using assms(3) by (cases "t_state t") simp_all
  with assms show ?thesis by (simp add: fits_def open_checks_def)
qed

lemma task_checks_idle:
  assumes "task_checks t" "st \<noteq> T_RUNNING" "t_attempt u = t_attempt t" "t_max_attempts u = t_max_attempts t"
    "t_state u = st" "t_lease_owner u = None"
  shows "task_checks u"
  using assms by (simp add: task_checks_def lease_iff_running_def)

lemma fits_checks: "fits X t o1 \<Longrightarrow> task_checks t"
  by (simp add: fits_def)

lemma fits_not_exempt: "fits X t o1 \<Longrightarrow> t_state t \<noteq> T_SUCCEEDED \<Longrightarrow> X (t_id t) = None"
  by (auto simp: fits_def split: option.splits)

lemma fits_coupled: "fits X t o1 \<Longrightarrow> X (t_id t) = None \<Longrightarrow> coupled (t_state t) o1"
  by (simp add: fits_def)

lemma no_lease_row: "task_checks t \<Longrightarrow> t_state t \<noteq> T_RUNNING \<Longrightarrow>
  \<not> (t_lease_owner t \<noteq> None \<and> t_lease_until t \<noteq> None \<and> t_lease_token t \<noteq> None)"
  by (simp add: task_checks_def lease_iff_running_def)

lemma terminal_task_iff: "is_terminal TASK_FSM st \<longleftrightarrow> st \<in> {T_SUCCEEDED, T_FAILED, T_CANCELLED}"
  by (cases st) (simp_all add: is_terminal_def allowed_from_def targets_def TASK_FSM_def)

section \<open>Moves of a task without an open run\<close>

text \<open>From a state with no run attached to one with no run attached.\<close>

lemma move_closed:
  assumes c: "task_checks t" and x: "X (t_id t) = None" and n: "t_state t \<noteq> T_RUNNING" and st: "st \<noteq> T_RUNNING"
    and k: "\<And>x. keeps (Rt X) (k x)"
  shows "triple (Fo X i t None) (bindT (task_transition i st actor reason) k) (\<lambda>_. Rt X)"
proof (rule Fo_task_transition)
  fix x
  have "task_checks (t\<lparr>t_state := st\<rparr>)"
    using c n st by (simp add: task_checks_def lease_iff_running_def)
  then have "fits X (t\<lparr>t_state := st\<rparr>) None" using x st by (intro fits_closed) simp_all
  then show "triple (Fo X i (t\<lparr>t_state := st\<rparr>) None) (k x) (\<lambda>_. Rt X)" using k by (rule keeps_close)
qed

lemma mark_ready_closed:
  assumes "task_checks t" "X (t_id t) = None" "t_state t \<noteq> T_RUNNING"
  shows "triple (Fo X i t None) (mark_ready i) (\<lambda>_. Rt X)"
  unfolding mark_ready_def
  by (rule move_closed [where X = X and t = t, OF assms]) (simp_all add: keeps_frame frame_intros)

section \<open>A new task\<close>

lemma find_row_snoc_new: "k \<notin> key ` set rs \<Longrightarrow> key r = k \<Longrightarrow> find_row key k (rs @ [r]) = Some r"
  by (induction rs) auto

lemma consistent_add_task:
  assumes c: "consistent X {} T R" and new: "t_id t \<notin> t_id ` set T"
  shows "focused X (t_id t) t None (T @ [t]) R" "X (t_id t) = None"
proof -
  have none: "runs_of (t_id t) R = []"
  proof -
    have "r_task_id r \<noteq> t_id t" if "r \<in> set R" for r
      using c new that by (metis consistent_def)
    then show ?thesis by (simp add: runs_of_def filter_empty_conv)
  qed
  have "consistent X {t_id t} (T @ [t]) R" using c new by (auto simp: consistent_def)
  moreover have "cell R t None" by (simp add: cell_def none)
  ultimately show "focused X (t_id t) t None (T @ [t]) R"
    using find_row_snoc_new [OF new] by (simp add: focused_def)
  show "X (t_id t) = None" using c new by (auto simp: consistent_def)
qed

lemma triple_add_task_row:
  assumes "t_id t = i" "task_checks t" "t_state t \<noteq> T_RUNNING"
    and "X i = None \<Longrightarrow> triple (Fo X i t None) (k ()) Q"
  shows "triple (\<lambda>s. Rt X s \<and> task_of s i = None)
    (bindT (modifyT (\<lambda>s. s\<lparr>tasks := tasks s @ [t]\<rparr>)) k) Q"
proof (rule tripleI)
  fix s x s'
  assume s: "Rt X s \<and> task_of s i = None"
    and run: "bindT (modifyT (\<lambda>s. s\<lparr>tasks := tasks s @ [t]\<rparr>)) k s = Inr (x, s')"
  let ?s = "s\<lparr>tasks := tasks s @ [t]\<rparr>"
  have "i \<notin> t_id ` set (tasks s)" using s by (simp add: task_of_def find_row_None_iff)
  then have "focused X i t None (tasks s @ [t]) (runs s)" "X i = None"
    using s consistent_add_task [of X "tasks s" "runs s" t] assms(1) by (auto simp: Rt_def asr_def)
  then have "Fo X i t None ?s" "X i = None" using s by (simp_all add: Fo_def Rt_def asr_def)
  moreover have "k () ?s = Inr (x, s')" using run by (simp add: tx_run)
  ultimately show "Q x s'" using assms(4) by (auto dest: tripleD)
qed

lemma add_task_keeps: "keeps (Rt X) (add_task nt)"
  unfolding add_task_def keeps_def
proof (rule triple_bind)
  show "triple (Rt X) (case nt_task_id nt of Some i \<Rightarrow> returnT i | None \<Rightarrow> uuid7) (\<lambda>_. Rt X)"
    using keeps_frame [of "case nt_task_id nt of Some i \<Rightarrow> returnT i | None \<Rightarrow> uuid7" X]
    by (simp add: keeps_def frame_intros option.case_eq_if)
next
  fix i
  let ?t = "\<lambda>now. \<lparr>t_id = i, t_company_id = nt_company_id nt, t_project_id = nt_project_id nt,
              t_workflow_run_id = nt_workflow_run_id nt, t_cycle_id = nt_cycle_id nt,
              t_name = nt_name nt, t_display_name = nt_display_name nt,
              t_required_role = nt_required_role nt, t_state = T_PENDING,
              t_depends_on = nt_depends_on nt, t_input = nt_input nt, t_output = None,
              t_output_schema_ref = nt_output_schema_ref nt, t_attempt = 0,
              t_max_attempts = nt_max_attempts nt, t_budget_usd = nt_budget_usd nt,
              t_priority = nt_priority nt, t_available_at = None, t_lease_owner = None,
              t_lease_until = None, t_lease_token = None, t_created_at = now\<rparr>"
  let ?rest = "\<lambda>t. bindT (modifyT (\<lambda>s. s\<lparr>tasks := tasks s @ [t]\<rparr>)) (\<lambda>_.
        bindT (tm_emit i (TaskP (TaskCreated (nt_name nt) (nt_display_name nt)
           (nt_required_role nt) (nt_depends_on nt) (nt_workflow_run_id nt) (nt_budget_usd nt)))
           None) (\<lambda>_.
        bindT (if (case nt_ready nt of Some b \<Rightarrow> b | None \<Rightarrow> nt_depends_on nt = [])
               then mark_ready i else mark_idle_agents_waiting i) (\<lambda>_.
        returnT i)))"
  have row: "triple (\<lambda>s. Rt X s \<and> task_of s i = None) (?rest (?t now)) (\<lambda>_. Rt X)"
    if "1 \<le> nt_max_attempts nt" for now
  proof (rule triple_add_task_row)
    show c: "task_checks (?t now)" using that by (simp add: task_checks_def lease_iff_running_def)
    assume x: "X i = None"
    have "triple (Fo X i (?t now) None) (if (case nt_ready nt of Some b \<Rightarrow> b | None \<Rightarrow> nt_depends_on nt = [])
               then mark_ready i else mark_idle_agents_waiting i) (\<lambda>_. Rt X)"
    proof (cases "case nt_ready nt of Some b \<Rightarrow> b | None \<Rightarrow> nt_depends_on nt = []")
      case True
      then show ?thesis using mark_ready_closed [of "?t now" X i] c x by simp
    next
      case False
      have "fits X (?t now) None" using c x by (intro fits_closed) simp_all
      then have "triple (Fo X i (?t now) None) (mark_idle_agents_waiting i) (\<lambda>_. Rt X)"
        using keeps_frame [OF frames_mark_idle_agents_waiting] by (rule keeps_close)
      with False show ?thesis by simp
    qed
    then have "triple (Fo X i (?t now) None) (bindT (if (case nt_ready nt of Some b \<Rightarrow> b | None \<Rightarrow> nt_depends_on nt = [])
               then mark_ready i else mark_idle_agents_waiting i) (\<lambda>_. returnT i)) (\<lambda>_. Rt X)"
      by (rule triple_bind) (simp add: triple_def tx_run)
    then show "triple (Fo X i (?t now) None) (bindT (tm_emit i (TaskP (TaskCreated (nt_name nt) (nt_display_name nt)
           (nt_required_role nt) (nt_depends_on nt) (nt_workflow_run_id nt) (nt_budget_usd nt)))
           None) (\<lambda>_.
        bindT (if (case nt_ready nt of Some b \<Rightarrow> b | None \<Rightarrow> nt_depends_on nt = [])
               then mark_ready i else mark_idle_agents_waiting i) (\<lambda>_. returnT i))) (\<lambda>_. Rt X)"
      by (rule Fo_frame [OF frames_tm_emit])
  qed simp_all
  show "triple (Rt X) (bindT (getsT (\<lambda>s. task_of s i)) (\<lambda>existing.
     bindT (checkT (existing = None \<and> 1 \<le> nt_max_attempts nt) (IntegrityError ''tasks'')) (\<lambda>_.
     bindT (getsT clock) (\<lambda>now. let t = ?t now in ?rest t)))) (\<lambda>_. Rt X)"
  proof (rule triple_bind_gets, rule triple_bind_check, rule triple_bind_gets)
    fix existing :: "task option" and now
    assume "existing = None \<and> 1 \<le> nt_max_attempts nt"
    then show "triple (\<lambda>s. (Rt X s \<and> task_of s i = existing) \<and> clock s = now)
        (let t = ?t now in ?rest t) (\<lambda>_. Rt X)"
      unfolding Let_def using row [of now] by (intro triple_pre [OF row]) auto
  qed
qed

lemma idle_checks: "task_checks t \<Longrightarrow> st \<noteq> T_RUNNING \<Longrightarrow> task_checks ((no_lease t)\<lparr>t_state := st\<rparr>)"
  by (simp add: task_checks_def lease_iff_running_def)

text \<open>Ending whatever run the cell has open.\<close>

lemma Fo_abort_open:
  "triple (Fo X i t None) (k ()) Q \<Longrightarrow>
   triple (Fo X i t o1)
     (bindT (case o1 of None \<Rightarrow> returnT () | Some r \<Rightarrow> abort_run (r_id r) reason message) k) Q"
  by (cases o1) (simp_all add: bindT_returnT Fo_abort_run)

lemmas cell_steps = Fo_release Fo_open_run_of_task Fo_abort_open Fo_task_transition

section \<open>What the operations need of the hooks\<close>

locale failed_contract =
  fixes tm :: task_manager
  assumes failed_keeps: "\<And>X i. keeps (Rt X) (failed_hook tm i)"
begin

text \<open>The end of an operation: the cell has no open run any more, the hook goes on.\<close>

lemma close_failed:
  assumes "task_checks t" "X (t_id t) = None" "t_state t \<noteq> T_RUNNING"
  shows "triple (Fo X i t None) (failed_hook tm j) (\<lambda>_. Rt X)"
  using fits_closed [of t X] assms failed_keeps by (intro keeps_close) auto

lemma cancel_keeps: "keeps (Rt X) (cancel_task tm i reason)"
  unfolding keeps_def cancel_task_def
proof (rule open_get_task, goal_cases)
  case (1 t o1)
  show ?case
  proof (cases "is_terminal TASK_FSM (t_state t)")
    case True
    then show ?thesis using 1 by (simp add: keeps_close keeps_return)
  next
    case False
    then have x: "X (t_id t) = None" using 1 by (intro fits_not_exempt) (auto simp: terminal_task_iff)
    have c: "task_checks ((no_lease t)\<lparr>t_state := T_CANCELLED\<rparr>)"
      using 1 by (intro idle_checks fits_checks) simp_all
    from False show ?thesis
      by (simp only: if_False)
        ((rule cell_steps | rule Fo_frame, (intro frame_intros; fail))+,
         rule close_failed [OF c], use x in simp_all)
  qed
qed

end

section \<open>Claims\<close>

text \<open>A claim is of a run of its task; \<open>claim_next\<close> returns only such claims.\<close>

definition claim_ok :: "claim \<Rightarrow> db \<Rightarrow> bool" where
  "claim_ok c s \<longleftrightarrow> (\<forall>r. run_of s (cl_run_id c) = Some r \<longrightarrow> r_task_id r = cl_task_id c)"

lemma locked_task_Inr:
  "locked_task c s = Inr (t, s') \<Longrightarrow>
   s' = s \<and> task_of s (cl_task_id c) = Some t \<and> t_state t = T_RUNNING \<and> t_lease_token t = Some (cl_token c)"
  by (auto simp: locked_task_def tx_run split: option.splits if_splits)

lemma claimed_run_Inr:
  "claimed_run c s = Inr (r, s') \<Longrightarrow> s' = s \<and> run_of s (cl_run_id c) = Some r \<and> is_open_run r"
  by (auto simp: claimed_run_def tx_run split: option.splits if_splits)

lemma open_locked_task:
  assumes "\<And>t o1. t_state t = T_RUNNING \<Longrightarrow> t_lease_token t = Some (cl_token c) \<Longrightarrow>
    fits X t o1 \<Longrightarrow> X (t_id t) = None \<Longrightarrow> triple (Fo X (t_id t) t o1) (k t) Q"
  shows "triple (Rt X) (bindT (locked_task c) k) Q"
proof (rule tripleI)
  fix s x s'
  assume R: "Rt X s" and run: "bindT (locked_task c) k s = Inr (x, s')"
  then obtain t where t: "task_of s (cl_task_id c) = Some t" "t_state t = T_RUNNING"
    "t_lease_token t = Some (cl_token c)" and k: "k t s = Inr (x, s')"
    by (auto simp: bindT_Inr_iff dest: locked_task_Inr)
  obtain o1 where o1: "Fo X (cl_task_id c) t o1 s" "fits X t o1" "t_id t = cl_task_id c"
    using Rt_open [OF R t(1)] .
  have "X (t_id t) = None" using o1(2) t(2) by (intro fits_not_exempt) simp_all
  with assms [OF t(2,3) o1(2)] o1 k show "Q x s'" by (auto dest: tripleD)
qed

lemma Fo_owns:
  assumes F: "Fo X i t o1 s" and r: "r \<in> set (runs s)" "is_open_run r" "r_task_id r = i"
  shows "o1 = Some r"
proof -
  have "r \<in> set (filter is_open_run (runs_of i (runs s)))" using r by (simp add: runs_of_def)
  moreover have "filter is_open_run (runs_of i (runs s)) = (case o1 of None \<Rightarrow> [] | Some r \<Rightarrow> [r])"
    using F Fo_id [OF F] by (auto simp: Fo_def asr_def focused_def cell_def)
  ultimately show ?thesis by (cases o1) auto
qed

lemma open_claim:
  assumes "\<And>t r. t_state t = T_RUNNING \<Longrightarrow> fits X t (Some r) \<Longrightarrow> X (t_id t) = None \<Longrightarrow>
    r_id r = cl_run_id c \<Longrightarrow> triple (Fo X (t_id t) t (Some r)) (k t r) Q"
  shows "triple (\<lambda>s. Rt X s \<and> claim_ok c s)
    (bindT (locked_task c) (\<lambda>t. bindT (claimed_run c) (k t))) Q"
proof (rule tripleI)
  fix s x s'
  assume s: "Rt X s \<and> claim_ok c s"
    and run: "bindT (locked_task c) (\<lambda>t. bindT (claimed_run c) (k t)) s = Inr (x, s')"
  then obtain t r where t: "task_of s (cl_task_id c) = Some t" "t_state t = T_RUNNING"
    and r: "run_of s (cl_run_id c) = Some r" "is_open_run r" and k: "k t r s = Inr (x, s')"
    by (auto simp: bindT_Inr_iff dest!: locked_task_Inr claimed_run_Inr)
  obtain o1 where o1: "Fo X (cl_task_id c) t o1 s" "fits X t o1" "t_id t = cl_task_id c"
    using Rt_open [OF conjunct1 [OF s] t(1)] .
  have "r_task_id r = cl_task_id c" using s r(1) by (simp add: claim_ok_def)
  moreover have "r \<in> set (runs s)" using r(1) by (auto simp: run_of_def dest: find_row_in)
  ultimately have o: "o1 = Some r" using Fo_owns [OF o1(1)] r(2) by simp
  have "X (t_id t) = None" using o1(2) t(2) by (intro fits_not_exempt) simp_all
  moreover have "r_id r = cl_run_id c" using r(1) by (auto simp: run_of_def dest: find_row_key)
  ultimately show "Q x s'" using assms [of t r] t(2) o1 o k by (auto dest: tripleD)
qed

lemma heartbeat_keeps: "keeps (Rt X) (heartbeat tm c)"
  unfolding keeps_def heartbeat_def
proof (rule open_locked_task, rule Fo_frame [OF frames_gets], rule Fo_upd_task, goal_cases)
  case (3 t o1 now)
  have "fits X (t\<lparr>t_lease_until := Some (now + tm_lease tm)\<rparr>) o1"
    using 3 by (simp add: fits_def task_checks_def lease_iff_running_def)
  then show ?case by (rule keeps_close) (rule keeps_return)
qed simp_all

section \<open>Handing the cell to the engine\<close>

text \<open>
  A task that succeeded while its run is still to be finished: the hook sees the cell as exempt
  and gives it back with the same open run.
\<close>

lemma fits_other: "t_id u \<noteq> i \<Longrightarrow> fits (X(i \<mapsto> r)) u o1 = fits X u o1"
  by (simp add: fits_def)

lemma Fo_lend:
  assumes F: "Fo X i t (Some r) s" and x: "X i = None"
    and t: "t_state t = T_SUCCEEDED" "task_checks t" "run_checks r"
  shows "Rt (X(i \<mapsto> r)) s"
proof -
  have i: "t_id t = i" using Fo_id [OF F] .
  have foc: "focused X i t (Some r) (tasks s) (runs s)" using F by (simp add: Fo_def asr_def)
  then have ti: "i \<in> t_id ` set (tasks s)" using i by (auto simp: focused_def dest!: find_row_in)
  have "consistent (X(i \<mapsto> r)) {i} (tasks s) (runs s)"
    using foc ti by (auto simp: focused_def consistent_def fits_other)
  then have "focused (X(i \<mapsto> r)) i t (Some r) (tasks s) (runs s)" using foc by (simp add: focused_def)
  moreover have "fits (X(i \<mapsto> r)) t (Some r)" using i t by (simp add: fits_def open_checks_def)
  ultimately show ?thesis using F consistent_close by (auto simp: Rt_def Fo_def asr_def)
qed

lemma Fo_regain:
  assumes R: "Rt (X(i \<mapsto> r)) s" and x: "X i = None"
  obtains t where "Fo X i t (Some r) s" "t_state t = T_SUCCEEDED" "task_checks t" "run_checks r" "t_id t = i"
proof -
  have "i \<in> t_id ` set (tasks s)" using R by (auto simp: Rt_def asr_def consistent_def)
  then obtain t where t: "task_of s i = Some t"
    by (metis find_row_None_iff not_Some_eq task_of_def)
  obtain o1 where o1: "Fo (X(i \<mapsto> r)) i t o1 s" "fits (X(i \<mapsto> r)) t o1" "t_id t = i"
    using Rt_open [OF R t] .
  then have o: "o1 = Some r" "t_state t = T_SUCCEEDED" "task_checks t" "run_checks r"
    by (auto simp: fits_def open_checks_def)
  have "focused (X(i \<mapsto> r)) i t (Some r) (tasks s) (runs s)" using o1 o by (simp add: Fo_def asr_def)
  then have "focused X i t (Some r) (tasks s) (runs s)"
    by (auto simp: focused_def consistent_def fits_other)
  then have "Fo X i t (Some r) s" using o1 by (simp add: Fo_def asr_def)
  with o o1(3) that show thesis by blast
qed

lemma Fo_hook:
  assumes m: "keeps (Rt (X(i \<mapsto> r))) m" and x: "X i = None"
    and t: "t_state t = T_SUCCEEDED" "task_checks t" "run_checks r"
    and k: "\<And>x t. t_state t = T_SUCCEEDED \<Longrightarrow> task_checks t \<Longrightarrow> t_id t = i \<Longrightarrow>
      triple (Fo X i t (Some r)) (k x) Q"
  shows "triple (Fo X i t (Some r)) (bindT m k) Q"
proof (rule tripleI)
  fix s y s''
  assume F: "Fo X i t (Some r) s" and run: "bindT m k s = Inr (y, s'')"
  from run obtain x' s' where 1: "m s = Inr (x', s')" and 2: "k x' s' = Inr (y, s'')"
    by (auto simp: bindT_Inr_iff)
  have "Rt (X(i \<mapsto> r)) s'" using keepsD [OF m Fo_lend [OF F x t] 1] .
  then obtain u where "Fo X i u (Some r) s'" "t_state u = T_SUCCEEDED" "task_checks u" "t_id u = i"
    using Fo_regain [of X i r s'] x by metis
  with k [of u x'] 2 show "Q y s''" by (auto dest: tripleD)
qed

end
