(* ===== verification/TaskLife.thy ===== *)
theory TaskLife
  imports TaskOps
begin

text \<open>
  Claiming, finishing, failing, aborting, suspending and reaping keep tasks and runs
  consistent (\<open>Rt\<close>): the remaining operations of the task manager.
\<close>

section \<open>Claiming\<close>

definition no_open_run_of :: "uuid \<Rightarrow> agent_run list \<Rightarrow> bool" where
  "no_open_run_of a R \<longleftrightarrow> (\<forall>r \<in> set R. r_agent_id r = a \<longrightarrow> \<not> is_open_run r)"

lemma focused_add_run:
  assumes foc: "focused X i t None T R" and new: "r_id r \<notin> r_id ` set R" and r: "r_task_id r = i"
    "is_open_run r" "1 \<le> r_attempt r" "r_attempt r \<le> t_attempt t" and a: "no_open_run_of (r_agent_id r) R"
  shows "focused X i t (Some r) T (R @ [r])"
proof -
  have c: "consistent X {i} T R" and ti: "t_id t = i" and cell: "cell R t None" and row: "find_row t_id i T = Some t"
    using foc by (auto simp: focused_def dest: find_row_key)
  have other: "runs_of (t_id u) (R @ [r]) = runs_of (t_id u) R" if "t_id u \<noteq> i" for u
    using that r(1) by (simp add: runs_of_def)
  have "\<exists>o1. cell (R @ [r]) u o1 \<and> fits X u o1" if "u \<in> set T" "t_id u \<noteq> i" for u
    using c that other [OF that(2)] by (auto simp: consistent_def cell_def)
  moreover have "i \<in> t_id ` set T" using row ti by (auto dest: find_row_in)
  moreover have "r_agent_id r \<notin> r_agent_id ` set (filter is_open_run R)"
    using a by (auto simp: no_open_run_of_def)
  ultimately have "consistent X {i} T (R @ [r])" using c new r by (auto simp: consistent_def)
  moreover have "cell (R @ [r]) t (Some r)"
    using cell r ti by (auto simp: cell_def runs_of_def)
  ultimately show ?thesis using row by (simp add: focused_def)
qed

text \<open>The row \<open>_take\<close> adds for a new attempt.\<close>

definition new_run :: "uuid \<Rightarrow> task \<Rightarrow> uuid \<Rightarrow> instant \<Rightarrow> agent_run" where
  "new_run run_id t agent_id now =
     \<lparr>r_id = run_id, r_company_id = t_company_id t, r_task_id = t_id t,
      r_agent_id = agent_id, r_attempt = t_attempt t, r_state = R_CREATED,
      r_input = t_input t, r_output = None, r_evaluation = None, r_handoff = None, r_error = None,
      r_cost_usd = 0, r_tokens_in = 0, r_tokens_out = 0, r_steps_count = 0, r_started_at = None, r_finished_at = None,
      r_created_at = now\<rparr>"

definition next_attempt :: "task \<Rightarrow> task" where
  "next_attempt t = t\<lparr>t_attempt := Suc (t_attempt t)\<rparr>"

lemma next_attempt_simps [simp]:
  "t_id (next_attempt t) = t_id t" "t_state (next_attempt t) = t_state t"
  "t_attempt (next_attempt t) = Suc (t_attempt t)" "t_max_attempts (next_attempt t) = t_max_attempts t"
  by (simp_all add: next_attempt_def)

lemma attempt_row:
  assumes k: "\<And>r. is_open_run r \<Longrightarrow> run_checks r \<Longrightarrow> triple (Fo X i (next_attempt t) (Some r)) (k (r_id r)) Q"
  shows "triple (\<lambda>s. Fo X i t None s \<and> no_open_run_of agent_id (runs s))
    (bindT (bindT (upd_task i (\<lambda>t. t\<lparr>t_attempt := Suc (t_attempt t)\<rparr>)) (\<lambda>_.
       bindT (get_task i) (\<lambda>t.
       bindT uuid7 (\<lambda>run_id.
       bindT (modifyT (\<lambda>s. s\<lparr>runs := runs s @ [
          \<lparr>r_id = run_id, r_company_id = t_company_id t, r_task_id = i,
           r_agent_id = agent_id, r_attempt = t_attempt t, r_state = R_CREATED,
           r_input = t_input t, r_output = None, r_evaluation = None, r_handoff = None, r_error = None,
           r_cost_usd = 0, r_tokens_in = 0, r_tokens_out = 0, r_steps_count = 0, r_started_at = None, r_finished_at = None,
           r_created_at = now\<rparr>]\<rparr>)) (\<lambda>_. returnT run_id))))) k) Q"
proof (rule tripleI, goal_cases)
  case (1 s x s')
  let ?T = "update_row t_id i next_attempt (tasks s)" and ?u = "next_attempt t"
  let ?r = "new_run (next_id s) ?u agent_id now"
  let ?s = "s\<lparr>tasks := ?T, next_id := Suc (next_id s), runs := runs s @ [?r]\<rparr>"
  have F: "Fo X i t None s" and a: "no_open_run_of agent_id (runs s)" using 1 by auto
  have foc: "focused X i ?u None ?T (runs s)"
    using F by (intro focused_upd_task) (auto simp: Fo_def asr_def next_attempt_def)
  have ti: "t_id t = i" using Fo_id [OF F] .
  have fr: "fresh (runs s) (next_id s)" using F by (simp add: Fo_def asr_def)
  then have "next_id s \<notin> r_id ` set (runs s)" by (auto simp: fresh_def)
  then have "focused X i ?u (Some ?r) ?T (runs s @ [?r])"
    using foc a ti
    by (intro focused_add_run) (auto simp: new_run_def is_open_run_def AGENT_RUN_TERMINAL_def)
  moreover have "fresh (runs s @ [?r]) (Suc (next_id s))" using fr by (auto simp: fresh_def new_run_def)
  ultimately have F': "Fo X i ?u (Some ?r) ?s" by (simp add: Fo_def asr_def)
  have row: "find_row t_id i ?T = Some ?u" using foc by (simp add: focused_def)
  have eq: "(\<lambda>t. t\<lparr>t_attempt := Suc (t_attempt t)\<rparr>) = next_attempt"
    by (simp add: fun_eq_iff next_attempt_def)
  have "k (r_id ?r) ?s = Inr (x, s')"
    using 1(2) [unfolded eq] row ti
    by (simp add: tx_run upd_task_def get_task_def task_of_def uuid7_def new_run_def)
  moreover have "is_open_run ?r" "run_checks ?r"
    by (simp_all add: new_run_def is_open_run_def AGENT_RUN_TERMINAL_def run_checks_def finished_iff_terminal_def)
  ultimately show ?case using k [of ?r] F' by (auto dest: tripleD)
qed

text \<open>The lease and the move to RUNNING, for a new or a resumed run.\<close>

definition with_run :: "(uuid \<Rightarrow> agent_run option) \<Rightarrow> agent_run \<Rightarrow> db \<Rightarrow> bool" where
  "with_run X r = asr (\<lambda>T R. consistent X {} T R \<and> r \<in> set R)"

lemma with_run_claim:
  "with_run X r s \<Longrightarrow> cl_run_id c = r_id r \<Longrightarrow> cl_task_id c = r_task_id r \<Longrightarrow> Rt X s \<and> claim_ok c s"
proof -
  assume w: "with_run X r s" and c: "cl_run_id c = r_id r" "cl_task_id c = r_task_id r"
  then have "Rt X s" "distinct (map r_id (runs s))" "r \<in> set (runs s)"
    by (auto simp: with_run_def Rt_def asr_def consistent_def)
  then show ?thesis using c find_row_unique [of r_id "runs s" r] by (simp add: claim_ok_def run_of_def)
qed

lemma Fo_with_run:
  assumes "Fo X i t (Some r) s" "fits X t (Some r)"
  shows "with_run X r s"
  using assms consistent_close [of X i t "Some r" "tasks s" "runs s"] cell_open(1) [of "runs s" t r]
  by (auto simp: with_run_def Fo_def asr_def focused_def)

lemma take_lease:
  assumes c: "task_checks t" and x: "X (t_id t) = None" and r: "run_checks r" and ti: "t_id t = i"
    and k: "\<And>v. triple (with_run X r) (k v) Q"
  shows "triple (Fo X i t (Some r))
    (bindT uuid7 (\<lambda>token.
     bindT (upd_task i (\<lambda>t. t\<lparr>t_lease_owner := Some worker_id,
        t_lease_until := Some until1, t_lease_token := Some token, t_available_at := None\<rparr>)) (\<lambda>_.
     bindT (task_transition i T_RUNNING tm_actor None) (\<lambda>_. k token)))) Q"
proof (rule Fo_frame [OF frames_uuid7], rule Fo_upd_task, simp_all, rule Fo_task_transition, goal_cases)
  case (1 token v)
  have "fits X (t\<lparr>t_lease_owner := Some worker_id, t_lease_until := Some until1,
      t_lease_token := Some token, t_available_at := None, t_state := T_RUNNING\<rparr>) (Some r)"
    using c x r by (simp add: fits_def open_checks_def task_checks_def lease_iff_running_def)
  then show ?case by (intro triple_pre [OF k] Fo_with_run) simp_all
qed

definition take_tail :: "uuid \<Rightarrow> uuid \<Rightarrow> uuid \<Rightarrow> bool \<Rightarrow> uuid \<Rightarrow> claim db_tx" where
  "take_tail i agent_id run_id resumed token =
     bindT (get_task i) (\<lambda>t.
     bindT (tm_emit i (TaskP (TaskStarted run_id agent_id (t_attempt t))) (Some run_id)) (\<lambda>_.
     returnT \<lparr>cl_task_id = i, cl_run_id = run_id, cl_agent_id = agent_id, cl_token = token,
              cl_resumed = resumed\<rparr>))"

lemma take_tail_claim:
  assumes "r_id r = run_id" "r_task_id r = i"
  shows "triple (with_run X r) (take_tail i agent_id run_id resumed token) (\<lambda>c s. Rt X s \<and> claim_ok c s)"
  unfolding take_tail_def with_run_def
proof (rule triple_frame_bind [OF frames_get_task], rule triple_frame_bind [OF frames_tm_emit],
    rule tripleI, goal_cases)
  case (1 t v s c s')
  then have "with_run X r s'" "cl_run_id c = r_id r" "cl_task_id c = r_task_id r"
    using assms by (auto simp: with_run_def tx_run)
  then show ?case by (rule with_run_claim)
qed

lemma take_task_eq:
  "take_task tm i agent_id worker_id now resume =
     bindT (case resume of
              Some r \<Rightarrow> returnT r
            | None \<Rightarrow>
                bindT (upd_task i (\<lambda>t. t\<lparr>t_attempt := Suc (t_attempt t)\<rparr>)) (\<lambda>_.
                bindT (get_task i) (\<lambda>t.
                bindT uuid7 (\<lambda>run_id.
                bindT (modifyT (\<lambda>s. s\<lparr>runs := runs s @ [
                  \<lparr>r_id = run_id, r_company_id = t_company_id t, r_task_id = i,
                   r_agent_id = agent_id, r_attempt = t_attempt t, r_state = R_CREATED,
                   r_input = t_input t, r_output = None, r_evaluation = None, r_handoff = None, r_error = None,
                   r_cost_usd = 0, r_tokens_in = 0, r_tokens_out = 0, r_steps_count = 0, r_started_at = None, r_finished_at = None,
                   r_created_at = now\<rparr>]\<rparr>)) (\<lambda>_. returnT run_id))))) (\<lambda>run_id.
     bindT uuid7 (\<lambda>token.
     bindT (upd_task i (\<lambda>t. t\<lparr>t_lease_owner := Some worker_id,
        t_lease_until := Some (now + tm_lease tm), t_lease_token := Some token,
        t_available_at := None\<rparr>)) (\<lambda>_.
     bindT (task_transition i T_RUNNING tm_actor None) (\<lambda>_.
     take_tail i agent_id run_id (resume \<noteq> None) token))))"
  by (simp add: take_task_def take_tail_def)

lemma take_new:
  assumes c: "task_checks t" and x: "X (t_id t) = None" and n: "t_state t \<noteq> T_RUNNING"
    and a: "t_attempt t < t_max_attempts t" and ti: "t_id t = i"
  shows "triple (\<lambda>s. Fo X i t None s \<and> no_open_run_of agent_id (runs s))
    (take_task tm i agent_id worker_id now None) (\<lambda>c s. Rt X s \<and> claim_ok c s)"
  unfolding take_task_eq option.case
proof (rule attempt_row, rule triple_assume [OF Fo_open_run], assumption, rule take_lease, goal_cases)
  case 1
  then show ?case using c n a by (simp add: task_checks_def lease_iff_running_def next_attempt_def)
next
  case (5 r v)
  then show ?case by (intro take_tail_claim) simp_all
qed (use x ti in simp_all)

lemma take_resumed:
  assumes c: "task_checks t" and x: "X (t_id t) = None" and ti: "t_id t = i"
    and r: "run_checks r" "r_task_id r = i"
  shows "triple (Fo X i t (Some r)) (take_task tm i agent_id worker_id now (Some (r_id r)))
    (\<lambda>c s. Rt X s \<and> claim_ok c s)"
  unfolding take_task_eq option.case bindT_returnT
  by (rule take_lease [where X = X, OF c x r(1) ti]) (rule take_tail_claim [OF refl r(2)])

text \<open>What \<open>claim_next\<close> finds.\<close>

lemma best_claimable_row:
  "best_claimable s ag now = Some t \<Longrightarrow> t \<in> set (tasks s) \<and> claimable s ag now t"
  unfolding best_claimable_def by (auto dest: first_some_in)

lemma Rt_row: "Rt X s \<Longrightarrow> t \<in> set (tasks s) \<Longrightarrow> task_of s (t_id t) = Some t"
  by (simp add: Rt_def asr_def consistent_def task_of_def find_row_unique)

lemma find_Some: "find P xs = Some x \<Longrightarrow> x \<in> set xs \<and> P x"
  by (auto simp: find_Some_iff)

lemma claim_resumed_cell:
  assumes R: "Rt X s" and r: "open_run_of_agent a s = Some r"
    and t: "find (\<lambda>t. t_id t = r_task_id r \<and> t_state t = T_READY) (tasks s) = Some t"
  obtains "Fo X (t_id t) t (Some r) s" "task_checks t" "X (t_id t) = None" "run_checks r" "r_task_id r = t_id t"
proof -
  have r': "r \<in> set (runs s)" "is_open_run r" using find_Some [OF r [unfolded open_run_of_agent_def]] by auto
  have t': "t \<in> set (tasks s)" "t_id t = r_task_id r" "t_state t = T_READY" using find_Some [OF t] by auto
  obtain o1 where o1: "Fo X (t_id t) t o1 s" "fits X t o1" using Rt_open [OF R Rt_row [OF R t'(1)]] .
  have rt: "r_task_id r = t_id t" using t'(2) by (rule sym)
  have o: "o1 = Some r" using Fo_owns [OF o1(1) r' rt] .
  have "X (t_id t) = None" using fits_not_exempt [OF o1(2)] t'(3) by simp
  moreover have "task_checks t" "run_checks r" using o1(2) o by (simp_all add: fits_def open_checks_def)
  ultimately show thesis using that o1(1) o rt by blast
qed

lemma claim_new_cell:
  assumes R: "Rt X s" and a: "open_run_of_agent (a_id ag) s = None" and b: "best_claimable s ag now = Some t"
  obtains "Fo X (t_id t) t None s" "no_open_run_of (a_id ag) (runs s)" "task_checks t"
    "X (t_id t) = None" "t_attempt t < t_max_attempts t" "t_state t = T_READY"
proof -
  have t: "t \<in> set (tasks s)" "claimable s ag now t" using best_claimable_row [OF b] by auto
  obtain o1 where o1: "Fo X (t_id t) t o1 s" "fits X t o1" using Rt_open [OF R Rt_row [OF R t(1)]] .
  have st: "t_state t = T_READY" using t(2) by (simp add: claimable_def)
  then have x: "X (t_id t) = None" using fits_not_exempt [OF o1(2)] by simp
  have "o1 = None"
  proof (rule ccontr)
    assume "o1 \<noteq> None"
    then obtain r where r: "o1 = Some r" by blast
    then have "r_state r = R_WAITING_APPROVAL" using fits_coupled [OF o1(2) x] st by simp
    moreover have "r \<in> set (runs s)" "r_task_id r = t_id t"
      using o1(1) r cell_open [of "runs s" t r] by (auto simp: Fo_def asr_def focused_def)
    ultimately have "suspended_elsewhere s (t_id t)"
      by (auto simp: suspended_elsewhere_def list_ex_iff)
    with t(2) show False by (simp add: claimable_def)
  qed
  moreover have "no_open_run_of (a_id ag) (runs s)"
    using a by (auto simp: no_open_run_of_def open_run_of_agent_def find_None_iff)
  ultimately show thesis
    using that o1 x st t(2) fits_checks [OF o1(2)] by (simp add: claimable_def)
qed

definition claim_result :: "(uuid \<Rightarrow> agent_run option) \<Rightarrow> claim option \<Rightarrow> db \<Rightarrow> bool" where
  "claim_result X c s \<longleftrightarrow> Rt X s \<and> (case c of None \<Rightarrow> True | Some c \<Rightarrow> claim_ok c s)"

lemma claim_next_ok: "triple (Rt X) (claim_next tm ag worker_id) (claim_result X)"
proof (rule tripleI)
  fix s c s'
  assume R: "Rt X s" and run: "claim_next tm ag worker_id s = Inr (c, s')"
  show "claim_result X c s'"
  proof (cases "open_run_of_agent (a_id ag) s")
    case None
    show ?thesis
    proof (cases "best_claimable s ag (clock s)")
      case None
      with run R \<open>open_run_of_agent (a_id ag) s = None\<close> show ?thesis
        by (simp add: claim_next_def tx_run claim_result_def)
    next
      case (Some t)
      then obtain c1 where "take_task tm (t_id t) (a_id ag) worker_id (clock s) None s = Inr (c1, s')"
        "c = Some c1" using run None by (auto simp: claim_next_def tx_run split: sum.splits)
      moreover obtain "Fo X (t_id t) t None s" "no_open_run_of (a_id ag) (runs s)" "task_checks t"
        "X (t_id t) = None" "t_attempt t < t_max_attempts t" "t_state t = T_READY"
        using claim_new_cell [OF R None Some] .
      ultimately show ?thesis
        using tripleD [OF take_new [where t = t and i = "t_id t" and agent_id = "a_id ag" and X = X]]
        by (fastforce simp: claim_result_def)
    qed
  next
    case (Some r)
    then obtain t c1 where t: "find (\<lambda>t. t_id t = r_task_id r \<and> t_state t = T_READY) (tasks s) = Some t"
      and take: "take_task tm (t_id t) (a_id ag) worker_id (clock s) (Some (r_id r)) s = Inr (c1, s')"
      and c: "c = Some c1"
      using run by (auto simp: claim_next_def tx_run split: sum.splits option.splits if_splits)
    obtain "Fo X (t_id t) t (Some r) s" "task_checks t" "X (t_id t) = None" "run_checks r" "r_task_id r = t_id t"
      using claim_resumed_cell [OF R Some t] .
    then show ?thesis
      using tripleD [OF take_resumed [where t = t and i = "t_id t" and r = r and X = X] _ take] c
      by (simp add: claim_result_def)
  qed
qed

end
