(* ===== verification/Approvals.thy ===== *)
theory Approvals
  imports TaskManager
begin

text \<open>
  Human approvals (\<open>runtime/approvals/service.py\<close>): requesting, deciding by a person or by a
  delegate, expiry, and asking again for tasks that still wait.
\<close>

datatype decision_outcome = Approve | Reject | Revise

text \<open>
  Decision hooks and delegates belong to the domains: functions of the approval. A hook runs
  inside the decision's transaction; a delegate starts a task and returns its identifier.
\<close>

record approval_service =
  as_task_manager :: task_manager
  as_default_expiry :: duration
  as_hooks :: "(string \<times> (uuid \<Rightarrow> decision_outcome \<Rightarrow> actor \<Rightarrow> string option \<Rightarrow> unit db_tx)) list"
  as_delegates :: "(string \<times> (uuid \<Rightarrow> uuid option db_tx)) list"

definition DEFAULT_EXPIRY :: duration where
  "DEFAULT_EXPIRY = 24 * 3600 * 1000000"

definition DELEGATE_WINDOW :: duration where
  "DELEGATE_WINDOW = 6 * 3600 * 1000000"

definition task_done :: "task_state \<Rightarrow> bool" where
  "task_done st \<longleftrightarrow> st \<in> {T_SUCCEEDED, T_FAILED, T_CANCELLED}"

definition approvals_actor :: actor where
  "approvals_actor = Actor_system ''approvals''"

definition on_decided ::
    "approval_service \<Rightarrow> string \<Rightarrow> (uuid \<Rightarrow> decision_outcome \<Rightarrow> actor \<Rightarrow> string option \<Rightarrow> unit db_tx) \<Rightarrow>
     err + approval_service" where
  "on_decided svc action hook =
     (if map_of (as_hooks svc) action \<noteq> None then Inl (ApprovalError action)
      else Inr (svc\<lparr>as_hooks := dict_set action hook (as_hooks svc)\<rparr>))"

definition delegate_when_unanswered ::
    "approval_service \<Rightarrow> string \<Rightarrow> (uuid \<Rightarrow> uuid option db_tx) \<Rightarrow> err + approval_service" where
  "delegate_when_unanswered svc action delegate =
     (if map_of (as_delegates svc) action \<noteq> None then Inl (ApprovalError action)
      else Inr (svc\<lparr>as_delegates := dict_set action delegate (as_delegates svc)\<rparr>))"

section \<open>Internals\<close>

definition approval_emit :: "uuid \<Rightarrow> approval_payload \<Rightarrow> actor \<Rightarrow> unit db_tx" where
  "approval_emit i p actor =
     bindT (get_approval i) (\<lambda>a.
     bindT (new_event (ApprovalP p) (ap_company_id a) actor ''approval'' (ap_id a)
        (no_refs\<lparr>ref_task_id := ap_task_id a, ref_run_id := ap_run_id a\<rparr>) None) (\<lambda>envelope.
     bindT (emit envelope) (\<lambda>_. returnT ())))"

record approval_request =
  rq_company_id :: uuid
  rq_kind :: string
  rq_ref_type :: string
  rq_ref_id :: uuid
  rq_task_id :: "uuid option"
  rq_run_id :: "uuid option"
  rq_action :: "string option"
  rq_payload :: dict
  rq_delegated_before :: bool
  rq_summary :: string
  rq_requested_by :: actor
  rq_expires_after :: "duration option"

definition pending_for :: "string \<Rightarrow> uuid \<Rightarrow> approval \<Rightarrow> bool" where
  "pending_for ref_type ref_id a \<longleftrightarrow>
     ap_ref_type a = ref_type \<and> ap_ref_id a = ref_id \<and> ap_state a = P_PENDING"

definition create_approval :: "approval_service \<Rightarrow> approval_request \<Rightarrow> uuid db_tx" where
  "create_approval svc rq =
     bindT (getsT (\<lambda>s. list_ex (pending_for (rq_ref_type rq) (rq_ref_id rq)) (approvals s))) (\<lambda>existing.
     bindT (checkT (\<not> existing) (ApprovalError ''already has a pending approval'')) (\<lambda>_.
     bindT uuid7 (\<lambda>i.
     bindT (getsT clock) (\<lambda>now.
     let expiry = (case rq_expires_after rq of
                     Some d \<Rightarrow> if d = 0 then as_default_expiry svc else d
                   | None \<Rightarrow> as_default_expiry svc);
         a = \<lparr>ap_id = i, ap_company_id = rq_company_id rq, ap_kind = rq_kind rq,
              ap_ref_type = rq_ref_type rq, ap_ref_id = rq_ref_id rq,
              ap_task_id = rq_task_id rq, ap_run_id = rq_run_id rq, ap_action = rq_action rq,
              ap_payload = rq_payload rq, ap_delegated = None,
              ap_delegated_before = rq_delegated_before rq, ap_summary = rq_summary rq,
              ap_requested_by = rq_requested_by rq, ap_state = P_PENDING,
              ap_expires_at = now + expiry, ap_decided_by = None, ap_decided_at = None,
              ap_reason = None, ap_created_at = now\<rparr>
     in bindT (modifyT (\<lambda>s. s\<lparr>approvals := approvals s @ [a]\<rparr>)) (\<lambda>_.
        bindT (approval_emit i (ApprovalRequested (rq_kind rq) (rq_ref_type rq) (rq_ref_id rq)
           (rq_summary rq) (Some (now + expiry))) (rq_requested_by rq)) (\<lambda>_.
        returnT i))))))"

section \<open>Requesting\<close>

definition request_for_run ::
    "approval_service \<Rightarrow> claim \<Rightarrow> string \<Rightarrow> string \<Rightarrow> dict \<Rightarrow> string \<Rightarrow> duration option \<Rightarrow> uuid db_tx" where
  "request_for_run svc c kind action payload summary expires_after =
     bindT (get_task (cl_task_id c)) (\<lambda>t.
     bindT (create_approval svc
       \<lparr>rq_company_id = t_company_id t, rq_kind = kind, rq_ref_type = ''agent_run'',
        rq_ref_id = cl_run_id c, rq_task_id = Some (cl_task_id c), rq_run_id = Some (cl_run_id c),
        rq_action = Some action, rq_payload = payload, rq_delegated_before = False,
        rq_summary = summary, rq_requested_by = Actor_agent (cl_agent_id c),
        rq_expires_after = expires_after\<rparr>) (\<lambda>i.
     bindT (suspend_for_approval c i) (\<lambda>_. returnT i)))"

definition request_for_task ::
    "approval_service \<Rightarrow> uuid \<Rightarrow> string \<Rightarrow> string \<Rightarrow> dict option \<Rightarrow> string option \<Rightarrow> actor option \<Rightarrow>
     duration option \<Rightarrow> uuid db_tx" where
  "request_for_task svc task_id kind summary payload action requested_by expires_after =
     bindT (get_task task_id) (\<lambda>t.
     bindT (checkT (t_state t = T_READY) (ApprovalError ''only READY tasks can await one'')) (\<lambda>_.
     bindT (create_approval svc
       \<lparr>rq_company_id = t_company_id t, rq_kind = kind, rq_ref_type = ''task'',
        rq_ref_id = task_id, rq_task_id = Some task_id, rq_run_id = None,
        rq_action = action, rq_payload = or_empty payload, rq_delegated_before = False,
        rq_summary = summary,
        rq_requested_by = (case requested_by of None \<Rightarrow> Actor_system ''workflow_engine'' | Some a \<Rightarrow> a),
        rq_expires_after = expires_after\<rparr>) (\<lambda>i.
     bindT (await_approval task_id i) (\<lambda>_. returnT i))))"

definition request_standalone ::
    "approval_service \<Rightarrow> uuid \<Rightarrow> string \<Rightarrow> string \<Rightarrow> uuid \<Rightarrow> string \<Rightarrow> actor \<Rightarrow> string option \<Rightarrow>
     dict option \<Rightarrow> duration option \<Rightarrow> uuid db_tx" where
  "request_standalone svc company_id kind ref_type ref_id summary requested_by action payload expires_after =
     create_approval svc
       \<lparr>rq_company_id = company_id, rq_kind = kind, rq_ref_type = ref_type, rq_ref_id = ref_id,
        rq_task_id = None, rq_run_id = None, rq_action = action, rq_payload = or_empty payload,
        rq_delegated_before = False, rq_summary = summary, rq_requested_by = requested_by,
        rq_expires_after = expires_after\<rparr>"

section \<open>Deciding\<close>

text \<open>\<open>_release_delegate\<close>: settled by someone other than the delegate, its task stops.\<close>

definition release_delegate :: "approval_service \<Rightarrow> uuid \<Rightarrow> actor option \<Rightarrow> unit db_tx" where
  "release_delegate svc i decided_by =
     bindT (get_approval i) (\<lambda>a.
     case ap_delegated a of
       None \<Rightarrow> returnT ()
     | Some (task_id, _) \<Rightarrow>
         bindT (getsT (\<lambda>s. task_of s task_id)) (\<lambda>row.
         case row of
           None \<Rightarrow> returnT ()
         | Some t \<Rightarrow>
             if task_done (t_state t) then returnT ()
             else if map_option actor_kind decided_by = Some K_agent then returnT ()
             else cancel_task (as_task_manager svc) task_id
                    (if decided_by \<noteq> None then ''decided by a person'' else ''no decision in time'')))"

definition outcome_state :: "decision_outcome \<Rightarrow> approval_state" where
  "outcome_state o1 = (case o1 of Approve \<Rightarrow> P_APPROVED | Revise \<Rightarrow> P_RETURNED | Reject \<Rightarrow> P_REJECTED)"

definition outcome_payload :: "decision_outcome \<Rightarrow> approval \<Rightarrow> string option \<Rightarrow> approval_payload" where
  "outcome_payload o1 a reason =
     (case o1 of
        Approve \<Rightarrow> ApprovalApproved (ap_kind a) (ap_ref_type a) (ap_ref_id a) reason
      | Revise \<Rightarrow> ApprovalReturned (ap_kind a) (ap_ref_type a) (ap_ref_id a)
          (case reason of None \<Rightarrow> [] | Some r \<Rightarrow> r)
      | Reject \<Rightarrow> ApprovalRejected (ap_kind a) (ap_ref_type a) (ap_ref_id a) reason)"

fun actor_id :: "actor \<Rightarrow> string" where
  "actor_id (Actor_agent i) = uuid_str i"
| "actor_id (Actor_system n) = n"
| "actor_id (Actor_human u) = u"

fun actor_json :: "actor \<Rightarrow> json" where
  "actor_json (Actor_agent i) = JObj [(''kind'', JStr ''agent''), (''id'', JStr (uuid_str i))]"
| "actor_json (Actor_system n) = JObj [(''kind'', JStr ''system''), (''id'', JStr n)]"
| "actor_json (Actor_human u) = JObj [(''kind'', JStr ''human''), (''id'', JStr u)]"

definition opt_str :: "string option \<Rightarrow> string" where
  "opt_str r = (case r of None \<Rightarrow> ''None'' | Some t \<Rightarrow> t)"

definition has_text :: "string option \<Rightarrow> bool" where
  "has_text r \<longleftrightarrow> (case r of None \<Rightarrow> False | Some t \<Rightarrow> strip t \<noteq> [])"

text \<open>What the decision does to the task that waits for it.\<close>

definition settle_task ::
    "approval_service \<Rightarrow> approval \<Rightarrow> decision_outcome \<Rightarrow> actor \<Rightarrow> string option \<Rightarrow> unit db_tx" where
  "settle_task svc a o1 actor reason =
     (case ap_task_id a of
        None \<Rightarrow> returnT ()
      | Some task_id \<Rightarrow>
          bindT (getsT (\<lambda>s. task_of s task_id)) (\<lambda>row.
          case row of
            None \<Rightarrow> returnT ()
          | Some t \<Rightarrow>
              if t_state t \<noteq> T_WAITING_APPROVAL then returnT ()
              else if o1 = Revise then
                bindT (complete_without_run (as_task_manager svc) task_id
                  (Some [(''approval_id'', JStr (uuid_str (ap_id a))), (''decision'', JStr ''revise''),
                    (''reason'', case reason of None \<Rightarrow> JNull | Some r \<Rightarrow> JStr r),
                    (''returned_by'', actor_json actor)])
                  (Some (take 300 (''sent back by '' @ actor_id actor @ '': '' @ opt_str reason)))) (\<lambda>_.
                returnT ())
              else if o1 = Reject then
                cancel_task (as_task_manager svc) task_id
                  (''approval rejected: '' @
                   (case reason of Some (x # xs) \<Rightarrow> x # xs | _ \<Rightarrow> ''no reason given''))
              else if ap_run_id a \<noteq> None then release_after_approval task_id
              else
                bindT (complete_without_run (as_task_manager svc) task_id
                  (Some [(''approval_id'', JStr (uuid_str (ap_id a))), (''decision'', JStr ''approve''),
                    (''approved_by'', actor_json actor)])
                  (Some (''approved by '' @ actor_id actor))) (\<lambda>_. returnT ())))"

definition decide_approval ::
    "approval_service \<Rightarrow> uuid \<Rightarrow> decision_outcome \<Rightarrow> actor \<Rightarrow> string option \<Rightarrow> unit db_tx" where
  "decide_approval svc i o1 actor reason =
     bindT (getsT (\<lambda>s. approval_of s i)) (\<lambda>row.
     bindT (someT row (ApprovalError ''not found'')) (\<lambda>a.
     bindT (checkT (ap_state a = P_PENDING) (ApprovalError ''is already decided'')) (\<lambda>_.
     bindT (release_delegate svc i (Some actor)) (\<lambda>_.
     bindT (checkT (o1 = Revise \<longrightarrow> has_text reason)
        (ApprovalError ''sending back needs a reason: say what to change'')) (\<lambda>_.
     bindT (checkT (o1 = Revise \<longrightarrow> ap_task_id a \<noteq> None \<and> ap_run_id a = None)
        (ApprovalError ''only a decision task can be sent back for changes'')) (\<lambda>_.
     bindT (getsT clock) (\<lambda>now.
     bindT (upd_approval i (\<lambda>a. a\<lparr>ap_decided_by := Some actor, ap_decided_at := Some now,
        ap_reason := reason\<rparr>)) (\<lambda>_.
     bindT (approval_transition i (outcome_state o1) actor reason) (\<lambda>_.
     bindT (approval_emit i (outcome_payload o1 a reason) actor) (\<lambda>_.
     bindT (case map_of (as_hooks svc) (case ap_action a of None \<Rightarrow> [] | Some n \<Rightarrow> n) of
              None \<Rightarrow> returnT ()
            | Some hook \<Rightarrow> hook i o1 actor reason) (\<lambda>_.
     settle_task svc a o1 actor reason)))))))))))"

text \<open>\<open>decide\<close>: a person's decision.\<close>

definition decide_human ::
    "approval_service \<Rightarrow> uuid \<Rightarrow> decision_outcome \<Rightarrow> actor \<Rightarrow> string option \<Rightarrow> unit db_tx" where
  "decide_human svc i o1 actor reason =
     bindT (checkT (actor_kind actor = K_human) (ApprovalError ''only a human can decide an approval''))
       (\<lambda>_. decide_approval svc i o1 actor reason)"

definition decide_delegated ::
    "approval_service \<Rightarrow> uuid \<Rightarrow> decision_outcome \<Rightarrow> actor \<Rightarrow> string \<Rightarrow> uuid \<Rightarrow> unit db_tx" where
  "decide_delegated svc i o1 actor reason task_id =
     bindT (checkT (actor_kind actor = K_agent) (ApprovalError ''a delegated decision is of an agent'')) (\<lambda>_.
     bindT (checkT (o1 \<noteq> Revise) (ApprovalError ''a delegate approves or rejects'')) (\<lambda>_.
     bindT (checkT (strip reason \<noteq> []) (ApprovalError ''a delegated decision says why'')) (\<lambda>_.
     bindT (getsT (\<lambda>s. approval_of s i)) (\<lambda>row.
     bindT (someT row (ApprovalError ''not found'')) (\<lambda>a.
     bindT (checkT ((case ap_action a of None \<Rightarrow> False | Some n \<Rightarrow> map_of (as_delegates svc) n \<noteq> None) \<and>
          map_option fst (ap_delegated a) = Some task_id)
        (ApprovalError ''was not delegated to this task'')) (\<lambda>_.
     decide_approval svc i o1 actor (Some reason)))))))"

section \<open>Expiry\<close>

text \<open>
  \<open>_delegate\<close>: hand an unanswered approval to its delegate, once per chain, in a savepoint.
  The savepoint is left by an ordinary return when the delegate declines, so what it wrote
  stays.
\<close>

definition delegate_approval :: "approval_service \<Rightarrow> uuid \<Rightarrow> bool db_tx" where
  "delegate_approval svc i =
     bindT (get_approval i) (\<lambda>a.
     case map_of (as_delegates svc) (case ap_action a of None \<Rightarrow> [] | Some n \<Rightarrow> n) of
       None \<Rightarrow> returnT False
     | Some delegate \<Rightarrow>
         if ap_delegated a \<noteq> None \<or> ap_delegated_before a then returnT False
         else tryT
           (bindT (delegate i) (\<lambda>got.
            case got of
              None \<Rightarrow> returnT False
            | Some task_id \<Rightarrow>
                bindT (getsT clock) (\<lambda>now.
                bindT (upd_approval i (\<lambda>a. a\<lparr>ap_delegated := Some (task_id, now),
                   ap_expires_at := now + DELEGATE_WINDOW\<rparr>)) (\<lambda>_.
                bindT (approval_emit i (ApprovalDelegated (ap_kind a) (ap_ref_type a) (ap_ref_id a) task_id)
                   approvals_actor) (\<lambda>_. returnT True)))))
           (\<lambda>e. returnT False))"

definition failed_delegations :: "uuid list \<Rightarrow> db \<Rightarrow> uuid list" where
  "failed_delegations skip s =
     map ap_id (filter (\<lambda>a. ap_state a = P_PENDING \<and> ap_id a \<notin> set skip \<and>
       (case ap_delegated a of
          None \<Rightarrow> False
        | Some (task_id, _) \<Rightarrow>
            (case task_of s task_id of None \<Rightarrow> True | Some t \<Rightarrow> task_done (t_state t))))
       (approvals s))"

definition expire_one :: "approval_service \<Rightarrow> uuid \<Rightarrow> unit db_tx" where
  "expire_one svc i =
     bindT (release_delegate svc i None) (\<lambda>_.
     bindT (approval_transition i P_EXPIRED approvals_actor None) (\<lambda>_.
     bindT (get_approval i) (\<lambda>a.
     approval_emit i (ApprovalExpired (ap_kind a) (ap_ref_type a) (ap_ref_id a)) approvals_actor)))"

definition latest_approval :: "db \<Rightarrow> uuid \<Rightarrow> approval option" where
  "latest_approval s task_id = last_some (filter (\<lambda>a. ap_task_id a = Some task_id) (approvals s))"

text \<open>\<open>renew_waiting\<close>: ask again for every task whose latest approval expired.\<close>

definition renew_one :: "approval_service \<Rightarrow> uuid \<Rightarrow> uuid option db_tx" where
  "renew_one svc task_id =
     bindT (getsT (\<lambda>s. latest_approval s task_id)) (\<lambda>latest.
     case latest of
       None \<Rightarrow> returnT None
     | Some a \<Rightarrow>
         if ap_state a \<noteq> P_EXPIRED then returnT None
         else bindT (create_approval svc
           \<lparr>rq_company_id = ap_company_id a, rq_kind = ap_kind a, rq_ref_type = ap_ref_type a,
            rq_ref_id = ap_ref_id a, rq_task_id = ap_task_id a, rq_run_id = ap_run_id a,
            rq_action = ap_action a, rq_payload = ap_payload a,
            rq_delegated_before = (ap_delegated a \<noteq> None \<or> ap_delegated_before a),
            rq_summary = ap_summary a, rq_requested_by = approvals_actor,
            rq_expires_after = None\<rparr>) (\<lambda>i. returnT (Some i)))"

definition renew_waiting :: "approval_service \<Rightarrow> uuid list db_tx" where
  "renew_waiting svc =
     bindT (getsT (\<lambda>s. map t_id (filter (\<lambda>t. t_state t = T_WAITING_APPROVAL) (tasks s)))) (\<lambda>waiting.
     bindT (mapT waiting (renew_one svc)) (\<lambda>made.
     returnT (List.map_filter id made)))"

definition expire_due :: "approval_service \<Rightarrow> uuid list db_tx" where
  "expire_due svc =
     bindT (getsT (\<lambda>s. map ap_id (filter (\<lambda>a. ap_state a = P_PENDING \<and> ap_expires_at a \<le> clock s)
        (approvals s)))) (\<lambda>due.
     bindT (filterT due (\<lambda>i. bindT (delegate_approval svc i) (\<lambda>d. returnT (\<not> d)))) (\<lambda>overdue.
     bindT (getsT (failed_delegations due)) (\<lambda>given_back.
     let expired = overdue @ given_back
     in bindT (forT expired (expire_one svc)) (\<lambda>_.
        bindT (renew_waiting svc) (\<lambda>_. returnT expired)))))"

text \<open>\<open>approved_for_run\<close>: newest decision first.\<close>

definition decided_time :: "approval \<Rightarrow> instant" where
  "decided_time a = (case ap_decided_at a of None \<Rightarrow> 0 | Some ts \<Rightarrow> ts)"

definition approved_for_run :: "db \<Rightarrow> uuid \<Rightarrow> approval list" where
  "approved_for_run s run_id =
     sort_key (\<lambda>a. - decided_time a)
       (filter (\<lambda>a. ap_run_id a = Some run_id \<and> ap_state a = P_APPROVED) (approvals s))"

end
