(* ===== verification/Dag.thy ===== *)
theory Dag
  imports TaskManager
begin

text \<open>
  Workflow templates and the engine that runs them as task graphs (\<open>runtime/dag.py\<close>): the
  checks of a template, its topological order and loop bodies, and the engine's reactions to
  tasks that end, which it hooks into the task manager.
\<close>

section \<open>Templates\<close>

record node_spec =
  nd_name :: string
  nd_display_name :: string
  nd_required_role :: string
  nd_depends_on :: "string list"
  nd_input :: dict
  nd_output_schema_ref :: "string option"
  nd_budget_usd :: "money option"
  nd_max_attempts :: nat
  nd_priority :: int
  nd_service :: "string option"

text \<open>\<open>Loop\<close> and \<open>Halt\<close>: the conditions are the domain's functions of the check's output.\<close>

record loop =
  lp_check :: string
  lp_back_to :: string
  lp_again :: "dict \<Rightarrow> bool"
  lp_carry :: "dict \<Rightarrow> dict"
  lp_max_rounds :: nat
  lp_round_label :: string

record halt =
  hl_check :: string
  hl_when :: "dict \<Rightarrow> bool"
  hl_reason :: string

record workflow_template =
  wt_name :: string
  wt_nodes :: "node_spec list"
  wt_loops :: "loop list"
  wt_halts :: "halt list"

definition node :: "workflow_template \<Rightarrow> string \<Rightarrow> err + node_spec" where
  "node t name = (case find_row nd_name name (wt_nodes t) of None \<Rightarrow> Inl (KeyError name) | Some n \<Rightarrow> Inr n)"

definition node_names :: "workflow_template \<Rightarrow> string list" where
  "node_names t = map nd_name (wt_nodes t)"

text \<open>
  The loop of \<open>topological_order\<close>: the nodes whose dependencies are all done are ready and
  leave \<open>remaining\<close> together; nothing ready means a cycle.
\<close>

definition ready_nodes :: "string list \<Rightarrow> node_spec list \<Rightarrow> node_spec list" where
  "ready_nodes finished remaining = filter (\<lambda>n. set (nd_depends_on n) \<subseteq> set finished) remaining"

function order_loop :: "string \<Rightarrow> string list \<Rightarrow> node_spec list \<Rightarrow> err + string list" where
  "order_loop tname finished remaining =
     (if remaining = [] then Inr finished
      else let ready = ready_nodes finished remaining
           in if ready = [] then Inl (InvalidTemplate tname)
              else order_loop tname (finished @ map nd_name ready)
                     (filter (\<lambda>n. \<not> set (nd_depends_on n) \<subseteq> set finished) remaining))"
  by pat_completeness auto

lemma ready_nodes_shorter:
  "ready_nodes finished remaining \<noteq> [] \<Longrightarrow>
   length (filter (\<lambda>n. \<not> set (nd_depends_on n) \<subseteq> set finished) remaining) < length remaining"
  by (auto simp: ready_nodes_def filter_empty_conv intro!: length_filter_less)

termination order_loop
  by (relation "measure (\<lambda>(tname, finished, remaining). length remaining)")
    (use ready_nodes_shorter in auto)

declare order_loop.simps [simp del]

definition topological_order :: "workflow_template \<Rightarrow> err + node_spec list" where
  "topological_order t =
     bind_err (order_loop (wt_name t) [] (wt_nodes t)) (\<lambda>names. map_err names (node t))"

text \<open>
  \<open>upstream\<close>: a work list from which the last element is popped; here its head. The measure
  is the number of node names not yet seen, then the length of the work list.
\<close>

function upstream_loop :: "workflow_template \<Rightarrow> string list \<Rightarrow> string list \<Rightarrow> err + string list" where
  "upstream_loop t seen [] = Inr seen"
| "upstream_loop t seen (dep # todo) =
     (if dep \<in> set seen then upstream_loop t seen todo
      else case node t dep of
             Inl e \<Rightarrow> Inl e
           | Inr n \<Rightarrow> upstream_loop t (dep # seen) (rev (nd_depends_on n) @ todo))"
  by pat_completeness auto

definition unseen :: "workflow_template \<Rightarrow> string list \<Rightarrow> nat" where
  "unseen t seen = card (set (node_names t) - set seen)"

lemma node_Inr: "node t name = Inr n \<Longrightarrow> n \<in> set (wt_nodes t) \<and> nd_name n = name"
  unfolding node_def
  by (cases "find_row nd_name name (wt_nodes t)") (auto dest: find_row_in find_row_key)

lemma node_known: "node t name = Inr n \<Longrightarrow> name \<in> set (node_names t)"
  using node_Inr [of t name n] by (auto simp: node_names_def)

lemma unseen_less:
  assumes "name \<in> set (node_names t)" "name \<notin> set seen"
  shows "unseen t (name # seen) < unseen t seen"
proof -
  have "set (node_names t) - set (name # seen) \<subset> set (node_names t) - set seen"
    using assms by auto
  then show ?thesis unfolding unseen_def by (intro psubset_card_mono) simp_all
qed

termination upstream_loop
proof (relation "(\<lambda>(t, seen, todo). unseen t seen) <*mlex*> measure (\<lambda>(t, seen, todo). length todo)",
    goal_cases)
  case 1
  show ?case by (intro wf_mlex) simp
next
  case (2 t seen dep todo)
  then show ?case by (intro mlex_leq) simp_all
next
  case (3 t seen dep todo n)
  then show ?case by (intro mlex_less) (simp add: unseen_less node_known)
qed

definition upstream :: "workflow_template \<Rightarrow> string \<Rightarrow> err + string list" where
  "upstream t name = bind_err (node t name) (\<lambda>n. upstream_loop t [] (rev (nd_depends_on n)))"

text \<open>\<open>loop_body\<close>: the nodes on a path from \<open>back_to\<close> to \<open>check\<close>, in order.\<close>

definition leads_from :: "workflow_template \<Rightarrow> string \<Rightarrow> string \<Rightarrow> err + (string \<times> bool)" where
  "leads_from t back n = bind_err (upstream t n) (\<lambda>us. Inr (n, back \<in> set us))"

definition loop_body :: "workflow_template \<Rightarrow> loop \<Rightarrow> err + node_spec list" where
  "loop_body t lp =
     bind_err (upstream t (lp_check lp)) (\<lambda>ups.
     bind_err (map_err ups (leads_from t (lp_back_to lp))) (\<lambda>marked.
     bind_err (topological_order t) (\<lambda>order.
     let inside = [lp_back_to lp, lp_check lp] @ map fst (filter snd marked)
     in Inr (filter (\<lambda>n. nd_name n \<in> set inside) order))))"

section \<open>The checks of a template\<close>

fun check_nodes :: "workflow_template \<Rightarrow> node_spec list \<Rightarrow> err + unit" where
  "check_nodes t [] = Inr ()"
| "check_nodes t (n # ns) =
     (if \<not> match_ident (nd_name n) \<or> \<not> match_ident (nd_required_role n) then Inl (InvalidTemplate (wt_name t))
      else if \<not> set (nd_depends_on n) \<subseteq> set (node_names t) then Inl (InvalidTemplate (wt_name t))
      else check_nodes t ns)"

fun check_loops :: "workflow_template \<Rightarrow> loop list \<Rightarrow> err + unit" where
  "check_loops t [] = Inr ()"
| "check_loops t (lp # lps) =
     (if lp_check lp \<notin> set (node_names t) \<or> lp_back_to lp \<notin> set (node_names t)
      then Inl (InvalidTemplate (wt_name t))
      else bind_err (upstream t (lp_check lp)) (\<lambda>ups.
           if lp_back_to lp \<notin> set ups \<and> lp_back_to lp \<noteq> lp_check lp then Inl (InvalidTemplate (wt_name t))
           else check_loops t lps))"

fun check_halts :: "workflow_template \<Rightarrow> halt list \<Rightarrow> err + unit" where
  "check_halts t [] = Inr ()"
| "check_halts t (h # hs) =
     (if hl_check h \<notin> set (node_names t) then Inl (InvalidTemplate (wt_name t)) else check_halts t hs)"

text \<open>\<open>WorkflowTemplate.__post_init__\<close>.\<close>

definition template_post_init :: "workflow_template \<Rightarrow> err + unit" where
  "template_post_init t =
     (if \<not> match_dotted (wt_name t) then Inl (InvalidTemplate (wt_name t))
      else if wt_nodes t = [] then Inl (InvalidTemplate (wt_name t))
      else if \<not> distinct (node_names t) then Inl (InvalidTemplate (wt_name t))
      else bind_err (check_nodes t (wt_nodes t)) (\<lambda>_.
           bind_err (topological_order t) (\<lambda>_.
           bind_err (check_loops t (wt_loops t)) (\<lambda>_.
           check_halts t (wt_halts t)))))"

section \<open>The registry\<close>

type_synonym template_registry = "(string \<times> workflow_template) list"

definition template_register :: "template_registry \<Rightarrow> workflow_template \<Rightarrow> err + template_registry" where
  "template_register reg t =
     (if map_of reg (wt_name t) \<noteq> None then Inl (InvalidTemplate (wt_name t))
      else Inr (dict_set (wt_name t) t reg))"

definition template_get :: "template_registry \<Rightarrow> string \<Rightarrow> err + workflow_template" where
  "template_get reg name =
     (case map_of reg name of None \<Rightarrow> Inl (WorkflowError name) | Some t \<Rightarrow> Inr t)"

definition template_list :: "template_registry \<Rightarrow> string list" where
  "template_list reg = sort (map fst reg)"

section \<open>Internals of the engine\<close>

definition engine_actor :: actor where
  "engine_actor = Actor_system ''workflow_engine''"

definition task_input :: "node_spec \<Rightarrow> dict \<Rightarrow> dict" where
  "task_input n params =
     dict_set ''params'' (JObj params)
       (dict_merge (nd_input n)
          (case nd_service n of Some (c # cs) \<Rightarrow> [(''service'', JStr (c # cs))] | _ \<Rightarrow> []))"

definition render :: "workflow_template \<Rightarrow> node_spec \<Rightarrow> dict \<Rightarrow> err + string" where
  "render t n params =
     (case py_format (nd_display_name n) params of
        Inr text \<Rightarrow> Inr text
      | Inl (FmtKeyError k) \<Rightarrow> Inl (WorkflowError (wt_name t))
      | Inl FmtIndexError \<Rightarrow> Inl (WorkflowError (wt_name t))
      | Inl FmtValueError \<Rightarrow> Inl (ValueError (nd_display_name n)))"

text \<open>\<open>str.format\<close> where nothing catches what it raises.\<close>

definition format_raw :: "string \<Rightarrow> dict \<Rightarrow> err + string" where
  "format_raw template params =
     (case py_format template params of
        Inr text \<Rightarrow> Inr text
      | Inl (FmtKeyError k) \<Rightarrow> Inl (KeyError k)
      | Inl FmtIndexError \<Rightarrow> Inl IndexError
      | Inl FmtValueError \<Rightarrow> Inl (ValueError template))"

text \<open>\<open>_tasks\<close>: the run's tasks in creation order.\<close>

definition run_tasks :: "db \<Rightarrow> uuid \<Rightarrow> task list" where
  "run_tasks s run_id = filter (\<lambda>t. t_workflow_run_id t = Some run_id) (tasks s)"

definition engine_emit :: "uuid \<Rightarrow> workflow_payload \<Rightarrow> unit db_tx" where
  "engine_emit run_id p =
     bindT (get_workflow run_id) (\<lambda>w.
     bindT (new_event (WorkflowP p) (w_company_id w) engine_actor ''workflow_run'' (w_id w)
        (no_refs\<lparr>ref_workflow_run_id := Some (w_id w), ref_cycle_id := w_cycle_id w,
           ref_correlation_id := Some (w_id w)\<rparr>) None) (\<lambda>envelope.
     bindT (emit envelope) (\<lambda>_. returnT ())))"

text \<open>
  \<open>_close_if_done\<close>. The caller may pass the tasks it holds; they are live rows, so they are
  passed as identifiers and read here.
\<close>

definition close_run :: "uuid \<Rightarrow> task list \<Rightarrow> unit db_tx" where
  "close_run run_id rows =
     bindT (getsT clock) (\<lambda>now.
     bindT (get_workflow run_id) (\<lambda>w.
     bindT (upd_workflow run_id (\<lambda>w. w\<lparr>w_finished_at := Some now\<rparr>)) (\<lambda>_.
     let duration = ms_between (w_created_at w) now;
         failed = filter (\<lambda>t. t_state t = T_FAILED) rows
     in if list_all (\<lambda>t. t_state t = T_SUCCEEDED) rows then
          bindT (workflow_transition run_id W_SUCCEEDED engine_actor None) (\<lambda>_.
          engine_emit run_id (WorkflowRunCompleted duration))
        else case failed of
          first # _ \<Rightarrow>
            bindT (workflow_transition run_id W_FAILED engine_actor None) (\<lambda>_.
            engine_emit run_id (WorkflowRunFailed duration (Some (t_id first))
              (Some (''task '' @ t_name first @ '' failed''))))
        | [] \<Rightarrow>
            bindT (getsT (\<lambda>s. case map_of (cancelling s) run_id of
               None \<Rightarrow> ''tasks cancelled'' | Some r \<Rightarrow> r)) (\<lambda>reason.
            bindT (workflow_transition run_id W_CANCELLED engine_actor (Some reason)) (\<lambda>_.
            engine_emit run_id (WorkflowRunCancelled duration reason))))))"

definition close_if_done :: "uuid \<Rightarrow> uuid list option \<Rightarrow> unit db_tx" where
  "close_if_done run_id siblings =
     bindT (getsT (\<lambda>s. workflow_of s run_id)) (\<lambda>row.
     case row of
       None \<Rightarrow> returnT ()
     | Some w \<Rightarrow>
         if is_terminal WORKFLOW_RUN_FSM (w_state w) then returnT ()
         else bindT (case siblings of
                       Some ids \<Rightarrow> mapT ids get_task
                     | None \<Rightarrow> getsT (\<lambda>s. run_tasks s run_id)) (\<lambda>rows.
              if list_ex (\<lambda>t. \<not> is_terminal TASK_FSM (t_state t)) rows then returnT ()
              else close_run run_id rows))"

text \<open>\<open>_cancel_waiting\<close>: \<open>cancel\<close> is the task manager's, whose hook is the engine.\<close>

definition cancel_waiting :: "(uuid \<Rightarrow> string \<Rightarrow> unit db_tx) \<Rightarrow> uuid list \<Rightarrow> string \<Rightarrow> unit db_tx" where
  "cancel_waiting cancel waiting reason =
     forT waiting (\<lambda>i.
       bindT (get_task i) (\<lambda>t.
       if is_terminal TASK_FSM (t_state t) then returnT () else cancel i reason))"

section \<open>A task failed\<close>

definition task_failed_step :: "(uuid \<Rightarrow> string \<Rightarrow> unit db_tx) \<Rightarrow> uuid \<Rightarrow> unit db_tx" where
  "task_failed_step cancel i =
     bindT (get_task i) (\<lambda>t.
     case t_workflow_run_id t of
       None \<Rightarrow> returnT ()
     | Some run_id \<Rightarrow>
         bindT (getsT (\<lambda>s. map t_id (run_tasks s run_id))) (\<lambda>ids.
         bindT (forT ids (\<lambda>j.
           bindT (get_task j) (\<lambda>d.
           if i \<in> set (t_depends_on d) \<and> \<not> is_terminal TASK_FSM (t_state d)
           then cancel j (''upstream '' @ t_name t @ '' '' @ lower (task_state_value (t_state t)))
           else returnT ()))) (\<lambda>_.
         close_if_done run_id None)))"

text \<open>
  \<open>on_task_failed\<close> calls \<open>TaskManager.cancel\<close>, which calls \<open>on_task_failed\<close> again: the fuel
  is the depth of that recursion, which the number of unfinished tasks bounds.
\<close>

primrec engine_on_task_failed :: "nat \<Rightarrow> task_manager \<Rightarrow> uuid \<Rightarrow> unit db_tx" where
  "engine_on_task_failed 0 tm i = throwT OutOfFuel"
| "engine_on_task_failed (Suc n) tm i =
     task_failed_step (cancel_task (tm\<lparr>on_task_failed := Some (engine_on_task_failed n tm)\<rparr>)) i"

section \<open>Loops and halts\<close>

text \<open>One round of \<open>body\<close>: \<open>new\<close> maps the names added so far to their tasks.\<close>

definition loop_deps ::
    "string list \<Rightarrow> (string \<times> uuid) list \<Rightarrow> (string \<times> uuid) list \<Rightarrow> string list \<Rightarrow> uuid list db_tx" where
  "loop_deps inside new latest deps =
     mapT (filter (\<lambda>d. d \<in> set inside \<or> d \<in> fst ` set latest) deps)
       (\<lambda>d. someT (if d \<in> set inside then map_of new d else map_of latest d) (KeyError d))"

fun add_round ::
    "workflow_template \<Rightarrow> loop \<Rightarrow> workflow_run \<Rightarrow> dict \<Rightarrow> nat \<Rightarrow> string list \<Rightarrow>
     (string \<times> uuid) list \<Rightarrow> (string \<times> uuid) list \<Rightarrow> node_spec list \<Rightarrow> (string \<times> uuid) list db_tx" where
  "add_round t lp w output round_no inside latest new [] = returnT new"
| "add_round t lp w output round_no inside latest new (n # ns) =
     bindT (loop_deps inside new latest (nd_depends_on n)) (\<lambda>deps.
     let params = w_params w;
         node_params = dict_merge params (if nd_name n = lp_back_to lp then lp_carry lp output else [])
     in bindT (liftT (render t n params)) (\<lambda>name.
        bindT (liftT (format_raw (lp_round_label lp)
           [(''name'', JStr name), (''round'', JInt (int round_no))])) (\<lambda>display.
        bindT (add_task
          \<lparr>nt_company_id = w_company_id w, nt_project_id = w_project_id w, nt_name = nd_name n,
           nt_display_name = display, nt_required_role = nd_required_role n,
           nt_workflow_run_id = Some (w_id w), nt_cycle_id = w_cycle_id w, nt_depends_on = deps,
           nt_input = task_input n node_params, nt_output_schema_ref = nd_output_schema_ref n,
           nt_budget_usd = nd_budget_usd n, nt_max_attempts = nd_max_attempts n,
           nt_priority = nd_priority n,
           nt_ready = Some (\<not> list_ex (\<lambda>d. d \<in> set inside) (nd_depends_on n)),
           nt_task_id = None\<rparr>) (\<lambda>i.
        add_round t lp w output round_no inside latest (dict_set (nd_name n) i new) ns))))"

definition latest_tasks :: "task list \<Rightarrow> (string \<times> uuid) list" where
  "latest_tasks rows = fold (\<lambda>t acc. dict_set (t_name t) (t_id t) acc) rows []"

definition loop_for :: "workflow_template \<Rightarrow> task \<Rightarrow> loop option" where
  "loop_for tp t =
     find (\<lambda>lp. lp_check lp = t_name t \<and> lp_again lp (or_empty (t_output t))) (wt_loops tp)"

definition halt_for :: "workflow_template \<Rightarrow> task \<Rightarrow> halt option" where
  "halt_for tp t =
     find (\<lambda>h. hl_check h = t_name t \<and> hl_when h (or_empty (t_output t))) (wt_halts tp)"

definition waiting_for :: "uuid \<Rightarrow> task list \<Rightarrow> uuid list" where
  "waiting_for i rows = map t_id (filter (\<lambda>u. i \<in> set (t_depends_on u)) rows)"

definition replace_dep :: "uuid \<Rightarrow> uuid \<Rightarrow> task \<Rightarrow> task" where
  "replace_dep old again t = t\<lparr>t_depends_on := map (\<lambda>d. if d = old then again else d) (t_depends_on t)\<rparr>"

text \<open>The template of the run of a task, when there still is one.\<close>

definition template_of :: "template_registry \<Rightarrow> uuid option \<Rightarrow> db \<Rightarrow> (workflow_run \<times> workflow_template) option" where
  "template_of reg run_id s =
     (case run_id of
        None \<Rightarrow> None
      | Some r \<Rightarrow> (case workflow_of s r of
          None \<Rightarrow> None
        | Some w \<Rightarrow> (case template_get reg (w_template_name w) of Inl _ \<Rightarrow> None | Inr tp \<Rightarrow> Some (w, tp))))"

definition new_round ::
    "workflow_run \<Rightarrow> workflow_template \<Rightarrow> loop \<Rightarrow> task \<Rightarrow> task list \<Rightarrow> uuid list \<Rightarrow> nat \<Rightarrow>
     unlocked_task list db_tx" where
  "new_round w tp lp t siblings waiting round_no =
     bindT (liftT (loop_body tp lp)) (\<lambda>body.
     let inside = map nd_name body; latest = latest_tasks siblings in
     bindT (add_round tp lp w (or_empty (t_output t)) round_no inside latest [] body) (\<lambda>new.
     bindT (someT (map_of new (lp_check lp)) (KeyError (lp_check lp))) (\<lambda>again.
     bindT (forT waiting (\<lambda>j. upd_task j (replace_dep (t_id t) again))) (\<lambda>_.
     bindT (engine_emit (w_id w) (WorkflowRunExtended (t_name t @ '' asked for another round'')
        round_no (map snd new))) (\<lambda>_.
     bindT (mapT (map snd new) get_task) (\<lambda>rows.
     returnT (map (\<lambda>u. \<lparr>ut_task_id = t_id u, ut_required_role = t_required_role u\<rparr>)
       (filter (\<lambda>u. t_state u = T_READY) rows))))))))"

definition loop_step ::
    "template_registry \<Rightarrow> (uuid \<Rightarrow> string \<Rightarrow> unit db_tx) \<Rightarrow> task \<Rightarrow> task list \<Rightarrow>
     unlocked_task list option db_tx" where
  "loop_step reg cancel t siblings =
     bindT (getsT (template_of reg (t_workflow_run_id t))) (\<lambda>found.
     case found of
       None \<Rightarrow> returnT None
     | Some (w, tp) \<Rightarrow>
         (case loop_for tp t of
            None \<Rightarrow> returnT None
          | Some lp \<Rightarrow>
              let waiting = waiting_for (t_id t) siblings;
                  copies = length (filter (\<lambda>u. t_name u = lp_check lp) siblings)
              in if int copies - 1 \<ge> int (lp_max_rounds lp) then
                   bindT (cancel_waiting cancel waiting
                     (t_name t @ '' still asks for another round after '' @
                      nat_str (lp_max_rounds lp) @ '' rounds'')) (\<lambda>_.
                   bindT (close_if_done (w_id w) None) (\<lambda>_. returnT (Some [])))
                 else
                   bindT (new_round w tp lp t siblings waiting (copies + 1)) (\<lambda>unlocked.
                   returnT (Some unlocked))))"

definition halt_step ::
    "template_registry \<Rightarrow> (uuid \<Rightarrow> string \<Rightarrow> unit db_tx) \<Rightarrow> task \<Rightarrow> task list \<Rightarrow> bool db_tx" where
  "halt_step reg cancel t siblings =
     bindT (getsT (template_of reg (t_workflow_run_id t))) (\<lambda>found.
     case found of
       None \<Rightarrow> returnT False
     | Some (w, tp) \<Rightarrow>
         (case halt_for tp t of
            None \<Rightarrow> returnT False
          | Some h \<Rightarrow>
              bindT (liftT (format_raw (hl_reason h) [(''name'', JStr (t_name t))])) (\<lambda>reason.
              bindT (cancel_waiting cancel (waiting_for (t_id t) siblings) reason) (\<lambda>_.
              bindT (close_if_done (w_id w) None) (\<lambda>_. returnT True)))))"

section \<open>A task finished\<close>

definition unlockable :: "uuid \<Rightarrow> uuid list \<Rightarrow> task \<Rightarrow> bool" where
  "unlockable i succeeded d \<longleftrightarrow>
     i \<in> set (t_depends_on d) \<and> t_state d = T_PENDING \<and> set (t_depends_on d) \<subseteq> set succeeded"

fun unlock_all :: "uuid \<Rightarrow> uuid list \<Rightarrow> uuid list \<Rightarrow> unlocked_task list db_tx" where
  "unlock_all i succeeded [] = returnT []"
| "unlock_all i succeeded (j # js) =
     bindT (get_task j) (\<lambda>d.
     if unlockable i succeeded d then
       bindT (mark_ready j) (\<lambda>_.
       bindT (unlock_all i succeeded js) (\<lambda>rest.
       returnT (\<lparr>ut_task_id = t_id d, ut_required_role = t_required_role d\<rparr> # rest)))
     else unlock_all i succeeded js)"

definition task_finished_step ::
    "template_registry \<Rightarrow> (uuid \<Rightarrow> string \<Rightarrow> unit db_tx) \<Rightarrow> uuid \<Rightarrow> unlocked_task list db_tx" where
  "task_finished_step reg cancel i =
     bindT (get_task i) (\<lambda>t.
     case t_workflow_run_id t of
       None \<Rightarrow> returnT []
     | Some run_id \<Rightarrow>
         bindT (getsT (\<lambda>s. run_tasks s run_id)) (\<lambda>siblings.
         bindT (halt_step reg cancel t siblings) (\<lambda>halted.
         if halted then returnT []
         else
           bindT (loop_step reg cancel t siblings) (\<lambda>again.
           case again of
             Some unlocked \<Rightarrow> returnT unlocked
           | None \<Rightarrow>
               bindT (unlock_all i (map t_id (filter (\<lambda>u. t_state u = T_SUCCEEDED) siblings))
                  (map t_id siblings)) (\<lambda>unlocked.
               bindT (close_if_done run_id (Some (map t_id siblings))) (\<lambda>_.
               returnT unlocked))))))"

definition engine_on_task_finished ::
    "nat \<Rightarrow> task_manager \<Rightarrow> template_registry \<Rightarrow> uuid \<Rightarrow> unlocked_task list db_tx" where
  "engine_on_task_finished n tm reg i =
     task_finished_step reg (cancel_task (tm\<lparr>on_task_failed := Some (engine_on_task_failed n tm)\<rparr>)) i"

text \<open>\<open>WorkflowEngine.__post_init__\<close>: the task manager bound to this engine.\<close>

definition bind_engine :: "nat \<Rightarrow> template_registry \<Rightarrow> task_manager \<Rightarrow> err + task_manager" where
  "bind_engine n reg tm =
     (if on_task_finished tm \<noteq> None \<or> on_task_failed tm \<noteq> None
      then Inl (WorkflowError ''already bound to another workflow engine'')
      else Inr (tm\<lparr>on_task_finished := Some (engine_on_task_finished n tm reg),
                   on_task_failed := Some (engine_on_task_failed n tm)\<rparr>))"

section \<open>Instantiating and cancelling a run\<close>

fun add_nodes ::
    "workflow_run \<Rightarrow> dict \<Rightarrow> (string \<times> uuid) list \<Rightarrow> (string \<times> string) list \<Rightarrow> node_spec list \<Rightarrow>
     (string \<times> uuid) list db_tx" where
  "add_nodes w params ids display [] = returnT []"
| "add_nodes w params ids display (n # ns) =
     bindT (someT (map_of ids (nd_name n)) (KeyError (nd_name n))) (\<lambda>i.
     bindT (someT (map_of display (nd_name n)) (KeyError (nd_name n))) (\<lambda>text.
     bindT (mapT (nd_depends_on n) (\<lambda>d. someT (map_of ids d) (KeyError d))) (\<lambda>deps.
     bindT (add_task
       \<lparr>nt_company_id = w_company_id w, nt_project_id = w_project_id w, nt_name = nd_name n,
        nt_display_name = text, nt_required_role = nd_required_role n,
        nt_workflow_run_id = Some (w_id w), nt_cycle_id = w_cycle_id w, nt_depends_on = deps,
        nt_input = task_input n params, nt_output_schema_ref = nd_output_schema_ref n,
        nt_budget_usd = nd_budget_usd n, nt_max_attempts = nd_max_attempts n,
        nt_priority = nd_priority n, nt_ready = None, nt_task_id = Some i\<rparr>) (\<lambda>_.
     bindT (add_nodes w params ids display ns) (\<lambda>rest.
     returnT ((nd_name n, i) # rest))))))"

definition workflow_instantiate ::
    "template_registry \<Rightarrow> string \<Rightarrow> uuid \<Rightarrow> uuid \<Rightarrow> dict option \<Rightarrow> uuid option \<Rightarrow>
     (uuid \<times> (string \<times> uuid) list) db_tx" where
  "workflow_instantiate reg template_name company_id project_id params0 cycle_id =
     bindT (liftT (template_get reg template_name)) (\<lambda>tp.
     let params = or_empty params0 in
     bindT (liftT (topological_order tp)) (\<lambda>order.
     bindT (mapT order (\<lambda>n. bindT uuid7 (\<lambda>i. returnT (nd_name n, i)))) (\<lambda>ids.
     bindT (liftT (map_err order (\<lambda>n. bind_err (render tp n params) (\<lambda>d. Inr (nd_name n, d))))) (\<lambda>display.
     bindT uuid7 (\<lambda>run_id.
     bindT (getsT clock) (\<lambda>now.
     let w = \<lparr>w_id = run_id, w_company_id = company_id, w_project_id = project_id,
              w_cycle_id = cycle_id, w_template_name = wt_name tp, w_params = params,
              w_state = W_RUNNING, w_finished_at = None, w_created_at = now\<rparr> in
     bindT (modifyT (\<lambda>s. s\<lparr>workflows := workflows s @ [w]\<rparr>)) (\<lambda>_.
     bindT (engine_emit run_id (WorkflowRunCreated (wt_name tp) params project_id (map snd ids))) (\<lambda>_.
     bindT (add_nodes w params ids display order) (\<lambda>made.
     returnT (run_id, made))))))))))"

definition workflow_cancel :: "nat \<Rightarrow> task_manager \<Rightarrow> uuid \<Rightarrow> string \<Rightarrow> unit db_tx" where
  "workflow_cancel n tm run_id reason =
     bindT (modifyT (\<lambda>s. s\<lparr>cancelling := dict_set run_id reason (cancelling s)\<rparr>)) (\<lambda>_.
     bindT (getsT (\<lambda>s. map t_id (run_tasks s run_id))) (\<lambda>ids.
     bindT (forT ids (\<lambda>i.
       bindT (get_task i) (\<lambda>t.
       if is_terminal TASK_FSM (t_state t) then returnT ()
       else cancel_task (tm\<lparr>on_task_failed := Some (engine_on_task_failed n tm)\<rparr>) i reason))) (\<lambda>_.
     bindT (close_if_done run_id None) (\<lambda>_.
     modifyT (\<lambda>s. s\<lparr>cancelling := filter (\<lambda>kv. fst kv \<noteq> run_id) (cancelling s)\<rparr>)))))"

end
