(* ===== verification/Money.thy ===== *)
theory Money
  imports Pystr
begin

text \<open>
  Decimal arithmetic as Python's \<open>decimal\<close> does it (28 significant digits, halves to even),
  the parsing of a decimal from text, and the currencies of \<open>infra/money.py\<close>.
\<close>

section \<open>Rounding\<close>

definition round_half_even :: "rat \<Rightarrow> int" where
  "round_half_even q =
     (let f = \<lfloor>q\<rfloor>; d = q - of_int f
      in if d < 1/2 then f else if d > 1/2 then f + 1 else if even f then f else f + 1)"

definition round_half_up :: "rat \<Rightarrow> int" where
  "round_half_up q = (if 0 \<le> q then \<lfloor>q + 1/2\<rfloor> else - \<lfloor>- q + 1/2\<rfloor>)"

definition pow10 :: "int \<Rightarrow> rat" where
  "pow10 k = (if 0 \<le> k then 10 ^ nat k else 1 / 10 ^ nat (- k))"

fun num_digits :: "nat \<Rightarrow> nat" where
  "num_digits n = (if n < 10 then 1 else Suc (num_digits (n div 10)))"

declare num_digits.simps [simp del]

text \<open>The exponent of the leading digit: \<open>10 ^ e \<le> |q| < 10 ^ (e + 1)\<close>.\<close>

definition leading_exponent :: "rat \<Rightarrow> int" where
  "leading_exponent q =
     (let (a, b) = quotient_of \<bar>q\<bar>;
          e = int (num_digits (nat a)) - int (num_digits (nat b))
      in if pow10 e \<le> \<bar>q\<bar> then e else e - 1)"

text \<open>The context's precision: every result of an operation has at most 28 digits.\<close>

definition PREC :: int where
  "PREC = 28"

definition round_context :: "rat \<Rightarrow> rat" where
  "round_context q =
     (if q = 0 then 0
      else let u = pow10 (leading_exponent q - PREC + 1)
           in of_int (round_half_even (q / u)) * u)"

definition dec_mul :: "rat \<Rightarrow> rat \<Rightarrow> rat" where
  "dec_mul a b = round_context (a * b)"

definition dec_div :: "rat \<Rightarrow> rat \<Rightarrow> rat" where
  "dec_div a b = round_context (a / b)"

text \<open>\<open>quantize(Decimal("0.000001"))\<close>; a coefficient that does not fit the precision is an error.\<close>

definition quantize :: "rat \<Rightarrow> err + rat" where
  "quantize q =
     (let n = round_half_even (q * 10 ^ 6)
      in if \<bar>n\<bar> < 10 ^ nat PREC then Inr (of_int n / 10 ^ 6) else Inl InvalidOperation)"

section \<open>Decimals from text\<close>

datatype decimal = Fin rat | Inf bool | NaN

definition is_digit :: "char \<Rightarrow> bool" where
  "is_digit c = (let n = (of_char c :: nat) in 48 \<le> n \<and> n \<le> 57)"

definition digit_value :: "char \<Rightarrow> nat" where
  "digit_value c = of_char c - 48"

definition digits_value :: "string \<Rightarrow> nat" where
  "digits_value t = foldl (\<lambda>n c. 10 * n + digit_value c) 0 t"

fun split_sign :: "string \<Rightarrow> bool \<times> string" where
  "split_sign (c # cs) = (if c = CHR ''-'' then (True, cs) else if c = CHR ''+'' then (False, cs) else (False, c # cs))"
| "split_sign [] = (False, [])"

text \<open>\<open>[eE] sign? digits+\<close>, or nothing.\<close>

fun parse_exponent :: "string \<Rightarrow> int option" where
  "parse_exponent [] = Some 0"
| "parse_exponent (c # cs) =
     (if c \<noteq> CHR ''e'' \<and> c \<noteq> CHR ''E'' then None
      else let (neg, ds) = split_sign cs
           in if ds = [] \<or> \<not> list_all is_digit ds then None
              else Some (if neg then - int (digits_value ds) else int (digits_value ds)))"

definition parse_finite :: "bool \<Rightarrow> string \<Rightarrow> decimal option" where
  "parse_finite neg t =
     (let whole = takeWhile is_digit t; rest = dropWhile is_digit t;
          (frac, rest') = (case rest of
             c # cs \<Rightarrow> if c = CHR ''.'' then (takeWhile is_digit cs, dropWhile is_digit cs) else ([], rest)
           | [] \<Rightarrow> ([], []))
      in if whole = [] \<and> frac = [] then None
         else case parse_exponent rest' of
                None \<Rightarrow> None
              | Some e \<Rightarrow>
                  let v = of_nat (digits_value (whole @ frac)) * pow10 (e - int (length frac))
                  in Some (Fin (if neg then - v else v)))"

definition parse_decimal :: "string \<Rightarrow> decimal option" where
  "parse_decimal text =
     (let (neg, t) = split_sign (filter (\<lambda>c. c \<noteq> CHR ''_'') (strip text)); low = lower t
      in if low = ''inf'' \<or> low = ''infinity'' then Some (Inf neg)
         else if take 3 low = ''nan'' \<and> list_all is_digit (drop 3 low) then Some NaN
         else if take 4 low = ''snan'' \<and> list_all is_digit (drop 4 low) then Some NaN
         else parse_finite neg t)"

text \<open>\<open>a <= b\<close>: an ordering comparison with a NaN signals.\<close>

fun dec_le :: "decimal \<Rightarrow> decimal \<Rightarrow> err + bool" where
  "dec_le (Fin a) (Fin b) = Inr (a \<le> b)"
| "dec_le NaN _ = Inl InvalidOperation"
| "dec_le _ NaN = Inl InvalidOperation"
| "dec_le (Inf True) _ = Inr True"
| "dec_le (Fin _) (Inf neg) = Inr (\<not> neg)"
| "dec_le (Inf False) (Fin _) = Inr False"
| "dec_le (Inf False) (Inf neg) = Inr (\<not> neg)"

fun dec_abs :: "decimal \<Rightarrow> decimal" where
  "dec_abs (Fin a) = Fin \<bar>a\<bar>"
| "dec_abs (Inf _) = Inf False"
| "dec_abs NaN = NaN"

text \<open>\<open>Decimal(str(value))\<close>; a missing value is \<open>None\<close>.\<close>

definition decimal_of :: "json option \<Rightarrow> decimal option" where
  "decimal_of v = parse_decimal (json_str (case v of None \<Rightarrow> JNull | Some x \<Rightarrow> x))"

section \<open>Currencies\<close>

definition METER_CURRENCY :: string where
  "METER_CURRENCY = ''USD''"

record converted =
  cv_amount :: rat
  cv_rate :: "rat option"
  cv_source_amount :: "rat option"
  cv_source_currency :: "string option"

record fx =
  fx_base :: string
  fx_rates :: "(string \<times> rat) list"

definition fx_rate :: "fx \<Rightarrow> string \<Rightarrow> err + rat" where
  "fx_rate f currency =
     (if currency = fx_base f then Inr 1
      else case map_of (fx_rates f) currency of
             None \<Rightarrow> Inl (FxError currency)
           | Some r \<Rightarrow> if r \<le> 0 then Inl (FxError currency) else Inr r)"

definition to_base :: "fx \<Rightarrow> rat \<Rightarrow> string \<Rightarrow> err + converted" where
  "to_base f amount currency =
     (if currency = fx_base f then
        bind_err (quantize amount) (\<lambda>a. Inr \<lparr>cv_amount = a, cv_rate = None,
          cv_source_amount = None, cv_source_currency = None\<rparr>)
      else
        bind_err (fx_rate f currency) (\<lambda>r.
        bind_err (quantize (dec_mul amount r)) (\<lambda>a.
        bind_err (quantize amount) (\<lambda>src.
        Inr \<lparr>cv_amount = a, cv_rate = Some r, cv_source_amount = Some src,
             cv_source_currency = Some currency\<rparr>))))"

definition convert :: "fx \<Rightarrow> rat \<Rightarrow> string \<Rightarrow> string \<Rightarrow> err + rat" where
  "convert f amount source target =
     (if source = target then quantize amount
      else bind_err (fx_rate f source) (\<lambda>rs.
           bind_err (fx_rate f target) (\<lambda>rt.
           quantize (dec_div (dec_mul amount rs) rt))))"

definition metered :: "fx \<Rightarrow> rat option \<Rightarrow> err + rat" where
  "metered f amount =
     bind_err (to_base f (case amount of None \<Rightarrow> 0 | Some a \<Rightarrow> a) METER_CURRENCY) (\<lambda>c. Inr (cv_amount c))"

section \<open>Bounds of the roundings\<close>

lemma round_half_even_bound: "\<bar>of_int (round_half_even q) - q\<bar> \<le> (1/2 :: rat)"
proof -
  have f: "of_int \<lfloor>q\<rfloor> \<le> q" "q < of_int \<lfloor>q\<rfloor> + 1"
    using floor_correct [of q] by simp_all
  show ?thesis
    unfolding round_half_even_def Let_def using f by (auto simp: abs_le_iff)
qed

lemma round_half_even_of_int [simp]: "round_half_even (of_int n) = n"
  by (simp add: round_half_even_def)

lemma round_half_even_mono: "p \<le> q \<Longrightarrow> round_half_even p \<le> round_half_even q"
proof -
  assume le: "p \<le> q"
  then have fl: "\<lfloor>p\<rfloor> \<le> \<lfloor>q\<rfloor>" by (rule floor_mono)
  show ?thesis
  proof (cases "\<lfloor>p\<rfloor> = \<lfloor>q\<rfloor>")
    case True
    with le show ?thesis by (auto simp: round_half_even_def Let_def)
  next
    case False
    with fl have "\<lfloor>p\<rfloor> + 1 \<le> \<lfloor>q\<rfloor>" by simp
    then show ?thesis by (auto simp: round_half_even_def Let_def)
  qed
qed

lemma floor_half_bound: "\<bar>of_int \<lfloor>q + 1/2\<rfloor> - q\<bar> \<le> (1/2 :: rat)"
proof -
  have "of_int \<lfloor>q + 1/2\<rfloor> \<le> q + 1/2" by (rule of_int_floor_le)
  moreover have "q + 1/2 < of_int \<lfloor>q + 1/2\<rfloor> + 1"
    using floor_correct [of "q + 1/2"] by (simp only: of_int_add of_int_1)
  ultimately have "of_int \<lfloor>q + 1/2\<rfloor> \<le> q + 1/2" "q + 1/2 < of_int \<lfloor>q + 1/2\<rfloor> + 1" .
  then show ?thesis unfolding abs_le_iff by linarith
qed

lemma round_half_up_bound: "\<bar>of_int (round_half_up q) - q\<bar> \<le> (1/2 :: rat)"
proof (cases "0 \<le> q")
  case True
  then show ?thesis using floor_half_bound [of q] by (simp add: round_half_up_def)
next
  case False
  have "\<bar>of_int (round_half_up q) - q\<bar> = \<bar>of_int \<lfloor>- q + 1/2\<rfloor> - (- q)\<bar>"
    using False by (simp add: round_half_up_def abs_if)
  also have "\<dots> \<le> 1/2" by (rule floor_half_bound)
  finally show ?thesis .
qed

lemma quantize_bound:
  assumes "quantize q = Inr a"
  shows "\<bar>a - q\<bar> \<le> 1 / (2 * 10 ^ 6)"
proof -
  from assms have a: "a = of_int (round_half_even (q * 10 ^ 6)) / 10 ^ 6"
    by (auto simp: quantize_def Let_def split: if_splits)
  have "a - q = (of_int (round_half_even (q * 10 ^ 6)) - q * 10 ^ 6) / 10 ^ 6"
    unfolding a diff_divide_distrib by simp
  then have "\<bar>a - q\<bar> = \<bar>of_int (round_half_even (q * 10 ^ 6)) - q * 10 ^ 6\<bar> / 10 ^ 6"
    by (simp only: abs_divide) simp
  also have "\<dots> \<le> (1/2) / 10 ^ 6"
    using round_half_even_bound [of "q * 10 ^ 6"] by (intro divide_right_mono) simp_all
  finally show ?thesis by simp
qed

text \<open>
  How exact the conversions of money are: the error of a result is half a millionth, plus the
  rounding of the decimal context, which is relative.
\<close>

section \<open>The rounding of the context\<close>

lemma num_digits_bounds: "0 < n \<Longrightarrow> 10 ^ (num_digits n - 1) \<le> n \<and> n < 10 ^ num_digits n"
proof (induction n rule: num_digits.induct)
  case (1 n)
  show ?case
  proof (cases "n < 10")
    case True
    then show ?thesis using 1(2) by (simp add: num_digits.simps)
  next
    case False
    let ?d = "num_digits (n div 10)"
    have "0 < n div 10" using False by simp
    then have "10 ^ (?d - 1) \<le> n div 10" "n div 10 < 10 ^ ?d" using 1(1) [OF False] by blast+
    moreover have "10 * p \<le> n" if "p \<le> n div 10" for p using that by presburger
    moreover have "n < 10 * p" if "n div 10 < p" for p using that by presburger
    moreover have "?d \<noteq> 0" by (simp add: num_digits.simps [of "n div 10"])
    then have "(10::nat) * 10 ^ (?d - 1) = 10 ^ ?d" by (cases ?d) simp_all
    ultimately show ?thesis using False by (simp add: num_digits.simps [of n])
  qed
qed

lemma pow10_powi: "pow10 k = power_int 10 k"
  by (simp add: pow10_def power_int_def inverse_eq_divide power_one_over)

lemma leading_exponent_le:
  assumes "q \<noteq> 0"
  shows "pow10 (leading_exponent q) \<le> \<bar>q\<bar>"
proof -
  obtain a b where ab: "quotient_of \<bar>q\<bar> = (a, b)" by (cases "quotient_of \<bar>q\<bar>")
  have b: "0 < b" using ab by (rule quotient_of_denom_pos)
  have q: "\<bar>q\<bar> = of_int a / of_int b" using ab by (rule quotient_of_div)
  have "0 < (of_int a :: rat) / of_int b" using assms q by simp
  then have a: "0 < a" using b by (simp add: zero_less_divide_iff)
  let ?e = "int (num_digits (nat a)) - int (num_digits (nat b))"
  have e: "leading_exponent q = (if pow10 ?e \<le> \<bar>q\<bar> then ?e else ?e - 1)"
    by (simp add: leading_exponent_def ab Let_def)
  have "pow10 (?e - 1) \<le> \<bar>q\<bar>"
  proof -
    have da: "10 ^ (num_digits (nat a) - 1) \<le> nat a" and db: "nat b < 10 ^ num_digits (nat b)"
      using num_digits_bounds [of "nat a"] num_digits_bounds [of "nat b"] a b by auto
    have p: "1 \<le> num_digits (nat a)" by (simp add: num_digits.simps [of "nat a"])
    have "(10::rat) ^ (num_digits (nat a) - 1) \<le> of_int a"
    proof -
      have "(of_nat (10 ^ (num_digits (nat a) - 1)) :: rat) \<le> of_nat (nat a)" using da by (simp only: of_nat_le_iff)
      then show ?thesis using a by simp
    qed
    moreover have "of_int b \<le> (10::rat) ^ num_digits (nat b)"
    proof -
      have "(of_nat (nat b) :: rat) \<le> of_nat (10 ^ num_digits (nat b))" using db by (simp only: of_nat_le_iff)
      then show ?thesis using b by simp
    qed
    ultimately have "(10::rat) ^ (num_digits (nat a) - 1) / 10 ^ num_digits (nat b) \<le> of_int a / of_int b"
      using a b by (intro frac_le) auto
    moreover have "pow10 (?e - 1) = (10::rat) ^ (num_digits (nat a) - 1) / 10 ^ num_digits (nat b)"
    proof -
      have "?e - 1 = int (num_digits (nat a) - 1) - int (num_digits (nat b))" using p by simp
      moreover have "power_int (10::rat) (int (num_digits (nat a) - 1) - int (num_digits (nat b))) =
          power_int 10 (int (num_digits (nat a) - 1)) / power_int 10 (int (num_digits (nat b)))" by (rule power_int_diff) simp
      ultimately show ?thesis unfolding pow10_powi by (simp only: power_int_of_nat)
    qed
    ultimately show ?thesis using q by simp
  qed
  then show ?thesis by (simp add: e)
qed

lemma round_context_error: "\<bar>round_context q - q\<bar> \<le> \<bar>q\<bar> / (2 * 10 ^ 27)"
proof (cases "q = 0")
  case False
  let ?e = "leading_exponent q"
  let ?u = "pow10 (?e - PREC + 1)"
  have u: "0 < ?u" by (simp add: pow10_powi)
  have "round_context q - q = (of_int (round_half_even (q / ?u)) - q / ?u) * ?u"
    using False u by (simp add: round_context_def Let_def left_diff_distrib)
  then have "\<bar>round_context q - q\<bar> = \<bar>of_int (round_half_even (q / ?u)) - q / ?u\<bar> * ?u"
    using u by (simp add: abs_mult)
  also have "\<dots> \<le> 1/2 * ?u" using round_half_even_bound [of "q / ?u"] u by (intro mult_right_mono) auto
  also have "?u = pow10 ?e / 10 ^ 27"
  proof -
    have "?e - PREC + 1 = ?e - int 27" by (simp add: PREC_def)
    moreover have "power_int (10::rat) (?e - int 27) = power_int 10 ?e / power_int 10 (int 27)" by (rule power_int_diff) simp
    ultimately show ?thesis unfolding pow10_powi by (simp only: power_int_of_nat)
  qed
  also have "1/2 * (pow10 ?e / 10 ^ 27) \<le> 1/2 * (\<bar>q\<bar> / 10 ^ 27)"
    using leading_exponent_le [OF False] by (intro mult_left_mono divide_right_mono) auto
  finally show ?thesis by simp
qed (simp add: round_context_def)

section \<open>Booking\<close>

lemma abs_chain: "\<bar>a - b\<bar> \<le> (e::rat) \<Longrightarrow> \<bar>b - c\<bar> \<le> d \<Longrightarrow> \<bar>a - c\<bar> \<le> e + d"
  by linarith

lemma quantize_exact:
  assumes "quantize q = Inr a"
  shows "quantize a = Inr a"
proof -
  let ?n = "round_half_even (q * 10 ^ 6)"
  have a: "a = of_int ?n / 10 ^ 6" and n: "\<bar>?n\<bar> < 10 ^ nat PREC" using assms by (auto simp: quantize_def Let_def split: if_splits)
  have "a * 10 ^ 6 = of_int ?n" using a by simp
  then show ?thesis using n a by (simp only: quantize_def round_half_even_of_int) (simp add: Let_def)
qed

lemma booked: "to_base f amount currency = Inr c \<Longrightarrow> \<exists>q. quantize q = Inr (cv_amount c)"
  by (auto simp: to_base_def bind_err_def split: sum.splits if_splits)

text \<open>
  Booking an amount is exact to half a millionth. What \<open>to_base\<close> books differs from the
  amount times the rate by at most half of the sixth decimal, plus one half in the 28th
  significant digit of the product; and booking what was booked, in the base currency, gives the
  same amount, so a figure that is stored and read again never drifts.
\<close>

theorem booking_is_accurate:
  assumes "to_base f amount currency = Inr c" "fx_rate f currency = Inr r"
  shows "\<bar>cv_amount c - amount * r\<bar> \<le> 1 / (2 * 10 ^ 6) + \<bar>amount * r\<bar> / (2 * 10 ^ 27) \<and>
    map_sum id cv_amount (to_base f (cv_amount c) (fx_base f)) = Inr (cv_amount c)"
proof
  show "map_sum id cv_amount (to_base f (cv_amount c) (fx_base f)) = Inr (cv_amount c)"
  proof -
    obtain q where "quantize q = Inr (cv_amount c)" using booked [OF assms(1)] ..
    then have "quantize (cv_amount c) = Inr (cv_amount c)" by (rule quantize_exact)
    then show ?thesis by (simp only: to_base_def simp_thms if_True bind_err_def sum.case map_sum.simps converted.select_convs)
  qed
  show "\<bar>cv_amount c - amount * r\<bar> \<le> 1 / (2 * 10 ^ 6) + \<bar>amount * r\<bar> / (2 * 10 ^ 27)"
  proof (cases "currency = fx_base f")
    case True
    then have "quantize amount = Inr (cv_amount c)" "r = 1"
      using assms by (auto simp: to_base_def fx_rate_def bind_err_def split: sum.splits)
    then have "\<bar>cv_amount c - amount * r\<bar> \<le> 1 / (2 * 10 ^ 6)" using quantize_bound [of amount] by (simp only: mult_1_right)
    then show ?thesis by (rule order_trans) (simp only: le_add_same_cancel1, simp)
  next
    case False
    then have "quantize (dec_mul amount r) = Inr (cv_amount c)"
      using assms by (auto simp: to_base_def bind_err_def split: sum.splits)
    then have "\<bar>cv_amount c - dec_mul amount r\<bar> \<le> 1 / (2 * 10 ^ 6)" by (rule quantize_bound)
    moreover have "\<bar>dec_mul amount r - amount * r\<bar> \<le> \<bar>amount * r\<bar> / (2 * 10 ^ 27)"
      using round_context_error [of "amount * r"] by (simp add: dec_mul_def)
    ultimately show ?thesis by (rule abs_chain)
  qed
qed

definition demo_fx :: fx where
  "demo_fx = \<lparr>fx_base = ''TWD'', fx_rates = [(''USD'', 32)]\<rparr>"

lemma demo_books: "to_base demo_fx (5 / 2) ''USD'' = Inr \<lparr>cv_amount = 80, cv_rate = Some 32, cv_source_amount = Some (5 / 2),
    cv_source_currency = Some ''USD''\<rparr>"
proof -
  have q: "quotient_of (80 :: rat) = (80, 1)" by (simp add: quotient_of_int [of 80, simplified])
  have "leading_exponent 80 = 1"
    by (simp add: leading_exponent_def q num_digits.simps pow10_def)
  then have "round_context 80 = 80"
    by (simp add: round_context_def PREC_def pow10_def round_half_even_of_int [of "8000000000000000000000000000", simplified])
  moreover have "quantize 80 = Inr 80" "quantize (5 / 2) = Inr (5 / 2)"
    using round_half_even_of_int [of 80000000] round_half_even_of_int [of 2500000] by (simp_all add: quantize_def PREC_def)
  ultimately show ?thesis
    by (simp add: to_base_def fx_rate_def demo_fx_def bind_err_def dec_mul_def)
qed

theorem booking_is_accurate_witness:
  "\<bar>(80 :: rat) - 5 / 2 * 32\<bar> \<le> 1 / (2 * 10 ^ 6) + \<bar>5 / 2 * 32\<bar> / (2 * 10 ^ 27) \<and>
   map_sum id cv_amount (to_base demo_fx 80 ''TWD'') = Inr 80"
proof -
  have "fx_rate demo_fx ''USD'' = Inr 32" by (simp add: fx_rate_def demo_fx_def)
  from booking_is_accurate [OF demo_books this] show ?thesis by (simp add: demo_fx_def)
qed

text \<open>
  Model routing (\<open>runtime/models/router.py\<close>): from role and capability to an alias, the
  alias's binding and fallback chain, and the price of a call.
\<close>

record usage =
  us_input :: nat
  us_output :: nat
  us_cache_read :: nat
  us_cache_write :: nat

text \<open>USD per million tokens; every field is at least 0 (checked by the model class).\<close>

record price =
  pc_input :: rat
  pc_output :: rat
  pc_cache_read :: rat
  pc_cache_write :: rat

definition price_ok :: "price \<Rightarrow> bool" where
  "price_ok p \<longleftrightarrow> 0 \<le> pc_input p \<and> 0 \<le> pc_output p \<and> 0 \<le> pc_cache_read p \<and> 0 \<le> pc_cache_write p"

text \<open>\<open>Price.cost\<close>: six decimals, halves up. The sums stay within the 28 digits.\<close>

definition price_total :: "price \<Rightarrow> usage \<Rightarrow> rat" where
  "price_total p u =
     (of_nat (us_input u) * pc_input p + of_nat (us_output u) * pc_output p +
      of_nat (us_cache_read u) * pc_cache_read p + of_nat (us_cache_write u) * pc_cache_write p) / 1000000"

definition price_cost :: "price \<Rightarrow> usage \<Rightarrow> rat" where
  "price_cost p u = of_int (round_half_up (price_total p u * 10 ^ 6)) / 10 ^ 6"

definition FREE :: price where
  "FREE = \<lparr>pc_input = 0, pc_output = 0, pc_cache_read = 0, pc_cache_write = 0\<rparr>"

record binding =
  bd_provider :: string
  bd_model_id :: string
  bd_price :: price

record router =
  rt_aliases :: "(string \<times> binding) list"
  rt_routes :: "(string \<times> string) list"
  rt_fallbacks :: "(string \<times> string list) list"
  rt_prices :: "(string \<times> price) list"

definition known_alias :: "router \<Rightarrow> string \<Rightarrow> bool" where
  "known_alias r a \<longleftrightarrow> map_of (rt_aliases r) a \<noteq> None"

fun check_routes :: "router \<Rightarrow> (string \<times> string) list \<Rightarrow> err + unit" where
  "check_routes r [] = Inr ()"
| "check_routes r ((key, a) # rest) =
     (if length (filter (\<lambda>c. c = CHR ''.'') key) \<noteq> 1 then Inl (ModelConfigError key)
      else if \<not> known_alias r a then Inl (ModelConfigError key)
      else check_routes r rest)"

fun check_fallbacks :: "router \<Rightarrow> (string \<times> string list) list \<Rightarrow> err + unit" where
  "check_fallbacks r [] = Inr ()"
| "check_fallbacks r ((a, chain) # rest) =
     (if \<not> list_all (known_alias r) (a # chain) then Inl (ModelConfigError a)
      else if a \<in> set chain then Inl (ModelConfigError a)
      else check_fallbacks r rest)"

definition router_validate :: "router \<Rightarrow> err + unit" where
  "router_validate r =
     (if rt_aliases r = [] then Inl (ModelConfigError ''at least one model alias is required'')
      else bind_err (check_routes r (rt_routes r)) (\<lambda>_. check_fallbacks r (rt_fallbacks r)))"

definition route_keys :: "string \<Rightarrow> string \<Rightarrow> string list" where
  "route_keys role capability =
     [role @ ''.'' @ capability, ''*.'' @ capability, role @ ''.*'', ''*.*'']"

definition resolve :: "router \<Rightarrow> string \<Rightarrow> string \<Rightarrow> err + string" where
  "resolve r role capability =
     (case List.map_filter (map_of (rt_routes r)) (route_keys role capability) of
        [] \<Rightarrow> Inl (ModelConfigError ''no route'')
      | a # _ \<Rightarrow> Inr a)"

definition router_binding :: "router \<Rightarrow> string \<Rightarrow> err + binding" where
  "router_binding r a =
     (case map_of (rt_aliases r) a of None \<Rightarrow> Inl (ModelConfigError a) | Some b \<Rightarrow> Inr b)"

definition chain :: "router \<Rightarrow> string \<Rightarrow> string list" where
  "chain r a = a # (case map_of (rt_fallbacks r) a of None \<Rightarrow> [] | Some c \<Rightarrow> c)"

definition price_for :: "router \<Rightarrow> string \<Rightarrow> price \<Rightarrow> price" where
  "price_for r model_id fallback =
     (case find (\<lambda>b. bd_model_id b = model_id) (map snd (rt_aliases r)) of
        Some b \<Rightarrow> bd_price b
      | None \<Rightarrow> (case map_of (rt_prices r) model_id of Some p \<Rightarrow> p | None \<Rightarrow> fallback))"

section \<open>Building the router from the settings\<close>

record model_settings =
  ms_provider :: string
  ms_prices :: "(string \<times> price) list"
  ms_frontier :: "string option"
  ms_fast :: "string option"

definition FAKE_MODEL_ID :: string where
  "FAKE_MODEL_ID = ''fake-frontier''"

definition new_router :: "router \<Rightarrow> err + router" where
  "new_router r = bind_err (router_validate r) (\<lambda>_. Inr r)"

definition router_from_settings :: "model_settings \<Rightarrow> err + router" where
  "router_from_settings cfg =
     (if ms_provider cfg = ''fake'' then
        new_router \<lparr>rt_aliases = [(''frontier'', \<lparr>bd_provider = ''fake'', bd_model_id = FAKE_MODEL_ID,
             bd_price = (case map_of (ms_prices cfg) FAKE_MODEL_ID of Some p \<Rightarrow> p | None \<Rightarrow> FREE)\<rparr>)],
           rt_routes = [(''*.*'', ''frontier'')], rt_fallbacks = [], rt_prices = []\<rparr>
      else if ms_provider cfg \<in> {''anthropic'', ''nvidia'', ''gemini'', ''openai''} then
        (case ms_frontier cfg of
           None \<Rightarrow> Inl AssertionError
         | Some frontier \<Rightarrow>
             let fast = (case nonempty (ms_fast cfg) of Some m \<Rightarrow> m | None \<Rightarrow> frontier)
             in (case (map_of (ms_prices cfg) frontier, map_of (ms_prices cfg) fast) of
                   (Some pf, Some pq) \<Rightarrow>
                     new_router \<lparr>rt_aliases =
                         [(''frontier'', \<lparr>bd_provider = ms_provider cfg, bd_model_id = frontier, bd_price = pf\<rparr>),
                          (''fast'', \<lparr>bd_provider = ms_provider cfg, bd_model_id = fast, bd_price = pq\<rparr>)],
                       rt_routes = [(''*.*'', ''frontier'')],
                       rt_fallbacks = (if fast \<noteq> frontier then [(''frontier'', [''fast''])] else []),
                       rt_prices = ms_prices cfg\<rparr>
                 | _ \<Rightarrow> Inl (KeyError frontier)))
      else Inl (ModelConfigError (ms_provider cfg)))"

end
