(* ===== verification/Policy.thy ===== *)
theory Policy
  imports Outbox Money
begin

text \<open>
  The policy engine (\<open>runtime/policy/engine.py\<close>): declaring actions, adding rules, the pure
  decision and its record.
\<close>

datatype outcome = Allow | Needs_approval | Deny

primrec strictness :: "outcome \<Rightarrow> nat" where
  "strictness Allow = 0"
| "strictness Needs_approval = 1"
| "strictness Deny = 2"

primrec outcome_value :: "outcome \<Rightarrow> string" where
  "outcome_value Allow = ''allow''"
| "outcome_value Needs_approval = ''needs_approval''"
| "outcome_value Deny = ''deny''"

definition outcome_of :: "string \<Rightarrow> outcome option" where
  "outcome_of t =
     (if t = ''allow'' then Some Allow else if t = ''needs_approval'' then Some Needs_approval
      else if t = ''deny'' then Some Deny else None)"

definition ANY_AGENT :: string where
  "ANY_AGENT = ''*''"

definition OVERRIDES_KEY :: string where
  "OVERRIDES_KEY = ''policy.overrides''"

text \<open>A limit's check: args, facts and company policies to \<open>None\<close> or the reason it is over.\<close>

record limit =
  lm_check :: "dict \<Rightarrow> dict \<Rightarrow> dict \<Rightarrow> err + string option"
  lm_over :: outcome
  lm_description :: string

record rule =
  ru_action :: string
  ru_role :: string
  ru_outcome :: outcome
  ru_limit :: "limit option"

definition rule_id :: "rule \<Rightarrow> string" where
  "rule_id r = ru_action r @ '':'' @ ru_role r"

record decision =
  dc_outcome :: outcome
  dc_rule_id :: string
  dc_reason :: string
  dc_action :: string
  dc_role :: "string option"

definition decision_allowed :: "decision \<Rightarrow> bool" where
  "decision_allowed d \<longleftrightarrow> dc_outcome d = Allow"

record policy_engine =
  pe_actions :: "(string \<times> side_effect) list"
  pe_rules :: "((string \<times> string) \<times> rule) list"

definition empty_engine :: policy_engine where
  "empty_engine = \<lparr>pe_actions = [], pe_rules = []\<rparr>"

section \<open>Registration\<close>

definition policy_declare :: "policy_engine \<Rightarrow> string \<Rightarrow> side_effect \<Rightarrow> err + policy_engine" where
  "policy_declare e action effect =
     (if \<not> match_ident action then Inl (PolicyError action)
      else case map_of (pe_actions e) action of
             Some existing \<Rightarrow>
               if existing \<noteq> effect then Inl (PolicyError action)
               else Inr (e\<lparr>pe_actions := dict_set action effect (pe_actions e)\<rparr>)
           | None \<Rightarrow> Inr (e\<lparr>pe_actions := dict_set action effect (pe_actions e)\<rparr>))"

definition add_rule :: "policy_engine \<Rightarrow> rule \<Rightarrow> err + policy_engine" where
  "add_rule e r =
     (if map_of (pe_actions e) (ru_action r) = None then Inl (PolicyError (ru_action r))
      else if ru_role r \<noteq> ANY_AGENT \<and> \<not> match_ident (ru_role r) then Inl (PolicyError (ru_role r))
      else if ru_role r = ''human'' then Inl (PolicyError ''humans are always allowed'')
      else if map_of (pe_rules e) (ru_action r, ru_role r) \<noteq> None then Inl (PolicyError (rule_id r))
      else Inr (e\<lparr>pe_rules := dict_set (ru_action r, ru_role r) r (pe_rules e)\<rparr>))"

fun policy_add :: "policy_engine \<Rightarrow> rule list \<Rightarrow> err + policy_engine" where
  "policy_add e [] = Inr e"
| "policy_add e (r # rs) = bind_err (add_rule e r) (\<lambda>e'. policy_add e' rs)"

definition allow :: "string \<Rightarrow> string list \<Rightarrow> limit option \<Rightarrow> rule list" where
  "allow action roles bound =
     map (\<lambda>role. \<lparr>ru_action = action, ru_role = role, ru_outcome = Allow, ru_limit = bound\<rparr>) roles"

definition needs_approval :: "string \<Rightarrow> string list \<Rightarrow> rule list" where
  "needs_approval action roles =
     map (\<lambda>role. \<lparr>ru_action = action, ru_role = role, ru_outcome = Needs_approval, ru_limit = None\<rparr>) roles"

section \<open>Decisions\<close>

text \<open>\<open>(x or {}).get(k)\<close> on a JSON value.\<close>

definition json_field :: "json option \<Rightarrow> string \<Rightarrow> err + json option" where
  "json_field v k =
     (case v of
        None \<Rightarrow> Inr None
      | Some x \<Rightarrow>
          if \<not> json_truthy x then Inr None
          else (case x of JObj d \<Rightarrow> Inr (map_of d k) | _ \<Rightarrow> Inl AttributeError))"

text \<open>The company's override for this action and role; \<open>null\<close> is no override.\<close>

definition policy_override :: "dict \<Rightarrow> string \<Rightarrow> string \<Rightarrow> err + json option" where
  "policy_override policies action role =
     bind_err (json_field (map_of policies OVERRIDES_KEY) action) (\<lambda>per_role.
     bind_err (json_field per_role role) (\<lambda>v. Inr (if v = Some JNull then None else v)))"

definition apply_limit ::
    "rule \<Rightarrow> dict \<Rightarrow> dict \<Rightarrow> dict \<Rightarrow> err + (outcome \<times> string list)" where
  "apply_limit r args facts policies =
     (let reasons = [''rule '' @ rule_id r @ '': '' @ outcome_value (ru_outcome r)]
      in case ru_limit r of
           None \<Rightarrow> Inr (ru_outcome r, reasons)
         | Some bound \<Rightarrow>
             if ru_outcome r \<noteq> Allow then Inr (ru_outcome r, reasons)
             else bind_err (lm_check bound args facts policies) (\<lambda>violation.
                  case violation of
                    None \<Rightarrow> Inr (ru_outcome r, reasons)
                  | Some v \<Rightarrow> Inr (lm_over bound,
                      reasons @ [''limit ('' @ lm_description bound @ '') exceeded: '' @ v])))"

definition raise_irreversible :: "side_effect option \<Rightarrow> outcome \<times> string list \<Rightarrow> outcome \<times> string list" where
  "raise_irreversible effect r =
     (if effect = Some SE_irreversible \<and> fst r = Allow
      then (Needs_approval, snd r @ [''irreversible actions always need a human'']) else r)"

definition apply_override :: "json option \<Rightarrow> outcome \<times> string list \<Rightarrow> err + (outcome \<times> string list)" where
  "apply_override override r =
     (case override of
        None \<Rightarrow> Inr r
      | Some (JArr _) \<Rightarrow> Inl TypeError
      | Some (JObj _) \<Rightarrow> Inl TypeError
      | Some v \<Rightarrow>
          (case (case v of JStr t \<Rightarrow> outcome_of t | _ \<Rightarrow> None) of
             None \<Rightarrow> Inr (fst r, snd r @ [''ignored invalid company override '' @ json_repr v])
           | Some o1 \<Rightarrow>
               if strictness o1 > strictness (fst r)
               then Inr (o1, snd r @ [''tightened by company policy to '' @ outcome_value o1])
               else if strictness o1 < strictness (fst r)
               then Inr (fst r, snd r @ [''ignored company override '' @ json_repr v @
                      '': policies can only tighten''])
               else Inr r))"

definition find_rule :: "policy_engine \<Rightarrow> actor_class \<Rightarrow> string \<Rightarrow> string \<Rightarrow> rule option" where
  "find_rule e kind action role =
     (case map_of (pe_rules e) (action, role) of
        Some r \<Rightarrow> Some r
      | None \<Rightarrow> if kind = K_agent then map_of (pe_rules e) (action, ANY_AGENT) else None)"

definition decide ::
    "policy_engine \<Rightarrow> actor \<Rightarrow> string \<Rightarrow> string option \<Rightarrow> dict \<Rightarrow> dict \<Rightarrow> dict \<Rightarrow> err + decision" where
  "decide e actor action role0 args facts policies =
     (if actor_kind actor = K_human then
        Inr \<lparr>dc_outcome = Allow, dc_rule_id = ''human_operator'',
             dc_reason = ''operators may do anything'', dc_action = action, dc_role = Some ''human''\<rparr>
      else if map_of (pe_actions e) action = None then
        Inr \<lparr>dc_outcome = Deny, dc_rule_id = ''unknown_action'',
             dc_reason = repr_str action @ '' is not a known action'', dc_action = action, dc_role = role0\<rparr>
      else case (if actor_kind actor = K_system then Some ''system'' else role0) of
        None \<Rightarrow> Inl (PolicyError ''agent decisions need the role of the agent'')
      | Some role \<Rightarrow>
          (case find_rule e (actor_kind actor) action role of
             None \<Rightarrow> Inr \<lparr>dc_outcome = Deny, dc_rule_id = ''default_deny'',
                  dc_reason = ''no rule lets '' @ role @ '' '' @ action, dc_action = action,
                  dc_role = Some role\<rparr>
           | Some r \<Rightarrow>
               bind_err (apply_limit r args facts policies) (\<lambda>limited.
               bind_err (policy_override policies action role) (\<lambda>override.
               bind_err (apply_override override
                 (raise_irreversible (map_of (pe_actions e) action) limited)) (\<lambda>final.
               Inr \<lparr>dc_outcome = fst final, dc_rule_id = rule_id r,
                    dc_reason = join ''; '' (snd final), dc_action = action, dc_role = Some role\<rparr>)))))"

record decision_refs =
  dr_agent_id :: "uuid option"
  dr_run_id :: "uuid option"
  dr_task_id :: "uuid option"

definition decide_and_record ::
    "policy_engine \<Rightarrow> actor \<Rightarrow> string \<Rightarrow> uuid \<Rightarrow> string option \<Rightarrow> dict \<Rightarrow> dict \<Rightarrow> dict \<Rightarrow> decision_refs \<Rightarrow>
     decision db_tx" where
  "decide_and_record e actor action company_id role args facts policies refs =
     bindT (liftT (decide e actor action role args facts policies)) (\<lambda>d.
     bindT (modifyT (\<lambda>s. s\<lparr>decisions := decisions s @
        [\<lparr>pd_company_id = company_id, pd_actor = actor, pd_role = dc_role d, pd_action = action,
          pd_outcome = outcome_value (dc_outcome d), pd_rule_id = dc_rule_id d,
          pd_agent_id = dr_agent_id refs, pd_run_id = dr_run_id refs,
          pd_task_id = dr_task_id refs\<rparr>]\<rparr>)) (\<lambda>_.
     if dc_outcome d = Deny then
       bindT (new_event (GovernanceP (PolicyDenied action (dc_rule_id d) (Some (dc_reason d))))
          company_id actor (if dr_run_id refs \<noteq> None then ''agent_run'' else ''policy'')
          (case dr_run_id refs of Some r \<Rightarrow> r | None \<Rightarrow> company_id)
          (no_refs\<lparr>ref_agent_id := dr_agent_id refs, ref_run_id := dr_run_id refs,
             ref_task_id := dr_task_id refs\<rparr>) None) (\<lambda>envelope.
       bindT (emit envelope) (\<lambda>_. returnT d))
     else returnT d))"

end
