(* ===== verification/KeepsAll.thy ===== *)
theory KeepsAll
  imports Approvals Dag Policy
begin

text \<open>
  Invariants of the database that only look at how rows are created and how states move. The
  locale lists the primitive writes of the runtime; an invariant each of them keeps is kept by
  every operation of the task manager, the workflow engine, the activity and approval services
  and the policy engine. Decision hooks, delegates, and the domains' links are parameters: they
  keep the invariant by hypothesis.
\<close>

named_theorems op_keeps \<open>operations that keep the invariant\<close>

locale db_invariant =
  fixes I :: "db \<Rightarrow> bool"
  assumes uuid7_keeps: "keeps I uuid7"
    and emit_keeps: "\<And>e. keeps I (emit e)"
    and activity_row_keeps: "\<And>row. keeps I (modifyT (upsert_activity row) :: unit db_tx)"
    and decision_row_keeps: "\<And>ds. keeps I (modifyT (\<lambda>s. s\<lparr>decisions := decisions s @ ds\<rparr>) :: unit db_tx)"
    and cancelling_keeps: "\<And>f. keeps I (modifyT (\<lambda>s. s\<lparr>cancelling := f (cancelling s)\<rparr>) :: unit db_tx)"
    and task_row_keeps: "\<And>f i. \<lbrakk>\<And>t. t_id (f t) = t_id t; \<And>t. t_state (f t) = t_state t\<rbrakk> \<Longrightarrow> keeps I (upd_task i f)"
    and run_row_keeps: "\<And>f i. \<lbrakk>\<And>r. r_id (f r) = r_id r; \<And>r. r_state (f r) = r_state r;
      \<And>r. r_task_id (f r) = r_task_id r\<rbrakk> \<Longrightarrow> keeps I (upd_run i f)"
    and workflow_row_keeps:
      "\<And>f i. \<lbrakk>\<And>w. w_id (f w) = w_id w; \<And>w. w_state (f w) = w_state w\<rbrakk> \<Longrightarrow> keeps I (upd_workflow i f)"
    and approval_row_keeps:
      "\<And>f i. \<lbrakk>\<And>a. ap_id (f a) = ap_id a; \<And>a. ap_state (f a) = ap_state a;
        \<And>a. ap_ref_type (f a) = ap_ref_type a; \<And>a. ap_ref_id (f a) = ap_ref_id a\<rbrakk> \<Longrightarrow> keeps I (upd_approval i f)"
    and task_transition_keeps: "\<And>i st actor reason. keeps I (task_transition i st actor reason)"
    and run_transition_keeps: "\<And>i st actor reason. keeps I (run_transition i st actor reason)"
    and workflow_transition_keeps: "\<And>i st actor reason. keeps I (workflow_transition i st actor reason)"
    and approval_transition_keeps: "\<And>i st actor reason. keeps I (approval_transition i st actor reason)"
    and new_task_keeps: "\<And>t. t_state t = T_PENDING \<Longrightarrow>
      triple (\<lambda>s. I s \<and> task_of s (t_id t) = None) (modifyT (\<lambda>s. s\<lparr>tasks := tasks s @ [t]\<rparr>) :: unit db_tx) (\<lambda>_. I)"
    and new_run_keeps: "\<And>g. \<lbrakk>\<And>i. r_id (g i) = i; \<And>i. r_state (g i) = R_CREATED\<rbrakk> \<Longrightarrow>
      keeps I (bindT uuid7 (\<lambda>i. modifyT (\<lambda>s. s\<lparr>runs := runs s @ [g i]\<rparr>)))"
    and new_workflow_keeps: "\<And>g. \<lbrakk>\<And>i. w_id (g i) = i; \<And>i. w_state (g i) = W_RUNNING\<rbrakk> \<Longrightarrow>
      keeps I (bindT uuid7 (\<lambda>i. modifyT (\<lambda>s. s\<lparr>workflows := workflows s @ [g i]\<rparr>)))"
    and new_approval_keeps: "\<And>g kind ref. \<lbrakk>\<And>i. ap_id (g i) = i; \<And>i. ap_state (g i) = P_PENDING;
      \<And>i. ap_ref_type (g i) = kind; \<And>i. ap_ref_id (g i) = ref\<rbrakk> \<Longrightarrow>
      triple (\<lambda>s. I s \<and> \<not> list_ex (pending_for kind ref) (approvals s))
        (bindT uuid7 (\<lambda>i. modifyT (\<lambda>s. s\<lparr>approvals := approvals s @ [g i]\<rparr>))) (\<lambda>_. I)"
    and clock_keeps: "\<And>now. keeps I (modifyT (\<lambda>s. s\<lparr>clock := now\<rparr>) :: unit db_tx)"
    and agents_keep: "\<And>f. keeps I (modifyT (\<lambda>s. s\<lparr>agents := f (agents s)\<rparr>) :: unit db_tx)"
begin

lemmas basics =
  uuid7_keeps emit_keeps activity_row_keeps decision_row_keeps cancelling_keeps task_row_keeps
  run_row_keeps workflow_row_keeps approval_row_keeps task_transition_keeps run_transition_keeps
  workflow_transition_keeps approval_transition_keeps keeps_intros

lemma case_prod_keeps: "(\<And>a b. keeps I (f a b)) \<Longrightarrow> keeps I (case p of (a, b) \<Rightarrow> f a b)"
  by (cases p) simp

lemma list_case_keeps:
  "keeps I m \<Longrightarrow> (\<And>x xs. keeps I (f x xs)) \<Longrightarrow> keeps I (case l of [] \<Rightarrow> m | x # xs \<Rightarrow> f x xs)"
  by (cases l) simp_all

lemma get_keeps:
  "keeps I (get_task i)" "keeps I (get_run i)" "keeps I (get_workflow i)" "keeps I (get_agent i)"
  "keeps I (get_approval i)"
  by (simp_all add: get_task_def get_run_def get_workflow_def get_agent_def get_approval_def keeps_intros)

lemma new_event_keeps: "keeps I (new_event p c actor at1 ai refs o1)"
  unfolding new_event_def by (intro basics)

section \<open>Activity\<close>

lemma write_activity_keeps: "keeps I (write_activity ag p st actor cur cx)"
  unfolding write_activity_def Let_def by (intro basics new_event_keeps)

lemma set_activity_keeps: "keeps I (set_activity ag p actor cx)"
  unfolding set_activity_def by (intro basics write_activity_keeps)

lemma initialize_activity_keeps: "keeps I (initialize_activity ag actor)"
  unfolding initialize_activity_def by (intro basics write_activity_keeps)

lemma unless_paused_keeps: "keeps I (set_activity_unless_paused ag p actor cx)"
  unfolding set_activity_unless_paused_def by (intro basics set_activity_keeps)

section \<open>The task manager\<close>

lemma tm_emit_keeps: "keeps I (tm_emit i p r)"
  unfolding tm_emit_def Let_def by (intro basics get_keeps new_event_keeps)

lemma tm_activity_keeps: "keeps I (tm_activity a p i r)"
  unfolding tm_activity_def by (intro basics get_keeps unless_paused_keeps)

lemma release_lease_keeps: "keeps I (release_lease i)"
  unfolding release_lease_def by (rule task_row_keeps) simp_all

lemma locked_task_keeps: "keeps I (locked_task c)"
  unfolding locked_task_def by (intro basics)

lemma claimed_run_keeps: "keeps I (claimed_run c)"
  unfolding claimed_run_def by (intro basics)

lemma finish_run_keeps: "keeps I (finish_run r target now)"
  unfolding finish_run_def by (intro basics get_keeps) simp_all

lemma abort_run_keeps: "keeps I (abort_run r reason message)"
  unfolding abort_run_def by (intro basics finish_run_keeps) simp_all

lemmas parts =
  get_keeps new_event_keeps set_activity_keeps unless_paused_keeps tm_emit_keeps tm_activity_keeps
  release_lease_keeps locked_task_keeps claimed_run_keeps finish_run_keeps abort_run_keeps
  case_prod_keeps list_case_keeps

lemma mark_ready_keeps: "keeps I (mark_ready i)"
  unfolding mark_ready_def by (intro basics parts)

lemma mark_idle_keeps: "keeps I (mark_idle_agents_waiting i)"
  unfolding mark_idle_agents_waiting_def by (intro basics parts)

lemma add_task_keeps_I: "keeps I (add_task nt)"
  unfolding add_task_def
proof (rule keeps_bind, goal_cases)
  case 1
  show ?case by (intro basics)
next
  case (2 i)
  let ?t = "\<lambda>now. \<lparr>t_id = i, t_company_id = nt_company_id nt, t_project_id = nt_project_id nt,
              t_workflow_run_id = nt_workflow_run_id nt, t_cycle_id = nt_cycle_id nt,
              t_name = nt_name nt, t_display_name = nt_display_name nt,
              t_required_role = nt_required_role nt, t_state = T_PENDING,
              t_depends_on = nt_depends_on nt, t_input = nt_input nt, t_output = None,
              t_output_schema_ref = nt_output_schema_ref nt, t_attempt = 0,
              t_max_attempts = nt_max_attempts nt, t_budget_usd = nt_budget_usd nt,
              t_priority = nt_priority nt, t_available_at = None, t_lease_owner = None,
              t_lease_until = None, t_lease_token = None, t_created_at = now\<rparr>"
  let ?rest = "bindT (tm_emit i (TaskP (TaskCreated (nt_name nt) (nt_display_name nt)
           (nt_required_role nt) (nt_depends_on nt) (nt_workflow_run_id nt) (nt_budget_usd nt)))
           None) (\<lambda>_.
        bindT (if (case nt_ready nt of Some b \<Rightarrow> b | None \<Rightarrow> nt_depends_on nt = [])
               then mark_ready i else mark_idle_agents_waiting i) (\<lambda>_.
        returnT i))"
  have rest: "keeps I ?rest" by (intro basics parts mark_ready_keeps mark_idle_keeps)
  have row: "triple (\<lambda>s. I s \<and> task_of s i = None)
      (bindT (modifyT (\<lambda>s. s\<lparr>tasks := tasks s @ [?t now]\<rparr>)) (\<lambda>_. ?rest)) (\<lambda>_. I)" for now
    by (rule triple_bind [where R = "\<lambda>_. I"])
      (use new_task_keeps [of "?t now"] rest in \<open>simp_all add: keeps_def\<close>)
  show ?case
    unfolding keeps_def Let_def
  proof (rule triple_bind_gets, rule triple_bind_check, rule triple_bind_gets)
    fix existing :: "task option" and now
    assume "existing = None \<and> 1 \<le> nt_max_attempts nt"
    then show "triple (\<lambda>s. (I s \<and> task_of s i = existing) \<and> clock s = now)
        (bindT (modifyT (\<lambda>s. s\<lparr>tasks := tasks s @ [?t now]\<rparr>)) (\<lambda>_. ?rest)) (\<lambda>_. I)"
      by (intro triple_pre [OF row]) auto
  qed
qed

text \<open>A new row whose identifier was just drawn.\<close>

lemma fresh_row_keeps:
  assumes "keeps I (bindT uuid7 (\<lambda>i. modifyT (h i)))" "\<And>i. keeps I (k i)"
  shows "keeps I (bindT uuid7 (\<lambda>i. bindT (modifyT (h i)) (\<lambda>_. k i)))"
proof (rule keepsI)
  fix s x s'
  assume "I s" and run: "bindT uuid7 (\<lambda>i. bindT (modifyT (h i)) (\<lambda>_. k i)) s = Inr (x, s')"
  let ?s = "h (next_id s) (s\<lparr>next_id := Suc (next_id s)\<rparr>)"
  have "bindT uuid7 (\<lambda>i. modifyT (h i)) s = Inr ((), ?s)" by (simp add: tx_run uuid7_def)
  then have "I ?s" using keepsD [OF assms(1) \<open>I s\<close>] by blast
  moreover have "k (next_id s) ?s = Inr (x, s')" using run by (simp add: tx_run uuid7_def)
  ultimately show "I s'" using keepsD [OF assms(2)] by blast
qed

lemma take_task_keeps: "keeps I (take_task tm i agent_id worker_id now resume)"
  unfolding take_task_def
proof (rule keeps_bind, goal_cases)
  case 1
  show ?case by (intro keeps_case_option basics parts fresh_row_keeps new_run_keeps) simp_all
next
  case (2 run_id)
  show ?case by (intro basics parts) simp_all
qed

lemma claim_next_keeps: "keeps I (claim_next tm ag worker_id)"
  unfolding claim_next_def by (intro basics parts take_task_keeps)

lemma heartbeat_keeps_I: "keeps I (heartbeat tm c)"
  unfolding heartbeat_def by (intro basics parts) simp_all

lemma requeue_keeps: "keeps I (requeue tm i run_id ended)"
  unfolding requeue_def by (intro basics parts) simp_all

lemma suspend_keeps: "keeps I (suspend_for_approval c approval_id)"
  unfolding suspend_for_approval_def by (intro basics parts)

lemma await_keeps: "keeps I (await_approval i approval_id)"
  unfolding await_approval_def by (intro basics parts)

lemma release_after_keeps: "keeps I (release_after_approval i)"
  unfolding release_after_approval_def by (intro basics parts)

lemma links_keep:
  "(\<And>h i r. h \<in> set hooks \<Longrightarrow> keeps I (h i r)) \<Longrightarrow> keeps I (collect_links hooks i r)"
proof (induction hooks)
  case Nil
  then show ?case by (simp add: keeps_return)
next
  case (Cons h hooks)
  then show ?case unfolding collect_links.simps by (intro basics) simp_all
qed

text \<open>The hooks of a task manager keep the invariant.\<close>

definition hooks_keep :: "task_manager \<Rightarrow> bool" where
  "hooks_keep tm \<longleftrightarrow>
     (\<forall>i. keeps I (finished_hook tm i)) \<and> (\<forall>i. keeps I (failed_hook tm i)) \<and>
     (\<forall>i r. keeps I (activity_links tm i r))"

lemma failed_part: "\<forall>i. keeps I (failed_hook tm i) \<Longrightarrow> keeps I (cancel_task tm i reason)"
  unfolding cancel_task_def
  by (intro basics parts requeue_keeps mark_ready_keeps) simp_all

lemma manager_keeps:
  assumes "hooks_keep tm"
  shows "keeps I (cancel_task tm i reason)" "keeps I (succeed tm c output summary)"
    "keeps I (fail_task tm c ec message retryable)" "keeps I (abort_task tm c ar m)"
    "keeps I (complete_without_run tm i output summary)"
    "keeps I (fail_without_run tm i ec message)" "keeps I (release_blocked tm company_id)"
    "keeps I (reap_one tm i)" "keeps I (reap_expired_leases tm bound)"
proof -
  have h: "keeps I (finished_hook tm j)" "keeps I (failed_hook tm j)" "keeps I (activity_links tm j r)" for j r
    using assms by (simp_all add: hooks_keep_def)
  show "keeps I (cancel_task tm i reason)" using h by (intro failed_part) simp
  show "keeps I (succeed tm c output summary)"
    unfolding succeed_def by (intro basics parts h) simp_all
  show "keeps I (fail_task tm c ec message retryable)"
    unfolding fail_task_def by (intro basics parts h requeue_keeps) simp_all
  show "keeps I (abort_task tm c ar m)"
    unfolding abort_task_def by (intro basics parts h)
  show "keeps I (complete_without_run tm i output summary)"
    unfolding complete_without_run_def by (intro basics parts h) simp_all
  show "keeps I (fail_without_run tm i ec message)"
    unfolding fail_without_run_def by (intro basics parts h) simp_all
  show "keeps I (release_blocked tm company_id)"
    unfolding release_blocked_def release_one_def by (intro basics parts h mark_ready_keeps)
  have one: "keeps I (reap_one tm j)" for j
    unfolding reap_one_def by (intro basics parts h requeue_keeps)
  then show "keeps I (reap_one tm i)" .
  show "keeps I (reap_expired_leases tm bound)"
    unfolding reap_expired_leases_def by (intro basics one)
qed

section \<open>The workflow engine\<close>

lemma engine_emit_keeps: "keeps I (engine_emit run_id p)"
  unfolding engine_emit_def by (intro basics parts)

lemma close_run_keeps: "keeps I (close_run run_id rows)"
  unfolding close_run_def Let_def by (intro basics parts engine_emit_keeps) simp_all

lemma close_if_done_keeps: "keeps I (close_if_done run_id siblings)"
  unfolding close_if_done_def by (intro basics parts close_run_keeps)

lemma cancel_waiting_keeps:
  "(\<And>i r. keeps I (cancel i r)) \<Longrightarrow> keeps I (cancel_waiting cancel waiting reason)"
  unfolding cancel_waiting_def by (intro basics parts)

lemma failed_step_keeps: "(\<And>i r. keeps I (cancel i r)) \<Longrightarrow> keeps I (task_failed_step cancel i)"
  unfolding task_failed_step_def by (intro basics parts close_if_done_keeps)

lemma engine_failed_keeps: "keeps I (engine_on_task_failed n tm i)"
proof (induction n arbitrary: i)
  case 0
  then show ?case by (simp add: keeps_throw)
next
  case (Suc n)
  then show ?case
    unfolding engine_on_task_failed.simps
    by (intro failed_step_keeps failed_part) (simp add: failed_hook_def)
qed

lemma engine_cancel_keeps:
  "keeps I (cancel_task (tm\<lparr>on_task_failed := Some (engine_on_task_failed n tm)\<rparr>) i reason)"
  by (rule failed_part) (simp add: failed_hook_def engine_failed_keeps)

lemma loop_deps_keeps: "keeps I (loop_deps inside new latest deps)"
  unfolding loop_deps_def by (intro basics)

lemma add_round_keeps: "keeps I (add_round t lp w output n inside latest new ns)"
  by (induction ns arbitrary: new)
    (simp_all add: keeps_return Let_def keeps_bind loop_deps_keeps keeps_lift add_task_keeps_I)

lemma new_round_keeps: "keeps I (new_round w tp lp t siblings waiting n)"
  unfolding new_round_def Let_def
  by (intro basics parts add_round_keeps engine_emit_keeps) (simp_all add: replace_dep_def)

lemma loop_step_keeps: "(\<And>i r. keeps I (cancel i r)) \<Longrightarrow> keeps I (loop_step reg cancel t siblings)"
  unfolding loop_step_def Let_def
  by (intro basics parts cancel_waiting_keeps close_if_done_keeps new_round_keeps)

lemma halt_step_keeps: "(\<And>i r. keeps I (cancel i r)) \<Longrightarrow> keeps I (halt_step reg cancel t siblings)"
  unfolding halt_step_def
  by (intro basics parts cancel_waiting_keeps close_if_done_keeps)

lemma unlock_all_keeps: "keeps I (unlock_all i succeeded js)"
  by (induction js) (simp_all add: keeps_return keeps_bind keeps_if get_keeps mark_ready_keeps)

lemma finished_step_keeps: "(\<And>i r. keeps I (cancel i r)) \<Longrightarrow> keeps I (task_finished_step reg cancel i)"
  unfolding task_finished_step_def
  by (intro basics parts halt_step_keeps loop_step_keeps unlock_all_keeps close_if_done_keeps)

lemma engine_finished_keeps: "keeps I (engine_on_task_finished n tm reg i)"
  unfolding engine_on_task_finished_def by (intro finished_step_keeps engine_cancel_keeps)

lemma bound_hooks_keep:
  assumes "bind_engine n reg tm = Inr tm'" "\<And>h i r. h \<in> set (link_hooks tm) \<Longrightarrow> keeps I (h i r)"
  shows "hooks_keep tm'"
proof -
  have "tm' = tm\<lparr>on_task_finished := Some (engine_on_task_finished n tm reg),
      on_task_failed := Some (engine_on_task_failed n tm)\<rparr>"
    using assms(1) by (simp add: bind_engine_def split: if_splits)
  then show ?thesis
    using links_keep [of "link_hooks tm"] assms(2)
    by (simp add: hooks_keep_def finished_hook_def failed_hook_def activity_links_def
        engine_finished_keeps engine_failed_keeps)
qed

lemma add_nodes_keeps: "keeps I (add_nodes w params ids display ns)"
  by (induction ns) (simp_all add: keeps_return keeps_bind keeps_some keeps_map add_task_keeps_I)

text \<open>The same when the time is read between drawing the identifier and adding the row.\<close>

lemma fresh_row_at_keeps:
  assumes "\<And>now. keeps I (bindT uuid7 (\<lambda>i. modifyT (h now i)))" "\<And>now i. keeps I (k now i)"
  shows "keeps I (bindT uuid7 (\<lambda>i. bindT (getsT clock) (\<lambda>now. bindT (modifyT (h now i)) (\<lambda>_. k now i))))"
proof (rule keepsI)
  fix s x s'
  assume "I s" and run: "bindT uuid7 (\<lambda>i. bindT (getsT clock) (\<lambda>now.
    bindT (modifyT (h now i)) (\<lambda>_. k now i))) s = Inr (x, s')"
  then have "bindT uuid7 (\<lambda>i. bindT (modifyT (h (clock s) i)) (\<lambda>_. k (clock s) i)) s = Inr (x, s')"
    by (simp add: tx_run uuid7_def)
  with fresh_row_keeps [of "h (clock s)" "k (clock s)"] assms \<open>I s\<close> show "I s'"
    by (blast intro: keepsD)
qed

lemma instantiate_keeps: "keeps I (workflow_instantiate reg name company_id project_id params cycle_id)"
  unfolding workflow_instantiate_def Let_def
  by (intro fresh_row_at_keeps new_workflow_keeps basics engine_emit_keeps add_nodes_keeps) simp_all

lemma workflow_cancel_keeps: "keeps I (workflow_cancel n tm run_id reason)"
  unfolding workflow_cancel_def by (intro basics parts engine_cancel_keeps close_if_done_keeps)

section \<open>Approvals\<close>

lemma approval_emit_keeps: "keeps I (approval_emit i p actor)"
  unfolding approval_emit_def by (intro basics parts)

lemma fresh_row_at_triple:
  assumes "\<And>now. triple (\<lambda>s. I s \<and> P s) (bindT uuid7 (\<lambda>i. modifyT (h now i))) (\<lambda>_. I)"
    and "\<And>now i. keeps I (k now i)"
  shows "triple (\<lambda>s. I s \<and> P s)
    (bindT uuid7 (\<lambda>i. bindT (getsT clock) (\<lambda>now. bindT (modifyT (h now i)) (\<lambda>_. k now i)))) (\<lambda>_. I)"
proof (rule tripleI)
  fix s x s'
  assume "I s \<and> P s" and run: "bindT uuid7 (\<lambda>i. bindT (getsT clock) (\<lambda>now.
    bindT (modifyT (h now i)) (\<lambda>_. k now i))) s = Inr (x, s')"
  let ?s = "h (clock s) (next_id s) (s\<lparr>next_id := Suc (next_id s)\<rparr>)"
  have "bindT uuid7 (\<lambda>i. modifyT (h (clock s) i)) s = Inr ((), ?s)" by (simp add: tx_run uuid7_def)
  then have "I ?s" using tripleD [OF assms(1)] \<open>I s \<and> P s\<close> by blast
  moreover have "k (clock s) (next_id s) ?s = Inr (x, s')" using run by (simp add: tx_run uuid7_def)
  ultimately show "I s'" using keepsD [OF assms(2)] by blast
qed

lemma create_approval_keeps: "keeps I (create_approval svc rq)"
  unfolding create_approval_def Let_def keeps_def
proof (rule triple_bind_gets, rule triple_bind_check, rule triple_pre, rule fresh_row_at_triple)
  show "keeps I (bindT (approval_emit i (ApprovalRequested (rq_kind rq) (rq_ref_type rq) (rq_ref_id rq)
      (rq_summary rq) (Some (now + (case rq_expires_after rq of
          None \<Rightarrow> as_default_expiry svc | Some d \<Rightarrow> if d = 0 then as_default_expiry svc else d))))
      (rq_requested_by rq)) (\<lambda>_. returnT i))" for now i
    by (intro basics approval_emit_keeps)
qed (rule new_approval_keeps, auto)

lemma request_keeps:
  "keeps I (request_for_run svc c kind action payload summary expires)"
  "keeps I (request_for_task svc i kind summary p action2 by1 expires)"
  "keeps I (request_standalone svc company_id kind ref_type ref_id summary by2 action2 p expires)"
  unfolding request_for_run_def request_for_task_def request_standalone_def
  by (intro basics parts create_approval_keeps suspend_keeps await_keeps)+

definition service_keeps :: "approval_service \<Rightarrow> bool" where
  "service_keeps svc \<longleftrightarrow> hooks_keep (as_task_manager svc) \<and>
     (\<forall>n hook. map_of (as_hooks svc) n = Some hook \<longrightarrow> (\<forall>i o1 actor reason. keeps I (hook i o1 actor reason))) \<and>
     (\<forall>n d. map_of (as_delegates svc) n = Some d \<longrightarrow> (\<forall>i. keeps I (d i)))"

lemma service_hooks:
  assumes "service_keeps svc"
  shows "hooks_keep (as_task_manager svc)"
    "map_of (as_hooks svc) n = Some hook \<Longrightarrow> keeps I (hook i o1 actor reason)"
    "map_of (as_delegates svc) n = Some d \<Longrightarrow> keeps I (d i)"
  using assms unfolding service_keeps_def by blast+

lemma release_delegate_keeps: "service_keeps svc \<Longrightarrow> keeps I (release_delegate svc i decided_by)"
  unfolding release_delegate_def by (intro basics parts manager_keeps service_hooks)

lemma settle_task_keeps: "service_keeps svc \<Longrightarrow> keeps I (settle_task svc a o1 actor reason)"
  unfolding settle_task_def by (intro basics parts manager_keeps service_hooks release_after_keeps)

lemma decide_keeps: "service_keeps svc \<Longrightarrow> keeps I (decide_approval svc i o1 actor reason)"
  unfolding decide_approval_def
  by (intro basics release_delegate_keeps settle_task_keeps approval_emit_keeps) (simp_all add: service_hooks)

lemma decisions_keep:
  assumes "service_keeps svc"
  shows "keeps I (decide_human svc i o1 actor reason)" "keeps I (decide_delegated svc i o1 actor text task_id)"
  unfolding decide_human_def decide_delegated_def using assms by (intro basics decide_keeps; assumption)+

lemma delegate_keeps: "service_keeps svc \<Longrightarrow> keeps I (delegate_approval svc i)"
  unfolding delegate_approval_def by (intro basics parts approval_emit_keeps) (simp_all add: service_hooks)

lemma expire_one_keeps: "service_keeps svc \<Longrightarrow> keeps I (expire_one svc i)"
  unfolding expire_one_def by (intro basics parts release_delegate_keeps approval_emit_keeps)

lemma renew_keeps: "keeps I (renew_one svc i)" "keeps I (renew_waiting svc)"
proof -
  have one: "keeps I (renew_one svc i)" for i
    unfolding renew_one_def by (intro basics create_approval_keeps)
  then show "keeps I (renew_one svc i)" .
  show "keeps I (renew_waiting svc)" unfolding renew_waiting_def by (intro basics one)
qed

lemma expire_due_keeps: "service_keeps svc \<Longrightarrow> keeps I (expire_due svc)"
  unfolding expire_due_def Let_def by (intro basics delegate_keeps expire_one_keeps renew_keeps)

section \<open>Decisions of the policy engine\<close>

lemma decide_and_record_keeps: "keeps I (decide_and_record e actor action company_id role args facts policies refs)"
  unfolding decide_and_record_def by (intro basics new_event_keeps)

end

end
