(* ===== verification/System.thy ===== *)
theory System
  imports KeepsAll
begin

text \<open>
  The running system: a task manager bound to the workflow engine, the approval service and
  the policy engine over one database, and the steps its processes take. A step is one
  transaction that committed. Claims are any claims at all, so the invariants below do not rest
  on callers being honest.
\<close>

record system =
  sy_fuel :: nat
  sy_manager :: task_manager
  sy_templates :: template_registry
  sy_approvals :: approval_service
  sy_policy :: policy_engine

definition compose :: "nat \<Rightarrow> template_registry \<Rightarrow> task_manager \<Rightarrow> approval_service \<Rightarrow> policy_engine \<Rightarrow> err + system" where
  "compose n reg tm svc pe =
     bind_err (bind_engine n reg tm) (\<lambda>bound.
     Inr \<lparr>sy_fuel = n, sy_manager = bound, sy_templates = reg,
          sy_approvals = svc\<lparr>as_task_manager := bound\<rparr>, sy_policy = pe\<rparr>)"

inductive step :: "system \<Rightarrow> db \<Rightarrow> db \<Rightarrow> bool" for y :: system where
  time_passes: "clock s \<le> now \<Longrightarrow> step y s (s\<lparr>clock := now\<rparr>)"
| roster: "step y s (s\<lparr>agents := f (agents s)\<rparr>)"
| initialize: "initialize_activity ag actor s = Inr (x, s') \<Longrightarrow> step y s s'"
| activity: "set_activity ag p actor cx s = Inr (x, s') \<Longrightarrow> step y s s'"
| emit: "emit e s = Inr (x, s') \<Longrightarrow> step y s s'"
| add: "add_task nt s = Inr (x, s') \<Longrightarrow> step y s s'"
| claim: "claim_next (sy_manager y) ag w s = Inr (x, s') \<Longrightarrow> step y s s'"
| heartbeat: "heartbeat (sy_manager y) c s = Inr (x, s') \<Longrightarrow> step y s s'"
| run_moves: "run_transition i st actor reason s = Inr (x, s') \<Longrightarrow> step y s s'"
| succeed: "succeed (sy_manager y) c out summary s = Inr (x, s') \<Longrightarrow> step y s s'"
| fail: "fail_task (sy_manager y) c ec msg retryable s = Inr (x, s') \<Longrightarrow> step y s s'"
| abort: "abort_task (sy_manager y) c ar m s = Inr (x, s') \<Longrightarrow> step y s s'"
| cancel: "cancel_task (sy_manager y) i reason s = Inr (x, s') \<Longrightarrow> step y s s'"
| complete: "complete_without_run (sy_manager y) i out summary s = Inr (x, s') \<Longrightarrow> step y s s'"
| give_up: "fail_without_run (sy_manager y) i ec msg s = Inr (x, s') \<Longrightarrow> step y s s'"
| budget: "release_blocked (sy_manager y) company s = Inr (x, s') \<Longrightarrow> step y s s'"
| reap: "reap_expired_leases (sy_manager y) n s = Inr (x, s') \<Longrightarrow> step y s s'"
| instantiate: "workflow_instantiate (sy_templates y) name company project ps cycle1 s = Inr (x, s') \<Longrightarrow> step y s s'"
| cancel_workflow: "workflow_cancel (sy_fuel y) (sy_manager y) run reason s = Inr (x, s') \<Longrightarrow> step y s s'"
| ask_run: "request_for_run (sy_approvals y) c kind action payload text ttl s = Inr (x, s') \<Longrightarrow> step y s s'"
| ask_task: "request_for_task (sy_approvals y) i kind text p a by1 ttl s = Inr (x, s') \<Longrightarrow> step y s s'"
| ask: "request_standalone (sy_approvals y) company kind rt ri text by2 a p ttl s = Inr (x, s') \<Longrightarrow> step y s s'"
| decide: "decide_human (sy_approvals y) i o1 actor reason s = Inr (x, s') \<Longrightarrow> step y s s'"
| decide_delegate: "decide_delegated (sy_approvals y) i o1 actor text task s = Inr (x, s') \<Longrightarrow> step y s s'"
| expire: "expire_due (sy_approvals y) s = Inr (x, s') \<Longrightarrow> step y s s'"
| rule_on: "decide_and_record (sy_policy y) actor action company role args facts ps refs s = Inr (x, s') \<Longrightarrow>
    step y s s'"

text \<open>
  A database before anything ran: the roster is there, every other table is empty. Identity
  columns count from one.
\<close>

definition pristine :: "db \<Rightarrow> bool" where
  "pristine s \<longleftrightarrow> tasks s = [] \<and> runs s = [] \<and> workflows s = [] \<and> activities s = [] \<and>
     approvals s = [] \<and> audit s = [] \<and> events s = [] \<and> decisions s = [] \<and> cancelling s = [] \<and>
     1 \<le> next_seq s"

inductive reachable :: "system \<Rightarrow> db \<Rightarrow> bool" for y :: system where
  start: "pristine s \<Longrightarrow> reachable y s"
| more: "reachable y s \<Longrightarrow> step y s s' \<Longrightarrow> reachable y s'"

text \<open>
  What the domains plug in: decision hooks, delegates and links. They write through the
  runtime's own primitives only, so they keep whatever those keep.
\<close>

definition plug_in :: "'a db_tx \<Rightarrow> bool" where
  "plug_in m \<longleftrightarrow> (\<forall>I. db_invariant I \<longrightarrow> keeps I m)"

definition well_behaved :: "task_manager \<Rightarrow> approval_service \<Rightarrow> bool" where
  "well_behaved tm svc \<longleftrightarrow>
     (\<forall>h \<in> set (link_hooks tm). \<forall>i r. plug_in (h i r)) \<and>
     (\<forall>hook \<in> snd ` set (as_hooks svc). \<forall>i o1 actor reason. plug_in (hook i o1 actor reason)) \<and>
     (\<forall>d \<in> snd ` set (as_delegates svc). \<forall>i. plug_in (d i))"

context db_invariant
begin

lemma plug_in_keeps: "plug_in m \<Longrightarrow> keeps I m"
  using db_invariant_axioms by (auto simp: plug_in_def)

lemma compose_keeps:
  assumes y: "compose n reg tm svc pe = Inr y" and p: "well_behaved tm svc"
  shows "service_keeps (sy_approvals y)" "hooks_keep (sy_manager y)"
proof -
  obtain bound where b: "bind_engine n reg tm = Inr bound"
    and y': "y = \<lparr>sy_fuel = n, sy_manager = bound, sy_templates = reg,
      sy_approvals = svc\<lparr>as_task_manager := bound\<rparr>, sy_policy = pe\<rparr>"
    using y by (auto simp: compose_def bind_err_def split: sum.splits)
  have "keeps I (h i r)" if "h \<in> set (link_hooks tm)" for h i r
    using p that by (intro plug_in_keeps) (simp add: well_behaved_def)
  then have h: "hooks_keep bound" using bound_hooks_keep [OF b] by blast
  then show "hooks_keep (sy_manager y)" by (simp add: y')
  have "keeps I (hook i o1 actor reason)" if "map_of (as_hooks svc) k = Some hook" for k hook i o1 actor reason
    using p map_of_SomeD [OF that] by (intro plug_in_keeps) (force simp: well_behaved_def)
  moreover have "keeps I (d i)" if "map_of (as_delegates svc) k = Some d" for k d i
    using p map_of_SomeD [OF that] by (intro plug_in_keeps) (force simp: well_behaved_def)
  ultimately show "service_keeps (sy_approvals y)"
    using h unfolding service_keeps_def by (simp add: y')
qed

lemmas step_keeps =
  set_activity_keeps initialize_activity_keeps emit_keeps add_task_keeps_I claim_next_keeps
  heartbeat_keeps_I run_transition_keeps instantiate_keeps workflow_cancel_keeps request_keeps
  decide_and_record_keeps

lemma step_invariant:
  assumes y: "compose n reg tm svc pe = Inr y" and p: "well_behaved tm svc"
    and step: "step y s s'" and I: "I s"
  shows "I s'"
  using step
proof cases
  case (time_passes now)
  with I clock_keeps show ?thesis by (simp add: keeps_def triple_def tx_run)
next
  case (roster f)
  with I agents_keep show ?thesis by (simp add: keeps_def triple_def tx_run)
qed (rule keepsD [where I = I, OF _ I, rotated], assumption,
    rule step_keeps manager_keeps [OF compose_keeps(2) [OF y p]]
      decisions_keep [OF compose_keeps(1) [OF y p]] expire_due_keeps [OF compose_keeps(1) [OF y p]])+

theorem reachable_invariant:
  assumes "compose n reg tm svc pe = Inr y" "well_behaved tm svc" "\<And>s. pristine s \<Longrightarrow> I s"
    and "reachable y s"
  shows "I s"
  using assms(4)
proof induction
  case (start s)
  then show ?case by (rule assms(3))
next
  case (more s s')
  then show ?case using step_invariant [OF assms(1,2)] by blast
qed

end

end
