(* ===== verification/Logs.thy ===== *)
theory Logs
  imports System
begin

text \<open>
  Invariants of every state the system reaches: the event log, the audit log, the claims a
  worker holds, and the approvals that wait. Each is an interpretation of the locale of
  database invariants on the model's own primitives.
\<close>

section \<open>What a transition writes\<close>

definition audit_row ::
    "('s, 'x) state_machine \<Rightarrow> uuid \<Rightarrow> uuid \<Rightarrow> uuid \<Rightarrow> 's \<Rightarrow> 's \<Rightarrow> actor \<Rightarrow> string option \<Rightarrow> state_transition" where
  "audit_row m row_id company_id i from_state to_state actor reason =
     \<lparr>st_id = row_id, st_company_id = company_id, st_entity_type = entity_type m, st_entity_id = i,
      st_from_state = state_value m from_state, st_to_state = state_value m to_state,
      st_reason = reason, st_actor = actor\<rparr>"

lemma check_ok: "check m c x t = Inr v \<Longrightarrow> v = (c, t) \<and> t \<in> set (targets m c)"
  by (auto simp: check_def allowed_from_def split: if_splits option.splits)

text \<open>
  The interface \<open>StatefulEntity\<close>: a row of one table, read by its identifier and written in
  its state only.
\<close>

locale stateful_entity =
  fixes ent :: "('s, 'x) stateful"
    and row_of :: "db \<Rightarrow> 'x option"
    and store :: "'s \<Rightarrow> db \<Rightarrow> db"
  assumes ent_get: "ent_get ent = bindT (getsT row_of) (\<lambda>r. someT r AttributeError)"
    and ent_set: "\<And>st. ent_set_state ent st = modifyT (store st)"
    and store_frame: "\<And>st s. next_id (store st s) = next_id s \<and> audit (store st s) = audit s"
begin

lemma transition_effect:
  assumes "transition m ent st actor reason s = Inr (v, s')"
  obtains x where "row_of s = Some x" "st \<in> set (targets m (ent_state ent x))"
    "v = audit_row m (next_id s) (ent_company_id ent x) (ent_id ent x) (ent_state ent x) st actor reason"
    "s' = (store st s)\<lparr>next_id := Suc (next_id s), audit := audit s @ [v]\<rparr>"
proof -
  obtain x c where x: "row_of s = Some x" and "check m (ent_state ent x) x st = Inr c"
    and rest: "(case c of (current, target) \<Rightarrow> bindT (ent_set_state ent target) (\<lambda>_.
      add_transition (entity_type m) (ent_company_id ent x) (ent_id ent x) (state_value m current)
        (state_value m target) actor reason)) s = Inr (v, s')"
    using assms by (auto simp: transition_def ent_get run_bindT run_getsT run_someT run_liftT
        split: option.splits sum.splits)
  then show thesis
    using that [OF x] check_ok [of m "ent_state ent x" x st c] store_frame
    by (auto simp: ent_set add_transition_def uuid7_def tx_run audit_row_def Let_def)
qed

end

interpretation task_ent: stateful_entity "task_entity i" "\<lambda>s. task_of s i"
    "\<lambda>st s. s\<lparr>tasks := update_row t_id i (\<lambda>t. t\<lparr>t_state := st\<rparr>) (tasks s)\<rparr>" for i
  by unfold_locales (simp_all add: task_entity_def get_task_def upd_task_def)

interpretation run_ent: stateful_entity "run_entity i" "\<lambda>s. run_of s i"
    "\<lambda>st s. s\<lparr>runs := update_row r_id i (\<lambda>r. r\<lparr>r_state := st\<rparr>) (runs s)\<rparr>" for i
  by unfold_locales (simp_all add: run_entity_def get_run_def upd_run_def)

interpretation workflow_ent: stateful_entity "workflow_entity i" "\<lambda>s. workflow_of s i"
    "\<lambda>st s. s\<lparr>workflows := update_row w_id i (\<lambda>w. w\<lparr>w_state := st\<rparr>) (workflows s)\<rparr>" for i
  by unfold_locales (simp_all add: workflow_entity_def get_workflow_def upd_workflow_def)

interpretation approval_ent: stateful_entity "approval_entity i" "\<lambda>s. approval_of s i"
    "\<lambda>st s. s\<lparr>approvals := update_row ap_id i (\<lambda>a. a\<lparr>ap_state := st\<rparr>) (approvals s)\<rparr>" for i
  by unfold_locales (simp_all add: approval_entity_def get_approval_def upd_approval_def)

lemma task_transition_effect:
  assumes "task_transition i st actor reason s = Inr (v, s')"
  obtains t where "task_of s i = Some t" "st \<in> set (targets TASK_FSM (t_state t))"
    "v = audit_row TASK_FSM (next_id s) (t_company_id t) i (t_state t) st actor reason"
    "s' = s\<lparr>tasks := update_row t_id i (\<lambda>t. t\<lparr>t_state := st\<rparr>) (tasks s),
            next_id := Suc (next_id s), audit := audit s @ [v]\<rparr>"
  using assms that find_row_key [of t_id i "tasks s"] unfolding task_transition_def
  by (elim task_ent.transition_effect) (auto simp: task_entity_def task_of_def)

lemma run_transition_effect:
  assumes "run_transition i st actor reason s = Inr (v, s')"
  obtains r where "run_of s i = Some r" "st \<in> set (targets AGENT_RUN_FSM (r_state r))"
    "v = audit_row AGENT_RUN_FSM (next_id s) (r_company_id r) i (r_state r) st actor reason"
    "s' = s\<lparr>runs := update_row r_id i (\<lambda>r. r\<lparr>r_state := st\<rparr>) (runs s),
            next_id := Suc (next_id s), audit := audit s @ [v]\<rparr>"
  using assms that find_row_key [of r_id i "runs s"] unfolding run_transition_def
  by (elim run_ent.transition_effect) (auto simp: run_entity_def run_of_def)

lemma workflow_transition_effect:
  assumes "workflow_transition i st actor reason s = Inr (v, s')"
  obtains w where "workflow_of s i = Some w" "st \<in> set (targets WORKFLOW_RUN_FSM (w_state w))"
    "v = audit_row WORKFLOW_RUN_FSM (next_id s) (w_company_id w) i (w_state w) st actor reason"
    "s' = s\<lparr>workflows := update_row w_id i (\<lambda>w. w\<lparr>w_state := st\<rparr>) (workflows s),
            next_id := Suc (next_id s), audit := audit s @ [v]\<rparr>"
  using assms that find_row_key [of w_id i "workflows s"] unfolding workflow_transition_def
  by (elim workflow_ent.transition_effect) (auto simp: workflow_entity_def workflow_of_def)

lemma approval_transition_effect:
  assumes "approval_transition i st actor reason s = Inr (v, s')"
  obtains a where "approval_of s i = Some a" "st \<in> set (targets APPROVAL_FSM (ap_state a))"
    "v = audit_row APPROVAL_FSM (next_id s) (ap_company_id a) i (ap_state a) st actor reason"
    "s' = s\<lparr>approvals := update_row ap_id i (\<lambda>a. a\<lparr>ap_state := st\<rparr>) (approvals s),
            next_id := Suc (next_id s), audit := audit s @ [v]\<rparr>"
  using assms that find_row_key [of ap_id i "approvals s"] unfolding approval_transition_def
  by (elim approval_ent.transition_effect) (auto simp: approval_entity_def approval_of_def)

section \<open>The event log\<close>

definition log_ok :: "db \<Rightarrow> bool" where
  "log_ok s \<longleftrightarrow> sorted_wrt (<) (map seq_of (events s)) \<and>
     (\<forall>e \<in> set (events s). e_seq e \<noteq> None \<and> seq_of e < next_seq s \<and> e_persistence e = Persisted)"

text \<open>Steps that leave the log alone, and the step that writes it.\<close>

lemma keeps_by_frame:
  assumes "\<And>s x s'. m s = Inr (x, s') \<Longrightarrow> v s' = v s" and "\<And>s s'. v s' = v s \<Longrightarrow> I s \<Longrightarrow> I s'"
  shows "keeps I m"
  using assms by (blast intro: keepsI)

lemma emit_effect:
  "emit e s = Inr (x, s') \<Longrightarrow> e_persistence e = Persisted \<and> e_seq e = None \<and> x = e\<lparr>e_seq := Some (next_seq s)\<rparr> \<and>
     s' = s\<lparr>next_seq := Suc (next_seq s), events := events s @ [x]\<rparr>"
  by (cases "e_persistence e") (auto simp: emit_def tx_run Let_def split: if_splits)

lemma log_ok_emit: "keeps log_ok (emit e)"
proof (rule keepsI)
  fix s x s'
  assume ok: "log_ok s" and run: "emit e s = Inr (x, s')"
  have "e_persistence (e\<lparr>e_seq := Some q\<rparr>) = e_persistence e" for q
    by (simp add: e_persistence_def)
  then show "log_ok s'"
    using ok emit_effect [OF run] by (auto simp: log_ok_def sorted_wrt_append seq_of_def less_SucI)
qed

text \<open>Running the primitive writes.\<close>

lemmas write_run = keeps_def triple_def run_modifyT run_bindT uuid7_def upd_task_def upd_run_def
  upd_workflow_def upd_approval_def upsert_activity_def

lemmas transition_effects = task_transition_effect run_transition_effect workflow_transition_effect
  approval_transition_effect

interpretation event_log: db_invariant log_ok
proof unfold_locales
  show "keeps log_ok (emit e)" for e by (rule log_ok_emit)
qed (auto simp: write_run log_ok_def elim!: transition_effects)

text \<open>Neither log is ever rewritten: what was there stays there, in place.\<close>

definition extends :: "envelope list \<Rightarrow> state_transition list \<Rightarrow> db \<Rightarrow> bool" where
  "extends E A s \<longleftrightarrow> (\<exists>E'. events s = E @ E') \<and> (\<exists>A'. audit s = A @ A')"

interpretation append_only: db_invariant "extends E A" for E A
proof unfold_locales
  show "keeps (extends E A) (emit e)" for e
    by (auto simp: keeps_def triple_def extends_def dest!: emit_effect)
qed (auto simp: write_run extends_def elim!: transition_effects)

section \<open>The audit log\<close>

text \<open>
  \<open>trail m start moves final\<close>: the moves, in order, lead from one state to the other along
  transitions of the machine. The audit log holds the moves as the strings that are stored.
\<close>

fun trail :: "('s, 'x) state_machine \<Rightarrow> 's \<Rightarrow> (string \<times> string) list \<Rightarrow> 's \<Rightarrow> bool" where
  "trail m start [] final = (start = final)"
| "trail m start ((a, b) # rest) final =
     (a = state_value m start \<and>
      list_ex (\<lambda>x. b = state_value m x \<and> trail m x rest final) (targets m start))"

lemma trail_snoc:
  "trail m s moves x \<Longrightarrow> y \<in> set (targets m x) \<Longrightarrow>
   trail m s (moves @ [(state_value m x, state_value m y)]) y"
  by (induction m s moves x rule: trail.induct) (auto simp: list_ex_iff)

definition moves_of :: "string \<Rightarrow> uuid \<Rightarrow> state_transition list \<Rightarrow> (string \<times> string) list" where
  "moves_of kind i A = map (\<lambda>a. (st_from_state a, st_to_state a))
     (filter (\<lambda>a. st_entity_type a = kind \<and> st_entity_id a = i) A)"

lemma moves_of_simps [simp]:
  "moves_of kind i [] = []"
  "moves_of kind i (A @ [a]) = moves_of kind i A @
     (if st_entity_type a = kind \<and> st_entity_id a = i then [(st_from_state a, st_to_state a)] else [])"
  by (simp_all add: moves_of_def)

text \<open>The rows of a table are where their trails lead.\<close>

definition tracked ::
    "('s, 'x) state_machine \<Rightarrow> ('x \<Rightarrow> uuid) \<Rightarrow> ('x \<Rightarrow> 's) \<Rightarrow> state_transition list \<Rightarrow> 'x list \<Rightarrow> bool" where
  "tracked m key st A rows \<longleftrightarrow> distinct (map key rows) \<and>
     (\<forall>x \<in> set rows. trail m (initial m) (moves_of (entity_type m) (key x) A) (st x)) \<and>
     (\<forall>a \<in> set A. st_entity_type a = entity_type m \<longrightarrow> st_entity_id a \<in> key ` set rows)"

lemma tracked_Nil [simp]: "tracked m key st [] []"
  by (simp add: tracked_def)

lemma tracked_note:
  assumes t: "tracked m key st A rows" and f: "\<And>x. key (f x) = key x" "\<And>x. st (f x) = st x"
  shows "tracked m key st A (update_row key i f rows)"
proof -
  have k: "map key (update_row key i f rows) = map key rows" using f(1) by (rule update_row_keys)
  have "key ` set (update_row key i f rows) = key ` set rows" using arg_cong [OF k, of set] by simp
  then show ?thesis using t f k by (auto simp: tracked_def dest!: set_update_row)
qed

lemma tracked_move:
  assumes t: "tracked m key st A rows" and x: "find_row key i rows = Some x"
    and tgt: "y \<in> set (targets m (st x))" and f: "\<And>z. key (f z) = key z" "st (f x) = y"
    and a: "st_entity_type a = entity_type m" "st_entity_id a = i"
      "st_from_state a = state_value m (st x)" "st_to_state a = state_value m y"
  shows "tracked m key st (A @ [a]) (update_row key i f rows)"
proof -
  have k: "map key (update_row key i f rows) = map key rows" using f(1) by (rule update_row_keys)
  have ks: "key ` set (update_row key i f rows) = key ` set rows" using arg_cong [OF k, of set] by simp
  have xi: "key x = i" "x \<in> set rows" using x by (auto dest: find_row_key find_row_in)
  have "trail m (initial m) (moves_of (entity_type m) (key z) (A @ [a])) (st z)"
    if "z \<in> set (update_row key i f rows)" for z
    using set_update_row [OF that]
  proof
    assume "\<exists>r0\<in>set rows. key r0 = i \<and> z = f r0"
    then obtain r0 where r0: "r0 \<in> set rows" "key r0 = i" "z = f r0" by blast
    then have "r0 = x" using t xi by (auto simp: tracked_def distinct_map dest: inj_onD)
    then have z: "z = f x" using r0 by simp
    have "trail m (initial m) (moves_of (entity_type m) (key x) A) (st x)" using t xi(2) by (simp add: tracked_def)
    then show ?thesis using trail_snoc [OF _ tgt] z f a xi(1) by simp
  next
    assume "z \<in> set rows \<and> key z \<noteq> i"
    then show ?thesis using t a by (simp add: tracked_def)
  qed
  moreover have "i \<in> key ` set rows" using xi by blast
  ultimately show ?thesis using t k ks a by (auto simp: tracked_def)
qed

lemma tracked_other:
  "tracked m key st A rows \<Longrightarrow> st_entity_type a \<noteq> entity_type m \<Longrightarrow> tracked m key st (A @ [a]) rows"
  by (simp add: tracked_def)

lemma tracked_new:
  assumes "tracked m key st A rows" "key x \<notin> key ` set rows" "st x = initial m"
  shows "tracked m key st A (rows @ [x])"
proof -
  have "\<not> (st_entity_type a = entity_type m \<and> st_entity_id a = key x)" if "a \<in> set A" for a
    using assms that by (metis tracked_def)
  then have "filter (\<lambda>a. st_entity_type a = entity_type m \<and> st_entity_id a = key x) A = []"
    by (auto simp: filter_empty_conv)
  then have "moves_of (entity_type m) (key x) A = []" by (simp add: moves_of_def)
  then show ?thesis using assms by (auto simp: tracked_def)
qed

definition audited :: "db \<Rightarrow> bool" where
  "audited s \<longleftrightarrow> tracked TASK_FSM t_id t_state (audit s) (tasks s) \<and>
     tracked AGENT_RUN_FSM r_id r_state (audit s) (runs s) \<and>
     tracked WORKFLOW_RUN_FSM w_id w_state (audit s) (workflows s) \<and>
     tracked APPROVAL_FSM ap_id ap_state (audit s) (approvals s) \<and>
     (\<forall>r \<in> set (runs s). r_id r < next_id s) \<and> (\<forall>w \<in> set (workflows s). w_id w < next_id s) \<and>
     (\<forall>a \<in> set (approvals s). ap_id a < next_id s)"

lemma kinds [simp]:
  "entity_type TASK_FSM = ''task''" "entity_type AGENT_RUN_FSM = ''agent_run''"
  "entity_type WORKFLOW_RUN_FSM = ''workflow_run''" "entity_type APPROVAL_FSM = ''approval''"
  "initial TASK_FSM = T_PENDING" "initial AGENT_RUN_FSM = R_CREATED"
  "initial WORKFLOW_RUN_FSM = W_RUNNING" "initial APPROVAL_FSM = P_PENDING"
  by (simp_all add: TASK_FSM_def AGENT_RUN_FSM_def WORKFLOW_RUN_FSM_def APPROVAL_FSM_def)

lemma audit_row_simps [simp]:
  "st_entity_type (audit_row m n c i a b actor reason) = entity_type m"
  "st_entity_id (audit_row m n c i a b actor reason) = i"
  "st_from_state (audit_row m n c i a b actor reason) = state_value m a"
  "st_to_state (audit_row m n c i a b actor reason) = state_value m b"
  by (simp_all add: audit_row_def)

lemma tracked_row:
  assumes "tracked m key st A rows" "find_row key i rows = Some x" "y \<in> set (targets m (st x))"
    "\<And>z. key (f z) = key z" "st (f x) = y"
  shows "tracked m key st (A @ [audit_row m n c i (st x) y actor reason]) (update_row key i f rows)"
  using assms by (intro tracked_move) simp_all

lemma below_update:
  "(\<And>x. key (f x) = key x) \<Longrightarrow> \<forall>x \<in> set rows. key x < n \<Longrightarrow> \<forall>x \<in> set (update_row key i f rows). key x < (n :: nat)"
  by (auto dest!: set_update_row)

interpretation audit_log: db_invariant audited
proof unfold_locales
  show "keeps audited (emit e)" for e
    by (auto simp: keeps_def triple_def audited_def dest!: emit_effect)
next
  fix f :: "task \<Rightarrow> task" and i
  assume "\<And>t. t_id (f t) = t_id t" "\<And>t. t_state (f t) = t_state t"
  then show "keeps audited (upd_task i f)" by (auto simp: write_run audited_def intro: tracked_note)
next
  fix f :: "agent_run \<Rightarrow> agent_run" and i
  assume "\<And>t. r_id (f t) = r_id t" "\<And>t. r_state (f t) = r_state t"
  then show "keeps audited (upd_run i f)"
    using below_update [of r_id f] by (auto simp: write_run audited_def intro: tracked_note)
next
  fix f :: "workflow_run \<Rightarrow> workflow_run" and i
  assume "\<And>t. w_id (f t) = w_id t" "\<And>t. w_state (f t) = w_state t"
  then show "keeps audited (upd_workflow i f)"
    using below_update [of w_id f] by (auto simp: write_run audited_def intro: tracked_note)
next
  fix f :: "approval \<Rightarrow> approval" and i
  assume "\<And>t. ap_id (f t) = ap_id t" "\<And>t. ap_state (f t) = ap_state t"
  then show "keeps audited (upd_approval i f)"
    using below_update [of ap_id f] by (auto simp: write_run audited_def intro: tracked_note)
next
  fix i st actor and reason :: "string option"
  show "keeps audited (task_transition i st actor reason)"
    by (rule keepsI, erule task_transition_effect)
      (auto simp: audited_def task_of_def intro: tracked_row tracked_other less_SucI)
next
  fix i st actor and reason :: "string option"
  show "keeps audited (run_transition i st actor reason)"
    by (rule keepsI, erule run_transition_effect)
      (auto simp: audited_def run_of_def intro: tracked_row tracked_other less_SucI dest!: set_update_row)
next
  fix i st actor and reason :: "string option"
  show "keeps audited (workflow_transition i st actor reason)"
    by (rule keepsI, erule workflow_transition_effect)
      (auto simp: audited_def workflow_of_def intro: tracked_row tracked_other less_SucI dest!: set_update_row)
next
  fix i st actor and reason :: "string option"
  show "keeps audited (approval_transition i st actor reason)"
    by (rule keepsI, erule approval_transition_effect)
      (auto simp: audited_def approval_of_def intro: tracked_row tracked_other less_SucI dest!: set_update_row)
next
  fix t :: task
  assume "t_state t = T_PENDING"
  then show "triple (\<lambda>s. audited s \<and> task_of s (t_id t) = None)
      (modifyT (\<lambda>s. s\<lparr>tasks := tasks s @ [t]\<rparr>) :: unit db_tx) (\<lambda>_. audited)"
    by (auto simp: triple_def run_modifyT audited_def task_of_def find_row_None_iff intro!: tracked_new)
next
  fix g :: "uuid \<Rightarrow> agent_run"
  assume "\<And>i. r_id (g i) = i" "\<And>i. r_state (g i) = R_CREATED"
  then show "keeps audited (bindT uuid7 (\<lambda>i. modifyT (\<lambda>s. s\<lparr>runs := runs s @ [g i]\<rparr>)))"
    by (auto simp: write_run audited_def intro!: tracked_new intro: less_SucI)
next
  fix g :: "uuid \<Rightarrow> workflow_run"
  assume "\<And>i. w_id (g i) = i" "\<And>i. w_state (g i) = W_RUNNING"
  then show "keeps audited (bindT uuid7 (\<lambda>i. modifyT (\<lambda>s. s\<lparr>workflows := workflows s @ [g i]\<rparr>)))"
    by (auto simp: write_run audited_def intro!: tracked_new intro: less_SucI)
next
  fix g :: "uuid \<Rightarrow> approval" and kind ref
  assume "\<And>i. ap_id (g i) = i" "\<And>i. ap_state (g i) = P_PENDING"
  then show "triple (\<lambda>s. audited s \<and> \<not> list_ex (pending_for kind ref) (approvals s))
      (bindT uuid7 (\<lambda>i. modifyT (\<lambda>s. s\<lparr>approvals := approvals s @ [g i]\<rparr>))) (\<lambda>_. audited)"
    by (auto simp: write_run audited_def intro!: tracked_new intro: less_SucI)
next
  show "keeps audited uuid7" by (auto simp: write_run audited_def intro: less_SucI)
qed (auto simp: write_run audited_def)

section \<open>Claims and approvals\<close>

text \<open>A claim stays a claim of a run of its task, whatever happens to the run.\<close>

definition claim_held :: "claim \<Rightarrow> db \<Rightarrow> bool" where
  "claim_held c s \<longleftrightarrow> (\<exists>r. run_of s (cl_run_id c) = Some r \<and> r_task_id r = cl_task_id c)"

lemma run_of_update:
  assumes "\<And>r. r_id (f r) = r_id r"
  shows "find_row r_id j (update_row r_id i f R) =
    (if j = i then map_option f (find_row r_id j R) else find_row r_id j R)"
  using find_row_update [of r_id f j i R] assms by simp

interpretation held_claims: db_invariant "claim_held c" for c
proof unfold_locales
  show "keeps (claim_held c) (emit e)" for e
    by (auto simp: keeps_def triple_def claim_held_def run_of_def dest!: emit_effect)
next
  fix f :: "agent_run \<Rightarrow> agent_run" and i
  assume "\<And>t. r_id (f t) = r_id t" "\<And>t. r_task_id (f t) = r_task_id t"
  then show "keeps (claim_held c) (upd_run i f)"
    by (auto simp: write_run claim_held_def run_of_def run_of_update)
next
  fix i st actor and reason :: "string option"
  show "keeps (claim_held c) (run_transition i st actor reason)"
    by (rule keepsI, erule run_transition_effect) (auto simp: claim_held_def run_of_def run_of_update)
qed (auto simp: write_run claim_held_def run_of_def find_row_append split: option.splits elim!: transition_effects)

text \<open>At most one approval of a subject waits for a decision.\<close>

definition pending_unique :: "db \<Rightarrow> bool" where
  "pending_unique s \<longleftrightarrow>
     sorted_wrt (\<lambda>a b. \<not> (ap_state a = P_PENDING \<and> ap_state b = P_PENDING \<and>
        ap_ref_type a = ap_ref_type b \<and> ap_ref_id a = ap_ref_id b)) (approvals s)"

lemma sorted_wrt_update:
  assumes "sorted_wrt Q rows" "\<And>a b. Q a b \<Longrightarrow> Q (g a) (g b)"
  shows "sorted_wrt Q (map g rows)"
  using assms by (induction rows) auto

lemma approval_pending_targets: "P_PENDING \<notin> set (targets APPROVAL_FSM st)"
  by (cases st) (simp_all add: targets_def APPROVAL_FSM_def)

interpretation one_pending: db_invariant pending_unique
proof unfold_locales
  show "keeps pending_unique (emit e)" for e
    by (auto simp: keeps_def triple_def pending_unique_def dest!: emit_effect)
next
  fix f :: "approval \<Rightarrow> approval" and i
  assume "\<And>a. ap_id (f a) = ap_id a" "\<And>a. ap_state (f a) = ap_state a"
    "\<And>a. ap_ref_type (f a) = ap_ref_type a" "\<And>a. ap_ref_id (f a) = ap_ref_id a"
  then show "keeps pending_unique (upd_approval i f)"
    by (auto simp: write_run pending_unique_def update_row_def intro!: sorted_wrt_update split: if_splits)
next
  fix i st actor and reason :: "string option"
  show "keeps pending_unique (approval_transition i st actor reason)"
  proof (rule keepsI, erule approval_transition_effect)
    fix s s' and v :: state_transition and a
    assume s: "pending_unique s" "st \<in> set (targets APPROVAL_FSM (ap_state a))"
      "s' = s\<lparr>approvals := update_row ap_id i (\<lambda>a. a\<lparr>ap_state := st\<rparr>) (approvals s),
        next_id := Suc (next_id s), audit := audit s @ [v]\<rparr>"
    have "st \<noteq> P_PENDING" using s(2) approval_pending_targets [of "ap_state a"] by auto
    then show "pending_unique s'"
      using s(1) by (auto simp: s(3) pending_unique_def update_row_def intro!: sorted_wrt_update split: if_splits)
  qed
next
  fix g :: "uuid \<Rightarrow> approval" and kind ref
  assume "\<And>i. ap_ref_type (g i) = kind" "\<And>i. ap_ref_id (g i) = ref"
  then show "triple (\<lambda>s. pending_unique s \<and> \<not> list_ex (pending_for kind ref) (approvals s))
      (bindT uuid7 (\<lambda>i. modifyT (\<lambda>s. s\<lparr>approvals := approvals s @ [g i]\<rparr>))) (\<lambda>_. pending_unique)"
    by (auto simp: write_run pending_unique_def sorted_wrt_append list_ex_iff pending_for_def)
qed (auto simp: write_run pending_unique_def elim!: transition_effects)

end
