(* ===== verification/TaskClosing.thy ===== *)
theory TaskClosing
  imports TaskLife Logs
begin

text \<open>
  The ends of a claim that need more than the hook on failed tasks (success), the tasks no agent
  runs, suspension and release, the reaper, and the release of tasks blocked on a budget.
\<close>

lemma open_not_terminal: "is_open_run r \<Longrightarrow> r_state r \<notin> set AGENT_RUN_TERMINAL"
  by (simp add: is_open_run_def)

text \<open>An update of the open run that leaves its state.\<close>

lemma Fo_note_run:
  assumes g: "run_keeps g" and st: "\<And>r. r_state (g r) = r_state r" and k: "kk = r_id r"
    and cont: "triple (Fo X i t (Some (g r))) (k ()) Q"
  shows "triple (Fo X i t (Some r)) (bindT (upd_run kk g) k) Q"
proof (rule triple_assume [OF Fo_open_run], assumption)
  assume "is_open_run r \<and> 1 \<le> r_attempt r \<and> r_attempt r \<le> t_attempt t \<and> r_task_id r = i"
  then have "is_open_run (g r)" using st by (simp add: is_open_run_def)
  then show ?thesis using cont by (intro Fo_upd_run [OF g _ k]) (simp_all add: after_run_def)
qed

lemma triple_if: "(b \<Longrightarrow> triple P m Q) \<Longrightarrow> (\<not> b \<Longrightarrow> triple P n Q) \<Longrightarrow> triple P (if b then m else n) Q"
  by simp

section \<open>Retries\<close>

lemma requeue_closed:
  assumes c: "task_checks (t\<lparr>t_state := T_READY\<rparr>)" and x: "X (t_id t) = None"
  shows "triple (Fo X i t None) (requeue tm i run_id ended) (\<lambda>_. Rt X)"
  unfolding requeue_def
proof (rule Fo_frame [OF frames_gets], rule Fo_upd_task, simp_all, rule Fo_task_transition, goal_cases)
  case (1 now v)
  have "fits X (t\<lparr>t_available_at := Some (now + backoff tm (t_attempt t)), t_state := T_READY\<rparr>) None"
    using c x by (intro fits_closed) (simp_all add: task_checks_def lease_iff_running_def)
  then show ?case by (rule keeps_close) (intro keeps_frame frame_intros)
qed

section \<open>The end of a claim\<close>

context failed_contract
begin

lemma fail_keeps:
  "triple (\<lambda>s. Rt X s \<and> claim_ok c s) (fail_task tm c error_class message retryable) (\<lambda>_. Rt X)"
  unfolding fail_task_def
proof (rule open_claim, rule Fo_frame [OF frames_gets],
    rule Fo_note_run, simp add: run_keeps_def, simp, simp, rule Fo_finish_run, goal_cases)
  case (3 t r now)
  have c: "task_checks t" using 3 by (intro fits_checks)
  show ?case
    unfolding Let_def
  proof (rule Fo_release, rule triple_if, goal_cases)
    case 1
    show ?case
    proof (rule triple_bind)
      show "triple (Fo X (t_id t) (no_lease t) None)
          (requeue tm (t_id t) (Some (r_id r))
            (AgentRunFailed error_class (take 2000 message) (t_attempt t)
              (\<not> (retryable \<and> t_attempt t < t_max_attempts t)))) (\<lambda>_. Rt X)"
        using idle_checks [OF c] 3 by (intro requeue_closed) simp_all
    qed (simp add: triple_def tx_run)
  next
    case 2
    have d: "task_checks ((no_lease t)\<lparr>t_state := T_FAILED\<rparr>)" using c by (rule idle_checks) simp
    show ?case
      by ((rule cell_steps | rule Fo_frame, (intro frame_intros; fail))+, rule triple_bind,
          rule close_failed [OF d]) (use 3 in \<open>simp_all add: triple_def tx_run\<close>)
  qed
qed (simp_all add: AGENT_RUN_TERMINAL_def)

end

lemma bindT_if: "bindT (if b then m else n) k = (if b then bindT m k else bindT n k)"
  by simp

context failed_contract
begin

lemma abort_keeps:
  "triple (\<lambda>s. Rt X s \<and> claim_ok c s) (abort_task tm c reason message) (\<lambda>_. Rt X)"
  unfolding abort_task_def
proof (rule open_claim, rule Fo_abort_run, simp, rule Fo_release, goal_cases)
  case (1 t r)
  have c: "task_checks ((no_lease t)\<lparr>t_state := st\<rparr>)" if "st \<noteq> T_RUNNING" for st
    using 1 that by (intro idle_checks fits_checks)
  have n: "fits X ((no_lease t)\<lparr>t_state := st\<rparr>) None" if "st \<noteq> T_RUNNING" for st
    using 1 that by (intro fits_closed c) simp_all
  show ?case
    unfolding bindT_if bindT_assoc
  proof (intro triple_if, goal_cases)
    case 1
    show ?case
      by (rule Fo_task_transition, rule keeps_close [OF n]) (simp, intro keeps_frame frame_intros)
  next
    case 2
    show ?case
      by ((rule cell_steps | rule Fo_frame, (intro frame_intros; fail))+, rule keeps_close [OF n])
        (simp, rule failed_keeps)
  next
    case 3
    show ?case
      by ((rule cell_steps | rule Fo_frame, (intro frame_intros; fail))+, rule keeps_close [OF n])
        (simp, rule failed_keeps)
  qed
qed

end

text \<open>Suspension: the run goes to WAITING_APPROVAL along a path of open states.\<close>

lemma suspend_hops:
  assumes "shortest_path AGENT_RUN_FSM s R_WAITING_APPROVAL = Inr p" "st \<in> set p"
  shows "st \<notin> set AGENT_RUN_TERMINAL"
proof (cases p rule: rev_cases)
  case (snoc q x)
  have h: "hops AGENT_RUN_FSM s p R_WAITING_APPROVAL" using assms(1) by (rule shortest_path_hops)
  then have x: "x = R_WAITING_APPROVAL" using hops_last [OF h] snoc by simp
  have "st = x \<or> st \<in> set (butlast p)" using assms(2) snoc by auto
  then have "targets AGENT_RUN_FSM st \<noteq> []"
  proof
    assume "st = x"
    then show ?thesis using x by (simp add: targets_def AGENT_RUN_FSM_def)
  next
    assume "st \<in> set (butlast p)"
    with h show ?thesis by (rule hops_butlast)
  qed
  then show ?thesis by (simp add: terminal_iff)
qed (use assms in simp)

lemma triple_bind_lift: "(\<And>v. r = Inr v \<Longrightarrow> triple P (k v) Q) \<Longrightarrow> triple P (bindT (liftT r) k) Q"
  by (cases r) (simp_all add: triple_def tx_run)

lemma suspend_keeps_Rt:
  "triple (\<lambda>s. Rt X s \<and> claim_ok c s) (suspend_for_approval c approval_id) (\<lambda>_. Rt X)"
  unfolding suspend_for_approval_def
proof (rule open_claim, rule triple_assume [OF Fo_open_run], assumption, rule triple_bind_lift,
    rule triple_bind, rule Fo_hops [where g = R_WAITING_APPROVAL], goal_cases)
  case (1 t r p)
  then show ?case by (intro shortest_path_hops)
next
  case (2 t r p st)
  then show ?case by (intro suspend_hops)
next
  case (4 t r p ys)
  have "task_checks ((no_lease t)\<lparr>t_state := T_WAITING_APPROVAL\<rparr>)"
    using 4 by (intro idle_checks fits_checks) auto
  moreover have "run_checks (r\<lparr>r_state := R_WAITING_APPROVAL\<rparr>)"
    using 4 by (simp add: fits_def open_checks_def run_checks_def finished_iff_terminal_def is_open_run_def
        AGENT_RUN_TERMINAL_def)
  ultimately have "fits X ((no_lease t)\<lparr>t_state := T_WAITING_APPROVAL\<rparr>) (Some (r\<lparr>r_state := R_WAITING_APPROVAL\<rparr>))"
    using 4 by (simp add: fits_def open_checks_def)
  then show ?case
    by - (rule Fo_release, rule Fo_task_transition, erule keeps_close, intro keeps_frame frame_intros)
qed simp

section \<open>Tasks no agent runs\<close>

lemma fits_idle:
  assumes "fits X t None"
  shows "X (t_id t) = None" "t_state t \<noteq> T_RUNNING"
proof -
  show x: "X (t_id t) = None" using assms by (auto simp: fits_def split: option.splits)
  show "t_state t \<noteq> T_RUNNING" using fits_coupled [OF assms x] by auto
qed

lemma transition_missing:
  assumes "task_of s i = None" "\<And>t. t_id (f t) = t_id t"
  shows "bindT (upd_task i f) (\<lambda>_. bindT (task_transition i st actor reason) k) s = Inl AttributeError"
proof -
  have "task_of (s\<lparr>tasks := update_row t_id i f (tasks s)\<rparr>) i = None"
    using find_row_update [of t_id f i i "tasks s"] assms by (simp add: task_of_def)
  then show ?thesis
    by (simp add: upd_task_def tx_run task_transition_def transition_def task_entity_def get_task_def)
qed

text \<open>The form of every operation on a task without a run: note something, then move it.\<close>

lemma idle_move:
  assumes f: "\<And>t. t_id (f t) = t_id t" "\<And>t. t_state (f t) = t_state t" "\<And>t. t_attempt (f t) = t_attempt t"
      "\<And>t. t_max_attempts (f t) = t_max_attempts t" "\<And>t. t_lease_owner (f t) = t_lease_owner t"
      "\<And>t. t_lease_until (f t) = t_lease_until t" "\<And>t. t_lease_token (f t) = t_lease_token t"
    and st: "st \<noteq> T_RUNNING" and k: "\<And>v. keeps (Rt X) (k v)"
  shows "triple (\<lambda>s. Rt X s \<and> open_run_of_task i s = None)
    (bindT (upd_task i f) (\<lambda>_. bindT (task_transition i st actor reason) k)) (\<lambda>_. Rt X)"
proof (rule tripleI)
  fix s x s'
  let ?m = "bindT (upd_task i f) (\<lambda>_. bindT (task_transition i st actor reason) k)"
  assume pre: "Rt X s \<and> open_run_of_task i s = None" and run: "?m s = Inr (x, s')"
  then obtain t where t: "task_of s i = Some t"
    using transition_missing [of s i f st actor reason k] f(1) by (cases "task_of s i") auto
  obtain o1 where o1: "Fo X i t o1 s" "fits X t o1" "t_id t = i" using Rt_open [OF conjunct1 [OF pre] t] .
  then have "o1 = None" using open_run_of_task_cell pre by simp
  with o1 have F: "Fo X i t None s" and fits: "fits X t None" by simp_all
  have c: "task_checks (f t)"
    using fits_checks [OF fits] by (simp add: task_checks_def lease_iff_running_def f)
  have "triple (Fo X i t None) ?m (\<lambda>_. Rt X)"
    by (rule Fo_upd_task [OF f(1)], simp add: f, rule move_closed [OF c])
      (use fits_idle [OF fits] st k f in simp_all)
  then show "Rt X s'" using F run by (rule tripleD)
qed

context failed_contract
begin

lemma fail_without_run_keeps:
  "triple (\<lambda>s. Rt X s \<and> open_run_of_task i s = None) (fail_without_run tm i ec message) (\<lambda>_. Rt X)"
  unfolding fail_without_run_def
  by (rule idle_move) (simp_all add: keeps_bind keeps_frame frames_tm_emit failed_keeps)

end

section \<open>Success\<close>

locale task_hooks = failed_contract +
  assumes finished_keeps: "\<And>X i. keeps (Rt X) (finished_hook tm i)"
    and links_frame: "\<And>i r. frames (activity_links tm i r)"
begin

lemma succeed_keeps:
  "triple (\<lambda>s. Rt X s \<and> claim_ok c s) (succeed tm c output summary) (\<lambda>_. Rt X)"
  unfolding succeed_def
proof (rule open_claim, rule Fo_frame [OF frames_gets], rule Fo_upd_task, simp, simp,
    rule Fo_release, rule Fo_task_transition, goal_cases)
  case (1 t r now v)
  let ?t = "no_lease (t\<lparr>t_output := output\<rparr>)\<lparr>t_state := T_SUCCEEDED\<rparr>"
  have c: "task_checks (t\<lparr>t_output := output\<rparr>)"
    using fits_checks [OF 1(2)] by (simp add: task_checks_def lease_iff_running_def)
  then have c': "task_checks ?t" by (rule idle_checks) simp
  have r: "run_checks r" using 1(2) by (simp add: fits_def open_checks_def)
  show ?case
  proof (rule Fo_hook [OF finished_keeps], goal_cases)
    case (5 unlocked u)
    have f: "fits X u None" using 5 1(3) by (intro fits_closed) simp_all
    show ?case
    proof (rule Fo_frame [OF frames_tm_emit], rule Fo_note_run, simp add: run_keeps_def, simp, simp,
        rule Fo_finish_run, goal_cases)
      case 3
      show ?case
        by (rule keeps_close [OF f], rule keeps_frame) (intro frame_intros links_frame)
    qed (simp_all add: AGENT_RUN_TERMINAL_def)
  qed (use 1 c' r in simp_all)
qed

lemma complete_without_run_keeps:
  "triple (\<lambda>s. Rt X s \<and> open_run_of_task i s = None) (complete_without_run tm i output summary) (\<lambda>_. Rt X)"
  unfolding complete_without_run_def
  by (rule idle_move) (simp_all add: keeps_bind keeps_frame frame_intros finished_keeps)

end

text \<open>Waiting for an approval, and going on after it: the same moves without a note.\<close>

lemma upd_task_id: "bindT (upd_task i (\<lambda>t. t)) k = k ()"
  by (simp add: fun_eq_iff bindT_def upd_task_def modifyT_def update_row_def)

lemma await_keeps_Rt:
  "triple (\<lambda>s. Rt X s \<and> open_run_of_task i s = None) (await_approval i approval_id) (\<lambda>_. Rt X)"
  unfolding await_approval_def
  using idle_move [of "\<lambda>t. t" T_WAITING_APPROVAL X "\<lambda>_. tm_emit i (TaskP (TaskWaiting Wait_approval (Some approval_id))) None"]
  by (simp add: upd_task_id keeps_frame frames_tm_emit)

lemma release_after_keeps_Rt:
  "triple (\<lambda>s. Rt X s \<and> map_option t_state (task_of s i) = Some T_WAITING_APPROVAL)
     (release_after_approval i) (\<lambda>_. Rt X)"
proof (rule tripleI)
  fix s x s'
  assume pre: "Rt X s \<and> map_option t_state (task_of s i) = Some T_WAITING_APPROVAL"
    and run: "release_after_approval i s = Inr (x, s')"
  then obtain t where t: "task_of s i = Some t" "t_state t = T_WAITING_APPROVAL" by auto
  obtain o1 where o1: "Fo X i t o1 s" "fits X t o1" "t_id t = i" using Rt_open [OF conjunct1 [OF pre] t(1)] .
  have x: "X (t_id t) = None" using fits_not_exempt [OF o1(2)] t(2) by simp
  have w: "coupled T_WAITING_APPROVAL o1" using fits_coupled [OF o1(2) x] t(2) by simp
  have "task_checks (t\<lparr>t_state := T_READY\<rparr>)"
    using fits_checks [OF o1(2)] t(2) by (simp add: task_checks_def lease_iff_running_def)
  moreover have "coupled T_READY o1" using w by (cases o1) simp_all
  ultimately have f: "fits X (t\<lparr>t_state := T_READY\<rparr>) o1" using o1(2) x by (simp add: fits_def)
  have "triple (Fo X i t o1) (release_after_approval i) (\<lambda>_. Rt X)"
    unfolding release_after_approval_def
    by (rule Fo_task_transition, rule keeps_close [OF f]) (intro keeps_frame frame_intros)
  then show "Rt X s'" using o1(1) run by (rule tripleD)
qed

section \<open>Expired leases\<close>

lemma Fo_case_run:
  "(\<And>r. o1 = Some r \<Longrightarrow> triple (Fo X i t (Some r)) (bindT (f r) k) Q) \<Longrightarrow>
   (o1 = None \<Longrightarrow> triple (Fo X i t None) (k ()) Q) \<Longrightarrow>
   triple (Fo X i t o1) (bindT (case o1 of None \<Rightarrow> returnT () | Some r \<Rightarrow> f r) k) Q"
  by (cases o1) (simp_all add: bindT_returnT)

context failed_contract
begin

lemma reap_one_keeps: "keeps runtime_ok (reap_one tm i)"
  unfolding keeps_def runtime_ok_def reap_one_def
proof (rule open_get_task, rule Fo_open_run_of_task, goal_cases)
  case (1 t o1)
  have c: "task_checks ((no_lease t)\<lparr>t_state := st\<rparr>)" if "st \<noteq> T_RUNNING" for st
    using 1 that by (intro idle_checks fits_checks)
  show ?case
    unfolding Let_def
  proof (rule triple_bind_some, rule Fo_abort_open, rule Fo_release, rule triple_if, goal_cases)
    case (1 until)
    show ?case using c by (intro requeue_closed) simp_all
  next
    case (2 until)
    show ?case
      by ((rule cell_steps | rule Fo_frame, (intro frame_intros; fail))+, rule close_failed [OF c]) simp_all
  qed
qed

lemma reap_keeps: "keeps runtime_ok (reap_expired_leases tm n)"
  unfolding reap_expired_leases_def by (intro keeps_intros reap_one_keeps)

end

section \<open>Tasks blocked on a budget\<close>

text \<open>A task that is blocked or done; what fails or is cancelled meanwhile stays so.\<close>

definition parked :: "uuid \<Rightarrow> db \<Rightarrow> bool" where
  "parked j s \<longleftrightarrow> map_option t_state (task_of s j) \<in> Some ` {T_BLOCKED_BUDGET, T_SUCCEEDED, T_FAILED, T_CANCELLED}"

lemma parked_by_state:
  "(\<And>s x s'. m s = Inr (x, s') \<Longrightarrow> map_option t_state (task_of s' j) = map_option t_state (task_of s j)) \<Longrightarrow>
   keeps (parked j) m"
  by (rule keeps_by_frame [where v = "\<lambda>s. map_option t_state (task_of s j)"]) (simp_all only: parked_def)

lemma parked_frame: "frames m \<Longrightarrow> keeps (parked j) m"
  by (rule parked_by_state) (auto simp: task_of_def dest: framesD)

lemma parked_upd_task:
  assumes "\<And>t. t_id (f t) = t_id t" "\<And>t. t_state (f t) = t_state t"
  shows "keeps (parked j) (upd_task i f)"
proof (rule parked_by_state)
  fix s and x :: unit and s'
  assume "upd_task i f s = Inr (x, s')"
  then have "task_of s' j = (if j = i then map_option f (task_of s j) else task_of s j)"
    using find_row_update [of t_id f j i "tasks s"] assms(1) by (auto simp: upd_task_def tx_run task_of_def)
  then show "map_option t_state (task_of s' j) = map_option t_state (task_of s j)"
    using assms(2) by (simp add: option.map_comp comp_def)
qed

lemma parked_upd_run: "keeps (parked j) (upd_run i f)"
  by (rule parked_by_state) (auto simp: upd_run_def tx_run task_of_def)

lemma parked_transition:
  "st \<in> {T_SUCCEEDED, T_FAILED, T_CANCELLED} \<or> i \<noteq> j \<Longrightarrow> keeps (parked j) (task_transition i st actor reason)"
  by (rule keepsI, erule task_transition_effect) (auto simp: parked_def task_of_def find_row_update)

lemma parked_run_transition: "keeps (parked j) (run_transition i st actor reason)"
  by (rule keepsI, erule run_transition_effect) (auto simp: parked_def task_of_def)

lemmas parked_frames = frames_get_task frames_get_run frames_tm_emit frames_tm_activity
  frames_set_activity_unless_paused

lemmas parked_intros = keeps_intros parked_run_transition parked_upd_run parked_transition
  parked_frames [THEN parked_frame]

lemma parked_abort_run: "keeps (parked j) (abort_run r reason message)"
  unfolding abort_run_def finish_run_def by (intro parked_intros)

lemma parked_cancel:
  assumes "\<And>i. keeps (parked j) (failed_hook tm i)"
  shows "keeps (parked j) (cancel_task tm i reason)"
  unfolding cancel_task_def release_lease_def
  by (intro parked_intros parked_abort_run parked_upd_task assms) simp_all

locale quiet_hooks = failed_contract +
  assumes quiet: "\<And>i j. keeps (parked j) (failed_hook tm i)"
begin

lemma release_one_keeps: "triple (\<lambda>s. runtime_ok s \<and> parked i s) (release_one tm i) (\<lambda>_. runtime_ok)"
proof (rule tripleI)
  fix s x s'
  assume pre: "runtime_ok s \<and> parked i s" and run: "release_one tm i s = Inr (x, s')"
  obtain t where t: "task_of s i = Some t" "t_state t \<in> {T_BLOCKED_BUDGET, T_SUCCEEDED, T_FAILED, T_CANCELLED}"
    using pre by (auto simp: parked_def)
  have R: "Rt Map.empty s" using pre by (simp add: runtime_ok_def)
  obtain o1 where o1: "Fo Map.empty i t o1 s" "fits Map.empty t o1" "t_id t = i" using Rt_open [OF R t(1)] .
  have "o1 = None" using fits_coupled [OF o1(2)] t(2) by (cases o1) auto
  with o1 have F: "Fo Map.empty i t None s" and c: "task_checks t" by (simp_all add: fits_def)
  have n: "t_state t \<noteq> T_RUNNING" using t(2) by auto
  have c': "task_checks (t\<lparr>t_state := T_FAILED\<rparr>)" using c n by (simp add: task_checks_def lease_iff_running_def)
  have "triple (Fo Map.empty i t None) (release_one tm i) (\<lambda>_. Rt Map.empty)"
    unfolding release_one_def
  proof (rule Fo_get_task, rule triple_if, goal_cases)
    case 1
    show ?case by (rule mark_ready_closed [where X = Map.empty, OF c _ n]) simp
  next
    case 2
    show ?case
      by ((rule cell_steps | rule Fo_frame, (intro frame_intros; fail))+, rule close_failed [OF c']) simp_all
  qed
  then show "runtime_ok s'" using F run unfolding runtime_ok_def by (rule tripleD)
qed

lemma release_one_parks: "i \<noteq> j \<Longrightarrow> keeps (parked j) (release_one tm i)"
  unfolding release_one_def mark_ready_def by (intro parked_intros quiet) simp_all

lemma release_each:
  "distinct is \<Longrightarrow> triple (\<lambda>s. runtime_ok s \<and> (\<forall>i \<in> set is. parked i s)) (forT is (release_one tm)) (\<lambda>_. runtime_ok)"
proof (induction "is")
  case Nil
  show ?case by (simp add: triple_def tx_run)
next
  case (Cons i js)
  have "triple (\<lambda>s. runtime_ok s \<and> (\<forall>j \<in> set (i # js). parked j s)) (release_one tm i)
      (\<lambda>_ s. runtime_ok s \<and> (\<forall>j \<in> set js. parked j s))"
  proof (rule tripleI)
    fix s x s'
    assume pre: "runtime_ok s \<and> (\<forall>j \<in> set (i # js). parked j s)" and run: "release_one tm i s = Inr (x, s')"
    have "parked j s'" if "j \<in> set js" for j
      using keepsD [OF release_one_parks _ run, of j] pre that Cons.prems by auto
    then show "runtime_ok s' \<and> (\<forall>j \<in> set js. parked j s')"
      using tripleD [OF release_one_keeps _ run] pre by auto
  qed
  then show ?case using Cons by (auto intro: triple_bind)
qed

lemma release_blocked_keeps: "keeps runtime_ok (release_blocked tm company_id)"
proof (rule keepsI)
  fix s x s'
  assume R: "runtime_ok s" and run: "release_blocked tm company_id s = Inr (x, s')"
  let ?is = "map t_id (filter (\<lambda>t. t_company_id t = company_id \<and> t_state t = T_BLOCKED_BUDGET) (tasks s))"
  have d: "distinct (map t_id (tasks s))" using R by (simp add: runtime_ok_def Rt_def asr_def consistent_def)
  have "parked i s" if "i \<in> set ?is" for i
    using that find_row_unique [OF d] by (auto simp: parked_def task_of_def)
  moreover have "forT ?is (release_one tm) s = Inr ((), s')"
    using run by (auto simp: release_blocked_def tx_run split: sum.splits)
  moreover have "distinct ?is" using d by (rule distinct_map_filter)
  ultimately show "runtime_ok s'" using tripleD [OF release_each [of ?is]] R by blast
qed

end

end
