(* ===== verification/Engine.thy ===== *)
theory Engine
  imports TaskClosing
begin

text \<open>
  The workflow engine meets the contracts of the task manager: its hooks keep tasks and runs
  consistent, and the hook on failed tasks only cancels. The locales are interpreted on the
  task manager bound to the engine.
\<close>

section \<open>Notes on a task\<close>

lemma note_task_keeps:
  assumes f: "\<And>t. t_id (f t) = t_id t" "\<And>t. t_state (f t) = t_state t" "\<And>t. t_attempt (f t) = t_attempt t"
      "\<And>t. t_max_attempts (f t) = t_max_attempts t" "\<And>t. t_lease_owner (f t) = t_lease_owner t"
      "\<And>t. t_lease_until (f t) = t_lease_until t" "\<And>t. t_lease_token (f t) = t_lease_token t"
  shows "keeps (Rt X) (upd_task i f)"
proof (rule keepsI)
  fix s and x :: unit and s'
  assume R: "Rt X s" and run: "upd_task i f s = Inr (x, s')"
  show "Rt X s'"
  proof (cases "task_of s i")
    case None
    then have "update_row t_id i f (tasks s) = tasks s"
      by (simp add: task_of_def find_row_None_iff update_row_absent)
    then have "s' = s" using run by (auto simp: upd_task_def tx_run)
    with R show ?thesis by simp
  next
    case (Some t)
    obtain o1 where o1: "Fo X i t o1 s" "fits X t o1" "t_id t = i" using Rt_open [OF R Some] .
    have fits: "fits X (f t) o1"
      using o1(2) unfolding fits_def task_checks_def lease_iff_running_def f .
    have "triple (Fo X i t o1) (bindT (upd_task i f) returnT) (\<lambda>_. Rt X)"
      by (rule Fo_upd_task [OF f(1)]) (use keeps_close [OF fits keeps_return] f in simp_all)
    moreover have "bindT (upd_task i f) returnT s = Inr (x, s')" using run by (simp add: tx_run)
    ultimately show ?thesis using o1(1) by (blast dest: tripleD)
  qed
qed

section \<open>Closing a workflow run\<close>

lemma frames_engine_emit [frame_intros]: "frames (engine_emit run_id p)"
  unfolding engine_emit_def by (intro frame_intros)

lemma frames_list_case: "frames m \<Longrightarrow> (\<And>x xs. frames (f x xs)) \<Longrightarrow> frames (case l of [] \<Rightarrow> m | x # xs \<Rightarrow> f x xs)"
  by (cases l) simp_all

lemma frames_close_run [frame_intros]: "frames (close_run run_id rows)"
  unfolding close_run_def Let_def by (intro frame_intros frames_list_case)

lemma frames_close_if_done [frame_intros]: "frames (close_if_done run_id siblings)"
  unfolding close_if_done_def by (intro frame_intros)

section \<open>The hook on a failed task\<close>

lemma cancel_waiting_Rt:
  "(\<And>i r. keeps (Rt X) (cancel i r)) \<Longrightarrow> keeps (Rt X) (cancel_waiting cancel waiting reason)"
  unfolding cancel_waiting_def by (intro keeps_intros keeps_frame [OF frames_get_task])

lemma failed_step_Rt: "(\<And>i r. keeps (Rt X) (cancel i r)) \<Longrightarrow> keeps (Rt X) (task_failed_step cancel i)"
  unfolding task_failed_step_def
  by (intro keeps_intros keeps_frame [OF frames_get_task] keeps_frame [OF frames_close_if_done])

lemma engine_failed_Rt: "keeps (Rt X) (engine_on_task_failed n tm i)"
proof (induction n arbitrary: X i)
  case 0
  then show ?case by (simp add: keeps_throw)
next
  case (Suc n)
  have "failed_contract (tm\<lparr>on_task_failed := Some (engine_on_task_failed n tm)\<rparr>)"
    by (rule failed_contract.intro) (simp add: failed_hook_def Suc)
  then show ?case
    unfolding engine_on_task_failed.simps by (intro failed_step_Rt failed_contract.cancel_keeps)
qed

lemma engine_cancel_Rt:
  "keeps (Rt X) (cancel_task (tm\<lparr>on_task_failed := Some (engine_on_task_failed n tm)\<rparr>) i reason)"
  by (intro failed_contract.cancel_keeps failed_contract.intro) (simp add: failed_hook_def engine_failed_Rt)

lemma engine_failed_parks: "keeps (parked j) (engine_on_task_failed n tm i)"
proof (induction n arbitrary: i)
  case 0
  then show ?case by (simp add: keeps_throw)
next
  case (Suc n)
  have "keeps (parked j) (cancel_task (tm\<lparr>on_task_failed := Some (engine_on_task_failed n tm)\<rparr>) i reason)" for i reason
    by (rule parked_cancel) (simp add: failed_hook_def Suc)
  then show ?case
    unfolding engine_on_task_failed.simps task_failed_step_def
    by (intro parked_intros parked_frame [OF frames_close_if_done])
qed

section \<open>The hook on a finished task\<close>

lemma unlock_all_Rt: "keeps (Rt X) (unlock_all i succeeded js)"
proof (induction js)
  case Nil
  then show ?case by (simp add: keeps_return)
next
  case (Cons j js)
  show ?case
    unfolding unlock_all.simps keeps_def
  proof (rule open_get_task, rule triple_if, goal_cases)
    case (1 d o1)
    then have st: "t_state d = T_PENDING" by (simp add: unlockable_def)
    have x: "X (t_id d) = None" using fits_not_exempt [OF 1(2)] st by simp
    have o: "o1 = None" using fits_coupled [OF 1(2) x] st by (cases o1) simp_all
    have "triple (Fo X j d None) (mark_ready j) (\<lambda>_. Rt X)"
      using fits_checks [OF 1(2)] x st by (intro mark_ready_closed) simp_all
    then show ?case
      unfolding o by (rule triple_bind) (use Cons in \<open>auto simp: keeps_def intro!: triple_bind triple_return\<close>)
  next
    case (2 d o1)
    then show ?case using Cons by (intro keeps_close)
  qed
qed

lemma add_round_Rt: "keeps (Rt X) (add_round t lp w output n inside latest new ns)"
proof (induction ns arbitrary: new)
  case (Cons n ns)
  then show ?case
    unfolding add_round.simps Let_def loop_deps_def by (intro keeps_intros add_task_keeps)
qed (simp add: keeps_return)

lemma new_round_Rt: "keeps (Rt X) (new_round w tp lp t siblings waiting n)"
  unfolding new_round_def Let_def
  by (intro keeps_intros add_round_Rt note_task_keeps keeps_frame [OF frames_engine_emit] keeps_frame [OF frames_get_task])
    (simp_all add: replace_dep_def)

lemma loop_step_Rt: "(\<And>i r. keeps (Rt X) (cancel i r)) \<Longrightarrow> keeps (Rt X) (loop_step reg cancel t siblings)"
  unfolding loop_step_def Let_def
  by (intro keeps_intros cancel_waiting_Rt keeps_frame [OF frames_close_if_done] new_round_Rt)
    (auto intro!: keeps_intros cancel_waiting_Rt keeps_frame [OF frames_close_if_done] new_round_Rt split: prod.splits)

lemma halt_step_Rt: "(\<And>i r. keeps (Rt X) (cancel i r)) \<Longrightarrow> keeps (Rt X) (halt_step reg cancel t siblings)"
  unfolding halt_step_def
  by (intro keeps_intros)
    (auto intro!: keeps_intros cancel_waiting_Rt keeps_frame [OF frames_close_if_done] split: prod.splits)

lemma finished_step_Rt: "(\<And>i r. keeps (Rt X) (cancel i r)) \<Longrightarrow> keeps (Rt X) (task_finished_step reg cancel i)"
  unfolding task_finished_step_def
  by (intro keeps_intros keeps_frame [OF frames_get_task] halt_step_Rt loop_step_Rt unlock_all_Rt
      keeps_frame [OF frames_close_if_done])

lemma engine_finished_Rt: "keeps (Rt X) (engine_on_task_finished n tm reg i)"
  unfolding engine_on_task_finished_def by (intro finished_step_Rt engine_cancel_Rt)

end
