(* ===== verification/SystemProps.thy ===== *)
theory SystemProps
  imports Logs
begin

text \<open>
  What holds of every state the system reaches: the event log, the audit log and the pending
  approvals. A small system with one agent and one task serves as the example.
\<close>

section \<open>An example\<close>

definition run_db :: "'a db_tx \<Rightarrow> db \<Rightarrow> db" where
  "run_db m s = (case m s of Inl e \<Rightarrow> s | Inr r \<Rightarrow> snd r)"

definition result_of :: "'a db_tx \<Rightarrow> db \<Rightarrow> 'a option" where
  "result_of m s = (case m s of Inl e \<Rightarrow> None | Inr r \<Rightarrow> Some (fst r))"

lemma run_db_ok: "result_of m s = Some x \<Longrightarrow> m s = Inr (x, run_db m s)"
  by (auto simp: run_db_def result_of_def split: sum.splits)

definition demo_agent :: agent where
  "demo_agent = \<lparr>a_id = 1, a_company_id = 7, a_role = ''writer'', a_role_id = None, a_department_id = None,
     a_display_name = ''Ada'', a_description = None, a_avatar_key = ''a'', a_tools = [], a_per_run_usd = None,
     a_status = AG_ACTIVE, a_created_at = 0\<rparr>"

definition demo_start :: db where
  "demo_start = \<lparr>clock = 100, next_id = 10, next_seq = 1, tasks = [], runs = [], workflows = [],
     agents = [demo_agent], activities = [], approvals = [], audit = [], events = [],
     decisions = [], cancelling = []\<rparr>"

definition demo_manager :: task_manager where
  "demo_manager = \<lparr>tm_lease = 300, tm_retry_base = 30, tm_retry_max = 900,
     on_task_finished = None, on_task_failed = None, link_hooks = []\<rparr>"

definition demo_service :: approval_service where
  "demo_service = \<lparr>as_task_manager = demo_manager, as_default_expiry = 1000, as_hooks = [],
     as_delegates = []\<rparr>"

definition demo_bound :: task_manager where
  "demo_bound = demo_manager\<lparr>on_task_finished := Some (engine_on_task_finished 3 demo_manager []),
     on_task_failed := Some (engine_on_task_failed 3 demo_manager)\<rparr>"

definition demo_system :: system where
  "demo_system = \<lparr>sy_fuel = 3, sy_manager = demo_bound, sy_templates = [],
     sy_approvals = demo_service\<lparr>as_task_manager := demo_bound\<rparr>, sy_policy = empty_engine\<rparr>"

definition demo_task :: new_task where
  "demo_task = \<lparr>nt_company_id = 7, nt_project_id = 8, nt_name = ''draft'', nt_display_name = ''Draft'',
     nt_required_role = ''writer'', nt_workflow_run_id = None, nt_cycle_id = None,
     nt_depends_on = [], nt_input = [], nt_output_schema_ref = None, nt_budget_usd = None,
     nt_max_attempts = 3, nt_priority = 100, nt_ready = None, nt_task_id = None\<rparr>"

definition demo_added :: db where
  "demo_added = run_db (add_task demo_task) (run_db (initialize_activity demo_agent tm_actor) demo_start)"

definition demo_claimed :: db where
  "demo_claimed = run_db (claim_next demo_bound demo_agent ''w1'') demo_added"

lemma demo_composed: "compose 3 [] demo_manager demo_service empty_engine = Inr demo_system"
  by (simp add: compose_def bind_engine_def bind_err_def demo_manager_def demo_system_def demo_bound_def)

lemma demo_well_behaved: "well_behaved demo_manager demo_service"
  by (simp add: well_behaved_def demo_manager_def demo_service_def)

lemma demo_results:
  "result_of (initialize_activity demo_agent tm_actor) demo_start \<noteq> None"
  "result_of (add_task demo_task) (run_db (initialize_activity demo_agent tm_actor) demo_start) \<noteq> None"
  "result_of (claim_next demo_bound demo_agent ''w1'') demo_added \<noteq> None"
  by code_simp+

lemma run_db_some: "result_of m s \<noteq> None \<Longrightarrow> \<exists>x. m s = Inr (x, run_db m s)"
  by (auto simp: run_db_def result_of_def split: sum.splits)

lemma demo_manager_bound: "sy_manager demo_system = demo_bound"
  by (simp add: demo_system_def)

lemma demo_claimed_reachable: "reachable demo_system demo_claimed"
proof -
  let ?s1 = "run_db (initialize_activity demo_agent tm_actor) demo_start"
  have 0: "reachable demo_system demo_start"
    by (rule reachable.start) (simp add: pristine_def demo_start_def)
  obtain x1 where "initialize_activity demo_agent tm_actor demo_start = Inr (x1, ?s1)"
    using run_db_some [OF demo_results(1)] by blast
  then have 1: "reachable demo_system ?s1" using 0 step.initialize reachable.more by blast
  obtain x2 where "add_task demo_task ?s1 = Inr (x2, demo_added)"
    using run_db_some [OF demo_results(2)] unfolding demo_added_def by blast
  then have 2: "reachable demo_system demo_added" using 1 step.add reachable.more by blast
  obtain x3 where "claim_next demo_bound demo_agent ''w1'' demo_added = Inr (x3, demo_claimed)"
    using run_db_some [OF demo_results(3)] unfolding demo_claimed_def by blast
  then have "claim_next (sy_manager demo_system) demo_agent ''w1'' demo_added = Inr (x3, demo_claimed)"
    by (simp only: demo_manager_bound)
  then show ?thesis using 2 step.claim reachable.more by blast
qed

section \<open>The properties\<close>

lemma pristine_invariants:
  "pristine s \<Longrightarrow> log_ok s" "pristine s \<Longrightarrow> audited s" "pristine s \<Longrightarrow> pending_unique s"
  by (simp_all add: pristine_def log_ok_def audited_def pending_unique_def)



text \<open>
  A step only appends to the event log and to the audit log: every row of either is still
  there afterwards, unchanged and at its place.
\<close>

theorem logs_append_only:
  assumes "compose n reg tm svc pe = Inr y" "well_behaved tm svc" "step y s s'"
  shows "(\<exists>es. events s' = events s @ es) \<and> (\<exists>rows. audit s' = audit s @ rows)"
proof -
  have "extends (events s) (audit s) s" by (simp add: extends_def)
  then have "extends (events s) (audit s) s'" using append_only.step_invariant [OF assms] by blast
  then show ?thesis by (simp add: extends_def)
qed

theorem logs_append_only_witness:
  "\<exists>es. events demo_claimed = events demo_added @ es"
proof -
  obtain x3 where "claim_next demo_bound demo_agent ''w1'' demo_added = Inr (x3, demo_claimed)"
    using run_db_some [OF demo_results(3)] unfolding demo_claimed_def by blast
  then have "claim_next (sy_manager demo_system) demo_agent ''w1'' demo_added = Inr (x3, demo_claimed)"
    by (simp only: demo_manager_bound)
  then have "step demo_system demo_added demo_claimed" by (rule step.claim)
  then show ?thesis using logs_append_only [OF demo_composed demo_well_behaved] by blast
qed



definition demo_ask :: "uuid \<Rightarrow> uuid db_tx" where
  "demo_ask ref = request_standalone (sy_approvals demo_system) 7 ''strategy'' ''project'' ref ''why''
     tm_actor None None None"

definition demo_asked :: db where
  "demo_asked = run_db (demo_ask 21) (run_db (demo_ask 20) demo_start)"

lemma demo_asks:
  "result_of (demo_ask 20) demo_start \<noteq> None"
  "result_of (demo_ask 21) (run_db (demo_ask 20) demo_start) \<noteq> None"
  by code_simp+

lemma demo_asked_reachable: "reachable demo_system demo_asked"
proof -
  have 0: "reachable demo_system demo_start"
    by (rule reachable.start) (simp add: pristine_def demo_start_def)
  obtain x where "demo_ask 20 demo_start = Inr (x, run_db (demo_ask 20) demo_start)"
    using run_db_some [OF demo_asks(1)] by blast
  then have 1: "reachable demo_system (run_db (demo_ask 20) demo_start)"
    using 0 step.ask reachable.more unfolding demo_ask_def by blast
  obtain x where "demo_ask 21 (run_db (demo_ask 20) demo_start) = Inr (x, demo_asked)"
    using run_db_some [OF demo_asks(2)] unfolding demo_asked_def by blast
  then show ?thesis using 1 step.ask reachable.more unfolding demo_ask_def by blast
qed

text \<open>
  C6. At most one approval of a subject is pending in any state the system reaches: asking
  again while one waits is refused, whoever asks.
\<close>

theorem one_pending_approval:
  assumes "compose n reg tm svc pe = Inr y" "well_behaved tm svc" "reachable y s"
    and "i < j" "j < length (approvals s)"
    and "ap_state (approvals s ! i) = P_PENDING" "ap_state (approvals s ! j) = P_PENDING"
  shows "(ap_ref_type (approvals s ! i), ap_ref_id (approvals s ! i)) \<noteq>
    (ap_ref_type (approvals s ! j), ap_ref_id (approvals s ! j))"
proof -
  have "pending_unique s" using one_pending.reachable_invariant [OF assms(1,2) pristine_invariants(3) assms(3)] .
  then show ?thesis using assms(4-7) sorted_wrt_nth_less [of _ "approvals s" i j]
    by (auto simp: pending_unique_def)
qed

theorem one_pending_approval_witness:
  "ap_ref_id (approvals demo_asked ! 0) = 20 \<and>
   (ap_ref_type (approvals demo_asked ! 0), ap_ref_id (approvals demo_asked ! 0)) \<noteq>
     (ap_ref_type (approvals demo_asked ! 1), ap_ref_id (approvals demo_asked ! 1))"
proof -
  have "length (approvals demo_asked) = 2" "ap_state (approvals demo_asked ! 0) = P_PENDING"
    "ap_state (approvals demo_asked ! 1) = P_PENDING" "ap_ref_id (approvals demo_asked ! 0) = 20"
    by code_simp+
  then show ?thesis
    using one_pending_approval [OF demo_composed demo_well_behaved demo_asked_reachable, of 0 1] by simp
qed

text \<open>
  Reading the event log page by page: a reader that follows the cursor of each page until there
  is no more sees every event of its filter once, in order, however small the pages are.
\<close>

lemma read_envelopes_known: "fst (read_envelopes known skipped rows) = filter known rows"
proof (induction rows arbitrary: skipped)
  case (Cons row rows)
  then show ?case
    by (cases "read_envelope known skipped row")
      (auto simp: read_envelope_def split_beta Let_def split: if_splits)
qed simp

text \<open>Rows of a log in order are in order already.\<close>

lemma event_rows_sorted:
  assumes "sorted_wrt (<) (map seq_of evlog)"
  shows "event_rows evlog company f n = take n (filter (matches_filter company f) evlog)"
proof -
  have "sorted_wrt (<) (map seq_of (filter (matches_filter company f) evlog))"
    using assms by (auto simp: sorted_wrt_map intro: sorted_wrt_filter)
  then have "sorted (map seq_of (filter (matches_filter company f) evlog))"
    by (auto simp: strict_sorted_iff sorted_wrt_map elim: sorted_wrt_mono_rel [rotated])
  then show ?thesis by (simp add: event_rows_def sorted_sort_id sort_key_id_if_sorted)
qed

text \<open>The cursor of a page: the rows after it are those the page left out.\<close>

lemma after_page:
  assumes s: "sorted_wrt (<) (map seq_of evlog)" and n: "0 < n"
    and rows: "rows = filter (matches_filter company f) evlog" "n < length rows"
  shows "filter (matches_filter company (f\<lparr>ef_after_seq := seq_of (rows ! (n - 1))\<rparr>)) evlog = drop n rows"
proof -
  let ?q = "seq_of (rows ! (n - 1))"
  have srt: "sorted_wrt (<) (map seq_of rows)"
    using s rows(1) by (auto simp: sorted_wrt_map intro: sorted_wrt_filter)
  have "rows ! (n - 1) \<in> set rows" using rows(2) n by simp
  then have q: "ef_after_seq f < ?q" using rows(1) by (auto simp: matches_filter_def)
  have "filter (matches_filter company (f\<lparr>ef_after_seq := ?q\<rparr>)) evlog = filter (\<lambda>e. ?q < seq_of e) rows"
    using q by (auto simp: rows(1) matches_filter_def filter_filter intro!: filter_cong)
  also have "\<dots> = filter (\<lambda>e. ?q < seq_of e) (take n rows @ drop n rows)" by simp
  also have "\<dots> = drop n rows"
  proof -
    have "\<not> ?q < seq_of e" if e: "e \<in> set (take n rows)" for e
    proof -
      obtain j where j: "j < n" "e = rows ! j" using e rows(2) by (auto simp: in_set_conv_nth)
      then have "j = n - 1 \<or> seq_of e < ?q"
        using srt rows(2) n by (cases "j < n - 1") (auto simp: sorted_wrt_iff_nth_less)
      then show ?thesis using j by auto
    qed
    moreover have "?q < seq_of e" if e: "e \<in> set (drop n rows)" for e
    proof -
      obtain j where "j < length rows" "n \<le> j" "e = rows ! j"
        using e by (auto simp: in_set_conv_nth) (metis le_add1 less_diff_conv add.commute)
      then show ?thesis using srt n by (auto simp: sorted_wrt_iff_nth_less)
    qed
    ultimately have "filter (\<lambda>e. ?q < seq_of e) (take n rows) = []"
      "filter (\<lambda>e. ?q < seq_of e) (drop n rows) = drop n rows"
      by (simp_all add: filter_empty_conv filter_id_conv)
    then show ?thesis by (simp only: filter_append append_Nil)
  qed
  finally show ?thesis .
qed

lemma last_some_nth: "xs \<noteq> [] \<Longrightarrow> last_some xs = Some (xs ! (length xs - 1))"
  by (cases xs rule: rev_cases) (simp_all add: last_some_def first_some_def)

text \<open>A reader following the pages.\<close>

fun read_pages ::
    "(envelope \<Rightarrow> bool) \<Rightarrow> envelope list \<Rightarrow> uuid \<Rightarrow> event_filter \<Rightarrow> nat \<Rightarrow> nat \<Rightarrow> envelope list" where
  "read_pages known evlog company f limit 0 = []"
| "read_pages known evlog company f limit (Suc n) =
     (case load_event_page known [] evlog company f limit of (page, cursor, has_more) \<Rightarrow>
        page @ (if has_more then read_pages known evlog company (f\<lparr>ef_after_seq := cursor\<rparr>) limit n else []))"

lemma read_pages_all:
  assumes "sorted_wrt (<) (map seq_of evlog)" "0 < limit"
    "length (filter (matches_filter company f) evlog) \<le> n * limit" "0 < n"
  shows "read_pages known evlog company f limit n = filter known (filter (matches_filter company f) evlog)"
  using assms(3,4)
proof (induction n arbitrary: f)
  case (Suc n)
  let ?rows = "filter (matches_filter company f) evlog"
  let ?next = "f\<lparr>ef_after_seq := seq_of (?rows ! (limit - 1))\<rparr>"
  show ?case
  proof (cases "limit < length ?rows")
    case True
    then have "last_some (take limit ?rows) = Some (?rows ! (limit - 1))"
      using assms(2) by (subst last_some_nth) auto
    then have page: "load_event_page known [] evlog company f limit =
        (filter known (take limit ?rows), seq_of (?rows ! (limit - 1)), True)"
      using True by (simp add: load_event_page_def event_rows_sorted [OF assms(1)] read_envelopes_known Let_def)
    have rest: "filter (matches_filter company ?next) evlog = drop limit ?rows"
      using after_page [OF assms(1,2) refl True] .
    have "0 < n" using Suc.prems True by (cases n) auto
    then have "read_pages known evlog company ?next limit n = filter known (drop limit ?rows)"
      using Suc.IH [of ?next] Suc.prems(1) unfolding rest by simp
    then show ?thesis using page by (simp add: filter_append [symmetric])
  next
    case False
    then have "load_event_page known [] evlog company f limit =
        (filter known ?rows, case last_some ?rows of None \<Rightarrow> ef_after_seq f | Some e \<Rightarrow> seq_of e, False)"
      by (simp add: load_event_page_def event_rows_sorted [OF assms(1)] read_envelopes_known Let_def)
    then show ?thesis by simp
  qed
qed simp


text \<open>
  C28. Paging loses nothing and repeats nothing. In every state the system reaches, a reader that
  starts with a filter, asks for pages of any positive size and goes on from the cursor of each
  page while there is more, has read exactly the events of the filter that it can validate, each
  once and in the order of the log, after at most as many pages as needed to hold the rows.
\<close>

theorem paging_reads_everything:
  assumes "compose k reg tm svc pe = Inr y" "well_behaved tm svc" "reachable y s"
    and "0 < limit" "0 < n" "length (filter (matches_filter company f) (events s)) \<le> n * limit"
  shows "read_pages known (events s) company f limit n =
    filter known (filter (matches_filter company f) (events s))"
proof -
  have "log_ok s" using event_log.reachable_invariant [OF assms(1,2) pristine_invariants(1) assms(3)] .
  then show ?thesis using assms by (intro read_pages_all) (simp_all add: log_ok_def)
qed

definition everything :: event_filter where
  "everything = \<lparr>ef_after_seq = 0, ef_until_seq = None, ef_event_types = [], ef_agent_id = None,
     ef_run_id = None, ef_correlation_id = None\<rparr>"

theorem paging_reads_everything_witness:
  "map seq_of (read_pages (\<lambda>_. True) (events demo_claimed) 7 everything 1 4) = [1, 2, 3, 4]"
proof -
  have "map seq_of (filter (matches_filter 7 everything) (events demo_claimed)) = [1, 2, 3, 4]" by code_simp
  moreover have "length (filter (matches_filter 7 everything) (events demo_claimed)) = 4"
    using arg_cong [OF calculation, of length] by simp
  ultimately show ?thesis
    using paging_reads_everything [OF demo_composed demo_well_behaved demo_claimed_reachable,
        of 1 4 7 everything "\<lambda>_. True"] by simp
qed

end
