(* ===== verification/Runtime.thy ===== *)
theory Runtime
  imports Engine SystemProps
begin

text \<open>
  The task runtime as its processes use it: workers that claim tasks, work on them with the
  claims they were given and end them, the reaper, the scheduler, and the decisions that reach
  tasks. The contracts of the hooks are discharged for the task manager bound to the engine, and
  every state the runtime reaches is consistent.
\<close>

section \<open>The task manager bound to the engine\<close>

text \<open>Domains add links that only read the database.\<close>

definition reading :: "task_manager \<Rightarrow> (uuid \<Rightarrow> uuid option \<Rightarrow> db \<Rightarrow> err + link list) list \<Rightarrow> task_manager" where
  "reading base reads = base\<lparr>link_hooks := map (\<lambda>f i r. bindT (getsT (f i r)) liftT) reads\<rparr>"

definition engine_manager ::
    "nat \<Rightarrow> template_registry \<Rightarrow> task_manager \<Rightarrow> (uuid \<Rightarrow> uuid option \<Rightarrow> db \<Rightarrow> err + link list) list \<Rightarrow> task_manager" where
  "engine_manager n reg base reads = (reading base reads)
     \<lparr>on_task_finished := Some (engine_on_task_finished n (reading base reads) reg),
      on_task_failed := Some (engine_on_task_failed n (reading base reads))\<rparr>"

lemma bind_engine_manager: "bind_engine n reg (reading base reads) = Inr tm \<Longrightarrow> tm = engine_manager n reg base reads"
  by (auto simp: bind_engine_def engine_manager_def split: if_splits)

interpretation bound: failed_contract "engine_manager n reg base reads" for n reg base reads
proof
  show "keeps (Rt X) (failed_hook (engine_manager n reg base reads) i)" for X i
    by (simp add: engine_manager_def failed_hook_def engine_failed_Rt)
qed

interpretation bound: task_hooks "engine_manager n reg base reads" for n reg base reads
proof
  show "keeps (Rt X) (finished_hook (engine_manager n reg base reads) i)" for X i
    by (simp add: engine_manager_def finished_hook_def engine_finished_Rt)
  show "frames (activity_links (engine_manager n reg base reads) i r)" for i r
    unfolding activity_links_def
    by (rule frames_collect_links) (auto simp: engine_manager_def reading_def intro!: frame_intros)
qed

interpretation bound: quiet_hooks "engine_manager n reg base reads" for n reg base reads
proof
  show "keeps (parked j) (failed_hook (engine_manager n reg base reads) i)" for i j
    by (simp add: engine_manager_def failed_hook_def engine_failed_parks)
qed

section \<open>Workflow runs\<close>

lemma add_nodes_Rt: "keeps (Rt X) (add_nodes w params ids display ns)"
proof (induction ns)
  case (Cons n ns)
  then show ?case unfolding add_nodes.simps by (intro keeps_intros add_task_keeps)
qed (simp add: keeps_return)

lemma instantiate_Rt: "keeps (Rt X) (workflow_instantiate reg name company project ps cy)"
  unfolding workflow_instantiate_def Let_def
  by (intro keeps_intros add_nodes_Rt keeps_frame [OF frames_engine_emit] keeps_frame [OF frames_uuid7]
      keeps_frame [OF frames_modify]) simp_all

lemma workflow_cancel_Rt: "keeps (Rt X) (workflow_cancel n tm run reason)"
  unfolding workflow_cancel_def
  by (intro keeps_intros engine_cancel_Rt keeps_frame [OF frames_get_task] keeps_frame [OF frames_close_if_done]
      keeps_frame [OF frames_modify]) simp_all

section \<open>The runs a worker moves\<close>

text \<open>
  The agent runner moves a run between its open states under its claim: the heartbeat that
  guards the claim and the move are one transaction.
\<close>

definition runner_move :: "task_manager \<Rightarrow> claim \<Rightarrow> agent_run_state \<Rightarrow> actor \<Rightarrow> unit db_tx" where
  "runner_move tm c st actor = bindT (heartbeat tm c) (\<lambda>_. bindT (run_transition (cl_run_id c) st actor None) (\<lambda>_. returnT ()))"


text \<open>A move that succeeds found the run open.\<close>

lemma heartbeat_rows: "heartbeat tm c s = Inr (x, s1) \<Longrightarrow> runs s1 = runs s"
  by (auto simp: heartbeat_def tx_run upd_task_def split: sum.splits dest: locked_task_Inr)

lemma terminal_stuck: "st \<in> set AGENT_RUN_TERMINAL \<Longrightarrow> targets AGENT_RUN_FSM st = []"
  using terminal_iff by blast

lemma runner_move_open:
  assumes "runner_move tm c st actor s = Inr (x, s')"
  shows "\<exists>r. claimed_run c s = Inr (r, s)"
proof -
  obtain u s1 v where h: "heartbeat tm c s = Inr (u, s1)"
    and m: "run_transition (cl_run_id c) st actor None s1 = Inr (v, s')"
    using assms by (auto simp: runner_move_def bindT_Inr_iff returnT_def)
  obtain r where "run_of s1 (cl_run_id c) = Some r" "st \<in> set (targets AGENT_RUN_FSM (r_state r))"
    using m by (rule run_transition_effect)
  moreover from this(2) have "is_open_run r" using terminal_stuck by (force simp: is_open_run_def)
  ultimately show ?thesis
    using heartbeat_rows [OF h] by (simp add: claimed_run_def tx_run run_of_def)
qed

lemma runner_move_keeps:
  assumes st: "st \<notin> set AGENT_RUN_TERMINAL"
  shows "triple (\<lambda>s. Rt X s \<and> claim_ok c s) (runner_move tm c st actor) (\<lambda>_. Rt X)"
proof (rule tripleI)
  fix s x s'
  assume pre: "Rt X s \<and> claim_ok c s" and run: "runner_move tm c st actor s = Inr (x, s')"
  let ?rest = "\<lambda>t. bindT (getsT clock) (\<lambda>now.
     bindT (upd_task (t_id t) (\<lambda>t. t\<lparr>t_lease_until := Some (now + tm_lease tm)\<rparr>)) (\<lambda>_.
     bindT (run_transition (cl_run_id c) st actor None) (\<lambda>_. returnT ())))"
  let ?m = "bindT (locked_task c) (\<lambda>t. bindT (claimed_run c) (\<lambda>r. ?rest t))"
  have "runner_move tm c st actor s = bindT (locked_task c) ?rest s"
    by (simp add: runner_move_def heartbeat_def bindT_assoc bindT_returnT)
  also have "\<dots> = ?m s"
    using runner_move_open [OF run] by (auto simp: bindT_def split: sum.splits dest!: locked_task_Inr)
  finally have "?m s = Inr (x, s')" using run by simp
  moreover have "triple (\<lambda>s. Rt X s \<and> claim_ok c s) ?m (\<lambda>_. Rt X)"
  proof (rule open_claim, rule Fo_frame [OF frames_gets], rule Fo_upd_task, goal_cases)
    case (3 t r now)
    let ?t = "t\<lparr>t_lease_until := Some (now + tm_lease tm)\<rparr>" and ?r = "r\<lparr>r_state := st\<rparr>"
    have o: "is_open_run r" if "Fo X (t_id t) ?t (Some r) s" for s
      using Fo_open_run [OF that] by simp
    show ?case
    proof (rule triple_assume [OF o], assumption)
      assume "is_open_run r"
      then have "run_checks ?r"
        using 3(2) st by (simp add: fits_def open_checks_def run_checks_def finished_iff_terminal_def is_open_run_def)
      then have "fits X ?t (Some ?r)"
        using 3(1-3) by (simp add: fits_def open_checks_def task_checks_def lease_iff_running_def)
      moreover have "after_run ?r = Some ?r" using st by (simp add: after_run_def is_open_run_def)
      ultimately show "triple (Fo X (t_id t) ?t (Some r))
          (bindT (run_transition (cl_run_id c) st actor None) (\<lambda>_. returnT ())) (\<lambda>_. Rt X)"
        using 3(4) st by (intro Fo_run_transition) (simp_all add: keeps_close keeps_return)
    qed
  qed simp_all
  ultimately show "Rt X s'" using pre by (blast dest: tripleD)
qed


section \<open>Tokens and claims\<close>

text \<open>Identifiers are drawn and never put back.\<close>

interpretation id_supply: db_invariant "\<lambda>s. n \<le> next_id s" for n
proof unfold_locales
  show "keeps (\<lambda>s. n \<le> next_id s) (emit e)" for e
    by (auto simp: keeps_def triple_def dest!: emit_effect)
qed (auto simp: write_run elim!: transition_effects)

lemma tm_emit_run: "tm_emit i p (Some r) s = Inr (x, s') \<Longrightarrow> run_of s' r \<noteq> None"
proof -
  assume run: "tm_emit i p (Some r) s = Inr (x, s')"
  then have "run_of s r \<noteq> None"
    by (auto simp: tm_emit_def get_task_def get_run_def tx_run split: option.splits sum.splits)
  then show ?thesis using framesD [OF frames_tm_emit run] by (simp add: run_of_def)
qed

definition drawn :: "nat \<Rightarrow> uuid \<Rightarrow> db \<Rightarrow> bool" where
  "drawn n token s \<longleftrightarrow> n \<le> token \<and> Suc token \<le> next_id s"

lemma drawn_keeps: "(\<And>n. keeps (\<lambda>s. n \<le> next_id s) m) \<Longrightarrow> keeps (drawn n token) m"
  unfolding drawn_def keeps_def triple_def by blast

lemma triple_keeps: "keeps P m \<Longrightarrow> (\<And>x. triple P (k x) Q) \<Longrightarrow> triple P (bindT m k) Q"
  unfolding keeps_def by (rule triple_bind)

lemma take_task_drawn:
  "triple (\<lambda>s. n \<le> next_id s) (take_task tm i ag w now resume)
     (\<lambda>c s. drawn n (cl_token c) s \<and> run_of s (cl_run_id c) \<noteq> None)"
  unfolding take_task_def
proof (rule triple_bind [where R = "\<lambda>_ s. n \<le> next_id s"], goal_cases)
  case 1
  show ?case
    unfolding keeps_def [symmetric]
    by (intro keeps_case_option id_supply.basics id_supply.parts id_supply.fresh_row_keeps
        id_supply.new_run_keeps) simp_all
next
  case (2 run_id)
  show ?case
  proof (rule triple_bind [where R = "drawn n"], goal_cases)
    case 1
    show ?case by (auto simp: uuid7_def triple_def drawn_def)
  next
    case (2 token)
    have k: "keeps (drawn n token) (upd_task i f)" for f
      by (auto simp: upd_task_def run_modifyT keeps_def triple_def drawn_def)
    have k2: "keeps (drawn n token) (task_transition i st a r)" "keeps (drawn n token) (get_task i)"
      "keeps (drawn n token) (tm_emit i p rr)" for st a r p rr
      by (rule drawn_keeps, intro id_supply.basics id_supply.parts)+
    have last: "triple (drawn n token) (tm_emit i p (Some run_id)) (\<lambda>_ s. drawn n token s \<and> run_of s run_id \<noteq> None)" for p
      using keepsD [OF k2(3)] tm_emit_run by (fastforce simp: triple_def)
    show ?case
      by (rule triple_keeps k k2 triple_bind [OF last])+ (auto simp: triple_def tx_run)
  qed
qed

lemma claim_next_drawn:
  assumes "claim_next tm ag w s = Inr (Some c, s')"
  shows "next_id s \<le> cl_token c" "cl_token c < next_id s'" "run_of s' (cl_run_id c) \<noteq> None"
proof -
  obtain i resume where "take_task tm i (a_id ag) w (clock s) resume s = Inr (c, s')"
    using assms by (auto simp: claim_next_def tx_run split: option.splits sum.splits if_splits)
  from tripleD [OF take_task_drawn [of "next_id s"] order_refl this]
  show "next_id s \<le> cl_token c" "cl_token c < next_id s'" "run_of s' (cl_run_id c) \<noteq> None"
    by (simp_all add: drawn_def)
qed

lemma claim_held_ok: "claim_held c s \<Longrightarrow> claim_ok c s"
  by (auto simp: claim_held_def claim_ok_def)

section \<open>Steps\<close>

text \<open>
  A state is the database and the claims handed out so far; claims are never taken back, so a
  worker may go on using one it lost. The steps of agents name a claim that was handed out.
  Tasks without a run are ended by the decision and service handlers, which hold no claim: their
  tasks have no open run. Events about tasks are the task manager's own. Everything else is
  unrestricted.
\<close>

record wiring =
  su_fuel :: nat
  su_templates :: template_registry
  su_manager :: task_manager
  su_approvals :: approval_service

inductive rt_step :: "wiring \<Rightarrow> db \<times> claim set \<Rightarrow> db \<times> claim set \<Rightarrow> bool" for y :: wiring where
  rt_time: "clock s \<le> now \<Longrightarrow> rt_step y (s, C) (s\<lparr>clock := now\<rparr>, C)"
| rt_initialize: "initialize_activity ag actor s = Inr (x, s') \<Longrightarrow> rt_step y (s, C) (s', C)"
| rt_activity: "set_activity ag pl actor cx s = Inr (x, s') \<Longrightarrow> rt_step y (s, C) (s', C)"
| rt_emit: "\<not> is_task_event e \<Longrightarrow> emit e s = Inr (x, s') \<Longrightarrow> rt_step y (s, C) (s', C)"
| rt_add: "add_task nt s = Inr (x, s') \<Longrightarrow> rt_step y (s, C) (s', C)"
| rt_instantiate: "workflow_instantiate (su_templates y) name company project ps cy s = Inr (x, s') \<Longrightarrow>
    rt_step y (s, C) (s', C)"
| rt_cancel_workflow: "workflow_cancel (su_fuel y) (su_manager y) run reason s = Inr (x, s') \<Longrightarrow>
    rt_step y (s, C) (s', C)"
| rt_claim: "claim_next (su_manager y) ag w s = Inr (Some c, s') \<Longrightarrow> rt_step y (s, C) (s', insert c C)"
| rt_idle: "claim_next (su_manager y) ag w s = Inr (None, s') \<Longrightarrow> rt_step y (s, C) (s', C)"
| rt_heartbeat: "heartbeat (su_manager y) c s = Inr (x, s') \<Longrightarrow> rt_step y (s, C) (s', C)"
| rt_move: "c \<in> C \<Longrightarrow> st \<notin> set AGENT_RUN_TERMINAL \<Longrightarrow> runner_move (su_manager y) c st actor s = Inr (x, s') \<Longrightarrow>
    rt_step y (s, C) (s', C)"
| rt_succeed: "c \<in> C \<Longrightarrow> succeed (su_manager y) c out summary s = Inr (x, s') \<Longrightarrow> rt_step y (s, C) (s', C)"
| rt_fail: "c \<in> C \<Longrightarrow> fail_task (su_manager y) c ec msg retryable s = Inr (x, s') \<Longrightarrow> rt_step y (s, C) (s', C)"
| rt_abort: "c \<in> C \<Longrightarrow> abort_task (su_manager y) c ar m s = Inr (x, s') \<Longrightarrow> rt_step y (s, C) (s', C)"
| rt_ask: "c \<in> C \<Longrightarrow> request_for_run (su_approvals y) c kind action payload text ttl s = Inr (x, s') \<Longrightarrow>
    rt_step y (s, C) (s', C)"
| rt_ask_task: "open_run_of_task i s = None \<Longrightarrow>
    request_for_task (su_approvals y) i kind text pl act by1 ttl s = Inr (x, s') \<Longrightarrow> rt_step y (s, C) (s', C)"
| rt_go_on: "map_option t_state (task_of s i) = Some T_WAITING_APPROVAL \<Longrightarrow>
    release_after_approval i s = Inr (x, s') \<Longrightarrow> rt_step y (s, C) (s', C)"
| rt_complete: "open_run_of_task i s = None \<Longrightarrow>
    complete_without_run (su_manager y) i out summary s = Inr (x, s') \<Longrightarrow> rt_step y (s, C) (s', C)"
| rt_give_up: "open_run_of_task i s = None \<Longrightarrow>
    fail_without_run (su_manager y) i ec msg s = Inr (x, s') \<Longrightarrow> rt_step y (s, C) (s', C)"
| rt_cancel: "cancel_task (su_manager y) i reason s = Inr (x, s') \<Longrightarrow> rt_step y (s, C) (s', C)"
| rt_budget: "release_blocked (su_manager y) company s = Inr (x, s') \<Longrightarrow> rt_step y (s, C) (s', C)"
| rt_reap: "reap_expired_leases (su_manager y) k s = Inr (x, s') \<Longrightarrow> rt_step y (s, C) (s', C)"

inductive rt_reachable :: "wiring \<Rightarrow> db \<times> claim set \<Rightarrow> bool" for y :: wiring where
  rt_start: "pristine s \<Longrightarrow> rt_reachable y (s, {})"
| rt_more: "rt_reachable y p \<Longrightarrow> rt_step y p q \<Longrightarrow> rt_reachable y q"

text \<open>The parts of a running company: an engine bound to the task manager the services use.\<close>

definition wired :: "wiring \<Rightarrow> bool" where
  "wired y \<longleftrightarrow> (\<exists>base reads. bind_engine (su_fuel y) (su_templates y) (reading base reads) = Inr (su_manager y))"

definition sound :: "db \<times> claim set \<Rightarrow> bool" where
  "sound p \<longleftrightarrow> (case p of (s, C) \<Rightarrow>
     runtime_ok s \<and> (\<forall>c \<in> C. claim_held c s \<and> cl_token c < next_id s) \<and> inj_on cl_token C)"

lemma frames_create_approval: "frames (create_approval svc rq)"
  unfolding create_approval_def Let_def approval_emit_def
  by (intro frame_intros frames_modify) simp_all

text \<open>What frames also keeps what is known of the runs.\<close>

lemma frames_knowing:
  assumes f: "frames m" and k: "\<And>x. triple (\<lambda>s. Rt X s \<and> V (runs s)) (k x) Q"
  shows "triple (\<lambda>s. Rt X s \<and> V (runs s)) (bindT m k) Q"
proof (rule triple_bind [where R = "\<lambda>_ s. Rt X s \<and> V (runs s)", OF tripleI k])
  fix s x s'
  assume "Rt X s \<and> V (runs s)" "m s = Inr (x, s')"
  then show "Rt X s' \<and> V (runs s')" using keepsD [OF keeps_frame [OF f]] framesD [OF f] by metis
qed

lemma returning: "triple P m (\<lambda>_. Q) \<Longrightarrow> triple P (bindT m (\<lambda>_. returnT x)) (\<lambda>_. Q)"
  by (erule triple_bind) (simp add: triple_def tx_run)

lemma ask_run_Rt:
  "triple (\<lambda>s. Rt X s \<and> claim_ok c s) (request_for_run svc c kind action payload text ttl) (\<lambda>_. Rt X)"
  unfolding request_for_run_def claim_ok_def run_of_def
  by (rule frames_knowing [OF frames_get_task], rule frames_knowing [OF frames_create_approval], rule returning,
      rule suspend_keeps_Rt [unfolded claim_ok_def run_of_def])

lemma ask_task_Rt:
  "triple (\<lambda>s. Rt X s \<and> open_run_of_task i s = None) (request_for_task svc i kind text pl act by1 ttl) (\<lambda>_. Rt X)"
  unfolding request_for_task_def open_run_of_task_def
  by (rule frames_knowing [OF frames_get_task], rule triple_bind_check,
      rule frames_knowing [OF frames_create_approval], rule returning,
      rule await_keeps_Rt [unfolded open_run_of_task_def])

section \<open>Every state is sound\<close>

context db_invariant
begin

lemma wired_keeps:
  assumes "wired y"
  shows "hooks_keep (su_manager y)"
proof -
  obtain base reads where "bind_engine (su_fuel y) (su_templates y) (reading base reads) = Inr (su_manager y)"
    using assms by (auto simp: wired_def)
  then show ?thesis by (rule bound_hooks_keep) (auto simp: reading_def intro!: basics)
qed

lemma runner_move_keeps_I: "keeps I (runner_move tm c st actor)"
  unfolding runner_move_def by (intro basics heartbeat_keeps_I)

text \<open>A clock that only goes forward, and any operation: the invariant stays.\<close>

lemma rt_step_keeps:
  assumes y: "wired y" and step: "rt_step y (s, C) (s', C')" and I: "I s"
  shows "I s'"
  using step
proof cases
  case (rt_time now)
  with I clock_keeps show ?thesis by (simp add: keeps_def triple_def tx_run)
qed (rule keepsD [where I = I, OF _ I, rotated], assumption,
    rule runner_move_keeps_I release_after_keeps claim_next_keeps heartbeat_keeps_I step_keeps
      manager_keeps [OF wired_keeps [OF y]])+

end

text \<open>One step keeps tasks and runs consistent.\<close>

lemma frames_initialize: "frames (initialize_activity ag actor)"
  unfolding initialize_activity_def by (intro frame_intros)

lemmas other_frames = frames_initialize frames_set_activity frames_emit

lemma rt_step_runtime_ok:
  assumes y: "wired y" and step: "rt_step y (s, C) (s', C')" and R: "runtime_ok s"
    and h: "\<And>c. c \<in> C \<Longrightarrow> claim_held c s"
  shows "runtime_ok s'"
proof -
  obtain base reads where m: "su_manager y = engine_manager (su_fuel y) (su_templates y) base reads"
    using y by (auto simp: wired_def dest: bind_engine_manager)
  have R': "Rt Map.empty s" and k: "\<And>c. c \<in> C \<Longrightarrow> Rt Map.empty s \<and> claim_ok c s"
    using R h by (auto simp: runtime_ok_def claim_held_ok)
  have hooks: "failed_contract (su_manager y)" "task_hooks (su_manager y)" "quiet_hooks (su_manager y)"
    unfolding m by (rule bound.failed_contract_axioms bound.task_hooks_axioms bound.quiet_hooks_axioms)+
  note whole = add_task_keeps instantiate_Rt workflow_cancel_Rt heartbeat_keeps
    failed_contract.cancel_keeps [OF hooks(1)] failed_contract.reap_keeps [OF hooks(1), unfolded runtime_ok_def]
    quiet_hooks.release_blocked_keeps [OF hooks(3), unfolded runtime_ok_def] other_frames [THEN keeps_frame]
  note guarded = runner_move_keeps ask_run_Rt ask_task_Rt release_after_keeps_Rt
    task_hooks.succeed_keeps [OF hooks(2)] failed_contract.fail_keeps [OF hooks(1)]
    failed_contract.abort_keeps [OF hooks(1)] task_hooks.complete_without_run_keeps [OF hooks(2)]
    failed_contract.fail_without_run_keeps [OF hooks(1)]
  have "Rt Map.empty s'"
    using step
  proof cases
    case (rt_time now)
    with R' show ?thesis by (simp add: Rt_def asr_def)
  next
    case (rt_claim ag w c)
    with R' show ?thesis using tripleD [OF claim_next_ok] by (fastforce simp: claim_result_def)
  next
    case (rt_idle ag w)
    with R' show ?thesis using tripleD [OF claim_next_ok] by (fastforce simp: claim_result_def)
  qed ((rule keepsD [where I = "Rt Map.empty", OF _ R', rotated], assumption, (rule whole; fail)) |
    (rule tripleD [where Q = "\<lambda>_. Rt Map.empty", rotated 2], assumption,
      rule guarded, (assumption)?, (simp add: R' k; fail)))+
  then show ?thesis by (simp add: runtime_ok_def)
qed

lemma claim_next_held:
  assumes "runtime_ok s" "claim_next tm ag w s = Inr (Some c, s')"
  shows "claim_held c s'"
proof -
  have "claim_ok c s'" using tripleD [OF claim_next_ok] assms by (fastforce simp: runtime_ok_def claim_result_def)
  then show ?thesis using claim_next_drawn(3) [OF assms(2)] by (auto simp: claim_held_def claim_ok_def)
qed

inductive_cases rt_stepE: "rt_step y (s, C) (s', C')"

lemma rt_step_claims:
  assumes "rt_step y (s, C) (s', C')"
  shows "C' = C \<or> (\<exists>c ag w. C' = insert c C \<and> claim_next (su_manager y) ag w s = Inr (Some c, s'))"
  using assms by (rule rt_stepE) blast+

lemma sound_step:
  assumes y: "wired y" and step: "rt_step y p q" and S: "sound p"
  shows "sound q"
proof (cases p, cases q)
  fix s C s' C'
  assume p: "p = (s, C)" and q: "q = (s', C')"
  have st: "rt_step y (s, C) (s', C')" using step p q by simp
  have R: "runtime_ok s" and h: "\<And>c. c \<in> C \<Longrightarrow> claim_held c s"
    and n: "\<And>c. c \<in> C \<Longrightarrow> cl_token c < next_id s" and inj: "inj_on cl_token C"
    using S p by (auto simp: sound_def)
  have R': "runtime_ok s'" using rt_step_runtime_ok [OF y st R h] .
  have old: "claim_held c s'" "cl_token c < next_id s'" if "c \<in> C" for c
    using held_claims.rt_step_keeps [OF y st h [OF that]] n [OF that]
      id_supply.rt_step_keeps [OF y st order_refl] by auto
  show ?thesis
  proof (cases "C' = C")
    case True
    then show ?thesis using q R' old inj by (auto simp: sound_def)
  next
    case False
    then obtain ag w c where c: "C' = insert c C" "claim_next (su_manager y) ag w s = Inr (Some c, s')"
      using rt_step_claims [OF st] by blast
    have "claim_held c s'" using claim_next_held [OF R c(2)] .
    moreover have "next_id s \<le> cl_token c" "cl_token c < next_id s'" using claim_next_drawn [OF c(2)] by simp_all
    ultimately show ?thesis using q R' old n inj c(1) by (force simp: sound_def)
  qed
qed

lemma pristine_runtime_ok: "pristine s \<Longrightarrow> runtime_ok s"
  by (simp add: pristine_def runtime_ok_def Rt_def asr_def consistent_def fresh_def)

lemma reachable_sound: "rt_reachable y p \<Longrightarrow> wired y \<Longrightarrow> sound p"
  by (induction rule: rt_reachable.induct) (auto simp: sound_def [of "(_, {})"] pristine_runtime_ok intro: sound_step)

end
