(* ===== verification/RuntimeProps.thy ===== *)
theory RuntimeProps
  imports Runtime
begin

text \<open>
  Properties of the task runtime in every state it reaches: tasks, leases and runs agree, an
  agent works on one task at a time, a lease is held by one claim only, and what ended stays
  ended.
\<close>

section \<open>The example\<close>

definition demo_wiring :: wiring where
  "demo_wiring = \<lparr>su_fuel = 3, su_templates = [], su_manager = demo_bound,
     su_approvals = demo_service\<lparr>as_task_manager := demo_bound\<rparr>\<rparr>"

lemma demo_wired: "wired demo_wiring"
proof -
  have "bind_engine 3 [] (reading demo_manager []) = Inr demo_bound"
    by (simp add: bind_engine_def reading_def demo_manager_def demo_bound_def)
  then show ?thesis by (auto simp: wired_def demo_wiring_def)
qed

definition demo_claim :: claim where
  "demo_claim = (case result_of (claim_next demo_bound demo_agent ''w1'') demo_added of
     Some (Some c) \<Rightarrow> c | _ \<Rightarrow> \<lparr>cl_task_id = 0, cl_run_id = 0, cl_agent_id = 0, cl_token = 0, cl_resumed = False\<rparr>)"

lemma demo_claims: "claim_next demo_bound demo_agent ''w1'' demo_added = Inr (Some demo_claim, demo_claimed)"
proof -
  have "result_of (claim_next demo_bound demo_agent ''w1'') demo_added = Some (Some demo_claim)" by code_simp
  then show ?thesis using run_db_ok [of "claim_next demo_bound demo_agent ''w1''" demo_added] by (simp add: demo_claimed_def)
qed

lemma demo_added_rt: "rt_reachable demo_wiring (demo_added, {})"
proof -
  let ?s1 = "run_db (initialize_activity demo_agent tm_actor) demo_start"
  have 0: "rt_reachable demo_wiring (demo_start, {})"
    by (rule rt_start) (simp add: pristine_def demo_start_def)
  obtain x1 where "initialize_activity demo_agent tm_actor demo_start = Inr (x1, ?s1)"
    using run_db_some [OF demo_results(1)] by blast
  then have 1: "rt_reachable demo_wiring (?s1, {})" using 0 rt_initialize rt_more by blast
  obtain x2 where "add_task demo_task ?s1 = Inr (x2, demo_added)"
    using run_db_some [OF demo_results(2)] unfolding demo_added_def by blast
  then show ?thesis using 1 rt_add rt_more by blast
qed

lemma demo_claimed_rt: "rt_reachable demo_wiring (demo_claimed, {demo_claim})"
proof -
  have "claim_next (su_manager demo_wiring) demo_agent ''w1'' demo_added = Inr (Some demo_claim, demo_claimed)"
    using demo_claims by (simp add: demo_wiring_def)
  then show ?thesis using demo_added_rt rt_claim rt_more by blast
qed

section \<open>Tasks and runs\<close>

definition open_runs :: "uuid \<Rightarrow> db \<Rightarrow> agent_run list" where
  "open_runs i s = filter (\<lambda>r. r_task_id r = i \<and> is_open_run r) (runs s)"

lemma runtime_ok_cell:
  assumes "runtime_ok s" "t \<in> set (tasks s)"
  obtains o1 where "cell (runs s) t o1" "task_checks t" "coupled (t_state t) o1"
    "open_runs (t_id t) s = (case o1 of None \<Rightarrow> [] | Some r \<Rightarrow> [r])" "open_checks o1"
proof -
  obtain o1 where "cell (runs s) t o1" "fits Map.empty t o1"
    using assms by (auto simp: runtime_ok_def Rt_def asr_def consistent_def)
  then show thesis
    using that by (auto simp: fits_def cell_def open_runs_def runs_of_def filter_filter conj_commute)
qed

lemma runtime_ok_run:
  assumes "runtime_ok s" "r \<in> set (runs s)"
  obtains t where "t \<in> set (tasks s)" "r_task_id r = t_id t" "run_checks r" "r_attempt r \<le> t_attempt t"
proof -
  obtain t where t: "t \<in> set (tasks s)" "r_task_id r = t_id t"
    using assms by (auto simp: runtime_ok_def Rt_def asr_def consistent_def)
  obtain o1 where o1: "cell (runs s) t o1" "open_checks o1"
    "open_runs (t_id t) s = (case o1 of None \<Rightarrow> [] | Some r \<Rightarrow> [r])"
    using runtime_ok_cell [OF assms(1) t(1)] .
  have "run_checks r"
  proof (cases "is_open_run r")
    case True
    then have "r \<in> set (open_runs (t_id t) s)" using assms(2) t(2) by (simp add: open_runs_def)
    then show ?thesis using o1(2,3) by (auto simp: open_checks_def split: option.splits)
  next
    case False
    then show ?thesis using o1(1) assms(2) t(2) by (auto simp: cell_def runs_of_def)
  qed
  moreover have "r_attempt r \<le> t_attempt t" using o1(1) assms(2) t(2) by (auto simp: cell_def runs_of_def)
  ultimately show thesis using that t by blast
qed

text \<open>
  C1. In every state the runtime reaches, tasks and runs agree. A task has its lease exactly
  when it runs, and never more attempts than it may have. A task that runs has exactly one open
  run; a task that is pending, blocked or over has none; a task that is ready or waits for an
  approval has at most the run that waits with it. Every run belongs to a task, is finished
  exactly when its state is final, and is one of the attempts of its task.
\<close>

theorem tasks_and_runs_agree:
  assumes "wired y" "rt_reachable y (s, C)"
  shows "(\<forall>t \<in> set (tasks s). task_checks t \<and> length (open_runs (t_id t) s) \<le> 1 \<and>
      (t_state t = T_RUNNING \<longrightarrow> length (open_runs (t_id t) s) = 1) \<and>
      (t_state t \<in> {T_PENDING, T_BLOCKED_BUDGET, T_SUCCEEDED, T_FAILED, T_CANCELLED} \<longrightarrow>
        open_runs (t_id t) s = []) \<and>
      (t_state t \<noteq> T_RUNNING \<longrightarrow> (\<forall>r \<in> set (open_runs (t_id t) s). r_state r = R_WAITING_APPROVAL))) \<and>
    (\<forall>r \<in> set (runs s). run_checks r \<and>
      (\<exists>t \<in> set (tasks s). t_id t = r_task_id r \<and> r_attempt r \<le> t_attempt t))"
proof (intro conjI ballI)
  have R: "runtime_ok s" using reachable_sound [OF assms(2,1)] by (simp add: sound_def)
  fix t assume t: "t \<in> set (tasks s)"
  obtain o1 where o1: "task_checks t" "coupled (t_state t) o1"
    "open_runs (t_id t) s = (case o1 of None \<Rightarrow> [] | Some r \<Rightarrow> [r])"
    using runtime_ok_cell [OF R t] .
  show "task_checks t" by (rule o1)
  show "length (open_runs (t_id t) s) \<le> 1" using o1(3) by (cases o1) simp_all
  show "t_state t = T_RUNNING \<longrightarrow> length (open_runs (t_id t) s) = 1" using o1(2,3) by (cases o1) auto
  show "t_state t \<in> {T_PENDING, T_BLOCKED_BUDGET, T_SUCCEEDED, T_FAILED, T_CANCELLED} \<longrightarrow>
      open_runs (t_id t) s = []" using o1(2,3) by (cases o1) auto
  show "t_state t \<noteq> T_RUNNING \<longrightarrow> (\<forall>r \<in> set (open_runs (t_id t) s). r_state r = R_WAITING_APPROVAL)"
    using o1(2,3) by (cases o1; cases "t_state t") auto
next
  have R: "runtime_ok s" using reachable_sound [OF assms(2,1)] by (simp add: sound_def)
  fix r assume r: "r \<in> set (runs s)"
  obtain t where "t \<in> set (tasks s)" "r_task_id r = t_id t" "run_checks r" "r_attempt r \<le> t_attempt t"
    using runtime_ok_run [OF R r] .
  then show "run_checks r" "\<exists>t \<in> set (tasks s). t_id t = r_task_id r \<and> r_attempt r \<le> t_attempt t" by auto
qed

theorem tasks_and_runs_agree_witness:
  "map (\<lambda>t. (t_state t, length (open_runs (t_id t) demo_claimed))) (tasks demo_claimed) = [(T_RUNNING, 1)]"
proof -
  have "map t_state (tasks demo_claimed) = [T_RUNNING]" by code_simp
  then obtain t where "tasks demo_claimed = [t]" "t_state t = T_RUNNING" by auto
  then show ?thesis using tasks_and_runs_agree [OF demo_wired demo_claimed_rt] by simp
qed

text \<open>
  An agent works on one task at a time: no two open runs are of the same agent, in any
  state the runtime reaches.
\<close>

theorem agent_has_one_open_run:
  assumes "wired y" "rt_reachable y (s, C)"
  shows "distinct (map r_agent_id (filter is_open_run (runs s)))"
  using reachable_sound [OF assms(2,1)] by (simp add: sound_def runtime_ok_def Rt_def asr_def consistent_def)

theorem agent_has_one_open_run_witness:
  "length (filter is_open_run (runs demo_claimed)) = 1 \<and>
   distinct (map r_agent_id (filter is_open_run (runs demo_claimed)))"
proof
  show "length (filter is_open_run (runs demo_claimed)) = 1" by code_simp
  show "distinct (map r_agent_id (filter is_open_run (runs demo_claimed)))"
    by (rule agent_has_one_open_run [OF demo_wired demo_claimed_rt])
qed

section \<open>Leases\<close>

lemma heartbeat_token:
  "heartbeat tm c s = Inr (x, s') \<Longrightarrow> \<exists>t. task_of s (cl_task_id c) = Some t \<and> t_lease_token t = Some (cl_token c)"
  by (auto simp: heartbeat_def bindT_Inr_iff dest: locked_task_Inr)

lemma other_token:
  assumes "task_of s (cl_task_id c) = Some t" "t_lease_token t \<noteq> Some (cl_token c)"
  shows "locked_task c s = Inl (LeaseLost (cl_task_id c))"
  using assms by (simp add: locked_task_def tx_run)

lemma lost_lease:
  assumes "locked_task c s = Inl e"
  shows "heartbeat tm c s = Inl e" "succeed tm c out summary s = Inl e" "fail_task tm c ec msg retryable s = Inl e"
    "abort_task tm c ar m s = Inl e" "suspend_for_approval c i s = Inl e"
  using assms
  by (simp_all add: heartbeat_def succeed_def fail_task_def abort_task_def suspend_for_approval_def bindT_def)

text \<open>
  C2. A lease is held by one claim. While one claim of a task is honoured (its heartbeat goes
  through), every other claim of that task that was ever handed out is refused: its heartbeat,
  success, failure, abort and suspension raise \<open>LeaseLost\<close> and change nothing.
\<close>

theorem lease_fences_other_claims:
  assumes "wired y" "rt_reachable y (s, C)"
    and "c \<in> C" "c' \<in> C" "c \<noteq> c'" "cl_task_id c = cl_task_id c'" "heartbeat tm c s = Inr (until1, s')"
  shows "heartbeat tm c' s = Inl (LeaseLost (cl_task_id c')) \<and>
    succeed tm c' out summary s = Inl (LeaseLost (cl_task_id c')) \<and>
    fail_task tm c' ec msg retryable s = Inl (LeaseLost (cl_task_id c')) \<and>
    abort_task tm c' ar m s = Inl (LeaseLost (cl_task_id c')) \<and>
    suspend_for_approval c' i s = Inl (LeaseLost (cl_task_id c'))"
proof -
  have "inj_on cl_token C" using reachable_sound [OF assms(2,1)] by (simp add: sound_def)
  then have "cl_token c \<noteq> cl_token c'" using assms(3-5) by (auto dest: inj_onD)
  then have "locked_task c' s = Inl (LeaseLost (cl_task_id c'))"
    using heartbeat_token [OF assms(7)] assms(6) by (auto intro!: other_token)
  then show ?thesis by (simp add: lost_lease)
qed

text \<open>The example goes on: the first attempt fails, and the task is claimed again later.\<close>

definition demo_failed :: db where
  "demo_failed = run_db (fail_task demo_bound demo_claim ''Timeout'' ''slow'' True) demo_claimed"

definition demo_again :: db where
  "demo_again = run_db (claim_next demo_bound demo_agent ''w2'') (demo_failed\<lparr>clock := 2000\<rparr>)"

definition demo_claim2 :: claim where
  "demo_claim2 = (case result_of (claim_next demo_bound demo_agent ''w2'') (demo_failed\<lparr>clock := 2000\<rparr>) of
     Some (Some c) \<Rightarrow> c | _ \<Rightarrow> demo_claim)"

lemma demo_again_results:
  "result_of (fail_task demo_bound demo_claim ''Timeout'' ''slow'' True) demo_claimed \<noteq> None"
  "result_of (claim_next demo_bound demo_agent ''w2'') (demo_failed\<lparr>clock := 2000\<rparr>) = Some (Some demo_claim2)"
  "clock demo_failed \<le> 2000"
  by code_simp+

lemma demo_again_rt: "rt_reachable demo_wiring (demo_again, {demo_claim2, demo_claim})"
proof -
  obtain x where "fail_task (su_manager demo_wiring) demo_claim ''Timeout'' ''slow'' True demo_claimed = Inr (x, demo_failed)"
    using run_db_some [OF demo_again_results(1)] by (auto simp: demo_failed_def demo_wiring_def)
  then have "rt_reachable demo_wiring (demo_failed, {demo_claim})" using demo_claimed_rt rt_fail rt_more by blast
  then have "rt_reachable demo_wiring (demo_failed\<lparr>clock := 2000\<rparr>, {demo_claim})"
    using rt_time [OF demo_again_results(3)] rt_more by blast
  moreover have "claim_next (su_manager demo_wiring) demo_agent ''w2'' (demo_failed\<lparr>clock := 2000\<rparr>) =
      Inr (Some demo_claim2, demo_again)"
    using run_db_ok [OF demo_again_results(2)] by (simp add: demo_again_def demo_wiring_def)
  ultimately show ?thesis using rt_claim rt_more by blast
qed

theorem lease_fences_other_claims_witness:
  "heartbeat demo_bound demo_claim demo_again = Inl (LeaseLost (cl_task_id demo_claim))"
proof -
  have "demo_claim2 \<noteq> demo_claim" "cl_task_id demo_claim2 = cl_task_id demo_claim"
    "result_of (heartbeat demo_bound demo_claim2) demo_again \<noteq> None"
    by code_simp+
  moreover obtain u s' where "heartbeat demo_bound demo_claim2 demo_again = Inr (u, s')"
    using run_db_some [OF calculation(3)] by blast
  ultimately show ?thesis
    using lease_fences_other_claims [OF demo_wired demo_again_rt, of demo_claim2 demo_claim] by blast
qed

text \<open>
  What is over stays over: a task, run, workflow run or approval in a final state of its machine
  keeps that state, whatever the system does next.
\<close>

definition final_in :: "('s, 'x) state_machine \<Rightarrow> ('x \<Rightarrow> uuid) \<Rightarrow> ('x \<Rightarrow> 's) \<Rightarrow> 'x list \<Rightarrow> 'x list \<Rightarrow> bool" where
  "final_in m key st rows0 rows \<longleftrightarrow>
     (\<forall>i x. find_row key i rows0 = Some x \<and> is_terminal m (st x) \<longrightarrow>
        map_option st (find_row key i rows) = Some (st x))"

lemma final_in_refl: "final_in m key st rows rows"
  by (simp add: final_in_def)

lemma final_in_append: "final_in m key st rows0 rows \<Longrightarrow> final_in m key st rows0 (rows @ new)"
  by (fastforce simp: final_in_def find_row_append split: option.splits)

lemma final_in_note:
  assumes "final_in m key st rows0 rows" "\<And>x. key (f x) = key x" "\<And>x. st (f x) = st x"
  shows "final_in m key st rows0 (update_row key i f rows)"
proof -
  have "map_option st (find_row key j (update_row key i f rows)) = map_option st (find_row key j rows)" for j
    using find_row_update [of key f j i rows] assms(2,3) by (simp add: option.map_comp comp_def)
  then show ?thesis using assms(1) by (simp add: final_in_def)
qed

text \<open>A move: the row was in a state that can be left.\<close>

lemma final_in_move:
  assumes fin: "final_in m key st rows0 rows" and f: "\<And>x. key (f x) = key x"
    and x: "find_row key i rows = Some x" "y \<in> set (targets m (st x))"
  shows "final_in m key st rows0 (update_row key i f rows)"
proof -
  have "\<not> is_terminal m (st x)" using x(2) by (auto simp: is_terminal_def allowed_from_def)
  then have "\<not> (find_row key i rows0 = Some z \<and> is_terminal m (st z))" for z
    using fin x(1) by (force simp: final_in_def)
  then show ?thesis using fin find_row_update [of key f _ i rows, OF f] by (auto simp: final_in_def)
qed

definition settled :: "db \<Rightarrow> db \<Rightarrow> bool" where
  "settled s0 s \<longleftrightarrow>
     final_in TASK_FSM t_id t_state (tasks s0) (tasks s) \<and>
     final_in AGENT_RUN_FSM r_id r_state (runs s0) (runs s) \<and>
     final_in WORKFLOW_RUN_FSM w_id w_state (workflows s0) (workflows s) \<and>
     final_in APPROVAL_FSM ap_id ap_state (approvals s0) (approvals s)"

lemma settled_refl: "settled s s"
  by (simp add: settled_def final_in_refl)

interpretation final_states: db_invariant "settled s0" for s0
proof unfold_locales
  show "keeps (settled s0) (emit e)" for e
    by (auto simp: keeps_def triple_def settled_def dest!: emit_effect)
next
  fix i st actor and reason :: "string option"
  show "keeps (settled s0) (task_transition i st actor reason)"
    by (rule keepsI, erule task_transition_effect) (auto simp: settled_def task_of_def intro: final_in_move)
next
  fix i st actor and reason :: "string option"
  show "keeps (settled s0) (run_transition i st actor reason)"
    by (rule keepsI, erule run_transition_effect) (auto simp: settled_def run_of_def intro: final_in_move)
next
  fix i st actor and reason :: "string option"
  show "keeps (settled s0) (workflow_transition i st actor reason)"
    by (rule keepsI, erule workflow_transition_effect) (auto simp: settled_def workflow_of_def intro: final_in_move)
next
  fix i st actor and reason :: "string option"
  show "keeps (settled s0) (approval_transition i st actor reason)"
    by (rule keepsI, erule approval_transition_effect) (auto simp: settled_def approval_of_def intro: final_in_move)
qed (auto simp: write_run settled_def intro: final_in_note final_in_append)

text \<open>
  C26. What is over stays over. A task, run, workflow run or approval whose state is final has
  the same state after any step of the system: no operation, hook or race of workers revives it.
\<close>

theorem final_states_stay:
  assumes "compose n reg tm svc pe = Inr y" "well_behaved tm svc" "step y s s'"
  shows "(\<forall>i t. task_of s i = Some t \<and> is_terminal TASK_FSM (t_state t) \<longrightarrow>
      map_option t_state (task_of s' i) = Some (t_state t)) \<and>
    (\<forall>i r. run_of s i = Some r \<and> is_terminal AGENT_RUN_FSM (r_state r) \<longrightarrow>
      map_option r_state (run_of s' i) = Some (r_state r)) \<and>
    (\<forall>i w. workflow_of s i = Some w \<and> is_terminal WORKFLOW_RUN_FSM (w_state w) \<longrightarrow>
      map_option w_state (workflow_of s' i) = Some (w_state w)) \<and>
    (\<forall>i a. approval_of s i = Some a \<and> is_terminal APPROVAL_FSM (ap_state a) \<longrightarrow>
      map_option ap_state (approval_of s' i) = Some (ap_state a))"
  using final_states.step_invariant [OF assms settled_refl]
  by (simp_all add: settled_def final_in_def task_of_def run_of_def workflow_of_def approval_of_def)

definition demo_cancelled :: db where
  "demo_cancelled = run_db (bindT (getsT (\<lambda>s. map t_id (tasks s)))
     (\<lambda>ids. forT ids (\<lambda>i. cancel_task demo_bound i ''not needed''))) demo_added"

definition demo_readded :: db where
  "demo_readded = run_db (add_task demo_task) demo_cancelled"

lemma demo_readds:
  "result_of (add_task demo_task) demo_cancelled \<noteq> None"
  "map t_state (tasks demo_cancelled) = [T_CANCELLED]"
  by code_simp+

theorem final_states_stay_witness:
  "map_option t_state (task_of demo_readded (t_id (hd (tasks demo_cancelled)))) = Some T_CANCELLED"
proof -
  obtain x where "add_task demo_task demo_cancelled = Inr (x, demo_readded)"
    using run_db_some [OF demo_readds(1)] unfolding demo_readded_def by blast
  then have st: "step demo_system demo_cancelled demo_readded" by (rule step.add)
  obtain t where t: "tasks demo_cancelled = [t]" "t_state t = T_CANCELLED" using demo_readds(2) by auto
  moreover have "is_terminal TASK_FSM T_CANCELLED" by code_simp
  moreover have "task_of demo_cancelled (t_id t) = Some t" using t(1) by (simp add: task_of_def)
  ultimately show ?thesis using final_states_stay [OF demo_composed demo_well_behaved st] by force
qed

end
