(* ===== verification/Templates.thy ===== *)
theory Templates
  imports Dag "HOL-Library.Multiset"
begin

text \<open>
  Templates: the order of their nodes respects the dependencies and exists exactly when they are
  acyclic, and \<open>upstream\<close> is the transitive closure of the dependencies.
\<close>

section \<open>Order\<close>

text \<open>A list of nodes each of which depends only on what is known or comes before it.\<close>

fun ordered :: "string set \<Rightarrow> node_spec list \<Rightarrow> bool" where
  "ordered known [] = True"
| "ordered known (n # ns) = (set (nd_depends_on n) \<subseteq> known \<and> ordered (insert (nd_name n) known) ns)"

lemma ordered_mono: "ordered known ns \<Longrightarrow> known \<subseteq> known' \<Longrightarrow> ordered known' ns"
  by (induction ns arbitrary: known known') (auto, meson insert_mono)

lemma ordered_append: "ordered known (ms @ ns) = (ordered known ms \<and> ordered (known \<union> nd_name ` set ms) ns)"
  by (induction ms arbitrary: known) auto

lemma ordered_ready: "(\<And>n. n \<in> set ns \<Longrightarrow> set (nd_depends_on n) \<subseteq> known) \<Longrightarrow> ordered known ns"
  by (induction ns) (auto intro: ordered_mono)

lemma ordered_nth:
  "ordered known ns = (\<forall>i < length ns. set (nd_depends_on (ns ! i)) \<subseteq> known \<union> nd_name ` set (take i ns))"
proof (induction ns arbitrary: known)
  case (Cons n ns)
  then show ?case by (simp add: All_less_Suc2)
qed simp

lemma order_loop_sound:
  "order_loop tname finished remaining = Inr out \<Longrightarrow>
   \<exists>ns. mset ns = mset remaining \<and> out = finished @ map nd_name ns \<and> ordered (set finished) ns"
proof (induction tname finished remaining rule: order_loop.induct)
  case (1 tname finished remaining)
  let ?P = "\<lambda>n. set (nd_depends_on n) \<subseteq> set finished"
  let ?ready = "ready_nodes finished remaining" and ?rest = "filter (\<lambda>n. \<not> ?P n) remaining"
  show ?case
  proof (cases "remaining = []")
    case True
    then show ?thesis using "1.prems" by (simp add: order_loop.simps)
  next
    case False
    then have r: "?ready \<noteq> []" "order_loop tname (finished @ map nd_name ?ready) ?rest = Inr out"
      using "1.prems" order_loop.simps [of tname finished remaining] by (auto simp: Let_def split: if_splits)
    then obtain ns where ns: "mset ns = mset ?rest" "out = (finished @ map nd_name ?ready) @ map nd_name ns"
      "ordered (set (finished @ map nd_name ?ready)) ns"
      using "1.IH" [OF False refl r(1)] by blast
    have "ordered (set finished) ?ready" by (rule ordered_ready) (simp add: ready_nodes_def)
    then have "ordered (set finished) (?ready @ ns)" using ns(3) by (simp add: ordered_append)
    moreover have "mset (?ready @ ns) = mset remaining"
      using ns(1) multiset_partition [of "mset remaining" ?P] by (simp add: ready_nodes_def mset_filter)
    ultimately show ?thesis using ns(2) by (intro exI [of _ "?ready @ ns"]) simp
  qed
qed

text \<open>An order leaves an order when the nodes that are ready are taken out of it.\<close>

lemma ordered_filter:
  assumes "ordered known ns" "known \<subseteq> known'" "\<And>n. n \<in> set ns \<Longrightarrow> \<not> Q n \<Longrightarrow> nd_name n \<in> known'"
  shows "ordered known' (filter Q ns)"
  using assms
proof (induction ns arbitrary: known known')
  case (Cons n ns)
  show ?case
  proof (cases "Q n")
    case True
    have "ordered (insert (nd_name n) known') (filter Q ns)"
      using Cons.prems by (intro Cons.IH [of "insert (nd_name n) known"]) auto
    then show ?thesis using True Cons.prems by auto
  next
    case False
    then show ?thesis using Cons.prems by (auto intro!: Cons.IH [of "insert (nd_name n) known"])
  qed
qed simp

lemma order_loop_complete:
  "mset ns = mset remaining \<Longrightarrow> ordered (set finished) ns \<Longrightarrow> \<exists>out. order_loop tname finished remaining = Inr out"
proof (induction tname finished remaining arbitrary: ns rule: order_loop.induct)
  case (1 tname finished remaining)
  let ?P = "\<lambda>n. set (nd_depends_on n) \<subseteq> set finished"
  let ?ready = "ready_nodes finished remaining" and ?rest = "filter (\<lambda>n. \<not> ?P n) remaining"
  show ?case
  proof (cases "remaining = []")
    case True
    then show ?thesis by (simp add: order_loop.simps)
  next
    case False
    have same: "set ns = set remaining" using "1.prems"(1) by (rule mset_eq_setD)
    from False "1.prems"(1) obtain m ms where m: "ns = m # ms" by (cases ns) auto
    then have "m \<in> set ?ready" using "1.prems"(2) same by (auto simp: ready_nodes_def)
    then have r: "?ready \<noteq> []" by auto
    have "ordered (set (finished @ map nd_name ?ready)) (filter (\<lambda>n. \<not> ?P n) ns)"
      by (rule ordered_filter [OF "1.prems"(2)]) (auto simp: ready_nodes_def same)
    moreover have "mset (filter (\<lambda>n. \<not> ?P n) ns) = mset ?rest" using "1.prems"(1) by (simp add: mset_filter)
    ultimately have "\<exists>out. order_loop tname (finished @ map nd_name ?ready) ?rest = Inr out"
      using "1.IH" [OF False refl r] by blast
    then show ?thesis using False r order_loop.simps [of tname finished remaining] by (simp add: Let_def)
  qed
qed

lemma node_of: "distinct (node_names t) \<Longrightarrow> n \<in> set (wt_nodes t) \<Longrightarrow> node t (nd_name n) = Inr n"
  using find_row_unique [of nd_name "wt_nodes t" n] by (simp add: node_def node_names_def)

lemma map_err_names:
  "distinct (node_names t) \<Longrightarrow> set ns \<subseteq> set (wt_nodes t) \<Longrightarrow> map_err (map nd_name ns) (node t) = Inr ns"
  by (induction ns) (simp_all add: node_of bind_err_def)

text \<open>
  C29. \<open>topological_order\<close> of a template with distinct node names returns a permutation of its
  nodes in which every node comes after all it depends on; it raises \<open>InvalidTemplate\<close> exactly
  when there is no such order, that is when the dependencies have a cycle.
\<close>

theorem topological_order_correct:
  assumes "distinct (node_names t)"
  shows "(\<forall>ns. topological_order t = Inr ns \<longrightarrow>
      mset ns = mset (wt_nodes t) \<and>
      (\<forall>i < length ns. set (nd_depends_on (ns ! i)) \<subseteq> nd_name ` set (take i ns))) \<and>
    (\<forall>e. topological_order t = Inl e \<longrightarrow>
      e = InvalidTemplate (wt_name t) \<and> \<not> (\<exists>ms. mset ms = mset (wt_nodes t) \<and> ordered {} ms))"
proof -
  have ok: "topological_order t = Inr ms \<and> mset ms = mset (wt_nodes t) \<and> ordered {} ms"
    if out: "order_loop (wt_name t) [] (wt_nodes t) = Inr out" "out = map nd_name ms"
      "mset ms = mset (wt_nodes t)" "ordered {} ms" for out ms
    using out map_err_names [OF assms, of ms] by (auto simp: topological_order_def bind_err_def dest: mset_eq_setD)
  have err: "order_loop tname f rs = Inl e \<Longrightarrow> e = InvalidTemplate tname" for tname f rs e
    by (induction tname f rs rule: order_loop.induct) (subst (asm) (2) order_loop.simps, auto simp: Let_def split: if_splits)
  have "mset ns = mset (wt_nodes t) \<and> (\<forall>i < length ns. set (nd_depends_on (ns ! i)) \<subseteq> nd_name ` set (take i ns))"
    if top: "topological_order t = Inr ns" for ns
  proof -
    obtain out where out: "order_loop (wt_name t) [] (wt_nodes t) = Inr out"
      using top by (auto simp: topological_order_def bind_err_def split: sum.splits)
    from order_loop_sound [OF this] obtain ms where "mset ms = mset (wt_nodes t)" "out = map nd_name ms" "ordered {} ms"
      by auto
    then show ?thesis using ok [OF out] top by (simp add: ordered_nth)
  qed
  moreover have "e = InvalidTemplate (wt_name t) \<and> \<not> (\<exists>ms. mset ms = mset (wt_nodes t) \<and> ordered {} ms)"
    if top: "topological_order t = Inl e" for e
  proof (cases "order_loop (wt_name t) [] (wt_nodes t)")
    case (Inl e')
    then show ?thesis
      using top err [OF Inl] order_loop_complete [of _ "wt_nodes t" "[]" "wt_name t"]
      by (fastforce simp: topological_order_def bind_err_def)
  next
    case (Inr out)
    then show ?thesis using order_loop_sound [OF Inr] ok [OF Inr] top by auto
  qed
  ultimately show ?thesis by blast
qed


text \<open>A template for the examples: a draft, a check that loops back to it, and a publication.\<close>

definition demo_node :: "string \<Rightarrow> string list \<Rightarrow> node_spec" where
  "demo_node name deps = \<lparr>nd_name = name, nd_display_name = name, nd_required_role = ''writer'',
     nd_depends_on = deps, nd_input = [], nd_output_schema_ref = None, nd_budget_usd = None,
     nd_max_attempts = 2, nd_priority = 100, nd_service = None\<rparr>"

definition demo_template :: workflow_template where
  "demo_template = \<lparr>wt_name = ''news.story'',
     wt_nodes = [demo_node ''publish'' [''check'', ''cover''], demo_node ''draft'' [],
       demo_node ''cover'' [], demo_node ''check'' [''draft'']],
     wt_loops = [], wt_halts = []\<rparr>"

theorem topological_order_correct_witness:
  "\<exists>ns. topological_order demo_template = Inr ns \<and> map nd_name ns = [''draft'', ''cover'', ''check'', ''publish''] \<and>
     mset ns = mset (wt_nodes demo_template)"
proof -
  have d: "distinct (node_names demo_template)" by code_simp
  have "map_option (map nd_name) (case topological_order demo_template of Inl _ \<Rightarrow> None | Inr ns \<Rightarrow> Some ns) =
      Some [''draft'', ''cover'', ''check'', ''publish'']" by code_simp
  then obtain ns where ns: "topological_order demo_template = Inr ns"
    "map nd_name ns = [''draft'', ''cover'', ''check'', ''publish'']" by (auto split: sum.splits)
  then show ?thesis using topological_order_correct [OF d] by auto
qed

section \<open>What a node builds on\<close>

definition depends :: "workflow_template \<Rightarrow> (string \<times> string) set" where
  "depends t = {(nd_name n, d) | n d. n \<in> set (wt_nodes t) \<and> d \<in> set (nd_depends_on n)}"

lemma depends_node:
  assumes "distinct (node_names t)" "node t name = Inr n"
  shows "depends t `` {name} = set (nd_depends_on n)"
proof -
  have n: "n \<in> set (wt_nodes t)" "nd_name n = name" using node_Inr [OF assms(2)] by simp_all
  have uniq: "m = n" if "m \<in> set (wt_nodes t)" "nd_name m = name" for m
    using node_of [OF assms(1) that(1)] that(2) assms(2) by simp
  show ?thesis
  proof (intro equalityI subsetI)
    fix d assume "d \<in> depends t `` {name}"
    then show "d \<in> set (nd_depends_on n)" using uniq by (auto simp: depends_def)
  next
    fix d assume "d \<in> set (nd_depends_on n)"
    then show "d \<in> depends t `` {name}" using n by (auto simp: depends_def)
  qed
qed

lemma upstream_loop_within:
  "upstream_loop t seen todo = Inr out \<Longrightarrow> distinct (node_names t) \<Longrightarrow>
   set out \<subseteq> set seen \<union> (depends t)\<^sup>* `` set todo"
proof (induction t seen todo rule: upstream_loop.induct)
  case (2 t seen dep todo)
  show ?case
  proof (cases "dep \<in> set seen")
    case True
    then show ?thesis using 2 by auto
  next
    case False
    then obtain n where n: "node t dep = Inr n"
      "upstream_loop t (dep # seen) (rev (nd_depends_on n) @ todo) = Inr out"
      using "2.prems"(1) by (auto split: sum.splits)
    have "set out \<subseteq> set (dep # seen) \<union> (depends t)\<^sup>* `` set (rev (nd_depends_on n) @ todo)"
      using "2.IH"(2) [OF False n] "2.prems"(2) by simp
    moreover have "(depends t)\<^sup>* `` set (nd_depends_on n) \<subseteq> (depends t)\<^sup>* `` {dep}"
      using depends_node [OF "2.prems"(2) n(1)] by (auto intro: converse_rtrancl_into_rtrancl)
    ultimately show ?thesis by auto
  qed
qed simp

lemma upstream_loop_closed:
  "upstream_loop t seen todo = Inr out \<Longrightarrow> distinct (node_names t) \<Longrightarrow>
   (\<forall>x \<in> set seen. depends t `` {x} \<subseteq> set seen \<union> set todo) \<Longrightarrow>
   set seen \<union> set todo \<subseteq> set out \<and> depends t `` set out \<subseteq> set out"
proof (induction t seen todo rule: upstream_loop.induct)
  case (1 t seen)
  then show ?case by auto
next
  case (2 t seen dep todo)
  show ?case
  proof (cases "dep \<in> set seen")
    case True
    then have "set seen \<union> set (dep # todo) = set seen \<union> set todo" by auto
    then show ?thesis using "2.IH"(1) [OF True] True "2.prems" by auto
  next
    case False
    then obtain n where n: "node t dep = Inr n"
      "upstream_loop t (dep # seen) (rev (nd_depends_on n) @ todo) = Inr out"
      using "2.prems"(1) by (auto split: sum.splits)
    have "\<forall>x \<in> set (dep # seen). depends t `` {x} \<subseteq> set (dep # seen) \<union> set (rev (nd_depends_on n) @ todo)"
      using "2.prems"(3) depends_node [OF "2.prems"(2) n(1)] by auto
    then show ?thesis using "2.IH"(2) [OF False n] "2.prems"(2) by auto
  qed
qed

lemma upstream_loop_distinct: "upstream_loop t seen todo = Inr out \<Longrightarrow> distinct seen \<Longrightarrow> distinct out"
  by (induction t seen todo rule: upstream_loop.induct) (auto split: if_splits sum.splits)

text \<open>
  \<open>upstream\<close> of a node is the transitive closure of the dependencies: the names it returns
  are exactly the nodes the node builds on, directly or through others, whatever order the work
  list takes them in, and each once.
\<close>

theorem upstream_is_closure:
  assumes "distinct (node_names t)" "upstream t name = Inr us"
  shows "distinct us \<and> set us = (depends t)\<^sup>+ `` {name}"
proof -
  obtain n where n: "node t name = Inr n" and loop: "upstream_loop t [] (rev (nd_depends_on n)) = Inr us"
    using assms(2) by (auto simp: upstream_def bind_err_def split: sum.splits)
  have step: "depends t `` {name} = set (nd_depends_on n)" by (rule depends_node [OF assms(1) n])
  have "set us \<subseteq> (depends t)\<^sup>* `` (depends t `` {name})"
    using upstream_loop_within [OF loop assms(1)] step by simp
  also have "\<dots> = (depends t)\<^sup>+ `` {name}" by (auto simp: trancl_unfold_left)
  finally have 1: "set us \<subseteq> (depends t)\<^sup>+ `` {name}" .
  have c: "depends t `` {name} \<subseteq> set us" "depends t `` set us \<subseteq> set us"
    using upstream_loop_closed [OF loop assms(1)] step by auto
  have "x \<in> set us" if "(name, x) \<in> (depends t)\<^sup>+" for x
    using that c by (induction rule: trancl_induct) auto
  with 1 show ?thesis using upstream_loop_distinct [OF loop] by auto
qed

theorem upstream_is_closure_witness:
  "(depends demo_template)\<^sup>+ `` {''publish''} = {''check'', ''cover'', ''draft''}"
proof -
  have "upstream demo_template ''publish'' = Inr [''draft'', ''check'', ''cover'']" by code_simp
  moreover have "distinct (node_names demo_template)" by code_simp
  ultimately show ?thesis using upstream_is_closure [of demo_template "''publish''"] by auto
qed

end
