(* ===== verification/CompanyPolicy.thy ===== *)
theory CompanyPolicy
  imports Policy
begin

text \<open>
  The permission rules of the company's commands (\<open>company/policy.py\<close>): the limits, the
  actions with their side effects, and the rules.
\<close>

section \<open>Limits\<close>

definition DEFAULT_MAX_WORKFLOWS_PER_CYCLE :: int where
  "DEFAULT_MAX_WORKFLOWS_PER_CYCLE = 5"

definition DEFAULT_CEO_BUDGET_ALLOCATION_LIMIT :: rat where
  "DEFAULT_CEO_BUDGET_ALLOCATION_LIMIT = 160"

definition DEFAULT_EXPLORATION_BUDGET_LIMIT :: rat where
  "DEFAULT_EXPLORATION_BUDGET_LIMIT = 64"

definition DEFAULT_CEO_SCALE_LIMIT :: rat where
  "DEFAULT_CEO_SCALE_LIMIT = 1600"

text \<open>\<open>int(...)\<close> of a JSON value.\<close>

definition parse_int :: "string \<Rightarrow> err + int" where
  "parse_int text =
     (let (neg, t) = split_sign (strip text); parts = split_on (CHR ''_'') t
      in if list_all (\<lambda>p. p \<noteq> [] \<and> list_all is_digit p) parts
         then Inr (let n = int (digits_value (concat parts)) in if neg then - n else n)
         else Inl (ValueError text))"

fun json_int :: "json \<Rightarrow> err + int" where
  "json_int (JInt n) = Inr n"
| "json_int (JBool b) = Inr (if b then 1 else 0)"
| "json_int (JStr t) = parse_int t"
| "json_int (JFloat r) =
     (case parse_decimal r of
        Some (Fin q) \<Rightarrow> Inr (if 0 \<le> q then \<lfloor>q\<rfloor> else - \<lfloor>- q\<rfloor>)
      | _ \<Rightarrow> Inl (ValueError r))"
| "json_int _ = Inl TypeError"

definition json_int_or :: "dict \<Rightarrow> string \<Rightarrow> int \<Rightarrow> err + int" where
  "json_int_or d k fallback = (case map_of d k of None \<Rightarrow> Inr fallback | Some v \<Rightarrow> json_int v)"

definition max_workflows :: "dict \<Rightarrow> dict \<Rightarrow> dict \<Rightarrow> err + string option" where
  "max_workflows args facts policies =
     bind_err (json_int_or policies ''company.max_workflows_per_cycle'' DEFAULT_MAX_WORKFLOWS_PER_CYCLE) (\<lambda>cap.
     bind_err (json_int_or facts ''workflows_in_cycle'' 0) (\<lambda>started.
     Inr (if started < cap then None
          else Some (int_str started @ '' workflows already started this cycle (cap '' @
                     int_str cap @ '')''))))"

text \<open>\<open>Decimal(str(policies.get(key, fallback)))\<close>, which may raise.\<close>

definition policy_limit :: "dict \<Rightarrow> string \<Rightarrow> rat \<Rightarrow> err + decimal" where
  "policy_limit policies key fallback =
     (case map_of policies key of
        None \<Rightarrow> Inr (Fin fallback)
      | Some v \<Rightarrow> (case parse_decimal (json_str v) of None \<Rightarrow> Inl InvalidOperation | Some d \<Rightarrow> Inr d))"

text \<open>The numbers in the reason are left out of the model: \<open>is above the ... limit\<close>.\<close>

definition over_limit :: "decimal \<Rightarrow> decimal \<Rightarrow> err + string option" where
  "over_limit amount bound =
     bind_err (dec_le amount bound) (\<lambda>ok. Inr (if ok then None else Some ''is above the limit''))"

definition allocation_limit :: "dict \<Rightarrow> dict \<Rightarrow> dict \<Rightarrow> err + string option" where
  "allocation_limit args facts policies =
     bind_err (policy_limit policies ''governance.ceo_budget_allocation_limit''
        DEFAULT_CEO_BUDGET_ALLOCATION_LIMIT) (\<lambda>bound.
     case decimal_of (map_of args ''amount'') of
       None \<Rightarrow> Inr (Some ''amount missing or not a number'')
     | Some amount \<Rightarrow> over_limit amount bound)"

definition under :: "dict \<Rightarrow> dict \<Rightarrow> string \<Rightarrow> rat \<Rightarrow> err + string option" where
  "under args policies key fallback =
     bind_err (policy_limit policies key fallback) (\<lambda>bound.
     case decimal_of (map_of args ''amount'') of
       None \<Rightarrow> Inr (Some ''amount missing or not a number'')
     | Some amount \<Rightarrow> over_limit (dec_abs amount) bound)"

definition exploration_limit :: "dict \<Rightarrow> dict \<Rightarrow> dict \<Rightarrow> err + string option" where
  "exploration_limit args facts policies =
     under args policies ''governance.exploration_budget_limit'' DEFAULT_EXPLORATION_BUDGET_LIMIT"

definition scale_limit :: "dict \<Rightarrow> dict \<Rightarrow> dict \<Rightarrow> err + string option" where
  "scale_limit args facts policies =
     under args policies ''governance.ceo_scale_limit'' DEFAULT_CEO_SCALE_LIMIT"

definition reversible_step :: "dict \<Rightarrow> dict \<Rightarrow> dict \<Rightarrow> err + string option" where
  "reversible_step args facts policies =
     Inr (if (case map_of args ''to_state'' of None \<Rightarrow> [] | Some v \<Rightarrow> json_str v) \<noteq> ''APPROVED'' then None
          else Some ''approving an opportunity commits the company to a business'')"

section \<open>Actions and rules\<close>

definition ACTIONS :: "(string \<times> side_effect) list" where
  "ACTIONS = [
     (''submit_command'', SE_write),
     (''create_cycle_goal'', SE_write),
     (''instantiate_workflow'', SE_write),
     (''create_project'', SE_write),
     (''allocate_budget'', SE_write),
     (''pause_project'', SE_write),
     (''kill_project'', SE_write),
     (''update_strategy'', SE_write),
     (''record_transaction'', SE_write),
     (''payment'', SE_irreversible),
     (''delete'', SE_irreversible),
     (''pause_agent'', SE_write),
     (''resume_agent'', SE_write),
     (''allocate_exploration_budget'', SE_write),
     (''score_opportunity'', SE_write),
     (''discover_opportunity'', SE_write),
     (''record_opportunity_signal'', SE_write),
     (''advance_opportunity'', SE_write),
     (''reject_opportunity'', SE_write),
     (''draft_proposal'', SE_write),
     (''submit_proposal'', SE_write),
     (''create_business_unit'', SE_irreversible),
     (''scale_business_unit'', SE_write),
     (''pause_business_unit'', SE_write),
     (''wind_down_business_unit'', SE_irreversible)]"

definition RULES :: "rule list" where
  "RULES =
     allow ''submit_command'' [''ceo'', ''strategist'', ''finance'', ''business''] None @
     allow ''create_cycle_goal'' [''ceo''] None @
     allow ''instantiate_workflow'' [''ceo'']
       (Some \<lparr>lm_check = max_workflows, lm_over = Deny, lm_description = ''max workflows per cycle''\<rparr>) @
     needs_approval ''create_project'' [''ceo''] @
     allow ''allocate_budget'' [''ceo'']
       (Some \<lparr>lm_check = allocation_limit, lm_over = Needs_approval,
              lm_description = ''CEO budget allocation limit''\<rparr>) @
     needs_approval ''allocate_budget'' [''finance''] @
     allow ''pause_project'' [''system''] None @
     needs_approval ''pause_project'' [''ceo''] @
     needs_approval ''kill_project'' [''ceo''] @
     needs_approval ''update_strategy'' [''ceo''] @
     needs_approval ''payment'' [''ceo'', ''finance''] @
     allow ''pause_agent'' [''system''] None @
     allow ''allocate_exploration_budget'' [''ceo'']
       (Some \<lparr>lm_check = exploration_limit, lm_over = Needs_approval,
              lm_description = ''exploration budget limit''\<rparr>) @
     allow ''score_opportunity'' [''ceo''] None @
     allow ''discover_opportunity'' [''business''] None @
     allow ''record_opportunity_signal'' [''business''] None @
     allow ''advance_opportunity'' [''ceo'']
       (Some \<lparr>lm_check = reversible_step, lm_over = Needs_approval,
              lm_description = ''APPROVED is the call of a person''\<rparr>) @
     allow ''reject_opportunity'' [''ceo''] None @
     allow ''draft_proposal'' [''ceo'', ''strategist''] None @
     allow ''submit_proposal'' [''ceo'', ''strategist''] None @
     needs_approval ''create_business_unit'' [''ceo''] @
     allow ''scale_business_unit'' [''ceo'']
       (Some \<lparr>lm_check = scale_limit, lm_over = Needs_approval,
              lm_description = ''CEO capital scale limit''\<rparr>) @
     allow ''pause_business_unit'' [''ceo'', ''system''] None @
     needs_approval ''wind_down_business_unit'' [''ceo'']"

fun declare_all :: "policy_engine \<Rightarrow> (string \<times> side_effect) list \<Rightarrow> err + policy_engine" where
  "declare_all e [] = Inr e"
| "declare_all e ((action, effect) # rest) =
     bind_err (policy_declare e action effect) (\<lambda>e'. declare_all e' rest)"

definition register_company_policy :: "policy_engine \<Rightarrow> err + policy_engine" where
  "register_company_policy e = bind_err (declare_all e ACTIONS) (\<lambda>e'. policy_add e' RULES)"

end
