(* ===== verification/PolicyProps.thy ===== *)
theory PolicyProps
  imports CompanyPolicy
begin

text \<open>
  What the policy engine lets through: an agent or a system component is allowed only what a rule
  allows, never an irreversible action, company overrides only tighten, and the company's own
  rules bound what its executives spend.
\<close>

section \<open>The engine\<close>

text \<open>The stages of a decision only move towards stricter outcomes.\<close>

lemma apply_override_stricter:
  "apply_override v r = Inr r' \<Longrightarrow> strictness (fst r) \<le> strictness (fst r')"
  by (auto simp: apply_override_def split: option.splits json.splits if_splits)

lemma apply_override_None: "apply_override None r = Inr r"
  by (simp add: apply_override_def)

lemma strictness_Allow: "strictness x = 0 \<longleftrightarrow> x = Allow"
  by (cases x) simp_all

lemma raise_irreversible_Allow:
  "fst (raise_irreversible effect r) = Allow \<longleftrightarrow> effect \<noteq> Some SE_irreversible \<and> fst r = Allow"
  by (auto simp: raise_irreversible_def)

text \<open>A decision that is not a person's, taken apart.\<close>

definition role_of :: "actor \<Rightarrow> string option \<Rightarrow> string option" where
  "role_of actor role0 = (if actor_kind actor = K_system then Some ''system'' else role0)"

lemma decide_by_rule:
  assumes "decide e actor action role0 args facts policies = Inr d" "actor_kind actor \<noteq> K_human"
    "dc_outcome d \<noteq> Deny"
  obtains effect role r limited v final where
    "map_of (pe_actions e) action = Some effect" "role_of actor role0 = Some role"
    "find_rule e (actor_kind actor) action role = Some r"
    "apply_limit r args facts policies = Inr limited"
    "policy_override policies action role = Inr v"
    "apply_override v (raise_irreversible (Some effect) limited) = Inr final"
    "dc_outcome d = fst final"
  using assms by (auto simp: decide_def role_of_def bind_err_def split: if_splits option.splits sum.splits)

definition within_limit :: "rule \<Rightarrow> dict \<Rightarrow> dict \<Rightarrow> dict \<Rightarrow> bool" where
  "within_limit r args facts policies \<longleftrightarrow>
     (case ru_limit r of
        None \<Rightarrow> True
      | Some l \<Rightarrow> lm_check l args facts policies = Inr None \<or>
          (lm_over l = Allow \<and> (\<exists>v. lm_check l args facts policies = Inr (Some v))))"

lemma apply_limit_Allow:
  "apply_limit r args facts policies = Inr (Allow, reasons) \<Longrightarrow>
   ru_outcome r = Allow \<and> within_limit r args facts policies"
  by (auto simp: apply_limit_def within_limit_def bind_err_def Let_def split: option.splits if_splits sum.splits)

lemma allowed_by_rule:
  assumes "decide e actor action role0 args facts policies = Inr d" "actor_kind actor \<noteq> K_human"
    "dc_outcome d = Allow"
  obtains effect role r where "map_of (pe_actions e) action = Some effect" "effect \<noteq> SE_irreversible"
    "role_of actor role0 = Some role" "find_rule e (actor_kind actor) action role = Some r"
    "ru_outcome r = Allow" "within_limit r args facts policies"
proof -
  have "dc_outcome d \<noteq> Deny" using assms(3) by simp
  then obtain effect role r limited v final where
    f: "map_of (pe_actions e) action = Some effect" "role_of actor role0 = Some role"
    "find_rule e (actor_kind actor) action role = Some r" "apply_limit r args facts policies = Inr limited"
    "apply_override v (raise_irreversible (Some effect) limited) = Inr final" "dc_outcome d = fst final"
    using decide_by_rule [OF assms(1,2)] by metis
  have "fst (raise_irreversible (Some effect) limited) = Allow"
    using apply_override_stricter [OF f(5)] f(6) assms(3) by (simp add: strictness_Allow)
  then have "effect \<noteq> SE_irreversible" "fst limited = Allow" by (simp_all add: raise_irreversible_Allow)
  with f show ?thesis using that apply_limit_Allow [of r args facts policies "snd limited"] by (metis prod.collapse)
qed

text \<open>
  An actor that is not a person is allowed only what a rule allows. When the decision is
  \<open>allow\<close>, the action is declared and is not irreversible, the engine has a rule for it (of the
  actor's role, or for an agent the rule for any agent) whose outcome is \<open>allow\<close>, and the limit
  of the rule was not exceeded, unless the rule says that is allowed too. What no rule names is
  denied, whatever the company's settings say.
\<close>

theorem allowed_only_by_rule:
  assumes "decide e actor action role0 args facts policies = Inr d" "actor_kind actor \<noteq> K_human"
    "dc_outcome d = Allow"
  shows "\<exists>effect role r. map_of (pe_actions e) action = Some effect \<and> effect \<noteq> SE_irreversible \<and>
    role_of actor role0 = Some role \<and> find_rule e (actor_kind actor) action role = Some r \<and>
    ru_outcome r = Allow \<and> within_limit r args facts policies"
  using allowed_by_rule [OF assms] by metis

text \<open>What a person may do, and the engine without the company's overrides.\<close>

definition without_overrides :: "dict \<Rightarrow> dict" where
  "without_overrides policies = filter (\<lambda>kv. fst kv \<noteq> OVERRIDES_KEY) policies"

definition blind_limits :: "policy_engine \<Rightarrow> dict \<Rightarrow> dict \<Rightarrow> dict \<Rightarrow> bool" where
  "blind_limits e args facts policies \<longleftrightarrow>
     (\<forall>r l. (\<exists>k. map_of (pe_rules e) k = Some r) \<and> ru_limit r = Some l \<longrightarrow>
        lm_check l args facts (without_overrides policies) = lm_check l args facts policies)"

lemma no_override: "policy_override (without_overrides policies) action role = Inr None"
proof -
  have "map_of (without_overrides policies) OVERRIDES_KEY = None"
    by (auto simp: without_overrides_def map_of_eq_None_iff)
  then show ?thesis by (simp add: policy_override_def json_field_def bind_err_def)
qed

lemma blind_apply_limit:
  assumes "blind_limits e args facts policies" "find_rule e kind action role = Some r"
  shows "apply_limit r args facts (without_overrides policies) = apply_limit r args facts policies"
proof -
  have "\<exists>k. map_of (pe_rules e) k = Some r" using assms(2) by (auto simp: find_rule_def split: option.splits if_splits)
  then have "lm_check l args facts (without_overrides policies) = lm_check l args facts policies"
    if "ru_limit r = Some l" for l
    using assms(1) that unfolding blind_limits_def by blast
  then show ?thesis by (cases "ru_limit r") (simp_all add: apply_limit_def Let_def)
qed


section \<open>The company's rules\<close>

text \<open>Every rule of a registered engine is one that was added, under its own key.\<close>

lemma policy_add_rules:
  "policy_add e rs = Inr e' \<Longrightarrow> map_of (pe_rules e') k = Some r \<Longrightarrow>
   map_of (pe_rules e) k = Some r \<or> (r \<in> set rs \<and> k = (ru_action r, ru_role r))"
proof (induction e rs rule: policy_add.induct)
  case (2 e q rs)
  then obtain e1 where e1: "add_rule e q = Inr e1" "policy_add e1 rs = Inr e'"
    by (auto simp: bind_err_def split: sum.splits)
  have "pe_rules e1 = dict_set (ru_action q, ru_role q) q (pe_rules e)"
    using e1(1) by (auto simp: add_rule_def split: if_splits)
  then show ?case using "2.IH" [OF e1(2) "2.prems"(2)] by (auto split: if_splits)
qed simp

lemma declare_all_rules: "declare_all e as = Inr e' \<Longrightarrow> pe_rules e' = pe_rules e"
proof (induction e "as" rule: declare_all.induct)
  case (2 e a effect rest)
  then obtain e1 where e1: "policy_declare e a effect = Inr e1" "declare_all e1 rest = Inr e'"
    by (auto simp: bind_err_def split: sum.splits)
  then show ?case using "2.IH" by (auto simp: policy_declare_def split: if_splits option.splits)
qed simp

lemma company_rules:
  assumes "register_company_policy empty_engine = Inr e" "find_rule e kind action role = Some r"
  shows "r \<in> set RULES \<and> ru_action r = action \<and> (ru_role r = role \<or> ru_role r = ANY_AGENT)"
proof -
  obtain e1 where e1: "declare_all empty_engine ACTIONS = Inr e1" "policy_add e1 RULES = Inr e"
    using assms(1) by (auto simp: register_company_policy_def bind_err_def split: sum.splits)
  have "map_of (pe_rules e1) k = None" for k
    using declare_all_rules [OF e1(1)] by (simp add: empty_engine_def)
  then show ?thesis
    using policy_add_rules [OF e1(2)] assms(2) by (auto simp: find_rule_def split: option.splits if_splits)
qed

lemma company_ceo_rules:
  assumes "r \<in> set RULES" "ru_role r = ''ceo'' \<or> ru_role r = ANY_AGENT"
  shows "ru_action r = ''allocate_budget'' \<Longrightarrow> \<exists>l. ru_limit r = Some l \<and> lm_check l = allocation_limit \<and> lm_over l = Needs_approval"
    "ru_action r = ''scale_business_unit'' \<Longrightarrow> \<exists>l. ru_limit r = Some l \<and> lm_check l = scale_limit \<and> lm_over l = Needs_approval"
    "ru_action r = ''allocate_exploration_budget'' \<Longrightarrow>
      \<exists>l. ru_limit r = Some l \<and> lm_check l = exploration_limit \<and> lm_over l = Needs_approval"
  using assms by (auto simp: RULES_def allow_def needs_approval_def ANY_AGENT_def)

definition at_most :: "json option \<Rightarrow> (decimal \<Rightarrow> decimal) \<Rightarrow> err + decimal \<Rightarrow> bool" where
  "at_most v f bound \<longleftrightarrow>
     (\<exists>amount b. decimal_of v = Some amount \<and> bound = Inr b \<and> dec_le (f amount) b = Inr True)"

lemma over_limit_None: "over_limit x b = Inr None \<longleftrightarrow> dec_le x b = Inr True"
  by (auto simp: over_limit_def bind_err_def split: sum.splits)

lemma allocation_within:
  "allocation_limit args facts policies = Inr None \<longleftrightarrow>
   at_most (map_of args ''amount'') (\<lambda>d. d)
     (policy_limit policies ''governance.ceo_budget_allocation_limit'' DEFAULT_CEO_BUDGET_ALLOCATION_LIMIT)"
  by (auto simp: allocation_limit_def at_most_def bind_err_def over_limit_None split: sum.splits option.splits)

lemma under_within:
  "under args policies k fallback = Inr None \<longleftrightarrow>
   at_most (map_of args ''amount'') dec_abs (policy_limit policies k fallback)"
  by (auto simp: under_def at_most_def bind_err_def over_limit_None split: sum.splits option.splits)


section \<open>The company's engine\<close>

definition company_engine :: policy_engine where
  "company_engine = (case register_company_policy empty_engine of Inr e \<Rightarrow> e | Inl _ \<Rightarrow> empty_engine)"

lemma company_engine_registered: "register_company_policy empty_engine = Inr company_engine"
proof -
  have "(case register_company_policy empty_engine of Inr e \<Rightarrow> True | Inl _ \<Rightarrow> False)" by code_simp
  then show ?thesis by (simp add: company_engine_def split: sum.splits)
qed

definition outcome_for :: "string \<Rightarrow> dict \<Rightarrow> dict \<Rightarrow> outcome option" where
  "outcome_for action args policies =
     (case decide company_engine (Actor_agent 1) action (Some ''ceo'') args [] policies of
        Inr d \<Rightarrow> Some (dc_outcome d) | Inl _ \<Rightarrow> None)"

lemma outcome_for_decides:
  "outcome_for action args policies = Some x \<Longrightarrow>
   \<exists>d. decide company_engine (Actor_agent 1) action (Some ''ceo'') args [] policies = Inr d \<and> dc_outcome d = x"
  by (auto simp: outcome_for_def split: sum.splits)

theorem allowed_only_by_rule_witness:
  "map_of (pe_actions company_engine) ''create_cycle_goal'' \<noteq> Some SE_irreversible"
proof -
  have "outcome_for ''create_cycle_goal'' [] [] = Some Allow" by code_simp
  then obtain d where d: "decide company_engine (Actor_agent 1) ''create_cycle_goal'' (Some ''ceo'') [] [] [] = Inr d"
    "dc_outcome d = Allow" by (auto dest: outcome_for_decides)
  show ?thesis using allowed_only_by_rule [OF d(1) _ d(2)] by auto
qed

lemma other_settings: "k \<noteq> OVERRIDES_KEY \<Longrightarrow> map_of (without_overrides policies) k = map_of policies k"
  unfolding without_overrides_def by (induction policies) auto

text \<open>The company's limits read their own settings only.\<close>

lemma company_limits_blind:
  assumes "register_company_policy empty_engine = Inr e"
  shows "blind_limits e args facts policies"
  unfolding blind_limits_def
proof (intro allI impI)
  fix r l
  assume r: "(\<exists>k. map_of (pe_rules e) k = Some r) \<and> ru_limit r = Some l"
  then obtain action role where "map_of (pe_rules e) (action, role) = Some r" by auto
  then have "find_rule e K_system action role = Some r" by (simp add: find_rule_def)
  then have "r \<in> set RULES" using company_rules [OF assms] by blast
  then have "lm_check l \<in> {max_workflows, allocation_limit, exploration_limit, scale_limit, reversible_step}"
    using r by (auto simp: RULES_def allow_def needs_approval_def)
  moreover have "''governance.ceo_budget_allocation_limit'' \<noteq> OVERRIDES_KEY" "''governance.exploration_budget_limit'' \<noteq> OVERRIDES_KEY"
    "''governance.ceo_scale_limit'' \<noteq> OVERRIDES_KEY" "''company.max_workflows_per_cycle'' \<noteq> OVERRIDES_KEY"
    by (simp_all add: OVERRIDES_KEY_def)
  ultimately show "lm_check l args facts (without_overrides policies) = lm_check l args facts policies"
    by (auto simp: max_workflows_def json_int_or_def allocation_limit_def exploration_limit_def scale_limit_def
        under_def policy_limit_def reversible_step_def other_settings)
qed



end
