(* ===== verification/Messages.thy ===== *)
theory Messages
  imports Pystr Money
begin

text \<open>
  The provider-neutral types of a model call (\<open>runtime/models/types.py\<close>): content blocks and
  messages with the JSON they are dumped to and loaded from, the context a call is made in, the
  request, and the reply of a provider.
\<close>

section \<open>Content\<close>

datatype content_block =
    Text_block string
  | Tool_use string string dict
      \<comment> \<open>id, name, input\<close>
  | Tool_result string string bool
      \<comment> \<open>id of the use, content, is it an error\<close>
  | Opaque_block string dict
      \<comment> \<open>provider, data\<close>

datatype message_role = User | Assistant

record message =
  mg_role :: message_role
  mg_content :: "content_block list"

definition user_message :: "string \<Rightarrow> message" where
  "user_message text = \<lparr>mg_role = User, mg_content = [Text_block text]\<rparr>"

text \<open>\<open>model_dump(mode="json")\<close>: the fields in the order of the class.\<close>

fun dump_block :: "content_block \<Rightarrow> json" where
  "dump_block (Text_block t) = JObj [(''type'', JStr ''text''), (''text'', JStr t)]"
| "dump_block (Tool_use i n d) =
     JObj [(''type'', JStr ''tool_use''), (''id'', JStr i), (''name'', JStr n), (''input'', JObj d)]"
| "dump_block (Tool_result i c e) =
     JObj [(''type'', JStr ''tool_result''), (''tool_use_id'', JStr i), (''content'', JStr c), (''is_error'', JBool e)]"
| "dump_block (Opaque_block p d) =
     JObj [(''type'', JStr ''opaque''), (''provider'', JStr p), (''data'', JObj d)]"

primrec dump_role :: "message_role \<Rightarrow> json" where
  "dump_role User = JStr ''user''"
| "dump_role Assistant = JStr ''assistant''"

definition dump_message :: "message \<Rightarrow> json" where
  "dump_message m = JObj [(''role'', dump_role (mg_role m)), (''content'', JArr (map dump_block (mg_content m)))]"

text \<open>
  \<open>model_validate\<close> of a dumped value: the \<open>type\<close> of a block chooses its class. None is a
  validation error.
\<close>

fun json_text :: "json option \<Rightarrow> string option" where
  "json_text (Some (JStr t)) = Some t"
| "json_text _ = None"

fun json_object :: "json option \<Rightarrow> dict option" where
  "json_object (Some (JObj d)) = Some d"
| "json_object _ = None"

fun json_flag :: "json option \<Rightarrow> bool option" where
  "json_flag None = Some False"
| "json_flag (Some (JBool b)) = Some b"
| "json_flag _ = None"

definition load_fields :: "dict \<Rightarrow> content_block option" where
  "load_fields d =
     (case json_text (map_of d ''type'') of
        None \<Rightarrow> None
      | Some kind \<Rightarrow>
          if kind = ''text'' then map_option Text_block (json_text (map_of d ''text''))
          else if kind = ''tool_use'' then
            (case (json_text (map_of d ''id''), json_text (map_of d ''name''), json_object (map_of d ''input'')) of
               (Some i, Some n, Some args) \<Rightarrow> Some (Tool_use i n args)
             | _ \<Rightarrow> None)
          else if kind = ''tool_result'' then
            (case (json_text (map_of d ''tool_use_id''), json_text (map_of d ''content''), json_flag (map_of d ''is_error'')) of
               (Some i, Some c, Some e) \<Rightarrow> Some (Tool_result i c e)
             | _ \<Rightarrow> None)
          else if kind = ''opaque'' then
            (case (json_text (map_of d ''provider''), json_object (map_of d ''data'')) of
               (Some p, Some content) \<Rightarrow> Some (Opaque_block p content)
             | _ \<Rightarrow> None)
          else None)"

fun load_block :: "json \<Rightarrow> content_block option" where
  "load_block (JObj d) = load_fields d"
| "load_block _ = None"

fun all_some :: "'a option list \<Rightarrow> 'a list option" where
  "all_some [] = Some []"
| "all_some (None # xs) = None"
| "all_some (Some x # xs) = map_option (Cons x) (all_some xs)"

definition load_role :: "json option \<Rightarrow> message_role option" where
  "load_role v =
     (case json_text v of
        None \<Rightarrow> None
      | Some t \<Rightarrow> if t = ''user'' then Some User else if t = ''assistant'' then Some Assistant else None)"

fun load_message :: "json \<Rightarrow> message option" where
  "load_message (JObj d) =
     (case (load_role (map_of d ''role''), map_of d ''content'') of
        (Some r, Some (JArr xs)) \<Rightarrow>
          map_option (\<lambda>blocks. \<lparr>mg_role = r, mg_content = blocks\<rparr>) (all_some (map load_block xs))
      | _ \<Rightarrow> None)"
| "load_message _ = None"

section \<open>Requests\<close>

record tool_definition =
  td_name :: string
  td_description :: string
  td_input_schema :: json

definition dump_tool :: "tool_definition \<Rightarrow> json" where
  "dump_tool t = JObj [(''name'', JStr (td_name t)), (''description'', JStr (td_description t)),
     (''input_schema'', td_input_schema t)]"

record call_context =
  cc_company_id :: uuid
  cc_role :: string
  cc_project_id :: "uuid option"
  cc_agent_id :: "uuid option"
  cc_run_id :: "uuid option"
  cc_task_id :: "uuid option"
  cc_workflow_run_id :: "uuid option"
  cc_cycle_id :: "uuid option"
  cc_task_name :: "string option"
  cc_attempt :: nat
  cc_step_seq :: nat

text \<open>
  \<open>output_model\<close>: a pydantic class, given by its validation of a JSON value, which answers the
  place and text of every error or the JSON dump of the instance.
\<close>

type_synonym output_model = "json \<Rightarrow> (string list \<times> string) list + dict"

record model_request =
  rq_capability :: string
  rq_context :: call_context
  rq_messages :: "message list"
  rq_system :: "string option"
  rq_tools :: "tool_definition list"
  rq_output_model :: "output_model option"
  rq_max_output_tokens :: nat

text \<open>
  The characters the guard counts: the system prompt, the messages as pydantic dumps them
  (compact, not restricted to ASCII) and the tools as \<open>json.dumps\<close> writes them.
\<close>

definition request_chars :: "model_request \<Rightarrow> nat" where
  "request_chars rq =
     length (case rq_system rq of None \<Rightarrow> [] | Some t \<Rightarrow> t) +
     sum_list (map (\<lambda>m. length (dumps_with False '','' '':'' (dump_message m))) (rq_messages rq)) +
     sum_list (map (\<lambda>t. length (dumps True (dump_tool t))) (rq_tools rq))"

section \<open>Replies\<close>

datatype stop_reason = End_turn | Stop_tool_use | Max_tokens | Refusal | Stop_other

primrec stop_reason_value :: "stop_reason \<Rightarrow> string" where
  "stop_reason_value End_turn = ''end_turn''"
| "stop_reason_value Stop_tool_use = ''tool_use''"
| "stop_reason_value Max_tokens = ''max_tokens''"
| "stop_reason_value Refusal = ''refusal''"
| "stop_reason_value Stop_other = ''other''"

record provider_response =
  ps_content :: "content_block list"
  ps_stop_reason :: stop_reason
  ps_usage :: usage
  ps_model_id :: string

record model_response =
  mr_model_call_id :: uuid
  mr_content :: "content_block list"
  mr_stop_reason :: stop_reason
  mr_usage :: usage
  mr_provider :: string
  mr_alias :: string
  mr_model_id :: string
  mr_cost_usd :: money
  mr_latency_ms :: int
  mr_parsed :: "dict option"
  mr_output_issues :: "string list"

fun block_text :: "content_block \<Rightarrow> string" where
  "block_text (Text_block t) = t"
| "block_text _ = []"

definition content_text :: "content_block list \<Rightarrow> string" where
  "content_text blocks = concat (map block_text blocks)"

definition response_text :: "model_response \<Rightarrow> string" where
  "response_text r = content_text (mr_content r)"

fun is_tool_use :: "content_block \<Rightarrow> bool" where
  "is_tool_use (Tool_use _ _ _) = True"
| "is_tool_use _ = False"

fun is_tool_result :: "content_block \<Rightarrow> bool" where
  "is_tool_result (Tool_result _ _ _) = True"
| "is_tool_result _ = False"

definition response_tool_uses :: "model_response \<Rightarrow> content_block list" where
  "response_tool_uses r = filter is_tool_use (mr_content r)"

section \<open>Parsing a reply\<close>

text \<open>
  \<open>_parse\<close> of the gateway. The pattern of a fenced block: three backticks, perhaps \<open>json\<close>,
  white space, the content, white space, three backticks, on a text already stripped.
\<close>

definition FENCE :: string where
  "FENCE = replicate 3 (char_of (96 :: nat))"

definition unfence :: "string \<Rightarrow> string" where
  "unfence t =
     (if 6 \<le> length t \<and> take 3 t = FENCE \<and> drop (length t - 3) t = FENCE then
        (let body = take (length t - 6) (drop 3 t)
         in strip (if take 4 body = ''json'' then drop 4 body else body))
      else t)"

definition issue_text :: "string \<Rightarrow> string list \<times> string \<Rightarrow> string" where
  "issue_text whole e = (case join ''.'' (fst e) of [] \<Rightarrow> whole | c # cs \<Rightarrow> c # cs) @ '': '' @ snd e"

text \<open>\<open>json.loads\<close> is given as a function: the value, or the text of its error.\<close>

definition parse_reply ::
    "(string \<Rightarrow> string + json) \<Rightarrow> output_model \<Rightarrow> content_block list \<Rightarrow> dict option \<times> string list" where
  "parse_reply loads om content =
     (let text = strip (content_text content) in
      if text = [] then (None, [''expected a JSON object in the reply, got no text''])
      else case loads (unfence text) of
             Inl message \<Rightarrow> (None, [''reply is not valid JSON: '' @ message])
           | Inr v \<Rightarrow>
               (case om v of
                  Inr d \<Rightarrow> (Some d, [])
                | Inl errors \<Rightarrow> (None, map (issue_text ''(root)'') errors)))"

end
