(* ===== verification/CostGuard.thy ===== *)
theory CostGuard
  imports Outbox Messages
begin

text \<open>
  The cost guard (\<open>runtime/cost/guard.py\<close>): the limits that apply to a call, what has been
  spent against each, and the reservation made before the provider is called.
\<close>

record model_call =
  mc_id :: uuid
  mc_company_id :: uuid
  mc_project_id :: "uuid option"
  mc_agent_id :: "uuid option"
  mc_task_id :: "uuid option"
  mc_run_id :: "uuid option"
  mc_workflow_run_id :: "uuid option"
  mc_cycle_id :: "uuid option"
  mc_role :: string
  mc_capability :: string
  mc_alias :: string
  mc_provider :: string
  mc_model_id :: string
  mc_ok :: bool
  mc_stop_reason :: "stop_reason option"
  mc_usage :: usage
  mc_cost_usd :: money
  mc_latency_ms :: int
  mc_error :: "(string \<times> string) option"
  mc_created_at :: instant

record cost_reservation =
  cr_id :: uuid
  cr_company_id :: uuid
  cr_project_id :: "uuid option"
  cr_task_id :: "uuid option"
  cr_run_id :: "uuid option"
  cr_amount :: money
  cr_settled_at :: "instant option"
  cr_released_at :: "instant option"
  cr_model_call_id :: "uuid option"
  cr_actual_cost :: "money option"
  cr_created_at :: instant

record budget =
  bg_id :: uuid
  bg_company_id :: uuid
  bg_project_id :: "uuid option"
  bg_business_unit_id :: "uuid option"
  bg_period :: string
  bg_amount :: money
  bg_currency :: string
  bg_hard_cap :: bool

datatype cycle_stage = C_PLANNING | C_EXECUTING | C_MEASURING | C_REVIEWING | C_DONE

primrec cycle_stage_value :: "cycle_stage \<Rightarrow> string" where
  "cycle_stage_value C_PLANNING = ''PLANNING''"
| "cycle_stage_value C_EXECUTING = ''EXECUTING''"
| "cycle_stage_value C_MEASURING = ''MEASURING''"
| "cycle_stage_value C_REVIEWING = ''REVIEWING''"
| "cycle_stage_value C_DONE = ''DONE''"

record cycle =
  cy_id :: uuid
  cy_company_id :: uuid
  cy_seq :: nat
  cy_stage :: cycle_stage
  cy_plan :: "dict option"
  cy_review :: "dict option"
  cy_governance :: "dict option"
  cy_started_at :: instant
  cy_stage_deadline :: "instant option"
  cy_ended_at :: "instant option"

record cost_db =
  cs_db :: db
  cs_calls :: "model_call list"
  cs_reservations :: "cost_reservation list"
  cs_budgets :: "budget list"
  cs_cycles :: "cycle list"

type_synonym 'a cost_tx = "(cost_db, err, 'a) tx"

record guard =
  gd_reservation_ttl :: duration
  gd_fx :: fx
  gd_daily_cap :: "money option"

record spend_limit =
  sl_scope :: string
  sl_amount :: money
  sl_window_start :: "instant option"
  sl_project_id :: "uuid option"
  sl_task_id :: "uuid option"
  sl_run_id :: "uuid option"

section \<open>Estimates and windows\<close>

definition estimate_cost :: "model_request \<Rightarrow> binding \<Rightarrow> nat \<Rightarrow> money" where
  "estimate_cost rq b chars_per_token =
     price_cost (bd_price b)
       \<lparr>us_input = (request_chars rq + chars_per_token - 1) div chars_per_token,
        us_output = rq_max_output_tokens rq, us_cache_read = 0, us_cache_write = 0\<rparr>"

definition window_start :: "string \<Rightarrow> instant \<Rightarrow> instant option \<Rightarrow> err + instant" where
  "window_start period now cycle_started_at =
     (if period = ''cycle'' then
        Inr (case cycle_started_at of None \<Rightarrow> day_start now | Some ts \<Rightarrow> ts)
      else if period = ''day'' then Inr (day_start now)
      else if period = ''month'' then Inr (month_start now)
      else Inl (ValueError period))"

definition open_cycle_start :: "cost_db \<Rightarrow> uuid \<Rightarrow> instant option" where
  "open_cycle_start s company_id =
     map_option cy_started_at (first_some (sort_key (\<lambda>c. - int (cy_seq c))
       (filter (\<lambda>c. cy_company_id c = company_id \<and> cy_stage c \<noteq> C_DONE) (cs_cycles s))))"

section \<open>Limits\<close>

definition run_limit :: "cost_db \<Rightarrow> call_context \<Rightarrow> spend_limit list" where
  "run_limit s ctx =
     (case (cc_agent_id ctx, cc_run_id ctx) of
        (Some a, Some r) \<Rightarrow>
          (case agent_of (cs_db s) a of
             None \<Rightarrow> []
           | Some ag \<Rightarrow> (case a_per_run_usd ag of
               None \<Rightarrow> []
             | Some cap \<Rightarrow> [\<lparr>sl_scope = ''run'', sl_amount = cap, sl_window_start = None,
                 sl_project_id = None, sl_task_id = None, sl_run_id = Some r\<rparr>]))
      | _ \<Rightarrow> [])"

definition task_limit :: "cost_db \<Rightarrow> call_context \<Rightarrow> spend_limit list" where
  "task_limit s ctx =
     (case cc_task_id ctx of
        None \<Rightarrow> []
      | Some i \<Rightarrow>
          (case task_of (cs_db s) i of
             None \<Rightarrow> []
           | Some t \<Rightarrow> (case t_budget_usd t of
               None \<Rightarrow> []
             | Some cap \<Rightarrow> [\<lparr>sl_scope = ''task'', sl_amount = cap, sl_window_start = None,
                 sl_project_id = None, sl_task_id = Some i, sl_run_id = None\<rparr>])))"

definition budget_limit ::
    "guard \<Rightarrow> string \<Rightarrow> uuid option \<Rightarrow> instant \<Rightarrow> instant option \<Rightarrow> budget \<Rightarrow> err + spend_limit" where
  "budget_limit g scope project_id now cycle_start b =
     bind_err (convert (gd_fx g) (bg_amount b) (bg_currency b) METER_CURRENCY) (\<lambda>amount.
     bind_err (window_start (bg_period b) now cycle_start) (\<lambda>w.
     Inr \<lparr>sl_scope = scope, sl_amount = amount, sl_window_start = Some w,
          sl_project_id = project_id, sl_task_id = None, sl_run_id = None\<rparr>))"

definition project_budgets :: "cost_db \<Rightarrow> call_context \<Rightarrow> budget list" where
  "project_budgets s ctx =
     (case cc_project_id ctx of
        None \<Rightarrow> []
      | Some p \<Rightarrow> filter (\<lambda>b. bg_company_id b = cc_company_id ctx \<and> bg_hard_cap b \<and>
          bg_project_id b = Some p) (cs_budgets s))"

definition company_budgets :: "cost_db \<Rightarrow> call_context \<Rightarrow> budget list" where
  "company_budgets s ctx =
     filter (\<lambda>b. bg_company_id b = cc_company_id ctx \<and> bg_hard_cap b \<and>
       bg_project_id b = None \<and> bg_business_unit_id b = None) (cs_budgets s)"

definition limits :: "guard \<Rightarrow> cost_db \<Rightarrow> model_request \<Rightarrow> instant \<Rightarrow> err + spend_limit list" where
  "limits g s rq now =
     (let ctx = rq_context rq; cycle_start = open_cycle_start s (cc_company_id ctx) in
      bind_err (map_err (project_budgets s ctx)
        (budget_limit g ''project'' (cc_project_id ctx) now cycle_start)) (\<lambda>ps.
      bind_err (map_err (company_budgets s ctx)
        (budget_limit g ''company'' None now cycle_start)) (\<lambda>cs.
      Inr (run_limit s ctx @ task_limit s ctx @ ps @ cs))))"

definition daily_limit :: "guard \<Rightarrow> instant \<Rightarrow> spend_limit list" where
  "daily_limit g now =
     (case gd_daily_cap g of
        None \<Rightarrow> []
      | Some cap \<Rightarrow> if cap = 0 then [] else
          [\<lparr>sl_scope = ''daily'', sl_amount = cap, sl_window_start = Some (day_start now),
            sl_project_id = None, sl_task_id = None, sl_run_id = None\<rparr>])"

section \<open>Spend\<close>

text \<open>The conditions of \<open>scoped\<close>, over the columns both tables share.\<close>

definition in_scope ::
    "uuid \<Rightarrow> spend_limit \<Rightarrow> uuid \<Rightarrow> uuid option \<Rightarrow> uuid option \<Rightarrow> uuid option \<Rightarrow> instant \<Rightarrow> bool" where
  "in_scope company_id l row_company row_run row_task row_project created \<longleftrightarrow>
     (sl_scope l = ''daily'' \<or> row_company = company_id) \<and>
     (sl_run_id l \<noteq> None \<longrightarrow> row_run = sl_run_id l) \<and>
     (sl_task_id l \<noteq> None \<longrightarrow> row_task = sl_task_id l) \<and>
     (sl_project_id l \<noteq> None \<longrightarrow> row_project = sl_project_id l) \<and>
     (case sl_window_start l of None \<Rightarrow> True | Some w \<Rightarrow> created \<ge> w)"

definition call_counts :: "uuid \<Rightarrow> spend_limit \<Rightarrow> model_call \<Rightarrow> bool" where
  "call_counts company_id l c \<longleftrightarrow>
     in_scope company_id l (mc_company_id c) (mc_run_id c) (mc_task_id c) (mc_project_id c)
       (mc_created_at c) \<and> mc_ok c"

definition in_flight :: "guard \<Rightarrow> uuid \<Rightarrow> spend_limit \<Rightarrow> instant \<Rightarrow> cost_reservation \<Rightarrow> bool" where
  "in_flight g company_id l now r \<longleftrightarrow>
     in_scope company_id l (cr_company_id r) (cr_run_id r) (cr_task_id r) (cr_project_id r)
       (cr_created_at r) \<and>
     cr_settled_at r = None \<and> cr_released_at r = None \<and>
     cr_created_at r \<ge> now - gd_reservation_ttl g"

definition spent :: "guard \<Rightarrow> cost_db \<Rightarrow> uuid \<Rightarrow> spend_limit \<Rightarrow> instant \<Rightarrow> money" where
  "spent g s company_id l now =
     sum_list (map mc_cost_usd (filter (call_counts company_id l) (cs_calls s))) +
     sum_list (map cr_amount (filter (in_flight g company_id l now) (cs_reservations s)))"

section \<open>Reserving\<close>

definition exhausted_aggregate :: "string \<Rightarrow> call_context \<Rightarrow> err + (string \<times> uuid)" where
  "exhausted_aggregate scope ctx =
     (if scope = ''run'' then
        Inr (''agent_run'', case cc_run_id ctx of None \<Rightarrow> cc_company_id ctx | Some i \<Rightarrow> i)
      else if scope = ''task'' then
        Inr (''task'', case cc_task_id ctx of None \<Rightarrow> cc_company_id ctx | Some i \<Rightarrow> i)
      else if scope = ''project'' then
        Inr (''project'', case cc_project_id ctx of None \<Rightarrow> cc_company_id ctx | Some i \<Rightarrow> i)
      else if scope = ''company'' \<or> scope = ''daily'' then Inr (''company'', cc_company_id ctx)
      else Inl (KeyError scope))"

definition record_exhausted ::
    "model_request \<Rightarrow> spend_limit \<Rightarrow> money \<Rightarrow> money \<Rightarrow> unit db_tx" where
  "record_exhausted rq l spent_so_far requested =
     (let ctx = rq_context rq in
      bindT (liftT (exhausted_aggregate (sl_scope l) ctx)) (\<lambda>agg.
      bindT (new_event (GovernanceP (BudgetExhausted (sl_scope l) (cc_project_id ctx) (cc_task_id ctx)
           (sl_amount l) spent_so_far requested METER_CURRENCY)) (cc_company_id ctx)
         (Actor_system ''cost_guard'') (fst agg) (snd agg)
         (no_refs\<lparr>ref_agent_id := cc_agent_id ctx, ref_task_id := cc_task_id ctx,
            ref_run_id := cc_run_id ctx\<rparr>) None) (\<lambda>envelope.
      bindT (emit envelope) (\<lambda>_. returnT ()))))"

definition in_db :: "'a db_tx \<Rightarrow> 'a cost_tx" where
  "in_db = zoomT cs_db (\<lambda>d s. s\<lparr>cs_db := d\<rparr>)"

definition over_limit_of ::
    "guard \<Rightarrow> cost_db \<Rightarrow> uuid \<Rightarrow> instant \<Rightarrow> money \<Rightarrow> spend_limit list \<Rightarrow> spend_limit option" where
  "over_limit_of g s company_id now amount ls =
     find (\<lambda>l. spent g s company_id l now + amount > sl_amount l) ls"

text \<open>
  \<open>reserve\<close>. A refusal commits its event, so it is a result: the limit that refused. A call
  that costs nothing needs no reservation.
\<close>

datatype reserve_result = Refused spend_limit money | No_reservation | Reserved uuid money

definition reserve :: "guard \<Rightarrow> model_request \<Rightarrow> binding \<Rightarrow> reserve_result cost_tx" where
  "reserve g rq b =
     (let ctx = rq_context rq; amount = estimate_cost rq b 4 in
      bindT (getsT (\<lambda>s. clock (cs_db s))) (\<lambda>now.
      bindT (getsT (\<lambda>s. limits g s rq now)) (\<lambda>found.
      bindT (liftT found) (\<lambda>ls.
      bindT (getsT (\<lambda>s. over_limit_of g s (cc_company_id ctx) now amount (ls @ daily_limit g now))) (\<lambda>over.
      case over of
        Some l \<Rightarrow>
          bindT (getsT (\<lambda>s. spent g s (cc_company_id ctx) l now)) (\<lambda>sp.
          bindT (in_db (record_exhausted rq l sp amount)) (\<lambda>_.
          returnT (Refused l sp)))
      | None \<Rightarrow>
          if amount = 0 then returnT No_reservation
          else
            bindT (in_db uuid7) (\<lambda>i.
            bindT (modifyT (\<lambda>s. s\<lparr>cs_reservations := cs_reservations s @
              [\<lparr>cr_id = i, cr_company_id = cc_company_id ctx, cr_project_id = cc_project_id ctx,
                cr_task_id = cc_task_id ctx, cr_run_id = cc_run_id ctx, cr_amount = amount,
                cr_settled_at = None, cr_released_at = None, cr_model_call_id = None,
                cr_actual_cost = None, cr_created_at = now\<rparr>]\<rparr>)) (\<lambda>_.
            returnT (Reserved i amount))))))))"

definition settle :: "(uuid \<times> money) option \<Rightarrow> money \<Rightarrow> uuid \<Rightarrow> unit cost_tx" where
  "settle reservation cost call_id =
     (case reservation of
        None \<Rightarrow> returnT ()
      | Some (i, _) \<Rightarrow>
          bindT (getsT (\<lambda>s. clock (cs_db s))) (\<lambda>now.
          modifyT (\<lambda>s. s\<lparr>cs_reservations := update_row cr_id i (\<lambda>r. r\<lparr>cr_settled_at := Some now,
             cr_model_call_id := Some call_id, cr_actual_cost := Some cost\<rparr>) (cs_reservations s)\<rparr>)))"

definition release :: "(uuid \<times> money) option \<Rightarrow> unit cost_tx" where
  "release reservation =
     (case reservation of
        None \<Rightarrow> returnT ()
      | Some (i, _) \<Rightarrow>
          bindT (getsT (\<lambda>s. clock (cs_db s))) (\<lambda>now.
          modifyT (\<lambda>s. s\<lparr>cs_reservations := update_row cr_id i (\<lambda>r. r\<lparr>cr_released_at := Some now\<rparr>)
             (cs_reservations s)\<rparr>)))"

section \<open>The gateway\<close>

text \<open>
  \<open>ModelGateway.complete\<close> (\<open>runtime/models/gateway.py\<close>). A provider is a parameter: what it
  replies to a request, or its error (class and message) with whether the fallback chain may go on
  after it, and in both cases how long the call takes.
\<close>

record provider_error =
  pe_class :: string
  pe_message :: string
  pe_fallback_allowed :: bool

datatype provider_result = Reply provider_response | Provider_error provider_error

record model_providers =
  mp_installed :: "string \<Rightarrow> bool"
  mp_complete :: "string \<Rightarrow> binding \<Rightarrow> model_request \<Rightarrow> provider_result \<times> duration"
  mp_loads :: "string \<Rightarrow> string + json"

text \<open>
  Every step of the chain commits on its own, so an error of a later step leaves the records of
  the earlier ones: an error is a result too.
\<close>

datatype complete_result =
    Completed model_response
  | Call_failed "(string \<times> provider_error) list"
  | Budget_refused spend_limit money money
      \<comment> \<open>the limit, what was spent, what the call needs\<close>
  | Raised err

definition no_usage :: usage where
  "no_usage = \<lparr>us_input = 0, us_output = 0, us_cache_read = 0, us_cache_write = 0\<rparr>"

text \<open>\<open>_record\<close>: the outcome is a response with its cost, or an error.\<close>

definition record_call ::
    "model_request \<Rightarrow> string \<Rightarrow> binding \<Rightarrow> duration \<Rightarrow> provider_error + (provider_response \<times> money) \<Rightarrow> uuid cost_tx" where
  "record_call rq name b took outcome =
     (let ctx = rq_context rq in
      bindT (in_db uuid7) (\<lambda>i.
      bindT (getsT (\<lambda>s. clock (cs_db s))) (\<lambda>now.
      bindT (modifyT (\<lambda>s. s\<lparr>cs_calls := cs_calls s @
        [\<lparr>mc_id = i, mc_company_id = cc_company_id ctx, mc_project_id = cc_project_id ctx,
          mc_agent_id = cc_agent_id ctx, mc_task_id = cc_task_id ctx, mc_run_id = cc_run_id ctx,
          mc_workflow_run_id = cc_workflow_run_id ctx, mc_cycle_id = cc_cycle_id ctx,
          mc_role = cc_role ctx, mc_capability = rq_capability rq, mc_alias = name,
          mc_provider = bd_provider b,
          mc_model_id = (case outcome of Inr (raw, _) \<Rightarrow>
             (if ps_model_id raw = [] then bd_model_id b else ps_model_id raw) | Inl _ \<Rightarrow> bd_model_id b),
          mc_ok = (case outcome of Inl _ \<Rightarrow> False | Inr _ \<Rightarrow> True),
          mc_stop_reason = (case outcome of Inl _ \<Rightarrow> None | Inr (raw, _) \<Rightarrow> Some (ps_stop_reason raw)),
          mc_usage = (case outcome of Inl _ \<Rightarrow> no_usage | Inr (raw, _) \<Rightarrow> ps_usage raw),
          mc_cost_usd = (case outcome of Inl _ \<Rightarrow> 0 | Inr (_, cost) \<Rightarrow> cost),
          mc_latency_ms = ms_between 0 took,
          mc_error = (case outcome of Inl e \<Rightarrow> Some (pe_class e, take 2000 (pe_message e)) | Inr _ \<Rightarrow> None),
          mc_created_at = now\<rparr>]\<rparr>)) (\<lambda>_.
      returnT i))))"

text \<open>The time a provider takes passes before its outcome is recorded.\<close>

definition pass_time :: "duration \<Rightarrow> unit db_tx" where
  "pass_time took = modifyT (\<lambda>s. s\<lparr>clock := clock s + max 0 took\<rparr>)"

fun reservation_of :: "reserve_result \<Rightarrow> (uuid \<times> money) option" where
  "reservation_of (Reserved i a) = Some (i, a)"
| "reservation_of _ = None"

definition reserve_for ::
    "guard \<Rightarrow> router \<Rightarrow> model_providers \<Rightarrow> model_request \<Rightarrow> string \<Rightarrow>
     (err + binding \<times> reserve_result) cost_tx" where
  "reserve_for g r ps rq candidate =
     tryT
       (bindT (liftT (router_binding r candidate)) (\<lambda>b.
        bindT (checkT (mp_installed ps (bd_provider b)) (ModelConfigError candidate)) (\<lambda>_.
        bindT (reserve g rq b) (\<lambda>reserved. returnT (Inr (b, reserved))))))
       (\<lambda>e. returnT (Inl e))"

text \<open>The part after a reply was paid for: its text is checked against the output model.\<close>

definition completed_reply ::
    "model_providers \<Rightarrow> model_request \<Rightarrow> string \<Rightarrow> binding \<Rightarrow> provider_response \<Rightarrow> duration \<Rightarrow> money \<Rightarrow> uuid \<Rightarrow>
     model_response" where
  "completed_reply ps rq candidate b raw took cost call_id =
     (let (parsed, issues) =
            (case rq_output_model rq of
               None \<Rightarrow> (None, [])
             | Some om \<Rightarrow>
                 if ps_stop_reason raw = Stop_tool_use then (None, [])
                 else parse_reply (mp_loads ps) om (ps_content raw))
      in \<lparr>mr_model_call_id = call_id, mr_content = ps_content raw, mr_stop_reason = ps_stop_reason raw,
          mr_usage = ps_usage raw, mr_provider = bd_provider b, mr_alias = candidate,
          mr_model_id = ps_model_id raw, mr_cost_usd = cost, mr_latency_ms = ms_between 0 took,
          mr_parsed = parsed, mr_output_issues = issues\<rparr>)"

fun complete_chain ::
    "guard \<Rightarrow> router \<Rightarrow> model_providers \<Rightarrow> model_request \<Rightarrow> (string \<times> provider_error) list \<Rightarrow> string list \<Rightarrow>
     complete_result cost_tx" where
  "complete_chain g r ps rq failures [] = returnT (Call_failed failures)"
| "complete_chain g r ps rq failures (candidate # rest) =
     bindT (reserve_for g r ps rq candidate) (\<lambda>step.
     case step of
       Inl e \<Rightarrow> returnT (Raised e)
     | Inr (b, Refused l sp) \<Rightarrow> returnT (Budget_refused l sp (estimate_cost rq b 4))
     | Inr (b, reserved) \<Rightarrow>
         (case mp_complete ps (bd_provider b) b rq of
            (Provider_error e, took) \<Rightarrow>
              bindT (in_db (pass_time took)) (\<lambda>_.
              bindT (record_call rq candidate b took (Inl e)) (\<lambda>_.
              bindT (release (reservation_of reserved)) (\<lambda>_.
              if pe_fallback_allowed e then complete_chain g r ps rq (failures @ [(candidate, e)]) rest
              else returnT (Call_failed (failures @ [(candidate, e)])))))
          | (Reply raw, took) \<Rightarrow>
              let cost = price_cost (price_for r (ps_model_id raw) (bd_price b)) (ps_usage raw)
              in bindT (in_db (pass_time took)) (\<lambda>_.
                 bindT (record_call rq candidate b took (Inr (raw, cost))) (\<lambda>i.
                 bindT (settle (reservation_of reserved) cost i) (\<lambda>_.
                 returnT (Completed (completed_reply ps rq candidate b raw took cost i)))))))"

definition gateway_complete ::
    "guard \<Rightarrow> router \<Rightarrow> model_providers \<Rightarrow> model_request \<Rightarrow> complete_result cost_tx" where
  "gateway_complete g r ps rq =
     bindT (liftT (resolve r (cc_role (rq_context rq)) (rq_capability rq))) (\<lambda>a.
     complete_chain g r ps rq [] (chain r a))"

end
