(* ===== verification/CostProps.thy ===== *)
theory CostProps
  imports CostGuard
begin

text \<open>
  What the cost guard guarantees: a call that goes through leaves every limit that applies to it
  kept, and whatever becomes of a completion, no reservation it made stays open.
\<close>

section \<open>Limits\<close>

lemma price_cost_nonneg: "price_ok p \<Longrightarrow> 0 \<le> price_cost p u"
proof -
  assume "price_ok p"
  then have "0 \<le> price_total p u * 10 ^ 6" by (simp add: price_ok_def price_total_def)
  then have "0 \<le> round_half_up (price_total p u * 10 ^ 6)" by (simp add: round_half_up_def)
  then show ?thesis by (simp add: price_cost_def)
qed

lemma find_None_all: "find P xs = None \<Longrightarrow> x \<in> set xs \<Longrightarrow> \<not> P x"
  by (simp add: find_None_iff)

lemma spent_reserved:
  assumes "cs_calls s' = cs_calls s" "cs_reservations s' = cs_reservations s @ [r]" "0 \<le> cr_amount r"
  shows "spent g s' company l now \<le> spent g s company l now + cr_amount r"
  using assms by (simp add: spent_def)

text \<open>What \<open>reserve\<close> found when it let the call through.\<close>

lemma reserve_passed:
  assumes "reserve g rq b s = Inr (res, s')" "\<not> (\<exists>l sp. res = Refused l sp)"
  obtains ls where "limits g s rq (clock (cs_db s)) = Inr ls"
    "over_limit_of g s (cc_company_id (rq_context rq)) (clock (cs_db s)) (estimate_cost rq b 4)
       (ls @ daily_limit g (clock (cs_db s))) = None"
    "cs_calls s' = cs_calls s"
    "(cs_reservations s' = cs_reservations s \<and> estimate_cost rq b 4 = 0) \<or>
     (\<exists>r. cr_amount r = estimate_cost rq b 4 \<and> cs_reservations s' = cs_reservations s @ [r])"
  using assms
  by (auto simp: reserve_def Let_def tx_run in_db_def zoomT_def uuid7_def split: sum.splits option.splits if_splits)

text \<open>
  C34. A call goes through only within its limits. When \<open>reserve\<close> does not refuse, then for every
  limit that applies (of the run, the task, the project's and the company's hard budgets, and the
  daily cap) what has been spent and reserved in its window, the new reservation included, is at
  most the limit's amount.
\<close>

theorem reservations_stay_within_limits:
  assumes "price_ok (bd_price b)" "reserve g rq b s = Inr (res, s')" "\<not> (\<exists>l sp. res = Refused l sp)"
  shows "\<exists>ls. limits g s rq (clock (cs_db s)) = Inr ls \<and>
    (\<forall>l \<in> set (ls @ daily_limit g (clock (cs_db s))).
       spent g s' (cc_company_id (rq_context rq)) l (clock (cs_db s)) \<le> sl_amount l)"
proof -
  let ?now = "clock (cs_db s)" and ?c = "cc_company_id (rq_context rq)" and ?a = "estimate_cost rq b 4"
  obtain ls where ls: "limits g s rq ?now = Inr ls"
    and under: "over_limit_of g s ?c ?now ?a (ls @ daily_limit g ?now) = None"
    and calls: "cs_calls s' = cs_calls s"
    and rows: "(cs_reservations s' = cs_reservations s \<and> ?a = 0) \<or>
      (\<exists>r. cr_amount r = ?a \<and> cs_reservations s' = cs_reservations s @ [r])"
    using reserve_passed [OF assms(2,3)] .
  have a: "0 \<le> ?a" using assms(1) by (simp add: price_cost_nonneg estimate_cost_def)
  have "spent g s' ?c l ?now \<le> sl_amount l" if l: "l \<in> set (ls @ daily_limit g ?now)" for l
  proof -
    have "\<not> sl_amount l < spent g s ?c l ?now + ?a"
      using under l unfolding over_limit_of_def by (rule find_None_all)
    moreover have "spent g s' ?c l ?now \<le> spent g s ?c l ?now + ?a"
      using rows
    proof
      assume "cs_reservations s' = cs_reservations s \<and> ?a = 0"
      then show ?thesis using calls by (simp add: spent_def)
    next
      assume "\<exists>r. cr_amount r = ?a \<and> cs_reservations s' = cs_reservations s @ [r]"
      then show ?thesis using spent_reserved [OF calls] a by metis
    qed
    ultimately show ?thesis by linarith
  qed
  with ls show ?thesis by blast
qed

section \<open>Reservations\<close>

definition closed_reservation :: "cost_reservation \<Rightarrow> bool" where
  "closed_reservation r \<longleftrightarrow> cr_settled_at r \<noteq> None \<or> cr_released_at r \<noteq> None"

definition fresh_reservations :: "cost_db \<Rightarrow> bool" where
  "fresh_reservations s \<longleftrightarrow> (\<forall>r \<in> set (cs_reservations s). cr_id r < next_id (cs_db s))"

text \<open>The old rows are as they were, the new ones are closed.\<close>

definition grown :: "cost_reservation list \<Rightarrow> cost_db \<Rightarrow> bool" where
  "grown R s \<longleftrightarrow> fresh_reservations s \<and>
     (\<exists>new. cs_reservations s = R @ new \<and> (\<forall>r \<in> set new. closed_reservation r))"

lemma reserve_effect:
  assumes "reserve g rq b s = Inr (res, s')" "fresh_reservations s"
  shows "fresh_reservations s' \<and>
    (case reservation_of res of
       None \<Rightarrow> cs_reservations s' = cs_reservations s
     | Some (i, _) \<Rightarrow> \<exists>r. cs_reservations s' = cs_reservations s @ [r] \<and> cr_id r = i \<and>
         i \<notin> cr_id ` set (cs_reservations s))"
proof -
  have ev: "next_id d \<le> next_id d'" if "record_exhausted rq l sp a d = Inr (x, d')" for l sp a d d' and x :: unit
    using that by (auto simp: record_exhausted_def new_event_def emit_def uuid7_def tx_run Let_def
        split: sum.splits if_splits)
  have f: "cr_id r < next_id (cs_db s)" if "r \<in> set (cs_reservations s)" for r
    using that assms(2) by (simp add: fresh_reservations_def)
  have f2: "cr_id r < next_id d'" if "r \<in> set (cs_reservations s)" "record_exhausted rq l sp a (cs_db s) = Inr (x, d')"
    for r l sp a d' and x :: unit
    using f [OF that(1)] ev [OF that(2)] by simp
  have f3: "r \<in> set (cs_reservations s) \<Longrightarrow> cr_id r < Suc (next_id (cs_db s))" for r
    using f [of r] by simp
  have irrefl: "r \<in> set (cs_reservations s) \<Longrightarrow> next_id (cs_db s) = cr_id r \<Longrightarrow> False" for r
    using f [of r] by simp
  show ?thesis
    using assms(1)
    by (auto simp: reserve_def Let_def tx_run in_db_def zoomT_def uuid7_def fresh_reservations_def
        split: sum.splits option.splits if_splits intro: f f3 f2 dest: irrefl)
qed

lemma reserve_for_effect:
  assumes "reserve_for g r ps rq candidate s = Inr (step, s')" "fresh_reservations s"
  shows "case step of Inl e \<Rightarrow> s' = s | Inr (b, res) \<Rightarrow> reserve g rq b s = Inr (res, s')"
  using assms by (auto simp: reserve_for_def tx_run tryT_def split: sum.splits if_splits)

lemma record_call_effect:
  "record_call rq name b took outcome s = Inr (i, s') \<Longrightarrow>
   cs_reservations s' = cs_reservations s \<and> next_id (cs_db s) \<le> next_id (cs_db s')"
  by (auto simp: record_call_def Let_def in_db_def zoomT_def uuid7_def tx_run)

lemma close_new:
  assumes "cs_reservations s = R @ new @ [r]" "cr_id r = i" "i \<notin> cr_id ` set (R @ new)"
  shows "update_row cr_id i f (cs_reservations s) = R @ new @ [f r]"
  using assms update_row_absent [of i cr_id "R @ new" f] by (simp add: update_row_def)


text \<open>One candidate: what it reserved is closed before the next one, or before the end.\<close>

lemma call_and_close:
  assumes res: "reserve g rq b s = Inr (reserved, s1)" and g0: "grown R s"
    and call: "bindT (in_db (pass_time took)) (\<lambda>_. record_call rq name b took outcome) s1 = Inr (i, s2)"
    and fin: "m = release (reservation_of reserved) \<or> m = settle (reservation_of reserved) paid i"
    and m: "m s2 = Inr (u, s3)"
  shows "grown R s3"
proof -
  obtain new where new: "cs_reservations s = R @ new" "\<forall>r \<in> set new. closed_reservation r"
    and fr: "fresh_reservations s" using g0 by (auto simp: grown_def)
  have r1: "fresh_reservations s1" using reserve_effect [OF res fr] by simp
  obtain s0 where s0: "cs_reservations s0 = cs_reservations s1" "next_id (cs_db s0) = next_id (cs_db s1)"
    "record_call rq name b took outcome s0 = Inr (i, s2)"
    using call that [of "s1\<lparr>cs_db := cs_db s1\<lparr>clock := clock (cs_db s1) + max 0 took\<rparr>\<rparr>"]
    by (simp add: bindT_def in_db_def zoomT_def pass_time_def modifyT_def)
  have s2: "cs_reservations s2 = cs_reservations s1" "next_id (cs_db s1) \<le> next_id (cs_db s2)"
    using record_call_effect [OF s0(3)] s0(1,2) by simp_all
  then have fr2: "fresh_reservations s2" using r1 by (auto simp: fresh_reservations_def intro: order_less_le_trans)
  show ?thesis
  proof (cases "reservation_of reserved")
    case None
    then have "s3 = s2" "cs_reservations s1 = cs_reservations s"
      using fin m reserve_effect [OF res fr] by (auto simp: release_def settle_def tx_run)
    then show ?thesis using new fr2 s2 by (auto simp: grown_def)
  next
    case (Some ia)
    obtain j a where ia: "ia = (j, a)" by (cases ia)
    with Some obtain r where r: "cs_reservations s1 = cs_reservations s @ [r]" "cr_id r = j"
      "j \<notin> cr_id ` set (cs_reservations s)"
      using reserve_effect [OF res fr] by auto
    obtain f where f: "s3 = s2\<lparr>cs_reservations := update_row cr_id j f (cs_reservations s2)\<rparr>"
      "closed_reservation (f r)" "\<And>x. cr_id (f x) = cr_id x"
      using fin m Some ia
      by (elim disjE) (auto simp: release_def settle_def tx_run closed_reservation_def split: if_splits)
    have "cs_reservations s3 = R @ new @ [f r]"
      using close_new [of s2 R new r j f] r new(1) s2(1) f(1) by simp
    moreover have "fresh_reservations s3"
      using fr2 f(1,3) by (auto simp: fresh_reservations_def update_row_def)
    ultimately show ?thesis using new(2) f(2) by (auto simp: grown_def)
  qed
qed

lemma refused_grown:
  assumes "reserve g rq b s = Inr (Refused l sp, s')" "grown R s"
  shows "grown R s'"
  using reserve_effect [OF assms(1)] assms(2) by (auto simp: grown_def)

lemma complete_chain_grown:
  "complete_chain g r ps rq failures cs s = Inr (res, s') \<Longrightarrow> grown R s \<Longrightarrow> grown R s'"
proof (induction cs arbitrary: failures s)
  case (Cons candidate rest)
  obtain step s1 where step: "reserve_for g r ps rq candidate s = Inr (step, s1)"
    using Cons.prems(1) by (auto simp: bindT_Inr_iff)
  have fr: "fresh_reservations s" using Cons.prems(2) by (simp add: grown_def)
  show ?case
  proof (cases step)
    case (Inl e)
    then show ?thesis using Cons.prems step reserve_for_effect [OF step fr] by (simp add: tx_run)
  next
    case (Inr br)
    obtain b reserved where br: "br = (b, reserved)" by (cases br)
    have rsv: "reserve g rq b s = Inr (reserved, s1)" using reserve_for_effect [OF step fr] Inr br by simp
    show ?thesis
    proof (cases "\<exists>l sp. reserved = Refused l sp")
      case True
      then show ?thesis
        using Cons.prems step Inr br rsv refused_grown [of g rq b s] by (auto simp: tx_run)
    next
      case False
      let ?tail = "case mp_complete ps (bd_provider b) b rq of
            (Provider_error e, took) \<Rightarrow>
              bindT (in_db (pass_time took)) (\<lambda>_.
              bindT (record_call rq candidate b took (Inl e)) (\<lambda>_.
              bindT (release (reservation_of reserved)) (\<lambda>_.
              if pe_fallback_allowed e then complete_chain g r ps rq (failures @ [(candidate, e)]) rest
              else returnT (Call_failed (failures @ [(candidate, e)])))))
          | (Reply raw, took) \<Rightarrow>
              let cost = price_cost (price_for r (ps_model_id raw) (bd_price b)) (ps_usage raw)
              in bindT (in_db (pass_time took)) (\<lambda>_.
                 bindT (record_call rq candidate b took (Inr (raw, cost))) (\<lambda>i.
                 bindT (settle (reservation_of reserved) cost i) (\<lambda>_.
                 returnT (Completed (completed_reply ps rq candidate b raw took cost i)))))"
      have tail: "?tail s1 = Inr (res, s')"
        using Cons.prems(1) step Inr br False by (cases reserved; hypsubst) (simp_all add: bindT_def)
      obtain out took where call: "mp_complete ps (bd_provider b) b rq = (out, took)" by fastforce
      show ?thesis
      proof (cases out)
        case (Reply raw)
        then obtain i s2 paid where
          "bindT (in_db (pass_time took)) (\<lambda>_. record_call rq candidate b took (Inr (raw, paid))) s1 = Inr (i, s2)"
          "settle (reservation_of reserved) paid i s2 = Inr ((), s')"
          using tail call unfolding Let_def by (auto simp: bindT_Inr_iff returnT_def)
        then show ?thesis using call_and_close [OF rsv Cons.prems(2)] by blast
      next
        case (Provider_error e)
        then obtain i s2 u s3 where c:
          "bindT (in_db (pass_time took)) (\<lambda>_. record_call rq candidate b took (Inl e)) s1 = Inr (i, s2)"
          "release (reservation_of reserved) s2 = Inr (u, s3)"
          "(if pe_fallback_allowed e then complete_chain g r ps rq (failures @ [(candidate, e)]) rest
            else returnT (Call_failed (failures @ [(candidate, e)]))) s3 = Inr (res, s')"
          using tail call by (auto simp: bindT_Inr_iff)
        have "grown R s3" using call_and_close [OF rsv Cons.prems(2) c(1), of "release (reservation_of reserved)"] c(2) by blast
        then show ?thesis using c(3) Cons.IH by (auto simp: returnT_def split: if_splits)
      qed
    qed
  qed
qed (simp add: tx_run)


section \<open>An example\<close>

definition demo_price :: price where
  "demo_price = \<lparr>pc_input = 3, pc_output = 15, pc_cache_read = 0, pc_cache_write = 0\<rparr>"

definition demo_binding :: binding where
  "demo_binding = \<lparr>bd_provider = ''fake'', bd_model_id = ''m'', bd_price = demo_price\<rparr>"

definition demo_router :: router where
  "demo_router = \<lparr>rt_aliases = [(''frontier'', demo_binding), (''fast'', demo_binding)],
     rt_routes = [(''*.*'', ''frontier'')], rt_fallbacks = [(''frontier'', [''fast''])], rt_prices = []\<rparr>"

definition demo_guard :: guard where
  "demo_guard = \<lparr>gd_reservation_ttl = 600, gd_fx = \<lparr>fx_base = ''USD'', fx_rates = []\<rparr>, gd_daily_cap = Some 5\<rparr>"

definition demo_request :: model_request where
  "demo_request = \<lparr>rq_capability = ''reasoning'', rq_context = \<lparr>cc_company_id = 7, cc_role = ''writer'', cc_project_id = None,
     cc_agent_id = None, cc_run_id = None, cc_task_id = None, cc_workflow_run_id = None, cc_cycle_id = None,
     cc_task_name = None, cc_attempt = 1, cc_step_seq = 0\<rparr>,
     rq_messages = [user_message ''Write a headline.''], rq_system = Some ''Be brief.'', rq_tools = [],
     rq_output_model = None, rq_max_output_tokens = 1000\<rparr>"

definition demo_costs :: cost_db where
  "demo_costs = \<lparr>cs_db = \<lparr>clock = 100, next_id = 10, next_seq = 1, tasks = [], runs = [], workflows = [],
     agents = [], activities = [], approvals = [], audit = [], events = [], decisions = [], cancelling = []\<rparr>,
     cs_calls = [], cs_reservations = [], cs_budgets = [], cs_cycles = []\<rparr>"

text \<open>A provider that fails for good.\<close>

definition demo_outage :: provider_error where
  "demo_outage = \<lparr>pe_class = ''AuthError'', pe_message = ''bad key'', pe_fallback_allowed = False\<rparr>"

definition demo_providers :: model_providers where
  "demo_providers = \<lparr>mp_installed = (\<lambda>_. True), mp_complete = (\<lambda>_ _ _. (Provider_error demo_outage, 5)),
     mp_loads = (\<lambda>_. Inl ''Expecting value'')\<rparr>"

lemma demo_estimate: "estimate_cost demo_request demo_binding 4 = 753 / 50000"
proof -
  have "request_chars demo_request = 79" by code_simp
  moreover have "\<lfloor>(30121 :: rat) / 2\<rfloor> = 15060" by (rule floor_unique) simp_all
  moreover have "rq_max_output_tokens demo_request = 1000" by (simp add: demo_request_def)
  ultimately show ?thesis
    by (simp add: estimate_cost_def demo_binding_def demo_price_def price_cost_def price_total_def round_half_up_def)
qed

lemma demo_limits: "limits demo_guard demo_costs rq now = Inr []"
  by (simp add: limits_def Let_def project_budgets_def company_budgets_def demo_costs_def bind_err_def
      run_limit_def task_limit_def agent_of_def task_of_def split: option.splits)

lemma demo_daily: "daily_limit demo_guard now = [\<lparr>sl_scope = ''daily'', sl_amount = 5,
    sl_window_start = Some (day_start now), sl_project_id = None, sl_task_id = None, sl_run_id = None\<rparr>]"
  by (simp add: daily_limit_def demo_guard_def)

lemma demo_reserves:
  "\<exists>s' r. reserve demo_guard demo_request demo_binding demo_costs = Inr (Reserved 10 (753 / 50000), s') \<and>
     cs_reservations s' = [r]"
proof -
  have "spent demo_guard demo_costs c l now = 0" for c l now by (simp add: spent_def demo_costs_def)
  then have "over_limit_of demo_guard demo_costs c now (753 / 50000) (daily_limit demo_guard now) = None" for c now
    by (simp add: over_limit_of_def demo_daily)
  then show ?thesis
    by (simp add: reserve_def Let_def tx_run demo_limits demo_estimate in_db_def zoomT_def uuid7_def)
      (simp add: demo_costs_def)
qed

theorem reservations_stay_within_limits_witness:
  "\<exists>s' ls. limits demo_guard demo_costs demo_request 100 = Inr ls \<and>
     map (\<lambda>l. spent demo_guard s' 7 l 100 \<le> sl_amount l) (ls @ daily_limit demo_guard 100) = [True]"
proof -
  obtain s' where r: "reserve demo_guard demo_request demo_binding demo_costs = Inr (Reserved 10 (753 / 50000), s')"
    using demo_reserves by blast
  have "price_ok (bd_price demo_binding)" by (simp add: price_ok_def demo_binding_def demo_price_def)
  from reservations_stay_within_limits [OF this r]
  obtain ls where ls: "limits demo_guard demo_costs demo_request 100 = Inr ls"
    "\<forall>l \<in> set (ls @ daily_limit demo_guard 100). spent demo_guard s' 7 l 100 \<le> sl_amount l"
    by (auto simp: demo_costs_def demo_request_def)
  then show ?thesis by (auto simp: demo_limits demo_daily)
qed

lemma demo_reserve_for:
  assumes "reserve demo_guard demo_request demo_binding demo_costs = Inr (res, s1)"
  shows "reserve_for demo_guard demo_router demo_providers demo_request ''frontier'' demo_costs =
    Inr (Inr (demo_binding, res), s1)"
proof -
  have "router_binding demo_router ''frontier'' = Inr demo_binding"
    by (simp add: router_binding_def demo_router_def)
  moreover have "mp_installed demo_providers (bd_provider demo_binding)" by (simp add: demo_providers_def)
  ultimately show ?thesis using assms by (simp add: reserve_for_def tryT_def tx_run)
qed

lemma demo_completes:
  "\<exists>s'. gateway_complete demo_guard demo_router demo_providers demo_request demo_costs =
    Inr (Call_failed [(''frontier'', demo_outage)], s') \<and> length (cs_reservations s') = 1"
proof -
  obtain s1 r where r: "reserve demo_guard demo_request demo_binding demo_costs = Inr (Reserved 10 (753 / 50000), s1)"
    "cs_reservations s1 = [r]" using demo_reserves by blast
  have role: "cc_role (rq_context demo_request) = ''writer''" "rq_capability demo_request = ''reasoning''"
    by (simp_all add: demo_request_def)
  have resolved: "resolve demo_router ''writer'' ''reasoning'' = Inr ''frontier''" by code_simp
  have ch: "chain demo_router ''frontier'' = [''frontier'', ''fast'']" by (simp add: chain_def demo_router_def)
  have failing: "mp_complete demo_providers p m rq = (Provider_error demo_outage, 5)" for p m rq
    by (simp add: demo_providers_def)
  have final: "\<not> pe_fallback_allowed demo_outage" by (simp add: demo_outage_def)
  show ?thesis
    by (simp add: gateway_complete_def tx_run role resolved ch demo_reserve_for [OF r(1)] failing final pass_time_def
        record_call_def release_def in_db_def zoomT_def uuid7_def Let_def r(2) update_row_def)
qed


end
