(* ===== verification/Ids.thy ===== *)
theory Ids
  imports Models "HOL-Library.Word"
begin

text \<open>
  Time-ordered identifiers (\<open>infra/ids.py\<close>): the generator's state, the 128-bit layout and the
  timestamp read back from it. The random bytes are inputs.
\<close>

unbundle bit_operations_syntax

record id_state =
  last_ms :: int
  counter :: int

definition COUNTER_MAX :: int where
  "COUNTER_MAX = 0xFFF"

text \<open>
  The section under the lock: \<open>now_ms\<close> is the clock, \<open>seed\<close> the two random bytes read when
  the millisecond is new.
\<close>

definition uuid7_step :: "int \<Rightarrow> int \<Rightarrow> id_state \<Rightarrow> id_state" where
  "uuid7_step now_ms seed st =
     (if now_ms > last_ms st then \<lparr>last_ms = now_ms, counter = seed AND 0x7FF\<rparr>
      else let c = counter st + 1
           in if c > COUNTER_MAX then \<lparr>last_ms = last_ms st + 1, counter = 0\<rparr>
              else st\<lparr>counter := c\<rparr>)"

definition uuid7_value :: "int \<Rightarrow> int \<Rightarrow> int \<Rightarrow> int" where
  "uuid7_value ms cnt rand8 =
     (let rand_b = rand8 AND (push_bit 62 1 - 1);
          v0 = push_bit 80 (ms AND (push_bit 48 1 - 1));
          v1 = v0 OR push_bit 76 7;
          v2 = v1 OR push_bit 64 cnt;
          v3 = v2 OR push_bit 62 2
      in v3 OR rand_b)"

definition new_uuid7 :: "int \<Rightarrow> int \<Rightarrow> int \<Rightarrow> id_state \<Rightarrow> int \<times> id_state" where
  "new_uuid7 now_ms seed rand8 st =
     (let st' = uuid7_step now_ms seed st in (uuid7_value (last_ms st') (counter st') rand8, st'))"

text \<open>\<open>UUID.version\<close> is meaningful for the RFC variant only (bits 62 and 63 are 0 and 1).\<close>

definition uuid_version :: "int \<Rightarrow> int option" where
  "uuid_version v =
     (if drop_bit 62 v AND 3 = 2 then Some (drop_bit 76 v AND 0xF) else None)"

definition uuid7_timestamp_ms :: "int \<Rightarrow> err + int" where
  "uuid7_timestamp_ms v =
     (if uuid_version v \<noteq> Some 7 then Inl (ValueError ''not a UUIDv7'') else Inr (drop_bit 80 v))"

section \<open>The layout in arithmetic\<close>

lemma mask_and: "x AND (push_bit n 1 - 1) = x mod 2 ^ n" for x :: int
  by (metis mask_eq_exp_minus_1 push_bit_of_1 take_bit_eq_mask take_bit_eq_mod)

lemma or_push:
  fixes a b :: int
  assumes "0 \<le> b" "b < 2 ^ n"
  shows "push_bit n a OR b = a * 2 ^ n + b"
proof -
  have "push_bit n a AND b = 0"
  proof (rule bit_eqI)
    fix k
    have "bit b k \<Longrightarrow> k < n"
    proof (rule ccontr)
      assume "bit b k" "\<not> k < n"
      then have "take_bit n b \<noteq> b" by (metis bit_take_bit_iff)
      with assms show False by (simp add: take_bit_int_eq_self)
    qed
    then show "bit (push_bit n a AND b) k \<longleftrightarrow> bit (0 :: int) k"
      by (auto simp: bit_and_iff bit_push_bit_iff)
  qed
  then have "push_bit n a OR b = push_bit n a + b"
    using plus_and_or [of "push_bit n a" b] by simp
  then show ?thesis by (simp add: push_bit_eq_mult)
qed

definition rand_part :: "int \<Rightarrow> int" where
  "rand_part rand8 = rand8 mod 2 ^ 62"

lemma rand_part_bounds: "0 \<le> rand_part r" "rand_part r < 2 ^ 62"
  by (simp_all add: rand_part_def)

lemma uuid7_value_eq:
  assumes "0 \<le> cnt" "cnt \<le> COUNTER_MAX"
  shows "uuid7_value ms cnt rand8 =
    (ms mod 2 ^ 48) * 2 ^ 80 + 7 * 2 ^ 76 + cnt * 2 ^ 64 + 2 * 2 ^ 62 + rand_part rand8"
proof -
  have r: "push_bit 62 2 OR rand_part rand8 = 2 * 2 ^ 62 + rand_part rand8"
    using rand_part_bounds by (intro or_push)
  have c: "push_bit 64 cnt OR (2 * 2 ^ 62 + rand_part rand8) =
      cnt * 2 ^ 64 + (2 * 2 ^ 62 + rand_part rand8)"
    using rand_part_bounds [of rand8] by (intro or_push) simp_all
  have v: "push_bit 76 7 OR (cnt * 2 ^ 64 + (2 * 2 ^ 62 + rand_part rand8)) =
      7 * 2 ^ 76 + (cnt * 2 ^ 64 + (2 * 2 ^ 62 + rand_part rand8))"
    using rand_part_bounds [of rand8] assms by (intro or_push) (simp_all add: COUNTER_MAX_def)
  have m: "push_bit 80 (ms mod 2 ^ 48) OR
      (7 * 2 ^ 76 + (cnt * 2 ^ 64 + (2 * 2 ^ 62 + rand_part rand8))) =
      (ms mod 2 ^ 48) * 2 ^ 80 + (7 * 2 ^ 76 + (cnt * 2 ^ 64 + (2 * 2 ^ 62 + rand_part rand8)))"
    using rand_part_bounds [of rand8] assms by (intro or_push) (simp_all add: COUNTER_MAX_def)
  show ?thesis
    unfolding uuid7_value_def Let_def mask_and rand_part_def [symmetric]
    by (simp only: or.assoc r c v m add.assoc)
qed

definition id_inv :: "id_state \<Rightarrow> bool" where
  "id_inv st \<longleftrightarrow> 0 \<le> counter st \<and> counter st \<le> COUNTER_MAX"

lemma and_7ff_bounds: "0 \<le> x AND 0x7FF" "x AND 0x7FF \<le> 0x7FF" for x :: int
proof -
  have "x AND 0x7FF = x mod 2 ^ 11" using mask_and [of x 11] by (simp add: push_bit_eq_mult)
  then show "0 \<le> x AND 0x7FF" "x AND 0x7FF \<le> 0x7FF"
    using pos_mod_bound [of "2 ^ 11" x] by simp_all
qed

lemma uuid7_step_inv: "id_inv st \<Longrightarrow> id_inv (uuid7_step now_ms seed st)"
  using and_7ff_bounds [of seed] by (auto simp: id_inv_def uuid7_step_def COUNTER_MAX_def Let_def)

lemma uuid7_step_later:
  "id_inv st \<Longrightarrow>
   last_ms st < last_ms (uuid7_step now_ms seed st) \<or>
   (last_ms st = last_ms (uuid7_step now_ms seed st) \<and> counter st < counter (uuid7_step now_ms seed st))"
  by (auto simp: uuid7_step_def Let_def)

lemma uuid7_value_less:
  assumes bounds: "0 \<le> c1" "c1 \<le> COUNTER_MAX" "0 \<le> c2" "c2 \<le> COUNTER_MAX"
    and ms: "0 \<le> m1" "m2 < 2 ^ 48"
    and later: "m1 < m2 \<or> (m1 = m2 \<and> c1 < c2)"
  shows "uuid7_value m1 c1 r1 < uuid7_value m2 c2 r2"
proof -
  have small: "m1 mod 2 ^ 48 = m1" "m2 mod 2 ^ 48 = m2"
    using ms later by (auto intro!: mod_pos_pos_trivial)
  have le: "m1 \<le> m2" using later by auto
  have mono: "m1 * 2 ^ 80 + c1 * 2 ^ 64 + 2 ^ 64 \<le> m2 * 2 ^ 80 + c2 * 2 ^ 64"
    using later bounds by (auto simp: COUNTER_MAX_def)
  then show ?thesis
    unfolding uuid7_value_eq [OF bounds(1,2)] uuid7_value_eq [OF bounds(3,4)] small
    using rand_part_bounds [of r1] rand_part_bounds [of r2] by simp
qed

lemma drop_bit_of_sum:
  fixes a b :: int
  assumes "0 \<le> b" "b < 2 ^ n"
  shows "drop_bit n (a * 2 ^ n + b) = a"
  using assms by (simp add: drop_bit_eq_div)

lemma uuid_version_value:
  assumes "0 \<le> cnt" "cnt \<le> COUNTER_MAX"
  shows "uuid_version (uuid7_value ms cnt r) = Some 7"
proof -
  let ?m = "ms mod 2 ^ 48"
  have v: "uuid7_value ms cnt r =
      ((?m * 2 ^ 4 + 7) * 2 ^ 14 + cnt * 4 + 2) * 2 ^ 62 + rand_part r"
    unfolding uuid7_value_eq [OF assms] by (simp add: algebra_simps)
  have v': "uuid7_value ms cnt r =
      (?m * 2 ^ 4 + 7) * 2 ^ 76 + (cnt * 2 ^ 64 + 2 * 2 ^ 62 + rand_part r)"
    unfolding uuid7_value_eq [OF assms] by (simp add: algebra_simps)
  have "drop_bit 62 (uuid7_value ms cnt r) = (?m * 2 ^ 4 + 7) * 2 ^ 14 + cnt * 4 + 2"
    unfolding v by (rule drop_bit_of_sum [OF rand_part_bounds])
  moreover have "(x * 4 + 2) AND 3 = 2" for x :: int
    using mask_and [of "x * 4 + 2" 2] by (simp add: push_bit_eq_mult)
  moreover have "(?m * 2 ^ 4 + 7) * 2 ^ 14 + cnt * 4 + 2 =
      ((?m * 2 ^ 4 + 7) * 2 ^ 12 + cnt) * 4 + 2" by simp
  ultimately have variant: "drop_bit 62 (uuid7_value ms cnt r) AND 3 = 2" by (simp only:)
  have "drop_bit 76 (uuid7_value ms cnt r) = ?m * 2 ^ 4 + 7"
    unfolding v' using assms rand_part_bounds [of r]
    by (intro drop_bit_of_sum) (simp_all add: COUNTER_MAX_def)
  moreover have "(x * 2 ^ 4 + 7) AND 0xF = 7" for x :: int
    using mask_and [of "x * 2 ^ 4 + 7" 4] by (simp add: push_bit_eq_mult)
  ultimately show ?thesis using variant by (simp add: uuid_version_def)
qed

lemma uuid7_timestamp_value:
  assumes "0 \<le> cnt" "cnt \<le> COUNTER_MAX"
  shows "uuid7_timestamp_ms (uuid7_value ms cnt r) = Inr (ms mod 2 ^ 48)"
proof -
  have v: "uuid7_value ms cnt r =
      (ms mod 2 ^ 48) * 2 ^ 80 + (7 * 2 ^ 76 + cnt * 2 ^ 64 + 2 * 2 ^ 62 + rand_part r)"
    unfolding uuid7_value_eq [OF assms] by simp
  have "drop_bit 80 (uuid7_value ms cnt r) = ms mod 2 ^ 48"
    unfolding v using assms rand_part_bounds [of r]
    by (intro drop_bit_of_sum) (simp_all add: COUNTER_MAX_def)
  then show ?thesis using uuid_version_value [OF assms, of ms r] by (simp add: uuid7_timestamp_ms_def)
qed

text \<open>
  Identifiers made one after the other: strictly increasing, whatever the clock does, and the
  time can be read back from each.
\<close>

text \<open>The clock, the seed and the random bytes each call reads.\<close>

type_synonym reading = "int \<times> int \<times> int"

fun make_ids :: "reading list \<Rightarrow> id_state \<Rightarrow> int list \<times> id_state" where
  "make_ids [] st = ([], st)"
| "make_ids ((now_ms, seed, rand8) # rest) st =
     (let (v, st1) = new_uuid7 now_ms seed rand8 st; (vs, st2) = make_ids rest st1 in (v # vs, st2))"

lemma uuid7_step_mono: "last_ms st \<le> last_ms (uuid7_step now_ms seed st)"
  by (simp add: uuid7_step_def Let_def)

lemma uuid7_step_now: "now_ms \<le> last_ms (uuid7_step now_ms seed st)"
  by (simp add: uuid7_step_def Let_def)

lemma make_ids_mono: "last_ms st \<le> last_ms (snd (make_ids rs st))"
proof (induction rs st rule: make_ids.induct)
  case (2 now_ms seed rand8 rest st)
  then show ?case using uuid7_step_mono [of st now_ms seed]
    by (auto simp: new_uuid7_def Let_def split_beta intro: order_trans)
qed simp

text \<open>Every later identifier is of a later state.\<close>

lemma make_ids_above:
  assumes "id_inv st" "0 \<le> last_ms st" "last_ms (snd (make_ids rs st)) < 2 ^ 48"
  shows "\<forall>v \<in> set (fst (make_ids rs st)). \<forall>r. uuid7_value (last_ms st) (counter st) r < v"
    "sorted_wrt (<) (fst (make_ids rs st))"
proof -
  have "(\<forall>v \<in> set (fst (make_ids rs st)). \<forall>r. uuid7_value (last_ms st) (counter st) r < v) \<and>
      sorted_wrt (<) (fst (make_ids rs st))"
    using assms
  proof (induction rs st rule: make_ids.induct)
    case (2 now_ms seed rand8 rest st)
    let ?st = "uuid7_step now_ms seed st"
    have inv: "id_inv ?st" using uuid7_step_inv "2.prems"(1) .
    have ms: "last_ms st \<le> last_ms ?st" by (rule uuid7_step_mono)
    have bound: "last_ms (snd (make_ids rest ?st)) < 2 ^ 48"
      using "2.prems"(3) by (simp add: new_uuid7_def Let_def split_beta)
    have IH: "(\<forall>v \<in> set (fst (make_ids rest ?st)). \<forall>r. uuid7_value (last_ms ?st) (counter ?st) r < v) \<and>
        sorted_wrt (<) (fst (make_ids rest ?st))"
      using "2.IH" [OF refl prod.collapse] inv ms "2.prems"(2) bound
      by (simp add: new_uuid7_def Let_def)
    have "uuid7_value (last_ms st) (counter st) r < uuid7_value (last_ms ?st) (counter ?st) rand8" for r
      using uuid7_step_later [OF "2.prems"(1)] "2.prems"(1,2) inv make_ids_mono [of ?st rest] bound
      by (intro uuid7_value_less) (auto simp: id_inv_def)
    then show ?case using IH by (auto simp: new_uuid7_def Let_def split_beta intro: less_trans)
  qed simp
  then show "\<forall>v \<in> set (fst (make_ids rs st)). \<forall>r. uuid7_value (last_ms st) (counter st) r < v"
    "sorted_wrt (<) (fst (make_ids rs st))" by simp_all
qed

text \<open>
  C38. Identifiers increase strictly in the order they are made, also when the clock stands
  still, jumps back, or more are made in a millisecond than the counter holds, until the
  timestamp leaves its 48 bits (year 10889).
\<close>

theorem uuid7_strictly_increasing:
  assumes "id_inv st" "0 \<le> last_ms st" "last_ms (snd (make_ids rs st)) < 2 ^ 48"
  shows "sorted_wrt (<) (fst (make_ids rs st))"
  using make_ids_above(2) [OF assms] .

theorem uuid7_strictly_increasing_witness:
  "sorted_wrt (<) (fst (make_ids [(1000, 5, 1), (1000, 0, 2), (900, 7, 3), (1001, 9, 4)] \<lparr>last_ms = 999, counter = 0xFFF\<rparr>)) \<and>
   length (fst (make_ids [(1000, 5, 1), (1000, 0, 2), (900, 7, 3), (1001, 9, 4)] \<lparr>last_ms = 999, counter = 0xFFF\<rparr>)) = 4"
proof
  let ?rs = "[(1000, 5, 1), (1000, 0, 2), (900, 7, 3), (1001, 9, 4)] :: reading list"
  let ?st = "\<lparr>last_ms = 999, counter = 0xFFF\<rparr>"
  have "id_inv ?st" "0 \<le> last_ms ?st" by (simp_all add: id_inv_def COUNTER_MAX_def)
  moreover have "last_ms (snd (make_ids ?rs ?st)) < 2 ^ 48"
    by (simp add: new_uuid7_def uuid7_step_def COUNTER_MAX_def Let_def)
  ultimately show "sorted_wrt (<) (fst (make_ids ?rs ?st))" by (rule uuid7_strictly_increasing)
  show "length (fst (make_ids ?rs ?st)) = 4" by (simp add: new_uuid7_def Let_def)
qed

text \<open>
  The time round-trips: the timestamp read back from an identifier is that of the generator
  when it was made, which is never before the clock's, and the identifier is a version 7 one.
\<close>

theorem uuid7_timestamp_roundtrip:
  assumes "id_inv st" "new_uuid7 now_ms seed rand8 st = (v, st')" "0 \<le> now_ms" "last_ms st' < 2 ^ 48"
  shows "uuid7_timestamp_ms v = Inr (last_ms st') \<and> now_ms \<le> last_ms st' \<and>
    last_ms st' \<le> max now_ms (last_ms st + 1)"
proof -
  have st': "st' = uuid7_step now_ms seed st" and v: "v = uuid7_value (last_ms st') (counter st') rand8"
    using assms(2) by (auto simp: new_uuid7_def Let_def)
  have inv: "id_inv st'" unfolding st' by (rule uuid7_step_inv [OF assms(1)])
  have now: "now_ms \<le> last_ms st'" unfolding st' by (rule uuid7_step_now)
  moreover have "last_ms st' mod 2 ^ 48 = last_ms st'" using now assms(3,4) by (intro mod_pos_pos_trivial) auto
  moreover have "last_ms st' \<le> max now_ms (last_ms st + 1)" by (simp add: st' uuid7_step_def Let_def)
  ultimately show ?thesis using uuid7_timestamp_value inv v by (simp add: id_inv_def)
qed

theorem uuid7_timestamp_roundtrip_witness:
  "uuid7_timestamp_ms (fst (new_uuid7 1700000000000 77 12345 \<lparr>last_ms = 0, counter = 0\<rparr>)) = Inr 1700000000000"
proof -
  let ?st = "\<lparr>last_ms = 0, counter = 0\<rparr>"
  have "id_inv ?st" by (simp add: id_inv_def COUNTER_MAX_def)
  moreover have "last_ms (snd (new_uuid7 1700000000000 77 12345 ?st)) = 1700000000000"
    by (simp add: new_uuid7_def uuid7_step_def Let_def)
  ultimately show ?thesis
    using uuid7_timestamp_roundtrip [of ?st 1700000000000 77 12345
        "fst (new_uuid7 1700000000000 77 12345 ?st)" "snd (new_uuid7 1700000000000 77 12345 ?st)"] by simp
qed

end
