(* ===== verification/Reducer.thy ===== *)
theory Reducer
  imports Activity
begin

text \<open>
  The realtime projection a browser hydrates from (\<open>realtime/projection.py\<close>) and the
  reducer that follows it by events (\<open>realtime/reducer.py\<close>).
\<close>

section \<open>Views\<close>

record activity_view =
  av_state :: activity_state
  av_stored_state :: activity_state
  av_detail :: activity_detail
  av_since :: instant
  av_run_id :: "uuid option"
  av_task_id :: "uuid option"
  av_last_event_seq :: nat

record agent_view =
  gv_id :: uuid
  gv_role :: string
  gv_display_name :: string
  gv_avatar_key :: string
  gv_department_id :: "uuid option"
  gv_department_key :: "string option"
  gv_office_zone_key :: "string option"
  gv_business_unit_key :: "string option"
  gv_activity :: activity_view

record task_view =
  tv_id :: uuid
  tv_name :: string
  tv_display_name :: string
  tv_required_role :: string
  tv_state :: task_state
  tv_depends_on :: "uuid list"
  tv_workflow_run_id :: "uuid option"
  tv_attempt :: nat
  tv_run_id :: "uuid option"
  tv_agent_id :: "uuid option"
  tv_since :: instant
  tv_last_event_seq :: nat

record cycle_view =
  yv_id :: uuid
  yv_seq :: nat
  yv_stage :: string
  yv_deadline :: "instant option"

record snapshot =
  sn_company_id :: uuid
  sn_last_seq :: nat
  sn_server_time :: instant
  sn_agents :: "agent_view list"
  sn_tasks :: "task_view list"
  sn_recent_events :: "envelope list"
  sn_cycle :: "cycle_view option"

definition FINISHED_TASK_WINDOW :: duration where
  "FINISHED_TASK_WINDOW = 10 * 60 * 1000000"

definition RECENT_EVENTS :: nat where
  "RECENT_EVENTS = 100"

definition is_finished :: "task_state \<Rightarrow> bool" where
  "is_finished st \<longleftrightarrow> st \<in> {T_SUCCEEDED, T_FAILED, T_CANCELLED}"

section \<open>The projection\<close>

text \<open>
  What the queries of \<open>load_snapshot\<close> read from tables outside this model is a parameter: an
  agent's place on the floor and the company's latest cycle.
\<close>

record place =
  pl_department_key :: "string option"
  pl_office_zone_key :: "string option"
  pl_business_unit_key :: "string option"

definition last_task_event :: "envelope list \<Rightarrow> uuid \<Rightarrow> envelope option" where
  "last_task_event evlog i = last_some (filter (\<lambda>e. e_task_id e = Some i \<and> is_task_event e) evlog)"

text \<open>\<open>ORDER BY attempt DESC, created_at DESC LIMIT 1\<close>: the last of the highest attempts.\<close>

fun latest_of :: "agent_run list \<Rightarrow> agent_run option" where
  "latest_of [] = None"
| "latest_of (r # rs) =
     (case latest_of rs of
        None \<Rightarrow> Some r
      | Some r' \<Rightarrow> Some (if r_attempt r > r_attempt r' then r else r'))"

definition latest_run :: "agent_run list \<Rightarrow> uuid \<Rightarrow> agent_run option" where
  "latest_run rs i = latest_of (filter (\<lambda>r. r_task_id r = i) rs)"

definition project_task :: "db \<Rightarrow> task \<Rightarrow> envelope \<Rightarrow> task_view" where
  "project_task s t e =
     \<lparr>tv_id = t_id t, tv_name = t_name t, tv_display_name = t_display_name t,
      tv_required_role = t_required_role t, tv_state = t_state t,
      tv_depends_on = t_depends_on t, tv_workflow_run_id = t_workflow_run_id t,
      tv_attempt = t_attempt t, tv_run_id = map_option r_id (latest_run (runs s) (t_id t)),
      tv_agent_id = map_option r_agent_id (latest_run (runs s) (t_id t)),
      tv_since = e_occurred_at e, tv_last_event_seq = seq_of e\<rparr>"

definition projection_tasks :: "db \<Rightarrow> uuid \<Rightarrow> instant \<Rightarrow> task_view list" where
  "projection_tasks s company_id now =
     List.map_filter (\<lambda>t.
       case last_task_event (events s) (t_id t) of
         None \<Rightarrow> None
       | Some e \<Rightarrow>
           if t_company_id t = company_id \<and>
              (\<not> is_finished (t_state t) \<or> e_occurred_at e > now - FINISHED_TASK_WINDOW)
           then Some (project_task s t e) else None) (tasks s)"

definition project_activity :: "instant \<Rightarrow> agent_activity \<Rightarrow> activity_view" where
  "project_activity now a =
     \<lparr>av_state = effective_state a now, av_stored_state = ac_state a, av_detail = ac_detail a,
      av_since = ac_since a, av_run_id = ac_run_id a, av_task_id = ac_task_id a,
      av_last_event_seq = ac_last_event_seq a\<rparr>"

definition projection_agents :: "(agent \<Rightarrow> place) \<Rightarrow> db \<Rightarrow> uuid \<Rightarrow> instant \<Rightarrow> agent_view list" where
  "projection_agents place_of s company_id now =
     List.map_filter (\<lambda>a.
       case activity_of s (a_id a) of
         None \<Rightarrow> None
       | Some row \<Rightarrow>
           if a_company_id a = company_id \<and> a_status a \<noteq> AG_RETIRED then
             Some \<lparr>gv_id = a_id a, gv_role = a_role a, gv_display_name = a_display_name a,
               gv_avatar_key = a_avatar_key a, gv_department_id = a_department_id a,
               gv_department_key = pl_department_key (place_of a),
               gv_office_zone_key = pl_office_zone_key (place_of a),
               gv_business_unit_key = pl_business_unit_key (place_of a),
               gv_activity = project_activity now row\<rparr>
           else None) (agents s)"

definition last_n :: "nat \<Rightarrow> 'a list \<Rightarrow> 'a list" where
  "last_n n xs = drop (length xs - n) xs"

definition last_seq_of :: "db \<Rightarrow> uuid \<Rightarrow> nat" where
  "last_seq_of s company_id =
     fold (\<lambda>e m. max m (seq_of e)) (filter (\<lambda>e. e_company_id e = company_id) (events s)) 0"

definition recent_events :: "db \<Rightarrow> uuid \<Rightarrow> envelope list" where
  "recent_events s company_id =
     last_n RECENT_EVENTS (filter (\<lambda>e. e_company_id e = company_id) (events s))"

definition load_snapshot ::
    "(agent \<Rightarrow> place) \<Rightarrow> cycle_view option \<Rightarrow> db \<Rightarrow> uuid \<Rightarrow> instant \<Rightarrow> snapshot" where
  "load_snapshot place_of cyc s company_id now =
     \<lparr>sn_company_id = company_id, sn_last_seq = last_seq_of s company_id, sn_server_time = now,
      sn_agents = projection_agents place_of s company_id now,
      sn_tasks = projection_tasks s company_id now,
      sn_recent_events = recent_events s company_id, sn_cycle = cyc\<rparr>"

section \<open>The reducer's state\<close>

record drawn_agent =
  da_id :: uuid
  da_role :: string
  da_display_name :: string
  da_avatar_key :: string
  da_department_id :: "uuid option"
  da_department_key :: "string option"
  da_office_zone_key :: "string option"
  da_business_unit_key :: "string option"
  da_activity :: "activity_view option"

record realtime_state =
  rs_company_id :: uuid
  rs_last_seq :: nat
  rs_cycle :: "cycle_view option"
  rs_agents :: "(uuid \<times> drawn_agent) list"
  rs_tasks :: "(uuid \<times> task_view) list"
  rs_recent :: "envelope list"

definition push_recent :: "envelope list \<Rightarrow> envelope list \<Rightarrow> envelope list" where
  "push_recent recent es = last_n RECENT_EVENTS (recent @ es)"

definition from_snapshot :: "snapshot \<Rightarrow> realtime_state" where
  "from_snapshot sn =
     \<lparr>rs_company_id = sn_company_id sn, rs_last_seq = sn_last_seq sn, rs_cycle = sn_cycle sn,
      rs_agents = fold (\<lambda>g acc. dict_set (gv_id g)
        \<lparr>da_id = gv_id g, da_role = gv_role g, da_display_name = gv_display_name g,
         da_avatar_key = gv_avatar_key g, da_department_id = gv_department_id g,
         da_department_key = gv_department_key g, da_office_zone_key = gv_office_zone_key g,
         da_business_unit_key = gv_business_unit_key g, da_activity = Some (gv_activity g)\<rparr> acc)
        (sn_agents sn) [],
      rs_tasks = fold (\<lambda>t acc. dict_set (tv_id t) t acc) (sn_tasks sn) [],
      rs_recent = push_recent [] (sn_recent_events sn)\<rparr>"

section \<open>Applying events\<close>

text \<open>The tables \<open>_ACTIVITY\<close> and \<open>_TASK_STATE\<close> of the reducer.\<close>

fun red_activity_state :: "agent_payload \<Rightarrow> activity_state option" where
  "red_activity_state (AgentIdle _) = Some A_IDLE"
| "red_activity_state (AgentResumed _) = Some A_IDLE"
| "red_activity_state (AgentThinking _ _ _) = Some A_THINKING"
| "red_activity_state (AgentWorking _ _ _ _ _) = Some A_WORKING"
| "red_activity_state (AgentWaiting _ _ _ _) = Some A_WAITING"
| "red_activity_state (AgentReviewing _ _ _ _) = Some A_REVIEWING"
| "red_activity_state (AgentRunCompleted _ _ _ _ _ _ _) = Some A_COMPLETED"
| "red_activity_state (AgentRunFailed _ _ _ _) = Some A_FAILED"
| "red_activity_state (AgentRunAborted _ _ _) = Some A_FAILED"
| "red_activity_state (AgentPaused _) = Some A_PAUSED"
| "red_activity_state _ = None"

fun red_task_state :: "task_payload \<Rightarrow> task_state option" where
  "red_task_state (TaskReady _) = Some T_READY"
| "red_task_state (TaskStarted _ _ _) = Some T_RUNNING"
| "red_task_state (TaskWaiting _ _) = Some T_WAITING_APPROVAL"
| "red_task_state (TaskSucceeded _ _ _) = Some T_SUCCEEDED"
| "red_task_state (TaskCancelled _) = Some T_CANCELLED"
| "red_task_state TaskBlocked = Some T_BLOCKED_BUDGET"
| "red_task_state _ = None"

text \<open>\<open>_activity\<close>: the activity an event gives its agent.\<close>

definition red_activity ::
    "realtime_state \<Rightarrow> drawn_agent \<Rightarrow> envelope \<Rightarrow> agent_payload \<Rightarrow> activity_state \<Rightarrow> activity_view" where
  "red_activity st g e p state =
     (let no_run = (state = A_IDLE \<or> state = A_PAUSED);
          t = (case e_task_id e of None \<Rightarrow> None | Some i \<Rightarrow> map_of (rs_tasks st) i);
          run_id = (if no_run then None else e_run_id e);
          task_id = (if no_run then None else e_task_id e)
      in \<lparr>av_state = state, av_stored_state = state,
          av_detail = \<lparr>d_payload = p, d_run_id = run_id, d_task_id = task_id,
            d_workflow_run_id = (if no_run then None else e_workflow_run_id e),
            d_task_name = (if no_run then None else nonempty (map_option tv_display_name t)),
            d_extra_links = []\<rparr>,
          av_since = (case da_activity g of
             Some c \<Rightarrow> if av_stored_state c = state then av_since c else e_occurred_at e
           | None \<Rightarrow> e_occurred_at e),
          av_run_id = run_id, av_task_id = task_id, av_last_event_seq = seq_of e\<rparr>)"

text \<open>\<open>_task\<close>: the update of a task the reducer knows.\<close>

fun red_task_payload :: "task_payload \<Rightarrow> task_view \<Rightarrow> task_view" where
  "red_task_payload (TaskFailed _ final _) v = (if final then v\<lparr>tv_state := T_FAILED\<rparr> else v)"
| "red_task_payload (TaskStarted r a n) v =
     v\<lparr>tv_state := T_RUNNING, tv_attempt := n, tv_run_id := Some r, tv_agent_id := Some a\<rparr>"
| "red_task_payload p v = (case red_task_state p of None \<Rightarrow> v | Some st \<Rightarrow> v\<lparr>tv_state := st\<rparr>)"

definition red_task :: "envelope \<Rightarrow> task_payload \<Rightarrow> task_view \<Rightarrow> task_view" where
  "red_task e p v =
     red_task_payload p (v\<lparr>tv_since := e_occurred_at e, tv_last_event_seq := seq_of e\<rparr>)"

definition created_task :: "envelope \<Rightarrow> uuid \<Rightarrow> task_payload \<Rightarrow> task_view" where
  "created_task e i p =
     (case p of TaskCreated name display role deps wfr _ \<Rightarrow>
        \<lparr>tv_id = i, tv_name = name, tv_display_name = display, tv_required_role = role,
         tv_state = T_PENDING, tv_depends_on = deps, tv_workflow_run_id = wfr, tv_attempt = 0,
         tv_run_id = None, tv_agent_id = None, tv_since = e_occurred_at e,
         tv_last_event_seq = seq_of e\<rparr>)"

fun is_created :: "task_payload \<Rightarrow> bool" where
  "is_created (TaskCreated _ _ _ _ _ _) = True"
| "is_created _ = False"

definition red_task_event :: "realtime_state \<Rightarrow> envelope \<Rightarrow> task_payload \<Rightarrow> realtime_state" where
  "red_task_event st e p =
     (case e_task_id e of
        None \<Rightarrow> st
      | Some i \<Rightarrow>
          if is_created p then st\<lparr>rs_tasks := dict_set i (created_task e i p) (rs_tasks st)\<rparr>
          else (case map_of (rs_tasks st) i of
                  None \<Rightarrow> st
                | Some v \<Rightarrow> st\<lparr>rs_tasks := dict_set i (red_task e p v) (rs_tasks st)\<rparr>))"

text \<open>What an event about an agent does to the drawn agents.\<close>

definition red_activity_event :: "realtime_state \<Rightarrow> envelope \<Rightarrow> agent_payload \<Rightarrow> realtime_state" where
  "red_activity_event st e p =
     (case (red_activity_state p, e_agent_id e) of
        (Some state, Some i) \<Rightarrow>
          (case map_of (rs_agents st) i of
             None \<Rightarrow> st
           | Some g \<Rightarrow>
               if is_non_final p then st
               else st\<lparr>rs_agents := dict_set i (g\<lparr>da_activity := Some (red_activity st g e p state)\<rparr>)
                  (rs_agents st)\<rparr>)
      | _ \<Rightarrow> st)"

fun red_agent_event :: "realtime_state \<Rightarrow> envelope \<Rightarrow> agent_payload \<Rightarrow> realtime_state" where
  "red_agent_event st e (AgentCreated role name caps avatar dep dep_key zone unit) =
     (case e_agent_id e of
        None \<Rightarrow> st
      | Some i \<Rightarrow> st\<lparr>rs_agents := dict_set i
          \<lparr>da_id = i, da_role = role, da_display_name = name, da_avatar_key = avatar,
           da_department_id = dep, da_department_key = dep_key, da_office_zone_key = zone,
           da_business_unit_key = unit, da_activity = None\<rparr> (rs_agents st)\<rparr>)"
| "red_agent_event st e (AgentRetired a b c) =
     (case e_agent_id e of
        None \<Rightarrow> st
      | Some i \<Rightarrow> st\<lparr>rs_agents := filter (\<lambda>kv. fst kv \<noteq> i) (rs_agents st)\<rparr>)"
| "red_agent_event st e p = red_activity_event st e p"

fun red_company_event :: "realtime_state \<Rightarrow> envelope \<Rightarrow> company_payload \<Rightarrow> realtime_state" where
  "red_company_event st e (AgentAssigned role role_id dep dep_key zone unit pr pd) =
     (case e_agent_id e of
        None \<Rightarrow> st
      | Some i \<Rightarrow>
          (case map_of (rs_agents st) i of
             None \<Rightarrow> st
           | Some g \<Rightarrow> st\<lparr>rs_agents := dict_set i
               (g\<lparr>da_role := role, da_department_id := Some dep, da_department_key := dep_key,
                  da_office_zone_key := zone, da_business_unit_key := unit\<rparr>) (rs_agents st)\<rparr>))"
| "red_company_event st e (CycleStarted n stage deadline) =
     (case e_cycle_id e of
        None \<Rightarrow> st
      | Some i \<Rightarrow> st\<lparr>rs_cycle := Some \<lparr>yv_id = i, yv_seq = n, yv_stage = stage, yv_deadline = deadline\<rparr>\<rparr>)"
| "red_company_event st e (CycleStageChanged old stage deadline) =
     (case rs_cycle st of
        None \<Rightarrow> st
      | Some c \<Rightarrow> st\<lparr>rs_cycle := Some (c\<lparr>yv_stage := stage, yv_deadline := deadline\<rparr>)\<rparr>)"

definition red_dispatch :: "realtime_state \<Rightarrow> envelope \<Rightarrow> realtime_state" where
  "red_dispatch st e =
     (case e_payload e of
        AgentP p \<Rightarrow> red_agent_event st e p
      | TaskP p \<Rightarrow> red_task_event st e p
      | CompanyP p \<Rightarrow> red_company_event st e p
      | _ \<Rightarrow> st)"

definition red_apply :: "realtime_state \<Rightarrow> envelope \<Rightarrow> realtime_state \<times> bool" where
  "red_apply st e =
     (case e_seq e of
        None \<Rightarrow> (st, False)
      | Some q \<Rightarrow>
          if q \<le> rs_last_seq st \<or> e_company_id e \<noteq> rs_company_id st then (st, False)
          else (red_dispatch (st\<lparr>rs_last_seq := q, rs_recent := push_recent (rs_recent st) [e]\<rparr>) e, True))"

definition red_fold :: "envelope list \<Rightarrow> realtime_state \<Rightarrow> realtime_state" where
  "red_fold es st = fold (\<lambda>e acc. fst (red_apply acc e)) es st"

section \<open>The view\<close>

definition red_effective :: "activity_view \<Rightarrow> instant \<Rightarrow> activity_state" where
  "red_effective a now =
     (if av_stored_state a = A_COMPLETED then
        (case display_until (d_payload (av_detail a)) of
           Some until \<Rightarrow> if until \<le> now then A_IDLE else av_stored_state a
         | None \<Rightarrow> av_stored_state a)
      else av_stored_state a)"

definition red_view :: "realtime_state \<Rightarrow> instant \<Rightarrow> snapshot" where
  "red_view st now =
     \<lparr>sn_company_id = rs_company_id st, sn_last_seq = rs_last_seq st, sn_server_time = now,
      sn_agents = List.map_filter (\<lambda>(i, g).
        map_option (\<lambda>a.
          \<lparr>gv_id = da_id g, gv_role = da_role g, gv_display_name = da_display_name g,
           gv_avatar_key = da_avatar_key g, gv_department_id = da_department_id g,
           gv_department_key = da_department_key g, gv_office_zone_key = da_office_zone_key g,
           gv_business_unit_key = da_business_unit_key g,
           gv_activity = a\<lparr>av_state := red_effective a now\<rparr>\<rparr>) (da_activity g)) (rs_agents st),
      sn_tasks = map snd (filter (\<lambda>(i, t).
        \<not> is_finished (tv_state t) \<or> tv_since t > now - FINISHED_TASK_WINDOW) (rs_tasks st)),
      sn_recent_events = rs_recent st, sn_cycle = rs_cycle st\<rparr>"

end
