(* ===== verification/Mirror.thy ===== *)
theory Mirror
  imports Runtime Reducer
begin

text \<open>
  What the realtime reducer shows of a task agrees with the task's row. The view of a task is a
  fold over the events of the log; an operation of the task manager moves the row and then emits
  the event that moves the view, and between the two the task is the open one of the
  transaction. \<open>Mi K\<close> says that every view agrees with its row, but for the tasks in \<open>K\<close>, which
  have already succeeded and whose event is about to be emitted by the transaction in progress.
\<close>

section \<open>The view of one task\<close>

definition step_view :: "uuid \<Rightarrow> uuid \<Rightarrow> envelope \<Rightarrow> task_view option \<Rightarrow> task_view option" where
  "step_view c i e v =
     (if e_company_id e = c \<and> e_task_id e = Some i then
        (case e_payload e of
           TaskP p \<Rightarrow> if is_created p then Some (created_task e i p) else map_option (red_task e p) v
         | _ \<Rightarrow> v)
      else v)"

definition view_of :: "uuid \<Rightarrow> uuid \<Rightarrow> envelope list \<Rightarrow> task_view option" where
  "view_of c i es = fold (step_view c i) es None"

lemma view_of_snoc: "view_of c i (es @ [e]) = step_view c i e (view_of c i es)"
  by (simp add: view_of_def)

lemma step_view_other: "\<not> (is_task_event e \<and> e_task_id e = Some i) \<Longrightarrow> step_view c i e v = v"
  by (auto simp: step_view_def is_task_event_iff split: payload.splits)

lemma view_of_other:
  "(\<And>e. e \<in> set new \<Longrightarrow> \<not> (is_task_event e \<and> e_task_id e = Some i)) \<Longrightarrow> view_of c i (es @ new) = view_of c i es"
proof (induction new rule: rev_induct)
  case (snoc e new)
  then have "view_of c i ((es @ new) @ [e]) = view_of c i (es @ new)"
    unfolding view_of_snoc by (intro step_view_other) simp
  then show ?case using snoc by simp
qed simp

lemma last_task_event_other:
  "(\<And>e. e \<in> set new \<Longrightarrow> \<not> (is_task_event e \<and> e_task_id e = Some i)) \<Longrightarrow>
   last_task_event (es @ new) i = last_task_event es i"
  by (auto simp: last_task_event_def intro!: arg_cong [of _ _ last_some] simp: filter_empty_conv)

lemma last_task_event_snoc:
  "is_task_event e \<Longrightarrow> e_task_id e = Some i \<Longrightarrow> last_task_event (es @ [e]) i = Some e"
  by (simp add: last_task_event_def last_some_def first_some_def)

text \<open>A client of company \<open>c\<close> before the first event.\<close>

definition blank_client :: "uuid \<Rightarrow> realtime_state" where
  "blank_client c = \<lparr>rs_company_id = c, rs_last_seq = 0, rs_cycle = None, rs_agents = [], rs_tasks = [], rs_recent = []\<rparr>"

lemma red_agent_tasks: "rs_tasks (red_agent_event st e p) = rs_tasks st"
  by (cases p) (simp_all add: red_activity_event_def split: option.splits)

lemma red_company_tasks: "rs_tasks (red_company_event st e p) = rs_tasks st"
  by (cases p) (simp_all split: option.splits)

lemma red_dispatch_tasks:
  assumes "rs_company_id st = c" "e_company_id e = c"
  shows "map_of (rs_tasks (red_dispatch st e)) i = step_view c i e (map_of (rs_tasks st) i)"
proof (cases "e_payload e")
  case (TaskP p)
  then show ?thesis
    using assms by (auto simp: red_dispatch_def red_task_event_def step_view_def split: option.splits)
qed (use assms in \<open>simp_all add: red_dispatch_def step_view_def red_agent_tasks red_company_tasks\<close>)

lemma red_frame:
  "rs_company_id (red_dispatch st e) = rs_company_id st" "rs_last_seq (red_dispatch st e) = rs_last_seq st"
proof -
  have a: "rs_company_id (red_agent_event st e p) = rs_company_id st \<and> rs_last_seq (red_agent_event st e p) = rs_last_seq st" for p
    by (cases p) (simp_all add: red_activity_event_def split: option.splits)
  have b: "rs_company_id (red_company_event st e p) = rs_company_id st \<and> rs_last_seq (red_company_event st e p) = rs_last_seq st" for p
    by (cases p) (simp_all split: option.splits)
  show "rs_company_id (red_dispatch st e) = rs_company_id st" "rs_last_seq (red_dispatch st e) = rs_last_seq st"
    using a b by (auto simp: red_dispatch_def red_task_event_def split: payload.splits option.splits)
qed

lemma red_fold_snoc: "red_fold (es @ [e]) st = fst (red_apply (red_fold es st) e)"
  by (simp add: red_fold_def)

definition numbered :: "envelope list \<Rightarrow> bool" where
  "numbered es \<longleftrightarrow> sorted_wrt (<) (map seq_of es) \<and> (\<forall>e \<in> set es. e_seq e \<noteq> None \<and> 0 < seq_of e)"

lemma numbered_snoc:
  "numbered (es @ [e]) \<longleftrightarrow> numbered es \<and> e_seq e \<noteq> None \<and> 0 < seq_of e \<and> (\<forall>e' \<in> set es. seq_of e' < seq_of e)"
  by (auto simp: numbered_def sorted_wrt_append)

text \<open>The reducer, folded over an ordered log, computes the view of every task of its company.\<close>

lemma red_fold_view:
  assumes "numbered es"
  shows "rs_company_id (red_fold es (blank_client c)) = c \<and>
    (\<forall>q. 0 < q \<and> (\<forall>e \<in> set es. seq_of e < q) \<longrightarrow> rs_last_seq (red_fold es (blank_client c)) < q) \<and>
    map_of (rs_tasks (red_fold es (blank_client c))) i = view_of c i es"
  using assms
proof (induction es rule: rev_induct)
  case Nil
  then show ?case by (simp add: red_fold_def blank_client_def view_of_def)
next
  case (snoc e es)
  let ?st = "red_fold es (blank_client c)"
  have n: "numbered es" "e_seq e = Some (seq_of e)" "0 < seq_of e" "\<forall>e' \<in> set es. seq_of e' < seq_of e"
    using snoc.prems by (auto simp: numbered_snoc seq_of_def)
  then have st: "rs_company_id ?st = c" "rs_last_seq ?st < seq_of e" "map_of (rs_tasks ?st) i = view_of c i es"
    using snoc.IH by auto
  show ?case
  proof (cases "e_company_id e = c")
    case False
    then have "red_apply ?st e = (?st, False)" using st n(2) by (simp add: red_apply_def)
    moreover have "step_view c i e (view_of c i es) = view_of c i es" using False by (simp add: step_view_def)
    ultimately show ?thesis using snoc.IH n by (auto simp: red_fold_snoc view_of_snoc)
  next
    case True
    let ?u = "?st\<lparr>rs_last_seq := seq_of e, rs_recent := push_recent (rs_recent ?st) [e]\<rparr>"
    have "red_apply ?st e = (red_dispatch ?u e, True)" using True st n(2) by (simp add: red_apply_def)
    moreover have "map_of (rs_tasks (red_dispatch ?u e)) i = step_view c i e (view_of c i es)"
      using red_dispatch_tasks [of ?u c e i] True st by simp
    ultimately show ?thesis using st by (auto simp: red_fold_snoc view_of_snoc red_frame)
  qed
qed

section \<open>Steps that no view sees\<close>

named_theorems quiet_intros \<open>steps that leave the rows of tasks and the events about them alone\<close>

definition quiet_step :: "db \<Rightarrow> db \<Rightarrow> bool" where
  "quiet_step s s' \<longleftrightarrow> tasks s' = tasks s \<and> clock s' = clock s \<and>
     (\<exists>new. events s' = events s @ new \<and> (\<forall>e \<in> set new. \<not> is_task_event e))"

abbreviation quiet :: "'a db_tx \<Rightarrow> bool" where
  "quiet \<equiv> obeys quiet_step"

interpretation quiet: step_preorder quiet_step
proof
  show "quiet_step s s" for s by (simp add: quiet_step_def)
  show "quiet_step s t \<Longrightarrow> quiet_step t u \<Longrightarrow> quiet_step s u" for s t u
    unfolding quiet_step_def by (elim conjE exE) (force simp: ball_Un)
qed

lemmas [quiet_intros] = quiet.basic quiet.branches quiet.loops quiet.savepoint

lemma quiet_modify: "(\<And>s. tasks (f s) = tasks s \<and> events (f s) = events s \<and> clock (f s) = clock s) \<Longrightarrow> quiet (modifyT f)"
  by (rule obeys_modify) (simp add: quiet_step_def)

lemma quiet_uuid7 [quiet_intros]: "quiet uuid7"
  by (rule obeysI) (auto simp: uuid7_def quiet_step_def)

lemma quiet_emit: "\<not> is_task_event e \<Longrightarrow> quiet (emit e)"
  by (rule obeysI) (auto simp: quiet_step_def is_task_event_def e_event_type_def dest!: emit_effect)

text \<open>An event that is made and then sent.\<close>

lemma quiet_new_event:
  assumes "\<And>q. p \<noteq> TaskP q" "\<And>e. quiet (k e)"
  shows "quiet (bindT (new_event p c actor at1 ai refs o1) (\<lambda>e. bindT (emit e) k))"
proof (rule obeysI)
  fix s x s'
  assume run: "bindT (new_event p c actor at1 ai refs o1) (\<lambda>e. bindT (emit e) k) s = Inr (x, s')"
  then obtain e s1 where "new_event p c actor at1 ai refs o1 s = Inr (e, s1)" and rest: "bindT (emit e) k s1 = Inr (x, s')"
    by (auto simp: bindT_Inr_iff)
  then have e: "e_payload e = p" and q1: "quiet_step s s1"
    by (auto simp: new_event_def tx_run uuid7_def quiet_step_def)
  have "\<not> is_task_event e" using assms(1) e by (simp add: is_task_event_iff)
  then have "quiet (bindT (emit e) k)" by (intro quiet.bind quiet_emit assms(2))
  then show "quiet_step s s'" using rest q1 obeysD quiet.trans by metis
qed

lemma quiet_get [quiet_intros]:
  "quiet (get_task i)" "quiet (get_run i)" "quiet (get_agent i)" "quiet (get_workflow i)" "quiet (get_approval i)"
  by (simp_all add: get_task_def get_run_def get_agent_def get_workflow_def get_approval_def quiet.rules)

lemma quiet_rows [quiet_intros]: "quiet (upd_run i f)" "quiet (upd_workflow i g)" "quiet (upd_approval i h)"
  by (auto simp: upd_run_def upd_workflow_def upd_approval_def intro!: quiet_modify)

lemma quiet_add_transition: "quiet (add_transition e c i a b actor reason)"
  unfolding add_transition_def Let_def by (intro quiet.bind quiet_intros quiet_modify) simp

lemma quiet_transition:
  assumes "quiet (ent_get ent)" "\<And>st. quiet (ent_set_state ent st)"
  shows "quiet (transition m ent st actor reason)"
  unfolding transition_def by (intro quiet.bind quiet_intros assms quiet_add_transition)

lemma quiet_transitions [quiet_intros]:
  "quiet (run_transition i st actor reason)" "quiet (workflow_transition i wst actor reason)"
  "quiet (approval_transition i ast actor reason)"
  unfolding run_transition_def workflow_transition_def approval_transition_def
  by (rule quiet_transition; simp add: run_entity_def workflow_entity_def approval_entity_def quiet_intros)+

lemma quiet_write_activity [quiet_intros]: "quiet (write_activity ag p st actor cur cx)"
  unfolding write_activity_def Let_def
  by (intro quiet.bind [OF quiet.basic(3)] quiet_new_event)
    (auto intro!: quiet.bind quiet.rules quiet_modify simp: upsert_activity_def)

lemma quiet_activity [quiet_intros]:
  "quiet (set_activity ag p actor cx)" "quiet (set_activity_unless_paused ag p actor cx)"
  "quiet (initialize_activity ag actor)"
  unfolding set_activity_def set_activity_unless_paused_def initialize_activity_def
  by (intro quiet.bind quiet_intros)+

lemma quiet_tm_emit [quiet_intros]: "quiet (tm_emit i (AgentP p) r)"
  unfolding tm_emit_def Let_def
  by (intro quiet.bind [OF quiet_get(1)] quiet.bind [OF quiet.branches(2)] quiet_new_event)
    (auto intro!: quiet.bind quiet_intros)

lemma quiet_tm_activity [quiet_intros]: "quiet (tm_activity a p i r)"
  unfolding tm_activity_def by (intro quiet.bind quiet_intros)

lemma quiet_mark_idle [quiet_intros]: "quiet (mark_idle_agents_waiting i)"
  unfolding mark_idle_agents_waiting_def by (intro quiet.bind quiet_intros)

lemma quiet_claim [quiet_intros]: "quiet (locked_task c)" "quiet (claimed_run c)"
  unfolding locked_task_def claimed_run_def by (intro quiet.bind quiet_intros)+

lemma quiet_finish_run [quiet_intros]: "quiet (finish_run r target now)"
  unfolding finish_run_def by (intro quiet.bind quiet_intros)

lemma quiet_abort_run [quiet_intros]: "quiet (abort_run r reason message)"
  unfolding abort_run_def by (intro quiet.bind quiet_intros)

lemma quiet_engine_emit [quiet_intros]: "quiet (engine_emit run_id p)"
  unfolding engine_emit_def by (intro quiet.bind [OF quiet_get(4)] quiet_new_event) (auto intro!: quiet_intros)

lemma quiet_list_case [quiet_intros]:
  "quiet m \<Longrightarrow> (\<And>x xs. quiet (f x xs)) \<Longrightarrow> quiet (case l of [] \<Rightarrow> m | x # xs \<Rightarrow> f x xs)"
  by (cases l) simp_all

lemma quiet_close [quiet_intros]: "quiet (close_run run_id rows)" "quiet (close_if_done run_id siblings)"
proof -
  show close: "quiet (close_run run_id rows)" for rows
    unfolding close_run_def Let_def by (intro quiet.bind quiet_intros)
  show "quiet (close_if_done run_id siblings)"
    unfolding close_if_done_def by (intro quiet.bind quiet_intros close)
qed

lemma quiet_approval_emit [quiet_intros]: "quiet (approval_emit i p actor)"
  unfolding approval_emit_def by (intro quiet.bind [OF quiet_get(5)] quiet_new_event) (auto intro!: quiet_intros)

lemma quiet_create_approval [quiet_intros]: "quiet (create_approval svc rq)"
  unfolding create_approval_def Let_def by (intro quiet.bind quiet_intros quiet_modify) simp_all

section \<open>Rows and views\<close>

text \<open>What a view shows of a row, but for its state, and with the attempt the last event told.\<close>

definition matches :: "task \<Rightarrow> envelope list \<Rightarrow> nat \<Rightarrow> task_view \<Rightarrow> bool" where
  "matches t es a v \<longleftrightarrow>
     view_of (t_company_id t) (t_id t) es = Some v \<and>
     (\<exists>e. last_task_event es (t_id t) = Some e \<and> tv_since v = e_occurred_at e \<and> tv_last_event_seq v = seq_of e) \<and>
     tv_id v = t_id t \<and> tv_name v = t_name t \<and> tv_display_name v = t_display_name t \<and>
     tv_required_role v = t_required_role t \<and> tv_workflow_run_id v = t_workflow_run_id t \<and> tv_attempt v = a"

definition agrees :: "uuid set \<Rightarrow> task \<Rightarrow> envelope list \<Rightarrow> bool" where
  "agrees K t es \<longleftrightarrow> (\<exists>v. matches t es (t_attempt t) v \<and>
     (if t_id t \<in> K then t_state t = T_SUCCEEDED else tv_state v = t_state t))"

definition mirrored :: "uuid set \<Rightarrow> uuid set \<Rightarrow> db \<Rightarrow> bool" where
  "mirrored K J s \<longleftrightarrow> distinct (map t_id (tasks s)) \<and> K \<subseteq> t_id ` set (tasks s) \<and>
     (\<forall>t \<in> set (tasks s). t_id t \<notin> J \<longrightarrow> agrees K t (events s))"

definition Mi :: "uuid set \<Rightarrow> db \<Rightarrow> bool" where
  "Mi K = mirrored K {}"

text \<open>The task \<open>i\<close> is open: its row is \<open>t\<close>, and its view shows the attempt \<open>a\<close> and some state.\<close>

definition At :: "uuid set \<Rightarrow> uuid \<Rightarrow> task \<Rightarrow> nat \<Rightarrow> db \<Rightarrow> bool" where
  "At K i t a s \<longleftrightarrow> mirrored K {i} s \<and> i \<notin> K \<and> task_of s i = Some t \<and> (\<exists>v. matches t (events s) a v)"

lemma At_id: "At K i t a s \<Longrightarrow> t_id t = i"
  by (auto simp: At_def task_of_def dest: find_row_key)

lemma quiet_view:
  assumes "quiet_step s s'"
  shows "tasks s' = tasks s" "view_of c i (events s') = view_of c i (events s)"
    "last_task_event (events s') i = last_task_event (events s) i"
proof -
  obtain new where "events s' = events s @ new" "\<forall>e \<in> set new. \<not> is_task_event e" "tasks s' = tasks s"
    using assms by (auto simp: quiet_step_def)
  then show "tasks s' = tasks s" "view_of c i (events s') = view_of c i (events s)"
    "last_task_event (events s') i = last_task_event (events s) i"
    using view_of_other [of new i c "events s"] last_task_event_other [of new i "events s"] by auto
qed

lemma quiet_mirrored: "quiet_step s s' \<Longrightarrow> mirrored K J s \<Longrightarrow> mirrored K J s'"
  by (simp add: mirrored_def agrees_def matches_def quiet_view)

lemma Mi_quiet: "quiet m \<Longrightarrow> keeps (Mi K) m"
  by (rule keepsI) (auto simp: Mi_def intro: quiet_mirrored dest: obeysD)

lemma At_quiet: "quiet m \<Longrightarrow> (\<And>x. triple (At K i t a) (k x) Q) \<Longrightarrow> triple (At K i t a) (bindT m k) Q"
proof (rule triple_bind [where R = "\<lambda>_. At K i t a"], rule tripleI)
  fix s x s'
  assume "quiet m" "At K i t a s" "m s = Inr (x, s')"
  then show "At K i t a s'"
    using obeysD [of quiet_step m s x s'] quiet_mirrored [of s s' K "{i}"] quiet_view [of s s']
    by (auto simp: At_def task_of_def matches_def)
qed

section \<open>Opening and closing\<close>

lemma Mi_open:
  assumes "Mi K s" "task_of s i = Some t" "t_state t \<noteq> T_SUCCEEDED"
  shows "At K i t (t_attempt t) s"
proof -
  have t: "t \<in> set (tasks s)" "t_id t = i" using assms(2) by (auto simp: task_of_def dest: find_row_in find_row_key)
  then have "agrees K t (events s)" using assms(1) by (simp add: Mi_def mirrored_def)
  then show ?thesis using assms t by (auto simp: At_def Mi_def mirrored_def agrees_def split: if_splits)
qed

lemma At_close:
  assumes "At K i t a s" "matches t (events s) (t_attempt t) v" "tv_state v = t_state t"
  shows "Mi K s"
proof -
  have "agrees K u (events s)" if u: "u \<in> set (tasks s)" for u
  proof (cases "t_id u = i")
    case True
    have "distinct (map t_id (tasks s))" using assms(1) by (simp add: At_def mirrored_def)
    then have "u = t" using find_row_unique [of t_id "tasks s" u] u True assms(1) by (simp add: At_def task_of_def)
    then show ?thesis using assms True by (auto simp: agrees_def At_def)
  next
    case False
    with assms(1) u show ?thesis by (simp add: At_def mirrored_def)
  qed
  then show ?thesis using assms(1) by (simp add: At_def Mi_def mirrored_def)
qed

text \<open>A task that succeeded, while the engine is told: its event comes later.\<close>

lemma At_lend:
  assumes A: "At K i t (t_attempt t) s" and st: "t_state t = T_SUCCEEDED"
  shows "Mi (insert i K) s"
proof -
  have "agrees (insert i K) u (events s)" if u: "u \<in> set (tasks s)" for u
  proof (cases "t_id u = i")
    case True
    have "distinct (map t_id (tasks s))" using A by (simp add: At_def mirrored_def)
    then have "u = t" using find_row_unique [of t_id "tasks s" u] u True A by (simp add: At_def task_of_def)
    then show ?thesis using A st True by (auto simp: agrees_def At_def)
  next
    case False
    with A u show ?thesis by (simp add: At_def mirrored_def agrees_def)
  qed
  moreover have "i \<in> t_id ` set (tasks s)"
    using A find_row_in [of t_id i "tasks s" t] find_row_key [of t_id i "tasks s" t] by (auto simp: At_def task_of_def)
  ultimately show ?thesis using A by (simp add: At_def Mi_def mirrored_def)
qed

lemma At_regain:
  assumes M: "Mi (insert i K) s" and i: "i \<notin> K"
  shows "\<exists>t. At K i t (t_attempt t) s \<and> t_state t = T_SUCCEEDED"
proof -
  obtain t where t: "t \<in> set (tasks s)" "t_id t = i" using M by (auto simp: Mi_def mirrored_def)
  have d: "distinct (map t_id (tasks s))" using M by (simp add: Mi_def mirrored_def)
  have "agrees (insert i K) t (events s)" using M t(1) by (simp add: Mi_def mirrored_def)
  then obtain v where v: "matches t (events s) (t_attempt t) v" "t_state t = T_SUCCEEDED"
    using t(2) by (auto simp: agrees_def)
  have "agrees K u (events s)" if "u \<in> set (tasks s)" "t_id u \<noteq> i" for u
  proof -
    have "agrees (insert i K) u (events s)" using M that(1) by (simp add: Mi_def mirrored_def)
    then show ?thesis using that(2) by (simp add: agrees_def)
  qed
  then have "mirrored K {i} s" using M by (simp add: Mi_def mirrored_def)
  then show ?thesis using find_row_unique [of t_id "tasks s" t] d t i v by (auto simp: At_def task_of_def)
qed

lemma At_hook:
  assumes hook: "keeps (Mi (insert i K)) m"
    and st: "t_state t = T_SUCCEEDED"
    and k: "\<And>x u. t_state u = T_SUCCEEDED \<Longrightarrow> triple (At K i u (t_attempt u)) (k x) Q"
  shows "triple (At K i t (t_attempt t)) (bindT m k) Q"
proof (rule tripleI)
  fix s y s''
  assume A: "At K i t (t_attempt t) s" and run: "bindT m k s = Inr (y, s'')"
  from run obtain x s' where 1: "m s = Inr (x, s')" and 2: "k x s' = Inr (y, s'')" by (auto simp: bindT_Inr_iff)
  have "Mi (insert i K) s'" using keepsD [OF hook At_lend [OF A st] 1] .
  then obtain u where "At K i u (t_attempt u) s'" "t_state u = T_SUCCEEDED"
    using At_regain [of i K s'] A by (auto simp: At_def)
  with k [of u x] 2 show "Q y s''" by (auto dest: tripleD)
qed

section \<open>Steps on the open task\<close>

text \<open>A note on a row: its columns the view shows stay.\<close>

definition same_face :: "(task \<Rightarrow> task) \<Rightarrow> bool" where
  "same_face f \<longleftrightarrow> (\<forall>t. t_id (f t) = t_id t \<and> t_company_id (f t) = t_company_id t \<and> t_name (f t) = t_name t \<and>
     t_display_name (f t) = t_display_name t \<and> t_required_role (f t) = t_required_role t \<and>
     t_workflow_run_id (f t) = t_workflow_run_id t)"

lemma matches_face: "same_face f \<Longrightarrow> matches (f t) es a v \<longleftrightarrow> matches t es a v"
  by (simp add: same_face_def matches_def)

lemma mirrored_row:
  assumes "mirrored K {i} s" "same_face f"
  shows "mirrored K {i} (s\<lparr>tasks := update_row t_id i f (tasks s)\<rparr>)"
proof -
  have keys: "map t_id (update_row t_id i f (tasks s)) = map t_id (tasks s)"
    using assms(2) by (intro update_row_keys) (simp add: same_face_def)
  have "agrees K u (events s)" if "u \<in> set (update_row t_id i f (tasks s))" "t_id u \<noteq> i" for u
    using set_update_row [OF that(1)] that(2) assms by (auto simp: mirrored_def same_face_def)
  moreover have "t_id ` set (update_row t_id i f (tasks s)) = t_id ` set (tasks s)"
    using arg_cong [OF keys, of set] by simp
  ultimately show ?thesis using assms(1) keys by (simp add: mirrored_def)
qed

lemma At_row:
  assumes "At K i t a s" "same_face f"
  shows "At K i (f t) a (s\<lparr>tasks := update_row t_id i f (tasks s)\<rparr>)"
  using assms mirrored_row [of K i s f] find_update_same [of t_id i "tasks s" t f] matches_face [of f t]
  by (auto simp: At_def task_of_def same_face_def)

lemma At_upd_task:
  assumes "same_face f" "triple (At K i (f t) a) (k ()) Q"
  shows "triple (At K i t a) (bindT (upd_task i f) k) Q"
proof (rule triple_bind [where R = "\<lambda>_. At K i (f t) a"])
  show "triple (At K i t a) (upd_task i f) (\<lambda>_. At K i (f t) a)"
    using At_row [OF _ assms(1)] by (auto simp: triple_def upd_task_def tx_run)
  show "triple (At K i (f t) a) (k x) Q" for x :: unit using assms(2) by simp
qed

lemma At_get_task:
  assumes "triple (At K i t a) (k t) Q"
  shows "triple (At K i t a) (bindT (get_task i) k) Q"
proof (rule tripleI)
  fix s x s'
  assume A: "At K i t a s" and run: "bindT (get_task i) k s = Inr (x, s')"
  then have "k t s = Inr (x, s')" by (auto simp: get_task_def tx_run At_def)
  with assms A show "Q x s'" by (rule tripleD)
qed

lemma face_state: "same_face (\<lambda>t. t\<lparr>t_state := st\<rparr>)"
  by (simp add: same_face_def)

lemma Mi_log: "Mi K s \<Longrightarrow> Mi K (s\<lparr>next_id := n, audit := l\<rparr>)"
  by (simp add: Mi_def mirrored_def)

lemma At_log: "At K i t a s \<Longrightarrow> At K i t a (s\<lparr>next_id := n, audit := l\<rparr>)"
  by (simp add: At_def mirrored_def task_of_def)

lemma At_transition_run:
  assumes A: "At K i t a s" and run: "task_transition i st actor reason s = Inr (x, s')"
  shows "At K i (t\<lparr>t_state := st\<rparr>) a s'"
  using run
proof (rule task_transition_effect)
  fix u assume s': "s' = s\<lparr>tasks := update_row t_id i (\<lambda>t. t\<lparr>t_state := st\<rparr>) (tasks s),
            next_id := Suc (next_id s), audit := audit s @ [x]\<rparr>"
  show ?thesis using At_log [OF At_row [OF A face_state [of st]], where n = "Suc (next_id s)" and l = "audit s @ [x]"] by (simp add: s')
qed

lemma At_transition:
  "(\<And>x. triple (At K i (t\<lparr>t_state := st\<rparr>) a) (k x) Q) \<Longrightarrow>
   triple (At K i t a) (bindT (task_transition i st actor reason) k) Q"
  by (rule triple_bind [where R = "\<lambda>_. At K i (t\<lparr>t_state := st\<rparr>) a"]) (auto simp: triple_def intro: At_transition_run)

text \<open>A transition opens the task it moves: a task that succeeded cannot be moved.\<close>

lemma Mi_transition:
  assumes k: "\<And>t x. t_id t = i \<Longrightarrow> triple (At K i (t\<lparr>t_state := st\<rparr>) (t_attempt t)) (k x) Q"
  shows "triple (Mi K) (bindT (task_transition i st actor reason) k) Q"
proof (rule tripleI)
  fix s y s''
  assume M: "Mi K s" and run: "bindT (task_transition i st actor reason) k s = Inr (y, s'')"
  from run obtain x s' where 1: "task_transition i st actor reason s = Inr (x, s')" and 2: "k x s' = Inr (y, s'')"
    by (auto simp: bindT_Inr_iff)
  obtain t where t: "task_of s i = Some t" "st \<in> set (targets TASK_FSM (t_state t))"
    using 1 by (rule task_transition_effect)
  have "t_state t \<noteq> T_SUCCEEDED" using t(2) by (auto simp: targets_def TASK_FSM_def)
  then have "At K i t (t_attempt t) s" using Mi_open [OF M t(1)] by simp
  then have "At K i (t\<lparr>t_state := st\<rparr>) (t_attempt t) s'" using 1 by (rule At_transition_run)
  moreover have "t_id t = i" using t(1) by (auto simp: task_of_def dest: find_row_key)
  ultimately show "Q y s''" using k 2 by (blast dest: tripleD)
qed

text \<open>A note on any task, open or not.\<close>

lemma Mi_note:
  assumes f: "same_face f" "\<And>t. t_state (f t) = t_state t" "\<And>t. t_attempt (f t) = t_attempt t"
  shows "keeps (Mi K) (upd_task i f)"
proof (rule keepsI)
  fix s and x :: unit and s'
  assume M: "Mi K s" and run: "upd_task i f s = Inr (x, s')"
  let ?T = "update_row t_id i f (tasks s)"
  have keys: "map t_id ?T = map t_id (tasks s)" using f(1) by (intro update_row_keys) (simp add: same_face_def)
  have ag: "agrees K (f t) (events s) = agrees K t (events s)" for t
    using f by (simp add: agrees_def matches_face) (simp add: same_face_def)
  have "agrees K u (events s)" if "u \<in> set ?T" for u
    using set_update_row [OF that] M ag by (auto simp: Mi_def mirrored_def)
  moreover have "t_id ` set ?T = t_id ` set (tasks s)" using arg_cong [OF keys, of set] by simp
  ultimately show "Mi K s'" using M run keys by (auto simp: Mi_def mirrored_def upd_task_def tx_run)
qed

section \<open>Events about the open task\<close>

lemma tm_emit_effect:
  assumes "tm_emit i p r s = Inr (x, s')"
  shows "\<exists>t e. task_of s i = Some t \<and> e_company_id e = t_company_id t \<and> e_task_id e = Some (t_id t) \<and>
    e_payload e = p \<and> tasks s' = tasks s \<and> events s' = events s @ [e]"
proof -
  obtain t where t: "task_of s i = Some t"
    using assms by (auto simp: tm_emit_def get_task_def tx_run split: option.splits)
  show ?thesis
    using assms t by (cases r) (auto simp: tm_emit_def Let_def get_task_def get_run_def new_event_def uuid7_def tx_run
        split: option.splits sum.splits dest!: emit_effect)
qed

text \<open>What the view of the open task becomes.\<close>

lemma At_emit_run:
  assumes A: "At K i t a s" and run: "tm_emit i (TaskP p) r s = Inr (x, s')" and p: "\<not> is_created p"
  obtains e v where "e_payload e = TaskP p" "matches t (events s') (tv_attempt (red_task e p v)) (red_task e p v)"
    "tv_attempt v = a" "mirrored K {i} s'" "tasks s' = tasks s"
proof -
  obtain u e where u: "task_of s i = Some u" and e: "e_company_id e = t_company_id u" "e_task_id e = Some (t_id u)"
    "e_payload e = TaskP p" and t': "tasks s' = tasks s" and ev: "events s' = events s @ [e]"
    using tm_emit_effect [OF run] by blast
  have [simp]: "u = t" "t_id t = i" using A u At_id [OF A] by (simp_all add: At_def)
  obtain v where v: "matches t (events s) a v" using A by (auto simp: At_def)
  have task: "is_task_event e" using e(3) by (auto simp: is_task_event_iff)
  have "view_of (t_company_id t) i (events s') = Some (red_task e p v)"
    using v e p by (simp add: ev view_of_snoc step_view_def matches_def)
  moreover have "last_task_event (events s') i = Some e" using task e(2) by (simp add: ev last_task_event_snoc)
  moreover have "tv_since (red_task e p v) = e_occurred_at e \<and> tv_last_event_seq (red_task e p v) = seq_of e \<and>
      tv_id (red_task e p v) = tv_id v \<and> tv_name (red_task e p v) = tv_name v \<and>
      tv_display_name (red_task e p v) = tv_display_name v \<and> tv_required_role (red_task e p v) = tv_required_role v \<and>
      tv_workflow_run_id (red_task e p v) = tv_workflow_run_id v"
    by (cases p) (simp_all add: red_task_def split: option.splits)
  ultimately have m: "matches t (events s') (tv_attempt (red_task e p v)) (red_task e p v)"
    using v by (simp add: matches_def)
  have "agrees K w (events s')" if w: "w \<in> set (tasks s)" "t_id w \<noteq> i" for w
  proof -
    have "\<not> (is_task_event e' \<and> e_task_id e' = Some (t_id w))" if "e' \<in> set [e]" for e' using that e(2) w(2) by simp
    then have "agrees K w (events s') = agrees K w (events s)"
      using view_of_other [of "[e]" "t_id w" "t_company_id w" "events s"] last_task_event_other [of "[e]" "t_id w" "events s"]
      by (simp add: ev agrees_def matches_def)
    then show ?thesis using A w by (simp add: At_def mirrored_def)
  qed
  then have "mirrored K {i} s'" using A t' by (simp add: At_def mirrored_def)
  with m e(3) v t' that show thesis by (auto simp: matches_def)
qed

text \<open>When the event makes the view agree with the row again.\<close>

fun settles :: "task_payload \<Rightarrow> task \<Rightarrow> nat \<Rightarrow> bool" where
  "settles (TaskStarted r ag n) t a = (t_state t = T_RUNNING \<and> n = t_attempt t)"
| "settles (TaskFailed r final ec) t a = (final \<and> t_state t = T_FAILED \<and> a = t_attempt t)"
| "settles p t a = (red_task_state p = Some (t_state t) \<and> a = t_attempt t)"

lemma settles_view:
  assumes "settles p t (tv_attempt v)" "\<not> is_created p"
  shows "tv_state (red_task e p v) = t_state t \<and> tv_attempt (red_task e p v) = t_attempt t"
  using assms by (cases p) (auto simp: red_task_def)

lemma At_settle:
  assumes "settles p t a" "\<not> is_created p" "\<And>x. triple (Mi K) (k x) Q"
  shows "triple (At K i t a) (bindT (tm_emit i (TaskP p) r) k) Q"
proof (rule triple_bind [where R = "\<lambda>_. Mi K"], rule tripleI)
  fix s x s'
  assume A: "At K i t a s" and run: "tm_emit i (TaskP p) r s = Inr (x, s')"
  obtain e v where v: "matches t (events s') (tv_attempt (red_task e p v)) (red_task e p v)"
    "tv_attempt v = a" "mirrored K {i} s'" "tasks s' = tasks s"
    using A run assms(2) by (rule At_emit_run)
  have w: "tv_state (red_task e p v) = t_state t" "tv_attempt (red_task e p v) = t_attempt t"
    using settles_view [of p t v e] assms(1,2) v(2) by simp_all
  have "At K i t (t_attempt t) s'" using A v w by (auto simp: At_def task_of_def)
  then show "Mi K s'" using v(1) w by (auto intro: At_close)
qed (use assms in auto)

text \<open>A failed attempt that is retried does not move the view.\<close>

lemma At_retry:
  assumes "\<And>x. triple (At K i t a) (k x) Q"
  shows "triple (At K i t a) (bindT (tm_emit i (TaskP (TaskFailed u False ec)) r) k) Q"
proof (rule triple_bind [where R = "\<lambda>_. At K i t a"], rule tripleI)
  fix s x s'
  assume A: "At K i t a s" and run: "tm_emit i (TaskP (TaskFailed u False ec)) r s = Inr (x, s')"
  let ?p = "TaskFailed u False ec"
  obtain e v where v: "matches t (events s') (tv_attempt (red_task e ?p v)) (red_task e ?p v)"
    "tv_attempt v = a" "mirrored K {i} s'" "tasks s' = tasks s"
    using A run by (rule At_emit_run) simp
  then show "At K i t a s'" using A by (auto simp: At_def task_of_def red_task_def)
qed (use assms in auto)

end
