(* ===== verification/TaskProps.thy ===== *)
theory TaskProps
  imports RuntimeProps Mirror
begin

text \<open>
  What the operations of the task manager do: which task a claim takes and that there is one
  whenever there is work, how a failed attempt ends, and that the reaper collects every lease that
  ran out.
\<close>

section \<open>Claims\<close>

lemma sort_key_first:
  assumes "first_some (sort_key k xs) = Some x"
  shows "find (\<lambda>y. k y = k x) xs = Some x \<and> (\<forall>y \<in> set xs. k x \<le> k y)"
proof -
  obtain ys where ys: "sort_key k xs = x # ys"
    using assms by (cases "sort_key k xs") (simp_all add: first_some_def)
  have "sorted (map k (x # ys))" using sorted_sort_key [of k xs] by (simp only: ys)
  then have least: "k x \<le> k y" if "y \<in> set xs" for y
    using that set_sort [of k xs] by (auto simp: ys)
  have "filter (\<lambda>y. k y = k x) (sort_key k xs) = filter (\<lambda>y. k y = k x) xs" by (rule sort_key_stable)
  then have "filter (\<lambda>y. k y = k x) xs = x # filter (\<lambda>y. k y = k x) ys" by (simp add: ys)
  then have "find (\<lambda>y. k y = k x) xs = Some x" by (simp add: find_filter first_some_def)
  with least show ?thesis by blast
qed

lemma find_filtered: "find P (filter Q xs) = find (\<lambda>x. Q x \<and> P x) xs"
  by (induction xs) auto

lemma take_task_ids: "take_task tm i ag w now resume s = Inr (c, s') \<Longrightarrow> cl_task_id c = i \<and> cl_agent_id c = ag \<and>
    cl_resumed c = (resume \<noteq> None)"
  by (auto simp: take_task_def bindT_Inr_iff returnT_def)

text \<open>
  C30. A claim takes the right task. When an agent without an open run claims, the task it is given
  is one it may claim (of its company and role, ready, with attempts left, not held back and not
  suspended with another agent), it has the least priority number among those, and among equals it
  is the oldest. The claim returns nothing exactly when there is nothing to claim.
\<close>

theorem claim_takes_the_best:
  assumes "open_run_of_agent (a_id ag) s = None" "claim_next tm ag w s = Inr (got, s')"
  shows "case got of
      None \<Rightarrow> filter (claimable s ag (clock s)) (tasks s) = []
    | Some c \<Rightarrow> \<exists>t. find (\<lambda>u. claimable s ag (clock s) u \<and> t_priority u = t_priority t) (tasks s) = Some t \<and>
        t_id t = cl_task_id c \<and> \<not> cl_resumed c \<and>
        (\<forall>u \<in> set (tasks s). claimable s ag (clock s) u \<longrightarrow> t_priority t \<le> t_priority u)"
proof (cases "best_claimable s ag (clock s)")
  case None
  then have "got = None" using assms by (simp add: claim_next_def tx_run)
  moreover have "sort_key t_priority (filter (claimable s ag (clock s)) (tasks s)) = []"
    using None by (simp add: best_claimable_def)
  then have "filter (claimable s ag (clock s)) (tasks s) = []" by (metis set_empty2 set_sort)
  ultimately show ?thesis by simp
next
  case (Some t)
  then obtain c where c: "got = Some c" "take_task tm (t_id t) (a_id ag) w (clock s) None s = Inr (c, s')"
    using assms by (auto simp: claim_next_def tx_run split: sum.splits)
  have "find (\<lambda>y. t_priority y = t_priority t) (filter (claimable s ag (clock s)) (tasks s)) = Some t \<and>
      (\<forall>u \<in> set (filter (claimable s ag (clock s)) (tasks s)). t_priority t \<le> t_priority u)"
    using Some unfolding best_claimable_def by (rule sort_key_first)
  then show ?thesis using c(1) take_task_ids [OF c(2)] by (auto simp: find_filtered intro!: exI [of _ t])
qed

theorem claim_takes_the_best_witness:
  "\<exists>t. find (\<lambda>u. claimable demo_added demo_agent (clock demo_added) u \<and> t_priority u = t_priority t) (tasks demo_added) = Some t \<and>
    t_id t = cl_task_id demo_claim"
proof -
  have "open_run_of_agent (a_id demo_agent) demo_added = None" by code_simp
  from claim_takes_the_best [OF this demo_claims] show ?thesis by auto
qed

text \<open>
  Work is never refused. In every state the runtime reaches, an agent without an open run for
  which some task is claimable is given a claim: the operation neither fails nor comes back empty.
\<close>

lemma take_ready_returns:
  assumes "task_of s i = Some t" "t_state t = T_READY"
  shows "\<exists>c s'. take_task tm i ag w now None s = Inr (c, s')"
proof -
  have legal: "check TASK_FSM T_READY x T_RUNNING = Inr (T_READY, T_RUNNING)" for x
    by (simp add: check_def allowed_from_def targets_def TASK_FSM_def)
  have found: "find_row t_id i (tasks s) = Some t" "t_id t = i"
    using assms(1) by (auto simp: task_of_def dest: find_row_key)
  have upd: "find_row t_id i (update_row t_id i f T) = map_option f (find_row t_id i T)"
    if "\<And>u. t_id (f u) = t_id u" for f T using find_row_update [of t_id f i i T] that by simp
  have run: "(\<exists>y. find_row r_id n (R @ [r]) = Some y) \<longleftrightarrow> (\<exists>y. find_row r_id n R = Some y) \<or> r_id r = n"
    for n R and r :: agent_run
    by (auto simp: find_row_append split: option.splits)
  show ?thesis
    unfolding take_task_def task_transition_def transition_def task_entity_def tm_emit_def new_event_def emit_def
      add_transition_def upd_task_def get_task_def get_run_def uuid7_def task_of_def run_of_def Let_def
    using found assms(2) run
    by (auto simp: tx_run upd legal e_persistence_def split: option.splits)
qed

theorem work_is_claimed:
  assumes "wired y" "rt_reachable y (s, C)" "open_run_of_agent (a_id ag) s = None"
    and "t \<in> set (tasks s)" "claimable s ag (clock s) t"
  shows "\<exists>c s'. claim_next tm ag w s = Inr (Some c, s')"
proof -
  have "runtime_ok s" using reachable_sound [OF assms(2,1)] by (simp add: sound_def)
  then have d: "distinct (map t_id (tasks s))" by (simp add: runtime_ok_def Rt_def asr_def consistent_def)
  have "filter (claimable s ag (clock s)) (tasks s) \<noteq> []" using assms(4,5) by (auto simp: filter_empty_conv)
  then have "sort_key t_priority (filter (claimable s ag (clock s)) (tasks s)) \<noteq> []" by (metis set_empty2 set_sort)
  then obtain u where u: "best_claimable s ag (clock s) = Some u"
    unfolding best_claimable_def by (metis first_some_None not_Some_eq)
  then have "u \<in> set (tasks s)" "t_state u = T_READY"
    by (auto simp: best_claimable_def claimable_def dest!: first_some_in)
  then obtain c s' where "take_task tm (t_id u) (a_id ag) w (clock s) None s = Inr (c, s')"
    using take_ready_returns [of s "t_id u" u tm "a_id ag" w "clock s"] find_row_unique [of t_id "tasks s" u] d
    by (auto simp: task_of_def)
  then show ?thesis using assms(3) u by (simp add: claim_next_def tx_run)
qed

theorem work_is_claimed_witness: "\<exists>c s'. claim_next demo_bound demo_agent ''w1'' demo_added = Inr (Some c, s')"
proof -
  have "open_run_of_agent (a_id demo_agent) demo_added = None" by code_simp
  moreover have "map (claimable demo_added demo_agent (clock demo_added)) (tasks demo_added) = [True]" by code_simp
  then obtain t where "t \<in> set (tasks demo_added)" "claimable demo_added demo_agent (clock demo_added) t" by auto
  ultimately show ?thesis by (rule work_is_claimed [OF demo_wired demo_added_rt])
qed

section \<open>Following one row\<close>

definition Row :: "uuid \<Rightarrow> task \<Rightarrow> instant \<Rightarrow> db \<Rightarrow> bool" where
  "Row i t now s \<longleftrightarrow> task_of s i = Some t \<and> clock s = now"

lemma Row_frame: "frames m \<Longrightarrow> (\<And>x. triple (Row i t now) (k x) Q) \<Longrightarrow> triple (Row i t now) (bindT m k) Q"
  by (rule triple_bind [where R = "\<lambda>_. Row i t now"]) (auto simp: triple_def Row_def task_of_def dest: framesD)

lemma Row_quiet: "quiet m \<Longrightarrow> (\<And>x. triple (Row i t now) (k x) Q) \<Longrightarrow> triple (Row i t now) (bindT m k) Q"
  by (rule triple_bind [where R = "\<lambda>_. Row i t now"])
    (auto simp: triple_def Row_def task_of_def quiet_step_def dest!: obeysD [of quiet_step])

lemma Row_clock: "triple (Row i t now) (k now) Q \<Longrightarrow> triple (Row i t now) (bindT (getsT clock) k) Q"
  by (auto simp: triple_def Row_def run_bindT run_getsT)

lemma Row_get: "triple (Row i t now) (k t) Q \<Longrightarrow> triple (Row i t now) (bindT (get_task i) k) Q"
  by (auto simp: triple_def Row_def run_bindT run_getsT get_task_def run_someT)

lemma Row_upd:
  assumes "\<And>t. t_id (f t) = t_id t" "triple (Row i (f t) now) (k ()) Q"
  shows "triple (Row i t now) (bindT (upd_task i f) k) Q"
proof (rule triple_bind [where R = "\<lambda>_. Row i (f t) now"])
  show "triple (Row i t now) (upd_task i f) (\<lambda>_. Row i (f t) now)"
    using find_row_update [of t_id f i i, OF assms(1)]
    by (auto simp: triple_def Row_def upd_task_def run_modifyT task_of_def)
  show "triple (Row i (f t) now) (k x) Q" for x :: unit using assms(2) by simp
qed

lemma Row_transition:
  assumes "\<And>x. triple (Row i (t\<lparr>t_state := st\<rparr>) now) (k x) Q"
  shows "triple (Row i t now) (bindT (task_transition i st actor reason) k) Q"
proof (rule triple_bind [where R = "\<lambda>_. Row i (t\<lparr>t_state := st\<rparr>) now", OF tripleI assms])
  fix s x s'
  assume R: "Row i t now s" and run: "task_transition i st actor reason s = Inr (x, s')"
  show "Row i (t\<lparr>t_state := st\<rparr>) now s'"
    using run
    by (rule task_transition_effect)
      (use R find_row_update [of t_id "\<lambda>t. t\<lparr>t_state := st\<rparr>" i i "tasks s"] in \<open>simp add: Row_def task_of_def\<close>)
qed

lemma Row_end: "frames m \<Longrightarrow> triple (Row i t now) m (\<lambda>_. Row i t now)"
  by (auto simp: triple_def Row_def task_of_def dest: framesD)

text \<open>What is final stays, through whatever keeps final states.\<close>

lemma final_task_stays:
  assumes "\<And>s0. keeps (settled s0) m" "is_terminal TASK_FSM st"
  shows "keeps (\<lambda>s. map_option t_state (task_of s i) = Some st) m"
proof (rule keepsI)
  fix s x s'
  assume "map_option t_state (task_of s i) = Some st" and run: "m s = Inr (x, s')"
  moreover have "settled s s'" using keepsD [OF assms(1) settled_refl run] .
  ultimately show "map_option t_state (task_of s' i) = Some st"
    using assms(2) by (force simp: settled_def final_in_def task_of_def)
qed

lemma final_run_stays:
  assumes "\<And>s0. keeps (settled s0) m" "is_terminal AGENT_RUN_FSM st"
  shows "keeps (\<lambda>s. map_option r_state (run_of s i) = Some st) m"
proof (rule keepsI)
  fix s x s'
  assume "map_option r_state (run_of s i) = Some st" and run: "m s = Inr (x, s')"
  moreover have "settled s s'" using keepsD [OF assms(1) settled_refl run] .
  ultimately show "map_option r_state (run_of s' i) = Some st"
    using assms(2) by (force simp: settled_def final_in_def run_of_def)
qed

lemma settling_hooks:
  assumes "wired y"
  shows "keeps (settled s0) (failed_hook (su_manager y) i)" "keeps (settled s0) (finished_hook (su_manager y) i)"
  using final_states.wired_keeps [OF assms] by (simp_all add: final_states.hooks_keep_def)

section \<open>A failed attempt\<close>

lemma requeue_row:
  "triple (Row i t now) (requeue tm i run_id ended)
     (\<lambda>_. Row i (t\<lparr>t_available_at := Some (now + backoff tm (t_attempt t)), t_state := T_READY\<rparr>) now)"
  unfolding requeue_def
  by (rule Row_clock, rule Row_upd, simp, rule Row_transition, simp, intro Row_end frame_intros)

lemma run_after_transition:
  "run_transition i st actor reason s = Inr (x, s') \<Longrightarrow> map_option r_state (run_of s' i) = Some st"
  by (erule run_transition_effect) (auto simp: run_of_def find_row_update)

lemma last_some_last: "last_some xs = Some x \<Longrightarrow> xs \<noteq> [] \<and> last xs = x"
  by (cases xs rule: rev_cases) (auto simp: last_some_def first_some_def)

lemma finish_run_state: "triple P (finish_run i target now) (\<lambda>_ s. map_option r_state (run_of s i) = Some target)"
proof (rule tripleI)
  fix s x s'
  assume "finish_run i target now s = Inr (x, s')"
  then obtain r :: agent_run and path s1 final s2 v where p: "shortest_path AGENT_RUN_FSM (r_state r) target = Inr path"
    and f: "last_some path = Some final" and m: "run_transition i final tm_actor None s2 = Inr (v, s')"
    by (auto simp: finish_run_def bindT_Inr_iff liftT_Inr_iff run_someT returnT_def split: option.splits)
  have "final = target" using last_some_last [OF f] hops_last [OF shortest_path_hops [OF p]] by simp
  then show "map_option r_state (run_of s' i) = Some target" using run_after_transition [OF m] by simp
qed

lemma fail_row:
  assumes y: "wired y" and i: "i = cl_task_id c"
  shows "triple (Row i t now) (fail_task (su_manager y) c ec msg retryable)
    (\<lambda>retried s. retried = (retryable \<and> t_attempt t < t_max_attempts t) \<and>
      (if retried
       then Row i ((no_lease t)\<lparr>t_available_at := Some (now + backoff (su_manager y) (t_attempt t)), t_state := T_READY\<rparr>) now s
       else map_option t_state (task_of s i) = Some T_FAILED))"
  unfolding fail_task_def Let_def
proof (rule triple_bind [where R = "\<lambda>u s. u = t \<and> Row i t now s"], goal_cases)
  case 1
  show ?case using i by (auto simp: triple_def Row_def dest!: locked_task_Inr)
next
  case (2 u)
  show ?case
  proof (rule triple_assume [where C = "u = t"], simp, rule triple_pre [where P = "Row i t now"], goal_cases)
    case 1
    have id: "t_id t = i" if "Row i t now s" for s
      using that by (auto simp: Row_def task_of_def dest: find_row_key)
    show ?case
    proof (rule triple_assume [OF id], assumption)
      assume id: "t_id t = i"
      have fin: "is_terminal TASK_FSM T_FAILED" by code_simp
      have retry: "triple (Row i (no_lease t) now) (bindT (requeue (su_manager y) i r ended) (\<lambda>_. returnT True))
        (\<lambda>retried s. retried \<and> Row i ((no_lease t)\<lparr>t_available_at := Some (now + backoff (su_manager y) (t_attempt t)),
           t_state := T_READY\<rparr>) now s)" for r ended
        by (rule triple_bind [OF requeue_row]) (simp add: triple_def tx_run)
      have final: "triple (Row i (no_lease t) now) (bindT (task_transition i T_FAILED tm_actor None) (\<lambda>_.
          bindT (tm_emit i p r) (\<lambda>_. bindT (tm_activity a f i r) (\<lambda>_. bindT (failed_hook (su_manager y) i) (\<lambda>_. returnT False)))))
          (\<lambda>retried s. \<not> retried \<and> map_option t_state (task_of s i) = Some T_FAILED)" for p r a f
      proof (rule Row_transition, rule Row_frame [OF frames_tm_emit], rule Row_frame [OF frames_tm_activity],
          rule triple_pre [where P = "\<lambda>s. map_option t_state (task_of s i) = Some T_FAILED"])
        have "triple (\<lambda>s. map_option t_state (task_of s i) = Some T_FAILED) (failed_hook (su_manager y) i)
            (\<lambda>_ s. map_option t_state (task_of s i) = Some T_FAILED)"
          unfolding keeps_def [symmetric] by (intro final_task_stays settling_hooks y fin)
        then show "triple (\<lambda>s. map_option t_state (task_of s i) = Some T_FAILED) (bindT (failed_hook (su_manager y) i) (\<lambda>_. returnT False))
            (\<lambda>retried s. \<not> retried \<and> map_option t_state (task_of s i) = Some T_FAILED)"
          by (rule triple_bind) (simp add: triple_def tx_run)
      qed (simp add: Row_def)
      show ?thesis
        unfolding 1 id release_lease_def
        by (rule Row_quiet [OF quiet_claim(2)], rule Row_clock, rule Row_quiet [OF quiet_rows(1)], rule Row_quiet [OF quiet_finish_run],
            rule Row_upd, simp, fold no_lease_def, rule triple_if, rule triple_post [OF retry], simp,
            rule triple_post [OF final], auto)
    qed
  qed simp
qed

lemma fail_run:
  assumes y: "wired y"
  shows "triple P (fail_task (su_manager y) c ec msg retryable)
    (\<lambda>_ s. map_option r_state (run_of s (cl_run_id c)) = Some R_FAILED)"
  unfolding fail_task_def Let_def
proof (rule triple_bind [where R = "\<lambda>_ _. True"], simp add: triple_def,
    rule triple_bind [where R = "\<lambda>r _. r_id r = cl_run_id c"], goal_cases)
  case 1
  show ?case by (auto simp: triple_def run_of_def dest!: claimed_run_Inr dest: find_row_key)
next
  case (2 t r)
  have fin: "is_terminal AGENT_RUN_FSM R_FAILED" by code_simp
  let ?P = "\<lambda>s. map_option r_state (run_of s (cl_run_id c)) = Some R_FAILED"
  have rest: "triple ?P (bindT (release_lease (t_id t)) (\<lambda>_.
       if retryable \<and> t_attempt t < t_max_attempts t
       then bindT (requeue (su_manager y) (t_id t) u ended) (\<lambda>_. returnT True)
       else bindT (task_transition (t_id t) T_FAILED tm_actor None) (\<lambda>_.
          bindT (tm_emit (t_id t) p u) (\<lambda>_. bindT (tm_activity a f (t_id t) u) (\<lambda>_.
          bindT (failed_hook (su_manager y) (t_id t)) (\<lambda>_. returnT False)))))) (\<lambda>_. ?P)" for u ended p a f
    unfolding keeps_def [symmetric]
    by (intro final_run_stays fin final_states.basics final_states.parts final_states.requeue_keeps settling_hooks y)
  show ?case
    by (rule triple_assume [where C = "r_id r = cl_run_id c"], simp,
        rule triple_bind [where R = "\<lambda>_ _. True"], simp add: triple_def,
        rule triple_bind [where R = "\<lambda>_ _. True"], simp add: triple_def,
        rule triple_bind [OF finish_run_state])
      (use rest in simp)
qed

text \<open>
  C31. How a failed attempt ends. When a worker reports a failure, the run of the attempt is FAILED.
  If the error is retryable and the task has attempts left, the task is READY again, without a
  lease, and not available before the backoff of the attempt is over; otherwise it is FAILED for
  good. The report is told which.
\<close>

theorem failed_attempt_ends:
  assumes "wired y" "task_of s (cl_task_id c) = Some t"
    and "fail_task (su_manager y) c ec msg retryable s = Inr (retried, s')"
  shows "retried = (retryable \<and> t_attempt t < t_max_attempts t) \<and>
    map_option r_state (run_of s' (cl_run_id c)) = Some R_FAILED \<and>
    (if retried
     then task_of s' (cl_task_id c) = Some (t\<lparr>t_lease_owner := None, t_lease_until := None, t_lease_token := None,
       t_available_at := Some (clock s + backoff (su_manager y) (t_attempt t)), t_state := T_READY\<rparr>)
     else map_option t_state (task_of s' (cl_task_id c)) = Some T_FAILED)"
proof -
  have "Row (cl_task_id c) t (clock s) s" using assms(2) by (simp add: Row_def)
  from tripleD [OF fail_row [OF assms(1) refl] this assms(3)]
    tripleD [OF fail_run [OF assms(1), where P = "\<lambda>_. True"] TrueI assms(3)]
  show ?thesis by (auto simp: Row_def no_lease_def)
qed

theorem failed_attempt_ends_witness:
  "map_option r_state (run_of demo_failed (cl_run_id demo_claim)) = Some R_FAILED \<and>
   map_option t_state (task_of demo_failed (cl_task_id demo_claim)) = Some T_READY"
proof -
  have "map_option t_attempt (task_of demo_claimed (cl_task_id demo_claim)) = Some 1"
    "map_option t_max_attempts (task_of demo_claimed (cl_task_id demo_claim)) = Some 3"
    by code_simp+
  then obtain t where t: "task_of demo_claimed (cl_task_id demo_claim) = Some t" "t_attempt t < t_max_attempts t" by auto
  obtain x where "fail_task (su_manager demo_wiring) demo_claim ''Timeout'' ''slow'' True demo_claimed = Inr (x, demo_failed)"
    using run_db_some [OF demo_again_results(1)] by (auto simp: demo_failed_def demo_wiring_def)
  from failed_attempt_ends [OF demo_wired t(1) this] show ?thesis using t(2) by simp
qed

section \<open>Expired leases\<close>

text \<open>Every task whose lease ran out by \<open>now\<close> is one of \<open>J\<close>.\<close>

definition late :: "instant \<Rightarrow> uuid set \<Rightarrow> db \<Rightarrow> bool" where
  "late now J s \<longleftrightarrow> (\<forall>t \<in> set (tasks s). lease_expired now t \<longrightarrow> t_id t \<in> J)"

lemma late_frame: "frames m \<Longrightarrow> keeps (late now J) m"
  by (rule keepsI) (auto simp: late_def dest: framesD)

lemma late_quiet: "quiet m \<Longrightarrow> keeps (late now J) m"
  by (rule keepsI) (auto simp: late_def quiet_step_def dest!: obeysD [of quiet_step])

lemma late_upd:
  assumes "\<And>t. t_id (f t) = t_id t" "\<And>t. lease_expired now (f t) \<Longrightarrow> lease_expired now t"
  shows "keeps (late now J) (upd_task i f)"
proof (rule keepsI)
  fix s and x :: unit and s'
  assume L: "late now J s" and run: "upd_task i f s = Inr (x, s')"
  have "t_id t \<in> J" if t: "t \<in> set (update_row t_id i f (tasks s))" "lease_expired now t" for t
    using set_update_row [OF t(1)] t(2) assms L by (auto simp: late_def)
  then show "late now J s'" using run by (auto simp: late_def upd_task_def tx_run)
qed

lemma late_transition: "st \<noteq> T_RUNNING \<Longrightarrow> keeps (late now J) (task_transition i st actor reason)"
proof (rule keepsI, erule task_transition_effect)
  fix s v s' t
  assume L: "late now J s" and st: "st \<noteq> T_RUNNING"
    and s': "s' = s\<lparr>tasks := update_row t_id i (\<lambda>t. t\<lparr>t_state := st\<rparr>) (tasks s),
            next_id := Suc (next_id s), audit := audit s @ [v]\<rparr>"
  have "t_id u \<in> J" if u: "u \<in> set (update_row t_id i (\<lambda>t. t\<lparr>t_state := st\<rparr>) (tasks s))" "lease_expired now u" for u
    using set_update_row [OF u(1)] u(2) st L by (auto simp: late_def lease_expired_def)
  then show "late now J s'" by (simp add: late_def s')
qed

lemma late_release:
  "triple (late now J) (release_lease i) (\<lambda>_. late now (J - {i}))"
proof (rule tripleI)
  fix s and x :: unit and s'
  assume L: "late now J s" and run: "release_lease i s = Inr (x, s')"
  let ?f = "\<lambda>t. t\<lparr>t_lease_owner := None, t_lease_until := None, t_lease_token := None\<rparr>"
  have "t_id u \<in> J - {i}" if u: "u \<in> set (update_row t_id i ?f (tasks s))" "lease_expired now u" for u
    using set_update_row [OF u(1)] u(2) L by (auto simp: late_def lease_expired_def)
  moreover have "tasks s' = update_row t_id i ?f (tasks s)"
    using run by (auto simp: release_lease_def upd_task_def tx_run)
  ultimately show "late now (J - {i}) s'" unfolding late_def by metis
qed

lemma late_release_keeps: "keeps (late now J) (release_lease i)"
  unfolding release_lease_def by (rule late_upd) (auto simp: lease_expired_def)

lemmas late_frames = frames_get_task frames_get_run frames_tm_emit frames_tm_activity
  frames_set_activity_unless_paused frames_close_if_done

lemmas late_intros = keeps_intros late_frames [THEN late_frame] late_release_keeps late_transition
  quiet_abort_run [THEN late_quiet]

lemma late_cancel:
  "(\<And>i. keeps (late now J) (failed_hook tm i)) \<Longrightarrow> keeps (late now J) (cancel_task tm i reason)"
  unfolding cancel_task_def by (intro late_intros) simp_all

lemma late_engine: "keeps (late now J) (engine_on_task_failed n tm i)"
proof (induction n arbitrary: i)
  case (Suc n)
  have "keeps (late now J) (cancel_task (tm\<lparr>on_task_failed := Some (engine_on_task_failed n tm)\<rparr>) i reason)" for i reason
    by (rule late_cancel) (simp add: failed_hook_def Suc)
  then show ?case unfolding engine_on_task_failed.simps task_failed_step_def by (intro late_intros)
qed (simp add: keeps_throw)

lemma late_requeue: "keeps (late now J) (requeue tm i run_id ended)"
  unfolding requeue_def by (intro late_intros late_upd) (simp_all add: lease_expired_def)

lemma late_reap:
  assumes "\<And>J i. keeps (late now J) (failed_hook tm i)"
  shows "triple (late now J) (reap_one tm i) (\<lambda>_. late now (J - {i}))"
proof -
  have rest: "keeps (late now K) (if b then requeue tm i u ended else
      bindT (task_transition i T_FAILED tm_actor None) (\<lambda>_. bindT (tm_emit i p u) (\<lambda>_.
      bindT (case v of None \<Rightarrow> returnT () | Some r \<Rightarrow> tm_activity (a r) f i (h r)) (\<lambda>_. failed_hook tm i))))"
    for K b u ended p and v :: "agent_run option" and a h f
    by (intro late_intros late_requeue assms) simp
  have "triple (late now J) m (\<lambda>_. late now J)" if "keeps (late now J) m" for m :: "'a db_tx"
    using that by (simp add: keeps_def)
  show ?thesis
    unfolding reap_one_def Let_def
    by (rule triple_keeps, rule late_frame, rule frames_get_task, rule triple_keeps, rule keeps_gets, rule triple_keeps,
        rule keeps_some, rule triple_keeps, intro late_intros, rule triple_bind [OF late_release])
      (use rest in \<open>simp add: keeps_def\<close>)
qed

text \<open>
  The reaper collects every lease that ran out. After a pass over the expired leases that is
  not cut off by its batch size, no task holds a lease that had expired, and the identifiers
  returned are those of exactly the tasks whose lease had.
\<close>

theorem reaper_collects_all:
  assumes "wired y" "reap_expired_leases (su_manager y) k s = Inr (ids, s')"
    and "length (filter (lease_expired (clock s)) (tasks s)) \<le> k"
  shows "filter (lease_expired (clock s)) (tasks s') = [] \<and>
    ids = map t_id (filter (lease_expired (clock s)) (tasks s))"
proof -
  let ?now = "clock s"
  obtain base reads where m: "su_manager y = engine_manager (su_fuel y) (su_templates y) base reads"
    using assms(1) by (auto simp: wired_def dest: bind_engine_manager)
  have hook: "keeps (late ?now J) (failed_hook (su_manager y) i)" for J i
    by (simp add: m engine_manager_def failed_hook_def late_engine)
  have loop: "triple (late ?now J) (forT js (reap_one (su_manager y))) (\<lambda>_. late ?now (J - set js))" for J js
  proof (induction js arbitrary: J)
    case (Cons j js)
    have set: "J - {j} - set js = J - set (j # js)" by auto
    show ?case unfolding forT.simps set [symmetric] by (rule triple_bind [OF late_reap [OF hook] Cons])
  qed (simp add: triple_def tx_run)
  have ids: "ids = map t_id (filter (lease_expired ?now) (tasks s))"
    and run: "\<exists>u. forT ids (reap_one (su_manager y)) s = Inr (u, s')"
    using assms(2,3) by (auto simp: reap_expired_leases_def bindT_Inr_iff getsT_def returnT_def)
  have "late ?now (set ids) s" by (auto simp: late_def ids)
  then have "late ?now (set ids - set ids) s'" using loop [of "set ids" ids] run by (blast dest: tripleD)
  then show ?thesis using ids by (auto simp: late_def filter_empty_conv)
qed

text \<open>The example once more: the worker of the second attempt is never heard of again.\<close>

definition demo_expired :: db where
  "demo_expired = demo_claimed\<lparr>clock := 2000\<rparr>"

theorem reaper_collects_all_witness:
  "filter (lease_expired 2000) (tasks (run_db (reap_expired_leases demo_bound 10) demo_expired)) = [] \<and>
   result_of (reap_expired_leases demo_bound 10) demo_expired = Some [cl_task_id demo_claim]"
proof -
  have r: "result_of (reap_expired_leases demo_bound 10) demo_expired = Some [cl_task_id demo_claim]" by code_simp
  have l: "length (filter (lease_expired (clock demo_expired)) (tasks demo_expired)) \<le> 10" by code_simp
  have "reap_expired_leases (su_manager demo_wiring) 10 demo_expired =
      Inr ([cl_task_id demo_claim], run_db (reap_expired_leases demo_bound 10) demo_expired)"
    using run_db_ok [OF r] by (simp add: demo_wiring_def)
  from reaper_collects_all [OF demo_wired this l] r show ?thesis by (simp add: demo_expired_def)
qed

end
