(* ===== verification/MirrorOps.thy ===== *)
theory MirrorOps
  imports Mirror
begin

text \<open>
  Every operation of the task manager, and the workflow engine's hooks, leave each task's view
  in agreement with its row.
\<close>

lemmas Mi_steps = keeps_bind keeps_if keeps_case_option keeps_let keeps_for keeps_map keeps_try

lemma triple_ex: "(\<And>x. triple (P x) m Q) \<Longrightarrow> triple (\<lambda>s. \<exists>x. P x s) m Q"
  by (auto simp: triple_def)

lemma bind_return: "bindT m returnT = m"
  by (auto simp: bindT_def returnT_def fun_eq_iff split: sum.splits)

lemma Mi_bind_quiet: "quiet m \<Longrightarrow> (\<And>x. keeps (Mi K) (k x)) \<Longrightarrow> keeps (Mi K) (bindT m k)"
  by (rule keeps_bind [OF Mi_quiet])

lemma Mi_return: "triple (Mi K) (returnT x) (\<lambda>_. Mi K)"
  by (simp add: triple_def tx_run)

lemma At_settle_end:
  "settles p t a \<Longrightarrow> \<not> is_created p \<Longrightarrow> triple (At K i t a) (tm_emit i (TaskP p) r) (\<lambda>_. Mi K)"
  using At_settle [of p t a K returnT "\<lambda>_. Mi K" i r] by (simp add: bind_return Mi_return)

text \<open>The common form: a move, at once told.\<close>

lemma Mi_move:
  assumes "\<And>t. settles p (t\<lparr>t_state := st\<rparr>) (t_attempt t)" "\<not> is_created p" "\<And>x. keeps (Mi K) (k x)"
  shows "keeps (Mi K) (bindT (task_transition i st actor reason) (\<lambda>_. bindT (tm_emit i (TaskP p) r) k))"
  unfolding keeps_def
  by (rule Mi_transition, rule At_settle) (use assms in \<open>simp_all add: keeps_def\<close>)

lemma Mi_move_end:
  assumes "\<And>t. settles p (t\<lparr>t_state := st\<rparr>) (t_attempt t)" "\<not> is_created p"
  shows "keeps (Mi K) (bindT (task_transition i st actor reason) (\<lambda>_. tm_emit i (TaskP p) r))"
  using Mi_move [of p st K returnT i actor reason r] assms by (simp add: bind_return keeps_return)

section \<open>Creation\<close>

lemma ready_told:
  "keeps (Mi K) (bindT (task_transition i T_READY actor reason) (\<lambda>_. bindT (get_task i) (\<lambda>t.
     tm_emit i (TaskP (TaskReady (t_required_role t))) None)))"
  unfolding keeps_def
  by (rule Mi_transition, rule At_get_task, rule At_settle_end) simp_all

lemma mark_ready_Mi: "keeps (Mi K) (mark_ready i)"
  unfolding mark_ready_def by (rule ready_told)

lemma created_told:
  assumes M: "Mi K s" and new: "task_of s (t_id t) = None" and run: "tm_emit (t_id t) (TaskP (TaskCreated (t_name t)
      (t_display_name t) (t_required_role t) deps (t_workflow_run_id t) budget)) None (s\<lparr>tasks := tasks s @ [t]\<rparr>) = Inr (x, s')"
    and t: "t_state t = T_PENDING" "t_attempt t = 0"
  shows "Mi K s'"
proof -
  let ?s = "s\<lparr>tasks := tasks s @ [t]\<rparr>" and ?i = "t_id t"
  let ?p = "TaskCreated (t_name t) (t_display_name t) (t_required_role t) deps (t_workflow_run_id t) budget"
  have i: "?i \<notin> t_id ` set (tasks s)" using new by (simp add: task_of_def find_row_None_iff)
  then have row: "task_of ?s ?i = Some t" by (simp add: task_of_def find_row_append find_row_None_iff [symmetric])
  obtain e where e: "e_company_id e = t_company_id t" "e_task_id e = Some ?i" "e_payload e = TaskP ?p"
    "tasks s' = tasks s @ [t]" "events s' = events s @ [e]"
    using tm_emit_effect [OF run] row by auto
  have k: "?i \<notin> K" using M i by (auto simp: Mi_def mirrored_def)
  have "agrees K t (events s')"
    using e k t last_task_event_snoc [of e ?i "events s"]
    by (simp add: agrees_def matches_def view_of_snoc step_view_def created_task_def is_task_event_iff)
  moreover have "agrees K u (events s')" if u: "u \<in> set (tasks s)" for u
  proof -
    have "t_id u \<noteq> ?i" using u i by (metis imageI)
    then have "\<not> (is_task_event e' \<and> e_task_id e' = Some (t_id u))" if "e' \<in> set [e]" for e' using that e(2) by simp
    then have "agrees K u (events s') = agrees K u (events s)"
      using view_of_other [of "[e]" "t_id u" "t_company_id u" "events s"] last_task_event_other [of "[e]" "t_id u" "events s"]
      by (simp add: e agrees_def matches_def)
    then show ?thesis using M u by (simp add: Mi_def mirrored_def)
  qed
  ultimately show ?thesis using M i e by (auto simp: Mi_def mirrored_def)
qed

lemma add_task_Mi: "keeps (Mi K) (add_task nt)"
  unfolding add_task_def
proof (rule Mi_bind_quiet, goal_cases)
  case 1
  show ?case by (intro quiet_intros)
next
  case (2 i)
  let ?t = "\<lambda>now. \<lparr>t_id = i, t_company_id = nt_company_id nt, t_project_id = nt_project_id nt,
              t_workflow_run_id = nt_workflow_run_id nt, t_cycle_id = nt_cycle_id nt,
              t_name = nt_name nt, t_display_name = nt_display_name nt,
              t_required_role = nt_required_role nt, t_state = T_PENDING,
              t_depends_on = nt_depends_on nt, t_input = nt_input nt, t_output = None,
              t_output_schema_ref = nt_output_schema_ref nt, t_attempt = 0,
              t_max_attempts = nt_max_attempts nt, t_budget_usd = nt_budget_usd nt,
              t_priority = nt_priority nt, t_available_at = None, t_lease_owner = None,
              t_lease_until = None, t_lease_token = None, t_created_at = now\<rparr>"
  let ?told = "tm_emit i (TaskP (TaskCreated (nt_name nt) (nt_display_name nt)
           (nt_required_role nt) (nt_depends_on nt) (nt_workflow_run_id nt) (nt_budget_usd nt))) None"
  let ?rest = "\<lambda>_ :: unit. bindT (if (case nt_ready nt of Some b \<Rightarrow> b | None \<Rightarrow> nt_depends_on nt = [])
               then mark_ready i else mark_idle_agents_waiting i) (\<lambda>_. returnT i)"
  have rest: "keeps (Mi K) (?rest u)" for u
    by (intro Mi_steps mark_ready_Mi keeps_return Mi_quiet quiet_intros)
  have told: "triple (\<lambda>s. Mi K s \<and> task_of s i = None)
      (bindT (modifyT (\<lambda>s. s\<lparr>tasks := tasks s @ [?t now]\<rparr>)) (\<lambda>_. ?told)) (\<lambda>_. Mi K)" for now
    using created_told [of K _ "?t now"] by (auto simp: triple_def run_bindT run_modifyT)
  have "triple (\<lambda>s. Mi K s \<and> task_of s i = None)
      (bindT (bindT (modifyT (\<lambda>s. s\<lparr>tasks := tasks s @ [?t now]\<rparr>)) (\<lambda>_. ?told)) ?rest) (\<lambda>_. Mi K)" for now
    by (rule triple_bind [OF told]) (use rest in \<open>simp add: keeps_def\<close>)
  then have row: "triple (\<lambda>s. Mi K s \<and> task_of s i = None)
      (bindT (modifyT (\<lambda>s. s\<lparr>tasks := tasks s @ [?t now]\<rparr>)) (\<lambda>_. bindT ?told ?rest)) (\<lambda>_. Mi K)" for now
    by (simp add: bindT_assoc)
  show ?case
    unfolding keeps_def Let_def
  proof (rule triple_bind_gets, rule triple_bind_check, rule triple_bind_gets)
    fix existing :: "task option" and now
    assume "existing = None \<and> 1 \<le> nt_max_attempts nt"
    then show "triple (\<lambda>s. (Mi K s \<and> task_of s i = existing) \<and> clock s = now)
        (bindT (modifyT (\<lambda>s. s\<lparr>tasks := tasks s @ [?t now]\<rparr>)) (\<lambda>_. bindT ?told ?rest)) (\<lambda>_. Mi K)"
      by (intro triple_pre [OF row]) auto
  qed
qed

section \<open>Claims\<close>

lemma take_task_Mi:
  "triple (\<lambda>s. Mi K s \<and> task_of s i = Some t \<and> t_state t \<noteq> T_SUCCEEDED) (take_task tm i ag w now resume) (\<lambda>_. Mi K)"
proof (rule triple_pre)
  show "triple (At K i t (t_attempt t)) (take_task tm i ag w now resume) (\<lambda>_. Mi K)"
    unfolding take_task_def
  proof (rule triple_bind [where R = "\<lambda>_ s. \<exists>u. At K i u (t_attempt t) s"], goal_cases)
    case 1
    have r: "triple (At K i u a) (returnT x) (\<lambda>_ s. \<exists>u. At K i u a s)" for u a and x :: uuid
      by (auto simp: triple_def tx_run)
    show ?case
      by (cases resume) (auto intro!: At_upd_task At_get_task At_quiet [OF quiet_uuid7] At_quiet [OF quiet_modify] r
          simp: same_face_def)
  next
    case (2 run_id)
    show ?case
      by (rule triple_ex, rule At_quiet [OF quiet_uuid7], rule At_upd_task, simp add: same_face_def,
          rule At_transition, rule At_get_task, rule At_settle) (simp_all add: Mi_return)
  qed
qed (auto intro: Mi_open)

lemma take_row_Mi:
  "triple (\<lambda>s. Mi K s \<and> t \<in> set (tasks s) \<and> t_state t = T_READY)
     (bindT (take_task tm (t_id t) ag w now resume) (\<lambda>c. returnT (f c))) (\<lambda>_. Mi K)"
proof (rule triple_bind [OF triple_pre [OF take_task_Mi]])
  fix s assume s: "Mi K s \<and> t \<in> set (tasks s) \<and> t_state t = T_READY"
  then have "find_row t_id (t_id t) (tasks s) = Some t"
    using find_row_unique [of t_id "tasks s" t] by (simp add: Mi_def mirrored_def)
  then show "Mi K s \<and> task_of s (t_id t) = Some t \<and> t_state t \<noteq> T_SUCCEEDED" using s by (simp add: task_of_def)
qed (rule Mi_return)

lemma best_claimable_at: "best_claimable s ag now = Some t \<Longrightarrow> t \<in> set (tasks s) \<and> t_state t = T_READY"
  by (auto simp: best_claimable_def claimable_def dest!: first_some_in)

lemma triple_option:
  "(x = None \<Longrightarrow> triple P m Q) \<Longrightarrow> (\<And>v. x = Some v \<Longrightarrow> triple P (f v) Q) \<Longrightarrow>
   triple P (case x of None \<Rightarrow> m | Some v \<Rightarrow> f v) Q"
  by (cases x) simp_all

lemma claim_next_Mi: "keeps (Mi K) (claim_next tm ag w)"
  unfolding claim_next_def keeps_def
proof (rule triple_bind_gets, rule triple_bind_gets, rule triple_option, goal_cases)
  case (1 now open_run)
  show ?case
  proof (rule triple_bind_gets, rule triple_option, goal_cases)
    case (1 row)
    show ?case by (simp add: triple_def tx_run)
  next
    case (2 row t)
    then show ?case by (intro triple_pre [OF take_row_Mi]) (auto dest: best_claimable_at)
  qed
next
  case (2 now open_run r)
  show ?case
  proof (rule triple_bind_check, rule triple_bind_gets, rule triple_bind_some, goal_cases)
    case (1 row t)
    then show ?case by (intro triple_pre [OF take_row_Mi]) (auto simp: find_Some_iff)
  qed
qed

lemma heartbeat_Mi: "keeps (Mi K) (heartbeat tm c)"
  unfolding heartbeat_def by (intro keeps_bind Mi_quiet quiet_intros Mi_note) (simp_all add: same_face_def)

lemma release_lease_Mi: "keeps (Mi K) (release_lease i)"
  unfolding release_lease_def by (rule Mi_note) (simp_all add: same_face_def)

section \<open>Ends of claims\<close>

lemma locked_id: "locked_task c s = Inr (t, s') \<Longrightarrow> t_id t = cl_task_id c \<and> s' = s"
  by (auto dest!: locked_task_Inr simp: task_of_def dest: find_row_key)

lemma Mi_locked:
  assumes "\<And>t. t_id t = cl_task_id c \<Longrightarrow> keeps (Mi K) (k t)"
  shows "keeps (Mi K) (bindT (locked_task c) k)"
proof (rule keepsI)
  fix s x s'
  assume "Mi K s" "bindT (locked_task c) k s = Inr (x, s')"
  then show "Mi K s'" using assms by (auto simp: bindT_Inr_iff dest!: locked_id dest: keepsD)
qed

lemma requeue_Mi: "keeps (Mi K) (requeue tm i run_id ended)"
  unfolding requeue_def
proof (rule Mi_bind_quiet [OF quiet.basic(3)], rule keeps_bind, rule Mi_note, simp_all add: same_face_def, goal_cases)
  case 1
  show ?case
    unfolding keeps_def
    by (rule Mi_transition, rule At_retry, rule At_get_task, rule At_settle, simp_all)
      (fold keeps_def, intro keeps_bind Mi_quiet quiet_intros keeps_case_option)
qed

lemmas told_steps = Mi_move Mi_move_end keeps_bind [OF release_lease_Mi] keeps_bind [OF requeue_Mi] requeue_Mi
  mark_ready_Mi keeps_if keeps_return

locale failed_mirror =
  fixes tm :: task_manager
  assumes failed_hook_Mi: "\<And>K i. keeps (Mi K) (failed_hook tm i)"
begin

lemma cancel_Mi: "keeps (Mi K) (cancel_task tm i reason)"
  unfolding cancel_task_def
  by ((rule told_steps failed_hook_Mi | rule Mi_bind_quiet, (intro quiet.bind quiet_intros; fail) |
      (simp; fail))+)

lemma fail_Mi: "keeps (Mi K) (fail_task tm c ec message retryable)"
  unfolding fail_task_def Let_def
  by (rule Mi_locked,
      (rule told_steps keeps_bind [OF failed_hook_Mi] | rule Mi_bind_quiet, (intro quiet.bind quiet_intros; fail) |
        (simp; fail))+)

lemma abort_Mi: "keeps (Mi K) (abort_task tm c reason message)"
  unfolding abort_task_def bindT_if bindT_assoc
  by (rule Mi_locked,
      (rule told_steps failed_hook_Mi | rule Mi_bind_quiet, (intro quiet.bind quiet_intros; fail) |
        rule Mi_quiet, (intro quiet_intros; fail) | (simp; fail))+)

lemma fail_without_run_Mi: "keeps (Mi K) (fail_without_run tm i ec message)"
  unfolding fail_without_run_def
  by (intro keeps_bind [OF Mi_note] Mi_move failed_hook_Mi) (simp_all add: same_face_def)

lemma release_one_Mi: "keeps (Mi K) (release_one tm i)"
  unfolding release_one_def
  by ((rule told_steps failed_hook_Mi | rule Mi_bind_quiet, (intro quiet.bind quiet_intros; fail) |
      (simp; fail))+)

lemma release_blocked_Mi: "keeps (Mi K) (release_blocked tm company)"
  unfolding release_blocked_def
  by (rule Mi_bind_quiet [OF quiet.basic(3)], intro keeps_bind keeps_for release_one_Mi keeps_return)

lemma reap_one_Mi: "keeps (Mi K) (reap_one tm i)"
  unfolding reap_one_def Let_def
  by ((rule told_steps failed_hook_Mi | rule Mi_bind_quiet, (intro quiet.bind quiet_intros; fail) |
      (simp; fail))+)

lemma reap_Mi: "keeps (Mi K) (reap_expired_leases tm bound)"
  unfolding reap_expired_leases_def
  by (rule Mi_bind_quiet [OF quiet.basic(3)])+ (intro keeps_bind keeps_for reap_one_Mi keeps_return)

end

locale mirror_hooks = failed_mirror +
  assumes finished_hook_Mi: "\<And>K i. keeps (Mi K) (finished_hook tm i)"
    and links_quiet: "\<And>i r. quiet (activity_links tm i r)"
begin

lemma finished_told:
  assumes "\<And>x. keeps (Mi K) (k x)"
  shows "keeps (Mi K) (bindT (task_transition i T_SUCCEEDED actor reason) (\<lambda>_. bindT (finished_hook tm i) (\<lambda>us.
    bindT (tm_emit i (TaskP (TaskSucceeded r summary us)) e) (\<lambda>_. k us))))"
  unfolding keeps_def
proof (rule Mi_transition)
  fix t :: task and x :: state_transition
  let ?t = "t\<lparr>t_state := T_SUCCEEDED\<rparr>"
  have "triple (At K i ?t (t_attempt ?t)) (bindT (finished_hook tm i) (\<lambda>us.
    bindT (tm_emit i (TaskP (TaskSucceeded r summary us)) e) (\<lambda>_. k us))) (\<lambda>_. Mi K)"
    by (rule At_hook [OF finished_hook_Mi], simp, rule At_settle) (use assms in \<open>simp_all add: keeps_def\<close>)
  then show "triple (At K i ?t (t_attempt t)) (bindT (finished_hook tm i) (\<lambda>us.
    bindT (tm_emit i (TaskP (TaskSucceeded r summary us)) e) (\<lambda>_. k us))) (\<lambda>_. Mi K)" by simp
qed

lemma succeed_Mi: "keeps (Mi K) (succeed tm c output summary)"
  unfolding succeed_def
  by (rule Mi_locked, rule Mi_bind_quiet [OF quiet_claim(2)], rule Mi_bind_quiet [OF quiet.basic(3)],
      rule keeps_bind [OF Mi_note], simp_all add: same_face_def, rule keeps_bind [OF release_lease_Mi],
      rule finished_told, rule Mi_quiet, intro quiet.bind links_quiet quiet_intros)

lemma complete_without_run_Mi: "keeps (Mi K) (complete_without_run tm i output summary)"
  unfolding complete_without_run_def
  by (intro keeps_bind [OF Mi_note] finished_told keeps_return) (simp_all add: same_face_def)

end

section \<open>Approvals\<close>

lemma suspend_Mi: "keeps (Mi K) (suspend_for_approval c approval_id)"
  unfolding suspend_for_approval_def
  by (rule Mi_locked)
    ((rule told_steps | rule Mi_bind_quiet, (intro quiet.bind quiet_intros; fail) |
        rule Mi_quiet, (intro quiet_intros; fail) | (simp; fail))+)

lemma await_Mi: "keeps (Mi K) (await_approval i approval_id)"
  unfolding await_approval_def by (rule Mi_move_end) simp_all

lemma release_after_Mi: "keeps (Mi K) (release_after_approval i)"
  unfolding release_after_approval_def by (rule ready_told)

lemma request_Mi:
  "keeps (Mi K) (request_for_run svc c kind action payload text ttl)"
  "keeps (Mi K) (request_for_task svc i kind text2 pl act by1 ttl2)"
  unfolding request_for_run_def request_for_task_def
  by ((rule keeps_bind [OF suspend_Mi] keeps_bind [OF await_Mi] keeps_return |
      rule Mi_bind_quiet, (intro quiet_intros; fail))+)

section \<open>The workflow engine\<close>

lemma cancel_waiting_Mi:
  "(\<And>i r. keeps (Mi K) (cancel i r)) \<Longrightarrow> keeps (Mi K) (cancel_waiting cancel waiting reason)"
  unfolding cancel_waiting_def by (intro keeps_for Mi_bind_quiet keeps_if keeps_return quiet_get)

lemma failed_step_Mi: "(\<And>i r. keeps (Mi K) (cancel i r)) \<Longrightarrow> keeps (Mi K) (task_failed_step cancel i)"
  unfolding task_failed_step_def
  by (intro keeps_intros Mi_quiet [OF quiet_get(1)] Mi_quiet [OF quiet_close(2)])

lemma engine_failed_Mi: "keeps (Mi K) (engine_on_task_failed n tm i)"
proof (induction n arbitrary: K i)
  case 0
  then show ?case by (simp add: keeps_throw)
next
  case (Suc n)
  have "failed_mirror (tm\<lparr>on_task_failed := Some (engine_on_task_failed n tm)\<rparr>)"
    by (rule failed_mirror.intro) (simp add: failed_hook_def Suc)
  then show ?case
    unfolding engine_on_task_failed.simps by (intro failed_step_Mi failed_mirror.cancel_Mi)
qed

lemma engine_cancel_Mi:
  "keeps (Mi K) (cancel_task (tm\<lparr>on_task_failed := Some (engine_on_task_failed n tm)\<rparr>) i reason)"
  by (intro failed_mirror.cancel_Mi failed_mirror.intro) (simp add: failed_hook_def engine_failed_Mi)

lemma unlock_all_Mi: "keeps (Mi K) (unlock_all i succeeded js)"
proof (induction js)
  case (Cons j js)
  then show ?case
    unfolding unlock_all.simps
    by (intro Mi_bind_quiet [OF quiet_get(1)] keeps_if keeps_bind [OF mark_ready_Mi] keeps_bind keeps_return)
qed (simp add: keeps_return)

lemma add_round_Mi: "keeps (Mi K) (add_round t lp w output n inside latest new ns)"
proof (induction ns arbitrary: new)
  case (Cons n ns)
  then show ?case
    unfolding add_round.simps Let_def loop_deps_def by (intro keeps_intros add_task_Mi)
qed (simp add: keeps_return)

lemma new_round_Mi: "keeps (Mi K) (new_round w tp lp t siblings waiting n)"
  unfolding new_round_def Let_def
  by (intro keeps_intros add_round_Mi Mi_note Mi_quiet [OF quiet_engine_emit] Mi_quiet [OF quiet_get(1)])
    (simp_all add: replace_dep_def same_face_def)

lemma loop_step_Mi: "(\<And>i r. keeps (Mi K) (cancel i r)) \<Longrightarrow> keeps (Mi K) (loop_step reg cancel t siblings)"
  unfolding loop_step_def Let_def
  by (intro keeps_intros)
    (auto intro!: keeps_intros cancel_waiting_Mi Mi_quiet [OF quiet_close(2)] new_round_Mi split: prod.splits)

lemma halt_step_Mi: "(\<And>i r. keeps (Mi K) (cancel i r)) \<Longrightarrow> keeps (Mi K) (halt_step reg cancel t siblings)"
  unfolding halt_step_def
  by (intro keeps_intros)
    (auto intro!: keeps_intros cancel_waiting_Mi Mi_quiet [OF quiet_close(2)] split: prod.splits)

lemma finished_step_Mi: "(\<And>i r. keeps (Mi K) (cancel i r)) \<Longrightarrow> keeps (Mi K) (task_finished_step reg cancel i)"
  unfolding task_finished_step_def
  by (intro keeps_intros Mi_quiet [OF quiet_get(1)] halt_step_Mi loop_step_Mi unlock_all_Mi Mi_quiet [OF quiet_close(2)])

lemma engine_finished_Mi: "keeps (Mi K) (engine_on_task_finished n tm reg i)"
  unfolding engine_on_task_finished_def by (intro finished_step_Mi engine_cancel_Mi)

interpretation bound_mirror: failed_mirror "engine_manager n reg base reads" for n reg base reads
proof
  show "keeps (Mi K) (failed_hook (engine_manager n reg base reads) i)" for K i
    by (simp add: engine_manager_def failed_hook_def engine_failed_Mi)
qed

lemma quiet_links: "(\<And>h i r. h \<in> set hooks \<Longrightarrow> quiet (h i r)) \<Longrightarrow> quiet (collect_links hooks i r)"
proof (induction hooks)
  case (Cons h hooks)
  then show ?case unfolding collect_links.simps by (intro quiet.bind quiet_intros) simp_all
qed (simp add: quiet_intros)

interpretation bound_mirror: mirror_hooks "engine_manager n reg base reads" for n reg base reads
proof
  show "keeps (Mi K) (finished_hook (engine_manager n reg base reads) i)" for K i
    by (simp add: engine_manager_def finished_hook_def engine_finished_Mi)
  show "quiet (activity_links (engine_manager n reg base reads) i r)" for i r
    unfolding activity_links_def
    by (rule quiet_links) (auto simp: engine_manager_def reading_def intro!: quiet.bind quiet_intros)
qed

lemma add_nodes_Mi: "keeps (Mi K) (add_nodes w params ids display ns)"
proof (induction ns)
  case (Cons n ns)
  then show ?case unfolding add_nodes.simps by (intro keeps_intros add_task_Mi)
qed (simp add: keeps_return)

lemma instantiate_Mi: "keeps (Mi K) (workflow_instantiate reg name company project ps cy)"
  unfolding workflow_instantiate_def Let_def
  by (intro keeps_intros add_nodes_Mi Mi_quiet [OF quiet_engine_emit] Mi_quiet [OF quiet_uuid7]
      Mi_quiet [OF quiet_modify]) simp_all

lemma workflow_cancel_Mi: "keeps (Mi K) (workflow_cancel n tm run reason)"
  unfolding workflow_cancel_def
  by (intro keeps_intros engine_cancel_Mi Mi_quiet [OF quiet_get(1)] Mi_quiet [OF quiet_close(2)]
      Mi_quiet [OF quiet_modify]) simp_all

lemma runner_move_Mi: "keeps (Mi K) (runner_move tm c st actor)"
  unfolding runner_move_def by (intro keeps_bind heartbeat_Mi keeps_return Mi_quiet quiet_intros)

section \<open>Every state\<close>

lemma rt_step_Mi:
  assumes y: "wired y" and step: "rt_step y (s, C) (s', C')" and M: "Mi {} s"
  shows "Mi {} s'"
proof -
  obtain base reads where m: "su_manager y = engine_manager (su_fuel y) (su_templates y) base reads"
    using y by (auto simp: wired_def dest: bind_engine_manager)
  have hooks: "failed_mirror (su_manager y)" "mirror_hooks (su_manager y)"
    unfolding m by (rule bound_mirror.failed_mirror_axioms bound_mirror.mirror_hooks_axioms)+
  note ops = add_task_Mi instantiate_Mi workflow_cancel_Mi claim_next_Mi heartbeat_Mi runner_move_Mi
    failed_mirror.cancel_Mi [OF hooks(1)] failed_mirror.reap_Mi [OF hooks(1)] failed_mirror.release_blocked_Mi [OF hooks(1)]
    failed_mirror.fail_Mi [OF hooks(1)] failed_mirror.abort_Mi [OF hooks(1)] failed_mirror.fail_without_run_Mi [OF hooks(1)]
    mirror_hooks.succeed_Mi [OF hooks(2)] mirror_hooks.complete_without_run_Mi [OF hooks(2)]
    request_Mi release_after_Mi Mi_quiet [OF quiet_activity(1)] Mi_quiet [OF quiet_activity(3)]
  show ?thesis
    using step
  proof cases
    case (rt_time now)
    with M show ?thesis by (simp add: Mi_def mirrored_def)
  next
    case (rt_emit e x)
    with M Mi_quiet [OF quiet_emit] show ?thesis by (blast dest: keepsD)
  qed (rule keepsD [where I = "Mi {}", OF _ M, rotated], assumption, rule ops)+
qed

end
