(* ===== verification/MirrorProps.thy ===== *)
theory MirrorProps
  imports MirrorOps RuntimeProps Templates
begin

text \<open>
  The contract of the realtime channel for tasks: a client that folds the event log sees every
  task as the projection of the tables shows it. And the one column for which it does not hold.
\<close>

interpretation positive_log: db_invariant "\<lambda>s. 1 \<le> next_seq s \<and> (\<forall>e \<in> set (events s). 0 < seq_of e)"
proof unfold_locales
  show "keeps (\<lambda>s. 1 \<le> next_seq s \<and> (\<forall>e \<in> set (events s). 0 < seq_of e)) (emit e)" for e
    by (auto simp: keeps_def triple_def seq_of_def dest!: emit_effect)
qed (auto simp: write_run elim!: transition_effects)

lemma rt_reachable_views:
  assumes "rt_reachable y (s, C)" "wired y"
  shows "numbered (events s) \<and> Mi {} s"
proof -
  have "log_ok s \<and> (1 \<le> next_seq s \<and> (\<forall>e \<in> set (events s). 0 < seq_of e)) \<and> Mi {} s"
    using assms(1)
  proof (induction "(s, C)" arbitrary: s C rule: rt_reachable.induct)
    case (rt_start s)
    then show ?case by (simp add: pristine_def log_ok_def Mi_def mirrored_def)
  next
    case (rt_more p s' C')
    obtain s C where p: "p = (s, C)" by (cases p)
    have step: "rt_step y (s, C) (s', C')"
      and I: "log_ok s \<and> (1 \<le> next_seq s \<and> (\<forall>e \<in> set (events s). 0 < seq_of e)) \<and> Mi {} s"
      using rt_more p by auto
    show ?case
      using event_log.rt_step_keeps [OF assms(2) step] positive_log.rt_step_keeps [OF assms(2) step] rt_step_Mi [OF assms(2) step] I
      by blast
  qed
  then show ?thesis by (auto simp: numbered_def log_ok_def)
qed



section \<open>Dependencies go stale\<close>

text \<open>
  Another round of a loop points the tasks that wait at the new check, in the table and without an
  event about them: the reducer goes on showing the dependency on the old one.
\<close>

definition loop_template :: workflow_template where
  "loop_template = \<lparr>wt_name = ''news.loop'',
     wt_nodes = [demo_node ''check'' [], demo_node ''publish'' [''check'']],
     wt_loops = [\<lparr>lp_check = ''check'', lp_back_to = ''check'', lp_again = (\<lambda>_. True), lp_carry = (\<lambda>_. []),
       lp_max_rounds = 2, lp_round_label = ''again''\<rparr>],
     wt_halts = []\<rparr>"

definition loop_manager :: task_manager where
  "loop_manager = demo_manager\<lparr>on_task_finished := Some (engine_on_task_finished 3 demo_manager [(''news.loop'', loop_template)]),
     on_task_failed := Some (engine_on_task_failed 3 demo_manager)\<rparr>"

definition loop_started :: db where
  "loop_started = run_db (workflow_instantiate [(''news.loop'', loop_template)] ''news.loop'' 7 8 None None) demo_start"

definition loop_repeated :: db where
  "loop_repeated = run_db (complete_without_run loop_manager (t_id (hd (tasks loop_started))) None None) loop_started"

lemma dependencies_go_stale:
  "map (\<lambda>t. (t_name t, t_state t)) (tasks loop_repeated) =
     [(''check'', T_SUCCEEDED), (''publish'', T_PENDING), (''check'', T_READY)] \<and>
   t_depends_on (tasks loop_repeated ! 1) = [t_id (tasks loop_repeated ! 2)] \<and>
   map_option tv_depends_on (map_of (rs_tasks (red_fold (events loop_repeated) (blank_client 7)))
     (t_id (tasks loop_repeated ! 1))) = Some [t_id (tasks loop_repeated ! 0)]"
  by code_simp

end
