(* ===== verification/Scheduler.thy ===== *)
theory Scheduler
  imports Outbox
begin

text \<open>
  The scheduler (\<open>runtime/scheduler.py\<close>): claiming due schedules under a lease, firing each
  in its own transaction, recording failures.
\<close>

record schedule =
  sc_id :: uuid
  sc_company_id :: uuid
  sc_name :: string
  sc_cron :: string
  sc_timezone :: string
  sc_handler :: string
  sc_enabled :: bool
  sc_next_run_at :: instant
  sc_last_run_at :: "instant option"
  sc_lease_owner :: "string option"
  sc_lease_until :: "instant option"
  sc_last_error :: "string option"
  sc_consecutive_failures :: nat

record sched_db =
  sd_db :: db
  sd_schedules :: "schedule list"

text \<open>
  \<open>cron\<close> is what the third-party \<open>croniter\<close> and the time-zone database answer: whether an
  expression and a zone are valid, and the first slot after an instant. A handler is a step on
  the database.
\<close>

record cron =
  cn_valid :: "string \<Rightarrow> bool"
  cn_zone :: "string \<Rightarrow> bool"
  cn_next :: "string \<Rightarrow> string \<Rightarrow> instant \<Rightarrow> instant"

record scheduler =
  sh_worker_id :: string
  sh_lease :: duration
  sh_retry_backoff :: duration
  sh_batch_size :: nat
  sh_handlers :: "(string \<times> (schedule \<Rightarrow> instant \<Rightarrow> unit db_tx)) list"

definition next_fire_time :: "cron \<Rightarrow> string \<Rightarrow> string \<Rightarrow> instant \<Rightarrow> err + instant" where
  "next_fire_time cr expr timezone after =
     (if \<not> cn_valid cr expr then Inl (ScheduleError expr)
      else if \<not> cn_zone cr timezone then Inl (ScheduleError timezone)
      else Inr (cn_next cr expr timezone after))"

definition scheduler_register ::
    "scheduler \<Rightarrow> string \<Rightarrow> (schedule \<Rightarrow> instant \<Rightarrow> unit db_tx) \<Rightarrow> err + scheduler" where
  "scheduler_register sh key handler =
     (if map_of (sh_handlers sh) key \<noteq> None then Inl (ScheduleError key)
      else Inr (sh\<lparr>sh_handlers := dict_set key handler (sh_handlers sh)\<rparr>))"

section \<open>Claiming\<close>

definition schedule_due :: "instant \<Rightarrow> schedule \<Rightarrow> bool" where
  "schedule_due now sc \<longleftrightarrow>
     sc_enabled sc \<and> sc_next_run_at sc \<le> now \<and>
     (case sc_lease_until sc of None \<Rightarrow> True | Some u \<Rightarrow> u < now)"

definition due_batch :: "scheduler \<Rightarrow> sched_db \<Rightarrow> schedule list" where
  "due_batch sh s =
     take (sh_batch_size sh)
       (sort_key sc_next_run_at (filter (schedule_due (clock (sd_db s))) (sd_schedules s)))"

definition lease_row :: "scheduler \<Rightarrow> instant \<Rightarrow> schedule \<Rightarrow> schedule" where
  "lease_row sh now sc = sc\<lparr>sc_lease_owner := Some (sh_worker_id sh), sc_lease_until := Some (now + sh_lease sh)\<rparr>"

definition claim_due :: "scheduler \<Rightarrow> sched_db \<Rightarrow> (uuid \<times> instant) list \<times> sched_db" where
  "claim_due sh s =
     (let rows = due_batch sh s; now = clock (sd_db s)
      in (map (\<lambda>sc. (sc_id sc, sc_next_run_at sc)) rows,
          s\<lparr>sd_schedules := map (\<lambda>sc. if sc_id sc \<in> set (map sc_id rows) then lease_row sh now sc else sc)
             (sd_schedules s)\<rparr>))"

section \<open>Firing\<close>

definition schedule_of :: "sched_db \<Rightarrow> uuid \<Rightarrow> schedule option" where
  "schedule_of s i = find_row sc_id i (sd_schedules s)"

definition in_sched_db :: "'a db_tx \<Rightarrow> (sched_db, err, 'a) tx" where
  "in_sched_db = zoomT sd_db (\<lambda>d s. s\<lparr>sd_db := d\<rparr>)"

text \<open>The body of \<open>_fire\<close>: one transaction; \<open>None\<close> when the lease is no longer this worker's.\<close>

definition fire_body :: "cron \<Rightarrow> scheduler \<Rightarrow> uuid \<Rightarrow> instant \<Rightarrow> (sched_db, err, string option) tx" where
  "fire_body cr sh i scheduled_for =
     bindT (getsT (\<lambda>s. schedule_of s i)) (\<lambda>row.
     case row of
       None \<Rightarrow> returnT None
     | Some sc \<Rightarrow>
         if sc_lease_owner sc \<noteq> Some (sh_worker_id sh) then returnT None
         else
           bindT (someT (map_of (sh_handlers sh) (sc_handler sc)) (ScheduleError (sc_handler sc))) (\<lambda>handler.
           bindT (in_sched_db (handler sc scheduled_for)) (\<lambda>_.
           bindT (getsT (\<lambda>s. clock (sd_db s))) (\<lambda>now.
           bindT (liftT (next_fire_time cr (sc_cron sc) (sc_timezone sc) (max now scheduled_for))) (\<lambda>nxt.
           bindT (modifyT (\<lambda>s. s\<lparr>sd_schedules := update_row sc_id i (\<lambda>sc. sc\<lparr>
              sc_last_run_at := Some now, sc_next_run_at := nxt, sc_lease_owner := None,
              sc_lease_until := None, sc_last_error := None, sc_consecutive_failures := 0\<rparr>)
              (sd_schedules s)\<rparr>)) (\<lambda>_.
           bindT (in_sched_db (bindT (new_event (GovernanceP (ScheduleFired (sc_name sc) scheduled_for))
              (sc_company_id sc) (Actor_system ''scheduler'') ''schedule'' (sc_id sc) no_refs None)
              emit)) (\<lambda>_.
           returnT (Some (sc_name sc)))))))))"

definition record_failure :: "scheduler \<Rightarrow> uuid \<Rightarrow> string \<Rightarrow> sched_db \<Rightarrow> sched_db" where
  "record_failure sh i message s =
     (case schedule_of s i of
        None \<Rightarrow> s
      | Some sc \<Rightarrow>
          if sc_lease_owner sc \<noteq> Some (sh_worker_id sh) then s
          else s\<lparr>sd_schedules := update_row sc_id i (\<lambda>sc. sc\<lparr>
             sc_lease_until := Some (clock (sd_db s) + sh_retry_backoff sh),
             sc_last_error := Some (take 2000 message),
             sc_consecutive_failures := Suc (sc_consecutive_failures sc)\<rparr>) (sd_schedules s)\<rparr>)"

text \<open>\<open>_fire\<close>: whatever the body raises is rolled back and recorded; the text is a parameter.\<close>

definition fire :: "cron \<Rightarrow> (err \<Rightarrow> string) \<Rightarrow> scheduler \<Rightarrow> uuid \<Rightarrow> instant \<Rightarrow> sched_db \<Rightarrow> string option \<times> sched_db" where
  "fire cr describe sh i scheduled_for s =
     (case fire_body cr sh i scheduled_for s of
        Inr (name, s') \<Rightarrow> (name, s')
      | Inl e \<Rightarrow> (None, record_failure sh i (describe e) s))"

fun fire_all ::
    "cron \<Rightarrow> (err \<Rightarrow> string) \<Rightarrow> scheduler \<Rightarrow> (uuid \<times> instant) list \<Rightarrow> sched_db \<Rightarrow> string list \<times> sched_db" where
  "fire_all cr describe sh [] s = ([], s)"
| "fire_all cr describe sh ((i, ts) # rest) s =
     (let (name, s1) = fire cr describe sh i ts s;
          (names, s2) = fire_all cr describe sh rest s1
      in (case name of None \<Rightarrow> names | Some n \<Rightarrow> n # names, s2))"

definition tick :: "cron \<Rightarrow> (err \<Rightarrow> string) \<Rightarrow> scheduler \<Rightarrow> sched_db \<Rightarrow> string list \<times> sched_db" where
  "tick cr describe sh s = (let (claimed, s1) = claim_due sh s in fire_all cr describe sh claimed s1)"

definition create_schedule ::
    "cron \<Rightarrow> uuid \<Rightarrow> string \<Rightarrow> string \<Rightarrow> string \<Rightarrow> string \<Rightarrow> instant option \<Rightarrow> (sched_db, err, uuid) tx" where
  "create_schedule cr company_id name expr handler timezone now0 =
     bindT (getsT (\<lambda>s. clock (sd_db s))) (\<lambda>now.
     bindT (liftT (next_fire_time cr expr timezone now)) (\<lambda>_.
     bindT (liftT (next_fire_time cr expr timezone (case now0 of None \<Rightarrow> now | Some ts \<Rightarrow> ts))) (\<lambda>nxt.
     bindT (in_sched_db uuid7) (\<lambda>i.
     bindT (modifyT (\<lambda>s. s\<lparr>sd_schedules := sd_schedules s @ [
       \<lparr>sc_id = i, sc_company_id = company_id, sc_name = name, sc_cron = expr,
        sc_timezone = timezone, sc_handler = handler, sc_enabled = True, sc_next_run_at = nxt,
        sc_last_run_at = None, sc_lease_owner = None, sc_lease_until = None,
        sc_last_error = None, sc_consecutive_failures = 0\<rparr>]\<rparr>)) (\<lambda>_.
     returnT i)))))"

end
