(* ===== verification/SchedulerProps.thy ===== *)
theory SchedulerProps
  imports Scheduler SystemProps
begin

text \<open>
  What the scheduler guarantees: a schedule is never with two workers at once, a handler that
  fails leaves nothing behind but the record of its failure, and a schedule that fired is not due
  again before its next slot.
\<close>

section \<open>Claims\<close>

lemma claimed_ids: "map fst (fst (claim_due sh s)) = map sc_id (due_batch sh s)"
  by (simp add: claim_due_def Let_def comp_def)

lemma due_batch_due: "sc \<in> set (due_batch sh s) \<Longrightarrow> sc \<in> set (sd_schedules s) \<and> schedule_due (clock (sd_db s)) sc"
  by (auto simp: due_batch_def dest!: in_set_takeD)

lemma claimed_row:
  assumes "sc \<in> set (sd_schedules (snd (claim_due sh s)))" "sc_id sc \<in> set (map fst (fst (claim_due sh s)))"
  shows "sc_lease_owner sc = Some (sh_worker_id sh) \<and> sc_lease_until sc = Some (clock (sd_db s) + sh_lease sh)"
  using assms unfolding claimed_ids
  by (auto simp: claim_due_def Let_def lease_row_def due_batch_def)

text \<open>
  A schedule is with one worker at a time. What one worker claims, another that claims within
  the lease of the first does not get, whatever the two worker processes are called.
\<close>

theorem claims_are_disjoint:
  assumes "claim_due sh s = (claimed, s1)"
    and "now \<le> clock (sd_db s) + sh_lease sh"
    and "claim_due sh' (s1\<lparr>sd_db := (sd_db s1)\<lparr>clock := now\<rparr>\<rparr>) = (claimed', s2)"
  shows "fst ` set claimed \<inter> fst ` set claimed' = {}"
proof -
  let ?s = "s1\<lparr>sd_db := (sd_db s1)\<lparr>clock := now\<rparr>\<rparr>"
  have False if i: "i \<in> fst ` set claimed" "i \<in> fst ` set claimed'" for i
  proof -
    have "i \<in> set (map sc_id (due_batch sh' ?s))" using i(2) assms(3) claimed_ids [of sh' ?s] by (metis fst_conv set_map)
    then obtain sc where sc: "sc \<in> set (due_batch sh' ?s)" "sc_id sc = i" by auto
    then have "sc \<in> set (sd_schedules s1)" "schedule_due now sc" using due_batch_due [OF sc(1)] by simp_all
    moreover from this(1) have "sc_lease_until sc = Some (clock (sd_db s) + sh_lease sh)"
      using claimed_row [of sc sh s] assms(1) i(1) sc(2) by simp
    ultimately show False using assms(2) by (simp add: schedule_due_def)
  qed
  then show ?thesis by blast
qed

section \<open>Firing\<close>

lemma schedule_key: "schedule_of s i = Some sc \<Longrightarrow> sc_id sc = i"
  by (auto simp: schedule_of_def dest: find_row_key)

text \<open>
  C39. A failed handler leaves nothing behind. When firing a schedule this worker holds raises,
  whatever the handler wrote is rolled back: the database is as before. The schedule keeps its
  slot, so the slot is not lost; it is held back for the retry time, and the failure is counted
  and its text kept. No other schedule changes.
\<close>

theorem failed_fire_rolls_back:
  assumes "fire_body cr sh i ts s = Inl e" "schedule_of s i = Some sc" "sc_lease_owner sc = Some (sh_worker_id sh)"
    and "fire cr describe sh i ts s = (name, s')"
  shows "name = None \<and> sd_db s' = sd_db s \<and>
    schedule_of s' i = Some (sc\<lparr>sc_lease_until := Some (clock (sd_db s) + sh_retry_backoff sh),
      sc_last_error := Some (take 2000 (describe e)), sc_consecutive_failures := Suc (sc_consecutive_failures sc)\<rparr>) \<and>
    (\<forall>j. j \<noteq> i \<longrightarrow> schedule_of s' j = schedule_of s j)"
proof -
  let ?f = "\<lambda>sc. sc\<lparr>sc_lease_until := Some (clock (sd_db s) + sh_retry_backoff sh),
      sc_last_error := Some (take 2000 (describe e)), sc_consecutive_failures := Suc (sc_consecutive_failures sc)\<rparr>"
  have s': "name = None" "s' = s\<lparr>sd_schedules := update_row sc_id i ?f (sd_schedules s)\<rparr>"
    using assms by (simp_all add: fire_def record_failure_def)
  have "schedule_of s' j = (if j = i then map_option ?f (schedule_of s i) else schedule_of s j)" for j
    using find_row_update [of sc_id ?f j i "sd_schedules s"] by (simp add: s' schedule_of_def)
  then show ?thesis using assms(2) s' by simp
qed

text \<open>What a successful firing did.\<close>

lemma fire_body_effect:
  assumes "fire_body cr sh i ts s = Inr (Some name, s')"
  obtains sc handler d next_run where "schedule_of s i = Some sc" "sc_lease_owner sc = Some (sh_worker_id sh)"
    "map_of (sh_handlers sh) (sc_handler sc) = Some handler" "handler sc ts (sd_db s) = Inr ((), d)"
    "next_fire_time cr (sc_cron sc) (sc_timezone sc) (max (clock d) ts) = Inr next_run" "name = sc_name sc"
    "clock (sd_db s') = clock d" "length (events (sd_db s')) = Suc (length (events d))"
    "schedule_of s' i = Some (sc\<lparr>sc_last_run_at := Some (clock d), sc_next_run_at := next_run, sc_lease_owner := None,
       sc_lease_until := None, sc_last_error := None, sc_consecutive_failures := 0\<rparr>)"
proof -
  obtain sc where sc: "schedule_of s i = Some sc" "sc_lease_owner sc = Some (sh_worker_id sh)"
    using assms by (auto simp: fire_body_def run_bindT run_getsT run_returnT split: option.splits if_splits)
  obtain handler d where h: "map_of (sh_handlers sh) (sc_handler sc) = Some handler" "handler sc ts (sd_db s) = Inr ((), d)"
    using assms sc
    by (auto simp: fire_body_def run_bindT run_getsT run_someT in_sched_db_def run_zoomT split: option.splits sum.splits)
  obtain next_run where n: "next_fire_time cr (sc_cron sc) (sc_timezone sc) (max (clock d) ts) = Inr next_run"
    using assms sc h
    by (auto simp: fire_body_def run_bindT run_getsT run_someT in_sched_db_def run_zoomT run_liftT split: sum.splits)
  let ?f = "\<lambda>sc. sc\<lparr>sc_last_run_at := Some (clock d), sc_next_run_at := next_run, sc_lease_owner := None,
       sc_lease_until := None, sc_last_error := None, sc_consecutive_failures := 0\<rparr>"
  have "sd_schedules s' = update_row sc_id i ?f (sd_schedules s) \<and> name = sc_name sc \<and> clock (sd_db s') = clock d \<and>
      length (events (sd_db s')) = Suc (length (events d))"
    using assms sc h n
    by (auto simp: fire_body_def run_bindT run_getsT run_someT in_sched_db_def run_zoomT run_liftT run_modifyT
        run_returnT new_event_def uuid7_def split: sum.splits dest!: emit_effect)
  then show thesis
    using that sc h n find_row_update [of sc_id ?f i i "sd_schedules s"] by (simp add: schedule_of_def)
qed

text \<open>
  A schedule that fired is done with its slot. If the cron library answers slots after the
  instant it is asked for, then after a successful firing the schedule is free, its next slot lies
  after now and after the slot that was fired, and so it is not due before that next slot.
\<close>

theorem fired_schedule_moves_on:
  assumes "\<And>expr tz after. after < cn_next cr expr tz after"
    and "fire_body cr sh i ts s = Inr (Some name, s')"
  shows "\<exists>sc. schedule_of s' i = Some sc \<and> clock (sd_db s') < sc_next_run_at sc \<and> ts < sc_next_run_at sc \<and>
    sc_lease_owner sc = None \<and> sc_consecutive_failures sc = 0 \<and>
    (\<forall>now. schedule_due now sc \<longrightarrow> sc_next_run_at sc \<le> now)"
  using assms(2)
proof (rule fire_body_effect)
  fix sc handler d next_run
  assume n: "next_fire_time cr (sc_cron sc) (sc_timezone sc) (max (clock d) ts) = Inr next_run"
    "clock (sd_db s') = clock d" "schedule_of s' i = Some (sc\<lparr>sc_last_run_at := Some (clock d), sc_next_run_at := next_run,
       sc_lease_owner := None, sc_lease_until := None, sc_last_error := None, sc_consecutive_failures := 0\<rparr>)"
  have "max (clock d) ts < next_run"
    using n(1) assms(1) [of "max (clock d) ts" "sc_cron sc" "sc_timezone sc"]
    by (auto simp: next_fire_time_def split: if_splits)
  then show ?thesis using n(2,3) by (auto simp: schedule_due_def)
qed

section \<open>An example\<close>

definition demo_schedule :: "uuid \<Rightarrow> string \<Rightarrow> schedule" where
  "demo_schedule i key = \<lparr>sc_id = i, sc_company_id = 7, sc_name = ''nightly'', sc_cron = ''0 * * * *'', sc_timezone = ''UTC'',
     sc_handler = key, sc_enabled = True, sc_next_run_at = 90, sc_last_run_at = None, sc_lease_owner = None,
     sc_lease_until = None, sc_last_error = None, sc_consecutive_failures = 0\<rparr>"

definition demo_schedules :: sched_db where
  "demo_schedules = \<lparr>sd_db = demo_start, sd_schedules = [demo_schedule 1 ''works'', demo_schedule 2 ''fails'']\<rparr>"

definition demo_scheduler :: "string \<Rightarrow> scheduler" where
  "demo_scheduler name = \<lparr>sh_worker_id = name, sh_lease = 60, sh_retry_backoff = 30, sh_batch_size = 10,
     sh_handlers = [(''works'', \<lambda>sc ts. bindT (add_task demo_task) (\<lambda>_. returnT ())),
       (''fails'', \<lambda>sc ts. bindT (add_task demo_task) (\<lambda>_. throwT AttributeError))]\<rparr>"

text \<open>A cron with a slot every hour.\<close>

definition hourly :: cron where
  "hourly = \<lparr>cn_valid = (\<lambda>_. True), cn_zone = (\<lambda>_. True), cn_next = (\<lambda>_ _ after. (after div 3600 + 1) * 3600)\<rparr>"

definition demo_leased :: sched_db where
  "demo_leased = snd (claim_due (demo_scheduler ''a'') demo_schedules)"

theorem claims_are_disjoint_witness:
  "\<exists>claimed' s2. claim_due (demo_scheduler ''a'') demo_schedules = ([(1, 90), (2, 90)], demo_leased) \<and>
     claim_due (demo_scheduler ''b'') (demo_leased\<lparr>sd_db := (sd_db demo_leased)\<lparr>clock := 160\<rparr>\<rparr>) = (claimed', s2) \<and>
     {1, 2} \<inter> fst ` set claimed' = {}"
proof -
  obtain claimed' s2 where c: "claim_due (demo_scheduler ''b'') (demo_leased\<lparr>sd_db := (sd_db demo_leased)\<lparr>clock := 160\<rparr>\<rparr>) =
      (claimed', s2)" by (cases "claim_due (demo_scheduler ''b'') (demo_leased\<lparr>sd_db := (sd_db demo_leased)\<lparr>clock := 160\<rparr>\<rparr>)")
  have "fst (claim_due (demo_scheduler ''a'') demo_schedules) = [(1, 90), (2, 90)]" by code_simp
  then have a: "claim_due (demo_scheduler ''a'') demo_schedules = ([(1, 90), (2, 90)], demo_leased)"
    by (simp add: demo_leased_def prod_eq_iff)
  have "160 \<le> clock (sd_db demo_schedules) + sh_lease (demo_scheduler ''a'')" by code_simp
  from claims_are_disjoint [OF a this c] c a show ?thesis by simp
qed

theorem failed_fire_rolls_back_witness:
  "tasks (sd_db (snd (fire hourly (\<lambda>_. ''broken'') (demo_scheduler ''a'') 2 90 demo_leased))) = [] \<and>
   map_option sc_consecutive_failures (schedule_of (snd (fire hourly (\<lambda>_. ''broken'') (demo_scheduler ''a'') 2 90 demo_leased)) 2) = Some 1"
proof -
  have "(case fire_body hourly (demo_scheduler ''a'') 2 90 demo_leased of Inl _ \<Rightarrow> True | Inr _ \<Rightarrow> False) \<and>
      map_option (\<lambda>sc. (sc_lease_owner sc, sc_consecutive_failures sc)) (schedule_of demo_leased 2) =
      Some (Some (sh_worker_id (demo_scheduler ''a'')), 0) \<and> tasks (sd_db demo_leased) = []" by code_simp
  then obtain e sc where e: "fire_body hourly (demo_scheduler ''a'') 2 90 demo_leased = Inl e" "schedule_of demo_leased 2 = Some sc"
    "sc_lease_owner sc = Some (sh_worker_id (demo_scheduler ''a''))" "sc_consecutive_failures sc = 0" "tasks (sd_db demo_leased) = []"
    by (auto split: sum.splits)
  from failed_fire_rolls_back [OF e(1-3) surjective_pairing, of "\<lambda>_. ''broken''"] e(4,5) show ?thesis by simp
qed

theorem fired_schedule_moves_on_witness:
  "\<exists>s' sc. fire_body hourly (demo_scheduler ''a'') 1 90 demo_leased = Inr (Some ''nightly'', s') \<and>
     schedule_of s' 1 = Some sc \<and> 90 < sc_next_run_at sc \<and> length (tasks (sd_db s')) = 1"
proof -
  have "(case fire_body hourly (demo_scheduler ''a'') 1 90 demo_leased of Inl _ \<Rightarrow> None
      | Inr (name, s') \<Rightarrow> Some (name, length (tasks (sd_db s')))) = Some (Some ''nightly'', 1)" by code_simp
  then obtain s' where s': "fire_body hourly (demo_scheduler ''a'') 1 90 demo_leased = Inr (Some ''nightly'', s')"
    "length (tasks (sd_db s')) = 1" by (auto split: sum.splits)
  have "after < cn_next hourly expr tz after" for expr tz after
    by (simp add: hourly_def)
  from fired_schedule_moves_on [OF this s'(1)] s' show ?thesis by blast
qed

end
