(* ===== verification/ReducerProps.thy ===== *)
theory ReducerProps
  imports Mirror SystemProps
begin

text \<open>
  The realtime reducer under delivery that repeats and reorders: an event is applied at most once.
\<close>

lemma red_apply_company: "rs_company_id (fst (red_apply st e)) = rs_company_id st"
  by (auto simp: red_apply_def red_frame split: option.splits)

lemma red_apply_seq: "rs_last_seq st \<le> rs_last_seq (fst (red_apply st e))"
  by (auto simp: red_apply_def red_frame split: option.splits)

lemma red_fold_Nil [simp]: "red_fold [] st = st"
  by (simp add: red_fold_def)

lemma red_fold_Cons [simp]: "red_fold (e # es) st = red_fold es (fst (red_apply st e))"
  by (simp add: red_fold_def)

lemma red_fold_mono: "rs_company_id (red_fold es st) = rs_company_id st \<and> rs_last_seq st \<le> rs_last_seq (red_fold es st)"
proof (induction es arbitrary: st)
  case (Cons e es)
  then show ?case using red_apply_company [of st e] red_apply_seq [of st e] by (metis le_trans red_fold_Cons)
qed simp

lemma red_apply_seen: "e_seq e = Some q \<Longrightarrow> e_company_id e = rs_company_id st \<Longrightarrow> q \<le> rs_last_seq (fst (red_apply st e))"
  by (auto simp: red_apply_def red_frame)

lemma red_apply_again:
  assumes "e_seq e = None \<or> e_company_id e \<noteq> rs_company_id st \<or> seq_of e \<le> rs_last_seq st"
  shows "red_apply st e = (st, False)"
  using assms by (auto simp: red_apply_def seq_of_def split: option.splits)

lemma red_fold_seen:
  assumes "e \<in> set es"
  shows "e_seq e = None \<or> e_company_id e \<noteq> rs_company_id (red_fold es st) \<or> seq_of e \<le> rs_last_seq (red_fold es st)"
  using assms
proof (induction es arbitrary: st)
  case (Cons e' es)
  show ?case
  proof (cases "e = e'")
    case True
    have "seq_of e \<le> rs_last_seq (fst (red_apply st e))" if "e_seq e \<noteq> None" "e_company_id e = rs_company_id st"
      using that red_apply_seen [of e "seq_of e" st] by (auto simp: seq_of_def)
    then show ?thesis
      using red_fold_mono [of es "fst (red_apply st e)"] red_apply_company [of st e] True by (auto intro: le_trans)
  next
    case False
    with Cons show ?thesis by simp
  qed
qed simp

text \<open>
  An event is applied at most once. Whatever a client has received, receiving any of those
  events again, in any order and any number of times, changes nothing: not the state, and not the
  list of recent events.
\<close>

theorem redelivery_changes_nothing:
  assumes "set again \<subseteq> set es"
  shows "red_fold again (red_fold es st) = red_fold es st"
  using assms
proof (induction again)
  case (Cons e again)
  then have "red_apply (red_fold es st) e = (red_fold es st, False)"
    by (intro red_apply_again red_fold_seen) simp
  with Cons show ?case by simp
qed simp

theorem redelivery_changes_nothing_witness:
  "red_fold (rev (events demo_claimed) @ events demo_claimed) (red_fold (events demo_claimed) (blank_client 7)) =
     red_fold (events demo_claimed) (blank_client 7) \<and>
   rs_last_seq (red_fold (events demo_claimed) (blank_client 7)) = 4"
proof
  show "red_fold (rev (events demo_claimed) @ events demo_claimed) (red_fold (events demo_claimed) (blank_client 7)) =
     red_fold (events demo_claimed) (blank_client 7)"
    by (rule redelivery_changes_nothing) simp
  show "rs_last_seq (red_fold (events demo_claimed) (blank_client 7)) = 4" by code_simp
qed

end
