(* ===== verification/Memory.thy ===== *)
theory Memory
  imports Pystr
begin

text \<open>
  What an agent remembers between runs (\<open>runtime/memory.py\<close>): a bounded list of entries per
  agent, and the text they become in a prompt.
\<close>

datatype memory_kind = MK_run | MK_other string

record memory_entry =
  me_id :: uuid
  me_company_id :: uuid
  me_agent_id :: uuid
  me_kind :: memory_kind
  me_content :: dict
  me_task_id :: "uuid option"
  me_run_id :: "uuid option"
  me_created_at :: instant
  me_expires_at :: "instant option"

record memory_config =
  mm_ttl :: duration
  mm_row_cap :: nat

record memory_db =
  md_clock :: instant
  md_next_id :: uuid
  md_entries :: "memory_entry list"

definition ROW_CAP :: nat where
  "ROW_CAP = 50"

definition RECENT_RUNS :: nat where
  "RECENT_RUNS = 3"

definition MAX_CHARS :: nat where
  "MAX_CHARS = 1200"

text \<open>
  Rows are inserted with increasing \<open>created_at\<close> and identifier, so the newest first is the
  reverse of the table.
\<close>

definition of_agent :: "uuid \<Rightarrow> memory_entry \<Rightarrow> bool" where
  "of_agent agent_id e \<longleftrightarrow> me_agent_id e = agent_id"

definition enforce_cap :: "memory_config \<Rightarrow> uuid \<Rightarrow> memory_entry list \<Rightarrow> memory_entry list" where
  "enforce_cap cfg agent_id rows =
     (let kept = map me_id (take (mm_row_cap cfg) (rev (filter (of_agent agent_id) rows)))
      in if length kept < mm_row_cap cfg then rows
         else filter (\<lambda>e. \<not> (of_agent agent_id e \<and> me_id e \<notin> set kept)) rows)"

definition remember ::
    "memory_config \<Rightarrow> uuid \<Rightarrow> uuid \<Rightarrow> dict \<Rightarrow> memory_kind \<Rightarrow> uuid option \<Rightarrow> uuid option \<Rightarrow> memory_db \<Rightarrow>
     memory_entry \<times> memory_db" where
  "remember cfg company_id agent_id content kind task_id run_id s =
     (let entry = \<lparr>me_id = md_next_id s, me_company_id = company_id, me_agent_id = agent_id,
            me_kind = kind, me_content = content, me_task_id = task_id, me_run_id = run_id,
            me_created_at = md_clock s, me_expires_at = Some (md_clock s + mm_ttl cfg)\<rparr>
      in (entry, s\<lparr>md_next_id := Suc (md_next_id s),
                   md_entries := enforce_cap cfg agent_id (md_entries s @ [entry])\<rparr>))"

definition unexpired :: "instant \<Rightarrow> memory_entry \<Rightarrow> bool" where
  "unexpired now e \<longleftrightarrow> (case me_expires_at e of None \<Rightarrow> True | Some ts \<Rightarrow> ts > now)"

definition recall :: "memory_db \<Rightarrow> uuid \<Rightarrow> nat \<Rightarrow> memory_kind option \<Rightarrow> memory_entry list" where
  "recall s agent_id n kind =
     take n (rev (filter (\<lambda>e. of_agent agent_id e \<and> unexpired (md_clock s) e \<and>
       (case kind of None \<Rightarrow> True | Some k \<Rightarrow> me_kind e = k)) (md_entries s)))"

definition forget_expired :: "nat \<Rightarrow> memory_db \<Rightarrow> nat \<times> memory_db" where
  "forget_expired n s =
     (let stale = take n (map me_id (filter (\<lambda>e. \<not> unexpired (md_clock s) e) (md_entries s)))
      in (length stale, s\<lparr>md_entries := filter (\<lambda>e. me_id e \<notin> set stale) (md_entries s)\<rparr>))"

definition count_entries :: "memory_db \<Rightarrow> uuid \<Rightarrow> nat" where
  "count_entries s agent_id = length (filter (of_agent agent_id) (md_entries s))"

section \<open>Text\<close>

text \<open>\<open>x or fallback\<close> on a JSON value, as text.\<close>

definition text_or :: "json option \<Rightarrow> string \<Rightarrow> string" where
  "text_or v fallback =
     (case v of None \<Rightarrow> fallback | Some x \<Rightarrow> if json_truthy x then json_str x else fallback)"

definition EM_DASH :: string where
  "EM_DASH = '' - ''"

definition ELLIPSIS :: string where
  "ELLIPSIS = ''.''"

fun issue_list :: "json \<Rightarrow> string list" where
  "issue_list (JArr xs) = map json_str (take 3 xs)"
| "issue_list (JStr t) = map (\<lambda>c. [c]) (take 3 t)"
| "issue_list _ = []"

text \<open>
  The dash and the ellipsis of the source are single characters outside ASCII; a dash between
  spaces and one full stop stand for them, which keeps every length.
\<close>

definition entry_line :: "memory_entry \<Rightarrow> string" where
  "entry_line e =
     (let c = me_content e in
      ''- '' @ text_or (map_of c ''task'') ''a task'' @ '': '' @ text_or (map_of c ''outcome'') ''finished'' @
      (case map_of c ''summary'' of
         None \<Rightarrow> [] | Some v \<Rightarrow> if json_truthy v then EM_DASH @ json_str v else []) @
      (case map_of c ''issues'' of
         None \<Rightarrow> []
       | Some v \<Rightarrow> if json_truthy v then EM_DASH @ ''because: '' @ join ''; '' (issue_list v) else []))"

definition rstrip :: "string \<Rightarrow> string" where
  "rstrip t = rev (dropWhile is_space (rev t))"

definition recollection_text :: "memory_entry list \<Rightarrow> nat \<Rightarrow> string" where
  "recollection_text entries n =
     (if entries = [] then []
      else let body = join [CHR 0x0A] (map entry_line (rev entries));
               cut = (if length body > n then rstrip (take (n - 1) body) @ ELLIPSIS else body)
           in ''Your recent runs:'' @ [CHR 0x0A] @ cut)"

definition run_memory :: "string \<Rightarrow> string \<Rightarrow> string option \<Rightarrow> string list \<Rightarrow> dict" where
  "run_memory task outcome summary issues =
     [(''task'', JStr task), (''outcome'', JStr outcome)] @
     (case summary of Some (x # xs) \<Rightarrow> [(''summary'', JStr (take 400 (x # xs)))] | _ \<Rightarrow> []) @
     (if issues = [] then [] else [(''issues'', JArr (map (\<lambda>i. JStr (take 200 i)) (take 5 issues)))])"

text \<open>
  The memory of an agent stays bounded, belongs to it alone, and gives back the newest first.
\<close>

section \<open>The cap\<close>

definition memory_ok :: "memory_db \<Rightarrow> bool" where
  "memory_ok s \<longleftrightarrow> distinct (map me_id (md_entries s)) \<and> (\<forall>e \<in> set (md_entries s). me_id e < md_next_id s)"

lemma enforce_cap_length:
  assumes "distinct (map me_id rows)"
  shows "length (filter (of_agent a) (enforce_cap cfg a rows)) \<le> mm_row_cap cfg"
proof (cases "length (take (mm_row_cap cfg) (rev (filter (of_agent a) rows))) < mm_row_cap cfg")
  case True
  then have "length (filter (of_agent a) rows) < mm_row_cap cfg" by (simp add: min_def split: if_splits)
  then show ?thesis by (simp add: enforce_cap_def Let_def)
next
  case False
  let ?kept = "take (mm_row_cap cfg) (rev (filter (of_agent a) rows))"
  let ?left = "filter (\<lambda>e. of_agent a e \<and> me_id e \<in> me_id ` set ?kept) rows"
  have "filter (of_agent a) (enforce_cap cfg a rows) = ?left"
    using False by (auto simp: enforce_cap_def Let_def conj_commute intro: filter_cong)
  then have "length (filter (of_agent a) (enforce_cap cfg a rows)) = length ?left" by simp
  also have "\<dots> = card (set ?left)"
    using assms by (intro distinct_card [symmetric] distinct_filter) (simp add: distinct_map)
  also have "\<dots> \<le> card (set ?kept)"
  proof (rule card_mono)
    have inj: "inj_on me_id (set rows)" using assms by (simp add: distinct_map)
    show "set (filter (\<lambda>e. of_agent a e \<and> me_id e \<in> me_id ` set ?kept) rows) \<subseteq> set ?kept"
    proof
      fix e assume "e \<in> set (filter (\<lambda>e. of_agent a e \<and> me_id e \<in> me_id ` set ?kept) rows)"
      then obtain e' where e: "e \<in> set rows" "e' \<in> set ?kept" "me_id e = me_id e'" by auto
      moreover have "e' \<in> set rows" using in_set_takeD [OF e(2)] by simp
      ultimately show "e \<in> set ?kept" using inj by (auto dest: inj_onD)
    qed
  qed simp
  also have "\<dots> \<le> length ?kept" by (rule card_length)
  finally show ?thesis by simp
qed

lemma enforce_cap_subset: "set (enforce_cap cfg a rows) \<subseteq> set rows"
  by (auto simp: enforce_cap_def Let_def)

lemma enforce_cap_distinct: "distinct (map me_id rows) \<Longrightarrow> distinct (map me_id (enforce_cap cfg a rows))"
  by (auto simp: enforce_cap_def Let_def distinct_map_filter)

lemma enforce_cap_others: "b \<noteq> a \<Longrightarrow> filter (of_agent b) (enforce_cap cfg a rows) = filter (of_agent b) rows"
  by (auto simp: enforce_cap_def Let_def of_agent_def intro!: filter_cong)

text \<open>The entry that was just written is kept, and it is the newest of its agent.\<close>

lemma enforce_cap_newest:
  assumes "0 < mm_row_cap cfg" "of_agent a e" "distinct (map me_id (rows @ [e]))"
  shows "\<exists>rest. enforce_cap cfg a (rows @ [e]) = rest @ [e]"
proof -
  obtain n where n: "mm_row_cap cfg = Suc n" using assms(1) by (cases "mm_row_cap cfg") auto
  then have "me_id e \<in> me_id ` set (take (mm_row_cap cfg) (rev (filter (of_agent a) (rows @ [e]))))"
    using assms(2) by simp
  then show ?thesis using assms(2) by (auto simp: enforce_cap_def Let_def)
qed

text \<open>
  Remembering keeps the memory bounded. After \<open>remember\<close>, an agent has at most as many
  entries as the cap, the entry just made is the first one recalled, and the entries of every
  other agent are untouched.
\<close>

theorem remember_keeps_the_cap:
  assumes "memory_ok s" "0 < mm_row_cap cfg" "0 < mm_ttl cfg" "0 < n"
    and "remember cfg company a content kind task run s = (e, s')"
  shows "memory_ok s' \<and> count_entries s' a \<le> mm_row_cap cfg \<and> take 1 (recall s' a n (Some kind)) = [e] \<and>
    (\<forall>b. b \<noteq> a \<longrightarrow> filter (of_agent b) (md_entries s') = filter (of_agent b) (md_entries s))"
proof -
  let ?e = "\<lparr>me_id = md_next_id s, me_company_id = company, me_agent_id = a, me_kind = kind, me_content = content,
     me_task_id = task, me_run_id = run, me_created_at = md_clock s, me_expires_at = Some (md_clock s + mm_ttl cfg)\<rparr>"
  let ?rows = "md_entries s @ [?e]"
  have e: "e = ?e" "md_entries s' = enforce_cap cfg a ?rows" "md_next_id s' = Suc (md_next_id s)" "md_clock s' = md_clock s"
    using assms(5) by (auto simp: remember_def Let_def)
  have d: "distinct (map me_id ?rows)" using assms(1) by (auto simp: memory_ok_def)
  have "memory_ok s'"
    using assms(1) d enforce_cap_subset [of cfg a ?rows]
    by (auto simp: memory_ok_def e enforce_cap_distinct less_Suc_eq dest!: subsetD)
  moreover have "count_entries s' a \<le> mm_row_cap cfg" using enforce_cap_length [OF d] by (simp add: count_entries_def e)
  moreover obtain rest where "md_entries s' = rest @ [?e]"
    using enforce_cap_newest [OF assms(2) _ d] by (auto simp: of_agent_def e)
  then have "take 1 (recall s' a n (Some kind)) = [e]"
    using assms(3,4) by (cases n) (simp_all add: recall_def e of_agent_def unexpired_def)
  moreover have "\<forall>b. b \<noteq> a \<longrightarrow> filter (of_agent b) (md_entries s') = filter (of_agent b) (md_entries s)"
    by (simp add: e enforce_cap_others) (simp add: of_agent_def)
  ultimately show ?thesis by blast
qed

definition demo_memory :: memory_db where
  "demo_memory = snd (remember \<lparr>mm_ttl = 100, mm_row_cap = 2\<rparr> 7 1 [] MK_run None None
     (snd (remember \<lparr>mm_ttl = 100, mm_row_cap = 2\<rparr> 7 2 [] MK_run None None
       (snd (remember \<lparr>mm_ttl = 100, mm_row_cap = 2\<rparr> 7 1 [] MK_run None None
         \<lparr>md_clock = 50, md_next_id = 1, md_entries = []\<rparr>)))))"

theorem remember_keeps_the_cap_witness:
  "\<exists>e s'. remember \<lparr>mm_ttl = 100, mm_row_cap = 2\<rparr> 7 1 [] MK_run None None demo_memory = (e, s') \<and>
     length (filter (of_agent 1) (md_entries demo_memory)) = 2 \<and> count_entries s' 1 \<le> 2 \<and>
     length (filter (of_agent 2) (md_entries s')) = 1"
proof -
  let ?cfg = "\<lparr>mm_ttl = 100, mm_row_cap = 2\<rparr> :: memory_config"
  obtain e s' where r: "remember ?cfg 7 1 [] MK_run None None demo_memory = (e, s')"
    by (cases "remember ?cfg 7 1 [] MK_run None None demo_memory")
  have m: "memory_ok demo_memory" "length (filter (of_agent 1) (md_entries demo_memory)) = 2"
    "length (filter (of_agent 2) (md_entries demo_memory)) = 1"
    by (code_simp, code_simp, code_simp)
  from remember_keeps_the_cap [OF m(1) _ _ _ r, of 1] m r show ?thesis by simp
qed

section \<open>The text\<close>

lemma rstrip_length: "length (rstrip t) \<le> length t"
  unfolding rstrip_def by (simp add: length_dropWhile_le [of is_space "rev t", simplified])

text \<open>
  C2. What an agent's memory adds to a prompt is bounded: the text of its recollections is at
  most the bound and the heading long, however many entries and however long they are.
\<close>

theorem recollection_is_bounded:
  assumes "0 < n"
  shows "length (recollection_text entries n) \<le> n + length (''Your recent runs:'' @ [CHR 0x0A])"
  using assms rstrip_length [of "take (n - 1) (join [CHR 0x0A] (map entry_line (rev entries)))"]
  by (auto simp: recollection_text_def Let_def ELLIPSIS_def intro: order_trans)

theorem recollection_is_bounded_witness:
  "length (recollection_text (md_entries demo_memory) 20) \<le> 38 \<and> recollection_text (md_entries demo_memory) 20 \<noteq> []"
proof
  show "length (recollection_text (md_entries demo_memory) 20) \<le> 38"
    using recollection_is_bounded [of 20 "md_entries demo_memory"] by simp
  show "recollection_text (md_entries demo_memory) 20 \<noteq> []" by code_simp
qed

end
