(* ===== verification/Services.thy ===== *)
theory Services
  imports Approvals
begin

text \<open>
  Service nodes (\<open>runtime/services.py\<close>): the context through which a handler decides its task,
  the registry, and the dispatcher that runs every ready service task.
\<close>

text \<open>\<open>ServiceContext\<close>: the database and the flag \<open>decided\<close> of the task being run.\<close>

record service_state =
  sv_db :: db
  sv_decided :: bool

type_synonym 'a service_tx = "(service_state, err, 'a) tx"

definition on_db :: "'a db_tx \<Rightarrow> 'a service_tx" where
  "on_db = zoomT sv_db (\<lambda>d s. s\<lparr>sv_db := d\<rparr>)"

definition decide_once :: "unit service_tx" where
  "decide_once =
     bindT (getsT sv_decided) (\<lambda>b.
     bindT (checkT (\<not> b) (ServiceError ''was already decided'')) (\<lambda>_.
     modifyT (\<lambda>s. s\<lparr>sv_decided := True\<rparr>)))"

definition ctx_complete :: "task_manager \<Rightarrow> uuid \<Rightarrow> dict option \<Rightarrow> string option \<Rightarrow> unit service_tx" where
  "ctx_complete tm i output summary =
     bindT decide_once (\<lambda>_.
     bindT (on_db (complete_without_run tm i output summary)) (\<lambda>_. returnT ()))"

definition ctx_request_approval ::
    "approval_service \<Rightarrow> uuid \<Rightarrow> actor \<Rightarrow> string \<Rightarrow> string \<Rightarrow> string option \<Rightarrow> dict option \<Rightarrow> uuid service_tx" where
  "ctx_request_approval svc i actor kind summary action payload =
     bindT decide_once (\<lambda>_.
     on_db (request_for_task svc i kind summary payload action (Some actor) None))"

definition ctx_fail :: "task_manager \<Rightarrow> uuid \<Rightarrow> string \<Rightarrow> string \<Rightarrow> unit service_tx" where
  "ctx_fail tm i error_class message =
     bindT decide_once (\<lambda>_. on_db (fail_without_run tm i error_class message))"

text \<open>\<open>ServiceContext.params\<close>.\<close>

fun json_dict :: "json \<Rightarrow> dict" where
  "json_dict (JObj d) = d"
| "json_dict _ = []"

definition ctx_params :: "task \<Rightarrow> dict" where
  "ctx_params t = (case map_of (t_input t) ''params'' of None \<Rightarrow> [] | Some v \<Rightarrow> json_dict v)"

section \<open>The registry\<close>

text \<open>A handler gets the task's identifier and the actor it acts as.\<close>

type_synonym service_handler = "uuid \<Rightarrow> actor \<Rightarrow> unit service_tx"

type_synonym service_registry = "(string \<times> service_handler) list"

definition service_register :: "service_registry \<Rightarrow> string \<Rightarrow> service_handler \<Rightarrow> err + service_registry" where
  "service_register reg name handler =
     (if map_of reg name \<noteq> None then Inl (ServiceError name) else Inr (dict_set name handler reg))"

definition service_names :: "service_registry \<Rightarrow> string list" where
  "service_names reg = sort (map fst reg)"

section \<open>Dispatching\<close>

definition task_service :: "task \<Rightarrow> string option" where
  "task_service t = (case map_of (t_input t) ''service'' of Some (JStr n) \<Rightarrow> Some n | _ \<Rightarrow> None)"

definition dispatchable :: "service_registry \<Rightarrow> uuid list \<Rightarrow> task \<Rightarrow> bool" where
  "dispatchable reg company_ids t \<longleftrightarrow>
     t_state t = T_READY \<and>
     (case task_service t of None \<Rightarrow> False | Some n \<Rightarrow> n \<in> set (service_names reg)) \<and>
     (company_ids = [] \<or> t_company_id t \<in> set company_ids)"

text \<open>
  \<open>_run\<close>: the handler in one transaction; if it raises, or returns without deciding, that
  transaction is rolled back and the task fails in a second one. The class name and text of
  an exception are parameters.
\<close>

definition handle_task ::
    "service_registry \<Rightarrow> uuid \<Rightarrow> string \<Rightarrow> db \<Rightarrow> err + db" where
  "handle_task reg i name s =
     (case map_of reg name of
        None \<Rightarrow> Inl TypeError
      | Some handler \<Rightarrow>
          (case handler i (Actor_system (''service:'' @ name)) \<lparr>sv_db = s, sv_decided = False\<rparr> of
             Inl e \<Rightarrow> Inl e
           | Inr (_, s') \<Rightarrow>
               if sv_decided s' then Inr (sv_db s')
               else Inl (ServiceError ''did not complete, fail or wait'')))"

definition fail_handled ::
    "task_manager \<Rightarrow> uuid \<Rightarrow> string \<Rightarrow> string \<Rightarrow> db \<Rightarrow> err + db" where
  "fail_handled tm i error_class message s =
     (case task_of s i of
        None \<Rightarrow> Inr s
      | Some t \<Rightarrow>
          if t_state t \<noteq> T_READY then Inr s
          else (case fail_without_run tm i error_class message s of
                  Inl e \<Rightarrow> Inl e | Inr (_, s') \<Rightarrow> Inr s'))"

definition run_service ::
    "task_manager \<Rightarrow> service_registry \<Rightarrow> (err \<Rightarrow> string \<times> string) \<Rightarrow> uuid \<Rightarrow> db \<Rightarrow> err + (nat \<times> db)" where
  "run_service tm reg describe i s =
     (case task_of s i of
        None \<Rightarrow> Inr (0, s)
      | Some t \<Rightarrow>
          if t_state t \<noteq> T_READY then Inr (0, s)
          else (case task_service t of
             None \<Rightarrow> Inl (KeyError ''service'')
           | Some name \<Rightarrow>
               (case handle_task reg i name s of
                  Inr s' \<Rightarrow> Inr (1, s')
                | Inl e \<Rightarrow>
                    bind_err (fail_handled tm i (fst (describe e)) (take 1000 (snd (describe e))) s)
                      (\<lambda>s'. Inr (1, s')))))"

fun run_services ::
    "task_manager \<Rightarrow> service_registry \<Rightarrow> (err \<Rightarrow> string \<times> string) \<Rightarrow> uuid list \<Rightarrow> db \<Rightarrow> err + (nat \<times> db)" where
  "run_services tm reg describe [] s = Inr (0, s)"
| "run_services tm reg describe (i # rest) s =
     bind_err (run_service tm reg describe i s) (\<lambda>(n, s1).
     bind_err (run_services tm reg describe rest s1) (\<lambda>(m, s2). Inr (n + m, s2)))"

definition dispatch ::
    "task_manager \<Rightarrow> service_registry \<Rightarrow> (err \<Rightarrow> string \<times> string) \<Rightarrow> uuid list \<Rightarrow> nat \<Rightarrow> db \<Rightarrow> err + (nat \<times> db)" where
  "dispatch tm reg describe company_ids batch s =
     (if service_names reg = [] then Inr (0, s)
      else run_services tm reg describe
             (map t_id (take batch (sort_key t_priority (filter (dispatchable reg company_ids) (tasks s))))) s)"

end
