(* ===== verification/ServicesProps.thy ===== *)
theory ServicesProps
  imports Services RuntimeProps
begin

text \<open>
  The dispatcher of service tasks: a handler that raises, or returns without having decided its
  task, changes nothing, and its task fails.
\<close>

lemma after_transition:
  assumes "task_transition i st actor reason s = Inr (v, s')" "is_terminal TASK_FSM st"
    and "\<And>s0. keeps (settled s0) m" "m s' = Inr (x, s'')"
  shows "map_option t_state (task_of s'' i) = Some st"
  using assms(1)
proof (rule task_transition_effect)
  fix t
  assume t: "task_of s i = Some t"
    and s': "s' = s\<lparr>tasks := update_row t_id i (\<lambda>t. t\<lparr>t_state := st\<rparr>) (tasks s),
            next_id := Suc (next_id s), audit := audit s @ [v]\<rparr>"
  have "task_of s' i = Some (t\<lparr>t_state := st\<rparr>)"
    using t find_row_update [of t_id "\<lambda>t. t\<lparr>t_state := st\<rparr>" i i "tasks s"] by (simp add: s' task_of_def)
  moreover have "settled s' s''" using keepsD [OF assms(3) settled_refl assms(4)] .
  ultimately show ?thesis using assms(2) by (force simp: settled_def final_in_def task_of_def)
qed

lemma fail_without_run_ends:
  assumes "\<And>s0 j. keeps (settled s0) (failed_hook tm j)" "fail_without_run tm i ec msg s = Inr (x, s')"
  shows "map_option t_state (task_of s' i) = Some T_FAILED"
proof -
  obtain s1 v s2 where t: "task_transition i T_FAILED tm_actor (Some (take 500 msg)) s1 = Inr (v, s2)"
    and rest: "bindT (tm_emit i (TaskP (TaskFailed None True ec)) None) (\<lambda>_. failed_hook tm i) s2 = Inr (x, s')"
    using assms(2) by (auto simp: fail_without_run_def bindT_Inr_iff)
  have "keeps (settled s0) (bindT (tm_emit i (TaskP (TaskFailed None True ec)) None) (\<lambda>_. failed_hook tm i))" for s0
    using assms(1) by (intro keeps_bind final_states.tm_emit_keeps)
  moreover have "is_terminal TASK_FSM T_FAILED" by code_simp
  ultimately show ?thesis
    using after_transition [where m = "bindT (tm_emit i (TaskP (TaskFailed None True ec)) None) (\<lambda>_. failed_hook tm i)",
      OF t _ _ rest] by blast
qed

text \<open>
  C40. A service that fails fails its task and nothing else. When the handler of a ready task
  raises, or returns without completing, failing or suspending it, the dispatcher goes on: every
  write of the handler is undone, the task is FAILED with the class and text of the error, and
  what follows is only what the failure of a task entails.
\<close>

theorem failing_service_fails_its_task:
  assumes "wired y" "task_of s i = Some t" "t_state t = T_READY" "task_service t = Some name"
    and "handle_task reg i name s = Inl e" "run_service (su_manager y) reg describe i s = Inr (n, s')"
  shows "n = 1 \<and> map_option t_state (task_of s' i) = Some T_FAILED \<and>
    fail_without_run (su_manager y) i (fst (describe e)) (take 1000 (snd (describe e))) s = Inr ((), s')"
proof -
  have h: "keeps (settled s0) (failed_hook (su_manager y) j)" for s0 j
    using final_states.wired_keeps [OF assms(1)] by (simp add: final_states.hooks_keep_def)
  have "n = 1" "fail_without_run (su_manager y) i (fst (describe e)) (take 1000 (snd (describe e))) s = Inr ((), s')"
    using assms by (auto simp: run_service_def fail_handled_def bind_err_def split: sum.splits prod.splits)
  then show ?thesis using fail_without_run_ends [OF h] by blast
qed

text \<open>A service that writes and then returns without deciding.\<close>

definition idle_handler :: service_handler where
  "idle_handler i actor = on_db (bindT (add_task demo_task) (\<lambda>_. returnT ()))"

definition demo_service_added :: db where
  "demo_service_added = run_db (add_task (demo_task\<lparr>nt_input := [(''service'', JStr ''idle'')]\<rparr>)) demo_start"

definition demo_describe :: "err \<Rightarrow> string \<times> string" where
  "demo_describe e = (''ServiceError'', ''did not decide'')"

theorem failing_service_fails_its_task_witness:
  "\<exists>s' n. run_service (su_manager demo_wiring) [(''idle'', idle_handler)] demo_describe (t_id (hd (tasks demo_service_added)))
     demo_service_added = Inr (n, s') \<and> n = 1 \<and>
     map_option t_state (task_of s' (t_id (hd (tasks demo_service_added)))) = Some T_FAILED"
proof -
  let ?i = "t_id (hd (tasks demo_service_added))" and ?reg = "[(''idle'', idle_handler)]"
  have "map_option (\<lambda>t. (t_state t, task_service t)) (task_of demo_service_added ?i) = Some (T_READY, Some ''idle'')" by code_simp
  then obtain t where t: "task_of demo_service_added ?i = Some t" "t_state t = T_READY" "task_service t = Some ''idle''" by auto
  have "(case handle_task ?reg ?i ''idle'' demo_service_added of Inl e \<Rightarrow> True | Inr _ \<Rightarrow> False)" by code_simp
  then obtain e where e: "handle_task ?reg ?i ''idle'' demo_service_added = Inl e" by (auto split: sum.splits)
  have "(case run_service (su_manager demo_wiring) ?reg demo_describe ?i demo_service_added of Inl e \<Rightarrow> False | Inr _ \<Rightarrow> True)" by code_simp
  then obtain n s' where r: "run_service (su_manager demo_wiring) ?reg demo_describe ?i demo_service_added = Inr (n, s')"
    by (auto split: sum.splits)
  show ?thesis using failing_service_fails_its_task [OF demo_wired t e r] r by blast
qed

end
