(* ===== verification/World.thy ===== *)
theory World
  imports CostGuard Memory Approvals Policy
begin

text \<open>
  The state an agent run works on, and programs of many transactions over it. A run commits often:
  an exception undoes the transaction it is raised in and nothing before, and between two
  transactions of a run the other workers commit theirs.
\<close>

section \<open>State\<close>

datatype step_kind = SK_OBSERVE | SK_THINK | SK_ACT | SK_EVALUATE | SK_REPAIR

primrec step_kind_value :: "step_kind \<Rightarrow> string" where
  "step_kind_value SK_OBSERVE = ''observe''"
| "step_kind_value SK_THINK = ''think''"
| "step_kind_value SK_ACT = ''act''"
| "step_kind_value SK_EVALUATE = ''evaluate''"
| "step_kind_value SK_REPAIR = ''repair''"

record agent_step =
  sp_id :: uuid
  sp_company_id :: uuid
  sp_run_id :: uuid
  sp_seq :: nat
  sp_kind :: step_kind
  sp_summary :: "string option"
  sp_tool_calls :: "dict list option"
  sp_prompt_hash :: "string option"
  sp_blob_key :: "string option"
  sp_cost_usd :: money
  sp_created_at :: instant

text \<open>
  Beside the tables of the runtime, of costs and of memory: the steps of the runs, the blobs (the
  JSON value each holds) and the policy documents of the companies.
\<close>

record world =
  wd_costs :: cost_db
  wd_memory :: memory_db
  wd_steps :: "agent_step list"
  wd_blobs :: "(string \<times> json) list"
  wd_policies :: "(uuid \<times> string \<times> json) list"

type_synonym 'a world_tx = "(world, err, 'a) tx"

definition wd_db :: "world \<Rightarrow> db" where
  "wd_db w = cs_db (wd_costs w)"

definition wd_put_db :: "db \<Rightarrow> world \<Rightarrow> world" where
  "wd_put_db d w = w\<lparr>wd_costs := (wd_costs w)\<lparr>cs_db := d\<rparr>\<rparr>"

definition with_db :: "(db, 'e, 'a) tx \<Rightarrow> (world, 'e, 'a) tx" where
  "with_db = zoomT wd_db wd_put_db"

definition with_costs :: "(cost_db, 'e, 'a) tx \<Rightarrow> (world, 'e, 'a) tx" where
  "with_costs = zoomT wd_costs (\<lambda>c w. w\<lparr>wd_costs := c\<rparr>)"

text \<open>The memory service reads the same clock as everything else.\<close>

definition with_memory :: "(memory_db \<Rightarrow> 'a \<times> memory_db) \<Rightarrow> (world, 'e, 'a) tx" where
  "with_memory f = (\<lambda>w. case f ((wd_memory w)\<lparr>md_clock := clock (wd_db w)\<rparr>) of
     (x, m) \<Rightarrow> Inr (x, w\<lparr>wd_memory := m\<rparr>))"

text \<open>\<open>get_policies\<close>: the documents of one company by their keys.\<close>

definition policies_of :: "world \<Rightarrow> uuid \<Rightarrow> dict" where
  "policies_of w company_id = map snd (filter (\<lambda>p. fst p = company_id) (wd_policies w))"

section \<open>Programs of several transactions\<close>

type_synonym ('s, 'e, 'a) process = "'s \<Rightarrow> ('e + 'a) \<times> 's"

type_synonym 'a proc = "(world, err, 'a) process"

definition returnP :: "'a \<Rightarrow> ('s, 'e, 'a) process" where
  "returnP x = (\<lambda>w. (Inr x, w))"

definition raiseP :: "'e \<Rightarrow> ('s, 'e, 'a) process" where
  "raiseP e = (\<lambda>w. (Inl e, w))"

definition bindP :: "('s, 'e, 'a) process \<Rightarrow> ('a \<Rightarrow> ('s, 'e, 'b) process) \<Rightarrow> ('s, 'e, 'b) process" where
  "bindP m f = (\<lambda>w. case m w of (Inl e, w') \<Rightarrow> (Inl e, w') | (Inr x, w') \<Rightarrow> f x w')"

text \<open>\<open>try: ... except\<close>: the handler starts from what is committed by then.\<close>

definition catchP :: "('s, 'e, 'a) process \<Rightarrow> ('e \<Rightarrow> ('s, 'e, 'a) process) \<Rightarrow> ('s, 'e, 'a) process" where
  "catchP m h = (\<lambda>w. case m w of (Inl e, w') \<Rightarrow> h e w' | (Inr x, w') \<Rightarrow> (Inr x, w'))"

text \<open>Go on from the outcome of a program, whichever it is; and read the present state.\<close>

definition attemptP ::
    "('s, 'e, 'a) process \<Rightarrow> ('e + 'a \<Rightarrow> ('s, 'f, 'b) process) \<Rightarrow> ('s, 'f, 'b) process" where
  "attemptP m k = (\<lambda>w. case m w of (r, w') \<Rightarrow> k r w')"

definition readP :: "('s \<Rightarrow> 'a) \<Rightarrow> ('s, 'e, 'a) process" where
  "readP f = (\<lambda>w. (Inr (f w), w))"

text \<open>
  \<open>async with session_factory() as session: ... commit\<close>. Before the transaction the others of
  the system have their turn: \<open>others\<close> is whatever they do to the state.
\<close>

definition atomically :: "('s \<Rightarrow> 's) \<Rightarrow> ('s, 'e, 'a) tx \<Rightarrow> ('s, 'e, 'a) process" where
  "atomically others m = (\<lambda>w.
     (let w1 = others w in case m w1 of Inl e \<Rightarrow> (Inl e, w1) | Inr (x, w2) \<Rightarrow> (Inr x, w2)))"

primrec repeatP :: "nat \<Rightarrow> ('s, 'e, unit) process \<Rightarrow> ('s, 'e, unit) process" where
  "repeatP 0 m = returnP ()"
| "repeatP (Suc n) m = bindP m (\<lambda>_. repeatP n m)"

named_theorems proc_run \<open>running a program on a state\<close>

lemma run_returnP [proc_run]: "returnP x w = (Inr x, w)"
  by (simp add: returnP_def)

lemma run_raiseP [proc_run]: "raiseP e w = (Inl e, w)"
  by (simp add: raiseP_def)

lemma bindP_Inr_iff: "bindP m f w = (Inr y, w'') \<longleftrightarrow> (\<exists>x w'. m w = (Inr x, w') \<and> f x w' = (Inr y, w''))"
  by (auto simp: bindP_def split: prod.splits sum.splits)

lemma bindP_Inl_iff:
  "bindP m f w = (Inl e, w'') \<longleftrightarrow> m w = (Inl e, w'') \<or> (\<exists>x w'. m w = (Inr x, w') \<and> f x w' = (Inl e, w''))"
  by (auto simp: bindP_def split: prod.splits sum.splits)

lemma atomically_Inr_iff: "atomically others m w = (Inr x, w') \<longleftrightarrow> m (others w) = Inr (x, w')"
  by (auto simp: atomically_def Let_def split: sum.splits)

lemma atomically_Inl_iff: "atomically others m w = (Inl e, w') \<longleftrightarrow> m (others w) = Inl e \<and> w' = others w"
  by (auto simp: atomically_def Let_def split: sum.splits)

section \<open>Invariants of programs\<close>

text \<open>
  \<open>always P m\<close>: from a state with \<open>P\<close> the program ends, returning or raising, in a state with
  \<open>P\<close>. Every transaction that keeps \<open>P\<close> does, if the others keep it too.
\<close>

definition always :: "('s \<Rightarrow> bool) \<Rightarrow> ('s, 'e, 'a) process \<Rightarrow> bool" where
  "always P m \<longleftrightarrow> (\<forall>w. P w \<longrightarrow> P (snd (m w)))"

definition kept_by :: "('s \<Rightarrow> bool) \<Rightarrow> ('s \<Rightarrow> 's) \<Rightarrow> bool" where
  "kept_by P others \<longleftrightarrow> (\<forall>w. P w \<longrightarrow> P (others w))"

named_theorems always_intros \<open>invariants of programs, by their shape\<close>

lemma always_return [always_intros]: "always P (returnP x)"
  by (simp add: always_def returnP_def)

lemma always_raise [always_intros]: "always P (raiseP e)"
  by (simp add: always_def raiseP_def)

lemma always_bind [always_intros]: "always P m \<Longrightarrow> (\<And>x. always P (f x)) \<Longrightarrow> always P (bindP m f)"
  by (auto simp: always_def bindP_def split: prod.splits sum.splits)

lemma always_catch [always_intros]: "always P m \<Longrightarrow> (\<And>e. always P (h e)) \<Longrightarrow> always P (catchP m h)"
  by (auto simp: always_def catchP_def split: prod.splits sum.splits)

lemma always_attempt [always_intros]: "always P m \<Longrightarrow> (\<And>r. always P (k r)) \<Longrightarrow> always P (attemptP m k)"
  by (auto simp: always_def attemptP_def split: prod.splits)

lemma always_read [always_intros]: "always P (readP f)"
  by (simp add: always_def readP_def)

lemma always_atomically: "kept_by P others \<Longrightarrow> keeps P m \<Longrightarrow> always P (atomically others m)"
  by (auto simp: always_def kept_by_def atomically_def Let_def split: sum.splits dest: keepsD)

lemma always_repeat [always_intros]: "always P m \<Longrightarrow> always P (repeatP n m)"
  by (induction n) (simp_all add: always_return always_bind)

lemma always_if [always_intros]:
  "(b \<Longrightarrow> always P m) \<Longrightarrow> (\<not> b \<Longrightarrow> always P n) \<Longrightarrow> always P (if b then m else n)"
  by simp

lemma always_let [always_intros]: "always P (f v) \<Longrightarrow> always P (let x = v in f x)"
  by simp

lemma always_case_option [always_intros]:
  "(x = None \<Longrightarrow> always P m) \<Longrightarrow> (\<And>v. x = Some v \<Longrightarrow> always P (f v)) \<Longrightarrow>
   always P (case x of None \<Rightarrow> m | Some v \<Rightarrow> f v)"
  by (cases x) simp_all

lemma always_case_sum [always_intros]:
  "(\<And>e. x = Inl e \<Longrightarrow> always P (g e)) \<Longrightarrow> (\<And>v. x = Inr v \<Longrightarrow> always P (f v)) \<Longrightarrow>
   always P (case x of Inl e \<Rightarrow> g e | Inr v \<Rightarrow> f v)"
  by (cases x) simp_all

lemma always_case_prod [always_intros]: "(\<And>a b. always P (f a b)) \<Longrightarrow> always P (case p of (a, b) \<Rightarrow> f a b)"
  by (cases p) simp

end
