(* ===== verification/Tools.thy ===== *)
theory Tools
  imports World
begin

text \<open>
  The tool registry (\<open>runtime/tools/registry.py\<close>): registration, and the guarded execution of one
  call in its three transactions (the call is announced; the tool's writes and its completion
  commit together, or neither does and the failure is recorded), and the steps of a run's trace
  (\<open>runtime/trace/recorder.py\<close>).
\<close>

section \<open>Tools\<close>

record tool_context =
  tc_company_id :: uuid
  tc_actor :: actor
  tc_call_id :: string
  tc_idempotency_key :: string
  tc_agent_id :: "uuid option"
  tc_run_id :: "uuid option"
  tc_task_id :: "uuid option"
  tc_workflow_run_id :: "uuid option"
  tc_cycle_id :: "uuid option"
  tc_step_seq :: nat

record tool_result =
  tr_output :: dict
  tr_summary :: "string option"
  tr_produced :: "produced_ref list"
  tr_cost_usd :: "money option"
  tr_progress :: "progress option"

text \<open>
  What awaiting a tool's function comes to: a result and the state its transaction is in; an
  exception with its class, its text and its \<open>retryable\<close> attribute if that is a boolean; or a value
  that is no \<open>ToolResult\<close>, with the name of its type.
\<close>

datatype tool_outcome =
    Tool_returned tool_result world
  | Tool_raised string string "bool option"
  | Tool_returned_other string

text \<open>
  \<open>ToolSpec\<close>. The input model is pydantic's: it answers the errors (place and text) or the parsed
  arguments. The timeout is a float: the text \<open>repr\<close> writes and its microseconds.
\<close>

record tool_spec =
  ts_name :: string
  ts_description :: string
  ts_input_schema :: json
  ts_parse :: "dict \<Rightarrow> (string list \<times> string) list + dict"
  ts_side_effect :: side_effect
  ts_timeout :: "string \<times> duration"
  ts_retryable :: bool
  ts_fn :: "dict \<Rightarrow> tool_context \<Rightarrow> world \<Rightarrow> tool_outcome \<times> duration"

type_synonym tool_registry = "(string \<times> tool_spec) list"

definition NAME_CHARS :: string where
  "NAME_CHARS = ''abcdefghijklmnopqrstuvwxyz0123456789_''"

definition is_lower_letter :: "char \<Rightarrow> bool" where
  "is_lower_letter c \<longleftrightarrow> c \<in> set ''abcdefghijklmnopqrstuvwxyz''"

definition tool_add :: "tool_registry \<Rightarrow> tool_spec \<Rightarrow> err + tool_registry" where
  "tool_add reg spec =
     (if ts_name spec = [] \<or> \<not> set (ts_name spec) \<subseteq> set NAME_CHARS \<or> \<not> is_lower_letter (hd (ts_name spec))
      then Inl (InvalidToolDefinition (ts_name spec))
      else if map_of reg (ts_name spec) \<noteq> None then Inl (InvalidToolDefinition (ts_name spec))
      else if snd (ts_timeout spec) \<le> 0 then Inl (InvalidToolDefinition (ts_name spec))
      else Inr (dict_set (ts_name spec) spec reg))"

definition tool_get :: "tool_registry \<Rightarrow> string \<Rightarrow> err + tool_spec" where
  "tool_get reg name = (case map_of reg name of None \<Rightarrow> Inl (UnknownTool name) | Some spec \<Rightarrow> Inr spec)"

definition tool_names :: "tool_registry \<Rightarrow> string list" where
  "tool_names reg = sort (map fst reg)"

definition tool_definition_of :: "tool_spec \<Rightarrow> tool_definition" where
  "tool_definition_of spec = \<lparr>td_name = ts_name spec, td_description = ts_description spec,
     td_input_schema = ts_input_schema spec\<rparr>"

definition tool_definitions :: "tool_registry \<Rightarrow> string list \<Rightarrow> err + tool_definition list" where
  "tool_definitions reg names =
     map_err names (\<lambda>n. bind_err (tool_get reg n) (\<lambda>spec. Inr (tool_definition_of spec)))"

section \<open>One call\<close>

definition SUMMARY_LIMIT :: nat where
  "SUMMARY_LIMIT = 200"

definition summarize_args :: "dict \<Rightarrow> string" where
  "summarize_args args =
     (let text = dumps_sorted False (JObj args)
      in if length text \<le> SUMMARY_LIMIT then text else take (SUMMARY_LIMIT - 1) text @ ELLIPSIS)"

text \<open>The digest is SHA-256's hexadecimal text, a parameter.\<close>

definition idempotency_key :: "(string \<Rightarrow> string) \<Rightarrow> uuid option \<Rightarrow> nat \<Rightarrow> string \<Rightarrow> dict \<Rightarrow> string" where
  "idempotency_key sha256 scope step_seq name args =
     (case scope of None \<Rightarrow> ''adhoc'' | Some i \<Rightarrow> uuid_str i) @ '':'' @ nat_str step_seq @ '':'' @ name @ '':'' @
     take 16 (sha256 (dumps_sorted True (JObj args)))"

definition validation_message :: "(string list \<times> string) list \<Rightarrow> string" where
  "validation_message errors = join ''; '' (map (issue_text ''(args)'') errors)"

record tool_call =
  tk_name :: string
  tk_args :: dict
  tk_context :: tool_context

record tool_invocation =
  ti_tool :: string
  ti_call_id :: string
  ti_ok :: bool
  ti_output :: "dict option"
  ti_error_class :: "string option"
  ti_message :: "string option"
  ti_will_retry :: bool
  ti_duration_ms :: int
  ti_produced :: "produced_ref list"
  ti_cost_usd :: "money option"
  ti_progress :: "progress option"

text \<open>Inside the second transaction: the failure of the tool (\<open>_ToolError\<close>), or any other exception.\<close>

datatype tool_error = Tool_error string string bool | Other_error err

definition tool_emit :: "tool_context \<Rightarrow> tool_payload \<Rightarrow> unit db_tx" where
  "tool_emit tc p =
     bindT (case tc_run_id tc of Some r \<Rightarrow> returnT r | None \<Rightarrow> uuid7) (\<lambda>aggregate.
     bindT (new_event (ToolP p) (tc_company_id tc) (tc_actor tc)
        (if tc_run_id tc \<noteq> None then ''agent_run'' else ''tool_call'') aggregate
        \<lparr>ref_agent_id = tc_agent_id tc, ref_task_id = tc_task_id tc, ref_run_id = tc_run_id tc,
         ref_workflow_run_id = tc_workflow_run_id tc, ref_cycle_id = tc_cycle_id tc,
         ref_correlation_id = tc_workflow_run_id tc, ref_causation_id = None\<rparr> None) (\<lambda>envelope.
     bindT (emit envelope) (\<lambda>_. returnT ())))"

definition or_other :: "(db, err, 'a) tx \<Rightarrow> (world, tool_error, 'a) tx" where
  "or_other m = (\<lambda>w. case with_db m w of Inl e \<Rightarrow> Inl (Other_error e) | Inr r \<Rightarrow> Inr r)"

text \<open>Awaiting the function under its timeout; a \<open>TimeoutError\<close> of the tool's own counts as one.\<close>

definition run_tool_fn ::
    "tool_spec \<Rightarrow> tool_context \<Rightarrow> dict \<Rightarrow> (world, tool_error, tool_result \<times> duration) tx" where
  "run_tool_fn spec tc parsed = (\<lambda>w.
     (let (outcome, took) = ts_fn spec parsed tc w;
          timeout = Tool_error ''ToolTimeout''
            (ts_name spec @ '' exceeded '' @ fst (ts_timeout spec) @ ''s'') (ts_retryable spec)
      in if snd (ts_timeout spec) < took then Inl timeout
         else case outcome of
             Tool_returned r w' \<Rightarrow> Inr ((r, took), w')
           | Tool_raised cls msg retryable \<Rightarrow>
               if cls = ''TimeoutError'' then Inl timeout
               else Inl (Tool_error cls msg (case retryable of Some b \<Rightarrow> b | None \<Rightarrow> ts_retryable spec))
           | Tool_returned_other t \<Rightarrow>
               Inl (Tool_error ''InvalidToolResult'' (ts_name spec @ '' returned '' @ t) False)))"

text \<open>How long the call took when it failed: at most until its timeout.\<close>

definition call_time :: "tool_spec \<Rightarrow> tool_context \<Rightarrow> dict \<Rightarrow> world \<Rightarrow> duration" where
  "call_time spec tc args w =
     (case ts_parse spec args of
        Inl _ \<Rightarrow> 0
      | Inr parsed \<Rightarrow> max 0 (min (snd (ts_timeout spec)) (snd (ts_fn spec parsed tc w))))"

definition tool_body ::
    "tool_spec \<Rightarrow> tool_context \<Rightarrow> dict \<Rightarrow> (world, tool_error, tool_invocation) tx" where
  "tool_body spec tc args =
     bindT (liftT (case ts_parse spec args of
              Inl errors \<Rightarrow> Inl (Tool_error ''InvalidToolArguments'' (validation_message errors) False)
            | Inr parsed \<Rightarrow> Inr parsed)) (\<lambda>parsed.
     bindT (run_tool_fn spec tc parsed) (\<lambda>(r, took).
     bindT (or_other (pass_time took)) (\<lambda>_.
     bindT (or_other (tool_emit tc (ToolCompleted (ts_name spec) (tc_call_id tc) (ms_between 0 took)
        (tr_summary r) (tr_cost_usd r) (tr_produced r)))) (\<lambda>_.
     returnT \<lparr>ti_tool = ts_name spec, ti_call_id = tc_call_id tc, ti_ok = True, ti_output = Some (tr_output r),
        ti_error_class = None, ti_message = None, ti_will_retry = False, ti_duration_ms = ms_between 0 took,
        ti_produced = tr_produced r, ti_cost_usd = tr_cost_usd r, ti_progress = tr_progress r\<rparr>))))"

text \<open>\<open>invoke\<close>: a failure of the tool is a result, never an exception.\<close>

definition invoke ::
    "(world \<Rightarrow> world) \<Rightarrow> (string \<Rightarrow> string) \<Rightarrow> tool_registry \<Rightarrow> string \<Rightarrow> dict \<Rightarrow> tool_context \<Rightarrow> unit world_tx \<Rightarrow>
     tool_invocation proc" where
  "invoke others sha256 reg name args tc before_call =
     (case tool_get reg name of
        Inl e \<Rightarrow> raiseP e
      | Inr spec \<Rightarrow>
          (let tc' = tc\<lparr>tc_idempotency_key := idempotency_key sha256
                 (case tc_task_id tc of Some i \<Rightarrow> Some i | None \<Rightarrow> tc_run_id tc) (tc_step_seq tc) name args\<rparr>
           in bindP (atomically others
                (bindT before_call (\<lambda>_.
                 with_db (tool_emit tc (ToolCalled name (tc_call_id tc) (Some (summarize_args args))
                   (ts_side_effect spec) (tc_step_seq tc)))))) (\<lambda>_.
              attemptP (atomically others (tool_body spec tc' args)) (\<lambda>outcome.
              case outcome of
                Inr result \<Rightarrow> returnP result
              | Inl (Other_error e) \<Rightarrow> raiseP e
              | Inl (Tool_error cls msg retryable) \<Rightarrow>
                  bindP (readP (call_time spec tc' args)) (\<lambda>took.
                  bindP (atomically others (with_db
                    (bindT (pass_time took) (\<lambda>_.
                     tool_emit tc (ToolFailed name (tc_call_id tc) cls (take 2000 msg) retryable)))))
                  (\<lambda>_. returnP
                     \<lparr>ti_tool = name, ti_call_id = tc_call_id tc, ti_ok = False, ti_output = None,
                      ti_error_class = Some cls, ti_message = Some msg, ti_will_retry = retryable,
                      ti_duration_ms = ms_between 0 took, ti_produced = [], ti_cost_usd = None,
                      ti_progress = None\<rparr>))))))"

section \<open>The trace of a run\<close>

definition step_blob_key :: "uuid \<Rightarrow> uuid \<Rightarrow> nat \<Rightarrow> string" where
  "step_blob_key company_id run_id seq =
     ''companies/'' @ uuid_str company_id @ ''/runs/'' @ uuid_str run_id @ ''/steps/'' @ pad 5 seq @ ''.json''"

text \<open>
  A blob written before a transaction that rolls back stays behind unreferenced in the code; here
  it is undone with the transaction. No row names it, so no reader can tell.
\<close>

definition put_blob :: "string \<Rightarrow> json \<Rightarrow> string world_tx" where
  "put_blob key payload =
     bindT (modifyT (\<lambda>w. w\<lparr>wd_blobs := dict_set key (sort_json payload) (wd_blobs w)\<rparr>)) (\<lambda>_. returnT key)"

record step_content =
  sn_kind :: step_kind
  sn_summary :: "string option"
  sn_tool_calls :: "dict list option"
  sn_prompt_hash :: "string option"
  sn_cost :: money
  sn_payload :: "json option"

definition record_step :: "uuid \<Rightarrow> step_content \<Rightarrow> agent_step world_tx" where
  "record_step run_id sn =
     bindT (getsT (\<lambda>w. run_of (wd_db w) run_id)) (\<lambda>row.
     bindT (someT row (TraceError ''does not exist'')) (\<lambda>r.
     bindT (checkT (r_state r \<notin> set AGENT_RUN_TERMINAL) (TraceError ''its trace is closed'')) (\<lambda>_.
     bindT (case sn_payload sn of
              None \<Rightarrow> returnT None
            | Some p \<Rightarrow> bindT (put_blob (step_blob_key (r_company_id r) (r_id r) (r_steps_count r)) p)
                (\<lambda>k. returnT (Some k))) (\<lambda>key.
     bindT (with_db uuid7) (\<lambda>i.
     bindT (getsT (\<lambda>w. clock (wd_db w))) (\<lambda>now.
     let row = \<lparr>sp_id = i, sp_company_id = r_company_id r, sp_run_id = r_id r, sp_seq = r_steps_count r,
           sp_kind = sn_kind sn, sp_summary = sn_summary sn, sp_tool_calls = sn_tool_calls sn,
           sp_prompt_hash = sn_prompt_hash sn, sp_blob_key = key, sp_cost_usd = sn_cost sn,
           sp_created_at = now\<rparr>
     in bindT (getsT wd_steps) (\<lambda>rows.
        bindT (checkT (0 \<le> sn_cost sn \<and>
            \<not> list_ex (\<lambda>p. sp_run_id p = r_id r \<and> sp_seq p = r_steps_count r) rows) (IntegrityError ''agent_steps'')) (\<lambda>_.
        bindT (modifyT (\<lambda>w. w\<lparr>wd_steps := wd_steps w @ [row]\<rparr>)) (\<lambda>_.
        bindT (with_db (upd_run run_id (\<lambda>r. r\<lparr>r_steps_count := Suc (r_steps_count r)\<rparr>))) (\<lambda>_.
        returnT row))))))))))"

definition steps_of :: "world \<Rightarrow> uuid \<Rightarrow> agent_step list" where
  "steps_of w run_id = filter (\<lambda>p. sp_run_id p = run_id) (wd_steps w)"

end
