(* ===== verification/Runner.thy ===== *)
theory Runner
  imports Tools
begin

text \<open>
  The agent runner (\<open>runtime/agent_runner.py\<close>) with the behaviors it runs
  (\<open>runtime/behaviors.py\<close>): one claimed task as an agent run. Its transactions are many and short;
  calls of the model and of tools lie between them. The model's providers, the tools' functions and
  the hooks of a behavior are parameters.
\<close>

section \<open>Behaviors\<close>

record run_context =
  rc_company_id :: uuid
  rc_project_id :: uuid
  rc_task :: task
  rc_agent :: agent
  rc_run_id :: uuid

record behavior =
  bh_role :: string
  bh_capability :: string
  bh_system_prompt :: string
  bh_output_model :: output_model
  bh_tools :: "string list"
  bh_validators :: "(run_context \<Rightarrow> dict \<Rightarrow> string list world_tx) list"
  bh_task_name :: "string option"
  bh_max_steps :: nat
  bh_repair_limit :: nat
  bh_max_output_tokens :: nat
  bh_prompt_version :: string
  bh_context :: "(run_context \<Rightarrow> string option world_tx) option"
  bh_policy_facts :: "(run_context \<Rightarrow> string \<Rightarrow> dict \<Rightarrow> dict world_tx) option"
  bh_summarize :: "(dict \<Rightarrow> string) option"

type_synonym behavior_registry = "((string \<times> string option) \<times> behavior) list"

definition offered_tools :: "behavior \<Rightarrow> agent \<Rightarrow> string list" where
  "offered_tools b ag = filter (\<lambda>n. a_tools ag = [] \<or> n \<in> set (a_tools ag)) (bh_tools b)"

definition behavior_register :: "behavior_registry \<Rightarrow> behavior \<Rightarrow> err + behavior_registry" where
  "behavior_register reg b =
     (let key = (bh_role b, bh_task_name b) in
      if map_of reg key \<noteq> None then Inl (ValueError ''already registered'') else Inr (dict_set key b reg))"

definition behavior_resolve :: "behavior_registry \<Rightarrow> string \<Rightarrow> string \<Rightarrow> err + behavior" where
  "behavior_resolve reg role task_name =
     (case map_of reg (role, Some task_name) of
        Some b \<Rightarrow> Inr b
      | None \<Rightarrow> (case map_of reg (role, None) of
          Some b \<Rightarrow> Inr b | None \<Rightarrow> Inl (UnknownBehavior role)))"

definition behavior_roles :: "behavior_registry \<Rightarrow> string list" where
  "behavior_roles reg = sort (remdups (map (fst \<circ> fst) reg))"

section \<open>The runner and a run's state\<close>

text \<open>
  \<open>rn_others\<close> is what the rest of the system commits between two transactions of the run, \<open>rn_waits\<close>
  how often a model call outlasts a third of the lease. The texts of exceptions, the SHA-256 and
  Python's \<open>repr\<close> of blocks are functions.
\<close>

record runner =
  rn_task_manager :: task_manager
  rn_guard :: guard
  rn_router :: router
  rn_providers :: model_providers
  rn_tools :: tool_registry
  rn_policy :: policy_engine
  rn_approvals :: approval_service
  rn_behaviors :: behavior_registry
  rn_memory :: memory_config
  rn_others :: "world \<Rightarrow> world"
  rn_waits :: "model_request \<Rightarrow> nat"
  rn_describe :: "err \<Rightarrow> string \<times> string"
  rn_sha256 :: "string \<Rightarrow> string"
  rn_repr_blocks :: "content_block list \<Rightarrow> string"

definition runner_actor :: actor where
  "runner_actor = Actor_system ''agent_runner''"

text \<open>The claim with the rows it was made with, and the behavior chosen for it.\<close>

record job =
  jb_claim :: claim
  jb_task :: task
  jb_agent :: agent
  jb_behavior :: behavior

definition job_context :: "job \<Rightarrow> run_context" where
  "job_context j = \<lparr>rc_company_id = t_company_id (jb_task j), rc_project_id = t_project_id (jb_task j),
     rc_task = jb_task j, rc_agent = jb_agent j, rc_run_id = cl_run_id (jb_claim j)\<rparr>"

record tool_use =
  tu_id :: string
  tu_name :: string
  tu_input :: dict

fun use_of :: "content_block \<Rightarrow> tool_use list" where
  "use_of (Tool_use i n d) = [\<lparr>tu_id = i, tu_name = n, tu_input = d\<rparr>]"
| "use_of _ = []"

definition uses_of :: "content_block list \<Rightarrow> tool_use list" where
  "uses_of blocks = concat (map use_of blocks)"

record running =
  rg_policies :: dict
  rg_tool_names :: "string list"
  rg_system :: string
  rg_prompt_hash :: string
  rg_messages :: "message list"
  rg_next_seq :: nat
  rg_model_calls :: nat
  rg_repairs_used :: nat
  rg_eval_round :: nat
  rg_pending :: "tool_use list"
  rg_results :: "content_block list"
  rg_approved :: "string list"
  rg_repairing :: bool
  rg_tokens :: nat

datatype run_status = Run_completed | Run_failed | Run_aborted | Run_suspended | Run_lost

record run_outcome =
  ro_status :: run_status
  ro_run_id :: uuid
  ro_error_class :: "string option"
  ro_message :: "string option"
  ro_will_retry :: bool

definition ended_as :: "claim \<Rightarrow> run_status \<Rightarrow> string \<Rightarrow> string \<Rightarrow> bool \<Rightarrow> run_outcome" where
  "ended_as c status error_class message retry =
     \<lparr>ro_status = status, ro_run_id = cl_run_id c, ro_error_class = Some error_class,
      ro_message = Some message, ro_will_retry = retry\<rparr>"

section \<open>Texts\<close>

fun words :: "string \<Rightarrow> string list" where
  "words [] = []"
| "words (c # cs) =
     (if is_space c then words cs
      else case cs of
             [] \<Rightarrow> [[c]]
           | d # _ \<Rightarrow> if is_space d then [c] # words cs
                    else (case words cs of [] \<Rightarrow> [[c]] | w # ws \<Rightarrow> (c # w) # ws))"

definition truncate_text :: "nat \<Rightarrow> string \<Rightarrow> string" where
  "truncate_text n text =
     (let t = join '' '' (words text) in if length t \<le> n then t else take (n - 1) t @ ELLIPSIS)"

definition SUMMARY :: nat where
  "SUMMARY = 200"

definition with_persona :: "string \<Rightarrow> string option \<Rightarrow> string" where
  "with_persona system_prompt persona =
     (let p = strip (case persona of None \<Rightarrow> [] | Some t \<Rightarrow> t)
      in if p = [] then system_prompt else p @ [NEWLINE, NEWLINE] @ system_prompt)"

definition repair_prompt :: "string list \<Rightarrow> string" where
  "repair_prompt issues =
     ''Your previous reply did not pass evaluation. Issues:'' @ [NEWLINE] @
     join [NEWLINE] (map (\<lambda>i. ''- '' @ i) issues) @ [NEWLINE] @
     ''Reply again with the complete, corrected output.''"

definition use_json :: "tool_use \<Rightarrow> dict" where
  "use_json u = [(''id'', JStr (tu_id u)), (''name'', JStr (tu_name u)), (''input'', JObj (tu_input u))]"

section \<open>Helpers\<close>

definition run_emit :: "job \<Rightarrow> agent_payload \<Rightarrow> unit db_tx" where
  "run_emit j p =
     (let t = jb_task j; c = jb_claim j in
      bindT (new_event (AgentP p) (t_company_id t) runner_actor ''agent_run'' (cl_run_id c)
        \<lparr>ref_agent_id = Some (cl_agent_id c), ref_task_id = Some (t_id t), ref_run_id = Some (cl_run_id c),
         ref_workflow_run_id = t_workflow_run_id t, ref_cycle_id = t_cycle_id t,
         ref_correlation_id = t_workflow_run_id t, ref_causation_id = None\<rparr> None) (\<lambda>envelope.
      bindT (emit envelope) (\<lambda>_. returnT ())))"

definition run_activity :: "runner \<Rightarrow> job \<Rightarrow> agent_payload \<Rightarrow> unit db_tx" where
  "run_activity rn j p =
     (let t = jb_task j; run_id = cl_run_id (jb_claim j) in
      bindT (activity_links (rn_task_manager rn) (t_id t) (Some run_id)) (\<lambda>links.
      bindT (set_activity (jb_agent j) p runner_actor ((task_context t (Some run_id))\<lparr>cx_links := links\<rparr>)) (\<lambda>_.
      returnT ())))"

text \<open>\<open>_record\<close>: the next step with the conversation as it stands, charged to the run.\<close>

definition record_run_step ::
    "runner \<Rightarrow> job \<Rightarrow> running \<Rightarrow> step_kind \<Rightarrow> string \<Rightarrow> dict \<Rightarrow> dict list option \<Rightarrow> money \<Rightarrow> (nat \<times> nat) option \<Rightarrow>
     content_block option \<Rightarrow> running world_tx" where
  "record_run_step rn j st kind summary payload tool_calls cost tokens extra =
     (let run_id = cl_run_id (jb_claim j);
          results = rg_results st @ (case extra of None \<Rightarrow> [] | Some b \<Rightarrow> [b]);
          after = (if results = [] then rg_messages st
                   else rg_messages st @ [\<lparr>mg_role = User, mg_content = results\<rparr>])
      in bindT (with_db (heartbeat (rn_task_manager rn) (jb_claim j))) (\<lambda>_.
         bindT (record_step run_id \<lparr>sn_kind = kind, sn_summary = Some summary, sn_tool_calls = tool_calls,
           sn_prompt_hash = Some (rg_prompt_hash st), sn_cost = cost,
           sn_payload = Some (JObj (dict_set ''messages_after'' (JArr (map dump_message after)) payload))\<rparr>) (\<lambda>step.
         bindT (with_db (upd_run run_id (\<lambda>r. r\<lparr>r_cost_usd := r_cost_usd r + cost,
           r_tokens_in := r_tokens_in r + (case tokens of None \<Rightarrow> 0 | Some u \<Rightarrow> fst u),
           r_tokens_out := r_tokens_out r + (case tokens of None \<Rightarrow> 0 | Some u \<Rightarrow> snd u)\<rparr>))) (\<lambda>_.
         returnT (st\<lparr>rg_next_seq := Suc (sp_seq step)\<rparr>)))))"

text \<open>\<open>_remember\<close>.\<close>

definition remember_run :: "runner \<Rightarrow> job \<Rightarrow> string \<Rightarrow> string option \<Rightarrow> string list \<Rightarrow> unit world_tx" where
  "remember_run rn j outcome summary issues =
     (let t = jb_task j in
      bindT (with_memory (remember (rn_memory rn) (t_company_id t) (a_id (jb_agent j))
        (run_memory (t_display_name t) outcome summary issues) MK_run (Some (t_id t))
        (Some (cl_run_id (jb_claim j))))) (\<lambda>_. returnT ()))"

text \<open>\<open>_fail\<close>: a lease that is gone ends the run without a further write.\<close>

definition fail_run :: "runner \<Rightarrow> claim \<Rightarrow> string \<Rightarrow> string \<Rightarrow> bool \<Rightarrow> run_outcome proc" where
  "fail_run rn c error_class message retryable =
     attemptP (atomically (rn_others rn) (with_db
        (fail_task (rn_task_manager rn) c error_class message retryable))) (\<lambda>r.
     case r of
       Inr retry \<Rightarrow> returnP (ended_as c Run_failed error_class message retry)
     | Inl e \<Rightarrow> (case e of
           LeaseLost i \<Rightarrow> returnP (ended_as c Run_lost ''LeaseLost'' (snd (rn_describe rn e)) False)
         | _ \<Rightarrow> raiseP e))"

end
