(* ===== verification/RunnerLoop.thy ===== *)
theory RunnerLoop
  imports Runner
begin

text \<open>
  The course of a run (\<open>AgentRunner.run\<close> of \<open>runtime/agent_runner.py\<close>): starting or resuming,
  model calls, tool calls behind the policy engine, evaluation and repair, and how every exception
  becomes an outcome.
\<close>

section \<open>Start and resume\<close>

definition observe_text :: "job \<Rightarrow> string world_tx" where
  "observe_text j =
     (let t = jb_task j in
      bindT (with_memory (\<lambda>m. (recall m (a_id (jb_agent j)) RECENT_RUNS None, m))) (\<lambda>recalled.
      bindT (case bh_context (jb_behavior j) of
               None \<Rightarrow> returnT None | Some hook \<Rightarrow> hook (job_context j)) (\<lambda>extra.
      returnT (join [NEWLINE]
        ([''Task: '' @ t_display_name t @ '' ('' @ t_name t @ '')'', ''Input:'', dumps_indent 0 (JObj (t_input t))] @
         (if recalled = [] then [] else [[], recollection_text recalled MAX_CHARS]) @
         (case nonempty extra of None \<Rightarrow> [] | Some text \<Rightarrow> [[], text]))))))"

definition start_fresh :: "runner \<Rightarrow> job \<Rightarrow> running \<Rightarrow> running world_tx" where
  "start_fresh rn j st =
     (let t = jb_task j; run_id = cl_run_id (jb_claim j) in
      bindT (with_db (run_transition run_id R_RUNNING runner_actor None)) (\<lambda>_.
      bindT (with_db (getsT clock)) (\<lambda>now.
      bindT (with_db (upd_run run_id (\<lambda>r. r\<lparr>r_started_at := Some now\<rparr>))) (\<lambda>_.
      bindT (observe_text j) (\<lambda>text.
      bindT (with_db (get_run run_id)) (\<lambda>r.
      bindT (with_db (run_emit j (AgentRunStarted (r_attempt r) (t_name t) (t_required_role t)
        (Some (truncate_text SUMMARY (dumps False (JObj (t_input t)))))))) (\<lambda>_.
      returnT (st\<lparr>rg_messages := [user_message text]\<rparr>))))))))"

text \<open>
  \<open>_resume\<close>: the conversation of the last step that has a blob. Results of the last turn, if its
  last message holds any, are taken out of it; the uses of the turn without a result are pending.
\<close>

definition stored_messages :: "world \<Rightarrow> uuid \<Rightarrow> err + message list" where
  "stored_messages w run_id =
     (case last_some (sort_key sp_seq (filter (\<lambda>p. sp_blob_key p \<noteq> None) (steps_of w run_id))) of
        None \<Rightarrow> Inl (RuntimeError ''resumed without any recorded step'')
      | Some step \<Rightarrow>
          (case map_of (wd_blobs w) (case sp_blob_key step of Some k \<Rightarrow> k | None \<Rightarrow> []) of
             Some (JObj d) \<Rightarrow>
               (case map_of d ''messages_after'' of
                  Some (JArr ms) \<Rightarrow>
                    (case all_some (map load_message ms) of
                       Some messages \<Rightarrow> Inr messages | None \<Rightarrow> Inl (ValueError ''messages_after''))
                | _ \<Rightarrow> Inl (KeyError ''messages_after''))
           | _ \<Rightarrow> Inl (KeyError ''blob'')))"

fun result_id :: "content_block \<Rightarrow> string list" where
  "result_id (Tool_result i _ _) = [i]"
| "result_id _ = []"

definition split_results :: "message list \<Rightarrow> message list \<times> content_block list" where
  "split_results messages =
     (case last_some messages of
        Some m \<Rightarrow> if mg_role m = User \<and> list_ex is_tool_result (mg_content m)
                  then (butlast messages, filter is_tool_result (mg_content m)) else (messages, [])
      | None \<Rightarrow> (messages, []))"

definition unanswered :: "message list \<Rightarrow> content_block list \<Rightarrow> tool_use list" where
  "unanswered messages results =
     (case last_some messages of
        Some m \<Rightarrow> if mg_role m = Assistant
                  then filter (\<lambda>u. tu_id u \<notin> set (concat (map result_id results))) (uses_of (mg_content m)) else []
      | None \<Rightarrow> [])"

definition approved_calls :: "approval list \<Rightarrow> string list" where
  "approved_calls rows =
     concat (map (\<lambda>a. case map_of (ap_payload a) ''tool_call_id'' of
        Some (JStr (c # cs)) \<Rightarrow> [c # cs] | _ \<Rightarrow> []) rows)"

definition count_steps :: "world \<Rightarrow> uuid \<Rightarrow> step_kind \<Rightarrow> nat" where
  "count_steps w run_id kind = length (filter (\<lambda>p. sp_kind p = kind) (steps_of w run_id))"

definition resume_run :: "job \<Rightarrow> running \<Rightarrow> running world_tx" where
  "resume_run j st =
     (let run_id = cl_run_id (jb_claim j) in
      bindT (with_db (run_transition run_id R_RUNNING runner_actor None)) (\<lambda>_.
      bindT (getsT (\<lambda>w. stored_messages w run_id)) (\<lambda>stored.
      bindT (liftT stored) (\<lambda>messages.
      bindT (getsT (\<lambda>w. (approved_for_run (wd_db w) run_id, count_steps w run_id))) (\<lambda>(rows, count).
      let (rest, results) = split_results messages
      in returnT (st\<lparr>rg_messages := rest, rg_results := results, rg_pending := unanswered rest results,
           rg_approved := approved_calls rows, rg_model_calls := count SK_THINK + count SK_REPAIR,
           rg_repairs_used := count SK_REPAIR, rg_eval_round := count SK_EVALUATE\<rparr>))))))"

definition blank_run :: "dict \<Rightarrow> string list \<Rightarrow> string \<Rightarrow> agent_run \<Rightarrow> running" where
  "blank_run policies names system r =
     \<lparr>rg_policies = policies, rg_tool_names = names, rg_system = system, rg_prompt_hash = [],
      rg_messages = [], rg_next_seq = r_steps_count r, rg_model_calls = 0, rg_repairs_used = 0,
      rg_eval_round = 0, rg_pending = [], rg_results = [], rg_approved = [], rg_repairing = False,
      rg_tokens = r_tokens_in r + r_tokens_out r\<rparr>"

definition start_run :: "runner \<Rightarrow> job \<Rightarrow> running proc" where
  "start_run rn j =
     (let b = jb_behavior j; c = jb_claim j in
      atomically (rn_others rn)
        (bindT (with_db (heartbeat (rn_task_manager rn) c)) (\<lambda>_.
         bindT (with_db (get_run (cl_run_id c))) (\<lambda>r.
         bindT (getsT (\<lambda>w. policies_of w (t_company_id (jb_task j)))) (\<lambda>policies.
         bindT (liftT (map_err (offered_tools b (jb_agent j))
            (\<lambda>n. bind_err (tool_get (rn_tools rn) n) (\<lambda>spec. Inr (ts_name spec))))) (\<lambda>names.
         let st = blank_run policies names
               (with_persona (bh_system_prompt b) (a_description (jb_agent j))) r
         in bindT (if cl_resumed c then resume_run j st else start_fresh rn j st) (\<lambda>st.
            case rg_messages st of
              [] \<Rightarrow> throwT IndexError
            | m # _ \<Rightarrow> returnT (st\<lparr>rg_prompt_hash := rn_sha256 rn (bh_prompt_version b @ [NEWLINE] @ rg_system st @
                 [NEWLINE] @ rn_repr_blocks rn (mg_content m))\<rparr>))))))))"

section \<open>Calling the model\<close>

definition request_of :: "job \<Rightarrow> running \<Rightarrow> tool_definition list \<Rightarrow> model_request" where
  "request_of j st tools =
     (let t = jb_task j; b = jb_behavior j in
      \<lparr>rq_capability = bh_capability b,
       rq_context = \<lparr>cc_company_id = t_company_id t, cc_role = a_role (jb_agent j),
         cc_project_id = Some (t_project_id t), cc_agent_id = Some (a_id (jb_agent j)),
         cc_run_id = Some (cl_run_id (jb_claim j)), cc_task_id = Some (t_id t),
         cc_workflow_run_id = t_workflow_run_id t, cc_cycle_id = t_cycle_id t,
         cc_task_name = Some (t_name t), cc_attempt = t_attempt t, cc_step_seq = rg_next_seq st\<rparr>,
       rq_messages = rg_messages st, rq_system = Some (rg_system st), rq_tools = tools,
       rq_output_model = Some (bh_output_model b), rq_max_output_tokens = bh_max_output_tokens b\<rparr>)"

text \<open>What the gateway answered, as a return or as the exception it raises.\<close>

fun raise_result :: "complete_result \<Rightarrow> model_response proc" where
  "raise_result (Completed response) = returnP response"
| "raise_result (Call_failed failures) =
     (case last_some failures of
        None \<Rightarrow> raiseP IndexError
      | Some (_, e) \<Rightarrow> raiseP (ModelCallFailed (pe_class e @ '': '' @ pe_message e)))"
| "raise_result (Budget_refused l sp requested) =
     raiseP (BudgetExceeded (sl_scope l) (sl_amount l) sp requested)"
| "raise_result (Raised e) = raiseP e"

text \<open>
  \<open>_keeping_the_lease\<close>: the lease is renewed while the call lasts. When it turns out to be lost the
  call is cancelled: the reservation it made stays open until it times out, and no call is recorded.
\<close>

definition reserve_first :: "runner \<Rightarrow> model_request \<Rightarrow> unit cost_tx" where
  "reserve_first rn rq =
     bindT (liftT (resolve (rn_router rn) (cc_role (rq_context rq)) (rq_capability rq))) (\<lambda>a.
     bindT (reserve_for (rn_guard rn) (rn_router rn) (rn_providers rn) rq a) (\<lambda>_. returnT ()))"

definition complete_request :: "runner \<Rightarrow> job \<Rightarrow> model_request \<Rightarrow> model_response proc" where
  "complete_request rn j rq =
     attemptP (repeatP (rn_waits rn rq) (bindP (atomically (rn_others rn)
         (with_db (heartbeat (rn_task_manager rn) (jb_claim j)))) (\<lambda>_. returnP ()))) (\<lambda>kept.
     case kept of
       Inl e \<Rightarrow> attemptP (atomically (rn_others rn) (with_costs (reserve_first rn rq))) (\<lambda>_. raiseP e)
     | Inr _ \<Rightarrow>
         bindP (atomically (rn_others rn)
           (with_costs (gateway_complete (rn_guard rn) (rn_router rn) (rn_providers rn) rq))) (\<lambda>result.
         raise_result result))"

definition usage_json :: "usage \<Rightarrow> json" where
  "usage_json u = JObj [(''input_tokens'', JInt (int (us_input u))), (''output_tokens'', JInt (int (us_output u))),
     (''cache_read_tokens'', JInt (int (us_cache_read u))), (''cache_write_tokens'', JInt (int (us_cache_write u)))]"

definition call_payload :: "running \<Rightarrow> model_request \<Rightarrow> model_response \<Rightarrow> dict" where
  "call_payload st rq response =
     [(''request'', JObj [(''system'', JStr (rg_system st)), (''messages'', JArr (map dump_message (rq_messages rq))),
        (''tools'', JArr (map JStr (rg_tool_names st)))]),
      (''response'', JObj [(''content'', JArr (map dump_block (mr_content response))),
        (''stop_reason'', JStr (stop_reason_value (mr_stop_reason response))),
        (''alias'', JStr (mr_alias response)), (''model_id'', JStr (mr_model_id response)),
        (''usage'', usage_json (mr_usage response)),
        (''output_issues'', JArr (map JStr (mr_output_issues response)))])]"

definition call_model :: "runner \<Rightarrow> job \<Rightarrow> running \<Rightarrow> (model_response \<times> running) proc" where
  "call_model rn j st =
     bindP (atomically (rn_others rn) (with_db
       (bindT (heartbeat (rn_task_manager rn) (jb_claim j)) (\<lambda>_.
        if rg_repairing st then returnT ()
        else run_activity rn j (AgentThinking (if rg_model_calls st = 0 then Plan else Reason) (rg_next_seq st) []))))) (\<lambda>_.
     case tool_definitions (rn_tools rn) (rg_tool_names st) of
       Inl e \<Rightarrow> raiseP e
     | Inr tools \<Rightarrow>
         (let rq = request_of j st tools in
          bindP (complete_request rn j rq) (\<lambda>response.
          let uses = uses_of (mr_content response);
              text = truncate_text SUMMARY (response_text response);
              st1 = st\<lparr>rg_model_calls := Suc (rg_model_calls st), rg_repairing := False,
                rg_messages := rg_messages st @ [\<lparr>mg_role = Assistant, mg_content = mr_content response\<rparr>],
                rg_results := []\<rparr>
          in bindP (atomically (rn_others rn) (record_run_step rn j st1
               (if rg_repairing st then SK_REPAIR else SK_THINK)
               (if text = [] then nat_str (length uses) @ '' tool call(s)'' else text)
               (call_payload st rq response)
               (if uses = [] then None else Some (map use_json uses))
               (mr_cost_usd response)
               (Some (us_input (mr_usage response), us_output (mr_usage response))) None)) (\<lambda>st2.
             returnP (response, st2\<lparr>rg_tokens := rg_tokens st2 + us_input (mr_usage response) +
               us_output (mr_usage response)\<rparr>)))))"

section \<open>Tool calls\<close>

definition unknown_tool_text :: "string \<Rightarrow> string list \<Rightarrow> string" where
  "unknown_tool_text name names = ''unknown tool '' @ repr_str name @ ''; available: '' @ join '', '' names"

text \<open>
  What the policy engine says to a call: go on, or the run ends here, denied or suspended until a
  person decides.
\<close>

datatype permission = Granted | Ends_run run_outcome

text \<open>The run waits for a person: its conversation is kept, an approval of this very call is asked for.\<close>

definition suspend_call :: "runner \<Rightarrow> job \<Rightarrow> running \<Rightarrow> tool_use \<Rightarrow> string \<Rightarrow> (permission \<times> running) world_tx" where
  "suspend_call rn j st u reason =
     (let c = jb_claim j in
      bindT (record_run_step rn j st SK_OBSERVE (''waiting for approval: '' @ tu_name u)
        [(''pending_tool_call_id'', JStr (tu_id u)), (''policy'', JStr reason)]
        (Some [use_json u]) 0 None None) (\<lambda>st1.
      bindT (with_db (request_for_run (rn_approvals rn) c ''tool_call'' (tu_name u)
        [(''tool'', JStr (tu_name u)), (''args'', JObj (tu_input u)), (''tool_call_id'', JStr (tu_id u)),
         (''step_seq'', JInt (int (rg_next_seq st1)))]
        (truncate_text SUMMARY (a_display_name (jb_agent j) @ '' wants to '' @ tu_name u @ '' '' @
          dumps False (JObj (tu_input u)))) None)) (\<lambda>i.
      returnT (Ends_run (ended_as c Run_suspended ''NeedsApproval'' (''approval '' @ uuid_str i) False), st1))))"

definition follow_decision :: "runner \<Rightarrow> job \<Rightarrow> running \<Rightarrow> tool_use \<Rightarrow> decision \<Rightarrow> (permission \<times> running) world_tx" where
  "follow_decision rn j st u d =
     (case dc_outcome d of
        Deny \<Rightarrow>
          (let message = tu_name u @ '': '' @ dc_reason d in
           bindT (with_db (abort_task (rn_task_manager rn) (jb_claim j) Abort_policy (Some message))) (\<lambda>_.
           returnT (Ends_run (ended_as (jb_claim j) Run_aborted ''PolicyDenied'' message False), st)))
      | Needs_approval \<Rightarrow> suspend_call rn j st u (dc_reason d)
      | Allow \<Rightarrow> returnT (Granted, st))"

definition ask_policy :: "runner \<Rightarrow> job \<Rightarrow> running \<Rightarrow> tool_use \<Rightarrow> (permission \<times> running) world_tx" where
  "ask_policy rn j st u =
     (let c = jb_claim j; t = jb_task j; ag = jb_agent j in
      bindT (with_db (heartbeat (rn_task_manager rn) c)) (\<lambda>_.
      bindT (case bh_policy_facts (jb_behavior j) of
               None \<Rightarrow> returnT [] | Some hook \<Rightarrow> hook (job_context j) (tu_name u) (tu_input u)) (\<lambda>facts.
      bindT (with_db (decide_and_record (rn_policy rn) (Actor_agent (cl_agent_id c)) (tu_name u)
        (t_company_id t) (Some (a_role ag)) (tu_input u) facts (rg_policies st)
        \<lparr>dr_agent_id = Some (a_id ag), dr_run_id = Some (cl_run_id c), dr_task_id = Some (t_id t)\<rparr>))
        (follow_decision rn j st u))))"

definition call_context_of :: "job \<Rightarrow> tool_use \<Rightarrow> nat \<Rightarrow> tool_context" where
  "call_context_of j u step_seq =
     (let t = jb_task j in
      \<lparr>tc_company_id = t_company_id t, tc_actor = Actor_agent (cl_agent_id (jb_claim j)), tc_call_id = tu_id u,
       tc_idempotency_key = [], tc_agent_id = Some (a_id (jb_agent j)),
       tc_run_id = Some (cl_run_id (jb_claim j)), tc_task_id = Some (t_id t),
       tc_workflow_run_id = t_workflow_run_id t, tc_cycle_id = t_cycle_id t, tc_step_seq = step_seq\<rparr>)"

definition invocation_payload :: "tool_use \<Rightarrow> tool_invocation \<Rightarrow> dict" where
  "invocation_payload u done_call =
     [(''tool'', JStr (tu_name u)), (''args'', JObj (tu_input u)), (''ok'', JBool (ti_ok done_call)),
      (''output'', case ti_output done_call of None \<Rightarrow> JNull | Some d \<Rightarrow> JObj d),
      (''error'', case ti_message done_call of None \<Rightarrow> JNull | Some m \<Rightarrow> JStr m),
      (''produced'', JArr (map (\<lambda>p. JObj [(''type'', JStr (pr_type p)), (''id'', JStr (uuid_str (pr_id p)))])
         (ti_produced done_call)))]"

definition invocation_content :: "tool_invocation \<Rightarrow> string" where
  "invocation_content done_call =
     (if ti_ok done_call then dumps False (case ti_output done_call of None \<Rightarrow> JNull | Some d \<Rightarrow> JObj d)
      else (case ti_error_class done_call of None \<Rightarrow> ''None'' | Some cls \<Rightarrow> cls) @ '': '' @
        (case ti_message done_call of None \<Rightarrow> ''None'' | Some m \<Rightarrow> m))"

text \<open>The call itself, once it is permitted: announced with the activity, run, and recorded.\<close>

definition perform_tool :: "runner \<Rightarrow> job \<Rightarrow> running \<Rightarrow> tool_use \<Rightarrow> (content_block \<times> running) proc" where
  "perform_tool rn j st u =
     attemptP (invoke (rn_others rn) (rn_sha256 rn) (rn_tools rn) (tu_name u) (tu_input u)
       (call_context_of j u (rg_next_seq st))
       (with_db (bindT (heartbeat (rn_task_manager rn) (jb_claim j)) (\<lambda>_.
          run_activity rn j (AgentWorking (tu_name u) (tu_id u) (rg_next_seq st) None []))))) (\<lambda>invoked.
     case invoked of
       Inl e \<Rightarrow> (case e of
           UnknownTool n \<Rightarrow> returnP (Tool_result (tu_id u) (snd (rn_describe rn e)) True, st)
         | _ \<Rightarrow> raiseP e)
     | Inr done_call \<Rightarrow>
         (let content = invocation_content done_call;
              result = Tool_result (tu_id u) content (\<not> ti_ok done_call)
          in bindP (atomically (rn_others rn) (record_run_step rn j st SK_ACT
               (truncate_text SUMMARY (tu_name u @ '': '' @ (if ti_ok done_call then ''ok'' else content)))
               (invocation_payload u done_call)
               (Some [[(''id'', JStr (tu_id u)), (''name'', JStr (tu_name u)), (''ok'', JBool (ti_ok done_call)),
                  (''error_class'', case ti_error_class done_call of None \<Rightarrow> JNull | Some cls \<Rightarrow> JStr cls),
                  (''duration_ms'', JInt (ti_duration_ms done_call))]])
               (case ti_cost_usd done_call of None \<Rightarrow> 0 | Some x \<Rightarrow> x) None (Some result))) (\<lambda>st1.
             returnP (result, st1))))"

datatype turn = Next content_block | Over run_outcome

definition one_tool :: "runner \<Rightarrow> job \<Rightarrow> running \<Rightarrow> tool_use \<Rightarrow> (turn \<times> running) proc" where
  "one_tool rn j st u =
     (if tu_name u \<notin> set (rg_tool_names st) then
        returnP (Next (Tool_result (tu_id u) (unknown_tool_text (tu_name u) (rg_tool_names st)) True), st)
      else
        bindP (if tu_id u \<in> set (rg_approved st) then returnP (Granted, st)
               else atomically (rn_others rn) (ask_policy rn j st u)) (\<lambda>(p, st1).
        case p of
          Ends_run outcome \<Rightarrow> returnP (Over outcome, st1)
        | Granted \<Rightarrow> bindP (perform_tool rn j st1 u) (\<lambda>(b, st2). returnP (Next b, st2))))"

text \<open>\<open>_act\<close>: the calls of one turn in order; None when the turn is answered.\<close>

fun act :: "runner \<Rightarrow> job \<Rightarrow> running \<Rightarrow> tool_use list \<Rightarrow> (run_outcome option \<times> running) proc" where
  "act rn j st [] =
     returnP (None, st\<lparr>rg_pending := [],
       rg_messages := rg_messages st @ [\<lparr>mg_role = User, mg_content = rg_results st\<rparr>], rg_results := []\<rparr>)"
| "act rn j st (u # us) =
     bindP (one_tool rn j st u) (\<lambda>(t, st1).
     case t of
       Over outcome \<Rightarrow> returnP (Some outcome, st1\<lparr>rg_pending := u # us\<rparr>)
     | Next result \<Rightarrow> act rn j (st1\<lparr>rg_results := rg_results st1 @ [result]\<rparr>) us)"

section \<open>Evaluation\<close>

definition validate_output ::
    "job \<Rightarrow> dict option \<Rightarrow> string list \<Rightarrow> string list world_tx" where
  "validate_output j parsed issues =
     (case parsed of
        Some d \<Rightarrow>
          if issues = [] then
            bindT (mapT (bh_validators (jb_behavior j)) (\<lambda>v. v (job_context j) d)) (\<lambda>found. returnT (concat found))
          else returnT issues
      | None \<Rightarrow> returnT issues)"

definition evaluation_dict :: "string list \<Rightarrow> nat \<Rightarrow> dict" where
  "evaluation_dict issues turn_no =
     [(''passed'', JBool (issues = [])), (''issues'', JArr (map JStr issues)), (''round'', JInt (int turn_no))]"

text \<open>One transaction; None means that the model is asked to repair its reply.\<close>

definition evaluate ::
    "runner \<Rightarrow> job \<Rightarrow> running \<Rightarrow> model_response \<Rightarrow> string list \<Rightarrow> (run_outcome option \<times> running) world_tx" where
  "evaluate rn j st0 response issues0 =
     (let c = jb_claim j; b = jb_behavior j; run_id = cl_run_id c; tm = rn_task_manager rn;
          st = st0\<lparr>rg_eval_round := Suc (rg_eval_round st0)\<rparr>; turn_no = Suc (rg_eval_round st0)
      in bindT (with_db (heartbeat tm c)) (\<lambda>_.
         bindT (validate_output j (mr_parsed response) issues0) (\<lambda>issues.
         bindT (with_db (run_activity rn j (AgentReviewing Evaluate turn_no (length issues) []))) (\<lambda>_.
         bindT (record_run_step rn j st SK_EVALUATE
           (if issues = [] then ''passed'' else truncate_text SUMMARY (join ''; '' issues))
           (evaluation_dict issues turn_no) None 0 None None) (\<lambda>st1.
         bindT (with_db (upd_run run_id (\<lambda>r. r\<lparr>r_evaluation := Some (evaluation_dict issues turn_no)\<rparr>))) (\<lambda>_.
         bindT (with_db (run_transition run_id R_EVALUATING runner_actor None)) (\<lambda>_.
         if issues = [] then
           bindT (someT (mr_parsed response) AssertionError) (\<lambda>output.
           let summary = (case bh_summarize b of
                 Some f \<Rightarrow> f output | None \<Rightarrow> truncate_text SUMMARY (response_text response))
           in bindT (with_db (succeed tm c (Some output) (Some summary))) (\<lambda>_.
              bindT (remember_run rn j ''done'' (Some summary) []) (\<lambda>_.
              returnT (Some \<lparr>ro_status = Run_completed, ro_run_id = run_id, ro_error_class = None,
                ro_message = None, ro_will_retry = False\<rparr>, st1))))
         else if rg_repairs_used st1 < bh_repair_limit b then
           bindT (with_db (run_transition run_id R_REPAIRING runner_actor None)) (\<lambda>_.
           bindT (with_db (run_transition run_id R_RUNNING runner_actor None)) (\<lambda>_.
           bindT (with_db (run_activity rn j (AgentReviewing Repair (Suc (rg_repairs_used st1)) (length issues) []))) (\<lambda>_.
           returnT (None, st1\<lparr>rg_repairs_used := Suc (rg_repairs_used st1), rg_repairing := True,
             rg_messages := rg_messages st1 @ [user_message (repair_prompt issues)]\<rparr>))))
         else
           (let message = truncate_text 2000 (join ''; '' issues) in
            bindT (with_db (fail_task tm c ''EvaluationFailed'' message True)) (\<lambda>retry.
            bindT (remember_run rn j ''sent back'' None issues) (\<lambda>_.
            returnT (Some (ended_as c Run_failed ''EvaluationFailed'' message retry), st1)))))))))))"

section \<open>The loop\<close>

definition reply_issues :: "model_response \<Rightarrow> string list" where
  "reply_issues response =
     (let issues = mr_output_issues response @
            (if mr_stop_reason response = Max_tokens
             then [''the reply was cut off (max_tokens); reply with the complete output''] else [])
      in if mr_parsed response = None \<and> issues = [] then [''no structured output in the reply''] else issues)"

text \<open>Fuel counts the passes of the loop.\<close>

fun run_loop :: "runner \<Rightarrow> job \<Rightarrow> nat \<Rightarrow> running \<Rightarrow> run_outcome proc" where
  "run_loop rn j 0 st = raiseP OutOfFuel"
| "run_loop rn j (Suc fuel) st =
     (if rg_pending st \<noteq> [] then
        bindP (act rn j st (rg_pending st)) (\<lambda>(over, st1).
        case over of Some outcome \<Rightarrow> returnP outcome | None \<Rightarrow> run_loop rn j fuel st1)
      else if bh_max_steps (jb_behavior j) \<le> rg_model_calls st then
        fail_run rn (jb_claim j) ''MaxStepsExceeded''
          (nat_str (rg_model_calls st) @ '' model calls without a final answer'') True
      else
        bindP (call_model rn j st) (\<lambda>(response, st1).
        if mr_stop_reason response = Stop_tool_use \<and> uses_of (mr_content response) \<noteq> [] then
          bindP (act rn j st1 (uses_of (mr_content response))) (\<lambda>(over, st2).
          case over of Some outcome \<Rightarrow> returnP outcome | None \<Rightarrow> run_loop rn j fuel st2)
        else if mr_stop_reason response = Refusal then
          fail_run rn (jb_claim j) ''ModelRefusal''
            (let text = truncate_text SUMMARY (response_text response) in if text = [] then ''refused'' else text) False
        else
          bindP (atomically (rn_others rn) (evaluate rn j st1 response (reply_issues response))) (\<lambda>(over, st2).
          case over of Some outcome \<Rightarrow> returnP outcome | None \<Rightarrow> run_loop rn j fuel st2)))"

text \<open>The handlers of \<open>run\<close>. What aborting raises is not caught by them.\<close>

definition run_failed :: "runner \<Rightarrow> claim \<Rightarrow> err \<Rightarrow> run_outcome proc" where
  "run_failed rn c e =
     (case e of
        LeaseLost i \<Rightarrow> returnP (ended_as c Run_lost ''LeaseLost'' (snd (rn_describe rn e)) False)
      | BudgetExceeded _ _ _ _ \<Rightarrow>
          bindP (atomically (rn_others rn) (with_db (abort_task (rn_task_manager rn) c Abort_budget
            (Some (snd (rn_describe rn e)))))) (\<lambda>_.
          returnP (ended_as c Run_aborted ''BudgetExceeded'' (snd (rn_describe rn e)) False))
      | ModelCallFailed message \<Rightarrow> fail_run rn c ''ProviderError'' message True
      | _ \<Rightarrow> fail_run rn c (fst (rn_describe rn e)) (snd (rn_describe rn e)) True)"

definition run_claim :: "runner \<Rightarrow> nat \<Rightarrow> claim \<Rightarrow> task \<Rightarrow> agent \<Rightarrow> run_outcome proc" where
  "run_claim rn fuel c t ag =
     (case behavior_resolve (rn_behaviors rn) (a_role ag) (t_name t) of
        Inl e \<Rightarrow> run_failed rn c e
      | Inr b \<Rightarrow>
          (let j = \<lparr>jb_claim = c, jb_task = t, jb_agent = ag, jb_behavior = b\<rparr>
           in catchP (bindP (start_run rn j) (run_loop rn j fuel)) (run_failed rn c)))"

end
