(* ===== verification/RunEnds.thy ===== *)
theory RunEnds
  imports TaskProps Approvals
begin

text \<open>
  In which states a task and its run are when an operation that ends or suspends an attempt
  returns: after success, an abort, and a request for an approval (a failure is
  \<open>failed_attempt_ends\<close>).
\<close>

definition task_is :: "uuid \<Rightarrow> task_state \<Rightarrow> db \<Rightarrow> bool" where
  "task_is i st s \<longleftrightarrow> map_option t_state (task_of s i) = Some st"

definition run_is :: "uuid \<Rightarrow> agent_run_state \<Rightarrow> db \<Rightarrow> bool" where
  "run_is i st s \<longleftrightarrow> map_option r_state (run_of s i) = Some st"

lemma any_triple: "triple P m (\<lambda>_ _. True)"
  by (simp add: triple_def)

lemma task_is_after: "triple P (task_transition i st actor reason) (\<lambda>_. task_is i st)"
  by (rule tripleI, erule task_transition_effect) (simp add: task_is_def task_of_def find_row_update)

lemma run_is_after: "triple P (run_transition i st actor reason) (\<lambda>_. run_is i st)"
  by (rule tripleI) (simp add: run_is_def run_after_transition)

lemma run_is_finished: "triple P (finish_run i st now) (\<lambda>_. run_is i st)"
  unfolding run_is_def by (rule finish_run_state)

lemma task_is_final:
  "\<lbrakk>\<And>s0. keeps (settled s0) m; is_terminal TASK_FSM st\<rbrakk> \<Longrightarrow> triple (task_is i st) m (\<lambda>_. task_is i st)"
  unfolding task_is_def keeps_def [symmetric] by (rule final_task_stays)

lemma run_is_final:
  "\<lbrakk>\<And>s0. keeps (settled s0) m; is_terminal AGENT_RUN_FSM st\<rbrakk> \<Longrightarrow> triple (run_is i st) m (\<lambda>_. run_is i st)"
  unfolding run_is_def keeps_def [symmetric] by (rule final_run_stays)

lemma kept_by_frames:
  "frames m \<Longrightarrow> keeps (task_is i st) m" "frames m \<Longrightarrow> keeps (run_is i rt) m"
  by (auto simp: keeps_def triple_def task_is_def run_is_def task_of_def run_of_def dest!: framesD)

lemma run_is_kept: "keeps (run_is i st) (release_lease j)" "keeps (run_is i st) (task_transition j tt actor reason)"
  by (simp add: keeps_def triple_def release_lease_def upd_task_def tx_run run_is_def run_of_def)
    (rule keepsI, erule task_transition_effect, simp add: run_is_def run_of_def)

lemmas ending_machines = final_states.basics final_states.parts final_states.requeue_keeps

lemma terminal_ends:
  "is_terminal TASK_FSM T_SUCCEEDED" "is_terminal TASK_FSM T_FAILED" "is_terminal TASK_FSM T_CANCELLED"
  "is_terminal AGENT_RUN_FSM R_COMPLETED" "is_terminal AGENT_RUN_FSM R_FAILED" "is_terminal AGENT_RUN_FSM R_ABORTED"
  by code_simp+

lemma wired_links: "wired y \<Longrightarrow> keeps (settled s0) (activity_links (su_manager y) i r)"
  using final_states.wired_keeps [of y s0] by (simp add: final_states.hooks_keep_def)

text \<open>The first two steps of every such operation.\<close>

lemma triple_locked:
  "(\<And>t. t_id t = cl_task_id c \<Longrightarrow> triple (\<lambda>_. True) (k t) Q) \<Longrightarrow> triple P (bindT (locked_task c) k) Q"
  by (rule triple_bind [where R = "\<lambda>t _. t_id t = cl_task_id c"])
    (auto simp: triple_def task_of_def dest!: locked_task_Inr dest: find_row_key)

lemma triple_claimed:
  "(\<And>r. r_id r = cl_run_id c \<Longrightarrow> triple (run_is (cl_run_id c) (r_state r)) (k r) Q) \<Longrightarrow> triple P (bindT (claimed_run c) k) Q"
  by (rule triple_bind [where R = "\<lambda>r s. r_id r = cl_run_id c \<and> run_is (cl_run_id c) (r_state r) s"])
    (auto simp: triple_def run_of_def run_is_def dest!: claimed_run_Inr dest: find_row_key)

lemma triple_skip: "(\<And>x. triple (\<lambda>_. True) (k x) Q) \<Longrightarrow> triple P (bindT m k) Q"
  by (rule triple_bind [OF any_triple])

lemma triple_then_final_task:
  assumes "\<And>s0 x. keeps (settled s0) (k x)" "is_terminal TASK_FSM st"
  shows "triple P (bindT (task_transition i st actor reason) k) (\<lambda>_. task_is i st)"
  by (rule triple_bind [OF task_is_after task_is_final [OF assms]])

lemma triple_then_final_run:
  assumes "\<And>s0 x. keeps (settled s0) (k x)" "is_terminal AGENT_RUN_FSM st"
  shows "triple P (bindT (finish_run i st now) k) (\<lambda>_. run_is i st)"
  by (rule triple_bind [OF run_is_finished run_is_final [OF assms]])

section \<open>Success\<close>

lemma succeed_ends:
  assumes y: "wired y" and run: "succeed (su_manager y) c out summary s = Inr (x, s')"
  shows "task_is (cl_task_id c) T_SUCCEEDED s' \<and> run_is (cl_run_id c) R_COMPLETED s'"
proof
  note hooks = settling_hooks [OF y] wired_links [OF y]
  have "triple (\<lambda>_. True) (succeed (su_manager y) c out summary) (\<lambda>_. task_is (cl_task_id c) T_SUCCEEDED)"
    unfolding succeed_def
  proof (rule triple_locked, rule triple_skip, rule triple_skip, rule triple_skip, rule triple_skip, goal_cases)
    case (1 t r now u v)
    show ?case unfolding 1
      by (rule triple_then_final_task; (intro ending_machines hooks)?) (simp_all add: terminal_ends)
  qed
  then show "task_is (cl_task_id c) T_SUCCEEDED s'" using run by (auto dest: tripleD)
  have "triple (\<lambda>_. True) (succeed (su_manager y) c out summary) (\<lambda>_. run_is (cl_run_id c) R_COMPLETED)"
    unfolding succeed_def
  proof (rule triple_locked, rule triple_claimed, goal_cases)
    case (1 t r)
    show ?case unfolding 1(2)
      by (rule triple_skip, rule triple_skip, rule triple_skip, rule triple_skip, rule triple_skip, rule triple_skip,
          rule triple_skip, rule triple_then_final_run; (intro ending_machines hooks)?) (simp_all add: terminal_ends)
  qed
  then show "run_is (cl_run_id c) R_COMPLETED s'" using run by (auto dest: tripleD)
qed

section \<open>Aborts\<close>

lemma abort_run_ends:
  assumes y: "wired y" and run: "abort_task (su_manager y) c reason message s = Inr (x, s')"
  shows "run_is (cl_run_id c) R_ABORTED s'"
proof -
  note hooks = settling_hooks [OF y]
  have "triple (\<lambda>_. True) (abort_task (su_manager y) c reason message) (\<lambda>_. run_is (cl_run_id c) R_ABORTED)"
    unfolding abort_task_def abort_run_def bindT_assoc
  proof (rule triple_locked, rule triple_claimed, goal_cases)
    case (1 t r)
    show ?case unfolding 1(2)
      by (rule triple_skip, rule triple_skip, rule triple_then_final_run; (intro ending_machines hooks)?)
        (simp_all add: terminal_ends)
  qed
  then show ?thesis using run by (auto dest: tripleD)
qed

lemma abort_policy_ends:
  assumes y: "wired y" and run: "abort_task (su_manager y) c Abort_policy message s = Inr (x, s')"
  shows "task_is (cl_task_id c) T_FAILED s'"
proof -
  note hooks = settling_hooks [OF y]
  have "triple (\<lambda>_. True) (abort_task (su_manager y) c Abort_policy message) (\<lambda>_. task_is (cl_task_id c) T_FAILED)"
    unfolding abort_task_def
  proof (rule triple_locked, rule triple_skip, rule triple_skip, rule triple_skip, goal_cases)
    case (1 t r u v)
    show ?case unfolding 1 if_True simp_thms bindT_assoc
      by (rule triple_if, simp, rule triple_then_final_task; (intro ending_machines hooks)?) (simp_all add: terminal_ends)
  qed
  then show ?thesis using run by (auto dest: tripleD)
qed

lemma abort_budget_ends:
  assumes run: "abort_task tm c Abort_budget message s = Inr (x, s')"
  shows "task_is (cl_task_id c) T_BLOCKED_BUDGET s'"
proof -
  have "triple (\<lambda>_. True) (abort_task tm c Abort_budget message) (\<lambda>_. task_is (cl_task_id c) T_BLOCKED_BUDGET)"
    unfolding abort_task_def
  proof (rule triple_locked, rule triple_skip, rule triple_skip, rule triple_skip, goal_cases)
    case (1 t r u v)
    show ?case unfolding 1 simp_thms if_True
      by (rule triple_bind [OF task_is_after], fold keeps_def) (intro kept_by_frames frame_intros)
  qed
  then show ?thesis using run by (auto dest: tripleD)
qed

section \<open>Suspension\<close>

lemma moves_end:
  "triple (run_is i a) (mapT path (\<lambda>hop. run_transition i hop tm_actor None)) (\<lambda>_. run_is i (last (a # path)))"
proof (induction path arbitrary: a)
  case (Cons st path)
  have "triple (run_is i st) (bindT (mapT path (\<lambda>hop. run_transition i hop tm_actor None)) (\<lambda>ys. returnT (y # ys)))
      (\<lambda>_. run_is i (last (st # path)))" for y
    by (rule triple_bind [OF Cons]) (simp add: triple_def tx_run)
  then show ?case by (simp only: mapT.simps last.simps list.distinct if_False) (rule triple_bind [OF run_is_after], simp)
qed (simp add: triple_def tx_run)

lemma suspend_ends:
  "triple P (suspend_for_approval c i) (\<lambda>_ s. task_is (cl_task_id c) T_WAITING_APPROVAL s \<and> run_is (cl_run_id c) R_WAITING_APPROVAL s)"
proof (rule triple_conseq [OF triple_conj])
  show "triple (\<lambda>_. True) (suspend_for_approval c i) (\<lambda>_. task_is (cl_task_id c) T_WAITING_APPROVAL)"
    unfolding suspend_for_approval_def
  proof (rule triple_locked, rule triple_skip, rule triple_skip, rule triple_skip, rule triple_skip, goal_cases)
    case (1 t r path u v)
    show ?case unfolding 1
      by (rule triple_bind [OF task_is_after], fold keeps_def) (intro kept_by_frames frame_intros)
  qed
  show "triple (\<lambda>_. True) (suspend_for_approval c i) (\<lambda>_. run_is (cl_run_id c) R_WAITING_APPROVAL)"
    unfolding suspend_for_approval_def
  proof (rule triple_locked, rule triple_claimed, rule triple_bind_lift, goal_cases)
    case (1 t r path)
    have "last (r_state r # path) = R_WAITING_APPROVAL"
      using shortest_path_hops [OF 1(3)] hops_last [OF shortest_path_hops [OF 1(3)]] by (cases path) auto
    then have "triple (run_is (cl_run_id c) (r_state r))
        (mapT path (\<lambda>hop. run_transition (r_id r) hop tm_actor None)) (\<lambda>_. run_is (cl_run_id c) R_WAITING_APPROVAL)"
      using moves_end [of "cl_run_id c" "r_state r" path] 1(2) by simp
    then show ?case
      by (rule triple_bind, fold keeps_def)
        (intro keeps_bind run_is_kept kept_by_frames frame_intros)
  qed
qed simp_all

lemma request_ends:
  assumes "request_for_run svc c kind action payload summary expires s = Inr (i, s')"
  shows "task_is (cl_task_id c) T_WAITING_APPROVAL s' \<and> run_is (cl_run_id c) R_WAITING_APPROVAL s'"
  using assms suspend_ends [of "\<lambda>_. True" c] unfolding request_for_run_def
  by (auto simp: bindT_Inr_iff returnT_def dest: tripleD)

end
