(* ===== verification/RunnerDemo.thy ===== *)
theory RunnerDemo
  imports RunnerLoop RunEnds
begin

text \<open>
  A concrete runner and state: one claimed task, a behavior without a model call, one tool, a policy engine
  without rules. The properties of the runner are applied to it.
\<close>

definition demo_behavior :: behavior where
  "demo_behavior = \<lparr>bh_role = ''writer'', bh_capability = ''reasoning'', bh_system_prompt = ''Write.'',
     bh_output_model = (\<lambda>v. case v of JObj d \<Rightarrow> Inr d | _ \<Rightarrow> Inl [([], ''not an object'')]),
     bh_tools = [''publish''], bh_validators = [], bh_task_name = None, bh_max_steps = 0, bh_repair_limit = 1,
     bh_max_output_tokens = 100, bh_prompt_version = ''v1'', bh_context = None, bh_policy_facts = None,
     bh_summarize = None\<rparr>"

definition demo_publish :: tool_spec where
  "demo_publish = \<lparr>ts_name = ''publish'', ts_description = ''Publish the article'', ts_input_schema = JObj [],
     ts_parse = Inr, ts_side_effect = SE_write, ts_timeout = (''30.0'', 30000000), ts_retryable = False,
     ts_fn = (\<lambda>args tc w. (Tool_returned \<lparr>tr_output = [], tr_summary = None, tr_produced = [],
       tr_cost_usd = None, tr_progress = None\<rparr> w, 5))\<rparr>"

definition demo_reply :: provider_response where
  "demo_reply = \<lparr>ps_content = [Tool_use ''c1'' ''publish'' []], ps_stop_reason = Stop_tool_use,
     ps_usage = no_usage, ps_model_id = ''m''\<rparr>"

definition demo_runner :: runner where
  "demo_runner = \<lparr>rn_task_manager = demo_bound,
     rn_guard = \<lparr>gd_reservation_ttl = 600, gd_fx = \<lparr>fx_base = ''USD'', fx_rates = []\<rparr>, gd_daily_cap = None\<rparr>,
     rn_router = \<lparr>rt_aliases = [(''fast'', \<lparr>bd_provider = ''fake'', bd_model_id = ''m'', bd_price = FREE\<rparr>)],
       rt_routes = [(''*.*'', ''fast'')], rt_fallbacks = [], rt_prices = []\<rparr>,
     rn_providers = \<lparr>mp_installed = (\<lambda>_. True), mp_complete = (\<lambda>_ _ _. (Reply demo_reply, 5)),
       mp_loads = (\<lambda>_. Inl ''Expecting value'')\<rparr>,
     rn_tools = [(''publish'', demo_publish)], rn_policy = empty_engine,
     rn_approvals = demo_service\<lparr>as_task_manager := demo_bound\<rparr>, rn_behaviors = [((''writer'', None), demo_behavior)],
     rn_memory = \<lparr>mm_ttl = 100, mm_row_cap = 2\<rparr>, rn_others = id, rn_waits = (\<lambda>_. 0),
     rn_describe = (\<lambda>e. (''Error'', ''error'')), rn_sha256 = id, rn_repr_blocks = (\<lambda>_. [])\<rparr>"

definition demo_world :: world where
  "demo_world = \<lparr>wd_costs = \<lparr>cs_db = demo_claimed, cs_calls = [], cs_reservations = [], cs_budgets = [], cs_cycles = []\<rparr>,
     wd_memory = \<lparr>md_clock = 0, md_next_id = 1, md_entries = []\<rparr>, wd_steps = [], wd_blobs = [], wd_policies = []\<rparr>"

definition demo_outcome :: "(err + run_outcome) \<times> world" where
  "demo_outcome = run_claim demo_runner 5 demo_claim (hd (tasks demo_claimed)) demo_agent demo_world"

lemma demo_outcome_runs:
  "(case demo_outcome of (Inr out, w) \<Rightarrow> ro_status out = Run_failed \<and> ro_will_retry out \<and>
      task_is (cl_task_id demo_claim) T_READY (wd_db w) \<and> run_is (cl_run_id demo_claim) R_FAILED (wd_db w)
    | _ \<Rightarrow> False)"
  by code_simp

end
