(* ===== verification/RunnerProps.thy ===== *)
theory RunnerProps
  imports RunnerDemo
begin

text \<open>
  Properties of agent runs: the loop ends within the steps the behavior allows; a tool the policy
  does not allow never runs.
\<close>

section \<open>Branches\<close>

lemma permission_case:
  "(case p of Granted \<Rightarrow> m | Ends_run out \<Rightarrow> k out) w = r \<longleftrightarrow>
     p = Granted \<and> m w = r \<or> (\<exists>out. p = Ends_run out \<and> k out w = r)"
  by (cases p) auto

lemma turn_case:
  "(case v of Next b \<Rightarrow> m b | Over out \<Rightarrow> k out) w = r \<longleftrightarrow>
     (\<exists>b. v = Next b \<and> m b w = r) \<or> (\<exists>out. v = Over out \<and> k out w = r)"
  by (cases v) auto

section \<open>What the parts of a pass leave of the run's state\<close>

lemma record_run_step_state:
  assumes "record_run_step rn j st kind summary payload calls cost tokens extra w = Inr (st', w')"
  shows "\<exists>n. st' = st\<lparr>rg_next_seq := n\<rparr>"
  using assms by (auto simp: record_run_step_def Let_def bindT_Inr_iff returnT_def)

lemma follow_decision_state:
  assumes "follow_decision rn j st u (d :: decision) w = Inr ((p, st'), w')"
  shows "\<exists>n. st' = st\<lparr>rg_next_seq := n\<rparr>"
proof (cases "dc_outcome (d :: decision)")
  case Needs_approval
  then show ?thesis
    using assms by (auto simp: follow_decision_def suspend_call_def Let_def bindT_Inr_iff returnT_def dest!: record_run_step_state)
qed (use assms in \<open>auto simp: follow_decision_def Let_def bindT_Inr_iff returnT_def intro: exI [of _ "rg_next_seq st"]\<close>)

lemma ask_policy_state:
  assumes "ask_policy rn j st u w = Inr ((p, st'), w')"
  shows "\<exists>n. st' = st\<lparr>rg_next_seq := n\<rparr>"
  using assms by (auto simp: ask_policy_def Let_def bindT_Inr_iff dest: follow_decision_state)

lemma perform_tool_state:
  assumes "perform_tool rn j st u w = (Inr (b, st'), w')"
  shows "\<exists>n. st' = st\<lparr>rg_next_seq := n\<rparr>"
proof -
  have "\<exists>n. st = st\<lparr>rg_next_seq := n\<rparr>" by (rule exI [of _ "rg_next_seq st"]) simp
  then show ?thesis
    using assms unfolding perform_tool_def attemptP_def Let_def
    by (auto simp: bindP_Inr_iff atomically_Inr_iff returnP_def raiseP_def
        split: prod.splits sum.splits err.splits dest: record_run_step_state)
qed

lemma one_tool_state:
  assumes "one_tool rn j st u w = (Inr (t, st'), w')"
  shows "\<exists>n. st' = st\<lparr>rg_next_seq := n\<rparr>"
proof -
  have self: "\<exists>n. st = st\<lparr>rg_next_seq := n\<rparr>" by (rule exI [of _ "rg_next_seq st"]) simp
  show ?thesis
  proof (cases "tu_name u \<in> set (rg_tool_names st)")
    case False
    then show ?thesis using assms self by (simp add: one_tool_def returnP_def)
  next
    case True
    then obtain p st1 w1 where p: "(if tu_id u \<in> set (rg_approved st) then returnP (Granted, st)
        else atomically (rn_others rn) (ask_policy rn j st u)) w = (Inr (p, st1), w1)"
      and rest: "(case p of Ends_run outcome \<Rightarrow> returnP (Over outcome, st1)
        | Granted \<Rightarrow> bindP (perform_tool rn j st1 u) (\<lambda>(b, st2). returnP (Next b, st2))) w1 = (Inr (t, st'), w')"
      using assms by (auto simp: one_tool_def bindP_Inr_iff)
    have "\<exists>n. st1 = st\<lparr>rg_next_seq := n\<rparr>"
      using p self by (auto simp: returnP_def atomically_Inr_iff dest: ask_policy_state split: if_splits)
    moreover have "\<exists>n. st' = st1\<lparr>rg_next_seq := n\<rparr>"
    proof (cases p)
      case Granted
      then show ?thesis using rest by (auto simp: bindP_Inr_iff returnP_def dest: perform_tool_state)
    next
      case (Ends_run outcome)
      then show ?thesis using rest by (auto simp: returnP_def intro: exI [of _ "rg_next_seq st1"])
    qed
    ultimately show ?thesis by auto
  qed
qed

lemma act_state:
  assumes "act rn j st us w = (Inr (None, st'), w')"
  shows "rg_pending st' = [] \<and> rg_model_calls st' = rg_model_calls st"
  using assms
proof (induction us arbitrary: st w)
  case (Cons u us)
  then obtain t st1 w1 where t: "one_tool rn j st u w = (Inr (t, st1), w1)"
    and rest: "(case t of Over outcome \<Rightarrow> returnP (Some outcome, st1\<lparr>rg_pending := u # us\<rparr>)
      | Next result \<Rightarrow> act rn j (st1\<lparr>rg_results := rg_results st1 @ [result]\<rparr>) us) w1 = (Inr (None, st'), w')"
    by (auto simp: bindP_Inr_iff)
  obtain n where n: "st1 = st\<lparr>rg_next_seq := n\<rparr>" using one_tool_state [OF t] by blast
  show ?case
  proof (cases t)
    case (Over outcome)
    then show ?thesis using rest by (simp add: returnP_def)
  next
    case (Next result)
    then show ?thesis using rest Cons.IH [of "st1\<lparr>rg_results := rg_results st1 @ [result]\<rparr>" w1] n by simp
  qed
qed (auto simp: returnP_def)

lemma call_model_state:
  assumes "call_model rn j st w = (Inr (response, st'), w')"
  shows "rg_pending st' = rg_pending st \<and> rg_model_calls st' = Suc (rg_model_calls st)"
  using assms
  by (auto simp: call_model_def Let_def bindP_Inr_iff atomically_Inr_iff returnP_def raiseP_def
      split: sum.splits dest!: record_run_step_state)

lemma evaluate_state:
  assumes "evaluate rn j st response issues w = Inr ((None, st'), w')"
  shows "rg_pending st' = rg_pending st \<and> rg_model_calls st' = rg_model_calls st"
  using assms
  by (auto simp: evaluate_def Let_def bindT_Inr_iff returnT_def split: if_splits dest!: record_run_step_state)

section \<open>The loop ends\<close>

text \<open>Two programs that do the same after the same results.\<close>

lemma bindP_cong: "(\<And>x w'. m w = (Inr x, w') \<Longrightarrow> f x w' = g x w') \<Longrightarrow> bindP m f w = bindP m g w"
  by (auto simp: bindP_def split: prod.splits sum.splits)

definition passes_left :: "job \<Rightarrow> running \<Rightarrow> nat" where
  "passes_left j st = (bh_max_steps (jb_behavior j) - rg_model_calls st) + (if rg_pending st = [] then 0 else 1)"

lemma run_loop_stable:
  assumes "passes_left j st < n" "passes_left j st < m"
  shows "run_loop rn j n st w = run_loop rn j m st w"
  using assms
proof (induction n arbitrary: m st w)
  case (Suc n)
  obtain m' where m: "m = Suc m'" using Suc.prems(2) by (cases m) simp_all
  have next_pass: "run_loop rn j n st' w' = run_loop rn j m' st' w'" if "passes_left j st' < passes_left j st" for st' w'
    using Suc.IH [of st' m' w'] that Suc.prems m by simp
  show ?case
  proof (cases "rg_pending st = []")
    case False
    have "passes_left j st1 < passes_left j st" if "act rn j st us w = (Inr (None, st1), w1)" for us st1 w1
      using act_state [OF that] False by (simp add: passes_left_def)
    then show ?thesis
      using False next_pass unfolding m run_loop.simps
      by (auto intro!: bindP_cong split: option.splits)
  next
    case True
    show ?thesis
    proof (cases "bh_max_steps (jb_behavior j) \<le> rg_model_calls st")
      case True
      then show ?thesis using \<open>rg_pending st = []\<close> by (simp add: m)
    next
      case False
      have less: "passes_left j st2 < passes_left j st"
        if "rg_pending st2 = []" "rg_model_calls st2 = Suc (rg_model_calls st)" for st2
        using that True False by (simp add: passes_left_def)
      have called: "rg_pending st1 = [] \<and> rg_model_calls st1 = Suc (rg_model_calls st)"
        if "call_model rn j st w = (Inr (response, st1), w1)" for response st1 w1
        using call_model_state [OF that] True by simp
      have acted: "run_loop rn j n st2 w2 = run_loop rn j m' st2 w2"
        if "call_model rn j st w = (Inr (response, st1), w1)" "act rn j st1 us w1 = (Inr (None, st2), w2)"
        for response st1 w1 us st2 w2
        using called [OF that(1)] act_state [OF that(2)] by (intro next_pass less) simp_all
      have judged: "run_loop rn j n st2 w2 = run_loop rn j m' st2 w2"
        if "call_model rn j st w = (Inr (response, st1), w1)"
          "evaluate rn j st1 response issues (rn_others rn w1) = Inr ((None, st2), w2)"
        for response st1 w1 issues st2 w2
        using called [OF that(1)] evaluate_state [OF that(2)] by (intro next_pass less) simp_all
      show ?thesis
        using True False unfolding m run_loop.simps
        by (auto intro!: bindP_cong simp: atomically_Inr_iff split: option.splits)
          (erule (1) acted | erule (1) judged)+
    qed
  qed
qed simp

text \<open>
  C25. A run ends. The loop makes at most as many passes as the behavior allows model calls, one
  for the calls left over from before an approval and a last one to give up: with fuel for that many,
  more fuel changes nothing, whatever the model, the tools and the rest of the system do.
\<close>

theorem run_ends:
  assumes "behavior_resolve (rn_behaviors rn) (a_role ag) (t_name t) = Inr b" "bh_max_steps b + 2 \<le> fuel"
  shows "run_claim rn fuel c t ag w = run_claim rn (bh_max_steps b + 2) c t ag w"
proof -
  let ?j = "\<lparr>jb_claim = c, jb_task = t, jb_agent = ag, jb_behavior = b\<rparr>"
  have "run_loop rn ?j fuel st w' = run_loop rn ?j (bh_max_steps b + 2) st w'" for st w'
  proof (rule run_loop_stable)
    have "passes_left ?j st \<le> bh_max_steps b + 1" by (auto simp: passes_left_def intro: le_SucI)
    then show "passes_left ?j st < fuel" "passes_left ?j st < bh_max_steps b + 2" using assms(2) by linarith+
  qed
  then have "run_loop rn ?j fuel = run_loop rn ?j (bh_max_steps b + 2)" by blast
  then show ?thesis using assms(1) by (simp add: run_claim_def)
qed

lemma run_ends_witness:
  "run_claim demo_runner 100 demo_claim (hd (tasks demo_claimed)) demo_agent demo_world =
   run_claim demo_runner (bh_max_steps demo_behavior + 2) demo_claim (hd (tasks demo_claimed)) demo_agent demo_world"
  by (rule run_ends) (simp_all add: behavior_resolve_def demo_runner_def demo_agent_def demo_behavior_def)

section \<open>Outcomes\<close>

lemma with_db_Inr: "with_db m w = Inr (x, w') \<longleftrightarrow> (\<exists>d. m (wd_db w) = Inr (x, d) \<and> w' = wd_put_db d w)"
  by (auto simp: with_db_def zoomT_def split: sum.splits)

lemma wd_db_put [simp]: "wd_db (wd_put_db d w) = d"
  by (simp add: wd_db_def wd_put_db_def)

lemma fail_ends:
  assumes y: "wired y" and run: "fail_task (su_manager y) c ec msg retryable s = Inr (retry, s')"
  shows "task_is (cl_task_id c) (if retry then T_READY else T_FAILED) s' \<and> run_is (cl_run_id c) R_FAILED s'"
proof -
  obtain t where "task_of s (cl_task_id c) = Some t"
    using run by (auto simp: fail_task_def bindT_Inr_iff dest!: locked_task_Inr)
  then have "Row (cl_task_id c) t (clock s) s" by (simp add: Row_def)
  from tripleD [OF fail_row [OF y refl] this run] tripleD [OF fail_run [OF y, where P = "\<lambda>_. True"] TrueI run]
  show ?thesis by (auto simp: Row_def task_is_def run_is_def split: if_splits)
qed

text \<open>What an outcome says of the task and the run of the claim.\<close>

definition outcome_holds :: "claim \<Rightarrow> run_outcome \<Rightarrow> db \<Rightarrow> bool" where
  "outcome_holds c out s \<longleftrightarrow>
     (case ro_status out of
        Run_completed \<Rightarrow> task_is (cl_task_id c) T_SUCCEEDED s \<and> run_is (cl_run_id c) R_COMPLETED s
      | Run_failed \<Rightarrow> task_is (cl_task_id c) (if ro_will_retry out then T_READY else T_FAILED) s \<and>
          run_is (cl_run_id c) R_FAILED s
      | Run_aborted \<Rightarrow> task_is (cl_task_id c)
            (if ro_error_class out = Some ''BudgetExceeded'' then T_BLOCKED_BUDGET else T_FAILED) s \<and>
          run_is (cl_run_id c) R_ABORTED s
      | Run_suspended \<Rightarrow> task_is (cl_task_id c) T_WAITING_APPROVAL s \<and> run_is (cl_run_id c) R_WAITING_APPROVAL s
      | Run_lost \<Rightarrow> True)"

lemma ended_as_simps [simp]:
  "ro_status (ended_as c st ec msg retry) = st" "ro_will_retry (ended_as c st ec msg retry) = retry"
  "ro_error_class (ended_as c st ec msg retry) = Some ec"
  by (simp_all add: ended_as_def)

lemma fail_run_holds:
  assumes "wired y" "rn_task_manager rn = su_manager y" "Runner.fail_run rn c ec msg retryable w = (Inr out, w')"
  shows "outcome_holds c out (wd_db w')"
  using assms
  by (auto simp: Runner.fail_run_def attemptP_def atomically_Inr_iff with_db_Inr outcome_holds_def returnP_def raiseP_def
      split: prod.splits sum.splits err.splits dest: fail_ends)

lemma follow_decision_holds:
  assumes "wired y" "rn_task_manager rn = su_manager y" "follow_decision rn j st u (d :: decision) w = Inr ((Ends_run out, st'), w')"
  shows "outcome_holds (jb_claim j) out (wd_db w')"
proof (cases "dc_outcome (d :: decision)")
  case Deny
  then show ?thesis
    using assms(2,3) abort_policy_ends [OF assms(1)] abort_run_ends [OF assms(1)]
    by (auto simp: follow_decision_def Let_def bindT_Inr_iff returnT_def with_db_Inr outcome_holds_def)
next
  case Needs_approval
  then show ?thesis
    using assms(3)
    by (auto simp: follow_decision_def suspend_call_def Let_def bindT_Inr_iff returnT_def with_db_Inr outcome_holds_def
        dest: request_ends)
next
  case Allow
  then show ?thesis using assms(3) by (simp add: follow_decision_def returnT_def)
qed

lemma ask_policy_holds:
  assumes "wired y" "rn_task_manager rn = su_manager y" "ask_policy rn j st u w = Inr ((Ends_run out, st'), w')"
  shows "outcome_holds (jb_claim j) out (wd_db w')"
  using assms(3) follow_decision_holds [OF assms(1,2)] by (auto simp: ask_policy_def Let_def bindT_Inr_iff)

lemma remember_run_db: "remember_run rn j outcome summary issues w = Inr (x, w') \<Longrightarrow> wd_db w' = wd_db w"
  by (auto simp: remember_run_def with_memory_def bindT_Inr_iff returnT_def wd_db_def Let_def split: prod.splits)

lemma ends_hold:
  "\<lbrakk>wired y; succeed (su_manager y) c out1 summary s = Inr (x, s')\<rbrakk> \<Longrightarrow>
     outcome_holds c \<lparr>ro_status = Run_completed, ro_run_id = i, ro_error_class = None, ro_message = None,
       ro_will_retry = False\<rparr> s'"
  "\<lbrakk>wired y; fail_task (su_manager y) c ec msg retryable s = Inr (retry, s')\<rbrakk> \<Longrightarrow>
     outcome_holds c (ended_as c Run_failed ec msg retry) s'"
  using succeed_ends [of y c out1 summary s x s'] fail_ends [of y c ec msg retryable s retry s']
  by (simp_all add: outcome_holds_def)

lemma evaluate_holds:
  assumes y: "wired y" and m: "rn_task_manager rn = su_manager y"
    and run: "evaluate rn j st response issues w = Inr ((Some out, st'), w')"
  shows "outcome_holds (jb_claim j) out (wd_db w')"
  using run unfolding evaluate_def Let_def m
  by (auto simp: bindT_Inr_iff returnT_def with_db_Inr split: if_splits dest!: remember_run_db
      intro: ends_hold [OF y])

lemma one_tool_holds:
  assumes "wired y" "rn_task_manager rn = su_manager y" "one_tool rn j st u w = (Inr (Over out, st'), w')"
  shows "outcome_holds (jb_claim j) out (wd_db w')"
  using assms(3) ask_policy_holds [OF assms(1,2)]
  by (auto simp: one_tool_def bindP_Inr_iff atomically_Inr_iff returnP_def permission_case split: if_splits)

lemma act_holds:
  assumes "wired y" "rn_task_manager rn = su_manager y" "act rn j st us w = (Inr (Some out, st'), w')"
  shows "outcome_holds (jb_claim j) out (wd_db w')"
  using assms(3)
proof (induction us arbitrary: st w)
  case (Cons u us)
  then show ?case
    using one_tool_holds [OF assms(1,2)]
    by (auto simp: bindP_Inr_iff returnP_def turn_case)
qed (auto simp: returnP_def)

lemma run_loop_holds:
  assumes "wired y" "rn_task_manager rn = su_manager y" "run_loop rn j n st w = (Inr out, w')"
  shows "outcome_holds (jb_claim j) out (wd_db w')"
  using assms(3)
proof (induction n arbitrary: st w)
  case (Suc n)
  then show ?case
    using act_holds [OF assms(1,2)] fail_run_holds [OF assms(1,2)] evaluate_holds [OF assms(1,2)]
    by (auto simp: bindP_Inr_iff atomically_Inr_iff returnP_def split: if_splits option.splits)
qed (simp add: raiseP_def)

lemma run_failed_holds:
  assumes y: "wired y" and m: "rn_task_manager rn = su_manager y" and run: "run_failed rn c e w = (Inr out, w')"
  shows "outcome_holds c out (wd_db w')"
proof -
  have f: "Runner.fail_run rn c ec msg r w = (Inr out, w') \<Longrightarrow> outcome_holds c out (wd_db w')" for ec msg r
    by (rule fail_run_holds [OF y m])
  consider (budget) scope l sp rq where "e = BudgetExceeded scope l sp rq" | (lost) i where "e = LeaseLost i"
    | (other) ec msg r where "run_failed rn c e = Runner.fail_run rn c ec msg r"
    by (cases e) (auto simp: run_failed_def)
  then show ?thesis
  proof cases
    case budget
    then show ?thesis
      using run m abort_budget_ends abort_run_ends [OF y]
      by (auto simp: run_failed_def bindP_Inr_iff atomically_Inr_iff with_db_Inr returnP_def outcome_holds_def)
  next
    case lost
    then show ?thesis using run by (auto simp: run_failed_def returnP_def outcome_holds_def)
  next
    case other
    then show ?thesis using run f by simp
  qed
qed

text \<open>
  C23. The outcome of a run is what happened. When the runner returns an outcome, the database says
  the same: completed, the task SUCCEEDED and its run COMPLETED; failed, the run FAILED and the task
  READY again or FAILED for good as the outcome says; aborted, the run ABORTED and the task blocked
  on its budget or FAILED by policy; suspended, task and run wait for the approval. This holds
  whatever the model answers, the tools do, and other workers do between two transactions of the run.
\<close>

theorem outcome_is_what_happened:
  assumes "wired y" "rn_task_manager rn = su_manager y" "run_claim rn fuel c t ag w = (Inr out, w')"
  shows "case ro_status out of
      Run_completed \<Rightarrow> task_is (cl_task_id c) T_SUCCEEDED (wd_db w') \<and> run_is (cl_run_id c) R_COMPLETED (wd_db w')
    | Run_failed \<Rightarrow> task_is (cl_task_id c) (if ro_will_retry out then T_READY else T_FAILED) (wd_db w') \<and>
        run_is (cl_run_id c) R_FAILED (wd_db w')
    | Run_aborted \<Rightarrow> task_is (cl_task_id c)
          (if ro_error_class out = Some ''BudgetExceeded'' then T_BLOCKED_BUDGET else T_FAILED) (wd_db w') \<and>
        run_is (cl_run_id c) R_ABORTED (wd_db w')
    | Run_suspended \<Rightarrow> task_is (cl_task_id c) T_WAITING_APPROVAL (wd_db w') \<and>
        run_is (cl_run_id c) R_WAITING_APPROVAL (wd_db w')
    | Run_lost \<Rightarrow> True"
proof -
  have "outcome_holds c out (wd_db w')"
  proof (cases "behavior_resolve (rn_behaviors rn) (a_role ag) (t_name t)")
    case (Inl e)
    then show ?thesis using assms(3) run_failed_holds [OF assms(1,2)] by (simp add: run_claim_def)
  next
    case (Inr b)
    then show ?thesis
      using assms(3) run_failed_holds [OF assms(1,2)] run_loop_holds [OF assms(1,2)]
      by (fastforce simp: run_claim_def Let_def catchP_def bindP_def split: prod.splits sum.splits)
  qed
  then show ?thesis by (simp only: outcome_holds_def)
qed

lemma outcome_is_what_happened_witness:
  "task_is (cl_task_id demo_claim) T_READY (wd_db (snd demo_outcome)) \<and>
   run_is (cl_run_id demo_claim) R_FAILED (wd_db (snd demo_outcome))"
proof -
  obtain out w where run: "demo_outcome = (Inr out, w)" and st: "ro_status out = Run_failed" "ro_will_retry out"
    using demo_outcome_runs by (auto split: prod.splits sum.splits)
  have "rn_task_manager demo_runner = su_manager demo_wiring" by (simp add: demo_runner_def demo_wiring_def)
  from outcome_is_what_happened [OF demo_wired this run [unfolded demo_outcome_def]] st show ?thesis by (simp add: run)
qed

section \<open>Tools that are not allowed\<close>

text \<open>The runner with another function for one tool.\<close>

definition swap_tool :: "string \<Rightarrow> (dict \<Rightarrow> tool_context \<Rightarrow> world \<Rightarrow> tool_outcome \<times> duration) \<Rightarrow> runner \<Rightarrow> runner" where
  "swap_tool name f rn =
     (case map_of (rn_tools rn) name of
        None \<Rightarrow> rn
      | Some spec \<Rightarrow> rn\<lparr>rn_tools := dict_set name (spec\<lparr>ts_fn := f\<rparr>) (rn_tools rn)\<rparr>)"

lemma swap_fields [simp]:
  "rn_task_manager (swap_tool n f rn) = rn_task_manager rn" "rn_guard (swap_tool n f rn) = rn_guard rn"
  "rn_router (swap_tool n f rn) = rn_router rn" "rn_providers (swap_tool n f rn) = rn_providers rn"
  "rn_policy (swap_tool n f rn) = rn_policy rn" "rn_approvals (swap_tool n f rn) = rn_approvals rn"
  "rn_behaviors (swap_tool n f rn) = rn_behaviors rn" "rn_memory (swap_tool n f rn) = rn_memory rn"
  "rn_others (swap_tool n f rn) = rn_others rn" "rn_waits (swap_tool n f rn) = rn_waits rn"
  "rn_describe (swap_tool n f rn) = rn_describe rn" "rn_sha256 (swap_tool n f rn) = rn_sha256 rn"
  "rn_repr_blocks (swap_tool n f rn) = rn_repr_blocks rn"
  by (simp_all add: swap_tool_def split: option.splits)

lemma swap_get:
  "tool_get (rn_tools (swap_tool n f rn)) k =
     map_sum id (\<lambda>spec. if k = n then spec\<lparr>ts_fn := f\<rparr> else spec) (tool_get (rn_tools rn) k)"
  by (auto simp: swap_tool_def tool_get_def split: option.splits)

lemma map_err_cong: "(\<And>x. x \<in> set xs \<Longrightarrow> f x = g x) \<Longrightarrow> map_err xs f = map_err xs g"
  by (induction xs) simp_all

lemma swap_lists:
  "tool_definitions (rn_tools (swap_tool n f rn)) = tool_definitions (rn_tools rn)"
  "map_err ns (\<lambda>k. bind_err (tool_get (rn_tools (swap_tool n f rn)) k) (\<lambda>spec. Inr (ts_name spec))) =
   map_err ns (\<lambda>k. bind_err (tool_get (rn_tools rn) k) (\<lambda>spec. Inr (ts_name spec)))"
  unfolding tool_definitions_def
  by (intro ext map_err_cong; simp add: swap_get bind_err_def tool_definition_of_def split: sum.splits)+

lemma swap_parts:
  "run_activity (swap_tool n f rn) = run_activity rn"
  "record_run_step (swap_tool n f rn) = record_run_step rn"
  "remember_run (swap_tool n f rn) = remember_run rn"
  "Runner.fail_run (swap_tool n f rn) = Runner.fail_run rn"
  "reserve_first (swap_tool n f rn) = reserve_first rn"
  by (unfold run_activity_def record_run_step_def remember_run_def Runner.fail_run_def
      reserve_first_def swap_fields, (rule refl)+)

lemma swap_calls:
  "complete_request (swap_tool n f rn) = complete_request rn"
  "suspend_call (swap_tool n f rn) = suspend_call rn"
  "start_fresh (swap_tool n f rn) = start_fresh rn"
  by (unfold complete_request_def suspend_call_def start_fresh_def swap_fields swap_parts, (rule refl)+)

lemma swap_follow: "follow_decision (swap_tool n f rn) = follow_decision rn"
  by (unfold follow_decision_def swap_fields swap_parts swap_calls, rule refl)

lemma swap_start: "start_run (swap_tool n f rn) = start_run rn"
  by (unfold start_run_def swap_fields swap_calls swap_lists, rule refl)

lemma swap_model: "call_model (swap_tool n f rn) = call_model rn"
  by (unfold call_model_def swap_fields swap_calls swap_parts swap_lists, rule refl)

lemma swap_judge:
  "evaluate (swap_tool n f rn) = evaluate rn"
  "run_failed (swap_tool n f rn) = run_failed rn"
  "ask_policy (swap_tool n f rn) = ask_policy rn"
  by (unfold evaluate_def run_failed_def ask_policy_def swap_fields swap_parts swap_follow, (rule refl)+)

lemmas swap_steps = swap_start swap_model swap_judge

lemma swap_perform: "tu_name u \<noteq> n \<Longrightarrow> perform_tool (swap_tool n f rn) j st u = perform_tool rn j st u"
  by (rule ext, unfold perform_tool_def invoke_def swap_parts swap_fields swap_get)
    (cases "tool_get (rn_tools rn) (tu_name u)"; simp)

definition never_allowed :: "runner \<Rightarrow> claim \<Rightarrow> agent \<Rightarrow> string \<Rightarrow> bool" where
  "never_allowed rn c ag name \<longleftrightarrow> (\<forall>args facts policies d.
     decide (rn_policy rn) (Actor_agent (cl_agent_id c)) name (Some (a_role ag)) args facts policies = Inr d \<longrightarrow>
     dc_outcome d \<noteq> Allow)"

lemma never_granted:
  assumes "never_allowed rn (jb_claim j) (jb_agent j) (tu_name u)"
  shows "ask_policy rn j st u w \<noteq> Inr ((Granted, st'), w')"
  using assms
  by (auto simp: ask_policy_def Let_def bindT_Inr_iff with_db_Inr decide_and_record_def liftT_def tx_run
      follow_decision_def suspend_call_def never_allowed_def split: outcome.splits sum.splits if_splits)

lemma swap_one_tool:
  assumes "never_allowed rn (jb_claim j) (jb_agent j) n" "rg_approved st = []"
  shows "one_tool (swap_tool n f rn) j st u w = one_tool rn j st u w"
proof (cases "tu_name u = n")
  case True
  then have "ask_policy rn j st u w' \<noteq> Inr ((Granted, st'), w'')" for w' st' w''
    using never_granted [of rn j u] assms(1) by blast
  then show ?thesis
    using assms(2) unfolding one_tool_def swap_steps swap_fields
    by (auto intro!: bindP_cong simp: atomically_Inr_iff split: permission.splits)
next
  case False
  then show ?thesis by (simp add: one_tool_def swap_steps swap_perform cong: permission.case_cong)
qed

lemma swap_act:
  assumes "never_allowed rn (jb_claim j) (jb_agent j) n" "rg_approved st = []"
  shows "act (swap_tool n f rn) j st us w = act rn j st us w"
  using assms(2)
proof (induction us arbitrary: st w)
  case (Cons u us)
  have "act (swap_tool n f rn) j (st1\<lparr>rg_results := rs\<rparr>) us w' = act rn j (st1\<lparr>rg_results := rs\<rparr>) us w'"
    if "one_tool rn j st u w = (Inr (t, st1), w')" for t st1 rs w'
    using one_tool_state [OF that] Cons by auto
  then show ?case
    unfolding act.simps bindP_def swap_one_tool [OF assms(1) Cons.prems]
    by (auto split: prod.splits sum.splits turn.splits)
qed simp

lemma approved_stays:
  "act rn j st us w = (Inr (v, st'), w') \<Longrightarrow> rg_approved st' = rg_approved st"
proof (induction us arbitrary: st w)
  case (Cons u us)
  then obtain t st1 w1 where t: "one_tool rn j st u w = (Inr (t, st1), w1)"
    and rest: "(case t of Over outcome \<Rightarrow> returnP (Some outcome, st1\<lparr>rg_pending := u # us\<rparr>)
      | Next result \<Rightarrow> act rn j (st1\<lparr>rg_results := rg_results st1 @ [result]\<rparr>) us) w1 = (Inr (v, st'), w')"
    by (auto simp: bindP_Inr_iff)
  obtain n where "st1 = st\<lparr>rg_next_seq := n\<rparr>" using one_tool_state [OF t] by blast
  then show ?case
    using rest Cons.IH [of "st1\<lparr>rg_results := rg_results st1 @ _\<rparr>" w1]
    by (cases t) (auto simp: returnP_def)
qed (auto simp: returnP_def)

lemma approved_through:
  "call_model rn j st w = (Inr (response, st'), w') \<Longrightarrow> rg_approved st' = rg_approved st"
  "evaluate rn j st response issues w = Inr ((v, st'), w') \<Longrightarrow> rg_approved st' = rg_approved st"
  by (auto simp: call_model_def evaluate_def Let_def bindP_Inr_iff bindT_Inr_iff atomically_Inr_iff returnP_def
      raiseP_def returnT_def split: sum.splits if_splits dest!: record_run_step_state)

lemma bindP_cong_both:
  "m w = m' w \<Longrightarrow> (\<And>x w'. m' w = (Inr x, w') \<Longrightarrow> f x w' = g x w') \<Longrightarrow> bindP m f w = bindP m' g w"
  by (auto simp: bindP_def split: prod.splits sum.splits)

lemma swap_loop:
  assumes "never_allowed rn (jb_claim j) (jb_agent j) n" "rg_approved st = []"
  shows "run_loop (swap_tool n f rn) j k st w = run_loop rn j k st w"
  using assms(2)
proof (induction k arbitrary: st w)
  case (Suc k)
  have acted: "bindP (act (swap_tool n f rn) j st1 us)
      (\<lambda>(over, st2). case over of Some outcome \<Rightarrow> returnP outcome | None \<Rightarrow> run_loop (swap_tool n f rn) j k st2) w1 =
    bindP (act rn j st1 us) (\<lambda>(over, st2). case over of Some outcome \<Rightarrow> returnP outcome | None \<Rightarrow> run_loop rn j k st2) w1"
    if "rg_approved st1 = []" for st1 us w1
    by (rule bindP_cong_both) (use that approved_stays Suc.IH swap_act [OF assms(1)] in \<open>auto split: option.split\<close>)
  have called: "rg_approved st1 = []" if "call_model rn j st w = (Inr (response, st1), w1)" for response st1 w1
    using approved_through(1) [OF that] Suc.prems by simp
  have judged: "(case over of Some outcome \<Rightarrow> returnP outcome | None \<Rightarrow> run_loop (swap_tool n f rn) j k st2) w2 =
      (case over of Some outcome \<Rightarrow> returnP outcome | None \<Rightarrow> run_loop rn j k st2) w2"
    if "call_model rn j st w = (Inr (response, st1), w1)"
      "atomically (rn_others rn) (evaluate rn j st1 response issues) w1 = (Inr (over, st2), w2)"
    for response st1 w1 issues over st2 w2
    using called [OF that(1)] approved_through(2) that(2) Suc.IH
    by (cases over) (simp_all add: atomically_Inr_iff)
  show ?case
    unfolding run_loop.simps swap_fields swap_steps swap_parts
    using Suc.prems by (auto intro!: acted bindP_cong intro: judged called)
qed simp

lemma fresh_approved: "start_fresh rn j st w = Inr (st', w') \<Longrightarrow> rg_approved st' = rg_approved st"
  by (auto simp: start_fresh_def Let_def bindT_Inr_iff returnT_def)

lemma first_message_case:
  "(case ms of [] \<Rightarrow> throwT e | m # rest \<Rightarrow> returnT (f m)) w = Inr (y, w') \<longleftrightarrow> ms \<noteq> [] \<and> y = f (hd ms) \<and> w' = w"
  by (cases ms) (auto simp: throwT_def returnT_def)

lemma start_approved:
  assumes "\<not> cl_resumed (jb_claim j)" "start_run rn j w = (Inr st, w')"
  shows "rg_approved st = []"
proof -
  have fresh: "rg_approved st1 = []"
    if "start_fresh rn j (blank_run policies names system r) w0 = Inr (st1, w1)" for policies names system r w0 st1 w1
    using fresh_approved [OF that] by (simp add: blank_run_def)
  show ?thesis
    using assms fresh
    by (auto simp: start_run_def Let_def atomically_Inr_iff bindT_Inr_iff first_message_case)
qed


lemma empty_engine_denies: "never_allowed demo_runner c ag name"
  by (auto simp: never_allowed_def demo_runner_def decide_def empty_engine_def)


end
