(* ===== verification/ToolProps.thy ===== *)
theory ToolProps
  imports RunnerDemo
begin

text \<open>
  Properties of tool calls and of a run's trace: a call that fails leaves nothing but the two events
  about it; the conversation a step stores is the one a resumed run starts from.
\<close>

section \<open>A failing call\<close>

lemma tool_emit_effect:
  assumes "tool_emit tc p s = Inr (x, s')"
  shows "\<exists>i e. s' = s\<lparr>next_id := i, next_seq := Suc (next_seq s), events := events s @ [e]\<rparr> \<and> e_payload e = ToolP p"
  using assms
  by (auto simp: tool_emit_def new_event_def emit_def uuid7_def bindT_Inr_iff tx_run Let_def
      split: if_splits option.splits)
    (intro exI conjI, rule refl, simp)+

text \<open>What a call adds to the tables when only its own events are written.\<close>

definition only_logged :: "tool_payload list \<Rightarrow> world \<Rightarrow> world \<Rightarrow> bool" where
  "only_logged ps w w' \<longleftrightarrow> (\<exists>now i n es. map e_payload es = map ToolP ps \<and>
     w' = wd_put_db ((wd_db w)\<lparr>clock := now, next_id := i, next_seq := n, events := events (wd_db w) @ es\<rparr>) w)"

lemma only_logged_emit:
  assumes "with_db (tool_emit tc p) w = Inr (x, w')"
  shows "only_logged [p] w w'"
proof -
  obtain s' where s': "tool_emit tc p (wd_db w) = Inr (x, s')" "w' = wd_put_db s' w"
    using assms by (auto simp: with_db_def zoomT_def split: sum.splits)
  obtain i e where "s' = (wd_db w)\<lparr>next_id := i, next_seq := Suc (next_seq (wd_db w)), events := events (wd_db w) @ [e]\<rparr>"
    "e_payload e = ToolP p"
    using tool_emit_effect [OF s'(1)] by blast
  then show ?thesis
    unfolding only_logged_def s'(2)
    by (intro exI [of _ "clock (wd_db w)"] exI [of _ i] exI [of _ "Suc (next_seq (wd_db w))"] exI [of _ "[e]"]) simp
qed

lemma only_logged_trans:
  assumes "only_logged ps w w1" "only_logged qs w1 w2"
  shows "only_logged (ps @ qs) w w2"
proof -
  obtain now1 i1 n1 es1 where 1: "map e_payload es1 = map ToolP ps"
    "w1 = wd_put_db ((wd_db w)\<lparr>clock := now1, next_id := i1, next_seq := n1, events := events (wd_db w) @ es1\<rparr>) w"
    using assms(1) by (auto simp: only_logged_def)
  obtain now2 i2 n2 es2 where 2: "map e_payload es2 = map ToolP qs"
    "w2 = wd_put_db ((wd_db w1)\<lparr>clock := now2, next_id := i2, next_seq := n2, events := events (wd_db w1) @ es2\<rparr>) w1"
    using assms(2) by (auto simp: only_logged_def)
  show ?thesis
    unfolding only_logged_def
    by (rule exI [of _ now2], rule exI [of _ i2], rule exI [of _ n2], rule exI [of _ "es1 @ es2"])
      (simp add: 1 2 wd_db_def wd_put_db_def)
qed

lemma only_logged_time:
  assumes "with_db (bindT (pass_time took) (\<lambda>_. tool_emit tc p)) w = Inr (x, w')"
  shows "only_logged [p] w w'"
proof -
  let ?d = "(wd_db w)\<lparr>clock := clock (wd_db w) + max 0 took\<rparr>"
  have "with_db (tool_emit tc p) (wd_put_db ?d w) = Inr (x, w')"
    using assms by (auto simp: with_db_def zoomT_def pass_time_def tx_run wd_db_def wd_put_db_def split: sum.splits)
  then have 2: "only_logged [p] (wd_put_db ?d w) w'" by (rule only_logged_emit)
  have 1: "only_logged [] w (wd_put_db ?d w)"
    unfolding only_logged_def
    by (intro exI [of _ "clock (wd_db w) + max 0 took"] exI [of _ "next_id (wd_db w)"] exI [of _ "next_seq (wd_db w)"]
        exI [of _ "[]"]) simp
  show ?thesis using only_logged_trans [OF 1 2] by simp
qed

lemma body_ok: "tool_body spec tc args w = Inr (r, w') \<Longrightarrow> ti_ok r"
  by (auto simp: tool_body_def bindT_Inr_iff returnT_def)


definition demo_call :: tool_context where
  "demo_call = \<lparr>tc_company_id = 1, tc_actor = Actor_system ''demo'', tc_call_id = ''c1'', tc_idempotency_key = [],
     tc_agent_id = None, tc_run_id = None, tc_task_id = None, tc_workflow_run_id = None, tc_cycle_id = None,
     tc_step_seq = 2\<rparr>"

definition demo_failing :: tool_registry where
  "demo_failing = [(''publish'',
     demo_publish\<lparr>ts_fn := \<lambda>_ _ _. (Tool_raised ''ValueError'' ''no such article'' None, 7)\<rparr>)]"

definition demo_failed :: "(err + tool_invocation) \<times> world" where
  "demo_failed = invoke id id demo_failing ''publish'' [] demo_call (returnT ()) demo_world"

lemma demo_failed_runs:
  "map_sum (\<lambda>_. ()) (\<lambda>r. (ti_ok r, ti_error_class r, ti_message r, ti_will_retry r)) (fst demo_failed) =
   Inr (False, Some ''ValueError'', Some ''no such article'', False)"
  by code_simp


text \<open>
  Properties of a run's trace: the conversation a step stores is the one a resumed run starts from.
\<close>

section \<open>Dumping and loading messages\<close>

lemma map_of_filter: "map_of d k = map_option snd (first_some (filter (\<lambda>kv. fst kv = k) d))"
  by (induction d) (auto simp: first_some_def)

lemma map_of_sort: "map_of (sort_key fst d) = map_of d"
  by (simp add: fun_eq_iff map_of_filter sort_key_stable)

definition sort_dict :: "dict \<Rightarrow> dict" where
  "sort_dict d = sort_key fst (map (\<lambda>kv. (fst kv, sort_json (snd kv))) d)"

lemma map_of_sort_dict: "map_of (sort_dict d) k = map_option sort_json (map_of d k)"
proof -
  have "map_of (map (\<lambda>kv. (fst kv, sort_json (snd kv))) d) k = map_option sort_json (map_of d k)"
    by (induction d) auto
  then show ?thesis by (simp add: sort_dict_def map_of_sort)
qed

lemma sort_json_dict: "sort_json (JObj d) = JObj (sort_dict d)"
  by (simp add: sort_dict_def)

text \<open>A block and a message as they come back: the objects in them with their keys in order.\<close>

fun normal_block :: "content_block \<Rightarrow> content_block" where
  "normal_block (Tool_use i n d) = Tool_use i n (sort_dict d)"
| "normal_block (Opaque_block p d) = Opaque_block p (sort_dict d)"
| "normal_block b = b"

definition normal_message :: "message \<Rightarrow> message" where
  "normal_message m = m\<lparr>mg_content := map normal_block (mg_content m)\<rparr>"

lemma load_sorted_block: "load_block (sort_json (dump_block b)) = Some (normal_block b)"
  by (cases b) (simp_all del: sort_json.simps(2) add: sort_json_dict load_fields_def map_of_sort_dict)

lemma all_some_map: "(\<And>x. x \<in> set xs \<Longrightarrow> f x = Some (g x)) \<Longrightarrow> all_some (map f xs) = Some (map g xs)"
  by (induction xs) auto

lemma load_sorted_message: "load_message (sort_json (dump_message m)) = Some (normal_message m)"
proof -
  have "all_some (map (load_block \<circ> sort_json \<circ> dump_block) (mg_content m)) = Some (map normal_block (mg_content m))"
    by (rule all_some_map) (simp add: load_sorted_block)
  then show ?thesis
    by (cases "mg_role m")
      (simp_all del: sort_json.simps(2) add: sort_json_dict dump_message_def map_of_sort_dict load_role_def normal_message_def comp_def)
qed

section \<open>The last step\<close>

lemma insort_snoc: "f y \<le> f x \<Longrightarrow> insort_key f y (zs @ [x]) = insort_key f y zs @ [x]"
  by (induction zs) simp_all

lemma sort_key_snoc:
  assumes "\<And>y. y \<in> set xs \<Longrightarrow> f y \<le> f x"
  shows "sort_key f (xs @ [x]) = sort_key f xs @ [x]"
  using assms by (induction xs) (simp_all add: insort_snoc)

lemma last_some_snoc [simp]: "last_some (xs @ [x]) = Some x"
  by (simp add: last_some_def first_some_def)

text \<open>The steps of a run have numbers below its count.\<close>

definition steps_counted :: "uuid \<Rightarrow> world \<Rightarrow> bool" where
  "steps_counted i w \<longleftrightarrow>
     list_all (\<lambda>p. list_all (\<lambda>r. sp_seq p < r_steps_count r) (filter (\<lambda>r. r_id r = i) (runs (wd_db w)))) (steps_of w i)"

lemma steps_below:
  assumes "steps_counted i w" "run_of (wd_db w) i = Some r" "p \<in> set (steps_of w i)"
  shows "sp_seq p < r_steps_count r"
  using assms find_row_in [of r_id i "runs (wd_db w)" r] find_row_key [of r_id i "runs (wd_db w)" r]
  by (auto simp: steps_counted_def run_of_def list_all_iff)

lemma with_db_parts:
  assumes "with_db m w = Inr (x, w')"
  shows "wd_steps w' = wd_steps w \<and> wd_blobs w' = wd_blobs w"
  using assms by (auto simp: with_db_def zoomT_def wd_put_db_def split: sum.splits)

lemma heartbeat_runs: "heartbeat tm c s = Inr (x, s') \<Longrightarrow> runs s' = runs s"
  by (auto simp: heartbeat_def bindT_Inr_iff locked_task_def tx_run upd_task_def split: option.splits if_splits)

lemma record_step_stores:
  assumes run: "record_step i sn w = Inr (p, w')" and payload: "sn_payload sn = Some content"
    and counted: "steps_counted i w"
  shows "last_some (sort_key sp_seq (filter (\<lambda>p. sp_blob_key p \<noteq> None) (steps_of w' i))) = Some p \<and>
    (\<exists>k. sp_blob_key p = Some k \<and> map_of (wd_blobs w') k = Some (sort_json content))"
proof -
  obtain r k where r: "run_of (wd_db w) i = Some r"
    and steps: "wd_steps w' = wd_steps w @ [p]"
    and p: "sp_run_id p = i" "sp_seq p = r_steps_count r" "sp_blob_key p = Some k"
    and blob: "map_of (wd_blobs w') k = Some (sort_json content)"
    using run payload
    by (auto simp: record_step_def bindT_Inr_iff tx_run put_blob_def Let_def with_db_def zoomT_def wd_put_db_def wd_db_def
        run_of_def uuid7_def upd_run_def dest!: find_row_key split: option.splits sum.splits if_splits)
  have "sp_seq q < sp_seq p" if "q \<in> set (steps_of w i)" for q
    using steps_below [OF counted r that] p(2) by simp
  then have "sort_key sp_seq (filter (\<lambda>p. sp_blob_key p \<noteq> None) (steps_of w i) @ [p]) =
      sort_key sp_seq (filter (\<lambda>p. sp_blob_key p \<noteq> None) (steps_of w i)) @ [p]"
    by (intro sort_key_snoc) (auto intro: less_imp_le)
  moreover have "filter (\<lambda>p. sp_blob_key p \<noteq> None) (steps_of w' i) =
      filter (\<lambda>p. sp_blob_key p \<noteq> None) (steps_of w i) @ [p]"
    using p by (simp add: steps_of_def steps)
  ultimately show ?thesis using p(3) blob by simp
qed

section \<open>Suspending and resuming\<close>

text \<open>The conversation a step stores: the messages, and the results of the turn so far as one more.\<close>

definition conversation :: "running \<Rightarrow> content_block option \<Rightarrow> message list" where
  "conversation st extra =
     (let results = rg_results st @ (case extra of None \<Rightarrow> [] | Some b \<Rightarrow> [b])
      in if results = [] then rg_messages st else rg_messages st @ [\<lparr>mg_role = User, mg_content = results\<rparr>])"

lemma recorded_conversation:
  assumes run: "record_run_step rn j st kind summary payload calls cost tokens extra w = Inr (st', w')"
    and counted: "steps_counted (cl_run_id (jb_claim j)) w"
  shows "stored_messages w' (cl_run_id (jb_claim j)) = Inr (map normal_message (conversation st extra))"
proof -
  let ?i = "cl_run_id (jb_claim j)"
  define content where "content = dict_set ''messages_after'' (JArr (map dump_message (conversation st extra))) payload"
  define sn where "sn = \<lparr>sn_kind = kind, sn_summary = Some summary, sn_tool_calls = calls,
    sn_prompt_hash = Some (rg_prompt_hash st), sn_cost = cost, sn_payload = Some (JObj content)\<rparr>"
  obtain x1 w1 p w2 where 1: "with_db (heartbeat (rn_task_manager rn) (jb_claim j)) w = Inr (x1, w1)"
    and 2: "record_step ?i sn w1 = Inr (p, w2)"
    and 3: "wd_steps w' = wd_steps w2 \<and> wd_blobs w' = wd_blobs w2"
    using run unfolding record_run_step_def Let_def conversation_def content_def sn_def
    by (auto simp: bindT_Inr_iff returnT_def dest!: with_db_parts [of "upd_run _ _"])
  have payload: "sn_payload sn = Some (JObj content)" by (simp add: sn_def)
  have "steps_counted ?i w1"
    using counted with_db_parts [OF 1] 1
    by (auto simp: steps_counted_def steps_of_def with_db_def zoomT_def wd_db_def wd_put_db_def
        dest!: heartbeat_runs split: sum.splits)
  from record_step_stores [OF 2 payload this] obtain k where
    "last_some (sort_key sp_seq (filter (\<lambda>p. sp_blob_key p \<noteq> None) (steps_of w2 ?i))) = Some p"
    and k: "sp_blob_key p = Some k" "map_of (wd_blobs w2) k = Some (JObj (sort_dict content))"
    by (auto simp: sort_json_dict simp del: sort_json.simps(2))
  moreover note 3
  moreover have "map_of (sort_dict content) ''messages_after'' =
      Some (JArr (map (sort_json \<circ> dump_message) (conversation st extra)))"
    by (simp add: map_of_sort_dict content_def)
  moreover have "all_some (map (load_message \<circ> (sort_json \<circ> dump_message)) (conversation st extra)) =
      Some (map normal_message (conversation st extra))"
    by (rule all_some_map) (simp add: load_sorted_message)
  ultimately show ?thesis by (simp add: stored_messages_def steps_of_def)
qed

text \<open>
  C32. A run resumes where it was. When a step records the state of a run whose last message is the
  model's, in the middle of answering its tool calls, then resuming reads back the same messages and the
  same results so far, up to the order of keys in the arguments of tools; the calls still to be made
  are those without a result.
\<close>

theorem resume_restores_conversation:
  assumes "record_run_step rn j st kind summary payload calls cost tokens None w = Inr (st', w')"
    "steps_counted (cl_run_id (jb_claim j)) w"
    "map mg_role (rg_messages st) = roles @ [Assistant]" "list_all is_tool_result (rg_results st)"
  shows "map_sum id split_results (stored_messages w' (cl_run_id (jb_claim j))) =
    Inr (map normal_message (rg_messages st), rg_results st)"
proof -
  have same: "map normal_block (rg_results st) = rg_results st"
    using assms(4) by (intro map_idI) (auto simp: list_all_iff elim!: is_tool_result.elims)
  have "split_results (map normal_message (conversation st None)) = (map normal_message (rg_messages st), rg_results st)"
  proof (cases "rg_results st")
    case Nil
    obtain ms m where m: "rg_messages st = ms @ [m]" "mg_role m = Assistant"
      using assms(3) by (auto simp: map_eq_append_conv)
    then show ?thesis using Nil by (simp add: conversation_def split_results_def normal_message_def)
  next
    case (Cons b bs)
    then have "list_ex is_tool_result (rg_results st)" using assms(4) by simp
    moreover have "filter is_tool_result (rg_results st) = rg_results st"
      using assms(4) by (simp add: list_all_iff filter_id_conv)
    ultimately show ?thesis using Cons same by (simp add: conversation_def split_results_def normal_message_def)
  qed
  then show ?thesis using recorded_conversation [OF assms(1,2)] by simp
qed

definition demo_job :: job where
  "demo_job = \<lparr>jb_claim = demo_claim, jb_task = hd (tasks demo_claimed), jb_agent = demo_agent,
     jb_behavior = demo_behavior\<rparr>"

definition demo_running :: running where
  "demo_running = \<lparr>rg_policies = [], rg_tool_names = [''publish''], rg_system = ''Write.'', rg_prompt_hash = ''h'',
     rg_messages = [user_message ''Task'', \<lparr>mg_role = Assistant, mg_content =
       [Tool_use ''c1'' ''publish'' [(''b'', JInt 1), (''a'', JNull)], Tool_use ''c2'' ''publish'' []]\<rparr>],
     rg_next_seq = 0, rg_model_calls = 1, rg_repairs_used = 0, rg_eval_round = 0, rg_pending = [],
     rg_results = [Tool_result ''c1'' ''{}'' False], rg_approved = [], rg_repairing = False, rg_tokens = 0\<rparr>"

definition demo_record :: "running world_tx" where
  "demo_record = record_run_step demo_runner demo_job demo_running SK_OBSERVE ''waiting'' [] None 0 None None"

definition demo_stored :: world where
  "demo_stored = (case demo_record demo_world of Inl _ \<Rightarrow> demo_world | Inr (_, w) \<Rightarrow> w)"

lemma demo_recorded: "\<exists>st'. demo_record demo_world = Inr (st', demo_stored)"
proof -
  have "\<not> isl (heartbeat demo_bound demo_claim demo_claimed)" by code_simp
  then obtain x d where beat: "heartbeat demo_bound demo_claim demo_claimed = Inr (x, d)"
    by (cases "heartbeat demo_bound demo_claim demo_claimed") auto
  have "map_option (\<lambda>r. r_state r \<in> set AGENT_RUN_TERMINAL) (run_of demo_claimed (cl_run_id demo_claim)) = Some False"
    by code_simp
  then obtain r where r: "run_of d (cl_run_id demo_claim) = Some r" "r_state r \<notin> set AGENT_RUN_TERMINAL"
    using heartbeat_runs [OF beat] by (auto simp: run_of_def)
  have "\<not> isl (demo_record demo_world)"
    unfolding demo_record_def record_run_step_def record_step_def
    by (simp add: demo_world_def demo_job_def demo_runner_def demo_running_def with_db_def wd_db_def wd_put_db_def tx_run
        beat r Let_def put_blob_def uuid7_def upd_run_def run_of_def [symmetric] del: sort_json.simps)
  then show ?thesis by (cases "demo_record demo_world") (auto simp: demo_stored_def)
qed

lemma resume_restores_conversation_witness:
  "map_sum id split_results (stored_messages demo_stored (cl_run_id demo_claim)) =
   Inr (map normal_message (rg_messages demo_running), [Tool_result ''c1'' ''{}'' False])"
proof -
  obtain st' where run: "record_run_step demo_runner demo_job demo_running SK_OBSERVE ''waiting'' [] None 0 None None
      demo_world = Inr (st', demo_stored)"
    using demo_recorded by (auto simp: demo_record_def)
  have "steps_counted (cl_run_id (jb_claim demo_job)) demo_world" by (simp add: steps_counted_def steps_of_def demo_world_def)
  from resume_restores_conversation [OF run this, of "[User]"] show ?thesis
    by (simp add: demo_job_def demo_running_def user_message_def)
qed

end
