(* ===== verification/Firm.thy ===== *)
theory Firm
  imports CostGuard Approvals
begin

text \<open>
  The company's tables (\<open>db/models/company.py\<close>, \<open>finance.py\<close>, \<open>organization.py\<close>, \<open>projects.py\<close>,
  \<open>opportunities.py\<close>) on top of the runtime's and the cost guard's, with what every service of the
  company does to a table: insert a row under its constraints, change one, find one.
\<close>

section \<open>Money\<close>

datatype transaction_kind = K_expense | K_revenue | K_capital_in | K_capital_out | K_transfer

primrec transaction_kind_value :: "transaction_kind \<Rightarrow> string" where
  "transaction_kind_value K_expense = ''expense''"
| "transaction_kind_value K_revenue = ''revenue''"
| "transaction_kind_value K_capital_in = ''capital_in''"
| "transaction_kind_value K_capital_out = ''capital_out''"
| "transaction_kind_value K_transfer = ''transfer''"

datatype transaction_source = From_system | From_human | From_integration

record transaction =
  tn_id :: uuid
  tn_company_id :: uuid
  tn_business_unit_id :: "uuid option"
  tn_product_id :: "uuid option"
  tn_project_id :: "uuid option"
  tn_customer_id :: "uuid option"
  tn_kind :: transaction_kind
  tn_category :: string
  tn_amount :: money
  tn_currency :: string
  tn_source_amount :: "money option"
  tn_source_currency :: "string option"
  tn_fx_rate :: "rat option"
  tn_ref_type :: "string option"
  tn_ref_id :: "uuid option"
  tn_occurred_at :: instant
  tn_source :: transaction_source
  tn_idempotency_key :: string
  tn_memo :: "string option"

record customer =
  cu_id :: uuid
  cu_company_id :: uuid
  cu_business_unit_id :: "uuid option"
  cu_external_ref :: string
  cu_kind :: string
  cu_acquired_at :: instant
  cu_churned_at :: "instant option"

datatype price_interval = Per_month | Per_year
datatype price_state = Price_active | Price_retired

record product_price =
  px_id :: uuid
  px_company_id :: uuid
  px_product_id :: uuid
  px_amount :: money
  px_currency :: string
  px_interval :: price_interval
  px_state :: price_state

datatype membership_state = MS_active | MS_expired

primrec membership_state_value :: "membership_state \<Rightarrow> string" where
  "membership_state_value MS_active = ''ACTIVE''"
| "membership_state_value MS_expired = ''EXPIRED''"

record membership =
  mb_id :: uuid
  mb_company_id :: uuid
  mb_business_unit_id :: uuid
  mb_customer_id :: uuid
  mb_product_id :: uuid
  mb_state :: membership_state
  mb_started_at :: instant
  mb_expires_at :: instant

text \<open>A payment's grant: the membership it extended and the stretch it bought.\<close>

record payment =
  py_id :: uuid
  py_company_id :: uuid
  py_business_unit_id :: uuid
  py_customer_id :: uuid
  py_price_id :: "uuid option"
  py_grant :: "(uuid \<times> instant \<times> instant) option"
  py_transaction_id :: uuid
  py_provider :: string
  py_external_ref :: string
  py_amount :: money
  py_currency :: string
  py_paid_at :: instant

datatype order_state = Order_pending | Order_paid | Order_failed | Order_expired

record purchase_order =
  od_id :: uuid
  od_company_id :: uuid
  od_price_id :: uuid
  od_customer_ref :: string
  od_amount :: money
  od_currency :: string
  od_provider :: string
  od_mer_trade_no :: string
  od_state :: order_state
  od_payment_id :: "uuid option"

section \<open>Organisation, projects, opportunities\<close>

datatype unit_state = U_proposed | U_active | U_paused | U_wound_down

primrec unit_state_value :: "unit_state \<Rightarrow> string" where
  "unit_state_value U_proposed = ''PROPOSED''"
| "unit_state_value U_active = ''ACTIVE''"
| "unit_state_value U_paused = ''PAUSED''"
| "unit_state_value U_wound_down = ''WOUND_DOWN''"

record business_unit =
  bu_id :: uuid
  bu_company_id :: uuid
  bu_key :: string
  bu_name :: string
  bu_mission :: "string option"
  bu_state :: unit_state
  bu_kill_criteria :: "dict option"

record department =
  dp_id :: uuid
  dp_company_id :: uuid
  dp_business_unit_id :: "uuid option"
  dp_parent_id :: "uuid option"
  dp_key :: string
  dp_name :: string
  dp_purpose :: "string option"
  dp_office_zone_key :: "string option"

record position =
  rl_id :: uuid
  rl_company_id :: uuid
  rl_department_id :: uuid
  rl_key :: string
  rl_title :: string
  rl_reports_to :: "uuid option"
  rl_is_lead :: bool
  rl_responsibilities :: "string option"
  rl_defaults :: dict

datatype product_state = Product_draft | Product_live | Product_retired

primrec product_state_value :: "product_state \<Rightarrow> string" where
  "product_state_value Product_draft = ''DRAFT''"
| "product_state_value Product_live = ''LIVE''"
| "product_state_value Product_retired = ''RETIRED''"

record product =
  pt_id :: uuid
  pt_company_id :: uuid
  pt_business_unit_id :: uuid
  pt_key :: string
  pt_name :: string
  pt_description :: "string option"
  pt_state :: product_state
  pt_public_url :: "string option"

datatype project_state =
  J_proposed | J_approved | J_active | J_paused | J_killed | J_completed | J_rejected

primrec project_state_value :: "project_state \<Rightarrow> string" where
  "project_state_value J_proposed = ''PROPOSED''"
| "project_state_value J_approved = ''APPROVED''"
| "project_state_value J_active = ''ACTIVE''"
| "project_state_value J_paused = ''PAUSED''"
| "project_state_value J_killed = ''KILLED''"
| "project_state_value J_completed = ''COMPLETED''"
| "project_state_value J_rejected = ''REJECTED''"

record project =
  pj_id :: uuid
  pj_company_id :: uuid
  pj_business_unit_id :: "uuid option"
  pj_opportunity_id :: "uuid option"
  pj_name :: string
  pj_description :: "string option"
  pj_state :: project_state
  pj_kill_criteria :: "dict option"
  pj_created_by_run_id :: "uuid option"
  pj_approved_by :: "actor option"
  pj_override_reason :: "string option"

datatype opportunity_state =
  O_discovered | O_evaluating | O_validating | O_approved | O_rejected | O_expired

primrec opportunity_state_value :: "opportunity_state \<Rightarrow> string" where
  "opportunity_state_value O_discovered = ''DISCOVERED''"
| "opportunity_state_value O_evaluating = ''EVALUATING''"
| "opportunity_state_value O_validating = ''VALIDATING''"
| "opportunity_state_value O_approved = ''APPROVED''"
| "opportunity_state_value O_rejected = ''REJECTED''"
| "opportunity_state_value O_expired = ''EXPIRED''"

datatype proposal_state = V_draft | V_submitted | V_approved | V_rejected | V_superseded

primrec proposal_state_value :: "proposal_state \<Rightarrow> string" where
  "proposal_state_value V_draft = ''DRAFT''"
| "proposal_state_value V_submitted = ''SUBMITTED''"
| "proposal_state_value V_approved = ''APPROVED''"
| "proposal_state_value V_rejected = ''REJECTED''"
| "proposal_state_value V_superseded = ''SUPERSEDED''"

record opportunity =
  op_id :: uuid
  op_company_id :: uuid
  op_key :: string
  op_title :: string
  op_thesis :: "string option"
  op_market :: "string option"
  op_state :: opportunity_state
  op_score :: "rat option"
  op_discovered_by_run_id :: "uuid option"
  op_decided_at :: "instant option"
  op_decided_by :: "actor option"
  op_decision_reason :: "string option"
  op_expires_at :: "instant option"
  op_business_unit_id :: "uuid option"

record opportunity_signal =
  sg_id :: uuid
  sg_company_id :: uuid
  sg_opportunity_id :: uuid
  sg_source :: string
  sg_summary :: string
  sg_metric :: "string option"
  sg_value :: "rat option"
  sg_observed_at :: instant
  sg_evidence_ref :: "string option"
  sg_recorded_by_run_id :: "uuid option"

text \<open>What a proposal says: the columns its author fills in and nothing here interprets.\<close>

record proposal_plan =
  pp_business_model :: "string option"
  pp_target_market :: "string option"
  pp_target_customer :: "string option"
  pp_proposed_product :: "dict option"
  pp_revenue_model :: "string option"
  pp_expected_margin :: "rat option"
  pp_startup_cost :: "money option"
  pp_monthly_cost :: "money option"
  pp_required_agents :: "dict option"
  pp_required_capabilities :: "dict option"
  pp_risks :: "dict option"
  pp_validation_plan :: "dict option"
  pp_kill_criteria :: "dict option"

record business_proposal =
  bp_id :: uuid
  bp_company_id :: uuid
  bp_opportunity_id :: uuid
  bp_version :: nat
  bp_state :: proposal_state
  bp_title :: string
  bp_plan :: proposal_plan
  bp_authored_by_run_id :: "uuid option"
  bp_approval_id :: "uuid option"
  bp_decided_at :: "instant option"
  bp_decision_reason :: "string option"
  bp_validation_project_id :: "uuid option"
  bp_business_unit_id :: "uuid option"

section \<open>The company itself\<close>

datatype company_status = Company_active | Company_paused | Company_archived

record company =
  co_id :: uuid
  co_slug :: string
  co_name :: string
  co_mission :: "string option"
  co_strategy_doc :: dict
  co_status :: company_status

datatype goal_status = Goal_active | Goal_achieved | Goal_missed | Goal_cancelled

primrec goal_status_value :: "goal_status \<Rightarrow> string" where
  "goal_status_value Goal_active = ''active''"
| "goal_status_value Goal_achieved = ''achieved''"
| "goal_status_value Goal_missed = ''missed''"
| "goal_status_value Goal_cancelled = ''cancelled''"

record company_goal =
  gl_id :: uuid
  gl_company_id :: uuid
  gl_business_unit_id :: "uuid option"
  gl_level :: string
  gl_title :: string
  gl_metric :: string
  gl_target :: rat
  gl_current :: "rat option"
  gl_deadline :: "instant option"
  gl_status :: goal_status

section \<open>Reports and commands\<close>

datatype kpi_scope = Scope_company | Scope_business_unit | Scope_project

record kpi_snapshot =
  kp_id :: uuid
  kp_company_id :: uuid
  kp_cycle_id :: "uuid option"
  kp_business_unit_id :: "uuid option"
  kp_project_id :: "uuid option"
  kp_scope :: kpi_scope
  kp_metrics :: dict
  kp_period_start :: instant
  kp_period_end :: instant

datatype command_outcome = Command_done | Command_refused | Command_awaiting

record command_record =
  cm_id :: uuid
  cm_company_id :: uuid
  cm_command :: string
  cm_actor :: actor
  cm_role :: "string option"
  cm_payload :: dict
  cm_decision :: string
  cm_outcome :: command_outcome
  cm_reason :: "string option"
  cm_result :: "dict option"
  cm_event_ids :: "uuid list"
  cm_approval_id :: "uuid option"
  cm_task_id :: "uuid option"
  cm_run_id :: "uuid option"
  cm_idempotency_key :: string

section \<open>State\<close>

record firm =
  fi_costs :: cost_db
  fi_transactions :: "transaction list"
  fi_customers :: "customer list"
  fi_prices :: "product_price list"
  fi_memberships :: "membership list"
  fi_payments :: "payment list"
  fi_orders :: "purchase_order list"
  fi_units :: "business_unit list"
  fi_departments :: "department list"
  fi_positions :: "position list"
  fi_products :: "product list"
  fi_projects :: "project list"
  fi_opportunities :: "opportunity list"
  fi_signals :: "opportunity_signal list"
  fi_proposals :: "business_proposal list"
  fi_kpis :: "kpi_snapshot list"
  fi_commands :: "command_record list"
  fi_companies :: "company list"
  fi_goals :: "company_goal list"
  fi_policies :: "(uuid \<times> string \<times> json) list"

type_synonym 'a firm_tx = "(firm, err, 'a) tx"

definition fi_db :: "firm \<Rightarrow> db" where
  "fi_db s = cs_db (fi_costs s)"

definition fi_put_db :: "db \<Rightarrow> firm \<Rightarrow> firm" where
  "fi_put_db d s = s\<lparr>fi_costs := (fi_costs s)\<lparr>cs_db := d\<rparr>\<rparr>"

definition in_runtime :: "'a db_tx \<Rightarrow> 'a firm_tx" where
  "in_runtime = zoomT fi_db fi_put_db"

definition time_now :: "instant firm_tx" where
  "time_now = getsT (\<lambda>s. clock (fi_db s))"

definition firm_emit ::
    "business_payload \<Rightarrow> uuid \<Rightarrow> actor \<Rightarrow> string \<Rightarrow> uuid \<Rightarrow> uuid option \<Rightarrow> unit firm_tx" where
  "firm_emit p company_id actor aggregate_type aggregate_id cycle_id =
     in_runtime (bindT (new_event (BusinessP p) company_id actor aggregate_type aggregate_id
       (no_refs\<lparr>ref_cycle_id := cycle_id\<rparr>) None) (\<lambda>envelope. bindT (emit envelope) (\<lambda>_. returnT ())))"

section \<open>Tables\<close>

text \<open>
  A table: its rows, their primary key, the CHECK constraints of a row and when two rows collide in
  a unique constraint. \<open>session.add\<close> and \<open>flush\<close> insert a row; a changed row is checked again.
\<close>

record 'x table =
  tb_name :: string
  tb_rows :: "firm \<Rightarrow> 'x list"
  tb_put :: "'x list \<Rightarrow> firm \<Rightarrow> firm"
  tb_id :: "'x \<Rightarrow> uuid"
  tb_checks :: "'x \<Rightarrow> bool"
  tb_collide :: "'x \<Rightarrow> 'x \<Rightarrow> bool"

definition row_of :: "'x table \<Rightarrow> firm \<Rightarrow> uuid \<Rightarrow> 'x option" where
  "row_of tb s i = find_row (tb_id tb) i (tb_rows tb s)"

definition get_row :: "'x table \<Rightarrow> uuid \<Rightarrow> err \<Rightarrow> 'x firm_tx" where
  "get_row tb i e = bindT (getsT (\<lambda>s. row_of tb s i)) (\<lambda>r. someT r e)"

definition insert_row :: "'x table \<Rightarrow> 'x \<Rightarrow> unit firm_tx" where
  "insert_row tb r =
     bindT (getsT (tb_rows tb)) (\<lambda>rows.
     bindT (checkT (tb_checks tb r \<and> \<not> list_ex (tb_collide tb r) rows) (IntegrityError (tb_name tb))) (\<lambda>_.
     modifyT (tb_put tb (rows @ [r]))))"

definition change_row :: "'x table \<Rightarrow> uuid \<Rightarrow> ('x \<Rightarrow> 'x) \<Rightarrow> unit firm_tx" where
  "change_row tb i f =
     bindT (getsT (tb_rows tb)) (\<lambda>rows.
     let new_rows = update_row (tb_id tb) i f rows
     in bindT (checkT (list_all (\<lambda>r. tb_id tb r \<noteq> i \<or> tb_checks tb r) new_rows) (IntegrityError (tb_name tb))) (\<lambda>_.
        modifyT (tb_put tb new_rows)))"

definition add_row :: "'x table \<Rightarrow> (uuid \<Rightarrow> 'x) \<Rightarrow> 'x firm_tx" where
  "add_row tb r = bindT (in_runtime uuid7) (\<lambda>i. bindT (insert_row tb (r i)) (\<lambda>_. returnT (r i)))"

text \<open>\<open>StateMachine.transition\<close> on a row of such a table: the check, the state, the audit row.\<close>

definition row_transition ::
    "('s, 'x) state_machine \<Rightarrow> 'x table \<Rightarrow> ('x \<Rightarrow> 's) \<Rightarrow> ('s \<Rightarrow> 'x \<Rightarrow> 'x) \<Rightarrow> ('x \<Rightarrow> uuid) \<Rightarrow>
     uuid \<Rightarrow> 's \<Rightarrow> actor \<Rightarrow> string option \<Rightarrow> unit firm_tx" where
  "row_transition m tb state set_state company_id i to_state actor reason =
     bindT (get_row tb i AttributeError) (\<lambda>x.
     bindT (liftT (check m (state x) x to_state)) (\<lambda>(current, target).
     bindT (change_row tb i (set_state target)) (\<lambda>_.
     bindT (in_runtime (add_transition (entity_type m) (company_id x) i
       (state_value m current) (state_value m target) actor reason)) (\<lambda>_. returnT ()))))"

section \<open>The tables\<close>

definition currency_like :: "string \<Rightarrow> bool" where
  "currency_like t \<longleftrightarrow> length t = 3 \<and> set t \<subseteq> set ''ABCDEFGHIJKLMNOPQRSTUVWXYZ''"

text \<open>\<open>NUMERIC(18, 6)\<close>: at most twelve digits before the point.\<close>

definition fits_money :: "money \<Rightarrow> bool" where
  "fits_money x \<longleftrightarrow> \<bar>x\<bar> < 10 ^ 12"

definition transactions_table :: "transaction table" where
  "transactions_table = \<lparr>tb_name = ''transactions'', tb_rows = fi_transactions,
     tb_put = (\<lambda>rows s. s\<lparr>fi_transactions := rows\<rparr>), tb_id = tn_id,
     tb_checks = (\<lambda>r. plain_ident (tn_category r) \<and> currency_like (tn_currency r) \<and> 0 < tn_amount r \<and>
       fits_money (tn_amount r) \<and> (tn_source_amount r = None) = (tn_source_currency r = None) \<and>
       (tn_source_amount r = None) = (tn_fx_rate r = None) \<and>
       (case tn_fx_rate r of None \<Rightarrow> True | Some q \<Rightarrow> 0 < q)),
     tb_collide = (\<lambda>r q. tn_idempotency_key r = tn_idempotency_key q)\<rparr>"

definition customers_table :: "customer table" where
  "customers_table = \<lparr>tb_name = ''customers'', tb_rows = fi_customers,
     tb_put = (\<lambda>rows s. s\<lparr>fi_customers := rows\<rparr>), tb_id = cu_id,
     tb_checks = (\<lambda>r. cu_kind r \<in> {''subscriber'', ''sponsor'', ''client''} \<and>
       (case cu_churned_at r of None \<Rightarrow> True | Some t \<Rightarrow> cu_acquired_at r \<le> t)),
     tb_collide = (\<lambda>r q. cu_company_id r = cu_company_id q \<and> cu_external_ref r = cu_external_ref q)\<rparr>"

definition prices_table :: "product_price table" where
  "prices_table = \<lparr>tb_name = ''prices'', tb_rows = fi_prices,
     tb_put = (\<lambda>rows s. s\<lparr>fi_prices := rows\<rparr>), tb_id = px_id,
     tb_checks = (\<lambda>r. currency_like (px_currency r) \<and> 0 < px_amount r \<and> fits_money (px_amount r)),
     tb_collide = (\<lambda>r q. False)\<rparr>"

definition memberships_table :: "membership table" where
  "memberships_table = \<lparr>tb_name = ''memberships'', tb_rows = fi_memberships,
     tb_put = (\<lambda>rows s. s\<lparr>fi_memberships := rows\<rparr>), tb_id = mb_id,
     tb_checks = (\<lambda>r. mb_started_at r < mb_expires_at r),
     tb_collide = (\<lambda>r q. mb_customer_id r = mb_customer_id q \<and> mb_product_id r = mb_product_id q)\<rparr>"

definition payments_table :: "payment table" where
  "payments_table = \<lparr>tb_name = ''payments'', tb_rows = fi_payments,
     tb_put = (\<lambda>rows s. s\<lparr>fi_payments := rows\<rparr>), tb_id = py_id,
     tb_checks = (\<lambda>r. currency_like (py_currency r) \<and> plain_ident (py_provider r) \<and> 0 < py_amount r \<and>
       fits_money (py_amount r) \<and> (case py_grant r of None \<Rightarrow> True | Some (_, a, b) \<Rightarrow> a < b)),
     tb_collide = (\<lambda>r q. py_provider r = py_provider q \<and> py_external_ref r = py_external_ref q \<or>
       py_transaction_id r = py_transaction_id q)\<rparr>"

definition orders_table :: "purchase_order table" where
  "orders_table = \<lparr>tb_name = ''orders'', tb_rows = fi_orders,
     tb_put = (\<lambda>rows s. s\<lparr>fi_orders := rows\<rparr>), tb_id = od_id,
     tb_checks = (\<lambda>r. plain_ident (od_provider r) \<and> currency_like (od_currency r) \<and> 0 < od_amount r \<and>
       fits_money (od_amount r) \<and> (od_state r \<noteq> Order_paid) = (od_payment_id r = None)),
     tb_collide = (\<lambda>r q. od_provider r = od_provider q \<and> od_mer_trade_no r = od_mer_trade_no q)\<rparr>"

definition units_table :: "business_unit table" where
  "units_table = \<lparr>tb_name = ''business_units'', tb_rows = fi_units,
     tb_put = (\<lambda>rows s. s\<lparr>fi_units := rows\<rparr>), tb_id = bu_id, tb_checks = (\<lambda>r. plain_ident (bu_key r)),
     tb_collide = (\<lambda>r q. bu_company_id r = bu_company_id q \<and> bu_key r = bu_key q)\<rparr>"

definition departments_table :: "department table" where
  "departments_table = \<lparr>tb_name = ''departments'', tb_rows = fi_departments,
     tb_put = (\<lambda>rows s. s\<lparr>fi_departments := rows\<rparr>), tb_id = dp_id,
     tb_checks = (\<lambda>r. plain_ident (dp_key r) \<and> dp_parent_id r \<noteq> Some (dp_id r)),
     tb_collide = (\<lambda>r q. dp_company_id r = dp_company_id q \<and> dp_key r = dp_key q)\<rparr>"

definition positions_table :: "position table" where
  "positions_table = \<lparr>tb_name = ''roles'', tb_rows = fi_positions,
     tb_put = (\<lambda>rows s. s\<lparr>fi_positions := rows\<rparr>), tb_id = rl_id, tb_checks = (\<lambda>r. plain_ident (rl_key r)),
     tb_collide = (\<lambda>r q. rl_company_id r = rl_company_id q \<and> rl_key r = rl_key q)\<rparr>"

definition products_table :: "product table" where
  "products_table = \<lparr>tb_name = ''products'', tb_rows = fi_products,
     tb_put = (\<lambda>rows s. s\<lparr>fi_products := rows\<rparr>), tb_id = pt_id, tb_checks = (\<lambda>r. plain_ident (pt_key r)),
     tb_collide = (\<lambda>r q. pt_company_id r = pt_company_id q \<and> pt_key r = pt_key q)\<rparr>"

definition projects_table :: "project table" where
  "projects_table = \<lparr>tb_name = ''projects'', tb_rows = fi_projects,
     tb_put = (\<lambda>rows s. s\<lparr>fi_projects := rows\<rparr>), tb_id = pj_id,
     tb_checks = (\<lambda>r. pj_state r \<in> {J_proposed, J_rejected} \<or> pj_kill_criteria r \<noteq> None),
     tb_collide = (\<lambda>r q. False)\<rparr>"

definition opportunities_table :: "opportunity table" where
  "opportunities_table = \<lparr>tb_name = ''opportunities'', tb_rows = fi_opportunities,
     tb_put = (\<lambda>rows s. s\<lparr>fi_opportunities := rows\<rparr>), tb_id = op_id,
     tb_checks = (\<lambda>r. plain_ident (op_key r) \<and>
       (op_state r \<notin> {O_approved, O_rejected, O_expired} \<or> op_decided_at r \<noteq> None) \<and>
       (op_state r \<noteq> O_approved \<or> op_business_unit_id r \<noteq> None)),
     tb_collide = (\<lambda>r q. op_company_id r = op_company_id q \<and> op_key r = op_key q)\<rparr>"

definition signals_table :: "opportunity_signal table" where
  "signals_table = \<lparr>tb_name = ''opportunity_signals'', tb_rows = fi_signals,
     tb_put = (\<lambda>rows s. s\<lparr>fi_signals := rows\<rparr>), tb_id = sg_id, tb_checks = (\<lambda>_. True),
     tb_collide = (\<lambda>_ _. False)\<rparr>"

definition proposals_table :: "business_proposal table" where
  "proposals_table = \<lparr>tb_name = ''business_proposals'', tb_rows = fi_proposals,
     tb_put = (\<lambda>rows s. s\<lparr>fi_proposals := rows\<rparr>), tb_id = bp_id,
     tb_checks = (\<lambda>r. 1 \<le> bp_version r \<and>
       (bp_state r \<notin> {V_approved, V_rejected} \<or> bp_decided_at r \<noteq> None)),
     tb_collide = (\<lambda>r q. bp_opportunity_id r = bp_opportunity_id q \<and> bp_version r = bp_version q)\<rparr>"

definition kpis_table :: "kpi_snapshot table" where
  "kpis_table = \<lparr>tb_name = ''kpi_snapshots'', tb_rows = fi_kpis,
     tb_put = (\<lambda>rows s. s\<lparr>fi_kpis := rows\<rparr>), tb_id = kp_id, tb_checks = (\<lambda>_. True),
     tb_collide = (\<lambda>r q. kp_cycle_id r = kp_cycle_id q \<and> kp_scope r = kp_scope q \<and>
       kp_business_unit_id r = kp_business_unit_id q \<and> kp_project_id r = kp_project_id q)\<rparr>"

definition command_name_like :: "string \<Rightarrow> bool" where
  "command_name_like t \<longleftrightarrow> t \<noteq> [] \<and> hd t \<in> set ''ABCDEFGHIJKLMNOPQRSTUVWXYZ'' \<and>
     set t \<subseteq> set ''ABCDEFGHIJKLMNOPQRSTUVWXYZabcdefghijklmnopqrstuvwxyz0123456789''"

definition commands_table :: "command_record table" where
  "commands_table = \<lparr>tb_name = ''commands_log'', tb_rows = fi_commands,
     tb_put = (\<lambda>rows s. s\<lparr>fi_commands := rows\<rparr>), tb_id = cm_id,
     tb_checks = (\<lambda>r. command_name_like (cm_command r)),
     tb_collide = (\<lambda>r q. cm_idempotency_key r = cm_idempotency_key q)\<rparr>"

definition cycles_table :: "cycle table" where
  "cycles_table = \<lparr>tb_name = ''cycles'', tb_rows = (\<lambda>s. cs_cycles (fi_costs s)),
     tb_put = (\<lambda>rows s. s\<lparr>fi_costs := (fi_costs s)\<lparr>cs_cycles := rows\<rparr>\<rparr>), tb_id = cy_id,
     tb_checks = (\<lambda>r. 1 \<le> cy_seq r \<and> (cy_stage r = C_DONE) = (cy_ended_at r \<noteq> None)),
     tb_collide = (\<lambda>r q. cy_company_id r = cy_company_id q \<and> cy_seq r = cy_seq q)\<rparr>"

definition goals_table :: "company_goal table" where
  "goals_table = \<lparr>tb_name = ''company_goals'', tb_rows = fi_goals,
     tb_put = (\<lambda>rows s. s\<lparr>fi_goals := rows\<rparr>), tb_id = gl_id,
     tb_checks = (\<lambda>r. gl_level r \<in> {''annual'', ''quarter'', ''cycle''}), tb_collide = (\<lambda>_ _. False)\<rparr>"

definition companies_table :: "company table" where
  "companies_table = \<lparr>tb_name = ''companies'', tb_rows = fi_companies,
     tb_put = (\<lambda>rows s. s\<lparr>fi_companies := rows\<rparr>), tb_id = co_id,
     tb_checks = (\<lambda>r. 2 \<le> length (co_slug r) \<and> length (co_slug r) \<le> 63 \<and> hd (co_slug r) \<noteq> CHR ''-'' \<and>
       set (co_slug r) \<subseteq> set ''abcdefghijklmnopqrstuvwxyz0123456789-''),
     tb_collide = (\<lambda>r q. co_slug r = co_slug q)\<rparr>"

definition budgets_table :: "budget table" where
  "budgets_table = \<lparr>tb_name = ''budgets'', tb_rows = (\<lambda>s. cs_budgets (fi_costs s)),
     tb_put = (\<lambda>rows s. s\<lparr>fi_costs := (fi_costs s)\<lparr>cs_budgets := rows\<rparr>\<rparr>), tb_id = bg_id,
     tb_checks = (\<lambda>r. bg_period r \<in> {''cycle'', ''day'', ''month''} \<and> 0 \<le> bg_amount r \<and>
       fits_money (bg_amount r) \<and> currency_like (bg_currency r)),
     tb_collide = (\<lambda>r q. bg_company_id r = bg_company_id q \<and> bg_business_unit_id r = bg_business_unit_id q \<and>
       bg_project_id r = bg_project_id q \<and> bg_period r = bg_period q)\<rparr>"

end
