(* ===== verification/Ledger.thy ===== *)
theory Ledger
  imports Firm
begin

text \<open>
  The ledger (\<open>company/ledger.py\<close>): the one writer of \<open>transactions\<close>. A posting is converted into
  the base currency and written once per idempotency key; a cycle's model calls are settled as one
  expense per project.
\<close>

section \<open>Posting\<close>

definition MODEL_COST :: string where
  "MODEL_COST = ''model_cost''"

definition SPENDING :: "transaction_kind list" where
  "SPENDING = [K_expense, K_capital_out]"

definition EARNING :: "transaction_kind list" where
  "EARNING = [K_revenue, K_capital_in]"

record ledger =
  ld_fx :: fx

definition ledger_actor :: actor where
  "ledger_actor = Actor_system ''ledger''"

text \<open>The keyword arguments of \<open>record\<close>.\<close>

record posting =
  po_company_id :: uuid
  po_kind :: transaction_kind
  po_category :: string
  po_amount :: money
  po_idempotency_key :: string
  po_actor :: "actor option"
  po_project_id :: "uuid option"
  po_business_unit_id :: "uuid option"
  po_product_id :: "uuid option"
  po_customer_id :: "uuid option"
  po_occurred_at :: "instant option"
  po_source :: transaction_source
  po_ref_type :: "string option"
  po_ref_id :: "uuid option"
  po_memo :: "string option"
  po_currency :: "string option"

definition posted :: "fx \<Rightarrow> posting \<Rightarrow> converted \<Rightarrow> instant \<Rightarrow> uuid \<Rightarrow> transaction" where
  "posted f po cv now i = \<lparr>tn_id = i, tn_company_id = po_company_id po,
     tn_business_unit_id = po_business_unit_id po, tn_product_id = po_product_id po,
     tn_project_id = po_project_id po, tn_customer_id = po_customer_id po, tn_kind = po_kind po,
     tn_category = po_category po, tn_amount = cv_amount cv, tn_currency = fx_base f,
     tn_source_amount = cv_source_amount cv, tn_source_currency = cv_source_currency cv,
     tn_fx_rate = cv_rate cv, tn_ref_type = po_ref_type po, tn_ref_id = po_ref_id po,
     tn_occurred_at = (case po_occurred_at po of Some t \<Rightarrow> t | None \<Rightarrow> now), tn_source = po_source po,
     tn_idempotency_key = po_idempotency_key po, tn_memo = po_memo po\<rparr>"

definition posted_event :: "transaction \<Rightarrow> money_payload" where
  "posted_event r =
     (if tn_kind r \<in> set EARNING
      then RevenueRecorded (tn_id r) (tn_project_id r) (tn_category r) (tn_amount r) (tn_currency r)
      else ExpenseRecorded (tn_id r) (tn_project_id r) (tn_category r) (tn_amount r) (tn_currency r))"

definition ledger_record :: "ledger \<Rightarrow> posting \<Rightarrow> transaction option firm_tx" where
  "ledger_record ld po =
     bindT (liftT (to_base (ld_fx ld) (po_amount po)
       (case nonempty (po_currency po) of Some c \<Rightarrow> c | None \<Rightarrow> fx_base (ld_fx ld)))) (\<lambda>cv.
     bindT (checkT (0 < cv_amount cv) (LedgerError ''a transaction must move money'')) (\<lambda>_.
     bindT (getsT (\<lambda>s. list_ex (\<lambda>r. tn_idempotency_key r = po_idempotency_key po) (fi_transactions s))) (\<lambda>existing.
     if existing then returnT None
     else
       bindT time_now (\<lambda>now.
       bindT (add_row transactions_table (posted (ld_fx ld) po cv now)) (\<lambda>r.
       bindT (firm_emit (MoneyB (posted_event r)) (po_company_id po)
         (case po_actor po of Some a \<Rightarrow> a | None \<Rightarrow> ledger_actor) ''transaction'' (tn_id r) None) (\<lambda>_.
       returnT (Some r)))))))"

section \<open>Settling a cycle\<close>

definition cycle_cost_key :: "uuid \<Rightarrow> uuid option \<Rightarrow> string" where
  "cycle_cost_key cycle_id project_id =
     ''cycle:'' @ uuid_str cycle_id @ '':project:'' @
     (case project_id of None \<Rightarrow> ''none'' | Some p \<Rightarrow> uuid_str p) @ '':'' @ MODEL_COST"

record settlement =
  se_cycle_id :: uuid
  se_transactions :: "transaction list"
  se_total :: money
  se_already_settled :: bool

text \<open>
  The grouped query: the successful calls of the cycle, their cost summed per project. The order
  of the groups is the database's choice; here that of their first calls.
\<close>

definition cycle_calls :: "firm \<Rightarrow> uuid \<Rightarrow> model_call list" where
  "cycle_calls s cycle_id =
     filter (\<lambda>m. mc_cycle_id m = Some cycle_id \<and> mc_ok m) (cs_calls (fi_costs s))"

definition cost_of_project :: "model_call list \<Rightarrow> uuid option \<Rightarrow> money" where
  "cost_of_project calls p = sum_list (map mc_cost_usd (filter (\<lambda>m. mc_project_id m = p) calls))"

definition costs_per_project :: "model_call list \<Rightarrow> (uuid option \<times> money) list" where
  "costs_per_project calls = map (\<lambda>p. (p, cost_of_project calls p)) (remdups (map mc_project_id calls))"

definition cycle_posting :: "cycle \<Rightarrow> uuid option \<Rightarrow> money \<Rightarrow> posting" where
  "cycle_posting c project_id cost = \<lparr>po_company_id = cy_company_id c, po_kind = K_expense,
     po_category = MODEL_COST, po_amount = cost, po_idempotency_key = cycle_cost_key (cy_id c) project_id,
     po_actor = None, po_project_id = project_id, po_business_unit_id = None, po_product_id = None,
     po_customer_id = None, po_occurred_at = cy_ended_at c, po_source = From_system,
     po_ref_type = Some ''cycle'', po_ref_id = Some (cy_id c),
     po_memo = Some (''model calls of cycle '' @ nat_str (cy_seq c)), po_currency = Some METER_CURRENCY\<rparr>"

fun settle_projects :: "ledger \<Rightarrow> cycle \<Rightarrow> (uuid option \<times> money) list \<Rightarrow> settlement \<Rightarrow> settlement firm_tx" where
  "settle_projects ld c [] st = returnT st"
| "settle_projects ld c ((p, sum_usd) # rest) st =
     bindT (liftT (quantize sum_usd)) (\<lambda>cost.
     if cost \<le> 0 then settle_projects ld c rest st
     else
       bindT (ledger_record ld (cycle_posting c p cost)) (\<lambda>r.
       settle_projects ld c rest
         (case r of
            None \<Rightarrow> st\<lparr>se_total := se_total st + cost, se_already_settled := True\<rparr>
          | Some t \<Rightarrow> st\<lparr>se_total := se_total st + cost, se_transactions := se_transactions st @ [t]\<rparr>)))"

definition settle_cycle :: "ledger \<Rightarrow> cycle \<Rightarrow> settlement firm_tx" where
  "settle_cycle ld c =
     bindT (getsT (\<lambda>s. costs_per_project (cycle_calls s (cy_id c)))) (\<lambda>per_project.
     settle_projects ld c per_project
       \<lparr>se_cycle_id = cy_id c, se_transactions = [], se_total = 0, se_already_settled = False\<rparr>)"

section \<open>Reading\<close>

definition ledger_total :: "transaction_kind list \<Rightarrow> transaction list \<Rightarrow> money" where
  "ledger_total kinds rows = sum_list (map tn_amount (filter (\<lambda>r. tn_kind r \<in> set kinds) rows))"

definition ledger_balance :: "firm \<Rightarrow> uuid \<Rightarrow> instant option \<Rightarrow> err + money" where
  "ledger_balance s company_id at_time =
     (let rows = filter (\<lambda>r. tn_company_id r = company_id \<and>
            (case at_time of None \<Rightarrow> True | Some t \<Rightarrow> tn_occurred_at r \<le> t)) (fi_transactions s)
      in quantize (ledger_total EARNING rows - ledger_total SPENDING rows))"

record spent_filter =
  sf_project_id :: "uuid option"
  sf_since :: "instant option"
  sf_until :: "instant option"
  sf_category :: "string option"

definition matches_spent :: "uuid \<Rightarrow> spent_filter \<Rightarrow> transaction \<Rightarrow> bool" where
  "matches_spent company_id f r \<longleftrightarrow> tn_company_id r = company_id \<and> tn_kind r \<in> set SPENDING \<and>
     (case sf_project_id f of None \<Rightarrow> True | Some p \<Rightarrow> tn_project_id r = Some p) \<and>
     (case sf_since f of None \<Rightarrow> True | Some t \<Rightarrow> t \<le> tn_occurred_at r) \<and>
     (case sf_until f of None \<Rightarrow> True | Some t \<Rightarrow> tn_occurred_at r \<le> t) \<and>
     (case sf_category f of None \<Rightarrow> True | Some c \<Rightarrow> tn_category r = c)"

definition ledger_spent :: "firm \<Rightarrow> uuid \<Rightarrow> spent_filter \<Rightarrow> err + money" where
  "ledger_spent s company_id f =
     quantize (sum_list (map tn_amount (filter (matches_spent company_id f) (fi_transactions s))))"

definition ledger_cost_of :: "firm \<Rightarrow> uuid \<Rightarrow> err + money" where
  "ledger_cost_of s workflow_run_id =
     quantize (sum_list (map mc_cost_usd (filter (\<lambda>m. mc_workflow_run_id m = Some workflow_run_id \<and> mc_ok m)
       (cs_calls (fi_costs s)))))"

definition ledger_metered :: "firm \<Rightarrow> uuid \<Rightarrow> err + money" where
  "ledger_metered s cycle_id = quantize (sum_list (map mc_cost_usd (cycle_calls s cycle_id)))"

end
