(* ===== verification/Commerce.thy ===== *)
theory Commerce
  imports Ledger
begin

text \<open>
  Customers (\<open>company/customers.py\<close>), prices and memberships bought with one payment
  (\<open>company/memberships.py\<close>), and orders (\<open>company/orders.py\<close>).
\<close>

section \<open>Customers\<close>

definition customer_by_ref :: "firm \<Rightarrow> uuid \<Rightarrow> string \<Rightarrow> customer option" where
  "customer_by_ref s company_id external_ref =
     first_some (filter (\<lambda>c. cu_company_id c = company_id \<and> cu_external_ref c = external_ref) (fi_customers s))"

definition whole_days :: "duration \<Rightarrow> int" where
  "whole_days d = max 0 (d div DAY)"

definition acquire ::
    "uuid \<Rightarrow> string \<Rightarrow> string \<Rightarrow> actor \<Rightarrow> uuid option \<Rightarrow> uuid option \<Rightarrow> instant option \<Rightarrow> customer firm_tx" where
  "acquire company_id external_ref kind actor unit_id product_id acquired_at =
     bindT (checkT (strip external_ref \<noteq> []) (CustomerError ''an empty reference is nobody'')) (\<lambda>_.
     bindT (getsT (\<lambda>s. customer_by_ref s company_id external_ref)) (\<lambda>existing.
     case existing of
       Some c \<Rightarrow> returnT c
     | None \<Rightarrow>
         bindT time_now (\<lambda>now.
         bindT (add_row customers_table (\<lambda>i. \<lparr>cu_id = i, cu_company_id = company_id, cu_business_unit_id = unit_id,
           cu_external_ref = external_ref, cu_kind = kind,
           cu_acquired_at = (case acquired_at of Some t \<Rightarrow> t | None \<Rightarrow> now), cu_churned_at = None\<rparr>)) (\<lambda>c.
         bindT (firm_emit (MoneyB (CustomerAcquired external_ref kind unit_id product_id)) company_id actor
           ''customer'' (cu_id c) None) (\<lambda>_. returnT c)))))"

definition churn :: "uuid \<Rightarrow> actor \<Rightarrow> string option \<Rightarrow> instant option \<Rightarrow> unit firm_tx" where
  "churn customer_id actor reason churned_at =
     bindT (get_row customers_table customer_id AttributeError) (\<lambda>c.
     if cu_churned_at c \<noteq> None then returnT ()
     else
       bindT time_now (\<lambda>now.
       let at_time = (case churned_at of Some t \<Rightarrow> t | None \<Rightarrow> now)
       in bindT (change_row customers_table customer_id (\<lambda>c. c\<lparr>cu_churned_at := Some at_time\<rparr>)) (\<lambda>_.
          firm_emit (MoneyB (CustomerChurned (cu_external_ref c) (cu_kind c) (cu_business_unit_id c) reason
            (Some (whole_days (at_time - cu_acquired_at c))))) (cu_company_id c) actor ''customer'' (cu_id c) None)))"

definition reactivate :: "uuid \<Rightarrow> actor \<Rightarrow> instant option \<Rightarrow> unit firm_tx" where
  "reactivate customer_id actor returned_at =
     bindT (get_row customers_table customer_id AttributeError) (\<lambda>c.
     case cu_churned_at c of
       None \<Rightarrow> returnT ()
     | Some left_at \<Rightarrow>
         bindT time_now (\<lambda>now.
         bindT (change_row customers_table customer_id (\<lambda>c. c\<lparr>cu_churned_at := None\<rparr>)) (\<lambda>_.
         firm_emit (MoneyB (CustomerReturned (cu_external_ref c) (cu_kind c) (cu_business_unit_id c)
           (Some (whole_days ((case returned_at of Some t \<Rightarrow> t | None \<Rightarrow> now) - left_at)))))
           (cu_company_id c) actor ''customer'' (cu_id c) None)))"

definition paying :: "firm \<Rightarrow> uuid \<Rightarrow> uuid option \<Rightarrow> instant \<Rightarrow> nat" where
  "paying s company_id unit_id at_time =
     length (filter (\<lambda>c. cu_company_id c = company_id \<and> cu_acquired_at c \<le> at_time \<and>
       (case cu_churned_at c of None \<Rightarrow> True | Some t \<Rightarrow> at_time < t) \<and>
       (case unit_id of None \<Rightarrow> True | Some u \<Rightarrow> cu_business_unit_id c = Some u)) (fi_customers s))"

definition revenue_of_customer :: "firm \<Rightarrow> instant option \<Rightarrow> instant option \<Rightarrow> uuid \<Rightarrow> transaction list" where
  "revenue_of_customer s since until customer_id =
     filter (\<lambda>r. tn_customer_id r = Some customer_id \<and> tn_kind r = K_revenue \<and>
       (case since of None \<Rightarrow> True | Some t \<Rightarrow> t \<le> tn_occurred_at r) \<and>
       (case until of None \<Rightarrow> True | Some t \<Rightarrow> tn_occurred_at r \<le> t)) (fi_transactions s)"

definition revenue_by_customer ::
    "firm \<Rightarrow> uuid \<Rightarrow> instant option \<Rightarrow> instant option \<Rightarrow> nat \<Rightarrow> err + (customer \<times> money) list" where
  "revenue_by_customer s company_id since until limit =
     (let earned = (\<lambda>c. sum_list (map tn_amount (revenue_of_customer s since until (cu_id c))));
          rows = filter (\<lambda>c. cu_company_id c = company_id \<and> revenue_of_customer s since until (cu_id c) \<noteq> [])
            (fi_customers s)
      in map_err (take limit (sort_key (\<lambda>c. - earned c) rows))
           (\<lambda>c. bind_err (quantize (earned c)) (\<lambda>total. Inr (c, total))))"

section \<open>Prices\<close>

definition MEMBERSHIP_FSM :: "(membership_state, membership) state_machine" where
  "MEMBERSHIP_FSM = \<lparr>entity_type = ''membership'', states = [MS_active, MS_expired],
     fsm_transitions = [(MS_active, [MS_expired]), (MS_expired, [MS_active])],
     initial = MS_active, state_value = membership_state_value, guards = []\<rparr>"

definition REVENUE_CATEGORY :: string where
  "REVENUE_CATEGORY = ''membership''"

definition PRODUCT_KEY :: string where
  "PRODUCT_KEY = ''membership''"

definition payment_key :: "string \<Rightarrow> string \<Rightarrow> string" where
  "payment_key provider external_ref = ''payment:'' @ provider @ '':'' @ external_ref"

text \<open>The same day of the later month, or that month's last; a year after 9999 is no date.\<close>

definition interval_months :: "price_interval \<Rightarrow> int" where
  "interval_months iv = (if iv = Per_year then 12 else 1)"

definition add_interval :: "instant \<Rightarrow> price_interval \<Rightarrow> err + instant" where
  "add_interval start iv =
     (let (y, m, d) = civil (start div DAY);
          total = m - 1 + interval_months iv;
          year = y + total div 12; month = total mod 12 + 1
      in if 9999 < year then Inl (ValueError ''year is out of range'')
         else Inr (day_number year month (min d (days_in_month year month)) * DAY + start mod DAY))"

definition add_price :: "string \<Rightarrow> product \<Rightarrow> money \<Rightarrow> price_interval \<Rightarrow> string option \<Rightarrow> product_price firm_tx" where
  "add_price base_currency p amount iv currency =
     bindT (checkT (pt_state p \<noteq> Product_retired) (MembershipError ''product is retired'')) (\<lambda>_.
     bindT (liftT (quantize amount)) (\<lambda>a.
     bindT (checkT (0 < a) (MembershipError ''a price must be positive'')) (\<lambda>_.
     add_row prices_table (\<lambda>i. \<lparr>px_id = i, px_company_id = pt_company_id p, px_product_id = pt_id p, px_amount = a,
       px_currency = (case nonempty currency of Some c \<Rightarrow> c | None \<Rightarrow> base_currency), px_interval = iv,
       px_state = Price_active\<rparr>))))"

definition retire_price :: "uuid \<Rightarrow> unit firm_tx" where
  "retire_price price_id = change_row prices_table price_id (\<lambda>p. p\<lparr>px_state := Price_retired\<rparr>)"

definition offer :: "firm \<Rightarrow> uuid \<Rightarrow> price_interval \<Rightarrow> string \<Rightarrow> product_price option" where
  "offer s company_id iv key =
     last_some (filter (\<lambda>p. px_company_id p = company_id \<and> px_state p = Price_active \<and> px_interval p = iv \<and>
       (case row_of products_table s (px_product_id p) of
          None \<Rightarrow> False
        | Some q \<Rightarrow> pt_key q = key \<and> pt_state q \<noteq> Product_retired)) (fi_prices s))"

section \<open>Buying\<close>

definition by_provider_ref :: "firm \<Rightarrow> string \<Rightarrow> string \<Rightarrow> payment option" where
  "by_provider_ref s provider external_ref =
     first_some (filter (\<lambda>p. py_provider p = provider \<and> py_external_ref p = external_ref) (fi_payments s))"

definition paying_customer :: "product \<Rightarrow> string \<Rightarrow> actor \<Rightarrow> instant \<Rightarrow> uuid firm_tx" where
  "paying_customer p customer_ref actor at_time =
     bindT (getsT (\<lambda>s. customer_by_ref s (pt_company_id p) customer_ref)) (\<lambda>c.
     case c of
       None \<Rightarrow> bindT (acquire (pt_company_id p) customer_ref ''subscriber'' actor (Some (pt_business_unit_id p))
         (Some (pt_id p)) (Some at_time)) (\<lambda>c. returnT (cu_id c))
     | Some c \<Rightarrow> bindT (reactivate (cu_id c) actor (Some at_time)) (\<lambda>_. returnT (cu_id c)))"

definition membership_of :: "firm \<Rightarrow> uuid \<Rightarrow> uuid \<Rightarrow> membership option" where
  "membership_of s customer_id product_id =
     first_some (filter (\<lambda>m. mb_customer_id m = customer_id \<and> mb_product_id m = product_id) (fi_memberships s))"

text \<open>
  \<open>_membership\<close> and the lines after it: the row this purchase adds to, the stretch it buys and
  whether it extends one. A new row is inserted with its end already known.
\<close>

definition grant_stretch ::
    "product \<Rightarrow> uuid \<Rightarrow> price_interval \<Rightarrow> actor \<Rightarrow> instant \<Rightarrow> (uuid \<times> instant \<times> instant \<times> bool) firm_tx" where
  "grant_stretch p customer_id iv actor paid_at =
     bindT (getsT (\<lambda>s. membership_of s customer_id (pt_id p))) (\<lambda>row.
     case row of
       None \<Rightarrow>
         bindT (liftT (add_interval paid_at iv)) (\<lambda>until.
         bindT (add_row memberships_table (\<lambda>i. \<lparr>mb_id = i, mb_company_id = pt_company_id p,
           mb_business_unit_id = pt_business_unit_id p, mb_customer_id = customer_id, mb_product_id = pt_id p,
           mb_state = MS_active, mb_started_at = paid_at, mb_expires_at = until\<rparr>)) (\<lambda>m.
         returnT (mb_id m, paid_at, until, False)))
     | Some m \<Rightarrow>
         (let extended = paid_at < mb_expires_at m; from = (if extended then mb_expires_at m else paid_at)
          in bindT (liftT (add_interval from iv)) (\<lambda>until.
             bindT (change_row memberships_table (mb_id m) (\<lambda>m. m\<lparr>mb_expires_at := until,
               mb_started_at := (if extended then mb_started_at m else paid_at)\<rparr>)) (\<lambda>_.
             bindT (if mb_state m = MS_active then returnT ()
                    else row_transition MEMBERSHIP_FSM memberships_table mb_state (\<lambda>st m. m\<lparr>mb_state := st\<rparr>)
                      mb_company_id (mb_id m) MS_active actor (Some ''bought again'')) (\<lambda>_.
             returnT (mb_id m, from, until, extended))))))"

text \<open>What a payment says, as \<open>purchase\<close> is told it.\<close>

record charge =
  ch_customer_ref :: string
  ch_provider :: string
  ch_external_ref :: string
  ch_actor :: actor
  ch_amount :: "money option"
  ch_currency :: "string option"
  ch_paid_at :: "instant option"

definition purchase_posting ::
    "product \<Rightarrow> uuid \<Rightarrow> uuid \<Rightarrow> charge \<Rightarrow> money \<Rightarrow> string \<Rightarrow> instant \<Rightarrow> posting" where
  "purchase_posting p customer_id payment_id ch amount currency paid_at =
     \<lparr>po_company_id = pt_company_id p, po_kind = K_revenue, po_category = REVENUE_CATEGORY, po_amount = amount,
      po_idempotency_key = payment_key (ch_provider ch) (ch_external_ref ch), po_actor = Some (ch_actor ch),
      po_project_id = None, po_business_unit_id = Some (pt_business_unit_id p), po_product_id = Some (pt_id p),
      po_customer_id = Some customer_id, po_occurred_at = Some paid_at, po_source = From_integration,
      po_ref_type = Some ''payment'', po_ref_id = Some payment_id, po_memo = None, po_currency = Some currency\<rparr>"

text \<open>The part of \<open>purchase\<close> that books and grants, once the charge is known to be a new one.\<close>

definition book_purchase :: "ledger \<Rightarrow> product_price \<Rightarrow> product \<Rightarrow> charge \<Rightarrow> payment firm_tx" where
  "book_purchase ld px p ch =
     bindT time_now (\<lambda>now.
     let paid_at = (case ch_paid_at ch of Some t \<Rightarrow> t | None \<Rightarrow> now);
         currency = (case nonempty (ch_currency ch) of Some c \<Rightarrow> c | None \<Rightarrow> px_currency px)
     in bindT (liftT (quantize (case ch_amount ch of Some a \<Rightarrow> a | None \<Rightarrow> px_amount px))) (\<lambda>amount.
        bindT (paying_customer p (ch_customer_ref ch) (ch_actor ch) paid_at) (\<lambda>customer_id.
        bindT (grant_stretch p customer_id (px_interval px) (ch_actor ch) paid_at) (\<lambda>(membership_id, from, until, extended).
        bindT (in_runtime uuid7) (\<lambda>payment_id.
        bindT (ledger_record ld (purchase_posting p customer_id payment_id ch amount currency paid_at)) (\<lambda>booked.
        bindT (someT booked (MembershipError ''the ledger already has this payment'')) (\<lambda>t.
        let row = \<lparr>py_id = payment_id, py_company_id = pt_company_id p, py_business_unit_id = pt_business_unit_id p,
              py_customer_id = customer_id, py_price_id = Some (px_id px),
              py_grant = Some (membership_id, from, until), py_transaction_id = tn_id t,
              py_provider = ch_provider ch, py_external_ref = ch_external_ref ch, py_amount = amount,
              py_currency = currency, py_paid_at = paid_at\<rparr>
        in bindT (insert_row payments_table row) (\<lambda>_.
           bindT (firm_emit (MoneyB (MembershipGranted customer_id (pt_business_unit_id p) (pt_id p) payment_id
             from until extended)) (pt_company_id p) (ch_actor ch) ''membership'' membership_id None) (\<lambda>_.
           bindT (firm_emit (MoneyB (PaymentReceived payment_id (tn_id t) customer_id (pt_business_unit_id p)
             (Some membership_id) (ch_provider ch) amount currency)) (pt_company_id p) (ch_actor ch)
             ''payment'' payment_id None) (\<lambda>_.
           returnT row))))))))))"

definition purchase :: "ledger \<Rightarrow> product_price \<Rightarrow> charge \<Rightarrow> (payment \<times> bool) firm_tx" where
  "purchase ld px ch =
     bindT (getsT (\<lambda>s. by_provider_ref s (ch_provider ch) (ch_external_ref ch))) (\<lambda>existing.
     case existing of
       Some p \<Rightarrow> returnT (p, False)
     | None \<Rightarrow>
         bindT (checkT (px_state px = Price_active) (MembershipError ''this price is retired'')) (\<lambda>_.
         bindT (get_row products_table (px_product_id px) AssertionError) (\<lambda>p.
         bindT (book_purchase ld px p ch) (\<lambda>row. returnT (row, True)))))"

section \<open>Lapsing and reading\<close>

definition customer_has_access :: "firm \<Rightarrow> uuid \<Rightarrow> instant \<Rightarrow> bool" where
  "customer_has_access s customer_id at_time =
     list_ex (\<lambda>m. mb_customer_id m = customer_id \<and> at_time < mb_expires_at m) (fi_memberships s)"

definition expire_membership :: "uuid \<Rightarrow> instant \<Rightarrow> actor \<Rightarrow> membership \<Rightarrow> unit firm_tx" where
  "expire_membership company_id now actor m =
     bindT (row_transition MEMBERSHIP_FSM memberships_table mb_state (\<lambda>st m. m\<lparr>mb_state := st\<rparr>) mb_company_id
       (mb_id m) MS_expired actor (Some ''not renewed'')) (\<lambda>_.
     bindT (firm_emit (MoneyB (MembershipExpired (mb_customer_id m) (mb_business_unit_id m) (mb_product_id m)
       (mb_expires_at m))) company_id actor ''membership'' (mb_id m) None) (\<lambda>_.
     bindT (getsT (\<lambda>s. customer_has_access s (mb_customer_id m) now)) (\<lambda>still.
     if still then returnT ()
     else
       bindT (get_row customers_table (mb_customer_id m) AssertionError) (\<lambda>_.
       churn (mb_customer_id m) actor (Some ''membership expired'') (Some (mb_expires_at m))))))"

definition due_memberships :: "firm \<Rightarrow> uuid \<Rightarrow> instant \<Rightarrow> membership list" where
  "due_memberships s company_id now =
     sort_key mb_expires_at (filter (\<lambda>m. mb_company_id m = company_id \<and> mb_state m = MS_active \<and>
       mb_expires_at m \<le> now) (fi_memberships s))"

definition expire_due_memberships :: "uuid \<Rightarrow> instant \<Rightarrow> actor \<Rightarrow> membership list firm_tx" where
  "expire_due_memberships company_id now actor =
     bindT (getsT (\<lambda>s. due_memberships s company_id now)) (\<lambda>due.
     bindT (forT due (expire_membership company_id now actor)) (\<lambda>_. returnT due))"

definition has_access :: "firm \<Rightarrow> uuid \<Rightarrow> uuid \<Rightarrow> instant \<Rightarrow> bool" where
  "has_access s customer_id product_id at_time =
     (case membership_of s customer_id product_id of None \<Rightarrow> False | Some m \<Rightarrow> at_time < mb_expires_at m)"

definition max_some :: "instant list \<Rightarrow> instant option" where
  "max_some ts = (case ts of [] \<Rightarrow> None | t # rest \<Rightarrow> Some (fold max rest t))"

definition access_until :: "firm \<Rightarrow> uuid \<Rightarrow> string \<Rightarrow> instant \<Rightarrow> instant option" where
  "access_until s company_id customer_ref at_time =
     max_some (map mb_expires_at (filter (\<lambda>m. mb_company_id m = company_id \<and> at_time < mb_expires_at m \<and>
       (case row_of customers_table s (mb_customer_id m) of
          None \<Rightarrow> False | Some c \<Rightarrow> cu_external_ref c = customer_ref)) (fi_memberships s)))"

definition count_members :: "firm \<Rightarrow> uuid \<Rightarrow> uuid option \<Rightarrow> instant \<Rightarrow> nat" where
  "count_members s company_id unit_id at_time =
     length (filter (\<lambda>m. mb_company_id m = company_id \<and> at_time < mb_expires_at m \<and>
       (case unit_id of None \<Rightarrow> True | Some u \<Rightarrow> mb_business_unit_id m = u)) (fi_memberships s))"

section \<open>Orders\<close>

definition TRADE_NO_PREFIX :: string where
  "TRADE_NO_PREFIX = ''AU''"

definition upper_char :: "char \<Rightarrow> char" where
  "upper_char c = (let n = (of_char c :: nat) in if 97 \<le> n \<and> n \<le> 122 then char_of (n - 32) else c)"

text \<open>The last eighteen of the thirty-two hexadecimal digits of the order's identifier.\<close>

definition trade_number :: "uuid \<Rightarrow> string" where
  "trade_number order_id = TRADE_NO_PREFIX @ map upper_char (hex_fixed 18 order_id)"

definition open_order :: "product_price \<Rightarrow> string \<Rightarrow> string \<Rightarrow> money option \<Rightarrow> purchase_order firm_tx" where
  "open_order px customer_ref provider amount =
     bindT (checkT (px_state px = Price_active) (OrderError ''this price is retired'')) (\<lambda>_.
     bindT (checkT (strip customer_ref \<noteq> []) (OrderError ''this order is for nobody'')) (\<lambda>_.
     bindT (liftT (quantize (case amount of None \<Rightarrow> px_amount px | Some a \<Rightarrow> a))) (\<lambda>a.
     add_row orders_table (\<lambda>i. \<lparr>od_id = i, od_company_id = px_company_id px, od_price_id = px_id px,
       od_customer_ref = customer_ref, od_amount = a, od_currency = px_currency px, od_provider = provider,
       od_mer_trade_no = trade_number i, od_state = Order_pending, od_payment_id = None\<rparr>))))"

definition by_trade_number :: "firm \<Rightarrow> string \<Rightarrow> string \<Rightarrow> purchase_order option" where
  "by_trade_number s provider mer_trade_no =
     first_some (filter (\<lambda>r. od_provider r = provider \<and> od_mer_trade_no r = mer_trade_no) (fi_orders s))"

definition order_settle ::
    "ledger \<Rightarrow> string \<Rightarrow> string \<Rightarrow> string \<Rightarrow> money \<Rightarrow> actor \<Rightarrow> instant option \<Rightarrow> (uuid \<times> payment \<times> bool) firm_tx" where
  "order_settle ld provider mer_trade_no external_ref amount actor paid_at =
     bindT (getsT (\<lambda>s. by_trade_number s provider mer_trade_no)) (\<lambda>row.
     bindT (someT row (NotificationRefused mer_trade_no)) (\<lambda>r.
     bindT (liftT (quantize amount)) (\<lambda>a.
     bindT (checkT (a = od_amount r) (NotificationRefused mer_trade_no)) (\<lambda>_.
     bindT (get_row prices_table (od_price_id r) AssertionError) (\<lambda>px.
     bindT time_now (\<lambda>now.
     bindT (purchase ld px \<lparr>ch_customer_ref = od_customer_ref r, ch_provider = provider,
       ch_external_ref = external_ref, ch_actor = actor, ch_amount = Some a, ch_currency = Some (od_currency r),
       ch_paid_at = Some (case paid_at of Some t \<Rightarrow> t | None \<Rightarrow> now)\<rparr>) (\<lambda>(p, created).
     bindT (if od_state r = Order_paid then returnT ()
            else change_row orders_table (od_id r) (\<lambda>r. r\<lparr>od_state := Order_paid, od_payment_id := Some (py_id p)\<rparr>)) (\<lambda>_.
     returnT (od_id r, p, created)))))))))"

definition order_abandon :: "uuid \<Rightarrow> order_state \<Rightarrow> unit firm_tx" where
  "order_abandon order_id st =
     bindT (get_row orders_table order_id AttributeError) (\<lambda>r.
     bindT (checkT (od_state r \<noteq> Order_paid) (OrderError ''an order that was paid cannot be abandoned'')) (\<lambda>_.
     change_row orders_table order_id (\<lambda>r. r\<lparr>od_state := st\<rparr>)))"

text \<open>
  What the memberships add up to (\<open>company/revenue.py\<close>): members, renewals and lapses of a period,
  counted from the payments alone, and the revenue per day.
\<close>

definition EXPIRING_WITHIN :: duration where
  "EXPIRING_WITHIN = 30 * DAY"

record membership_count =
  mn_payments :: nat
  mn_new_members :: nat
  mn_renewals :: int
  mn_members :: nat
  mn_expiring_members :: nat
  mn_lapsed_members :: nat
  mn_revenue :: money
  mn_average :: "money option"

definition scoped_payments :: "firm \<Rightarrow> uuid \<Rightarrow> uuid option \<Rightarrow> payment list" where
  "scoped_payments s company_id unit_id =
     filter (\<lambda>p. py_company_id p = company_id \<and> py_grant p \<noteq> None \<and>
       (case unit_id of None \<Rightarrow> True | Some u \<Rightarrow> py_business_unit_id p = u)) (fi_payments s)"

definition is_first_payment :: "firm \<Rightarrow> uuid option \<Rightarrow> payment \<Rightarrow> bool" where
  "is_first_payment s unit_id p \<longleftrightarrow> \<not> list_ex (\<lambda>q. py_customer_id q = py_customer_id p \<and>
     py_company_id q = py_company_id p \<and>
     (py_paid_at q < py_paid_at p \<or> py_paid_at q = py_paid_at p \<and> py_id q < py_id p) \<and>
     (unit_id = None \<or> py_business_unit_id q = py_business_unit_id p)) (fi_payments s)"

definition revenue_of_payments :: "firm \<Rightarrow> payment list \<Rightarrow> money" where
  "revenue_of_payments s ps =
     sum_list (map (\<lambda>p. sum_list (map tn_amount (filter (\<lambda>t. tn_id t = py_transaction_id p \<and>
       tn_kind t = K_revenue \<and> tn_category t = REVENUE_CATEGORY) (fi_transactions s)))) ps)"

text \<open>One row of the \<open>reach\<close> subquery: how far a customer's payments reach and whether one covers the end.\<close>

definition stretch_of :: "payment \<Rightarrow> instant \<times> instant" where
  "stretch_of p = (case py_grant p of Some (_, f, u) \<Rightarrow> (f, u) | None \<Rightarrow> (0, 0))"

definition reach_ends :: "payment list \<Rightarrow> uuid \<Rightarrow> instant" where
  "reach_ends ps c = Max (set (map (snd \<circ> stretch_of) (filter (\<lambda>p. py_customer_id p = c) ps)))"

definition reach_covering :: "payment list \<Rightarrow> instant \<Rightarrow> uuid \<Rightarrow> bool" where
  "reach_covering ps until c = list_ex (\<lambda>p. py_customer_id p = c \<and> fst (stretch_of p) \<le> until \<and>
     until < snd (stretch_of p)) ps"

definition membership_numbers ::
    "firm \<Rightarrow> uuid \<Rightarrow> instant \<Rightarrow> instant \<Rightarrow> uuid option \<Rightarrow> err + membership_count" where
  "membership_numbers s company_id since until unit_id =
     (let scoped = scoped_payments s company_id unit_id;
          period = filter (\<lambda>p. since \<le> py_paid_at p \<and> py_paid_at p \<le> until) scoped;
          n = length period; fresh = length (filter (is_first_payment s unit_id) period);
          paid_by_end = filter (\<lambda>p. py_paid_at p \<le> until) scoped;
          customers = remdups (map py_customer_id paid_by_end);
          ends = reach_ends paid_by_end
      in bind_err (quantize (revenue_of_payments s period)) (\<lambda>revenue.
         bind_err (if n = 0 then Inr None
                   else bind_err (quantize (dec_div revenue (of_nat n))) (\<lambda>a. Inr (Some a))) (\<lambda>average.
         Inr \<lparr>mn_payments = n, mn_new_members = fresh, mn_renewals = int n - int fresh,
           mn_members = length (filter (reach_covering paid_by_end until) customers),
           mn_expiring_members = length (filter (\<lambda>c. reach_covering paid_by_end until c \<and>
             ends c \<le> until + EXPIRING_WITHIN) customers),
           mn_lapsed_members = length (filter (\<lambda>c. since < ends c \<and> ends c \<le> until) customers),
           mn_revenue = revenue, mn_average = average\<rparr>)))"

definition revenue_of_day :: "firm \<Rightarrow> uuid \<Rightarrow> instant \<Rightarrow> int \<Rightarrow> money" where
  "revenue_of_day s company_id until d =
     sum_list (map tn_amount (filter (\<lambda>t. tn_company_id t = company_id \<and> tn_kind t = K_revenue \<and>
       tn_occurred_at t div DAY = d \<and> tn_occurred_at t \<le> until) (fi_transactions s)))"

definition daily_revenue :: "firm \<Rightarrow> uuid \<Rightarrow> nat \<Rightarrow> instant \<Rightarrow> err + (int \<times> money) list" where
  "daily_revenue s company_id days until =
     (let first = until div DAY - (int days - 1)
      in map_err (map (\<lambda>i. first + int i) [0..<days])
           (\<lambda>d. bind_err (quantize (revenue_of_day s company_id until d)) (\<lambda>a. Inr (d, a))))"

end
