(* ===== verification/FirmTables.thy ===== *)
theory FirmTables
  imports Commerce Frame
begin

text \<open>
  What the company's tables promise. The law of a table is stated once (\<open>row_store\<close>) and
  interpreted on every table of the model; from it, that no operation stores a row its CHECK
  constraints refuse or a second row under one unique key.
\<close>

section \<open>Steps that return\<close>

lemma lift_step_iff: "liftT r s = Inr (x, s') \<longleftrightarrow> r = Inr x \<and> s' = s"
  by (auto simp: tx_run split: sum.splits)

lemma checkT_Inr_iff: "checkT b e s = Inr (x, s') \<longleftrightarrow> b \<and> s' = s"
  by (auto simp: tx_run)

lemma someT_Inr_iff: "someT v e s = Inr (x, s') \<longleftrightarrow> v = Some x \<and> s' = s"
  by (auto simp: tx_run split: option.splits)

lemma getsT_Inr_iff: "getsT f s = Inr (x, s') \<longleftrightarrow> x = f s \<and> s' = s"
  by (auto simp: tx_run)

lemma returnT_Inr_iff: "returnT v s = Inr (x, s') \<longleftrightarrow> x = v \<and> s' = s"
  by (auto simp: tx_run)

lemma modifyT_Inr_iff: "modifyT f s = Inr (x, s') \<longleftrightarrow> s' = f s"
  by (auto simp: tx_run)

lemma get_row_Inr_iff: "get_row tb i e s = Inr (x, s') \<longleftrightarrow> row_of tb s i = Some x \<and> s' = s"
  by (auto simp: get_row_def bindT_Inr_iff getsT_Inr_iff someT_Inr_iff)

lemmas steps_return = bindT_Inr_iff lift_step_iff checkT_Inr_iff someT_Inr_iff getsT_Inr_iff returnT_Inr_iff
  modifyT_Inr_iff get_row_Inr_iff

section \<open>Well-typed tables\<close>

definition unique_in :: "'x table \<Rightarrow> 'x list \<Rightarrow> bool" where
  "unique_in tb rows \<longleftrightarrow> sorted_wrt (\<lambda>r q. \<not> tb_collide tb q r) rows"

definition well_typed :: "'x table \<Rightarrow> firm \<Rightarrow> bool" where
  "well_typed tb s \<longleftrightarrow> list_all (tb_checks tb) (tb_rows tb s) \<and> unique_in tb (tb_rows tb s)"

lemma unique_in_append:
  "unique_in tb rows \<Longrightarrow> \<not> list_ex (tb_collide tb r) rows \<Longrightarrow> unique_in tb (rows @ [r])"
  by (auto simp: unique_in_def sorted_wrt_append list_ex_iff)

lemma unique_in_map:
  assumes "\<And>r q. tb_collide tb (f r) (f q) = tb_collide tb r q"
  shows "unique_in tb (map f rows) = unique_in tb rows"
  by (simp add: unique_in_def sorted_wrt_map assms)

text \<open>What a table is to its clients: rows that are read back as they were put, apart from the runtime.\<close>

locale row_store =
  fixes tb :: "'x table"
  assumes rows_put: "tb_rows tb (tb_put tb rows s) = rows"
    and db_put: "fi_db (tb_put tb rows s) = fi_db s"
    and rows_db: "tb_rows tb (fi_put_db d s) = tb_rows tb s"
begin

lemma insert_rows: "insert_row tb r s = Inr (x, s') \<Longrightarrow> tb_rows tb s' = tb_rows tb s @ [r] \<and> tb_checks tb r"
  by (auto simp: insert_row_def tx_run rows_put split: if_splits)

lemma change_rows:
  "change_row tb i f s = Inr (x, s') \<Longrightarrow> tb_rows tb s' = update_row (tb_id tb) i f (tb_rows tb s)"
  by (auto simp: change_row_def tx_run Let_def rows_put split: if_splits)

lemma insert_typed: "keeps (well_typed tb) (insert_row tb r)"
  by (rule keepsI) (auto simp: insert_row_def tx_run well_typed_def rows_put unique_in_append split: if_splits)

lemma runtime_typed: "keeps (well_typed tb) (in_runtime m)"
  by (rule keepsI) (auto simp: in_runtime_def tx_run well_typed_def rows_db split: sum.splits)

lemma change_typed:
  assumes "\<And>r q. tb_collide tb (f r) q = tb_collide tb r q" "\<And>r q. tb_collide tb r (f q) = tb_collide tb r q"
    and id: "\<And>r. tb_id tb (f r) = tb_id tb r"
  shows "keeps (well_typed tb) (change_row tb i f)"
proof (rule keepsI)
  fix s x s'
  assume typed: "well_typed tb s" and run: "change_row tb i f s = Inr (x, s')"
  let ?g = "\<lambda>r. if tb_id tb r = i then f r else r"
  have rows: "tb_rows tb s' = map ?g (tb_rows tb s)"
    using change_rows [OF run] by (simp add: update_row_def)
  have keys: "tb_collide tb (?g r) (?g q) = tb_collide tb r q" for r q
    using assms by simp
  have checks: "list_all (tb_checks tb) (map ?g (tb_rows tb s))"
    using run typed
    by (auto simp: change_row_def tx_run Let_def update_row_def well_typed_def list_all_iff id split: if_splits)
  with typed show "well_typed tb s'"
    unfolding well_typed_def rows by (simp only: unique_in_map [of tb ?g, OF keys])
qed

lemma find_inserted:
  assumes "row_of tb s (tb_id tb r) = None" "insert_row tb r s = Inr (x, s')"
  shows "row_of tb s' (tb_id tb r) = Some r"
  using insert_rows [OF assms(2)] assms(1) by (simp add: row_of_def find_row_append)

lemma add_rows:
  "add_row tb g s = Inr (r, s') \<Longrightarrow> tb_rows tb s' = tb_rows tb s @ [r] \<and> r = g (next_id (fi_db s))"
  using insert_rows by (auto simp: add_row_def bindT_Inr_iff in_runtime_def zoomT_def uuid7_def returnT_def rows_db)

end

lemmas table_defs = transactions_table_def customers_table_def prices_table_def memberships_table_def
  payments_table_def orders_table_def units_table_def departments_table_def positions_table_def
  products_table_def projects_table_def opportunities_table_def signals_table_def proposals_table_def
  kpis_table_def commands_table_def cycles_table_def goals_table_def companies_table_def budgets_table_def

lemmas row_laws = table_defs fi_db_def fi_put_db_def

interpretation transactions: row_store transactions_table by unfold_locales (simp_all add: row_laws)
interpretation customers: row_store customers_table by unfold_locales (simp_all add: row_laws)
interpretation prices: row_store prices_table by unfold_locales (simp_all add: row_laws)
interpretation memberships: row_store memberships_table by unfold_locales (simp_all add: row_laws)
interpretation payments: row_store payments_table by unfold_locales (simp_all add: row_laws)
interpretation orders: row_store orders_table by unfold_locales (simp_all add: row_laws)
interpretation units: row_store units_table by unfold_locales (simp_all add: row_laws)
interpretation departments: row_store departments_table by unfold_locales (simp_all add: row_laws)
interpretation positions: row_store positions_table by unfold_locales (simp_all add: row_laws)
interpretation products: row_store products_table by unfold_locales (simp_all add: row_laws)
interpretation projects: row_store projects_table by unfold_locales (simp_all add: row_laws)
interpretation opportunities: row_store opportunities_table by unfold_locales (simp_all add: row_laws)
interpretation signals: row_store signals_table by unfold_locales (simp_all add: row_laws)
interpretation proposals: row_store proposals_table by unfold_locales (simp_all add: row_laws)
interpretation kpis: row_store kpis_table by unfold_locales (simp_all add: row_laws)
interpretation commands: row_store commands_table by unfold_locales (simp_all add: row_laws)
interpretation goals: row_store goals_table by unfold_locales (simp_all add: row_laws)
interpretation companies: row_store companies_table by unfold_locales (simp_all add: row_laws)
interpretation budgets: row_store budgets_table by unfold_locales (simp_all add: row_laws)
interpretation cycles: row_store cycles_table by unfold_locales (simp_all add: row_laws)

end
