(* ===== verification/Shop.thy ===== *)
theory Shop
  imports Commerce FirmTables
begin

text \<open>
  The shop as a transition system: every operation that takes money, sells or lets a membership
  lapse, in any order, while the rest of the company does anything that leaves the shop's tables
  alone. From it, what holds after any sequence: the rows are well typed, and the payments, the
  ledger and the memberships agree.
\<close>

section \<open>Steps\<close>

datatype shop_op =
    Op_record posting
  | Op_settle_cycle cycle
  | Op_acquire uuid string string actor "uuid option" "uuid option" "instant option"
  | Op_churn uuid actor "string option" "instant option"
  | Op_reactivate uuid actor "instant option"
  | Op_add_price string product money price_interval "string option"
  | Op_retire_price uuid
  | Op_purchase product_price charge
  | Op_expire uuid instant actor
  | Op_open_order product_price string string "money option"
  | Op_order_settle string string string money actor "instant option"
  | Op_abandon uuid order_state

definition doneT :: "'a firm_tx \<Rightarrow> unit firm_tx" where
  "doneT m = bindT m (\<lambda>_. returnT ())"

primrec shop_do :: "ledger \<Rightarrow> shop_op \<Rightarrow> unit firm_tx" where
  "shop_do ld (Op_record po) = doneT (ledger_record ld po)"
| "shop_do ld (Op_settle_cycle c) = doneT (settle_cycle ld c)"
| "shop_do ld (Op_acquire co r k a u p t) = doneT (acquire co r k a u p t)"
| "shop_do ld (Op_churn c a r t) = churn c a r t"
| "shop_do ld (Op_reactivate c a t) = reactivate c a t"
| "shop_do ld (Op_add_price b p x iv cur) = doneT (add_price b p x iv cur)"
| "shop_do ld (Op_retire_price i) = retire_price i"
| "shop_do ld (Op_purchase px ch) = doneT (purchase ld px ch)"
| "shop_do ld (Op_expire co t a) = doneT (expire_due_memberships co t a)"
| "shop_do ld (Op_open_order px r pr x) = doneT (open_order px r pr x)"
| "shop_do ld (Op_order_settle pr n r x a t) = doneT (order_settle ld pr n r x a t)"
| "shop_do ld (Op_abandon i st) = order_abandon i st"

text \<open>What the rest of the company may do meanwhile: anything but touch the shop's tables or move a product.\<close>

definition product_fixed :: "firm \<Rightarrow> firm \<Rightarrow> bool" where
  "product_fixed s s' \<longleftrightarrow> (\<forall>i q. row_of products_table s i = Some q \<longrightarrow>
     (\<exists>q'. row_of products_table s' i = Some q' \<and> pt_company_id q' = pt_company_id q \<and>
       pt_business_unit_id q' = pt_business_unit_id q))"

definition elsewhere :: "firm \<Rightarrow> firm \<Rightarrow> bool" where
  "elsewhere s s' \<longleftrightarrow> fi_transactions s' = fi_transactions s \<and> fi_customers s' = fi_customers s \<and>
     fi_prices s' = fi_prices s \<and> fi_memberships s' = fi_memberships s \<and> fi_payments s' = fi_payments s \<and>
     fi_orders s' = fi_orders s \<and> next_id (fi_db s) \<le> next_id (fi_db s') \<and> product_fixed s s'"

definition empty_shop :: "firm \<Rightarrow> bool" where
  "empty_shop s \<longleftrightarrow> fi_transactions s = [] \<and> fi_customers s = [] \<and> fi_prices s = [] \<and>
     fi_memberships s = [] \<and> fi_payments s = [] \<and> fi_orders s = []"

inductive shop_run :: "ledger \<Rightarrow> firm \<Rightarrow> firm \<Rightarrow> bool" where
  start: "shop_run ld s s"
| operation: "shop_run ld s t \<Longrightarrow> shop_do ld oper t = Inr (x, t') \<Longrightarrow> shop_run ld s t'"
| meanwhile: "shop_run ld s t \<Longrightarrow> elsewhere t t' \<Longrightarrow> shop_run ld s t'"

inductive_cases shop_run_cases: "shop_run ld s t"

definition shop_reachable :: "ledger \<Rightarrow> firm \<Rightarrow> bool" where
  "shop_reachable ld s \<longleftrightarrow> (\<exists>s0. empty_shop s0 \<and> shop_run ld s0 s)"

lemma shop_run_keeps:
  assumes run: "shop_run ld s t" and I: "I s"
    and step: "\<And>oper. keeps I (shop_do ld oper)" and env: "\<And>u v. I u \<Longrightarrow> elsewhere u v \<Longrightarrow> I v"
  shows "I t"
  using run I step
proof (induction rule: shop_run.induct)
  case (operation ld s t oper x t')
  show ?case by (rule keepsD [OF operation.prems(2) operation.IH operation.hyps(2)]) (fact operation.prems)+
next
  case (meanwhile ld s t t')
  then show ?case using env by blast
qed

section \<open>Every row is well typed\<close>

definition shop_typed :: "firm \<Rightarrow> bool" where
  "shop_typed s \<longleftrightarrow> well_typed transactions_table s \<and> well_typed customers_table s \<and>
     well_typed prices_table s \<and> well_typed memberships_table s \<and> well_typed payments_table s \<and>
     well_typed orders_table s"

definition separate :: "'x table \<Rightarrow> 'y table \<Rightarrow> bool" where
  "separate tb other \<longleftrightarrow> (\<forall>rows s. tb_rows tb (tb_put other rows s) = tb_rows tb s)"

lemma separate_insert: "separate tb other \<Longrightarrow> keeps (well_typed tb) (insert_row other r)"
  by (rule keepsI) (auto simp: insert_row_def tx_run well_typed_def separate_def split: if_splits)

lemma separate_change: "separate tb other \<Longrightarrow> keeps (well_typed tb) (change_row other i f)"
  by (rule keepsI) (auto simp: change_row_def tx_run Let_def well_typed_def separate_def split: if_splits)

lemma keeps_case_prod [keeps_intros]: "(\<And>a b. p = (a, b) \<Longrightarrow> keeps I (f a b)) \<Longrightarrow> keeps I (case p of (a, b) \<Rightarrow> f a b)"
  by (cases p) simp

lemma keeps_shop_typed:
  assumes "keeps (well_typed transactions_table) m" "keeps (well_typed customers_table) m"
    "keeps (well_typed prices_table) m" "keeps (well_typed memberships_table) m"
    "keeps (well_typed payments_table) m" "keeps (well_typed orders_table) m"
  shows "keeps shop_typed m"
  unfolding shop_typed_def [abs_def] by (intro keeps_conj assms)

lemmas shop_tables = transactions_table_def customers_table_def prices_table_def memberships_table_def
  payments_table_def orders_table_def

lemma shop_inserts [keeps_intros]:
  "keeps shop_typed (insert_row transactions_table t)" "keeps shop_typed (insert_row customers_table c)"
  "keeps shop_typed (insert_row prices_table p)" "keeps shop_typed (insert_row memberships_table m)"
  "keeps shop_typed (insert_row payments_table y)" "keeps shop_typed (insert_row orders_table d)"
  by (intro keeps_shop_typed transactions.insert_typed customers.insert_typed prices.insert_typed
      memberships.insert_typed payments.insert_typed orders.insert_typed separate_insert;
      simp add: separate_def shop_tables)+

lemma shop_runtime [keeps_intros]: "keeps shop_typed (in_runtime m)"
  by (intro keeps_shop_typed transactions.runtime_typed customers.runtime_typed prices.runtime_typed
      memberships.runtime_typed payments.runtime_typed orders.runtime_typed)

lemma shop_changes [keeps_intros]:
  "keeps shop_typed (change_row customers_table i (\<lambda>c. c\<lparr>cu_churned_at := ch\<rparr>))"
  "keeps shop_typed (change_row prices_table i (\<lambda>c. c\<lparr>px_state := ps\<rparr>))"
  "keeps shop_typed (change_row memberships_table i (\<lambda>m. m\<lparr>mb_state := ms\<rparr>))"
  "keeps shop_typed (change_row memberships_table i (\<lambda>m. m\<lparr>mb_expires_at := e, mb_started_at := (if b then mb_started_at m else a)\<rparr>))"
  "keeps shop_typed (change_row orders_table i (\<lambda>r. r\<lparr>od_state := os, od_payment_id := pid\<rparr>))"
  "keeps shop_typed (change_row orders_table i (\<lambda>r. r\<lparr>od_state := os\<rparr>))"
  by (intro keeps_shop_typed customers.change_typed prices.change_typed memberships.change_typed
      orders.change_typed separate_change; simp add: separate_def shop_tables)+

lemma add_row_keeps [keeps_intros]: "(\<And>i. keeps I (insert_row tb (r i))) \<Longrightarrow> keeps I (in_runtime uuid7) \<Longrightarrow> keeps I (add_row tb r)"
  unfolding add_row_def by (intro keeps_intros) 

lemma time_now_keeps [keeps_intros]: "keeps I time_now"
  unfolding time_now_def by (rule keeps_gets)

lemma get_row_keeps [keeps_intros]: "keeps I (get_row tb i e)"
  unfolding get_row_def by (intro keeps_intros)

lemma firm_emit_typed [keeps_intros]: "keeps shop_typed (firm_emit p co a ty i c)"
  unfolding firm_emit_def by (rule shop_runtime)

lemma membership_transition_typed [keeps_intros]:
  "keeps shop_typed (row_transition MEMBERSHIP_FSM memberships_table mb_state (\<lambda>st m. m\<lparr>mb_state := st\<rparr>) mb_company_id i st actor rs)"
  unfolding row_transition_def by (intro keeps_intros)

lemma ledger_record_typed [keeps_intros]: "keeps shop_typed (ledger_record ld po)"
  unfolding ledger_record_def by (intro keeps_intros)

lemma settle_projects_typed [keeps_intros]: "keeps shop_typed (settle_projects ld c ps st)"
  by (induction ld c ps st rule: settle_projects.induct) (auto intro!: keeps_intros)

lemma settle_cycle_typed [keeps_intros]: "keeps shop_typed (settle_cycle ld c)"
  unfolding settle_cycle_def by (intro keeps_intros)

lemma customers_typed [keeps_intros]:
  "keeps shop_typed (acquire co r k a u p t)" "keeps shop_typed (churn c a rs t')" "keeps shop_typed (reactivate c a t')"
  unfolding acquire_def churn_def reactivate_def by (intro keeps_intros)+

lemma prices_typed [keeps_intros]:
  "keeps shop_typed (add_price b p x iv cur)" "keeps shop_typed (retire_price i)"
  unfolding add_price_def retire_price_def by (intro keeps_intros)+

lemma buying_typed [keeps_intros]:
  "keeps shop_typed (paying_customer p r a t)" "keeps shop_typed (grant_stretch p c iv a t)"
  unfolding paying_customer_def grant_stretch_def by (intro keeps_intros)+

lemma purchase_typed [keeps_intros]: "keeps shop_typed (purchase ld px ch)"
  unfolding purchase_def book_purchase_def by (intro keeps_intros)

lemma expiring_typed [keeps_intros]:
  "keeps shop_typed (expire_membership co t a m)" "keeps shop_typed (expire_due_memberships co t a)"
  unfolding expire_due_memberships_def expire_membership_def by (intro keeps_intros)+

lemma orders_typed [keeps_intros]:
  "keeps shop_typed (open_order px r pr x)" "keeps shop_typed (order_settle ld pr n r x' a t)"
  "keeps shop_typed (order_abandon i st)"
  unfolding open_order_def order_settle_def order_abandon_def by (intro keeps_intros)+

lemma doneT_keeps [keeps_intros]: "keeps I m \<Longrightarrow> keeps I (doneT m)"
  unfolding doneT_def by (intro keeps_intros)

lemma shop_do_typed: "keeps shop_typed (shop_do ld oper)"
  by (cases oper) (simp_all add: keeps_intros)

lemma shop_typed_elsewhere: "shop_typed s \<Longrightarrow> elsewhere s s' \<Longrightarrow> shop_typed s'"
  by (simp add: shop_typed_def well_typed_def elsewhere_def shop_tables)

lemma shop_typed_empty: "empty_shop s \<Longrightarrow> shop_typed s"
  by (simp add: empty_shop_def shop_typed_def well_typed_def unique_in_def shop_tables)

lemma shop_typed_reachable: "shop_reachable ld s \<Longrightarrow> shop_typed s"
  unfolding shop_reachable_def
  by (elim exE conjE) (rule shop_run_keeps [where I = shop_typed], assumption, erule shop_typed_empty,
      rule shop_do_typed, rule shop_typed_elsewhere)

end
