(* ===== verification/Books.thy ===== *)
theory Books
  imports Shop
begin

text \<open>
  The books of the shop: memberships, payments and ledger rows agree. \<open>book_step\<close> is what every
  operation but a sale does to them; a sale adds one stretch of access, one payment and one ledger
  row together.
\<close>

section \<open>The invariant\<close>

definition stretches :: "uuid \<Rightarrow> payment list \<Rightarrow> (instant \<times> instant) list" where
  "stretches i ps = concat (map (\<lambda>p. case py_grant p of None \<Rightarrow> []
     | Some (j, f, u) \<Rightarrow> if j = i then [(f, u)] else []) ps)"

definition covered :: "instant \<Rightarrow> instant \<Rightarrow> (instant \<times> instant) list \<Rightarrow> bool" where
  "covered a b xs \<longleftrightarrow> (\<forall>t. a \<le> t \<and> t < b \<longrightarrow> (\<exists>(f, u)\<in>set xs. f \<le> t \<and> t < u))"

definition tiled :: "membership \<Rightarrow> (instant \<times> instant) list \<Rightarrow> bool" where
  "tiled m xs \<longleftrightarrow> xs \<noteq> [] \<and> sorted_wrt (\<lambda>x y. snd x \<le> fst y) xs \<and> (\<forall>x\<in>set xs. fst x < snd x) \<and>
     snd (last xs) = mb_expires_at m \<and> covered (mb_started_at m) (mb_expires_at m) xs"

definition belongs :: "payment \<Rightarrow> membership \<Rightarrow> bool" where
  "belongs p m \<longleftrightarrow> mb_customer_id m = py_customer_id p \<and> mb_company_id m = py_company_id p \<and>
     mb_business_unit_id m = py_business_unit_id p"

definition booked :: "payment \<Rightarrow> transaction \<Rightarrow> bool" where
  "booked p t \<longleftrightarrow> tn_id t = py_transaction_id p \<and> tn_kind t = K_revenue \<and> tn_category t = REVENUE_CATEGORY \<and>
     tn_idempotency_key t = payment_key (py_provider p) (py_external_ref p) \<and> tn_ref_id t = Some (py_id p) \<and>
     tn_company_id t = py_company_id p \<and> tn_customer_id t = Some (py_customer_id p) \<and>
     tn_occurred_at t = py_paid_at p"

definition grants :: "uuid \<Rightarrow> payment \<Rightarrow> bool" where
  "grants i p \<longleftrightarrow> (case py_grant p of None \<Rightarrow> False | Some (j, _, _) \<Rightarrow> j = i)"

definition books_of :: "membership list \<Rightarrow> payment list \<Rightarrow> transaction list \<Rightarrow> nat \<Rightarrow> bool" where
  "books_of ms ps ts n \<longleftrightarrow> distinct (map mb_id ms) \<and> (\<forall>m\<in>set ms. mb_id m < n) \<and>
     (\<forall>p\<in>set ps. \<exists>t\<in>set ts. booked p t) \<and>
     (\<forall>p\<in>set ps. \<exists>m\<in>set ms. grants (mb_id m) p \<and> belongs p m) \<and>
     (\<forall>m\<in>set ms. tiled m (stretches (mb_id m) ps)) \<and>
     (\<forall>m\<in>set ms. \<exists>p\<in>set ps. grants (mb_id m) p \<and> py_paid_at p = mb_started_at m)"

text \<open>A membership without its state, which only lapsing changes.\<close>

definition terms :: "membership \<Rightarrow> membership" where
  "terms m = m\<lparr>mb_state := MS_active\<rparr>"

definition of_product :: "firm \<Rightarrow> membership \<Rightarrow> bool" where
  "of_product s m \<longleftrightarrow> (\<exists>q. row_of products_table s (mb_product_id m) = Some q \<and>
     mb_company_id m = pt_company_id q \<and> mb_business_unit_id m = pt_business_unit_id q)"

definition books :: "firm \<Rightarrow> bool" where
  "books s \<longleftrightarrow> books_of (map terms (fi_memberships s)) (fi_payments s) (fi_transactions s) (next_id (fi_db s)) \<and>
     (\<forall>m\<in>set (map terms (fi_memberships s)). of_product s m)"

section \<open>What every operation but a sale does\<close>

definition book_step :: "firm \<Rightarrow> firm \<Rightarrow> bool" where
  "book_step s s' \<longleftrightarrow> map terms (fi_memberships s') = map terms (fi_memberships s) \<and>
     fi_payments s' = fi_payments s \<and> (\<exists>rest. fi_transactions s' = fi_transactions s @ rest) \<and>
     next_id (fi_db s) \<le> next_id (fi_db s') \<and> product_fixed s s'"

lemma product_fixed_refl [simp]: "product_fixed s s"
  by (auto simp: product_fixed_def)

lemma product_fixed_trans: "product_fixed s t \<Longrightarrow> product_fixed t u \<Longrightarrow> product_fixed s u"
  unfolding product_fixed_def by metis

interpretation book: step_preorder book_step
proof unfold_locales
  show "book_step s s" for s by (auto simp: book_step_def)
  show "book_step s t \<Longrightarrow> book_step t u \<Longrightarrow> book_step s u" for s t u
    using product_fixed_trans by (auto simp: book_step_def)
qed

named_theorems book_intros \<open>operations that leave the books alone, by the shape of the program\<close>

lemmas [book_intros] = book.rules

lemma books_of_step:
  assumes "books_of ms ps ts n" "n \<le> n'"
  shows "books_of ms ps (ts @ rest) n'"
proof -
  have "\<forall>m\<in>set ms. mb_id m < n'"
    using assms by (auto simp: books_of_def)
  moreover have "\<forall>p\<in>set ps. \<exists>t\<in>set (ts @ rest). booked p t"
    using assms(1) by (auto simp: books_of_def)
  ultimately show ?thesis
    using assms(1) by (simp add: books_of_def)
qed

lemma of_product_fixed: "of_product s m \<Longrightarrow> product_fixed s s' \<Longrightarrow> of_product s' m"
  unfolding of_product_def product_fixed_def by metis

lemma books_step: "books s \<Longrightarrow> book_step s s' \<Longrightarrow> books s'"
  unfolding books_def book_step_def
  by (auto simp: books_of_step intro: of_product_fixed)

lemma book_keeps: "obeys book_step m \<Longrightarrow> keeps books m"
  by (rule keepsI) (rule books_step, assumption, rule obeysD)

lemma book_untouched:
  assumes "\<And>rs s. fi_memberships (tb_put tb rs s) = fi_memberships s" "\<And>rs s. fi_payments (tb_put tb rs s) = fi_payments s"
    "\<And>rs s. fi_transactions (tb_put tb rs s) = fi_transactions s" "\<And>rs s. fi_db (tb_put tb rs s) = fi_db s"
    "\<And>rs s. fi_products (tb_put tb rs s) = fi_products s"
  shows "obeys book_step (insert_row tb r)" "obeys book_step (change_row tb i f)"
  unfolding obeys_def book_step_def product_fixed_def row_of_def
  by (auto simp: insert_row_def change_row_def tx_run Let_def assms products_table_def split: if_splits)

lemma book_tables [book_intros]:
  "obeys book_step (insert_row customers_table c)" "obeys book_step (insert_row prices_table px)"
  "obeys book_step (insert_row orders_table d)" "obeys book_step (change_row customers_table i f)"
  "obeys book_step (change_row prices_table i g)" "obeys book_step (change_row orders_table i h)"
  by (rule book_untouched; simp add: shop_tables fi_db_def)+

lemma book_insert_transaction [book_intros]: "obeys book_step (insert_row transactions_table t)"
  unfolding obeys_def book_step_def product_fixed_def row_of_def
  by (auto simp: insert_row_def tx_run transactions_table_def products_table_def fi_db_def split: if_splits)

lemma book_runtime: "frames m \<Longrightarrow> obeys book_step (in_runtime m)"
proof (rule obeysI)
  fix s x s'
  assume m: "frames m" and run: "in_runtime m s = Inr (x, s')"
  then obtain d where d: "m (fi_db s) = Inr (x, d)" and s': "s' = fi_put_db d s"
    by (auto simp: in_runtime_def tx_run split: sum.splits)
  have "next_id (fi_db s) \<le> next_id d" using framesD [OF m d] by simp
  then show "book_step s s'"
    by (simp add: s' book_step_def fi_db_def fi_put_db_def product_fixed_def row_of_def products_table_def)
qed

lemma book_transition_state [book_intros]:
  "obeys book_step (change_row memberships_table i (\<lambda>m. m\<lparr>mb_state := st\<rparr>))"
proof (rule obeysI)
  fix s x s'
  assume run: "change_row memberships_table i (\<lambda>m. m\<lparr>mb_state := st\<rparr>) s = Inr (x, s')"
  let ?rows = "update_row mb_id i (\<lambda>m. m\<lparr>mb_state := st\<rparr>) (fi_memberships s)"
  have s': "s' = s\<lparr>fi_memberships := ?rows\<rparr>"
    using run by (auto simp: change_row_def tx_run Let_def memberships_table_def split: if_splits)
  have "map terms ?rows = map terms (fi_memberships s)"
    by (auto simp: update_row_def terms_def)
  then show "book_step s s'"
    by (simp add: s' book_step_def fi_db_def product_fixed_def row_of_def products_table_def)
qed

lemma book_uuid7 [book_intros]: "obeys book_step (in_runtime uuid7)"
  by (intro book_runtime frame_intros)

lemma book_emit [book_intros]: "obeys book_step (firm_emit p co a ty i c)"
  unfolding firm_emit_def by (intro book_runtime frame_intros)

lemma book_time_now [book_intros]: "obeys book_step time_now"
  unfolding time_now_def by (rule book.basic(3))

lemma book_get_row [book_intros]: "obeys book_step (get_row tb i e)"
  unfolding get_row_def by (intro book_intros)

lemma book_add_row [book_intros]: "(\<And>i. obeys book_step (insert_row tb (r i))) \<Longrightarrow> obeys book_step (add_row tb r)"
  unfolding add_row_def by (intro book_intros)

lemma book_membership_transition [book_intros]:
  "obeys book_step (row_transition MEMBERSHIP_FSM memberships_table mb_state (\<lambda>st m. m\<lparr>mb_state := st\<rparr>) mb_company_id i st actor rs)"
  unfolding row_transition_def by (intro book_intros book_runtime frame_intros)

lemma book_ledger_record [book_intros]: "obeys book_step (ledger_record ld po)"
  unfolding ledger_record_def by (intro book_intros)

lemma book_settle_projects [book_intros]: "obeys book_step (settle_projects ld c ps st)"
  by (induction ld c ps st rule: settle_projects.induct) (auto intro!: book_intros)

lemma book_operations [book_intros]:
  "obeys book_step (settle_cycle ld c)" "obeys book_step (acquire co r k a u p t)"
  "obeys book_step (churn cu a rs t')" "obeys book_step (reactivate cu a t')"
  "obeys book_step (add_price b p' x iv cur)" "obeys book_step (retire_price i)"
  "obeys book_step (open_order px r' pr x')" "obeys book_step (order_abandon i os)"
  unfolding settle_cycle_def acquire_def churn_def reactivate_def add_price_def retire_price_def
    open_order_def order_abandon_def Let_def
  by (intro book_intros)+

lemma book_paying_customer [book_intros]: "obeys book_step (paying_customer p r a t)"
  unfolding paying_customer_def by (intro book_intros)

lemma book_expiring [book_intros]:
  "obeys book_step (expire_membership co t a m)" "obeys book_step (expire_due_memberships co t a)"
  unfolding expire_due_memberships_def expire_membership_def by (intro book_intros)+

section \<open>A sale\<close>

lemma stretches_append: "stretches i (ps @ qs) = stretches i ps @ stretches i qs"
  by (simp add: stretches_def)

lemma stretches_one: "py_grant p = Some (j, f, u) \<Longrightarrow> stretches i [p] = (if j = i then [(f, u)] else [])"
  by (simp add: stretches_def)

lemma stretches_grants: "x \<in> set (stretches i ps) \<Longrightarrow> \<exists>p\<in>set ps. py_grant p = Some (i, fst x, snd x)"
  by (auto simp: stretches_def split: option.splits if_splits)

lemma grants_some: "py_grant p = Some (j, f, u) \<Longrightarrow> grants i p \<longleftrightarrow> i = j"
  by (auto simp: grants_def)

lemma stretches_none:
  assumes "\<And>p. p \<in> set ps \<Longrightarrow> \<not> grants i p"
  shows "stretches i ps = []"
proof (rule ccontr)
  assume "stretches i ps \<noteq> []"
  then have "hd (stretches i ps) \<in> set (stretches i ps)" by simp
  then obtain p where "p \<in> set ps" "grants i p"
    using stretches_grants grants_some by blast
  then show False using assms by blast
qed

lemma books_ofD:
  assumes "books_of ms ps ts n"
  shows "distinct (map mb_id ms)" "m \<in> set ms \<Longrightarrow> mb_id m < n"
    "p \<in> set ps \<Longrightarrow> \<exists>t\<in>set ts. booked p t" "p \<in> set ps \<Longrightarrow> \<exists>m\<in>set ms. grants (mb_id m) p \<and> belongs p m"
    "m \<in> set ms \<Longrightarrow> tiled m (stretches (mb_id m) ps)"
    "m \<in> set ms \<Longrightarrow> \<exists>p\<in>set ps. grants (mb_id m) p \<and> py_paid_at p = mb_started_at m"
  using assms unfolding books_of_def by blast+

lemma books_ofI:
  assumes "distinct (map mb_id ms)" "\<And>m. m \<in> set ms \<Longrightarrow> mb_id m < n"
    "\<And>p. p \<in> set ps \<Longrightarrow> \<exists>t\<in>set ts. booked p t" "\<And>p. p \<in> set ps \<Longrightarrow> \<exists>m\<in>set ms. grants (mb_id m) p \<and> belongs p m"
    "\<And>m. m \<in> set ms \<Longrightarrow> tiled m (stretches (mb_id m) ps)"
    "\<And>m. m \<in> set ms \<Longrightarrow> \<exists>p\<in>set ps. grants (mb_id m) p \<and> py_paid_at p = mb_started_at m"
  shows "books_of ms ps ts n"
  using assms unfolding books_of_def by blast

lemma tiled_ends:
  assumes xs: "tiled m xs" and x: "x \<in> set xs"
  shows "snd x \<le> mb_expires_at m"
proof -
  from xs have "xs \<noteq> []" and sorted: "sorted_wrt (\<lambda>x y. snd x \<le> fst y) xs" and ends: "snd (last xs) = mb_expires_at m"
    and each: "\<forall>x\<in>set xs. fst x < snd x" by (auto simp: tiled_def)
  then have split: "xs = butlast xs @ [last xs]" by simp
  with x consider "x = last xs" | "x \<in> set (butlast xs)"
    by (metis in_set_butlastD rotate1.simps(2) set_ConsD set_rotate1)
  then show ?thesis
  proof cases
    case 2
    have "snd x \<le> fst (last xs)"
      using sorted 2 split by (metis sorted_wrt_append list.set_intros(1))
    moreover have "fst (last xs) < snd (last xs)" using each \<open>xs \<noteq> []\<close> by simp
    ultimately show ?thesis using ends by simp
  qed (simp add: ends)
qed

text \<open>A renewal: the stretch starts where the last one ends, or at the payment when that is later.\<close>

lemma tiled_renewed:
  assumes xs: "tiled m xs" and pos: "f < u"
    and f: "f = (if paid < mb_expires_at m then mb_expires_at m else paid)"
  shows "tiled (m\<lparr>mb_expires_at := u, mb_started_at := (if paid < mb_expires_at m then mb_started_at m else paid)\<rparr>)
    (xs @ [(f, u)])"
proof -
  have le: "mb_expires_at m \<le> f" using f by auto
  have last: "snd x \<le> mb_expires_at m" if "x \<in> set xs" for x by (rule tiled_ends [OF xs that])
  have sorted: "sorted_wrt (\<lambda>x y. snd x \<le> fst y) (xs @ [(f, u)])"
    using xs last le by (fastforce simp: tiled_def sorted_wrt_append)
  have "covered (if paid < mb_expires_at m then mb_started_at m else paid) u (xs @ [(f, u)])"
    using xs f unfolding tiled_def covered_def by (auto simp: not_less)
  with xs pos sorted show ?thesis
    by (auto simp: tiled_def)
qed

lemma tiled_first: "paid < u \<Longrightarrow> mb_started_at m = paid \<Longrightarrow> mb_expires_at m = u \<Longrightarrow> tiled m [(paid, u)]"
  by (simp add: tiled_def covered_def)

lemma books_new:
  assumes books: "books_of ms ps ts n" and n: "n \<le> mb_id m" "mb_id m < n'"
    and ts: "set ts \<subseteq> set ts'" "t \<in> set ts'" "booked p t"
    and p: "py_grant p = Some (mb_id m, py_paid_at p, mb_expires_at m)" "belongs p m" "mb_started_at m = py_paid_at p"
    and pos: "py_paid_at p < mb_expires_at m"
  shows "books_of (ms @ [m]) (ps @ [p]) ts' n'"
proof (rule books_ofI)
  have ids: "mb_id x < n" "mb_id x \<noteq> mb_id m" if "x \<in> set ms" for x
    using books_ofD(2) [OF books that] n by auto
  show "distinct (map mb_id (ms @ [m]))"
    using books_ofD(1) [OF books] ids(2) by fastforce
  show "mb_id x < n'" if "x \<in> set (ms @ [m])" for x
    using that ids(1) [of x] n by auto
  show "\<exists>t\<in>set ts'. booked q t" if "q \<in> set (ps @ [p])" for q
    using that books_ofD(3) [OF books, of q] ts by auto
  show "\<exists>x\<in>set (ms @ [m]). grants (mb_id x) q \<and> belongs q x" if "q \<in> set (ps @ [p])" for q
    using that books_ofD(4) [OF books, of q] p grants_some [OF p(1)] by auto
  show "tiled x (stretches (mb_id x) (ps @ [p]))" if x: "x \<in> set (ms @ [m])" for x
  proof (cases "x = m")
    case True
    have "\<not> grants (mb_id m) q" if "q \<in> set ps" for q
      using books_ofD(4) [OF books that] ids(2) by (auto simp: grants_def split: option.splits)
    then have "stretches (mb_id m) ps = []" by (rule stretches_none)
    then show ?thesis
      using True p pos by (simp add: stretches_append stretches_one tiled_first)
  next
    case False
    with x have x': "x \<in> set ms" by simp
    from ids(2) [OF x'] books_ofD(5) [OF books x'] p show ?thesis by (simp add: stretches_append stretches_one)
  qed
  show "\<exists>q\<in>set (ps @ [p]). grants (mb_id x) q \<and> py_paid_at q = mb_started_at x" if "x \<in> set (ms @ [m])" for x
    using that books_ofD(6) [OF books, of x] p grants_some [OF p(1)] by auto
qed

definition renewed :: "instant \<Rightarrow> instant \<Rightarrow> bool \<Rightarrow> membership \<Rightarrow> membership" where
  "renewed paid u extended m = m\<lparr>mb_expires_at := u, mb_started_at := (if extended then mb_started_at m else paid)\<rparr>"

lemma renewed_simps [simp]:
  "mb_id (renewed paid u b m) = mb_id m" "mb_customer_id (renewed paid u b m) = mb_customer_id m"
  "mb_company_id (renewed paid u b m) = mb_company_id m" "mb_business_unit_id (renewed paid u b m) = mb_business_unit_id m"
  "mb_product_id (renewed paid u b m) = mb_product_id m"
  "mb_started_at (renewed paid u b m) = (if b then mb_started_at m else paid)"
  by (simp_all add: renewed_def)

lemma belongs_renewed [simp]: "belongs p (renewed paid u b m) = belongs p m"
  by (simp add: belongs_def)

lemma books_renewed:
  assumes books: "books_of ms ps ts n" and n: "n \<le> n'" and m: "m \<in> set ms"
    and ts: "set ts \<subseteq> set ts'" "t \<in> set ts'" "booked p t"
    and p: "py_grant p = Some (mb_id m, f, u)" "belongs p m" and pos: "f < u"
    and f: "f = (if py_paid_at p < mb_expires_at m then mb_expires_at m else py_paid_at p)"
  shows "books_of (update_row mb_id (mb_id m) (renewed (py_paid_at p) u (py_paid_at p < mb_expires_at m)) ms) (ps @ [p]) ts' n'"
    (is "books_of ?ms _ _ _")
proof (rule books_ofI)
  let ?r = "renewed (py_paid_at p) u (py_paid_at p < mb_expires_at m)"
  have one: "x = m" if "x \<in> set ms" "mb_id x = mb_id m" for x
    using books_ofD(1) [OF books] m that by (auto simp: distinct_map inj_on_def)
  have cases: "(x = ?r m) \<or> (x \<in> set ms \<and> mb_id x \<noteq> mb_id m)" if "x \<in> set ?ms" for x
    using set_update_row [OF that] one by blast
  have new: "?r m \<in> set ?ms" using m by (auto simp: update_row_def)
  have stay: "x \<in> set ?ms" if "x \<in> set ms" "mb_id x \<noteq> mb_id m" for x
    using that by (auto simp: update_row_def)
  show "distinct (map mb_id ?ms)" using books_ofD(1) [OF books] by (simp add: update_row_keys)
  show "mb_id x < n'" if "x \<in> set ?ms" for x
    using cases [OF that] books_ofD(2) [OF books, of x] books_ofD(2) [OF books m] n by auto
  show "\<exists>t\<in>set ts'. booked q t" if "q \<in> set (ps @ [p])" for q
    using that books_ofD(3) [OF books, of q] ts by auto
  show "\<exists>x\<in>set ?ms. grants (mb_id x) q \<and> belongs q x" if q: "q \<in> set (ps @ [p])" for q
  proof -
    obtain y where y: "y \<in> set ms" "grants (mb_id y) q" "belongs q y"
      using q p m books_ofD(4) [OF books, of q] grants_some [OF p(1)] by auto
    show ?thesis
    proof (cases "mb_id y = mb_id m")
      case True
      then have "y = m" using one y by simp
      then show ?thesis using y new by (intro bexI [of _ "?r m"]) simp_all
    next
      case False
      then show ?thesis using y stay by blast
    qed
  qed
  show "tiled x (stretches (mb_id x) (ps @ [p]))" if x: "x \<in> set ?ms" for x
    using cases [OF x]
  proof
    assume eq: "x = ?r m"
    from tiled_renewed [OF books_ofD(5) [OF books m] pos f] show ?thesis
      using p by (simp add: eq stretches_append stretches_one renewed_def)
  next
    assume "x \<in> set ms \<and> mb_id x \<noteq> mb_id m"
    with books_ofD(5) [OF books, of x] p show ?thesis by (auto simp: stretches_append stretches_one)
  qed
  show "\<exists>q\<in>set (ps @ [p]). grants (mb_id x) q \<and> py_paid_at q = mb_started_at x" if x: "x \<in> set ?ms" for x
    using cases [OF x]
  proof
    assume eq: "x = ?r m"
    then show ?thesis
      using p books_ofD(6) [OF books m] grants_some [OF p(1)] by (cases "py_paid_at p < mb_expires_at m") auto
  next
    assume "x \<in> set ms \<and> mb_id x \<noteq> mb_id m"
    then show ?thesis using books_ofD(6) [OF books, of x] by auto
  qed
qed

section \<open>The sale in the code\<close>

lemma terms_simps [simp]:
  "mb_id (terms m) = mb_id m" "mb_customer_id (terms m) = mb_customer_id m" "mb_company_id (terms m) = mb_company_id m"
  "mb_business_unit_id (terms m) = mb_business_unit_id m" "mb_product_id (terms m) = mb_product_id m"
  "mb_started_at (terms m) = mb_started_at m" "mb_expires_at (terms m) = mb_expires_at m"
  by (simp_all add: terms_def)

lemma terms_renewed: "terms (renewed paid u b m) = renewed paid u b (terms m)"
  by (simp add: terms_def renewed_def)

lemma map_terms_update:
  "map terms (update_row mb_id i (renewed paid u b) ms) = update_row mb_id i (renewed paid u b) (map terms ms)"
  by (simp add: update_row_def terms_renewed)

text \<open>What \<open>grant_stretch\<close> leaves: a new row, or the row it found with its end moved.\<close>

definition new_membership :: "product \<Rightarrow> uuid \<Rightarrow> instant \<Rightarrow> instant \<Rightarrow> uuid \<Rightarrow> membership" where
  "new_membership p c paid u i = \<lparr>mb_id = i, mb_company_id = pt_company_id p, mb_business_unit_id = pt_business_unit_id p,
     mb_customer_id = c, mb_product_id = pt_id p, mb_state = MS_active, mb_started_at = paid, mb_expires_at = u\<rparr>"

definition stretch_granted :: "product \<Rightarrow> uuid \<Rightarrow> instant \<Rightarrow> uuid \<Rightarrow> instant \<Rightarrow> instant \<Rightarrow> firm \<Rightarrow> firm \<Rightarrow> bool" where
  "stretch_granted p c paid i f u s s' \<longleftrightarrow>
     (case membership_of s c (pt_id p) of
        None \<Rightarrow> f = paid \<and> next_id (fi_db s) \<le> i \<and> i < next_id (fi_db s') \<and>
          map terms (fi_memberships s') = map terms (fi_memberships s) @ [new_membership p c paid u i]
      | Some m \<Rightarrow> i = mb_id m \<and> f = (if paid < mb_expires_at m then mb_expires_at m else paid) \<and>
          map terms (fi_memberships s') =
            update_row mb_id i (renewed paid u (paid < mb_expires_at m)) (map terms (fi_memberships s)))"

definition sale_step :: "firm \<Rightarrow> firm \<Rightarrow> bool" where
  "sale_step s s' \<longleftrightarrow> fi_payments s' = fi_payments s \<and> set (fi_transactions s) \<subseteq> set (fi_transactions s') \<and>
     next_id (fi_db s) \<le> next_id (fi_db s') \<and> product_fixed s s'"

lemma book_sale_step: "book_step s s' \<Longrightarrow> sale_step s s'"
  by (auto simp: book_step_def sale_step_def)

lemma sale_step_trans: "sale_step s t \<Longrightarrow> sale_step t u \<Longrightarrow> sale_step s u"
  using product_fixed_trans by (auto simp: sale_step_def)

lemma granted_new:
  assumes run: "add_row memberships_table (new_membership p c paid u) s = Inr (m, s')"
  shows "mb_id m = next_id (fi_db s) \<and> mb_id m < next_id (fi_db s') \<and>
    map terms (fi_memberships s') = map terms (fi_memberships s) @ [new_membership p c paid u (mb_id m)] \<and> sale_step s s'"
  using run
  by (auto simp: add_row_def in_runtime_def insert_row_def tx_run uuid7_def memberships_table_def sale_step_def
      product_fixed_def row_of_def products_table_def fi_db_def fi_put_db_def new_membership_def terms_def split: if_splits)

lemma granted_change:
  assumes run: "change_row memberships_table i (renewed paid u b) s = Inr (x, s')"
  shows "map terms (fi_memberships s') = update_row mb_id i (renewed paid u b) (map terms (fi_memberships s)) \<and> sale_step s s'"
  using run
  by (auto simp: change_row_def tx_run Let_def memberships_table_def sale_step_def map_terms_update
      product_fixed_def row_of_def products_table_def fi_db_def split: if_splits)

lemma grant_stretch_granted:
  assumes run: "grant_stretch p c iv actor paid s = Inr ((i, f, u, e), s')"
  shows "stretch_granted p c paid i f u s s' \<and> sale_step s s'"
proof (cases "membership_of s c (pt_id p)")
  case None
  with run obtain m where "add_row memberships_table (new_membership p c paid u) s = Inr (m, s')" "i = mb_id m" "f = paid"
    by (auto simp: grant_stretch_def steps_return new_membership_def [abs_def])
  with granted_new [OF this(1)] None show ?thesis
    by (simp add: stretch_granted_def)
next
  case (Some m)
  let ?b = "paid < mb_expires_at m"
  have f: "i = mb_id m" "f = (if ?b then mb_expires_at m else paid)"
    using run Some by (auto simp: grant_stretch_def steps_return Let_def)
  from run Some obtain s1 y where change: "change_row memberships_table (mb_id m) (renewed paid u ?b) s = Inr (y, s1)"
    and rest: "(if mb_state m = MS_active then returnT ()
        else row_transition MEMBERSHIP_FSM memberships_table mb_state (\<lambda>st m. m\<lparr>mb_state := st\<rparr>) mb_company_id
          (mb_id m) MS_active actor (Some ''bought again'')) s1 = Inr ((), s')"
    by (auto simp: grant_stretch_def steps_return Let_def renewed_def [abs_def])
  have "obeys book_step (if mb_state m = MS_active then returnT ()
        else row_transition MEMBERSHIP_FSM memberships_table mb_state (\<lambda>st m. m\<lparr>mb_state := st\<rparr>) mb_company_id
          (mb_id m) MS_active actor (Some ''bought again''))"
    by (intro book_intros)
  then have "book_step s1 s'" using rest by (rule obeysD)
  then show ?thesis
    using granted_change [OF change] Some f book_sale_step sale_step_trans
    by (fastforce simp: stretch_granted_def book_step_def)
qed

text \<open>The books after a sale: whatever was found or made, one payment pays for one more stretch of it.\<close>

lemma membership_of_some: "membership_of s c i = Some m \<Longrightarrow> m \<in> set (fi_memberships s) \<and> mb_customer_id m = c \<and> mb_product_id m = i"
  unfolding membership_of_def by (drule first_some_in) simp

lemma books_sold:
  assumes books: "books s" and prod: "of_product s (new_membership p c (py_paid_at y) u i)"
    and grant: "stretch_granted p c (py_paid_at y) i f u s s1" and later: "book_step s1 s2" and step: "sale_step s s2"
    and y: "py_grant y = Some (i, f, u)" "py_customer_id y = c" "py_company_id y = pt_company_id p"
      "py_business_unit_id y = pt_business_unit_id p"
    and t: "t \<in> set (fi_transactions s2)" "booked y t" and pos: "f < u"
  shows "books (s2\<lparr>fi_payments := fi_payments s2 @ [y]\<rparr>)"
proof -
  let ?ms = "map terms (fi_memberships s)"
  have old: "books_of ?ms (fi_payments s) (fi_transactions s) (next_id (fi_db s))"
    and prods: "\<forall>m\<in>set ?ms. of_product s m"
    using books unfolding books_def by blast+
  have s2: "fi_payments s2 = fi_payments s" "set (fi_transactions s) \<subseteq> set (fi_transactions s2)"
    "next_id (fi_db s) \<le> next_id (fi_db s2)" "product_fixed s s2"
    using step unfolding sale_step_def by blast+
  have ms2: "map terms (fi_memberships s2) = map terms (fi_memberships s1)" "next_id (fi_db s1) \<le> next_id (fi_db s2)"
    using later by (auto simp: book_step_def)
  have fixed: "of_product s m \<Longrightarrow> of_product s2 m" for m
    using of_product_fixed s2(4) by blast
  have "books_of (map terms (fi_memberships s2)) (fi_payments s2 @ [y]) (fi_transactions s2) (next_id (fi_db s2)) \<and>
    (\<forall>m\<in>set (map terms (fi_memberships s2)). of_product s2 m)"
  proof (cases "membership_of s c (pt_id p)")
    case None
    let ?m = "new_membership p c (py_paid_at y) u i"
    have g: "f = py_paid_at y" "next_id (fi_db s) \<le> mb_id ?m" "mb_id ?m < next_id (fi_db s2)"
      "map terms (fi_memberships s2) = ?ms @ [?m]"
      using grant None ms2 by (auto simp: stretch_granted_def new_membership_def)
    have m: "py_grant y = Some (mb_id ?m, py_paid_at y, mb_expires_at ?m)" "belongs y ?m"
      "mb_started_at ?m = py_paid_at y" "py_paid_at y < mb_expires_at ?m"
      using y g(1) pos by (simp_all add: new_membership_def belongs_def)
    show ?thesis
      using books_new [OF old g(2,3) s2(2) t m] prods prod fixed unfolding g(4) s2(1) by auto
  next
    case (Some m)
    let ?r = "renewed (py_paid_at y) u (py_paid_at y < mb_expires_at m)"
    have m: "terms m \<in> set ?ms" "mb_customer_id m = c" "mb_product_id m = pt_id p"
      using membership_of_some [OF Some] by simp_all
    have "of_product s (terms m)" using prods m(1) by blast
    then have bel: "belongs y (terms m)"
      using prod m y by (auto simp: of_product_def belongs_def new_membership_def)
    have g: "i = mb_id (terms m)" "f = (if py_paid_at y < mb_expires_at (terms m) then mb_expires_at (terms m) else py_paid_at y)"
      "map terms (fi_memberships s2) = update_row mb_id i ?r ?ms"
      using grant Some ms2 by (auto simp: stretch_granted_def)
    have y': "py_grant y = Some (mb_id (terms m), f, u)" using y g by simp
    have prods2: "of_product s2 x" if x: "x \<in> set (update_row mb_id i ?r ?ms)" for x
      using set_update_row [OF x] prods fixed by (auto simp: of_product_def)
    have "books_of (update_row mb_id (mb_id (terms m)) (renewed (py_paid_at y) u (py_paid_at y < mb_expires_at (terms m))) ?ms)
        (fi_payments s @ [y]) (fi_transactions s2) (next_id (fi_db s2))"
      by (rule books_renewed [OF old s2(3) m(1) s2(2) t y' bel pos g(2)])
    then show ?thesis
      using prods2 g by (simp add: s2(1))
  qed
  then show ?thesis
    by (auto simp: books_def fi_db_def of_product_def row_of_def products_table_def)
qed

lemma ledger_record_some:
  assumes "ledger_record ld po s = Inr (Some t, s')"
  shows "t \<in> set (fi_transactions s') \<and> tn_kind t = po_kind po \<and> tn_category t = po_category po \<and>
    tn_idempotency_key t = po_idempotency_key po \<and> tn_ref_id t = po_ref_id po \<and> tn_company_id t = po_company_id po \<and>
    tn_customer_id t = po_customer_id po \<and> (case po_occurred_at po of None \<Rightarrow> True | Some w \<Rightarrow> tn_occurred_at t = w)"
proof -
  obtain cv now s1 s2 y where add: "add_row transactions_table (posted (ld_fx ld) po cv now) s1 = Inr (t, s2)"
    and emitted: "firm_emit (MoneyB (posted_event t)) (po_company_id po)
      (case po_actor po of Some a \<Rightarrow> a | None \<Rightarrow> ledger_actor) ''transaction'' (tn_id t) None s2 = Inr (y, s')"
    using assms by (auto simp: ledger_record_def steps_return split: if_splits)
  have "t \<in> set (fi_transactions s2)" "t = posted (ld_fx ld) po cv now (next_id (fi_db s1))"
    using transactions.add_rows [OF add] by (simp_all add: transactions_table_def)
  moreover have "book_step s2 s'" by (rule obeysD [OF book_emit emitted])
  ultimately show ?thesis
    by (auto simp: posted_def book_step_def split: option.splits)
qed

lemma insert_payment:
  "insert_row payments_table y s = Inr (x, s') \<Longrightarrow> s' = s\<lparr>fi_payments := fi_payments s @ [y]\<rparr> \<and>
    (\<forall>i f u. py_grant y = Some (i, f, u) \<longrightarrow> f < u)"
  by (auto simp: insert_row_def steps_return payments_table_def)

lemma book_purchase_books:
  assumes books: "books s" and prod: "row_of products_table s (pt_id p) = Some p"
    and run: "book_purchase ld px p ch s = Inr (y, s')"
  shows "books s'"
proof -
  from run obtain paid cur now amount c i f u e pid t s1 s2 s3 s4 s5 s6 z1 z2 z3 z4 where
    customer: "paying_customer p (ch_customer_ref ch) (ch_actor ch) paid s = Inr (c, s1)" and
    grant: "grant_stretch p c (px_interval px) (ch_actor ch) paid s1 = Inr ((i, f, u, e), s2)" and
    drawn: "in_runtime uuid7 s2 = Inr (pid, s3)" and
    recorded: "ledger_record ld (purchase_posting p c pid ch amount cur paid) s3 = Inr (Some t, s4)" and
    y: "y = \<lparr>py_id = pid, py_company_id = pt_company_id p, py_business_unit_id = pt_business_unit_id p,
              py_customer_id = c, py_price_id = Some (px_id px), py_grant = Some (i, f, u), py_transaction_id = tn_id t,
              py_provider = ch_provider ch, py_external_ref = ch_external_ref ch, py_amount = amount,
              py_currency = cur, py_paid_at = paid\<rparr>" and
    inserted: "insert_row payments_table y s4 = Inr (z1, s5)" and
    emit1: "firm_emit z2 (pt_company_id p) (ch_actor ch) ''membership'' i None s5 = Inr ((), s6)" and
    emit2: "firm_emit z3 (pt_company_id p) (ch_actor ch) ''payment'' pid None s6 = Inr ((), s')"
    by (auto simp: book_purchase_def time_now_def steps_return Let_def)
  have step1: "book_step s s1" by (rule obeysD [OF book_paying_customer customer])
  have books1: "books s1" by (rule books_step [OF books step1])
  have granted: "stretch_granted p c paid i f u s1 s2" "sale_step s1 s2"
    using grant_stretch_granted [OF grant] by blast+
  have later: "book_step s2 s4"
    using book.trans obeysD [OF book_uuid7 drawn] obeysD [OF book_ledger_record recorded] by blast
  have sale: "sale_step s1 s4" by (rule sale_step_trans [OF granted(2) book_sale_step [OF later]])
  have "product_fixed s s1" using step1 by (simp add: book_step_def)
  then have prod1: "of_product s1 (new_membership p c (py_paid_at y) u i)"
    using prod by (fastforce simp: of_product_def product_fixed_def new_membership_def)
  have t: "t \<in> set (fi_transactions s4)" "booked y t"
    using ledger_record_some [OF recorded] by (auto simp: booked_def y purchase_posting_def)
  have pos: "f < u" and s5: "s5 = s4\<lparr>fi_payments := fi_payments s4 @ [y]\<rparr>"
    using insert_payment [OF inserted] by (auto simp: y)
  have "books s5"
    unfolding s5 by (rule books_sold [OF books1 prod1 _ later sale _ _ _ _ t pos])
      (simp_all add: y granted(1))
  then show ?thesis
    using books_step book.trans obeysD [OF book_emit emit1] obeysD [OF book_emit emit2] by blast
qed

lemma purchase_books: "keeps books (purchase ld px ch)"
proof (rule keepsI)
  fix s x s'
  assume books: "books s" and run: "purchase ld px ch s = Inr (x, s')"
  show "books s'"
  proof (cases "by_provider_ref s (ch_provider ch) (ch_external_ref ch)")
    case None
    then obtain p y where p: "row_of products_table s (px_product_id px) = Some p"
      and sold: "book_purchase ld px p ch s = Inr (y, s')"
      using run by (auto simp: purchase_def steps_return)
    have "pt_id p = px_product_id px"
      using find_row_key [OF p [unfolded row_of_def]] by (simp add: products_table_def)
    then show ?thesis using book_purchase_books [OF books _ sold] p by simp
  next
    case Some
    then show ?thesis using books run by (auto simp: purchase_def steps_return)
  qed
qed

lemma order_settle_books: "keeps books (order_settle ld pr n r x a t)"
  unfolding order_settle_def by (intro keeps_intros purchase_books book_keeps book_intros)

lemma shop_do_books: "keeps books (shop_do ld oper)"
proof (cases oper)
  case (Op_purchase px ch)
  then show ?thesis by (simp add: doneT_keeps purchase_books)
next
  case (Op_order_settle pr n r x a t)
  then show ?thesis by (simp add: doneT_keeps order_settle_books)
qed (simp_all add: doneT_keeps book_keeps book_intros)

lemma books_elsewhere: "elsewhere s s' \<Longrightarrow> book_step s s'"
  by (simp add: elsewhere_def book_step_def)

lemma books_empty: "empty_shop s \<Longrightarrow> books s"
  by (simp add: empty_shop_def books_def books_of_def)

lemma books_reachable: "shop_reachable ld s \<Longrightarrow> books s"
  unfolding shop_reachable_def
  by (elim exE conjE) (rule shop_run_keeps [where I = books], assumption, erule books_empty,
      rule shop_do_books, rule books_step, assumption, erule books_elsewhere)

section \<open>Payments are only added\<close>

definition payments_grow :: "firm \<Rightarrow> firm \<Rightarrow> bool" where
  "payments_grow s s' \<longleftrightarrow> (\<exists>rest. fi_payments s' = fi_payments s @ rest)"

interpretation growth: step_preorder payments_grow
  by unfold_locales (auto simp: payments_grow_def)

lemma grow_book: "obeys book_step m \<Longrightarrow> obeys payments_grow m"
  by (auto simp: obeys_def book_step_def payments_grow_def)

lemma grow_stretch: "obeys payments_grow (grant_stretch p c iv a t)"
proof (rule obeysI)
  fix s x s'
  assume run: "grant_stretch p c iv a t s = Inr (x, s')"
  obtain i f u e where "x = (i, f, u, e)" by (cases x)
  then show "payments_grow s s'"
    using grant_stretch_granted [of p c iv a t s i f u e s'] run by (simp add: sale_step_def payments_grow_def)
qed

lemma grow_payment: "obeys payments_grow (insert_row payments_table y)"
  using insert_payment by (fastforce simp: obeys_def payments_grow_def)

lemma grow_purchase: "obeys payments_grow (purchase ld px ch)"
  unfolding purchase_def book_purchase_def Let_def
  by (intro growth.rules grow_stretch grow_payment grow_book [OF book_paying_customer] grow_book [OF book_uuid7]
      grow_book [OF book_ledger_record] grow_book [OF book_emit] grow_book [OF book_time_now] grow_book [OF book_get_row])

lemma grow_done: "obeys payments_grow m \<Longrightarrow> obeys payments_grow (doneT m)"
  unfolding doneT_def by (intro growth.rules)

lemma grow_do: "obeys payments_grow (shop_do ld oper)"
proof (cases oper)
  case (Op_purchase px ch)
  then show ?thesis by (simp add: grow_done grow_purchase)
next
  case (Op_order_settle pr n r x a t)
  have "obeys payments_grow (order_settle ld pr n r x a t)"
    unfolding order_settle_def
    by (intro growth.rules grow_purchase grow_book [OF book_time_now] grow_book [OF book_get_row] grow_book [OF book_tables(6)])
  then show ?thesis using Op_order_settle by (simp add: grow_done)
qed (simp_all add: grow_done grow_book book_intros)

lemma grow_run: "shop_run ld s t \<Longrightarrow> payments_grow s t"
proof (induction rule: shop_run.induct)
  case (operation ld s t oper x t')
  show ?case by (rule growth.trans [OF operation.IH obeysD [OF grow_do operation.hyps(2)]])
next
  case (meanwhile ld s t t')
  then show ?case by (auto simp: payments_grow_def elsewhere_def)
qed (rule growth.refl)

lemma same_payments: "obeys book_step m \<Longrightarrow> m s = Inr (x, s') \<Longrightarrow> fi_payments s' = fi_payments s"
  by (auto simp: obeys_def book_step_def)

lemma book_purchase_adds:
  assumes run: "book_purchase ld px p ch s = Inr (y, s')"
  shows "fi_payments s' = fi_payments s @ [y] \<and> py_provider y = ch_provider ch \<and> py_external_ref y = ch_external_ref ch"
proof -
  from run obtain paid cur amount c i f u e pid t s1 s2 s3 s4 s5 s6 z1 z2 z3 where
    steps: "paying_customer p (ch_customer_ref ch) (ch_actor ch) paid s = Inr (c, s1)"
      "in_runtime uuid7 s2 = Inr (pid, s3)"
      "ledger_record ld (purchase_posting p c pid ch amount cur paid) s3 = Inr (Some t, s4)"
      "firm_emit z2 (pt_company_id p) (ch_actor ch) ''membership'' i None s5 = Inr ((), s6)"
      "firm_emit z3 (pt_company_id p) (ch_actor ch) ''payment'' pid None s6 = Inr ((), s')" and
    grant: "grant_stretch p c (px_interval px) (ch_actor ch) paid s1 = Inr ((i, f, u, e), s2)" and
    y: "py_provider y = ch_provider ch" "py_external_ref y = ch_external_ref ch" and
    inserted: "insert_row payments_table y s4 = Inr (z1, s5)"
    by (auto simp: book_purchase_def time_now_def steps_return Let_def)
  have "fi_payments s2 = fi_payments s1"
    using grant_stretch_granted [OF grant] by (simp add: sale_step_def)
  with y show ?thesis
    using same_payments [OF book_paying_customer steps(1)] same_payments [OF book_uuid7 steps(2)]
      same_payments [OF book_ledger_record steps(3)] same_payments [OF book_emit steps(4)]
      same_payments [OF book_emit steps(5)] insert_payment [OF inserted] by simp
qed

end
