(* ===== verification/CommerceDemo.thy ===== *)
theory CommerceDemo
  imports Books
begin

text \<open>A shop with one product and its first sale, worked out step by step.\<close>

definition demo_actor :: actor where
  "demo_actor = Actor_human ''owner''"

definition demo_ledger :: ledger where
  "demo_ledger = \<lparr>ld_fx = \<lparr>fx_base = ''TWD'', fx_rates = [(''USD'', 32)]\<rparr>\<rparr>"

definition demo_product :: product where
  "demo_product = \<lparr>pt_id = 3, pt_company_id = 1, pt_business_unit_id = 2, pt_key = ''membership'', pt_name = ''Daily'',
     pt_description = None, pt_state = Product_live, pt_public_url = None\<rparr>"

definition demo_offer :: product_price where
  "demo_offer = \<lparr>px_id = 4, px_company_id = 1, px_product_id = 3, px_amount = 300, px_currency = ''TWD'',
     px_interval = Per_month, px_state = Price_active\<rparr>"

definition demo_order :: purchase_order where
  "demo_order = \<lparr>od_id = 5, od_company_id = 1, od_price_id = 4, od_customer_ref = ''ann'', od_amount = 300,
     od_currency = ''TWD'', od_provider = ''bank'', od_mer_trade_no = ''AU1'', od_state = Order_pending, od_payment_id = None\<rparr>"

definition demo_db :: db where
  "demo_db = \<lparr>clock = 0, next_id = 10, next_seq = 1, tasks = [], runs = [], workflows = [], agents = [],
     activities = [], approvals = [], audit = [], events = [], decisions = [], cancelling = []\<rparr>"

definition demo_firm :: firm where
  "demo_firm = \<lparr>fi_costs = \<lparr>cs_db = demo_db, cs_calls = [], cs_reservations = [], cs_budgets = [], cs_cycles = []\<rparr>,
     fi_transactions = [], fi_customers = [], fi_prices = [], fi_memberships = [], fi_payments = [], fi_orders = [],
     fi_units = [], fi_departments = [], fi_positions = [], fi_products = [demo_product], fi_projects = [],
     fi_opportunities = [], fi_signals = [], fi_proposals = [], fi_kpis = [], fi_commands = [], fi_companies = [], fi_goals = [], fi_policies = []\<rparr>"

definition demo_charge :: charge where
  "demo_charge = \<lparr>ch_customer_ref = ''ann'', ch_provider = ''bank'', ch_external_ref = ''T1'', ch_actor = demo_actor,
     ch_amount = None, ch_currency = None, ch_paid_at = Some 0\<rparr>"

lemma quantize_300: "quantize 300 = Inr 300"
  using round_half_even_of_int [of 300000000] by (simp add: quantize_def PREC_def)

lemma demo_exponent: "leading_exponent 300 = 2"
  by (simp add: leading_exponent_def quotient_of_int [of 300, simplified] num_digits.simps pow10_def)

definition may_end :: instant where
  "may_end = 2678400000000"

lemma demo_interval: "add_interval 0 Per_month = Inr may_end"
  by code_simp

lemma demo_idents: "plain_ident ''membership''" "plain_ident ''bank''" "currency_like ''TWD''" "strip ''ann'' \<noteq> []"
  by code_simp+

definition demo_payment :: payment where
  "demo_payment = \<lparr>py_id = 13, py_company_id = 1, py_business_unit_id = 2, py_customer_id = 10, py_price_id = Some 4,
     py_grant = Some (12, 0, may_end), py_transaction_id = 14, py_provider = ''bank'', py_external_ref = ''T1'',
     py_amount = 300, py_currency = ''TWD'', py_paid_at = 0\<rparr>"

lemmas demo_defs = demo_ledger_def demo_product_def demo_offer_def demo_db_def demo_firm_def demo_charge_def

lemmas shop_code = purchase_def book_purchase_def paying_customer_def customer_by_ref_def acquire_def grant_stretch_def
  membership_of_def ledger_record_def to_base_def bind_err_def posted_def add_row_def insert_row_def in_runtime_def
  firm_emit_def new_event_def emit_def uuid7_def time_now_def get_row_def row_of_def by_provider_ref_def purchase_posting_def

definition demo_membership :: membership where
  "demo_membership = new_membership demo_product 10 0 may_end 12"

lemma demo_emit:
  "firm_emit p co a ty i cyc s = Inr ((), fi_put_db ((fi_db s)\<lparr>next_id := Suc (next_id (fi_db s)), next_seq := Suc (next_seq (fi_db s)),
     events := events (fi_db s) @ [\<lparr>e_event_id = next_id (fi_db s), e_seq = Some (next_seq (fi_db s)), e_company_id = co,
       e_occurred_at = clock (fi_db s), e_aggregate_type = ty, e_aggregate_id = i, e_agent_id = None, e_task_id = None,
       e_run_id = None, e_workflow_run_id = None, e_cycle_id = cyc, e_correlation_id = None, e_causation_id = None,
       e_actor = a, e_payload = BusinessP p\<rparr>]\<rparr>) s)"
  by (simp add: firm_emit_def in_runtime_def new_event_def emit_def uuid7_def tx_run no_refs_def fi_put_db_def
      e_persistence_def Let_def)

lemma demo_draw: "in_runtime uuid7 s = Inr (next_id (fi_db s), fi_put_db ((fi_db s)\<lparr>next_id := Suc (next_id (fi_db s))\<rparr>) s)"
  by (simp add: in_runtime_def uuid7_def tx_run)

lemma demo_sale:
  "\<exists>s'. purchase demo_ledger demo_offer demo_charge demo_firm = Inr ((demo_payment, True), s') \<and>
     fi_payments s' = [demo_payment] \<and> fi_memberships s' = [demo_membership] \<and>
     (\<exists>t. fi_transactions s' = [t] \<and> tn_amount t = 300 \<and> tn_id t = 14 \<and> tn_kind t = K_revenue \<and>
       tn_category t = REVENUE_CATEGORY)"
  by (simp add: purchase_def book_purchase_def paying_customer_def customer_by_ref_def acquire_def grant_stretch_def
      membership_of_def ledger_record_def to_base_def bind_err_def posted_def add_row_def insert_row_def
      time_now_def get_row_def row_of_def by_provider_ref_def purchase_posting_def demo_emit demo_draw tx_run
      demo_defs fi_db_def fi_put_db_def Let_def quantize_300 demo_interval demo_idents nonempty_def shop_tables products_table_def
      first_some_def demo_payment_def fits_money_def may_end_def REVENUE_CATEGORY_def demo_membership_def new_membership_def)

definition demo_sold :: firm where
  "demo_sold = (case purchase demo_ledger demo_offer demo_charge demo_firm of Inr r \<Rightarrow> snd r | Inl e \<Rightarrow> demo_firm)"

lemma demo_sold_run: "purchase demo_ledger demo_offer demo_charge demo_firm = Inr ((demo_payment, True), demo_sold)"
  using demo_sale by (auto simp: demo_sold_def)

lemma demo_sold_rows: "fi_payments demo_sold = [demo_payment]" "fi_memberships demo_sold = [demo_membership]"
proof -
  obtain s' where s': "purchase demo_ledger demo_offer demo_charge demo_firm = Inr ((demo_payment, True), s')"
    "fi_payments s' = [demo_payment]" "fi_memberships s' = [demo_membership]"
    using demo_sale by blast
  moreover have "s' = demo_sold" using s'(1) demo_sold_run by simp
  ultimately show "fi_payments demo_sold = [demo_payment]" "fi_memberships demo_sold = [demo_membership]" by simp_all
qed

lemma demo_reachable: "shop_reachable demo_ledger demo_sold"
proof -
  have "empty_shop demo_firm" by (simp add: empty_shop_def demo_firm_def)
  moreover have "shop_do demo_ledger (Op_purchase demo_offer demo_charge) demo_firm = Inr ((), demo_sold)"
    by (simp add: doneT_def bindT_def returnT_def demo_sold_run)
  ultimately show ?thesis
    unfolding shop_reachable_def using shop_run.start shop_run.operation by blast
qed

end
