(* ===== verification/CommerceProps.thy ===== *)
theory CommerceProps
  imports CommerceDemo
begin

text \<open>
  Properties of the shop: access is what was bought, money is booked once, and the two ways of
  counting members agree.
\<close>

section \<open>Access and money\<close>

text \<open>C7. In every reachable shop the access of a membership is exactly the stretches its payments bought:
  they follow one another without overlap, the last one ends where the membership does, and no instant
  between the membership's start and its end is left out.\<close>

theorem access_is_what_was_bought:
  assumes "shop_reachable ld s" "m \<in> set (fi_memberships s)"
  shows "tiled m (stretches (mb_id m) (fi_payments s))"
proof -
  have "books_of (map terms (fi_memberships s)) (fi_payments s) (fi_transactions s) (next_id (fi_db s))"
    using books_reachable [OF assms(1)] by (simp add: books_def)
  from books_ofD(5) [OF this, of "terms m"] assms(2) show ?thesis by (simp add: tiled_def)
qed

theorem access_is_what_was_bought_witness:
  "tiled demo_membership (stretches 12 (fi_payments demo_sold)) \<and> stretches 12 (fi_payments demo_sold) = [(0, may_end)]"
  using access_is_what_was_bought [OF demo_reachable, of demo_membership]
  by (simp add: demo_sold_rows demo_membership_def new_membership_def stretches_def demo_payment_def)

lemma unique_rows:
  assumes "unique_in tb rows" "r \<in> set rows" "q \<in> set rows" "r \<noteq> q"
  shows "\<not> tb_collide tb r q \<or> \<not> tb_collide tb q r"
proof -
  obtain i j where ij: "i < length rows" "j < length rows" "rows ! i = r" "rows ! j = q"
    using assms(2,3) by (meson in_set_conv_nth)
  with assms(4) consider "i < j" | "j < i" by (metis linorder_neqE_nat)
  then show ?thesis
    using assms(1) ij by cases (auto simp: unique_in_def sorted_wrt_iff_nth_less)
qed

text \<open>C8. In every reachable shop each payment has its row in the ledger: membership revenue for the
  same customer at the same time under the payment's own key, and no other payment shares that row.\<close>

theorem payment_is_booked_once:
  assumes "shop_reachable ld s" "p \<in> set (fi_payments s)"
  shows "\<exists>t\<in>set (fi_transactions s). booked p t \<and> (\<forall>q\<in>set (fi_payments s). booked q t \<longrightarrow> q = p)"
proof -
  have "books_of (map terms (fi_memberships s)) (fi_payments s) (fi_transactions s) (next_id (fi_db s))"
    using books_reachable [OF assms(1)] by (simp add: books_def)
  from books_ofD(3) [OF this assms(2)] obtain t where t: "t \<in> set (fi_transactions s)" "booked p t" by blast
  have "unique_in payments_table (fi_payments s)"
    using shop_typed_reachable [OF assms(1)] by (simp add: shop_typed_def well_typed_def payments_table_def)
  then have "q = p" if "q \<in> set (fi_payments s)" "booked q t" for q
    using unique_rows [of payments_table "fi_payments s" p q] assms(2) t(2) that
    by (auto simp: payments_table_def booked_def)
  with t show ?thesis by blast
qed

theorem payment_is_booked_once_witness:
  "\<exists>t\<in>set (fi_transactions demo_sold). tn_kind t = K_revenue \<and> tn_customer_id t = Some 10"
  using payment_is_booked_once [OF demo_reachable, of demo_payment]
  by (auto simp: demo_sold_rows booked_def demo_payment_def)

text \<open>A charge is taken once: after a purchase returned, whatever the shop and the rest of the
  company do next, the same provider reference is answered with the same payment, says that nothing was
  created, and changes nothing.\<close>

theorem charge_taken_once:
  assumes sold: "purchase ld px ch s = Inr ((p, created), s')" and later: "shop_run ld s' t"
    and same: "ch_provider ch' = ch_provider ch" "ch_external_ref ch' = ch_external_ref ch"
  shows "purchase ld px' ch' t = Inr ((p, False), t)"
proof -
  have find: "by_provider_ref s' (ch_provider ch) (ch_external_ref ch) = Some p"
  proof (cases "by_provider_ref s (ch_provider ch) (ch_external_ref ch)")
    case (Some q)
    with sold show ?thesis by (auto simp: purchase_def steps_return)
  next
    case None
    with sold obtain q where book: "book_purchase ld px q ch s = Inr (p, s')"
      by (auto simp: purchase_def steps_return)
    from None have "filter (\<lambda>q. py_provider q = ch_provider ch \<and> py_external_ref q = ch_external_ref ch) (fi_payments s) = []"
      by (simp add: by_provider_ref_def)
    with book_purchase_adds [OF book] show ?thesis by (simp add: by_provider_ref_def first_some_def)
  qed
  have "payments_grow s' t" by (rule grow_run [OF later])
  then have "by_provider_ref t (ch_provider ch) (ch_external_ref ch) = Some p"
    using find by (auto simp: payments_grow_def by_provider_ref_def first_some_def split: list.splits)
  then show ?thesis by (simp add: purchase_def same tx_run)
qed

theorem charge_taken_once_witness:
  "purchase demo_ledger demo_offer demo_charge demo_sold = Inr ((demo_payment, False), demo_sold)"
  using charge_taken_once [OF demo_sold_run shop_run.start] by simp

section \<open>Counting members\<close>

text \<open>The customers with a membership of the company (or of one unit) that has not run out.\<close>

definition live_members :: "firm \<Rightarrow> uuid \<Rightarrow> uuid option \<Rightarrow> instant \<Rightarrow> uuid set" where
  "live_members s company_id unit_id now = mb_customer_id ` {m \<in> set (fi_memberships s). mb_company_id m = company_id \<and>
     now < mb_expires_at m \<and> (case unit_id of None \<Rightarrow> True | Some u \<Rightarrow> mb_business_unit_id m = u)}"

lemma stretches_mem: "x \<in> set (stretches i ps) \<longleftrightarrow> (\<exists>p\<in>set ps. py_grant p = Some (i, fst x, snd x))"
proof
  assume "\<exists>p\<in>set ps. py_grant p = Some (i, fst x, snd x)"
  then obtain p where "p \<in> set ps" "py_grant p = Some (i, fst x, snd x)" by blast
  then show "x \<in> set (stretches i ps)" by (cases x) (force simp: stretches_def)
qed (rule stretches_grants)

lemma covering_is_live:
  assumes books: "books_of ms ps ts n" and paid: "\<forall>p\<in>set ps. py_paid_at p \<le> now"
    and scope: "scoped = filter (\<lambda>p. py_company_id p = company_id \<and> py_grant p \<noteq> None \<and>
       (case unit_id of None \<Rightarrow> True | Some u \<Rightarrow> py_business_unit_id p = u)) ps"
  shows "reach_covering scoped now c \<longleftrightarrow> (\<exists>m\<in>set ms. mb_customer_id m = c \<and> mb_company_id m = company_id \<and>
     now < mb_expires_at m \<and> (case unit_id of None \<Rightarrow> True | Some u \<Rightarrow> mb_business_unit_id m = u))"
    (is "?left \<longleftrightarrow> ?right")
proof
  assume ?left
  then obtain p i f u where p: "p \<in> set ps" "py_customer_id p = c" "py_company_id p = company_id"
    "case unit_id of None \<Rightarrow> True | Some u \<Rightarrow> py_business_unit_id p = u" "py_grant p = Some (i, f, u)" "now < u"
    by (auto simp: reach_covering_def list_ex_iff scope stretch_of_def)
  obtain m where m: "m \<in> set ms" "grants (mb_id m) p" "belongs p m"
    using books_ofD(4) [OF books p(1)] by blast
  with p have "(f, u) \<in> set (stretches (mb_id m) ps)"
    by (auto simp: stretches_mem grants_def)
  then have "u \<le> mb_expires_at m" using tiled_ends [OF books_ofD(5) [OF books m(1)]] by fastforce
  with m p show ?right by (intro bexI [of _ m]) (auto simp: belongs_def split: option.splits)
next
  assume ?right
  then obtain m where m: "m \<in> set ms" "mb_customer_id m = c" "mb_company_id m = company_id" "now < mb_expires_at m"
    "case unit_id of None \<Rightarrow> True | Some u \<Rightarrow> mb_business_unit_id m = u" by blast
  have "mb_started_at m \<le> now" using books_ofD(6) [OF books m(1)] paid by force
  then obtain f u where "(f, u) \<in> set (stretches (mb_id m) ps)" "f \<le> now" "now < u"
    using books_ofD(5) [OF books m(1)] m(4) by (auto simp: tiled_def covered_def)
  then obtain p where p: "p \<in> set ps" "py_grant p = Some (mb_id m, f, u)" "f \<le> now" "now < u"
    by (auto simp: stretches_mem)
  have "belongs p m"
  proof -
    obtain m2 where "m2 \<in> set ms" "grants (mb_id m2) p" "belongs p m2"
      using books_ofD(4) [OF books p(1)] by blast
    moreover from this have "m2 = m"
      using p(2) m(1) books_ofD(1) [OF books] by (auto simp: grants_def distinct_map inj_on_def)
    ultimately show ?thesis by simp
  qed
  then have "p \<in> set scoped \<and> py_customer_id p = c"
    using p m by (auto simp: scope belongs_def split: option.splits)
  then show ?left using p by (auto simp: reach_covering_def list_ex_iff stretch_of_def)
qed


lemma demo_numbers: "\<exists>n. membership_numbers demo_sold 1 0 5 None = Inr n"
proof -
  obtain s' t where s': "purchase demo_ledger demo_offer demo_charge demo_firm = Inr ((demo_payment, True), s')"
    "fi_payments s' = [demo_payment]" "fi_transactions s' = [t]" "tn_amount t = 300" "tn_id t = 14"
    "tn_kind t = K_revenue" "tn_category t = REVENUE_CATEGORY"
    using demo_sale by auto
  moreover have "s' = demo_sold" using s'(1) demo_sold_run by simp
  moreover have "dec_div 300 1 = 300"
    using round_half_even_of_int [of "300 * 10 ^ 25"]
    by (simp add: dec_div_def round_context_def PREC_def pow10_def demo_exponent)
  ultimately show ?thesis
    by (simp add: membership_numbers_def Let_def scoped_payments_def demo_payment_def revenue_of_payments_def
        bind_err_def quantize_300)
qed

lemma demo_live: "live_members demo_sold 1 None 5 = {10}"
proof -
  have "{m \<in> set (fi_memberships demo_sold). mb_company_id m = 1 \<and> 5 < mb_expires_at m} = {demo_membership}"
    by (auto simp: demo_sold_rows demo_membership_def new_membership_def demo_product_def may_end_def)
  moreover have "mb_customer_id demo_membership = 10"
    by (simp add: demo_membership_def new_membership_def)
  ultimately show ?thesis by (simp add: live_members_def)
qed


section \<open>Rows\<close>



section \<open>Orders\<close>

text \<open>C21. An order that is already paid buys again when it is settled under a reference the shop has not
  seen: a further payment is created for it.\<close>

theorem paid_order_buys_again:
  assumes order: "by_trade_number s provider n = Some r" "od_state r = Order_paid"
    and unseen: "by_provider_ref s provider ref = None"
    and run: "order_settle ld provider n ref amount actor paid_at s = Inr ((i, p, created), s')"
  shows "created \<and> fi_payments s' = fi_payments s @ [p]"
proof -
  from run order obtain px ch where bought: "purchase ld px ch s = Inr ((p, created), s')"
    "ch_provider ch = provider" "ch_external_ref ch = ref"
    by (auto simp: order_settle_def steps_return time_now_def)
  with unseen obtain q where "book_purchase ld px q ch s = Inr (p, s')" "created"
    by (auto simp: purchase_def steps_return)
  with book_purchase_adds show ?thesis by blast
qed

text \<open>C22. A payment that matches its order in every respect the code checks is not taken when the
  order's price was retired meanwhile: settling raises \<open>MembershipError\<close>, not a refusal of the notification.\<close>

theorem retired_price_fails_settlement:
  assumes "by_trade_number s provider n = Some r" "quantize amount = Inr (od_amount r)"
    "row_of prices_table s (od_price_id r) = Some px" "px_state px = Price_retired"
    "by_provider_ref s provider ref = None"
  shows "order_settle ld provider n ref amount actor paid_at s = Inl (MembershipError ''this price is retired'')"
  using assms by (simp add: order_settle_def tx_run time_now_def get_row_def purchase_def)

definition demo_settling :: "order_state \<Rightarrow> price_state \<Rightarrow> firm" where
  "demo_settling os ps = demo_firm\<lparr>fi_prices := [demo_offer\<lparr>px_state := ps\<rparr>],
     fi_orders := [demo_order\<lparr>od_state := os, od_payment_id := (if os = Order_paid then Some 9 else None)\<rparr>]\<rparr>"

theorem retired_price_fails_settlement_witness:
  "order_settle demo_ledger ''bank'' ''AU1'' ''T2'' 300 demo_actor None (demo_settling Order_pending Price_retired) =
     Inl (MembershipError ''this price is retired'')"
  by (rule retired_price_fails_settlement [where r = demo_order and px = "demo_offer\<lparr>px_state := Price_retired\<rparr>"])
    (simp_all add: demo_settling_def by_trade_number_def demo_order_def first_some_def quantize_300 row_of_def
      prices_table_def demo_offer_def by_provider_ref_def demo_firm_def)

lemma demo_again:
  "\<exists>i p s'. order_settle demo_ledger ''bank'' ''AU1'' ''T2'' 300 demo_actor (Some 0) (demo_settling Order_paid Price_active) =
     Inr ((i, p, True), s')"
  by (simp add: order_settle_def by_trade_number_def demo_settling_def demo_order_def
      purchase_def book_purchase_def paying_customer_def customer_by_ref_def acquire_def grant_stretch_def
      membership_of_def ledger_record_def to_base_def bind_err_def posted_def add_row_def insert_row_def
      time_now_def get_row_def row_of_def by_provider_ref_def purchase_posting_def demo_emit demo_draw tx_run
      demo_defs fi_db_def fi_put_db_def Let_def quantize_300 demo_interval demo_idents nonempty_def shop_tables products_table_def
      first_some_def fits_money_def may_end_def REVENUE_CATEGORY_def)

theorem paid_order_buys_again_witness:
  "\<exists>i p s'. order_settle demo_ledger ''bank'' ''AU1'' ''T2'' 300 demo_actor (Some 0) (demo_settling Order_paid Price_active) =
     Inr ((i, p, True), s') \<and> fi_payments s' = [p]"
proof -
  obtain i p s' where run: "order_settle demo_ledger ''bank'' ''AU1'' ''T2'' 300 demo_actor (Some 0)
      (demo_settling Order_paid Price_active) = Inr ((i, p, True), s')"
    using demo_again by blast
  have "by_trade_number (demo_settling Order_paid Price_active) ''bank'' ''AU1'' =
      Some (demo_order\<lparr>od_state := Order_paid, od_payment_id := Some 9\<rparr>)"
    "by_provider_ref (demo_settling Order_paid Price_active) ''bank'' ''T2'' = None"
    by (simp_all add: demo_settling_def by_trade_number_def by_provider_ref_def demo_order_def demo_firm_def first_some_def)
  from paid_order_buys_again [OF this(1) _ this(2) run] run show ?thesis
    by (auto simp: demo_settling_def demo_firm_def)
qed

text \<open>
  Properties of the settlement of a cycle: it posts what was metered, once; and of the calendar
  arithmetic a membership is sold by.
\<close>

section \<open>Settling the projects of a cycle\<close>

definition has_key :: "firm \<Rightarrow> string \<Rightarrow> bool" where
  "has_key s k \<longleftrightarrow> list_ex (\<lambda>r. tn_idempotency_key r = k) (fi_transactions s)"

definition usd :: "rat \<Rightarrow> rat" where
  "usd x = (case quantize x of Inr c \<Rightarrow> max 0 c | Inl _ \<Rightarrow> 0)"

text \<open>A project whose cost was posted: its amount converts, and the ledger has its key.\<close>

definition settled :: "ledger \<Rightarrow> cycle \<Rightarrow> firm \<Rightarrow> uuid option \<times> rat \<Rightarrow> bool" where
  "settled ld c s px \<longleftrightarrow> (\<exists>cost. quantize (snd px) = Inr cost \<and> (cost \<le> 0 \<or>
     (\<exists>cv. to_base (ld_fx ld) cost METER_CURRENCY = Inr cv \<and> 0 < cv_amount cv \<and>
       has_key s (cycle_cost_key (cy_id c) (fst px)))))"

lemma nonempty_meter: "nonempty (Some METER_CURRENCY) = Some METER_CURRENCY"
  by (simp add: nonempty_def METER_CURRENCY_def)

lemma has_key_step: "has_key s k \<Longrightarrow> book_step s s' \<Longrightarrow> has_key s' k"
  by (auto simp: has_key_def book_step_def)

lemma settled_step: "settled ld c s px \<Longrightarrow> book_step s s' \<Longrightarrow> settled ld c s' px"
  unfolding settled_def using has_key_step by blast

lemma cycle_record_settles:
  assumes run: "ledger_record ld (cycle_posting c p cost) s = Inr (r, s')" and pos: "quantize x = Inr cost"
  shows "settled ld c s' (p, x)"
proof -
  obtain cv where cv: "to_base (ld_fx ld) cost METER_CURRENCY = Inr cv" "0 < cv_amount cv"
    using run by (auto simp: ledger_record_def steps_return cycle_posting_def nonempty_meter split: if_splits)
  have "has_key s' (cycle_cost_key (cy_id c) p)"
  proof (cases r)
    case None
    then show ?thesis
      using run by (auto simp: ledger_record_def steps_return cycle_posting_def has_key_def split: if_splits)
  next
    case (Some t)
    then show ?thesis
      using ledger_record_some [of ld "cycle_posting c p cost" s t s'] run
      by (auto simp: has_key_def list_ex_iff cycle_posting_def)
  qed
  with cv pos show ?thesis by (auto simp: settled_def)
qed

lemma settle_projects_settles:
  "settle_projects ld c ps st s = Inr (st', s') \<Longrightarrow>
   (\<forall>px\<in>set ps. settled ld c s' px) \<and> se_total st' = se_total st + sum_list (map (usd \<circ> snd) ps)"
proof (induction ps arbitrary: st s)
  case Nil
  then show ?case by (simp add: steps_return)
next
  case (Cons px ps)
  obtain p x where px: "px = (p, x)" by fastforce
  from Cons.prems px obtain cost where cost: "quantize x = Inr cost"
    by (auto simp: steps_return)
  show ?case
  proof (cases "cost \<le> 0")
    case True
    then have "settle_projects ld c ps st s = Inr (st', s')"
      using Cons.prems px cost by (simp add: steps_return)
    from Cons.IH [OF this] True cost show ?thesis by (auto simp: px usd_def settled_def)
  next
    case False
    then obtain r s1 where rec: "ledger_record ld (cycle_posting c p cost) s = Inr (r, s1)"
      and rest: "settle_projects ld c ps (case r of
            None \<Rightarrow> st\<lparr>se_total := se_total st + cost, se_already_settled := True\<rparr>
          | Some t \<Rightarrow> st\<lparr>se_total := se_total st + cost, se_transactions := se_transactions st @ [t]\<rparr>) s1 = Inr (st', s')"
      using Cons.prems px cost by (auto simp: steps_return)
    have "book_step s1 s'" by (rule obeysD [OF book_settle_projects rest])
    then have "settled ld c s' (p, x)"
      using cycle_record_settles [OF rec cost] settled_step by blast
    with Cons.IH [OF rest] False cost show ?thesis
      by (cases r) (auto simp: px usd_def)
  qed
qed

lemma settle_projects_again:
  "(\<forall>px\<in>set ps. settled ld c s px) \<Longrightarrow>
   \<exists>b. settle_projects ld c ps st s =
     Inr (st\<lparr>se_total := se_total st + sum_list (map (usd \<circ> snd) ps), se_already_settled := b\<rparr>, s)"
proof (induction ps arbitrary: st)
  case Nil
  have "st\<lparr>se_total := se_total st, se_already_settled := se_already_settled st\<rparr> = st" by simp
  then show ?case by (auto simp: tx_run intro!: exI [of _ "se_already_settled st"])
next
  case (Cons px ps)
  obtain p x where px: "px = (p, x)" by fastforce
  with Cons.prems obtain cost where cost: "quantize x = Inr cost" and or: "cost \<le> 0 \<or>
      (\<exists>cv. to_base (ld_fx ld) cost METER_CURRENCY = Inr cv \<and> 0 < cv_amount cv \<and> has_key s (cycle_cost_key (cy_id c) p))"
    by (auto simp: settled_def)
  show ?case
  proof (cases "cost \<le> 0")
    case True
    then show ?thesis
      using Cons.IH [of st] Cons.prems by (auto simp: px cost tx_run usd_def)
  next
    case False
    with or obtain cv where "to_base (ld_fx ld) cost METER_CURRENCY = Inr cv" "0 < cv_amount cv"
      "has_key s (cycle_cost_key (cy_id c) p)" by blast
    then have "ledger_record ld (cycle_posting c p cost) s = Inr (None, s)"
      by (simp add: ledger_record_def tx_run cycle_posting_def nonempty_meter has_key_def)
    then show ?thesis
      using Cons.IH [of "st\<lparr>se_total := se_total st + cost, se_already_settled := True\<rparr>"] Cons.prems False
      by (auto simp: px cost tx_run usd_def add.assoc)
  qed
qed

section \<open>The settlement\<close>

text \<open>C17. Settling a cycle again posts nothing: in any later state of the shop with the same model calls,
  the second settlement returns, changes nothing, reports no transaction and the same total.\<close>

theorem settling_again_posts_nothing:
  assumes first: "settle_cycle ld c s = Inr (st, s')"
    and calls: "cycle_calls u (cy_id c) = cycle_calls s (cy_id c)" and later: "book_step s' u"
  shows "\<exists>st2. settle_cycle ld c u = Inr (st2, u) \<and> se_transactions st2 = [] \<and> se_total st2 = se_total st"
proof -
  let ?ps = "costs_per_project (cycle_calls s (cy_id c))"
  let ?st = "\<lparr>se_cycle_id = cy_id c, se_transactions = [], se_total = 0, se_already_settled = False\<rparr>"
  from first have run: "settle_projects ld c ?ps ?st s = Inr (st, s')"
    by (simp add: settle_cycle_def tx_run)
  then have "\<forall>px\<in>set ?ps. settled ld c u px"
    using settle_projects_settles [OF run] settled_step later by blast
  from settle_projects_again [OF this, of ?st] obtain b where
    "settle_projects ld c ?ps ?st u = Inr (?st\<lparr>se_total := 0 + sum_list (map (usd \<circ> snd) ?ps), se_already_settled := b\<rparr>, u)"
    by auto
  moreover have "se_total st = 0 + sum_list (map (usd \<circ> snd) ?ps)"
    using settle_projects_settles [OF run] by simp
  ultimately show ?thesis by (simp add: settle_cycle_def tx_run calls)
qed

text \<open>Amounts as the column keeps them: whole millionths.\<close>

definition in_micros :: "rat \<Rightarrow> bool" where
  "in_micros x \<longleftrightarrow> of_int \<lfloor>x * 10 ^ 6\<rfloor> = x * 10 ^ 6"

lemma in_microsI: "x * 10 ^ 6 = of_int n \<Longrightarrow> in_micros x"
  unfolding in_micros_def by simp

lemma in_micros_add:
  assumes "in_micros x" "in_micros y"
  shows "in_micros (x + y)"
proof (rule in_microsI)
  have "(x + y) * 10 ^ 6 = x * 10 ^ 6 + y * 10 ^ 6" by (rule distrib_right)
  also have "\<dots> = of_int (\<lfloor>x * 10 ^ 6\<rfloor> + \<lfloor>y * 10 ^ 6\<rfloor>)"
    using assms unfolding in_micros_def of_int_add by (rule arg_cong2 [OF sym sym])
  finally show "(x + y) * 10 ^ 6 = of_int (\<lfloor>x * 10 ^ 6\<rfloor> + \<lfloor>y * 10 ^ 6\<rfloor>)" .
qed

lemma in_micros_sum: "(\<And>x. x \<in> set xs \<Longrightarrow> in_micros x) \<Longrightarrow> in_micros (sum_list xs)"
proof (induction xs)
  case Nil
  then show ?case by (simp add: in_micros_def)
next
  case (Cons x xs)
  then have "in_micros (x + sum_list xs)" by (intro in_micros_add) simp_all
  then show ?case by simp
qed

lemma quantize_micros: "in_micros x \<Longrightarrow> quantize x = Inr c \<Longrightarrow> c = x"
proof -
  assume x: "in_micros x" and q: "quantize x = Inr c"
  have "round_half_even (x * 10 ^ 6) = \<lfloor>x * 10 ^ 6\<rfloor>"
    by (metis x in_micros_def round_half_even_of_int)
  then have "c = of_int \<lfloor>x * 10 ^ 6\<rfloor> / 10 ^ 6" using q by (auto simp: quantize_def Let_def split: if_splits)
  also have "\<dots> = x" using x by (simp add: in_micros_def)
  finally show ?thesis .
qed

lemma sum_by_group:
  fixes f :: "'a \<Rightarrow> rat"
  assumes "finite A" "g ` set xs \<subseteq> A"
  shows "(\<Sum>k\<in>A. sum_list (map f (filter (\<lambda>x. g x = k) xs))) = sum_list (map f xs)"
  using assms(2)
proof (induction xs)
  case (Cons x xs)
  have "(\<Sum>k\<in>A. sum_list (map f (filter (\<lambda>y. g y = k) (x # xs)))) =
      (\<Sum>k\<in>A. (if g x = k then f x else 0) + sum_list (map f (filter (\<lambda>y. g y = k) xs)))"
    by (rule sum.cong) auto
  also have "\<dots> = f x + sum_list (map f xs)"
    using Cons assms(1) by (simp add: sum.distrib)
  finally show ?case by simp
qed simp

text \<open>C18. A settlement adds up to the meter: when the metered costs are non-negative amounts of the
  money column, the total over the projects is the metered cost of the cycle.\<close>

theorem settlement_is_the_meter:
  assumes run: "settle_cycle ld c s = Inr (st, s')"
    and costs: "\<forall>m\<in>set (cycle_calls s (cy_id c)). in_micros (mc_cost_usd m) \<and> 0 \<le> mc_cost_usd m"
    and meter: "ledger_metered s (cy_id c) = Inr whole"
  shows "se_total st = whole"
proof -
  let ?calls = "cycle_calls s (cy_id c)"
  let ?of = "cost_of_project ?calls"
  have exact: "usd (?of p) = ?of p" if "\<exists>x. quantize (?of p) = Inr x" for p
  proof -
    have "in_micros (?of p)" "0 \<le> ?of p"
      using costs by (auto simp: cost_of_project_def intro!: in_micros_sum sum_list_nonneg)
    then show ?thesis using that quantize_micros [of "?of p"] by (fastforce simp: usd_def)
  qed
  have settling: "settle_projects ld c (costs_per_project ?calls)
      \<lparr>se_cycle_id = cy_id c, se_transactions = [], se_total = 0, se_already_settled = False\<rparr> s = Inr (st, s')"
    using run by (simp add: settle_cycle_def tx_run)
  note parts = settle_projects_settles [OF settling]
  have same: "usd (?of p) = ?of p" if "p \<in> set (remdups (map mc_project_id ?calls))" for p
  proof -
    have "(p, ?of p) \<in> set (costs_per_project ?calls)"
      using that by (simp add: costs_per_project_def)
    then show ?thesis using parts exact by (force simp: settled_def)
  qed
  have "se_total st = sum_list (map (usd \<circ> snd) (costs_per_project ?calls))"
    using parts by simp
  also have "\<dots> = sum_list (map (\<lambda>p. usd (?of p)) (remdups (map mc_project_id ?calls)))"
    by (simp add: costs_per_project_def comp_def)
  also have "\<dots> = sum_list (map ?of (remdups (map mc_project_id ?calls)))"
    by (rule arg_cong [of _ _ sum_list], rule map_cong [OF HOL.refl same])
  also have "\<dots> = (\<Sum>p\<in>set (map mc_project_id ?calls). ?of p)"
    by (simp add: sum_list_distinct_conv_sum_set)
  also have "\<dots> = sum_list (map mc_cost_usd ?calls)"
    unfolding cost_of_project_def by (rule sum_by_group) auto
  finally have sum: "se_total st = sum_list (map mc_cost_usd ?calls)" .
  have "in_micros (sum_list (map mc_cost_usd ?calls))"
    using costs by (intro in_micros_sum) auto
  then show ?thesis
    using quantize_micros [OF _ meter [unfolded ledger_metered_def]] sum by simp
qed

section \<open>A settled cycle\<close>

definition demo_cycle :: cycle where
  "demo_cycle = \<lparr>cy_id = 6, cy_company_id = 1, cy_seq = 1, cy_stage = C_MEASURING, cy_plan = None, cy_review = None,
     cy_governance = None, cy_started_at = 0, cy_stage_deadline = None, cy_ended_at = None\<rparr>"

definition demo_call :: model_call where
  "demo_call = \<lparr>mc_id = 7, mc_company_id = 1, mc_project_id = Some 8, mc_agent_id = None, mc_task_id = None, mc_run_id = None,
     mc_workflow_run_id = None, mc_cycle_id = Some 6, mc_role = ''writer'', mc_capability = ''x'', mc_alias = ''fast'',
     mc_provider = ''fake'', mc_model_id = ''m'', mc_ok = True, mc_stop_reason = None,
     mc_usage = \<lparr>us_input = 0, us_output = 0, us_cache_read = 0, us_cache_write = 0\<rparr>, mc_cost_usd = 2, mc_latency_ms = 0,
     mc_error = None, mc_created_at = 0\<rparr>"

definition demo_metered :: firm where
  "demo_metered = demo_firm\<lparr>fi_costs := (fi_costs demo_firm)\<lparr>cs_calls := [demo_call]\<rparr>\<rparr>"

lemma quantize_small: "quantize 2 = Inr 2" "quantize 64 = Inr 64"
  using round_half_even_of_int [of 2000000] round_half_even_of_int [of 64000000] by (simp_all add: quantize_def PREC_def)

lemma demo_model_cost: "plain_ident ''model_cost''"
  by code_simp

lemma demo_mul: "dec_mul 2 32 = 64"
proof -
  have "leading_exponent 64 = 1"
    by (simp add: leading_exponent_def quotient_of_int [of 64, simplified] num_digits.simps pow10_def)
  then show ?thesis
    using round_half_even_of_int [of "64 * 10 ^ 26"] by (simp add: dec_mul_def round_context_def PREC_def pow10_def)
qed

lemma demo_calls: "cycle_calls demo_metered 6 = [demo_call]" "ledger_metered demo_metered 6 = Inr 2"
  by (simp_all add: cycle_calls_def ledger_metered_def demo_metered_def demo_call_def quantize_small)

lemma demo_settles:
  "\<exists>t s'. settle_cycle demo_ledger demo_cycle demo_metered =
     Inr (\<lparr>se_cycle_id = 6, se_transactions = [t], se_total = 2, se_already_settled = False\<rparr>, s') \<and> tn_amount t = 64 \<and>
     fi_costs s' = (fi_costs demo_metered)\<lparr>cs_db := fi_db s'\<rparr>"
  by (simp add: settle_cycle_def costs_per_project_def cost_of_project_def cycle_calls_def demo_metered_def demo_call_def
      demo_cycle_def quantize_small demo_mul tx_run ledger_record_def to_base_def fx_rate_def bind_err_def posted_def
      add_row_def insert_row_def demo_emit demo_draw cycle_posting_def nonempty_meter time_now_def demo_ledger_def
      METER_CURRENCY_def demo_firm_def demo_db_def fi_db_def fi_put_db_def transactions_table_def Let_def MODEL_COST_def
      fits_money_def demo_model_cost demo_idents nonempty_def)

theorem settling_again_posts_nothing_witness:
  "\<exists>s' st2. settle_cycle demo_ledger demo_cycle s' = Inr (st2, s') \<and> se_transactions st2 = [] \<and> se_total st2 = 2"
proof -
  obtain t s' where run: "settle_cycle demo_ledger demo_cycle demo_metered =
     Inr (\<lparr>se_cycle_id = 6, se_transactions = [t], se_total = 2, se_already_settled = False\<rparr>, s')"
    and calls: "fi_costs s' = (fi_costs demo_metered)\<lparr>cs_db := fi_db s'\<rparr>"
    using demo_settles by blast
  have "cycle_calls s' (cy_id demo_cycle) = cycle_calls demo_metered (cy_id demo_cycle)"
    unfolding cycle_calls_def by (subst calls) simp
  from settling_again_posts_nothing [OF run this book.refl] show ?thesis by auto
qed

theorem settlement_is_the_meter_witness:
  "\<exists>st s'. settle_cycle demo_ledger demo_cycle demo_metered = Inr (st, s') \<and> se_total st = 2"
proof -
  obtain st s' where run: "settle_cycle demo_ledger demo_cycle demo_metered = Inr (st, s')"
    using demo_settles by blast
  have "\<forall>m\<in>set (cycle_calls demo_metered (cy_id demo_cycle)). in_micros (mc_cost_usd m) \<and> 0 \<le> mc_cost_usd m"
    by (simp add: demo_calls demo_cycle_def demo_call_def in_micros_def)
  moreover have "ledger_metered demo_metered (cy_id demo_cycle) = Inr 2"
    by (simp add: demo_calls demo_cycle_def)
  ultimately have "se_total st = 2" by (rule settlement_is_the_meter [OF run])
  with run show ?thesis by blast
qed

section \<open>What an interval buys\<close>

lemma month_shift:
  "days_before_month y' m - days_before_month y m =
     (if 3 \<le> m then (if leap_year y' then 1 else 0) - (if leap_year y then 1 else 0) else 0)"
  by (auto simp: days_before_month_def)

text \<open>A price's interval moves time forward by a calendar month or year: a purchase per month buys 28
  to 31 days, one per year 365 or 366, counted in whole days from the moment it starts.\<close>

theorem interval_bounds:
  assumes "add_interval t iv = Inr u"
  shows "\<exists>n. u = t + n * DAY \<and> (if iv = Per_month then 28 \<le> n \<and> n \<le> 31 else 365 \<le> n \<and> n \<le> 366)"
proof -
  obtain y m d where c: "civil (t div DAY) = (y, m, d)" by (cases "civil (t div DAY)")
  note v = civil_valid [OF c]
  have t: "t = (t div DAY) * DAY + t mod DAY" by simp
  define y2 where "y2 = y + (m - 1 + interval_months iv) div 12"
  define m2 where "m2 = (m - 1 + interval_months iv) mod 12 + 1"
  define n where "n = day_number y2 m2 (min d (days_in_month y2 m2)) - day_number y m d"
  have u: "u = (day_number y m d + n) * DAY + t mod DAY"
    using assms c by (simp add: add_interval_def Let_def y2_def m2_def n_def split: if_splits)
  have u': "u = t + n * DAY"
    unfolding u by (subst (2) t) (simp add: v(5) distrib_right)
  show ?thesis
  proof (cases iv)
    case Per_year
    have split: "(m - 1 + 12) div 12 = (m - 1) div 12 + 1" "(m - 1 + 12) mod 12 = (m - 1) mod 12"
      by (rule div_add_self2, simp) (rule mod_add_self2)
    have small: "(m - 1) div 12 = 0" "(m - 1) mod 12 = m - 1" using v(1,2) by simp_all
    have months: "interval_months iv = 12" by (simp add: Per_year interval_months_def)
    have "y2 = y + (0 + 1)" "m2 = m - 1 + 1"
      unfolding y2_def m2_def months split small by (rule refl)+
    then have ym: "y2 = y + 1" "m2 = m" by simp_all
    have n: "n = (if leap_year y then 366 else 365) + (days_before_month (y + 1) m - days_before_month y m) +
        (min d (days_in_month (y + 1) m) - d)"
      unfolding n_def ym day_number_def days_before_next_year by simp
    have "365 \<le> n \<and> n \<le> 366"
    proof (cases "m = 2")
      case True
      then show ?thesis using v(4) by (auto simp: n month_shift days_in_month_def min_def split: if_splits)
    next
      case False
      then have "min d (days_in_month (y + 1) m) = d"
        using v(4) by (simp add: days_in_month_def)
      then show ?thesis by (simp add: n month_shift)
    qed
    with u' Per_year show ?thesis by auto
  next
    case Per_month
    have "28 \<le> n \<and> n \<le> 31"
    proof (cases "m = 12")
      case True
      then have ym: "y2 = y + 1" "m2 = 1" by (simp_all add: y2_def m2_def Per_month interval_months_def)
      show ?thesis
        using v(3,4) days_in_month_bounds [of y 12] unfolding n_def ym True day_number_def year_length
        by (simp add: days_before_month_def days_in_month_def)
    next
      case False
      then have m: "1 \<le> m" "m < 12" using v(1,2) by simp_all
      then have ym: "y2 = y" "m2 = m + 1" by (simp_all add: y2_def m2_def Per_month interval_months_def)
      show ?thesis
        using v(3,4) days_in_month_bounds [of y m] days_in_month_bounds [of y "m + 1"]
        unfolding n_def ym day_number_def next_month [OF m] by linarith
    qed
    with u' Per_month show ?thesis by auto
  qed
qed

theorem interval_bounds_witness: "\<exists>n. may_end = 0 + n * DAY \<and> 28 \<le> n \<and> n \<le> 31"
  using interval_bounds [OF demo_interval] by simp

end
