(* ===== verification/Cycle.thy ===== *)
theory Cycle
  imports Ledger CompanyPolicy Dag
begin

text \<open>
  The company's operating loop (\<open>company/cycle.py\<close>): one cycle a day in five stages, each with a
  deadline, work to do on entry and conditions for ending early. A hook or a check is a function of
  the cycle's identifier; what the runner knows about them is in the theorems' hypotheses.
\<close>

section \<open>Stages\<close>

definition CYCLE_FSM :: "(cycle_stage, cycle) state_machine" where
  "CYCLE_FSM = \<lparr>entity_type = ''cycle'', states = [C_PLANNING, C_EXECUTING, C_MEASURING, C_REVIEWING, C_DONE],
     fsm_transitions = [(C_PLANNING, [C_EXECUTING]), (C_EXECUTING, [C_MEASURING]), (C_MEASURING, [C_REVIEWING]),
       (C_REVIEWING, [C_DONE])],
     initial = C_PLANNING, state_value = cycle_stage_value, guards = []\<rparr>"

definition STAGE_ORDER :: "cycle_stage list" where
  "STAGE_ORDER = [C_PLANNING, C_EXECUTING, C_MEASURING, C_REVIEWING, C_DONE]"

definition OPEN_STAGES :: "cycle_stage list" where
  "OPEN_STAGES = filter (\<lambda>st. st \<noteq> C_DONE) STAGE_ORDER"

fun stage_index :: "cycle_stage \<Rightarrow> cycle_stage list \<Rightarrow> nat" where
  "stage_index st [] = 0"
| "stage_index st (x # xs) = (if x = st then 0 else Suc (stage_index st xs))"

text \<open>\<open>STAGE_ORDER[STAGE_ORDER.index(was) + 1]\<close>: past the last one it raises.\<close>

definition next_stage :: "cycle_stage \<Rightarrow> cycle_stage option" where
  "next_stage st = (let i = stage_index st STAGE_ORDER + 1
     in if i < length STAGE_ORDER then Some (STAGE_ORDER ! i) else None)"

definition DEFAULT_STAGE_MINUTES :: "(cycle_stage \<times> int) list" where
  "DEFAULT_STAGE_MINUTES = [(C_PLANNING, 60), (C_EXECUTING, 13 * 60), (C_MEASURING, 60), (C_REVIEWING, 60)]"

definition STAGE_MINUTES_POLICY :: string where
  "STAGE_MINUTES_POLICY = ''company.cycle_stage_minutes''"

definition CYCLE_START_SCHEDULE :: string where
  "CYCLE_START_SCHEDULE = ''company.cycle_start''"

definition stage_of_text :: "string \<Rightarrow> cycle_stage option" where
  "stage_of_text t = first_some (filter (\<lambda>st. cycle_stage_value st = t) STAGE_ORDER)"

section \<open>Policies\<close>

definition get_policy :: "firm \<Rightarrow> uuid \<Rightarrow> string \<Rightarrow> json option" where
  "get_policy s company_id key =
     first_some (map (\<lambda>(_, _, v). v) (filter (\<lambda>(c, k, _). c = company_id \<and> k = key) (fi_policies s)))"

definition get_policies :: "firm \<Rightarrow> uuid \<Rightarrow> dict" where
  "get_policies s company_id =
     fold (\<lambda>(c, k, v) d. if c = company_id then dict_set k v d else d) (fi_policies s) []"

text \<open>
  One entry of the override: a stage that is none of the five or minutes that are no number are
  ignored. \<open>int\<close> of a JSON value raises only those two errors.
\<close>

definition override_minutes :: "(cycle_stage \<times> int) list \<Rightarrow> string \<times> json \<Rightarrow> (cycle_stage \<times> int) list" where
  "override_minutes minutes kv =
     (case (stage_of_text (fst kv), json_int (snd kv)) of
        (Some st, Inr n) \<Rightarrow> dict_set st n minutes
      | _ \<Rightarrow> minutes)"

fun falsy :: "json \<Rightarrow> bool" where
  "falsy JNull = True"
| "falsy (JBool b) = (\<not> b)"
| "falsy (JInt n) = (n = 0)"
| "falsy (JFloat r) = (parse_decimal r = Some (Fin 0))"
| "falsy (JStr t) = (t = [])"
| "falsy (JArr xs) = (xs = [])"
| "falsy (JObj d) = (d = [])"

definition stage_minutes :: "firm \<Rightarrow> uuid \<Rightarrow> err + (cycle_stage \<times> int) list" where
  "stage_minutes s company_id =
     (case get_policy s company_id STAGE_MINUTES_POLICY of
        None \<Rightarrow> Inr DEFAULT_STAGE_MINUTES
      | Some v \<Rightarrow>
          if falsy v then Inr DEFAULT_STAGE_MINUTES
          else case v of
                 JObj d \<Rightarrow> Inr (foldl override_minutes DEFAULT_STAGE_MINUTES d)
               | _ \<Rightarrow> Inl AttributeError)"

definition minutes :: "int \<Rightarrow> duration" where
  "minutes n = n * 60000000"

section \<open>The runner\<close>

record cycle_runner =
  ry_on_enter :: "cycle_stage \<Rightarrow> (uuid \<Rightarrow> unit firm_tx) list"
  ry_is_done :: "cycle_stage \<Rightarrow> (uuid \<Rightarrow> bool firm_tx) list"

definition when_entering :: "cycle_stage \<Rightarrow> (uuid \<Rightarrow> unit firm_tx) \<Rightarrow> cycle_runner \<Rightarrow> cycle_runner" where
  "when_entering st hook ry = ry\<lparr>ry_on_enter := (ry_on_enter ry)(st := ry_on_enter ry st @ [hook])\<rparr>"

definition finishes_when :: "cycle_stage \<Rightarrow> (uuid \<Rightarrow> bool firm_tx) \<Rightarrow> cycle_runner \<Rightarrow> cycle_runner" where
  "finishes_when st chk ry = ry\<lparr>ry_is_done := (ry_is_done ry)(st := ry_is_done ry st @ [chk])\<rparr>"

definition cycle_actor :: actor where
  "cycle_actor = Actor_system ''cycle-runner''"

definition firm_cycles :: "firm \<Rightarrow> cycle list" where
  "firm_cycles s = cs_cycles (fi_costs s)"

definition cycle_emit :: "payload \<Rightarrow> uuid \<Rightarrow> uuid \<Rightarrow> unit firm_tx" where
  "cycle_emit p company_id cycle_id =
     in_runtime (bindT (new_event p company_id cycle_actor ''cycle'' cycle_id (no_refs\<lparr>ref_cycle_id := Some cycle_id\<rparr>) None)
       (\<lambda>envelope. bindT (emit envelope) (\<lambda>_. returnT ())))"

definition company_cycles :: "firm \<Rightarrow> uuid \<Rightarrow> cycle list" where
  "company_cycles s company_id = filter (\<lambda>c. cy_company_id c = company_id) (firm_cycles s)"

definition last_seq :: "firm \<Rightarrow> uuid \<Rightarrow> nat" where
  "last_seq s company_id = foldr max (map cy_seq (company_cycles s company_id)) 0"

text \<open>\<open>ORDER BY seq DESC LIMIT 1\<close> of the cycles that are not done.\<close>

definition open_cycle :: "firm \<Rightarrow> uuid \<Rightarrow> cycle option" where
  "open_cycle s company_id =
     last_some (sort_key cy_seq (filter (\<lambda>c. cy_stage c \<noteq> C_DONE) (company_cycles s company_id)))"

definition enter_stage :: "cycle_runner \<Rightarrow> uuid \<Rightarrow> unit firm_tx" where
  "enter_stage ry cycle_id =
     bindT (get_row cycles_table cycle_id AttributeError) (\<lambda>c.
     forT (ry_on_enter ry (cy_stage c)) (\<lambda>hook. hook cycle_id))"

definition stage_deadline :: "firm \<Rightarrow> uuid \<Rightarrow> cycle_stage \<Rightarrow> instant \<Rightarrow> err + instant option" where
  "stage_deadline s company_id st now =
     bind_err (stage_minutes s company_id) (\<lambda>ms.
     if st = C_DONE then Inr None
     else case map_of ms st of
            None \<Rightarrow> Inl (KeyError (cycle_stage_value st))
          | Some n \<Rightarrow> Inr (Some (now + minutes n)))"

definition new_cycle :: "uuid \<Rightarrow> nat \<Rightarrow> instant \<Rightarrow> instant option \<Rightarrow> uuid \<Rightarrow> cycle" where
  "new_cycle company_id seq now deadline i = \<lparr>cy_id = i, cy_company_id = company_id, cy_seq = seq, cy_stage = C_PLANNING,
     cy_plan = None, cy_review = None, cy_governance = None, cy_started_at = now, cy_stage_deadline = deadline,
     cy_ended_at = None\<rparr>"

definition announce_cycle :: "cycle_runner \<Rightarrow> cycle \<Rightarrow> uuid firm_tx" where
  "announce_cycle ry c =
     bindT (cycle_emit (CompanyP (CycleStarted (cy_seq c) (cycle_stage_value C_PLANNING) (cy_stage_deadline c)))
       (cy_company_id c) (cy_id c)) (\<lambda>_.
     bindT (enter_stage ry (cy_id c)) (\<lambda>_. returnT (cy_id c)))"

definition cycle_start :: "cycle_runner \<Rightarrow> uuid \<Rightarrow> uuid firm_tx" where
  "cycle_start ry company_id =
     bindT (getsT (\<lambda>s. open_cycle s company_id)) (\<lambda>still_open.
     case still_open of
       Some c \<Rightarrow> throwT (CycleAlreadyOpen (cy_seq c) (cycle_stage_value (cy_stage c)))
     | None \<Rightarrow>
         bindT time_now (\<lambda>now.
         bindT (getsT (\<lambda>s. last_seq s company_id)) (\<lambda>last.
         bindT (getsT (\<lambda>s. stage_deadline s company_id C_PLANNING now)) (\<lambda>d.
         bindT (liftT d) (\<lambda>deadline.
         bindT (add_row cycles_table (new_cycle company_id (last + 1) now deadline)) (announce_cycle ry))))))"

text \<open>The daily schedule's handler: a cycle that is still open is logged, not an error.\<close>

definition cycle_schedule_handler :: "cycle_runner \<Rightarrow> uuid \<Rightarrow> unit firm_tx" where
  "cycle_schedule_handler ry company_id =
     tryT (bindT (cycle_start ry company_id) (\<lambda>_. returnT ()))
       (\<lambda>e. case e of CycleAlreadyOpen _ _ \<Rightarrow> returnT () | _ \<Rightarrow> throwT e)"

definition unfinished_tasks :: "firm \<Rightarrow> uuid \<Rightarrow> uuid list" where
  "unfinished_tasks s cycle_id = map t_id (filter (\<lambda>t. t_cycle_id t = Some cycle_id \<and>
     t_state t \<notin> set (terminal_states TASK_FSM)) (tasks (fi_db s)))"

definition record_timeout :: "cycle \<Rightarrow> cycle_stage \<Rightarrow> unit firm_tx" where
  "record_timeout c st =
     bindT (getsT (\<lambda>s. unfinished_tasks s (cy_id c))) (\<lambda>unfinished.
     cycle_emit (BusinessP (CycleB (CycleStageTimeout (cycle_stage_value st) unfinished))) (cy_company_id c) (cy_id c))"

text \<open>
  \<open>_advance\<close>: the end of the last stage is set on the row that the transition then flushes, so
  that the row never has one without the other.
\<close>

definition leave_stage :: "instant \<Rightarrow> cycle_stage \<Rightarrow> cycle \<Rightarrow> cycle" where
  "leave_stage now st c = c\<lparr>cy_stage := st, cy_ended_at := (if st = C_DONE then Some now else cy_ended_at c)\<rparr>"

definition cycle_transition :: "instant \<Rightarrow> uuid \<Rightarrow> cycle_stage \<Rightarrow> string option \<Rightarrow> unit firm_tx" where
  "cycle_transition now i nxt reason = row_transition CYCLE_FSM cycles_table cy_stage (leave_stage now) cy_company_id i nxt
     cycle_actor reason"

definition announce_stage :: "cycle_runner \<Rightarrow> cycle \<Rightarrow> cycle_stage \<Rightarrow> instant option \<Rightarrow> unit firm_tx" where
  "announce_stage ry c nxt deadline =
     bindT (change_row cycles_table (cy_id c) (\<lambda>c. c\<lparr>cy_stage_deadline := deadline\<rparr>)) (\<lambda>_.
     bindT (cycle_emit (CompanyP (CycleStageChanged (cycle_stage_value (cy_stage c)) (cycle_stage_value nxt) deadline))
       (cy_company_id c) (cy_id c)) (\<lambda>_.
     bindT (whenT (nxt = C_DONE) (cycle_emit (BusinessP (CycleB (CycleCompleted (cy_seq c)))) (cy_company_id c) (cy_id c))) (\<lambda>_.
     enter_stage ry (cy_id c))))"

definition advance_cycle :: "cycle_runner \<Rightarrow> uuid \<Rightarrow> bool \<Rightarrow> unit firm_tx" where
  "advance_cycle ry cycle_id timed_out =
     bindT (get_row cycles_table cycle_id AttributeError) (\<lambda>c.
     bindT (someT (next_stage (cy_stage c)) IndexError) (\<lambda>nxt.
     bindT (whenT timed_out (record_timeout c (cy_stage c))) (\<lambda>_.
     bindT time_now (\<lambda>now.
     bindT (cycle_transition now cycle_id nxt (if timed_out then Some ''deadline passed'' else None)) (\<lambda>_.
     bindT (getsT (\<lambda>s. stage_deadline s (cy_company_id c) nxt now)) (\<lambda>d.
     bindT (liftT d) (announce_stage ry c nxt)))))))"

definition overdue :: "instant \<Rightarrow> cycle \<Rightarrow> bool" where
  "overdue now c \<longleftrightarrow> (case cy_stage_deadline c of None \<Rightarrow> False | Some d \<Rightarrow> d \<le> now)"

fun all_say :: "(uuid \<Rightarrow> bool firm_tx) list \<Rightarrow> uuid \<Rightarrow> bool firm_tx" where
  "all_say [] i = returnT True"
| "all_say (chk # chks) i = bindT (chk i) (\<lambda>ok. if ok then all_say chks i else returnT False)"

definition stage_finished :: "cycle_runner \<Rightarrow> cycle \<Rightarrow> bool firm_tx" where
  "stage_finished ry c = all_say (ry_is_done ry (cy_stage c)) (cy_id c)"

text \<open>
  The loop of \<open>tick\<close>, with fuel for the passes: there are four stages to leave, so four passes
  and the last look are enough (\<open>tick_needs_five\<close>).
\<close>

fun tick_loop :: "nat \<Rightarrow> cycle_runner \<Rightarrow> uuid \<Rightarrow> bool \<Rightarrow> bool option firm_tx" where
  "tick_loop 0 ry i moved = returnT None"
| "tick_loop (Suc n) ry i moved =
     bindT (get_row cycles_table i AttributeError) (\<lambda>c.
     if cy_stage c = C_DONE then returnT (Some moved)
     else
       bindT time_now (\<lambda>now.
       bindT (if overdue now c then returnT True else stage_finished ry c) (\<lambda>go.
       if \<not> go then returnT (Some moved)
       else bindT (advance_cycle ry i (overdue now c)) (\<lambda>_. tick_loop n ry i True))))"

definition tick :: "nat \<Rightarrow> cycle_runner \<Rightarrow> uuid \<Rightarrow> uuid option firm_tx" where
  "tick n ry company_id =
     bindT (getsT (\<lambda>s. open_cycle s company_id)) (\<lambda>found.
     case found of
       None \<Rightarrow> returnT None
     | Some c \<Rightarrow> bindT (tick_loop n ry (cy_id c) False) (\<lambda>moved.
         returnT (if moved = Some True then Some (cy_id c) else None)))"

definition work_is_finished :: "uuid \<Rightarrow> bool firm_tx" where
  "work_is_finished cycle_id =
     getsT (\<lambda>s. \<not> list_ex (\<lambda>w. w_cycle_id w = Some cycle_id \<and> w_state w \<notin> set (terminal_states WORKFLOW_RUN_FSM))
       (workflows (fi_db s)))"

text \<open>The worker's maintenance job: each company in a savepoint of its own.\<close>

definition cycle_maintenance_job :: "nat \<Rightarrow> cycle_runner \<Rightarrow> uuid set option \<Rightarrow> unit firm_tx" where
  "cycle_maintenance_job n ry company_ids =
     bindT (getsT (\<lambda>s. map co_id (filter (\<lambda>c. co_status c = Company_active \<and>
       (case company_ids of None \<Rightarrow> True | Some ids \<Rightarrow> co_id c \<in> ids)) (fi_companies s)))) (\<lambda>ids.
     forT ids (\<lambda>i. tryT (bindT (tick n ry i) (\<lambda>_. returnT ())) (\<lambda>_. returnT ())))"

text \<open>The ledger's hook on the way into MEASURING.\<close>

definition ledger_stage_hook :: "ledger \<Rightarrow> uuid \<Rightarrow> unit firm_tx" where
  "ledger_stage_hook ld cycle_id =
     bindT (get_row cycles_table cycle_id AttributeError) (\<lambda>c. bindT (settle_cycle ld c) (\<lambda>_. returnT ()))"

end
