(* ===== verification/Opportunities.thy ===== *)
theory Opportunities
  imports Cycle
begin

text \<open>
  Opportunities and business proposals (\<open>company/opportunities.py\<close>): what might be a business, the
  observations about it, and the proposals that are put up for decision one at a time.
\<close>

definition OPPORTUNITY_FSM :: "(opportunity_state, opportunity) state_machine" where
  "OPPORTUNITY_FSM = \<lparr>entity_type = ''opportunity'',
     states = [O_discovered, O_evaluating, O_validating, O_approved, O_rejected, O_expired],
     fsm_transitions = [(O_discovered, [O_evaluating, O_rejected, O_expired]),
       (O_evaluating, [O_validating, O_approved, O_rejected, O_expired]),
       (O_validating, [O_approved, O_rejected, O_expired])],
     initial = O_discovered, state_value = opportunity_state_value, guards = []\<rparr>"

definition PROPOSAL_FSM :: "(proposal_state, business_proposal) state_machine" where
  "PROPOSAL_FSM = \<lparr>entity_type = ''business_proposal'',
     states = [V_draft, V_submitted, V_approved, V_rejected, V_superseded],
     fsm_transitions = [(V_draft, [V_submitted, V_superseded]), (V_submitted, [V_approved, V_rejected, V_superseded])],
     initial = V_draft, state_value = proposal_state_value, guards = []\<rparr>"

definition OPEN_OPPORTUNITIES :: "opportunity_state list" where
  "OPEN_OPPORTUNITIES = [O_discovered, O_evaluating, O_validating]"

section \<open>Opportunities\<close>

definition opportunity_by_key :: "firm \<Rightarrow> uuid \<Rightarrow> string \<Rightarrow> opportunity option" where
  "opportunity_by_key s company_id key =
     first_some (filter (\<lambda>o1. op_company_id o1 = company_id \<and> op_key o1 = key) (fi_opportunities s))"

definition opportunity_emit :: "opportunity \<Rightarrow> opportunity_payload \<Rightarrow> actor \<Rightarrow> (string \<times> uuid) option \<Rightarrow> unit firm_tx" where
  "opportunity_emit o1 p actor aggregate =
     (case aggregate of
        None \<Rightarrow> firm_emit (OpportunityB p) (op_company_id o1) actor ''opportunity'' (op_id o1) None
      | Some (kind, ident) \<Rightarrow> firm_emit (OpportunityB p) (op_company_id o1) actor kind ident None)"

record discovery =
  ds_key :: string
  ds_title :: string
  ds_thesis :: "string option"
  ds_market :: "string option"
  ds_expires_at :: "instant option"
  ds_run_id :: "uuid option"

definition discover :: "uuid \<Rightarrow> discovery \<Rightarrow> actor \<Rightarrow> opportunity firm_tx" where
  "discover company_id d actor =
     bindT (getsT (\<lambda>s. opportunity_by_key s company_id (ds_key d))) (\<lambda>existing.
     bindT (checkT (existing = None) (DuplicateOpportunity (ds_key d))) (\<lambda>_.
     bindT (add_row opportunities_table (\<lambda>i. \<lparr>op_id = i, op_company_id = company_id, op_key = ds_key d,
       op_title = ds_title d, op_thesis = ds_thesis d, op_market = ds_market d, op_state = O_discovered, op_score = None,
       op_discovered_by_run_id = ds_run_id d, op_decided_at = None, op_decided_by = None, op_decision_reason = None,
       op_expires_at = ds_expires_at d, op_business_unit_id = None\<rparr>)) (\<lambda>o1.
     bindT (opportunity_emit o1 (OpportunityDiscovered (ds_key d) (ds_title d) (ds_thesis d) (ds_market d)) actor None) (\<lambda>_.
     returnT o1))))"

record observation =
  ob_source :: string
  ob_summary :: string
  ob_metric :: "string option"
  ob_value :: "rat option"
  ob_observed_at :: "instant option"
  ob_evidence_ref :: "string option"
  ob_run_id :: "uuid option"

definition add_signal :: "opportunity \<Rightarrow> observation \<Rightarrow> actor \<Rightarrow> opportunity_signal firm_tx" where
  "add_signal o1 ob actor =
     bindT time_now (\<lambda>now.
     bindT (add_row signals_table (\<lambda>i. \<lparr>sg_id = i, sg_company_id = op_company_id o1, sg_opportunity_id = op_id o1,
       sg_source = ob_source ob, sg_summary = ob_summary ob, sg_metric = ob_metric ob, sg_value = ob_value ob,
       sg_observed_at = (case ob_observed_at ob of Some t \<Rightarrow> t | None \<Rightarrow> now), sg_evidence_ref = ob_evidence_ref ob,
       sg_recorded_by_run_id = ob_run_id ob\<rparr>)) (\<lambda>signal.
     bindT (opportunity_emit o1 (OpportunitySignalRecorded (op_key o1) (ob_source ob) (ob_summary ob) (ob_metric ob) (ob_value ob))
       actor None) (\<lambda>_.
     returnT signal)))"

definition score_opportunity :: "uuid \<Rightarrow> rat \<Rightarrow> actor \<Rightarrow> string option \<Rightarrow> unit firm_tx" where
  "score_opportunity i v actor reason =
     bindT (get_row opportunities_table i AttributeError) (\<lambda>o1.
     bindT (change_row opportunities_table i (\<lambda>o1. o1\<lparr>op_score := Some v\<rparr>)) (\<lambda>_.
     opportunity_emit o1 (OpportunityScored (op_key o1) v (op_score o1) reason) actor None))"

text \<open>
  \<open>advance\<close>. The decision's columns are set on the row before the transition flushes them with the
  new state, so a refused transition leaves none of them behind.
\<close>

definition decided_opportunity ::
    "opportunity_state \<Rightarrow> instant \<Rightarrow> actor \<Rightarrow> string option \<Rightarrow> uuid option \<Rightarrow> opportunity_state \<Rightarrow> opportunity \<Rightarrow> opportunity" where
  "decided_opportunity to now actor reason unit_id st o1 =
     (let o2 = (if to \<in> {O_approved, O_rejected, O_expired}
                then o1\<lparr>op_decided_at := Some now, op_decided_by := Some actor, op_decision_reason := reason\<rparr> else o1)
      in o2\<lparr>op_business_unit_id := (case unit_id of None \<Rightarrow> op_business_unit_id o2 | Some u \<Rightarrow> Some u), op_state := st\<rparr>)"

definition advance_event :: "opportunity \<Rightarrow> opportunity_state \<Rightarrow> string option \<Rightarrow> opportunity_payload" where
  "advance_event o1 to reason =
     (let was = opportunity_state_value (op_state o1)
      in if to = O_rejected
         then OpportunityRejected (op_key o1) was (case nonempty reason of Some r \<Rightarrow> r | None \<Rightarrow> ''no reason given'')
         else if to = O_expired then OpportunityExpired (op_key o1) was
         else OpportunityAdvanced (op_key o1) was (opportunity_state_value to) reason)"

definition advance_opportunity ::
    "uuid \<Rightarrow> opportunity_state \<Rightarrow> actor \<Rightarrow> string option \<Rightarrow> uuid option \<Rightarrow> unit firm_tx" where
  "advance_opportunity i to actor reason unit_id =
     bindT (get_row opportunities_table i AttributeError) (\<lambda>o1.
     bindT (checkT (to \<noteq> O_approved \<or> unit_id \<noteq> None)
       (OpportunityError ''an approved opportunity must name the business it became'')) (\<lambda>_.
     bindT time_now (\<lambda>now.
     bindT (row_transition OPPORTUNITY_FSM opportunities_table op_state (decided_opportunity to now actor reason unit_id)
       op_company_id i to actor reason) (\<lambda>_.
     opportunity_emit o1 (advance_event o1 to reason) actor None))))"

definition opportunities_due :: "firm \<Rightarrow> uuid \<Rightarrow> instant \<Rightarrow> opportunity list" where
  "opportunities_due s company_id now =
     filter (\<lambda>o1. op_company_id o1 = company_id \<and> op_state o1 \<in> set OPEN_OPPORTUNITIES \<and>
       (case op_expires_at o1 of None \<Rightarrow> False | Some t \<Rightarrow> t \<le> now)) (fi_opportunities s)"

definition expire_opportunities :: "uuid \<Rightarrow> uuid list firm_tx" where
  "expire_opportunities company_id =
     bindT time_now (\<lambda>now.
     bindT (getsT (\<lambda>s. map op_id (opportunities_due s company_id now))) (\<lambda>due.
     bindT (forT due (\<lambda>i. advance_opportunity i O_expired (Actor_system ''opportunities'')
       (Some ''nobody decided before it expired'') None)) (\<lambda>_. returnT due)))"

definition opportunities_hook :: "uuid \<Rightarrow> unit firm_tx" where
  "opportunities_hook cycle_id =
     bindT (get_row cycles_table cycle_id AttributeError) (\<lambda>c.
     bindT (expire_opportunities (cy_company_id c)) (\<lambda>_. returnT ()))"

text \<open>Best score first, the unscored last, then in the order they were written down.\<close>

definition open_opportunities :: "firm \<Rightarrow> uuid \<Rightarrow> nat \<Rightarrow> opportunity list" where
  "open_opportunities s company_id limit =
     (let rows = filter (\<lambda>o1. op_company_id o1 = company_id \<and> op_state o1 \<in> set OPEN_OPPORTUNITIES) (fi_opportunities s)
      in take limit (sort_key (\<lambda>o1. case op_score o1 of Some q \<Rightarrow> - q | None \<Rightarrow> 0) (filter (\<lambda>o1. op_score o1 \<noteq> None) rows) @
           filter (\<lambda>o1. op_score o1 = None) rows))"

section \<open>Proposals\<close>

definition proposals_for :: "firm \<Rightarrow> uuid \<Rightarrow> business_proposal list" where
  "proposals_for s opportunity_id = sort_key bp_version (filter (\<lambda>p. bp_opportunity_id p = opportunity_id) (fi_proposals s))"

definition latest_proposal :: "firm \<Rightarrow> uuid \<Rightarrow> proposal_state option \<Rightarrow> business_proposal option" where
  "latest_proposal s opportunity_id st =
     last_some (filter (\<lambda>p. case st of None \<Rightarrow> True | Some v \<Rightarrow> bp_state p = v) (proposals_for s opportunity_id))"

definition draft_proposal :: "opportunity \<Rightarrow> string \<Rightarrow> proposal_plan \<Rightarrow> actor \<Rightarrow> uuid option \<Rightarrow> business_proposal firm_tx" where
  "draft_proposal o1 title plan actor run_id =
     bindT (getsT (\<lambda>s. map bp_version (filter (\<lambda>p. bp_opportunity_id p = op_id o1) (fi_proposals s)))) (\<lambda>versions.
     bindT (add_row proposals_table (\<lambda>i. \<lparr>bp_id = i, bp_company_id = op_company_id o1, bp_opportunity_id = op_id o1,
       bp_version = foldr max versions 0 + 1, bp_state = V_draft, bp_title = title, bp_plan = plan,
       bp_authored_by_run_id = run_id, bp_approval_id = None, bp_decided_at = None, bp_decision_reason = None,
       bp_validation_project_id = None, bp_business_unit_id = None\<rparr>)) (\<lambda>p.
     bindT (opportunity_emit o1 (ProposalDrafted (op_key o1) (bp_version p) title) actor (Some (''business_proposal'', bp_id p)))
       (\<lambda>_. returnT p)))"

definition supersede :: "opportunity \<Rightarrow> business_proposal \<Rightarrow> actor \<Rightarrow> business_proposal \<Rightarrow> unit firm_tx" where
  "supersede o1 p actor older =
     bindT (row_transition PROPOSAL_FSM proposals_table bp_state (\<lambda>st p. p\<lparr>bp_state := st\<rparr>) bp_company_id
       (bp_id older) V_superseded actor (Some (''superseded by v'' @ nat_str (bp_version p)))) (\<lambda>_.
     opportunity_emit o1 (ProposalSuperseded (op_key o1) (bp_version older) (bp_version p)) actor
       (Some (''business_proposal'', bp_id older)))"

definition submitted_siblings :: "firm \<Rightarrow> business_proposal \<Rightarrow> business_proposal list" where
  "submitted_siblings s p = filter (\<lambda>q. bp_opportunity_id q = bp_opportunity_id p \<and> bp_id q \<noteq> bp_id p \<and>
     bp_state q = V_submitted) (fi_proposals s)"

definition submit_proposal :: "uuid \<Rightarrow> actor \<Rightarrow> unit firm_tx" where
  "submit_proposal i actor =
     bindT (get_row proposals_table i AttributeError) (\<lambda>p.
     bindT (get_row opportunities_table (bp_opportunity_id p) AssertionError) (\<lambda>o1.
     bindT (getsT (\<lambda>s. submitted_siblings s p)) (\<lambda>earlier.
     bindT (row_transition PROPOSAL_FSM proposals_table bp_state (\<lambda>st p. p\<lparr>bp_state := st\<rparr>) bp_company_id
       i V_submitted actor None) (\<lambda>_.
     bindT (opportunity_emit o1 (ProposalSubmitted (op_key o1) (bp_version p) (pp_startup_cost (bp_plan p))) actor
       (Some (''business_proposal'', i))) (\<lambda>_.
     forT earlier (supersede o1 p actor))))))"

definition decide_proposal :: "uuid \<Rightarrow> proposal_state \<Rightarrow> actor \<Rightarrow> string option \<Rightarrow> uuid option \<Rightarrow> unit firm_tx" where
  "decide_proposal i outcome actor reason approval_id =
     bindT (checkT (outcome \<in> {V_approved, V_rejected}) (OpportunityError ''a proposal is approved or rejected'')) (\<lambda>_.
     bindT (get_row proposals_table i AttributeError) (\<lambda>p.
     bindT (get_row opportunities_table (bp_opportunity_id p) AssertionError) (\<lambda>o1.
     bindT time_now (\<lambda>now.
     bindT (row_transition PROPOSAL_FSM proposals_table bp_state (\<lambda>st p. p\<lparr>bp_state := st, bp_decided_at := Some now,
       bp_decision_reason := reason, bp_approval_id := approval_id\<rparr>) bp_company_id i outcome actor reason) (\<lambda>_.
     opportunity_emit o1 (ProposalDecided (op_key o1) (bp_version p) (proposal_state_value outcome) reason) actor
       (Some (''business_proposal'', i)))))))"

end
