(* ===== verification/Desks.thy ===== *)
theory Desks
  imports Opportunities Commerce
begin

text \<open>
  The hooks that start work when a cycle enters a stage: the executive's planning and review
  (\<open>company/executive.py\<close>), the finance desk (\<open>company/finance.py\<close>), the exploration of an opportunity
  (\<open>company/exploration.py\<close>) and the weekly look at the market (\<open>company/market_watch.py\<close>). The
  templates are looked up in the registry the workflow engine was given.
\<close>

section \<open>Shared by the desks\<close>

definition staffed :: "firm \<Rightarrow> uuid \<Rightarrow> string \<Rightarrow> bool" where
  "staffed s company_id role =
     list_ex (\<lambda>a. a_company_id a = company_id \<and> a_role a = role \<and> a_status a = AG_ACTIVE) (agents (fi_db s))"

definition run_for :: "firm \<Rightarrow> uuid \<Rightarrow> string \<Rightarrow> workflow_run option" where
  "run_for s cycle_id template =
     first_some (filter (\<lambda>w. w_cycle_id w = Some cycle_id \<and> w_template_name w = template) (workflows (fi_db s)))"

definition run_states :: "firm \<Rightarrow> uuid \<Rightarrow> task_state list" where
  "run_states s run_id = map t_state (filter (\<lambda>t. t_workflow_run_id t = Some run_id) (tasks (fi_db s)))"

definition asked_is_done :: "string \<Rightarrow> uuid \<Rightarrow> bool firm_tx" where
  "asked_is_done template cycle_id =
     getsT (\<lambda>s. case run_for s cycle_id template of
        None \<Rightarrow> True
      | Some w \<Rightarrow> list_all (\<lambda>st. st \<in> set (terminal_states TASK_FSM)) (run_states s (w_id w)))"

definition instantiate_run :: "template_registry \<Rightarrow> string \<Rightarrow> cycle \<Rightarrow> uuid \<Rightarrow> dict \<Rightarrow> uuid firm_tx" where
  "instantiate_run reg template c project_id params =
     bindT (in_runtime (workflow_instantiate reg template (cy_company_id c) project_id (Some params) (Some (cy_id c))))
       (\<lambda>r. returnT (fst r))"

text \<open>A project found by name, or made on demand already active.\<close>

definition standing_project ::
    "uuid \<Rightarrow> (project \<Rightarrow> bool) \<Rightarrow> uuid option \<Rightarrow> string \<Rightarrow> string \<Rightarrow> dict \<Rightarrow> actor \<Rightarrow> project firm_tx" where
  "standing_project company_id found opportunity_id name description kill actor =
     bindT (getsT (\<lambda>s. first_some (filter (\<lambda>p. pj_company_id p = company_id \<and> found p) (fi_projects s)))) (\<lambda>existing.
     case existing of
       Some p \<Rightarrow> returnT p
     | None \<Rightarrow> add_row projects_table (\<lambda>i. \<lparr>pj_id = i, pj_company_id = company_id, pj_business_unit_id = None,
         pj_opportunity_id = opportunity_id, pj_name = name, pj_description = Some description, pj_state = J_active,
         pj_kill_criteria = Some kill, pj_created_by_run_id = None, pj_approved_by = Some actor,
         pj_override_reason = None\<rparr>))"

section \<open>The executive\<close>

definition CEO_ROLE :: string where
  "CEO_ROLE = ''ceo''"

definition PLAN_TEMPLATE :: string where
  "PLAN_TEMPLATE = ''company.cycle_plan_v1''"

definition REVIEW_TEMPLATE :: string where
  "REVIEW_TEMPLATE = ''company.cycle_review_v1''"

definition FALLBACK_POLICY :: string where
  "FALLBACK_POLICY = ''company.fallback_plan''"

definition OPERATIONS :: string where
  "OPERATIONS = ''Company operations''"

definition executive_actor :: actor where
  "executive_actor = Actor_system ''executive''"

definition one_node :: "string \<Rightarrow> string \<Rightarrow> string \<Rightarrow> string \<Rightarrow> workflow_template" where
  "one_node template name display role = \<lparr>wt_name = template,
     wt_nodes = [\<lparr>nd_name = name, nd_display_name = display, nd_required_role = role, nd_depends_on = [], nd_input = [],
       nd_output_schema_ref = None, nd_budget_usd = None, nd_max_attempts = 3, nd_priority = 100, nd_service = None\<rparr>],
     wt_loops = [], wt_halts = []\<rparr>"

definition EXECUTIVE_TEMPLATES :: "workflow_template list" where
  "EXECUTIVE_TEMPLATES = [one_node PLAN_TEMPLATE ''plan'' ''Plan cycle {seq}'' CEO_ROLE,
     one_node REVIEW_TEMPLATE ''review'' ''Review cycle {seq}'' CEO_ROLE]"

definition operations_project :: "uuid \<Rightarrow> actor \<Rightarrow> project firm_tx" where
  "operations_project company_id actor =
     standing_project company_id (\<lambda>p. pj_name p = OPERATIONS) None OPERATIONS
       ''Running the company itself: planning, review, and the executive's own work.''
       [(''note'', JStr ''the company's own work; it ends when the company does'')] actor"

definition seq_params :: "cycle \<Rightarrow> dict" where
  "seq_params c = [(''seq'', JInt (int (cy_seq c)))]"

definition executive_start :: "template_registry \<Rightarrow> string \<Rightarrow> uuid \<Rightarrow> unit firm_tx" where
  "executive_start reg template cycle_id =
     bindT (get_row cycles_table cycle_id AttributeError) (\<lambda>c.
     bindT (getsT (\<lambda>s. run_for s cycle_id template)) (\<lambda>started.
     if started \<noteq> None then returnT ()
     else
       bindT (getsT (\<lambda>s. staffed s (cy_company_id c) CEO_ROLE)) (\<lambda>ceo.
       if \<not> ceo then returnT ()
       else
         bindT (operations_project (cy_company_id c) executive_actor) (\<lambda>p.
         bindT (instantiate_run reg template c (pj_id p) (seq_params c)) (\<lambda>_. returnT ())))))"

text \<open>What the CEO produced: the output of the task that succeeded.\<close>

definition stage_output :: "firm \<Rightarrow> uuid \<Rightarrow> string \<Rightarrow> dict option" where
  "stage_output s cycle_id template =
     (case run_for s cycle_id template of
        None \<Rightarrow> None
      | Some w \<Rightarrow> (case first_some (filter (\<lambda>t. t_workflow_run_id t = Some (w_id w) \<and> t_state t = T_SUCCEEDED)
            (tasks (fi_db s))) of None \<Rightarrow> None | Some t \<Rightarrow> t_output t))"

definition why_missing :: "firm \<Rightarrow> uuid \<Rightarrow> string \<Rightarrow> string" where
  "why_missing s cycle_id template =
     (case run_for s cycle_id template of
        None \<Rightarrow> ''no CEO was asked''
      | Some w \<Rightarrow> (case first_some (filter (\<lambda>t. t_workflow_run_id t = Some (w_id w)) (tasks (fi_db s))) of
            None \<Rightarrow> ''the planning task is missing''
          | Some t \<Rightarrow>
              if t_state t = T_FAILED
              then ''the CEO's run failed after '' @ nat_str (t_attempt t) @ '' attempt(s)''
              else ''the stage ended with the CEO's task still '' @ task_state_value (t_state t)))"

definition previous_plan :: "firm \<Rightarrow> cycle \<Rightarrow> dict option" where
  "previous_plan s c =
     (case last_some (sort_key cy_seq (filter (\<lambda>d. cy_company_id d = cy_company_id c \<and> cy_seq d < cy_seq c \<and>
         cy_plan d \<noteq> None) (firm_cycles s))) of None \<Rightarrow> None | Some d \<Rightarrow> cy_plan d)"

definition fallback_plan :: "firm \<Rightarrow> cycle \<Rightarrow> dict" where
  "fallback_plan s c =
     (case map_of (get_policies s (cy_company_id c)) FALLBACK_POLICY of
        Some (JObj written) \<Rightarrow>
          dict_merge [(''by'', JStr ''fallback''), (''source'', JStr ''policy'')] written
      | _ \<Rightarrow>
          (let previous = (case previous_plan s c of None \<Rightarrow> [] | Some d \<Rightarrow> d)
           in [(''by'', JStr ''fallback''),
               (''source'', JStr (if previous = [] then ''nothing'' else ''last_cycle'')),
               (''goals'', JArr []),
               (''allocations'', case map_of previous ''allocations'' of None \<Rightarrow> JArr [] | Some v \<Rightarrow> v),
               (''rationale'', JStr ''No plan was made this cycle, so the company holds the position it was already in.'')]))"

definition settle_plan :: "uuid \<Rightarrow> unit firm_tx" where
  "settle_plan cycle_id =
     bindT (get_row cycles_table cycle_id AttributeError) (\<lambda>c.
     if cy_plan c \<noteq> None then returnT ()
     else
       bindT (getsT (\<lambda>s. stage_output s cycle_id PLAN_TEMPLATE)) (\<lambda>output.
       case output of
         Some d \<Rightarrow> change_row cycles_table cycle_id (\<lambda>c. c\<lparr>cy_plan := Some (dict_merge [(''by'', JStr ''ceo'')] d)\<rparr>)
       | None \<Rightarrow>
           bindT (getsT (\<lambda>s. why_missing s cycle_id PLAN_TEMPLATE)) (\<lambda>reason.
           bindT (getsT (\<lambda>s. fallback_plan s c)) (\<lambda>plan.
           bindT (change_row cycles_table cycle_id (\<lambda>c. c\<lparr>cy_plan := Some plan\<rparr>)) (\<lambda>_.
           firm_emit (CycleB (CyclePlanFallback reason)) (cy_company_id c) executive_actor ''cycle'' cycle_id (Some cycle_id))))))"

definition settle_review :: "uuid \<Rightarrow> unit firm_tx" where
  "settle_review cycle_id =
     bindT (get_row cycles_table cycle_id AttributeError) (\<lambda>c.
     if cy_review c \<noteq> None then returnT ()
     else
       bindT (getsT (\<lambda>s. stage_output s cycle_id REVIEW_TEMPLATE)) (\<lambda>output.
       bindT (getsT (\<lambda>s. why_missing s cycle_id REVIEW_TEMPLATE)) (\<lambda>reason.
       let review = (case output of
             Some d \<Rightarrow> dict_merge [(''by'', JStr ''ceo'')] d
           | None \<Rightarrow> [(''by'', JNull), (''missing'', JBool True), (''reason'', JStr reason)])
       in change_row cycles_table cycle_id (\<lambda>c. c\<lparr>cy_review := Some review\<rparr>))))"

definition install_executive :: "template_registry \<Rightarrow> cycle_runner \<Rightarrow> cycle_runner" where
  "install_executive reg ry =
     finishes_when C_REVIEWING (asked_is_done REVIEW_TEMPLATE)
       (finishes_when C_PLANNING (asked_is_done PLAN_TEMPLATE)
       (when_entering C_DONE settle_review
       (when_entering C_REVIEWING (executive_start reg REVIEW_TEMPLATE)
       (when_entering C_EXECUTING settle_plan
       (when_entering C_PLANNING (executive_start reg PLAN_TEMPLATE) ry)))))"

section \<open>The finance desk\<close>

definition FINANCE_ROLE :: string where
  "FINANCE_ROLE = ''finance''"

definition BUDGET_REVIEW_TEMPLATE :: string where
  "BUDGET_REVIEW_TEMPLATE = ''company.budget_review_v1''"

definition FINANCE_TEMPLATES :: "workflow_template list" where
  "FINANCE_TEMPLATES = [one_node BUDGET_REVIEW_TEMPLATE ''review_budgets'' ''Review budgets after cycle {seq}'' FINANCE_ROLE]"

definition finance_start :: "template_registry \<Rightarrow> uuid \<Rightarrow> unit firm_tx" where
  "finance_start reg cycle_id =
     bindT (get_row cycles_table cycle_id AttributeError) (\<lambda>c.
     bindT (getsT (\<lambda>s. run_for s cycle_id BUDGET_REVIEW_TEMPLATE)) (\<lambda>started.
     if started \<noteq> None then returnT ()
     else
       bindT (getsT (\<lambda>s. staffed s (cy_company_id c) FINANCE_ROLE)) (\<lambda>finance.
       if \<not> finance then returnT ()
       else
         bindT (operations_project (cy_company_id c) (Actor_system ''finance-desk'')) (\<lambda>p.
         bindT (instantiate_run reg BUDGET_REVIEW_TEMPLATE c (pj_id p) (seq_params c)) (\<lambda>_. returnT ())))))"

definition install_finance :: "template_registry \<Rightarrow> cycle_runner \<Rightarrow> cycle_runner" where
  "install_finance reg ry =
     finishes_when C_MEASURING (asked_is_done BUDGET_REVIEW_TEMPLATE) (when_entering C_MEASURING (finance_start reg) ry)"

section \<open>Exploration\<close>

definition STRATEGIST_ROLE :: string where
  "STRATEGIST_ROLE = ''strategist''"

definition PROPOSAL_TEMPLATE :: string where
  "PROPOSAL_TEMPLATE = ''company.business_proposal_v1''"

definition DEFAULT_EXPLORATION_CAP :: int where
  "DEFAULT_EXPLORATION_CAP = 64"

definition cost_cap :: "string \<Rightarrow> dict" where
  "cost_cap note = [(''auto_pause_if'', JObj [(''metric'', JStr ''cost''), (''op'', JStr ''>''), (''value'', JInt DEFAULT_EXPLORATION_CAP)]),
     (''note'', JStr note)]"

definition exploration_project :: "opportunity \<Rightarrow> actor \<Rightarrow> project firm_tx" where
  "exploration_project o1 actor =
     standing_project (op_company_id o1) (\<lambda>p. pj_opportunity_id p = Some (op_id o1)) (Some (op_id o1))
       (take 200 (''Explore: '' @ op_title o1)) ''Finding out whether this is a business worth opening.''
       (cost_cap ''exploring is meant to be cheap; past this it needs a decision, not more work'') actor"

text \<open>The best opportunity under evaluation that has no draft and no submitted proposal.\<close>

definition next_exploration :: "firm \<Rightarrow> uuid \<Rightarrow> opportunity option" where
  "next_exploration s company_id =
     first_some (filter (\<lambda>o1. op_state o1 = O_evaluating \<and>
       \<not> list_ex (\<lambda>p. bp_opportunity_id p = op_id o1 \<and> bp_state p \<in> {V_draft, V_submitted}) (fi_proposals s))
       (open_opportunities s company_id 20))"

definition exploration_start :: "template_registry \<Rightarrow> uuid \<Rightarrow> uuid option firm_tx" where
  "exploration_start reg cycle_id =
     bindT (get_row cycles_table cycle_id AttributeError) (\<lambda>c.
     bindT (getsT (\<lambda>s. staffed s (cy_company_id c) STRATEGIST_ROLE)) (\<lambda>strategist.
     if \<not> strategist then returnT None
     else
       bindT (getsT (\<lambda>s. run_for s cycle_id PROPOSAL_TEMPLATE)) (\<lambda>started.
       if started \<noteq> None then returnT None
       else
         bindT (getsT (\<lambda>s. next_exploration s (cy_company_id c))) (\<lambda>found.
         case found of
           None \<Rightarrow> returnT None
         | Some o1 \<Rightarrow>
             bindT (exploration_project o1 (Actor_system ''exploration'')) (\<lambda>p.
             bindT (instantiate_run reg PROPOSAL_TEMPLATE c (pj_id p)
               [(''title'', JStr (op_title o1)), (''opportunity_id'', JStr (uuid_str (op_id o1)))]) (\<lambda>r.
             returnT (Some r)))))))"

definition exploration_hook :: "template_registry \<Rightarrow> uuid \<Rightarrow> unit firm_tx" where
  "exploration_hook reg cycle_id = bindT (exploration_start reg cycle_id) (\<lambda>_. returnT ())"

section \<open>The market watch\<close>

definition BUSINESS_ROLE :: string where
  "BUSINESS_ROLE = ''business''"

definition WATCH_TEMPLATE :: string where
  "WATCH_TEMPLATE = ''company.market_watch_v1''"

definition WATCH_PROJECT :: string where
  "WATCH_PROJECT = ''Market watch''"

definition WATCH_EVERY :: duration where
  "WATCH_EVERY = 7 * DAY"

definition WATCH_SLACK :: duration where
  "WATCH_SLACK = 43200000000"

definition looked_recently :: "firm \<Rightarrow> cycle \<Rightarrow> bool" where
  "looked_recently s c =
     list_ex (\<lambda>w. w_company_id w = cy_company_id c \<and> w_template_name w = WATCH_TEMPLATE \<and>
       w_state w \<notin> {W_FAILED, W_CANCELLED} \<and> cy_started_at c - WATCH_EVERY + WATCH_SLACK < w_created_at w)
       (workflows (fi_db s))"

definition market_watch_project :: "uuid \<Rightarrow> actor \<Rightarrow> project firm_tx" where
  "market_watch_project company_id actor =
     standing_project company_id (\<lambda>p. pj_name p = WATCH_PROJECT) None WATCH_PROJECT
       ''Looking for what the company could do next: the business agent's weekly look.''
       (cost_cap ''looking is meant to be cheap; a look that costs more needs a decision'') actor"

definition watch_start :: "template_registry \<Rightarrow> uuid \<Rightarrow> uuid option firm_tx" where
  "watch_start reg cycle_id =
     bindT (get_row cycles_table cycle_id AttributeError) (\<lambda>c.
     bindT (getsT (\<lambda>s. staffed s (cy_company_id c) BUSINESS_ROLE)) (\<lambda>business.
     if \<not> business then returnT None
     else
       bindT (getsT (\<lambda>s. looked_recently s c)) (\<lambda>looked.
       if looked then returnT None
       else
         bindT (market_watch_project (cy_company_id c) (Actor_system ''market-watch'')) (\<lambda>p.
         if pj_state p \<noteq> J_active then returnT None
         else bindT (instantiate_run reg WATCH_TEMPLATE c (pj_id p) (seq_params c)) (\<lambda>r. returnT (Some r))))))"

definition watch_hook :: "template_registry \<Rightarrow> uuid \<Rightarrow> unit firm_tx" where
  "watch_hook reg cycle_id = bindT (watch_start reg cycle_id) (\<lambda>_. returnT ())"

section \<open>The hooks of memberships\<close>

definition memberships_hook :: "uuid \<Rightarrow> unit firm_tx" where
  "memberships_hook cycle_id =
     bindT (get_row cycles_table cycle_id AttributeError) (\<lambda>c.
     bindT time_now (\<lambda>now.
     bindT (expire_due_memberships (cy_company_id c) now (Actor_system ''memberships'')) (\<lambda>_. returnT ())))"

end
