(* ===== verification/CycleLaws.thy ===== *)
theory CycleLaws
  imports Cycle FirmTables Runtime
begin

text \<open>
  The laws of the cycle runner, for any hooks and checks that leave the stages of cycles to it:
  what a locale asks of them, and what start, advance and tick then keep.
\<close>

section \<open>What hooks leave alone\<close>

text \<open>A cycle without what its hooks write on it: the plan, the review and what the rules did.\<close>

definition skeleton :: "cycle \<Rightarrow> cycle" where
  "skeleton c = c\<lparr>cy_plan := None, cy_review := None, cy_governance := None\<rparr>"

lemma skeleton_simps [simp]:
  "cy_id (skeleton c) = cy_id c" "cy_company_id (skeleton c) = cy_company_id c" "cy_seq (skeleton c) = cy_seq c"
  "cy_stage (skeleton c) = cy_stage c" "cy_stage_deadline (skeleton c) = cy_stage_deadline c"
  by (simp_all add: skeleton_def)

text \<open>What is written there stays written.\<close>

definition kept :: "cycle \<Rightarrow> cycle \<Rightarrow> bool" where
  "kept c c' \<longleftrightarrow> skeleton c' = skeleton c \<and> (cy_plan c \<noteq> None \<longrightarrow> cy_plan c' \<noteq> None) \<and>
     (cy_review c \<noteq> None \<longrightarrow> cy_review c' \<noteq> None) \<and>
     (cy_governance c \<noteq> None \<longrightarrow> cy_governance c' \<noteq> None)"

definition cycle_frame :: "firm \<Rightarrow> firm \<Rightarrow> bool" where
  "cycle_frame s s' \<longleftrightarrow> list_all2 kept (firm_cycles s) (firm_cycles s') \<and> next_id (fi_db s) \<le> next_id (fi_db s')"

lemma kept_refl [simp]: "kept c c"
  by (simp add: kept_def)

lemma kept_all: "list_all2 kept cs cs"
  by (simp add: list.rel_refl)

lemma frame_skeletons: "cycle_frame s s' \<Longrightarrow> map skeleton (firm_cycles s') = map skeleton (firm_cycles s)"
  unfolding cycle_frame_def by (auto simp: list_all2_conv_all_nth kept_def intro!: nth_equalityI)

interpretation cycle: step_preorder cycle_frame
proof
  show "cycle_frame s s" for s by (simp add: cycle_frame_def kept_all)
  show "cycle_frame s u" if "cycle_frame s t" "cycle_frame t u" for s t u
    using that unfolding cycle_frame_def
    by (auto intro: list_all2_trans [of kept kept kept "firm_cycles s" "firm_cycles t"] simp: kept_def)
qed

named_theorems cycle_intros \<open>operations that leave the stages of cycles alone, by the shape of the program\<close>

lemmas [cycle_intros] = cycle.rules

lemma cycle_runtime:
  assumes m: "\<And>n. keeps (\<lambda>d. n \<le> next_id d) m"
  shows "obeys cycle_frame (in_runtime m)"
proof (rule obeysI)
  fix s x s'
  assume run: "in_runtime m s = Inr (x, s')"
  then obtain d where d: "m (fi_db s) = Inr (x, d)" and s': "s' = fi_put_db d s"
    by (auto simp: in_runtime_def tx_run split: sum.splits)
  show "cycle_frame s s'"
    using keepsD [OF m _ d, of "next_id (fi_db s)"] by (simp add: s' cycle_frame_def kept_all fi_db_def fi_put_db_def firm_cycles_def)
qed

lemma cycle_frames: "frames m \<Longrightarrow> obeys cycle_frame (in_runtime m)"
  by (rule cycle_runtime, rule keepsI) (use framesD in \<open>fastforce dest: framesD\<close>)

lemma cycle_instantiate [cycle_intros]: "obeys cycle_frame (in_runtime (workflow_instantiate reg name co pj ps cy))"
  by (rule cycle_runtime) (rule id_supply.instantiate_keeps)

lemma cycle_untouched:
  assumes "\<And>rs s. firm_cycles (tb_put tb rs s) = firm_cycles s" "\<And>rs s. fi_db (tb_put tb rs s) = fi_db s"
  shows "obeys cycle_frame (insert_row tb r)" "obeys cycle_frame (change_row tb i f)"
  unfolding obeys_def cycle_frame_def
  by (auto simp: insert_row_def change_row_def tx_run Let_def assms kept_all split: if_splits)

lemma cycle_tables [cycle_intros]:
  "obeys cycle_frame (insert_row transactions_table tr)" "obeys cycle_frame (insert_row customers_table cu)"
  "obeys cycle_frame (insert_row projects_table pj)" "obeys cycle_frame (insert_row kpis_table kp)"
  "obeys cycle_frame (insert_row opportunities_table op)" "obeys cycle_frame (insert_row proposals_table bp)"
  "obeys cycle_frame (insert_row signals_table sg)" "obeys cycle_frame (insert_row commands_table cm)"
  "obeys cycle_frame (change_row customers_table i f1)" "obeys cycle_frame (change_row memberships_table i f2)"
  "obeys cycle_frame (change_row projects_table i f3)" "obeys cycle_frame (change_row kpis_table i f4)"
  "obeys cycle_frame (change_row opportunities_table i f5)" "obeys cycle_frame (change_row proposals_table i f6)"
  "obeys cycle_frame (change_row units_table i f7)" "obeys cycle_frame (change_row commands_table i f8)"
  by (rule cycle_untouched; simp add: table_defs fi_db_def firm_cycles_def)+

text \<open>A hook may write on the cycle what its skeleton leaves out.\<close>

lemma cycle_note:
  assumes "\<And>c. kept c (f c)"
  shows "obeys cycle_frame (change_row cycles_table i f)"
proof (rule obeysI)
  fix s x s'
  assume "change_row cycles_table i f s = Inr (x, s')"
  then have "firm_cycles s' = update_row cy_id i f (firm_cycles s)" "fi_db s' = fi_db s"
    by (auto simp: change_row_def tx_run Let_def cycles_table_def firm_cycles_def fi_db_def split: if_splits)
  moreover have "list_all2 kept (firm_cycles s) (update_row cy_id i f (firm_cycles s))"
    by (simp add: update_row_def list_all2_conv_all_nth assms)
  ultimately show "cycle_frame s s'" by (simp add: cycle_frame_def)
qed

lemma cycle_uuid7 [cycle_intros]: "obeys cycle_frame (in_runtime uuid7)"
  by (intro cycle_frames frame_intros)

lemma cycle_emits [cycle_intros]:
  "obeys cycle_frame (firm_emit p co a ty i c)" "obeys cycle_frame (cycle_emit pl co i)"
  unfolding firm_emit_def cycle_emit_def by (intro cycle_frames frame_intros)+

lemma cycle_time_now [cycle_intros]: "obeys cycle_frame time_now"
  unfolding time_now_def by (rule cycle.basic(3))

lemma cycle_get_row [cycle_intros]: "obeys cycle_frame (get_row tb i e)"
  unfolding get_row_def by (intro cycle_intros)

lemma cycle_add_row [cycle_intros]: "(\<And>i. obeys cycle_frame (insert_row tb (r i))) \<Longrightarrow> obeys cycle_frame (add_row tb r)"
  unfolding add_row_def by (intro cycle_intros)

lemma cycle_row_transition [cycle_intros]:
  "(\<And>st. obeys cycle_frame (change_row tb i (set_state st))) \<Longrightarrow>
   obeys cycle_frame (row_transition m tb state set_state company i st actor rs)"
  unfolding row_transition_def by (intro cycle_intros cycle_frames frame_intros)

lemma cycle_when [cycle_intros]: "(b \<Longrightarrow> obeys cycle_frame m) \<Longrightarrow> obeys cycle_frame (whenT b m)"
  unfolding whenT_def by (intro cycle_intros)

section \<open>The numbering of cycles\<close>

text \<open>Cycles of one company are numbered from 1 in order, and only the last one may be open.\<close>

definition numbered :: "cycle list \<Rightarrow> nat \<Rightarrow> bool" where
  "numbered cs n \<longleftrightarrow> distinct (map cy_id cs) \<and> (\<forall>c\<in>set cs. cy_id c < n) \<and>
     (\<forall>co. let own = filter (\<lambda>c. cy_company_id c = co) cs
           in map cy_seq own = [1..<Suc (length own)] \<and> (\<forall>c\<in>set (butlast own). cy_stage c = C_DONE))"

definition cycles_ok :: "firm \<Rightarrow> bool" where
  "cycles_ok s \<longleftrightarrow> numbered (map skeleton (firm_cycles s)) (next_id (fi_db s))"

lemma numbered_mono: "numbered cs n \<Longrightarrow> n \<le> n' \<Longrightarrow> numbered cs n'"
  unfolding numbered_def by (auto dest: order.strict_trans2)

lemma cycles_frame: "cycles_ok s \<Longrightarrow> cycle_frame s s' \<Longrightarrow> cycles_ok s'"
  unfolding cycles_ok_def using frame_skeletons [of s s'] by (auto simp: cycle_frame_def intro: numbered_mono)

lemma filter_skeleton: "filter (\<lambda>c. cy_company_id c = co) (map skeleton cs) = map skeleton (filter (\<lambda>c. cy_company_id c = co) cs)"
  by (simp add: filter_map comp_def)

lemma numbered_skeleton: "numbered (map skeleton cs) n = numbered cs n"
  by (simp add: numbered_def filter_skeleton map_butlast [symmetric] comp_def Let_def)

lemma numbered_append:
  assumes ok: "numbered cs n" and new: "n \<le> cy_id c" "cy_id c < n'"
    and seq: "cy_seq c = Suc (length (filter (\<lambda>x. cy_company_id x = cy_company_id c) cs))"
    and none: "\<forall>x\<in>set cs. cy_company_id x = cy_company_id c \<longrightarrow> cy_stage x = C_DONE"
  shows "numbered (cs @ [c]) n'"
proof -
  have ids: "\<forall>x\<in>set cs. cy_id x < n" "distinct (map cy_id cs)" using ok by (auto simp: numbered_def)
  have own: "map cy_seq (filter (\<lambda>x. cy_company_id x = co) cs) = [1..<Suc (length (filter (\<lambda>x. cy_company_id x = co) cs))]"
    "\<forall>x\<in>set (butlast (filter (\<lambda>x. cy_company_id x = co) cs)). cy_stage x = C_DONE" for co
    using ok unfolding numbered_def Let_def by blast+
  have "let own = filter (\<lambda>x. cy_company_id x = co) (cs @ [c])
      in map cy_seq own = [1..<Suc (length own)] \<and> (\<forall>x\<in>set (butlast own). cy_stage x = C_DONE)" for co
  proof (cases "cy_company_id c = co")
    case True
    then show ?thesis using own(1) [of co] none seq by (auto simp: Let_def)
  next
    case False
    then show ?thesis using own [of co] by (simp add: Let_def)
  qed
  moreover have "distinct (map cy_id (cs @ [c]))" using ids new by fastforce
  moreover have "\<forall>x\<in>set (cs @ [c]). cy_id x < n'" using ids(1) new by fastforce
  ultimately show ?thesis unfolding numbered_def by blast
qed

lemma cycles_distinct: "cycles_ok s \<Longrightarrow> distinct (map cy_id (firm_cycles s))"
  unfolding cycles_ok_def numbered_skeleton by (simp add: numbered_def)

lemma filter_update:
  assumes "\<And>c. cy_company_id (f c) = cy_company_id c"
  shows "filter (\<lambda>c. cy_company_id c = co) (update_row cy_id i f cs) = update_row cy_id i f (filter (\<lambda>c. cy_company_id c = co) cs)"
  by (induction cs) (simp_all add: assms)

lemma numbered_update:
  assumes ok: "numbered cs n" and keep: "\<And>c. cy_id (f c) = cy_id c" "\<And>c. cy_company_id (f c) = cy_company_id c"
      "\<And>c. cy_seq (f c) = cy_seq c"
    and ends: "\<And>c. c \<in> set cs \<Longrightarrow> cy_id c = i \<Longrightarrow> cy_stage c = C_DONE \<Longrightarrow> cy_stage (f c) = C_DONE"
  shows "numbered (update_row cy_id i f cs) n"
proof -
  let ?g = "\<lambda>c. if cy_id c = i then f c else c"
  have "let own = filter (\<lambda>c. cy_company_id c = co) (update_row cy_id i f cs)
      in map cy_seq own = [1..<Suc (length own)] \<and> (\<forall>c\<in>set (butlast own). cy_stage c = C_DONE)" for co
  proof -
    let ?own = "filter (\<lambda>c. cy_company_id c = co) cs"
    have own: "map cy_seq ?own = [1..<Suc (length ?own)]" "\<forall>c\<in>set (butlast ?own). cy_stage c = C_DONE"
      using ok unfolding numbered_def Let_def by blast+
    have upd: "filter (\<lambda>c. cy_company_id c = co) (update_row cy_id i f cs) = map ?g ?own"
      unfolding filter_update [of f, OF keep(2)] by (simp add: update_row_def)
    have "map cy_seq (map ?g ?own) = map cy_seq ?own" by (simp add: keep(3))
    moreover have "cy_stage (?g c) = C_DONE" if "c \<in> set (butlast ?own)" for c
      using own(2) that ends [of c] in_set_butlastD [OF that] by auto
    then have "\<forall>c\<in>set (butlast (map ?g ?own)). cy_stage c = C_DONE"
      unfolding map_butlast [symmetric] set_map by blast
    ultimately show ?thesis
      unfolding upd Let_def using own(1) by simp
  qed
  moreover have "distinct (map cy_id (update_row cy_id i f cs))"
    using ok by (simp add: numbered_def update_row_keys [of cy_id f, OF keep(1)])
  moreover have "\<forall>c\<in>set (update_row cy_id i f cs). cy_id c < n"
    using ok set_update_row [of _ cy_id i f cs] by (fastforce simp: numbered_def keep(1))
  ultimately show ?thesis unfolding numbered_def by blast
qed

section \<open>The runner, for any hooks that leave the stages to it\<close>

lemma find_skeleton: "find_row cy_id i (map skeleton cs) = map_option skeleton (find_row cy_id i cs)"
  by (induction cs) simp_all

definition stage_at :: "firm \<Rightarrow> uuid \<Rightarrow> cycle_stage option" where
  "stage_at s i = map_option cy_stage (find_row cy_id i (firm_cycles s))"

lemma row_of_cycles: "row_of cycles_table s i = find_row cy_id i (firm_cycles s)"
  by (simp add: row_of_def cycles_table_def firm_cycles_def)

lemma stage_at_row: "row_of cycles_table s i = Some c \<Longrightarrow> stage_at s i = Some (cy_stage c)"
  by (simp add: stage_at_def row_of_cycles)

lemma frame_stage_at: "cycle_frame s s' \<Longrightarrow> stage_at s' i = stage_at s i"
proof -
  assume "cycle_frame s s'"
  then have "find_row cy_id i (map skeleton (firm_cycles s')) = find_row cy_id i (map skeleton (firm_cycles s))"
    by (simp add: frame_skeletons)
  then show ?thesis
    by (auto simp: find_skeleton stage_at_def map_option_case split: option.splits) (metis skeleton_simps(4))+
qed

lemma change_cycles:
  "change_row cycles_table i f s = Inr (x, s') \<Longrightarrow>
   firm_cycles s' = update_row cy_id i f (firm_cycles s) \<and> fi_db s' = fi_db s"
  by (auto simp: change_row_def tx_run Let_def cycles_table_def firm_cycles_def fi_db_def split: if_splits)

lemma cycle_check: "check CYCLE_FSM st c nxt = Inr (a, b) \<Longrightarrow> a = st \<and> b = nxt \<and> st \<noteq> C_DONE"
  by (cases st) (auto simp: check_def CYCLE_FSM_def Let_def allowed_from_def targets_def split: if_splits option.splits)

lemma cycle_transition_moves:
  assumes run: "cycle_transition now i nxt reason s = Inr (x, s')" and ok: "cycles_ok s"
  shows "cycles_ok s' \<and> stage_at s' i = Some nxt"
proof -
  from run obtain c s1 t where c: "row_of cycles_table s i = Some c" "cy_stage c \<noteq> C_DONE"
    and change: "change_row cycles_table i (leave_stage now nxt) s = Inr ((), s1)"
    and audit: "in_runtime (add_transition (entity_type CYCLE_FSM) (cy_company_id c) i
       (state_value CYCLE_FSM (cy_stage c)) (state_value CYCLE_FSM nxt) cycle_actor reason) s1 = Inr (t, s')"
    by (auto simp: cycle_transition_def row_transition_def steps_return dest!: cycle_check)
  note rows = change_cycles [OF change]
  have frame: "cycle_frame s1 s'"
    by (rule obeysD [OF cycle_frames [OF frames_add_transition] audit])
  have find: "find_row cy_id i (firm_cycles s) = Some c" using c by (simp add: row_of_cycles)
  have num: "numbered (firm_cycles s) (next_id (fi_db s))"
    using ok by (simp add: cycles_ok_def numbered_skeleton)
  have one: "d = c" if "d \<in> set (firm_cycles s)" "cy_id d = i" for d
    using find_row_unique [of cy_id "firm_cycles s" d] num that find by (simp add: numbered_def)
  have "numbered (update_row cy_id i (leave_stage now nxt) (firm_cycles s)) (next_id (fi_db s))"
    by (rule numbered_update [OF num]) (use one c in \<open>auto simp: leave_stage_def\<close>)
  then have "cycles_ok s1" using rows by (simp add: cycles_ok_def numbered_skeleton)
  moreover have "stage_at s1 i = Some nxt"
    using rows find by (simp add: stage_at_def find_row_update leave_stage_def)
  ultimately show ?thesis
    using cycles_frame [OF _ frame] frame_stage_at [OF frame] frame rows by (simp add: cycle_frame_def)
qed

definition rank :: "cycle_stage \<Rightarrow> nat" where
  "rank st = stage_index st STAGE_ORDER"

lemma rank_next: "next_stage st = Some nxt \<Longrightarrow> rank nxt = Suc (rank st)"
  by (cases st) (auto simp: rank_def next_stage_def STAGE_ORDER_def Let_def split: if_splits)

lemma rank_open: "st \<noteq> C_DONE \<Longrightarrow> rank st < 4" "rank st \<le> 4"
  by (cases st; simp add: rank_def STAGE_ORDER_def)+

lemma last_some_in: "last_some xs = Some x \<Longrightarrow> x \<in> set xs"
  unfolding last_some_def by (drule first_some_in) simp

lemma last_some_None [simp]: "last_some xs = None \<longleftrightarrow> xs = []"
  by (simp add: last_some_def)

lemma open_cycle_some:
  "open_cycle s co = Some c \<Longrightarrow> c \<in> set (firm_cycles s) \<and> cy_company_id c = co \<and> cy_stage c \<noteq> C_DONE"
  unfolding open_cycle_def by (drule last_some_in) (auto simp: company_cycles_def)

lemma open_cycle_none:
  assumes "open_cycle s co = None" "c \<in> set (firm_cycles s)" "cy_company_id c = co"
  shows "cy_stage c = C_DONE"
proof (rule ccontr)
  assume "cy_stage c \<noteq> C_DONE"
  with assms(2,3) have "c \<in> set (sort_key cy_seq (filter (\<lambda>c. cy_stage c \<noteq> C_DONE) (company_cycles s co)))"
    by (simp add: company_cycles_def)
  with assms(1) show False by (auto simp: open_cycle_def)
qed

lemma foldr_max_snoc: "foldr max (xs @ [x]) 0 = max (x :: nat) (foldr max xs 0)"
  by (induction xs) (simp_all add: max.left_commute)

lemma numbered_last:
  assumes "numbered cs n"
  shows "foldr max (map cy_seq (filter (\<lambda>c. cy_company_id c = co) cs)) 0 = length (filter (\<lambda>c. cy_company_id c = co) cs)"
proof -
  have top: "foldr max [1..<Suc k] 0 = k" for k :: nat
  proof (induction k)
    case (Suc k)
    have step: "[1..<Suc (Suc k)] = [1..<Suc k] @ [Suc k]" by simp
    show ?case unfolding step foldr_max_snoc Suc by simp
  qed simp
  have "map cy_seq (filter (\<lambda>c. cy_company_id c = co) cs) = [1..<Suc (length (filter (\<lambda>c. cy_company_id c = co) cs))]"
    using assms unfolding numbered_def Let_def by blast
  then show ?thesis by (simp only: top)
qed

interpretation unchanged: step_preorder "(=)"
  by unfold_locales simp_all

locale cycle_hooks =
  fixes ry :: cycle_runner
  assumes hook: "h \<in> set (ry_on_enter ry st) \<Longrightarrow> obeys cycle_frame (h i)"
    and reads: "k \<in> set (ry_is_done ry st) \<Longrightarrow> obeys (=) (k i)"
begin

lemma enter: "obeys cycle_frame (enter_stage ry i)"
  unfolding enter_stage_def by (intro cycle_intros hook)

lemma all_read: "(\<And>k. k \<in> set ks \<Longrightarrow> obeys (=) (k i)) \<Longrightarrow> obeys (=) (all_say ks i)"
  by (induction ks) (auto intro!: unchanged.rules)

lemma finished_reads:
  assumes "stage_finished ry c s = Inr (b, s')"
  shows "s' = s"
proof -
  have "obeys (=) (all_say (ry_is_done ry (cy_stage c)) (cy_id c))"
    by (rule all_read) (rule reads)
  then have "s = s'" by (rule obeysD) (rule assms [unfolded stage_finished_def])
  then show ?thesis ..
qed

lemma finished: "obeys cycle_frame (stage_finished ry c)"
  by (rule obeysI) (auto dest: finished_reads simp: cycle.refl)

text \<open>The steps of a move: what comes before it and after it leaves the stages alone.\<close>

lemma advance_steps:
  assumes run: "advance_cycle ry i late s = Inr (x, s')"
  obtains c nxt s1 s2 s3 s4 now reason deadline where "row_of cycles_table s i = Some c" "next_stage (cy_stage c) = Some nxt"
    "cycle_frame s s1" "cycle_transition now i nxt reason s1 = Inr ((), s2)"
    "change_row cycles_table i (\<lambda>c. c\<lparr>cy_stage_deadline := deadline\<rparr>) s2 = Inr ((), s3)"
    "cycle_frame s3 s4" "enter_stage ry i s4 = Inr ((), s')"
proof -
  from run obtain c nxt s1 s2 now reason deadline y z where
    c: "row_of cycles_table s i = Some c" "next_stage (cy_stage c) = Some nxt" and
    timeout: "whenT late (record_timeout c (cy_stage c)) s = Inr (y, s1)" and
    moved: "cycle_transition now i nxt reason s1 = Inr (z, s2)" and
    rest: "announce_stage ry c nxt deadline s2 = Inr (x, s')"
    by (auto simp: advance_cycle_def steps_return time_now_def)
  have id: "cy_id c = i" using find_row_key [OF c(1) [unfolded row_of_cycles]] .
  have "obeys cycle_frame (whenT late (record_timeout c (cy_stage c)))"
    unfolding record_timeout_def by (intro cycle_intros)
  then have first: "cycle_frame s s1" using timeout by (rule obeysD)
  from rest obtain s3 s5 s4 u v w where change: "change_row cycles_table i (\<lambda>c. c\<lparr>cy_stage_deadline := deadline\<rparr>) s2 = Inr (u, s3)"
    and told: "cycle_emit (CompanyP (CycleStageChanged (cycle_stage_value (cy_stage c)) (cycle_stage_value nxt) deadline))
        (cy_company_id c) i s3 = Inr (v, s5)"
    and ended: "whenT (nxt = C_DONE) (cycle_emit (BusinessP (CycleB (CycleCompleted (cy_seq c)))) (cy_company_id c) i) s5 = Inr (w, s4)"
    and enters: "enter_stage ry i s4 = Inr (x, s')"
    unfolding announce_stage_def id bindT_Inr_iff by blast
  have "obeys cycle_frame (whenT (nxt = C_DONE) (cycle_emit (BusinessP (CycleB (CycleCompleted (cy_seq c)))) (cy_company_id c) i))"
    by (intro cycle_intros)
  then have "cycle_frame s5 s4" using ended by (rule obeysD)
  with obeysD [OF cycle_emits(2) told] have "cycle_frame s3 s4" by (rule cycle.trans)
  then show thesis using that c first moved change enters by simp
qed

lemma advances:
  assumes run: "advance_cycle ry i late s = Inr (x, s')" and ok: "cycles_ok s"
  shows "cycles_ok s' \<and>
    (\<exists>st nxt. stage_at s i = Some st \<and> next_stage st = Some nxt \<and> stage_at s' i = Some nxt)"
proof (rule advance_steps [OF run])
  fix c nxt s1 s2 s3 s4 now reason deadline
  assume c: "row_of cycles_table s i = Some c" "next_stage (cy_stage c) = Some nxt" and first: "cycle_frame s s1"
    and moved: "cycle_transition now i nxt reason s1 = Inr ((), s2)"
    and change: "change_row cycles_table i (\<lambda>c. c\<lparr>cy_stage_deadline := deadline\<rparr>) s2 = Inr ((), s3)"
    and told: "cycle_frame s3 s4" and enters: "enter_stage ry i s4 = Inr ((), s')"
  have at: "stage_at s i = Some (cy_stage c)" by (rule stage_at_row [OF c(1)])
  note mv = cycle_transition_moves [OF moved cycles_frame [OF ok first]]
  have frame: "cycle_frame s3 s'" using told obeysD [OF enter enters] by (rule cycle.trans)
  note rows = change_cycles [OF change]
  have "numbered (update_row cy_id i (\<lambda>c. c\<lparr>cy_stage_deadline := deadline\<rparr>) (firm_cycles s2)) (next_id (fi_db s2))"
    by (rule numbered_update) (use mv in \<open>simp_all add: cycles_ok_def numbered_skeleton\<close>)
  then have ok3: "cycles_ok s3" using rows by (simp add: cycles_ok_def numbered_skeleton)
  have at3: "stage_at s3 i = stage_at s2 i"
    using rows by (simp add: stage_at_def find_row_update option.map_comp comp_def)
  show ?thesis
    using cycles_frame [OF ok3 frame] mv at at3 c(2) frame_stage_at [OF frame, of i] by simp
qed

lemma starts:
  assumes run: "cycle_start ry co s = Inr (i, s')" and ok: "cycles_ok s"
  shows "cycles_ok s'"
proof -
  from run obtain c now deadline s1 where none: "open_cycle s co = None"
    and add: "add_row cycles_table (new_cycle co (last_seq s co + 1) now deadline) s = Inr (c, s1)"
    and rest: "announce_cycle ry c s1 = Inr (i, s')"
    by (auto simp: cycle_start_def steps_return time_now_def throwT_def split: option.splits)
  have "obeys cycle_frame (announce_cycle ry c)"
    unfolding announce_cycle_def by (intro cycle_intros enter)
  then have frame: "cycle_frame s1 s'" using rest by (rule obeysD)
  have num: "numbered (firm_cycles s) (next_id (fi_db s))"
    using ok by (simp add: cycles_ok_def numbered_skeleton)
  have rows: "firm_cycles s1 = firm_cycles s @ [c]" and c: "cy_id c = next_id (fi_db s)" "cy_company_id c = co"
    "cy_seq c = last_seq s co + 1"
    using cycles.add_rows [OF add] by (simp_all add: cycles_table_def firm_cycles_def new_cycle_def)
  have next1: "next_id (fi_db s1) = Suc (next_id (fi_db s))"
    using add by (auto simp: add_row_def in_runtime_def uuid7_def insert_row_def tx_run cycles_table_def fi_db_def fi_put_db_def
        split: if_splits)
  have "numbered (firm_cycles s @ [c]) (next_id (fi_db s1))"
  proof (rule numbered_append [OF num])
    show "cy_seq c = Suc (length (filter (\<lambda>x. cy_company_id x = cy_company_id c) (firm_cycles s)))"
      using numbered_last [OF num, of co] by (simp add: c last_seq_def company_cycles_def)
    show "\<forall>x\<in>set (firm_cycles s). cy_company_id x = cy_company_id c \<longrightarrow> cy_stage x = C_DONE"
      using open_cycle_none [OF none] c by blast
  qed (use c next1 in simp_all)
  then have "cycles_ok s1" by (simp only: cycles_ok_def numbered_skeleton rows)
  then show ?thesis using frame by (rule cycles_frame)
qed

text \<open>A pass of the loop of \<open>tick\<close> either ends it, with nothing changed, or moves the cycle on.\<close>

lemma loop_pass:
  assumes run: "tick_loop (Suc n) ry i moved s = Inr (r, s')"
  obtains (ends) c where "row_of cycles_table s i = Some c" "s' = s" "r = Some moved"
      "cy_stage c = C_DONE \<or> \<not> overdue (clock (fi_db s)) c \<and> stage_finished ry c s = Inr (False, s)"
    | (moves) c s1 where "row_of cycles_table s i = Some c"
      "advance_cycle ry i (overdue (clock (fi_db s)) c) s = Inr ((), s1)" "tick_loop n ry i True s1 = Inr (r, s')"
proof -
  from run obtain c where c: "row_of cycles_table s i = Some c" by (auto simp: steps_return)
  show thesis
  proof (cases "cy_stage c = C_DONE")
    case True
    then show ?thesis using run c by (intro ends) (auto simp: steps_return)
  next
    case False
    with run c obtain go s1 where
      look: "(if overdue (clock (fi_db s)) c then returnT True else stage_finished ry c) s = Inr (go, s1)" and
      rest: "(if \<not> go then returnT (Some moved)
        else bindT (advance_cycle ry i (overdue (clock (fi_db s)) c)) (\<lambda>_. tick_loop n ry i True)) s1 = Inr (r, s')"
      by (auto simp: steps_return time_now_def)
    have same: "s1 = s" using look by (auto simp: steps_return dest: finished_reads split: if_splits)
    show ?thesis
    proof (cases go)
      case True
      with rest same obtain u s2 where "advance_cycle ry i (overdue (clock (fi_db s)) c) s = Inr (u, s2)"
        "tick_loop n ry i True s2 = Inr (r, s')"
        by (auto simp: bindT_Inr_iff)
      with c show ?thesis by (intro moves) simp_all
    next
      case False
      then have "s' = s" "r = Some moved" using rest same by (simp_all add: steps_return)
      moreover have "\<not> overdue (clock (fi_db s)) c" "stage_finished ry c s = Inr (False, s)"
        using look False same by (auto simp: steps_return split: if_splits)
      ultimately show ?thesis using c by (intro ends) blast+
    qed
  qed
qed

lemma loop_ends:
  "tick_loop n ry i moved s = Inr (r, s') \<Longrightarrow> cycles_ok s \<Longrightarrow> stage_at s i = Some st \<Longrightarrow> 5 - rank st \<le> n \<Longrightarrow>
   cycles_ok s' \<and> (\<exists>b st'. r = Some b \<and> (moved \<longrightarrow> b) \<and> stage_at s' i = Some st' \<and> rank st \<le> rank st' \<and>
     (if b then moved \<or> rank st < rank st' else s' = s))"
proof (induction n arbitrary: moved s st)
  case 0
  then show ?case using rank_open(2) [of st] by simp
next
  case (Suc n)
  from Suc.prems(1) show ?case
  proof (cases rule: loop_pass)
    case ends
    then show ?thesis using Suc.prems by auto
  next
    case (moves c s1)
    from advances [OF moves(2) Suc.prems(2)] Suc.prems(3) obtain nxt where
      nxt: "cycles_ok s1" "next_stage st = Some nxt" "stage_at s1 i = Some nxt" by auto
    have "5 - rank nxt \<le> n" using rank_next [OF nxt(2)] Suc.prems(4) by simp
    from Suc.IH [OF moves(3) nxt(1,3) this] obtain b st' where ih: "cycles_ok s'" "r = Some b" "b"
      "stage_at s' i = Some st'" "rank nxt \<le> rank st'" by blast
    then show ?thesis using rank_next [OF nxt(2)] by (intro conjI exI [of _ b] exI [of _ st']) simp_all
  qed
qed

text \<open>The loop ends only on a cycle that is done or whose stage is neither late nor finished.\<close>

lemma loop_stops:
  "tick_loop n ry i moved s = Inr (Some b, s') \<Longrightarrow>
   \<exists>c. row_of cycles_table s' i = Some c \<and> (cy_stage c = C_DONE \<or>
     \<not> overdue (clock (fi_db s')) c \<and> stage_finished ry c s' = Inr (False, s'))"
proof (induction n arbitrary: moved s)
  case (Suc n)
  from Suc.prems show ?case by (cases rule: loop_pass) (auto intro: Suc.IH)
qed (simp add: steps_return)

end

text \<open>Fuel: a loop that ended within its passes does the same with more of them.\<close>

lemma loop_more:
  "(\<And>s'. tick_loop n ry i moved s \<noteq> Inr (None, s')) \<Longrightarrow> tick_loop (n + k) ry i moved s = tick_loop n ry i moved s"
proof (induction n arbitrary: moved s)
  case (Suc n)
  show ?case
  proof (cases "row_of cycles_table s i")
    case None
    then show ?thesis by (simp add: get_row_def tx_run)
  next
    case (Some c)
    show ?thesis
    proof (cases "cy_stage c = C_DONE")
      case True
      with Some show ?thesis by (simp add: get_row_def tx_run)
    next
      case False
      let ?late = "overdue (clock (fi_db s)) c"
      have unfold: "tick_loop (Suc m) ry i moved s =
          (case (if ?late then returnT True else stage_finished ry c) s of Inl e \<Rightarrow> Inl e
           | Inr (go, s1) \<Rightarrow> if go then (case advance_cycle ry i ?late s1 of Inl e \<Rightarrow> Inl e
               | Inr (u, s2) \<Rightarrow> tick_loop m ry i True s2) else Inr (Some moved, s1))" for m
        using Some False by (simp add: get_row_def time_now_def tx_run split: sum.splits)
      have rest: "tick_loop (n + k) ry i True s2 = tick_loop n ry i True s2"
        if look: "(if ?late then returnT True else stage_finished ry c) s = Inr (True, s1)"
          and adv: "advance_cycle ry i ?late s1 = Inr (u, s2)" for s1 u s2
        by (rule Suc.IH) (use Suc.prems in \<open>simp only: unfold look adv sum.case prod.case if_True\<close>, blast)
      show ?thesis
        unfolding add_Suc unfold by (auto split: sum.splits prod.splits simp: rest)
    qed
  qed
next
  case 0
  then show ?case using 0 [of s] by (simp add: returnT_def)
qed

end
