(* ===== verification/CycleRecords.thy ===== *)
theory CycleRecords
  imports CycleLaws
begin

text \<open>
  What a cycle leaves on record as it moves: for hooks that settle its plan and its review and govern
  it in between, that a cycle which executes has a plan, one under review was governed and one that is
  done has a review.
\<close>

section \<open>What the stages leave on record\<close>

text \<open>A cycle has a plan once it executes, was governed once it is reviewed, and has a review once it is done.\<close>

definition documented :: "cycle \<Rightarrow> bool" where
  "documented c \<longleftrightarrow> (1 \<le> rank (cy_stage c) \<longrightarrow> cy_plan c \<noteq> None) \<and>
     (3 \<le> rank (cy_stage c) \<longrightarrow> cy_governance c \<noteq> None) \<and> (cy_stage c = C_DONE \<longrightarrow> cy_review c \<noteq> None)"

lemma kept_documented: "kept c c' \<Longrightarrow> documented c \<Longrightarrow> documented c'"
proof -
  assume kept: "kept c c'" and doc: "documented c"
  from kept have "cy_stage (skeleton c') = cy_stage (skeleton c)" by (simp add: kept_def)
  then show ?thesis using kept doc by (auto simp: kept_def documented_def)
qed

definition noted :: "(cycle \<Rightarrow> dict option) \<Rightarrow> firm \<Rightarrow> uuid \<Rightarrow> bool" where
  "noted what s i \<longleftrightarrow> (\<exists>c. find_row cy_id i (firm_cycles s) = Some c \<and> what c \<noteq> None)"

lemma noted_frame:
  assumes "cycle_frame s s'" "noted what s i" "what \<in> {cy_plan, cy_review, cy_governance}"
  shows "noted what s' i"
proof -
  have ids: "cy_id c' = cy_id c" if "kept c c'" for c c'
    using that by (metis kept_def skeleton_simps(1))
  have "list_all2 kept cs cs' \<Longrightarrow> find_row cy_id i cs = Some c \<Longrightarrow> \<exists>c'. find_row cy_id i cs' = Some c' \<and> kept c c'" for cs cs' c
    by (induction cs cs' rule: list_all2_induct) (auto simp: ids)
  then show ?thesis using assms unfolding noted_def cycle_frame_def kept_def by blast
qed

lemma noted_change:
  assumes "change_row cycles_table i f s = Inr (x, s')" "noted what s j" "\<And>c. cy_id (f c) = cy_id c" "\<And>c. what (f c) = what c"
  shows "noted what s' j"
proof -
  have "firm_cycles s' = update_row cy_id i f (firm_cycles s)" using change_cycles [OF assms(1)] by simp
  then show ?thesis using assms(2) by (auto simp: noted_def find_row_update assms(3,4))
qed

definition documented_but :: "uuid \<Rightarrow> firm \<Rightarrow> bool" where
  "documented_but i s \<longleftrightarrow> (\<forall>c\<in>set (firm_cycles s). cy_id c \<noteq> i \<longrightarrow> documented c)"

definition all_documented :: "firm \<Rightarrow> bool" where
  "all_documented s \<longleftrightarrow> (\<forall>c\<in>set (firm_cycles s). documented c)"

lemma frame_row:
  assumes "cycle_frame s s'" "c' \<in> set (firm_cycles s')"
  shows "\<exists>c\<in>set (firm_cycles s). kept c c'"
proof -
  have "list_all2 kept cs cs' \<Longrightarrow> c' \<in> set cs' \<Longrightarrow> \<exists>c\<in>set cs. kept c c'" for cs cs'
    by (induction cs cs' rule: list_all2_induct) auto
  then show ?thesis using assms unfolding cycle_frame_def by blast
qed

lemma documented_frame: "cycle_frame s s' \<Longrightarrow> all_documented s \<Longrightarrow> all_documented s'"
  unfolding all_documented_def by (meson frame_row kept_documented)

lemma documented_but_frame:
  assumes frame: "cycle_frame s s'" and doc: "documented_but i s"
  shows "documented_but i s'"
  unfolding documented_but_def
proof (intro ballI impI)
  fix c' assume c': "c' \<in> set (firm_cycles s')" "cy_id c' \<noteq> i"
  from frame_row [OF frame c'(1)] obtain c where c: "c \<in> set (firm_cycles s)" "kept c c'" by blast
  then have "cy_id c = cy_id c'" by (metis kept_def skeleton_simps(1))
  then show "documented c'" using doc c c'(2) kept_documented by (auto simp: documented_but_def)
qed

lemma documented_but_change:
  assumes "change_row cycles_table i f s = Inr (x, s')" "documented_but i s" "\<And>c. cy_id (f c) = cy_id c"
  shows "documented_but i s'"
  using change_cycles [OF assms(1)] assms(2) set_update_row [of _ cy_id i f "firm_cycles s"]
  by (fastforce simp: documented_but_def assms(3))

lemma cycle_transition_steps:
  assumes run: "cycle_transition now i nxt reason s = Inr (x, s')"
  obtains s1 where "change_row cycles_table i (leave_stage now nxt) s = Inr ((), s1)" "cycle_frame s1 s'"
proof -
  have audit: "obeys cycle_frame (in_runtime (add_transition ty co i a b actor rs))" for ty co a b actor rs
    by (rule cycle_frames [OF frames_add_transition])
  from run obtain s1 where "change_row cycles_table i (leave_stage now nxt) s = Inr ((), s1)" "cycle_frame s1 s'"
    by (auto simp: cycle_transition_def row_transition_def steps_return dest!: cycle_check obeysD [OF audit])
  then show thesis by (rule that)
qed

text \<open>Hooks that settle the plan on the way into EXECUTING, govern the cycle on the way into REVIEWING
  and settle the review on the way into DONE.\<close>

locale documenting_hooks = cycle_hooks +
  assumes plans: "enter_stage ry i s = Inr (x, s') \<Longrightarrow> stage_at s i = Some C_EXECUTING \<Longrightarrow> noted cy_plan s' i"
    and governs: "enter_stage ry i s = Inr (x, s') \<Longrightarrow> stage_at s i = Some C_REVIEWING \<Longrightarrow> noted cy_governance s' i"
    and reviews: "enter_stage ry i s = Inr (x, s') \<Longrightarrow> stage_at s i = Some C_DONE \<Longrightarrow> noted cy_review s' i"
begin

lemma move_documents:
  assumes run: "advance_cycle ry i late s = Inr (x, s')" and ok: "cycles_ok s" and doc: "all_documented s"
  shows "all_documented s'"
proof (rule advance_steps [OF run])
  fix c nxt s1 s2 s3 s4 now reason deadline
  assume c: "row_of cycles_table s i = Some c" "next_stage (cy_stage c) = Some nxt" and first: "cycle_frame s s1"
    and moved: "cycle_transition now i nxt reason s1 = Inr ((), s2)"
    and change: "change_row cycles_table i (\<lambda>c. c\<lparr>cy_stage_deadline := deadline\<rparr>) s2 = Inr ((), s3)"
    and told: "cycle_frame s3 s4" and enters: "enter_stage ry i s4 = Inr ((), s')"
  obtain s5 where leave: "change_row cycles_table i (leave_stage now nxt) s1 = Inr ((), s5)" and audit: "cycle_frame s5 s2"
    by (rule cycle_transition_steps [OF moved])
  have entered: "cycle_frame s4 s'" by (rule obeysD [OF enter enters])
  have "documented_but i s" using doc by (simp add: documented_but_def all_documented_def)
  then have others: "documented_but i s'"
    by (intro documented_but_frame [OF entered] documented_but_frame [OF told] documented_but_change [OF change]
        documented_but_frame [OF audit] documented_but_change [OF leave] documented_but_frame [OF first])
      (simp_all add: leave_stage_def)
  note after = advances [OF run ok]
  have at: "stage_at s i = Some (cy_stage c)" by (rule stage_at_row [OF c(1)])
  then have now: "stage_at s' i = Some nxt" "stage_at s4 i = Some nxt"
    using after c(2) frame_stage_at [OF entered, of i] by auto
  have still: "noted what s' i" if "noted what s i" "what = cy_plan \<or> what = cy_governance" for what
    using that by (intro noted_frame [OF entered] noted_frame [OF told] noted_change [OF change]
        noted_frame [OF audit] noted_change [OF leave] noted_frame [OF first]) (auto simp: leave_stage_def)
  have had: "noted cy_plan s i" if "1 \<le> rank (cy_stage c)"
    using that doc c(1) find_row_in [of cy_id i "firm_cycles s" c]
    by (auto simp: noted_def row_of_cycles all_documented_def documented_def)
  have was: "noted cy_governance s i" if "3 \<le> rank (cy_stage c)"
    using that doc c(1) find_row_in [of cy_id i "firm_cycles s" c]
    by (auto simp: noted_def row_of_cycles all_documented_def documented_def)
  have own: "(1 \<le> rank nxt \<longrightarrow> noted cy_plan s' i) \<and> (3 \<le> rank nxt \<longrightarrow> noted cy_governance s' i) \<and> (nxt = C_DONE \<longrightarrow> noted cy_review s' i)"
    using plans [OF enters] governs [OF enters] reviews [OF enters] now(2) c(2) still had was
    by (cases "cy_stage c") (auto simp: next_stage_def STAGE_ORDER_def Let_def rank_def)
  show ?thesis
    unfolding all_documented_def
  proof
    fix d assume d: "d \<in> set (firm_cycles s')"
    show "documented d"
    proof (cases "cy_id d = i")
      case True
      have "distinct (map cy_id (firm_cycles s'))"
        using after by (simp add: cycles_distinct)
      from find_row_unique [OF this d] True have "find_row cy_id i (firm_cycles s') = Some d" by simp
      then show ?thesis using own now(1) by (auto simp: documented_def noted_def stage_at_def)
    qed (use others d in \<open>simp add: documented_but_def\<close>)
  qed
qed

lemma start_documents:
  assumes run: "cycle_start ry co s = Inr (i, s')" and doc: "all_documented s"
  shows "all_documented s'"
proof -
  from run obtain c now deadline s1 where
    add: "add_row cycles_table (new_cycle co (last_seq s co + 1) now deadline) s = Inr (c, s1)"
    and rest: "announce_cycle ry c s1 = Inr (i, s')"
    by (auto simp: cycle_start_def steps_return time_now_def throwT_def split: option.splits)
  have "obeys cycle_frame (announce_cycle ry c)"
    unfolding announce_cycle_def by (intro cycle_intros enter)
  then have frame: "cycle_frame s1 s'" using rest by (rule obeysD)
  have "firm_cycles s1 = firm_cycles s @ [c]" "cy_stage c = C_PLANNING"
    using cycles.add_rows [OF add] by (simp_all add: cycles_table_def firm_cycles_def new_cycle_def)
  then have "all_documented s1" using doc by (simp add: all_documented_def documented_def rank_def STAGE_ORDER_def)
  with frame show ?thesis by (rule documented_frame)
qed

lemma loop_documents:
  "tick_loop n ry i moved s = Inr (r, s') \<Longrightarrow> cycles_ok s \<Longrightarrow> all_documented s \<Longrightarrow> all_documented s' \<and> cycles_ok s'"
proof (induction n arbitrary: moved s)
  case (Suc n)
  from Suc.prems(1) show ?case
  proof (cases rule: loop_pass)
    case (moves c s1)
    show ?thesis
      by (rule Suc.IH [OF moves(3)]) (use advances [OF moves(2)] move_documents [OF moves(2)] Suc.prems(2,3) in auto)
  qed (use Suc.prems in simp)
qed (simp add: steps_return)

end

end
