(* ===== verification/Reporting.thy ===== *)
theory Reporting
  imports Commerce Cycle
begin

text \<open>
  Reporting (\<open>company/reporting.py\<close>): the figures of a cycle for the company, each business and each
  project, stored once per cycle and scope. What a domain adds to them is a parameter: a hook is a
  function of the tables, the window and the core's figures, or an error that loses only its own.
\<close>

section \<open>Windows and figures\<close>

record window =
  wi_company_id :: uuid
  wi_since :: instant
  wi_until :: instant
  wi_scope :: kpi_scope
  wi_business_unit_id :: "uuid option"
  wi_project_id :: "uuid option"
  wi_cycle_id :: "uuid option"

type_synonym kpi_hook = "firm \<Rightarrow> window \<Rightarrow> dict \<Rightarrow> err + dict"

record reporting =
  rg_fx :: fx
  rg_hooks :: "(string \<times> kpi_hook) list"

definition reporting_actor :: actor where
  "reporting_actor = Actor_system ''reporting''"

text \<open>\<open>str.isidentifier\<close> for ASCII text.\<close>

definition is_identifier :: "string \<Rightarrow> bool" where
  "is_identifier t \<longleftrightarrow> t \<noteq> [] \<and> hd t \<notin> set ''0123456789'' \<and>
     set t \<subseteq> set ''ABCDEFGHIJKLMNOPQRSTUVWXYZabcdefghijklmnopqrstuvwxyz_0123456789''"

definition reporting_register :: "string \<Rightarrow> kpi_hook \<Rightarrow> reporting \<Rightarrow> err + reporting" where
  "reporting_register domain hook rg =
     (if map_of (rg_hooks rg) domain \<noteq> None then Inl (ReportingError domain)
      else if \<not> is_identifier domain then Inl (ReportingError domain)
      else Inr (rg\<lparr>rg_hooks := rg_hooks rg @ [(domain, hook)]\<rparr>))"

text \<open>\<open>str\<close> of a decimal quantized to a millionth.\<close>

definition money_text :: "money \<Rightarrow> string" where
  "money_text q =
     (let n = \<lfloor>q * 1000000\<rfloor>
      in (if n < 0 then ''-'' else []) @ nat_str (nat (\<bar>n\<bar> div 1000000)) @ ''.'' @ pad 6 (nat (\<bar>n\<bar> mod 1000000)))"

definition in_window :: "window \<Rightarrow> instant \<Rightarrow> bool" where
  "in_window w t \<longleftrightarrow> wi_since w \<le> t \<and> t \<le> wi_until w"

definition scope_filter :: "window \<Rightarrow> transaction \<Rightarrow> bool" where
  "scope_filter w t \<longleftrightarrow> (case wi_scope w of
       Scope_project \<Rightarrow> wi_project_id w \<noteq> None \<and> tn_project_id t = wi_project_id w
     | Scope_business_unit \<Rightarrow> wi_business_unit_id w \<noteq> None \<and> tn_business_unit_id t = wi_business_unit_id w
     | Scope_company \<Rightarrow> True)"

text \<open>A call belongs to a business through its project.\<close>

definition calls_filter :: "firm \<Rightarrow> window \<Rightarrow> model_call \<Rightarrow> bool" where
  "calls_filter s w m \<longleftrightarrow> (case wi_scope w of
       Scope_project \<Rightarrow> wi_project_id w \<noteq> None \<and> mc_project_id m = wi_project_id w
     | Scope_business_unit \<Rightarrow> wi_business_unit_id w \<noteq> None \<and>
         list_ex (\<lambda>p. mc_project_id m = Some (pj_id p) \<and> pj_business_unit_id p = wi_business_unit_id w) (fi_projects s)
     | Scope_company \<Rightarrow> True)"

definition window_calls :: "firm \<Rightarrow> window \<Rightarrow> model_call list" where
  "window_calls s w = filter (\<lambda>m. mc_company_id m = wi_company_id w \<and> in_window w (mc_created_at m) \<and> calls_filter s w m)
     (cs_calls (fi_costs s))"

definition window_rows :: "firm \<Rightarrow> window \<Rightarrow> (transaction \<Rightarrow> bool) \<Rightarrow> money" where
  "window_rows s w p = sum_list (map tn_amount (filter (\<lambda>t. tn_company_id t = wi_company_id w \<and> p t \<and>
     in_window w (tn_occurred_at t) \<and> scope_filter w t) (fi_transactions s)))"

definition as_metrics :: "membership_count \<Rightarrow> dict" where
  "as_metrics n = [(''payments'', JInt (int (mn_payments n))), (''new_members'', JInt (int (mn_new_members n))),
     (''renewals'', JInt (mn_renewals n)), (''members'', JInt (int (mn_members n))),
     (''expiring_members'', JInt (int (mn_expiring_members n))), (''lapsed_members'', JInt (int (mn_lapsed_members n))),
     (''membership_revenue'', JStr (money_text (mn_revenue n))),
     (''average_payment'', case mn_average n of None \<Rightarrow> JNull | Some a \<Rightarrow> JStr (money_text a))]"

definition customer_figures :: "firm \<Rightarrow> window \<Rightarrow> err + dict" where
  "customer_figures s w =
     (if wi_scope w = Scope_project then Inr []
      else bind_err (membership_numbers s (wi_company_id w) (wi_since w) (wi_until w) (wi_business_unit_id w)) (\<lambda>n.
        Inr ((''customers'', JInt (int (paying s (wi_company_id w) (wi_business_unit_id w) (wi_until w)))) # as_metrics n)))"

definition money_figures :: "reporting \<Rightarrow> firm \<Rightarrow> window \<Rightarrow> err + dict" where
  "money_figures rg s w =
     (let calls = window_calls s w;
          other = window_rows s w (\<lambda>t. tn_kind t \<in> set SPENDING \<and> tn_category t \<noteq> MODEL_COST);
          revenue = window_rows s w (\<lambda>t. tn_kind t = K_revenue)
      in bind_err (metered (rg_fx rg) (Some (sum_list (map mc_cost_usd (filter mc_ok calls))))) (\<lambda>model_cost.
         bind_err (quantize (model_cost + other)) (\<lambda>cost.
         bind_err (quantize revenue) (\<lambda>earned.
         bind_err (quantize (earned - cost)) (\<lambda>profit.
         bind_err (customer_figures s w) (\<lambda>customers.
         Inr ([(''cost'', JStr (money_text cost)), (''model_cost'', JStr (money_text model_cost)),
               (''revenue'', JStr (money_text earned)), (''profit'', JStr (money_text profit)),
               (''model_calls'', JInt (int (length calls)))] @ customers)))))))"

text \<open>A domain that fails loses its own figures and nothing else.\<close>

definition domain_figures :: "firm \<Rightarrow> window \<Rightarrow> dict \<Rightarrow> dict \<Rightarrow> string \<times> kpi_hook \<Rightarrow> dict" where
  "domain_figures s w core metrics h =
     (case snd h s w core of
        Inl _ \<Rightarrow> metrics
      | Inr produced \<Rightarrow> foldl (\<lambda>d kv. dict_set (fst h @ ''.'' @ fst kv) (snd kv) d) metrics produced)"

definition metrics_for :: "reporting \<Rightarrow> firm \<Rightarrow> window \<Rightarrow> err + dict" where
  "metrics_for rg s w =
     bind_err (money_figures rg s w) (\<lambda>core. Inr (foldl (domain_figures s w core) core (rg_hooks rg)))"

section \<open>Measuring a cycle\<close>

definition same_window :: "window \<Rightarrow> kpi_snapshot \<Rightarrow> bool" where
  "same_window w k \<longleftrightarrow> kp_cycle_id k = wi_cycle_id w \<and> kp_scope k = wi_scope w \<and>
     kp_business_unit_id k = wi_business_unit_id w \<and> kp_project_id k = wi_project_id w"

definition new_snapshot :: "window \<Rightarrow> dict \<Rightarrow> uuid \<Rightarrow> kpi_snapshot" where
  "new_snapshot w metrics i = \<lparr>kp_id = i, kp_company_id = wi_company_id w, kp_cycle_id = wi_cycle_id w,
     kp_business_unit_id = wi_business_unit_id w, kp_project_id = wi_project_id w, kp_scope = wi_scope w,
     kp_metrics = metrics, kp_period_start = wi_since w, kp_period_end = wi_until w\<rparr>"

definition store_snapshot :: "reporting \<Rightarrow> window \<Rightarrow> uuid firm_tx" where
  "store_snapshot rg w =
     bindT (getsT (\<lambda>s. metrics_for rg s w)) (\<lambda>m.
     bindT (liftT m) (\<lambda>metrics.
     bindT (getsT (\<lambda>s. first_some (filter (same_window w) (fi_kpis s)))) (\<lambda>existing.
     case existing of
       Some k \<Rightarrow>
         bindT (change_row kpis_table (kp_id k) (\<lambda>k. k\<lparr>kp_metrics := metrics, kp_period_end := wi_until w\<rparr>))
           (\<lambda>_. returnT (kp_id k))
     | None \<Rightarrow>
         bindT (add_row kpis_table (new_snapshot w metrics)) (\<lambda>k.
         bindT (firm_emit (MoneyB (KpiSnapshotCreated (kp_id k) (wi_cycle_id w) (wi_project_id w) metrics))
           (wi_company_id w) reporting_actor ''kpi_snapshot'' (kp_id k) (wi_cycle_id w)) (\<lambda>_.
         returnT (kp_id k))))))"

definition cycle_windows :: "firm \<Rightarrow> cycle \<Rightarrow> instant \<Rightarrow> window list" where
  "cycle_windows s c until =
     (let whole = \<lparr>wi_company_id = cy_company_id c, wi_since = cy_started_at c, wi_until = until, wi_scope = Scope_company,
            wi_business_unit_id = None, wi_project_id = None, wi_cycle_id = Some (cy_id c)\<rparr>
      in whole # map (\<lambda>u. whole\<lparr>wi_scope := Scope_business_unit, wi_business_unit_id := Some (bu_id u)\<rparr>)
           (filter (\<lambda>u. bu_company_id u = cy_company_id c) (fi_units s)) @
         map (\<lambda>p. whole\<lparr>wi_scope := Scope_project, wi_business_unit_id := pj_business_unit_id p,
             wi_project_id := Some (pj_id p)\<rparr>)
           (filter (\<lambda>p. pj_company_id p = cy_company_id c \<and> pj_state p \<in> {J_active, J_paused}) (fi_projects s)))"

definition measure_cycle :: "reporting \<Rightarrow> cycle \<Rightarrow> uuid list firm_tx" where
  "measure_cycle rg c =
     bindT time_now (\<lambda>now.
     bindT (getsT (\<lambda>s. cycle_windows s c (case cy_ended_at c of Some t \<Rightarrow> t | None \<Rightarrow> now))) (\<lambda>ws.
     mapT ws (store_snapshot rg)))"

definition reporting_hook :: "reporting \<Rightarrow> uuid \<Rightarrow> unit firm_tx" where
  "reporting_hook rg cycle_id =
     bindT (get_row cycles_table cycle_id AttributeError) (\<lambda>c. bindT (measure_cycle rg c) (\<lambda>_. returnT ()))"

section \<open>Reading\<close>

definition scope_value :: "kpi_scope \<Rightarrow> string" where
  "scope_value sc = (case sc of Scope_company \<Rightarrow> ''company'' | Scope_business_unit \<Rightarrow> ''business_unit'' | Scope_project \<Rightarrow> ''project'')"

definition snapshots_of :: "firm \<Rightarrow> uuid \<Rightarrow> kpi_scope \<Rightarrow> uuid option \<Rightarrow> uuid option \<Rightarrow> kpi_snapshot list" where
  "snapshots_of s company_id sc unit_id project_id =
     sort_key kp_period_end (filter (\<lambda>k. kp_company_id k = company_id \<and> kp_scope k = sc \<and>
       (case unit_id of None \<Rightarrow> True | Some u \<Rightarrow> kp_business_unit_id k = Some u) \<and>
       (case project_id of None \<Rightarrow> True | Some p \<Rightarrow> kp_project_id k = Some p)) (fi_kpis s))"

definition latest_snapshot :: "firm \<Rightarrow> uuid \<Rightarrow> kpi_scope \<Rightarrow> uuid option \<Rightarrow> uuid option \<Rightarrow> kpi_snapshot option" where
  "latest_snapshot s company_id sc unit_id project_id = last_some (snapshots_of s company_id sc unit_id project_id)"

definition snapshot_history :: "firm \<Rightarrow> uuid \<Rightarrow> kpi_scope \<Rightarrow> uuid option \<Rightarrow> uuid option \<Rightarrow> nat \<Rightarrow> kpi_snapshot list" where
  "snapshot_history s company_id sc unit_id project_id limit =
     take limit (rev (snapshots_of s company_id sc unit_id project_id))"

text \<open>Numbers compare as numbers, anything else as text; \<open>NaN\<close> is not equal to itself.\<close>

definition same_figure :: "json \<Rightarrow> string \<Rightarrow> bool" where
  "same_figure stored said =
     (case (parse_decimal said, parse_decimal (json_str stored)) of
        (Some a, Some b) \<Rightarrow> a = b \<and> a \<noteq> NaN
      | _ \<Rightarrow> json_str stored = said)"

definition figure_issue :: "firm \<Rightarrow> uuid \<Rightarrow> string \<Rightarrow> string \<Rightarrow> kpi_scope \<Rightarrow> uuid option \<Rightarrow> string option" where
  "figure_issue s company_id metric said sc scope_id =
     (if sc \<noteq> Scope_company \<and> scope_id = None
      then Some (metric @ '': a '' @ scope_value sc @ '' figure must name which one'')
      else case latest_snapshot s company_id sc (if sc = Scope_business_unit then scope_id else None)
          (if sc = Scope_project then scope_id else None) of
        None \<Rightarrow> Some (metric @ '': there is no report for that '' @ scope_value sc)
      | Some k \<Rightarrow>
          (case map_of (kp_metrics k) metric of
             None \<Rightarrow> Some (metric @ '' is not in the '' @ scope_value sc @ '' report'')
           | Some stored \<Rightarrow>
               if same_figure stored said then None
               else Some (metric @ '' is '' @ json_str stored @ '' in the report, not '' @ said)))"

end
