(* ===== verification/Commands.thy ===== *)
theory Commands
  imports Reporting Opportunities
begin

text \<open>
  The command pipeline (\<open>company/commands.py\<close>): parse, replay, decide, run and record. A handler that
  refuses is a result and not an error: what it wrote before refusing stays, unlike what an error
  undoes. The pydantic models of the commands are parameters of a specification: how a payload is
  loaded (or which problems it has) and how a command is dumped.
\<close>

section \<open>Refusals\<close>

type_synonym 'a attempt = "(string + 'a) firm_tx"

definition refuse :: "string \<Rightarrow> 'a attempt" where
  "refuse t = returnT (Inl t)"

definition perform :: "'a firm_tx \<Rightarrow> 'a attempt" where
  "perform m = bindT m (\<lambda>x. returnT (Inr x))"

definition after :: "'a attempt \<Rightarrow> ('a \<Rightarrow> 'b attempt) \<Rightarrow> 'b attempt" where
  "after m f = bindT m (\<lambda>r. case r of Inl t \<Rightarrow> refuse t | Inr x \<Rightarrow> f x)"

definition unless :: "bool \<Rightarrow> string \<Rightarrow> 'a attempt \<Rightarrow> 'a attempt" where
  "unless bad t m = (if bad then refuse t else m)"

section \<open>The bus\<close>

definition APPROVAL_ACTION :: string where
  "APPROVAL_ACTION = ''command''"

record command_context =
  cx_company_id :: uuid
  cx_actor :: actor
  cx_role :: "string option"
  cx_key :: "string option"
  cx_run_id :: "uuid option"
  cx_policy :: "policy_engine option"
  cx_workflows :: "template_registry option"

record 'c command_spec =
  sp_name :: string
  sp_load :: "dict \<Rightarrow> string + 'c"
  sp_dump :: "'c \<Rightarrow> dict"
  sp_action :: string
  sp_handler :: "command_context \<Rightarrow> 'c \<Rightarrow> dict attempt"
  sp_facts :: "firm \<Rightarrow> uuid \<Rightarrow> 'c \<Rightarrow> dict"
  sp_summary :: "'c \<Rightarrow> string"

record 'c command_bus =
  cb_policy :: policy_engine
  cb_approvals :: approval_service
  cb_workflows :: "template_registry option"
  cb_specs :: "(string \<times> 'c command_spec) list"

definition command_register :: "'c command_spec \<Rightarrow> 'c command_bus \<Rightarrow> err + 'c command_bus" where
  "command_register sp bus =
     (if map_of (cb_specs bus) (sp_name sp) \<noteq> None then Inl (CommandError (sp_name sp))
      else Inr (bus\<lparr>cb_specs := cb_specs bus @ [(sp_name sp, sp)]\<rparr>))"

definition command_get :: "'c command_bus \<Rightarrow> string \<Rightarrow> err + 'c command_spec" where
  "command_get bus name =
     (case map_of (cb_specs bus) name of None \<Rightarrow> Inl (UnknownCommand name) | Some sp \<Rightarrow> Inr sp)"

section \<open>Recording\<close>

text \<open>The keyword arguments of \<open>submit\<close> and of \<open>_record\<close>.\<close>

record asking =
  ak_company_id :: uuid
  ak_actor :: actor
  ak_key :: string
  ak_role :: "string option"
  ak_policies :: dict
  ak_task_id :: "uuid option"
  ak_run_id :: "uuid option"

definition context_of :: "'c command_bus \<Rightarrow> asking \<Rightarrow> command_context" where
  "context_of bus ak = \<lparr>cx_company_id = ak_company_id ak, cx_actor = ak_actor ak, cx_role = ak_role ak,
     cx_key = Some (ak_key ak), cx_run_id = ak_run_id ak, cx_policy = Some (cb_policy bus),
     cx_workflows = cb_workflows bus\<rparr>"

record verdict =
  vd_decision :: string
  vd_outcome :: command_outcome
  vd_reason :: "string option"
  vd_result :: "dict option"
  vd_event_ids :: "uuid list"

definition command_row :: "string \<Rightarrow> dict \<Rightarrow> asking \<Rightarrow> verdict \<Rightarrow> uuid \<Rightarrow> command_record" where
  "command_row name args ak vd i = \<lparr>cm_id = i, cm_company_id = ak_company_id ak, cm_command = name,
     cm_actor = ak_actor ak, cm_role = ak_role ak, cm_payload = args, cm_decision = vd_decision vd,
     cm_outcome = vd_outcome vd, cm_reason = map_option (take 2000) (nonempty (vd_reason vd)),
     cm_result = vd_result vd, cm_event_ids = vd_event_ids vd, cm_approval_id = None, cm_task_id = ak_task_id ak,
     cm_run_id = ak_run_id ak, cm_idempotency_key = ak_key ak\<rparr>"

definition record_command :: "string \<Rightarrow> dict \<Rightarrow> asking \<Rightarrow> verdict \<Rightarrow> command_record firm_tx" where
  "record_command name args ak vd = add_row commands_table (command_row name args ak vd)"

definition replay_command :: "firm \<Rightarrow> string \<Rightarrow> command_record option" where
  "replay_command s key = first_some (filter (\<lambda>r. cm_idempotency_key r = key) (fi_commands s))"

definition company_events :: "firm \<Rightarrow> uuid \<Rightarrow> envelope list" where
  "company_events s company_id = filter (\<lambda>e. e_company_id e = company_id) (events (fi_db s))"

definition last_event_seq :: "firm \<Rightarrow> uuid \<Rightarrow> nat" where
  "last_event_seq s company_id = foldr max (List.map_filter e_seq (company_events s company_id)) 0"

definition events_since :: "firm \<Rightarrow> uuid \<Rightarrow> nat \<Rightarrow> uuid list" where
  "events_since s company_id mark =
     map e_event_id (filter (\<lambda>e. case e_seq e of None \<Rightarrow> False | Some n \<Rightarrow> mark < n) (company_events s company_id))"

section \<open>Submitting\<close>

definition run_command :: "'c command_bus \<Rightarrow> 'c command_spec \<Rightarrow> 'c \<Rightarrow> asking \<Rightarrow> string \<Rightarrow> command_record firm_tx" where
  "run_command bus sp c ak decided =
     bindT (getsT (\<lambda>s. last_event_seq s (ak_company_id ak))) (\<lambda>mark.
     bindT (sp_handler sp (context_of bus ak) c) (\<lambda>result.
     case result of
       Inl refusal \<Rightarrow> record_command (sp_name sp) (sp_dump sp c) ak
         \<lparr>vd_decision = decided, vd_outcome = Command_refused, vd_reason = Some refusal, vd_result = None, vd_event_ids = []\<rparr>
     | Inr d \<Rightarrow>
         bindT (getsT (\<lambda>s. events_since s (ak_company_id ak) mark)) (\<lambda>caused.
         record_command (sp_name sp) (sp_dump sp c) ak
           \<lparr>vd_decision = decided, vd_outcome = Command_done, vd_reason = None, vd_result = Some d, vd_event_ids = caused\<rparr>)))"

definition refusal_verdict :: "string \<Rightarrow> string \<Rightarrow> verdict" where
  "refusal_verdict decided reason =
     \<lparr>vd_decision = decided, vd_outcome = Command_refused, vd_reason = Some reason, vd_result = None, vd_event_ids = []\<rparr>"

definition approval_request :: "string \<Rightarrow> dict \<Rightarrow> asking \<Rightarrow> dict" where
  "approval_request name args ak = [(''command'', JStr name), (''args'', JObj args),
     (''role'', case ak_role ak of None \<Rightarrow> JNull | Some r \<Rightarrow> JStr r), (''idempotency_key'', JStr (ak_key ak))]"

definition ask_person :: "'c command_bus \<Rightarrow> 'c command_spec \<Rightarrow> 'c \<Rightarrow> asking \<Rightarrow> decision \<Rightarrow> command_record firm_tx" where
  "ask_person bus sp c ak d =
     bindT (record_command (sp_name sp) (sp_dump sp c) ak
       \<lparr>vd_decision = outcome_value (dc_outcome d), vd_outcome = Command_awaiting, vd_reason = Some (dc_reason d),
        vd_result = None, vd_event_ids = []\<rparr>) (\<lambda>r.
     bindT (in_runtime (request_standalone (cb_approvals bus) (ak_company_id ak) ''command'' ''command'' (cm_id r)
       (sp_summary sp c) (ak_actor ak) (Some APPROVAL_ACTION) (Some (approval_request (sp_name sp) (sp_dump sp c) ak)) None)) (\<lambda>i.
     bindT (change_row commands_table (cm_id r) (\<lambda>r. r\<lparr>cm_approval_id := Some i\<rparr>)) (\<lambda>_.
     returnT (r\<lparr>cm_approval_id := Some i\<rparr>))))"

definition decide_command :: "'c command_bus \<Rightarrow> 'c command_spec \<Rightarrow> 'c \<Rightarrow> asking \<Rightarrow> command_record firm_tx" where
  "decide_command bus sp c ak =
     bindT (getsT (\<lambda>s. sp_facts sp s (ak_company_id ak) c)) (\<lambda>facts.
     bindT (in_runtime (decide_and_record (cb_policy bus) (ak_actor ak) (sp_action sp) (ak_company_id ak) (ak_role ak)
       (sp_dump sp c) facts (ak_policies ak) \<lparr>dr_agent_id = None, dr_run_id = None, dr_task_id = None\<rparr>)) (\<lambda>d.
     case dc_outcome d of
       Deny \<Rightarrow> record_command (sp_name sp) (sp_dump sp c) ak (refusal_verdict (outcome_value Deny) (dc_reason d))
     | Needs_approval \<Rightarrow> ask_person bus sp c ak d
     | Allow \<Rightarrow> run_command bus sp c ak (outcome_value Allow)))"

text \<open>A payload is a mapping to load, or a command already loaded.\<close>

definition submit :: "'c command_bus \<Rightarrow> string \<Rightarrow> dict + 'c \<Rightarrow> asking \<Rightarrow> command_record firm_tx" where
  "submit bus name payload ak =
     bindT (liftT (command_get bus name)) (\<lambda>sp.
     bindT (getsT (\<lambda>s. replay_command s (ak_key ak))) (\<lambda>replay.
     case replay of
       Some r \<Rightarrow> returnT r
     | None \<Rightarrow>
         (case payload of
            Inr c \<Rightarrow> decide_command bus sp c ak
          | Inl d \<Rightarrow>
              (case sp_load sp d of
                 Inl problems \<Rightarrow> record_command (sp_name sp) d ak (refusal_verdict (outcome_value Deny) problems)
               | Inr c \<Rightarrow> decide_command bus sp c ak))))"

section \<open>A person decides\<close>

definition command_of_approval :: "firm \<Rightarrow> uuid \<Rightarrow> command_record option" where
  "command_of_approval s approval_id = first_some (filter (\<lambda>r. cm_approval_id r = Some approval_id) (fi_commands s))"

definition settle_command :: "uuid \<Rightarrow> command_outcome \<Rightarrow> string option \<Rightarrow> dict option \<Rightarrow> uuid list \<Rightarrow> unit firm_tx" where
  "settle_command i outcome reason result caused =
     change_row commands_table i (\<lambda>r. case outcome of
         Command_done \<Rightarrow> r\<lparr>cm_outcome := outcome, cm_result := result, cm_event_ids := caused\<rparr>
       | _ \<Rightarrow> r\<lparr>cm_outcome := outcome, cm_reason := reason\<rparr>)"

definition payload_text :: "dict \<Rightarrow> string \<Rightarrow> string option" where
  "payload_text d k = (case map_of d k of Some (JStr t) \<Rightarrow> Some t | _ \<Rightarrow> None)"

definition approved_context :: "'c command_bus \<Rightarrow> approval \<Rightarrow> actor \<Rightarrow> command_context" where
  "approved_context bus a actor = \<lparr>cx_company_id = ap_company_id a, cx_actor = actor,
     cx_role = payload_text (ap_payload a) ''role'', cx_key = payload_text (ap_payload a) ''idempotency_key'',
     cx_run_id = None, cx_policy = Some (cb_policy bus), cx_workflows = cb_workflows bus\<rparr>"

definition run_approved :: "'c command_bus \<Rightarrow> approval \<Rightarrow> actor \<Rightarrow> command_record \<Rightarrow> unit firm_tx" where
  "run_approved bus a actor r =
     bindT (someT (payload_text (ap_payload a) ''command'') (KeyError ''command'')) (\<lambda>name.
     bindT (liftT (command_get bus name)) (\<lambda>sp.
     bindT (someT (case map_of (ap_payload a) ''args'' of Some (JObj d) \<Rightarrow> Some d | _ \<Rightarrow> None) (KeyError ''args'')) (\<lambda>args.
     bindT (liftT (case sp_load sp args of Inl problems \<Rightarrow> Inl (ValueError problems) | Inr c \<Rightarrow> Inr c)) (\<lambda>c.
     bindT (getsT (\<lambda>s. last_event_seq s (ap_company_id a))) (\<lambda>mark.
     bindT (sp_handler sp (approved_context bus a actor) c) (\<lambda>result.
     case result of
       Inl refusal \<Rightarrow> settle_command (cm_id r) Command_refused (Some refusal) None []
     | Inr d \<Rightarrow>
         bindT (getsT (\<lambda>s. events_since s (ap_company_id a) mark)) (\<lambda>caused.
         settle_command (cm_id r) Command_done None (Some d) caused)))))))"

definition command_on_decided :: "'c command_bus \<Rightarrow> approval \<Rightarrow> decision_outcome \<Rightarrow> actor \<Rightarrow> string option \<Rightarrow> unit firm_tx" where
  "command_on_decided bus a outcome actor reason =
     bindT (getsT (\<lambda>s. command_of_approval s (ap_id a))) (\<lambda>found.
     case found of
       None \<Rightarrow> returnT ()
     | Some r \<Rightarrow>
         if outcome \<noteq> Approve
         then settle_command (cm_id r) Command_refused
           (Some (''a person said no: '' @ (case nonempty reason of Some t \<Rightarrow> t | None \<Rightarrow> ''no reason given''))) None []
         else run_approved bus a actor r)"

text \<open>
  A person's decision on an approval, with the bus installed: the hook runs in the same transaction.
  An approval of a command has no task, so that nothing of the decision depends on the hook's order.
\<close>

definition decide_with_bus :: "'c command_bus \<Rightarrow> uuid \<Rightarrow> decision_outcome \<Rightarrow> actor \<Rightarrow> string option \<Rightarrow> unit firm_tx" where
  "decide_with_bus bus i outcome actor reason =
     bindT (in_runtime (decide_human (cb_approvals bus) i outcome actor reason)) (\<lambda>_.
     bindT (in_runtime (get_approval i)) (\<lambda>a.
     if ap_action a = Some APPROVAL_ACTION then command_on_decided bus a outcome actor reason else returnT ()))"

end
