(* ===== verification/Organization.thy ===== *)
theory Organization
  imports Commerce
begin

text \<open>
  The organisation (\<open>company/organization.py\<close>): businesses, departments and teams, positions and
  products, the position an agent holds, and the chart assembled from them; and the roster
  (\<open>company/agents/roster.py\<close>): hiring, pausing, resuming and retiring agents.
\<close>

section \<open>Looking things up\<close>

definition unit_by_key :: "firm \<Rightarrow> uuid \<Rightarrow> string \<Rightarrow> business_unit option" where
  "unit_by_key s company_id key = first_some (filter (\<lambda>u. bu_company_id u = company_id \<and> bu_key u = key) (fi_units s))"

definition department_by_key :: "firm \<Rightarrow> uuid \<Rightarrow> string \<Rightarrow> department option" where
  "department_by_key s company_id key =
     first_some (filter (\<lambda>d. dp_company_id d = company_id \<and> dp_key d = key) (fi_departments s))"

definition role_by_key :: "firm \<Rightarrow> uuid \<Rightarrow> string \<Rightarrow> position option" where
  "role_by_key s company_id key = first_some (filter (\<lambda>r. rl_company_id r = company_id \<and> rl_key r = key) (fi_positions s))"

definition product_by_key :: "firm \<Rightarrow> uuid \<Rightarrow> string \<Rightarrow> product option" where
  "product_by_key s company_id key = first_some (filter (\<lambda>p. pt_company_id p = company_id \<and> pt_key p = key) (fi_products s))"

definition active_units :: "firm \<Rightarrow> uuid \<Rightarrow> business_unit list" where
  "active_units s company_id = sort_key bu_key (filter (\<lambda>u. bu_company_id u = company_id \<and> bu_state u = U_active) (fi_units s))"

definition unit_of_company :: "firm \<Rightarrow> uuid \<Rightarrow> uuid \<Rightarrow> err + business_unit" where
  "unit_of_company s company_id unit_id =
     (case row_of units_table s unit_id of
        Some u \<Rightarrow> if bu_company_id u = company_id then Inr u else Inl (UnknownUnit (uuid_str unit_id))
      | None \<Rightarrow> Inl (UnknownUnit (uuid_str unit_id)))"

definition department_of_company :: "firm \<Rightarrow> uuid \<Rightarrow> uuid \<Rightarrow> err + department" where
  "department_of_company s company_id department_id =
     (case row_of departments_table s department_id of
        Some d \<Rightarrow> if dp_company_id d = company_id then Inr d else Inl (UnknownUnit (uuid_str department_id))
      | None \<Rightarrow> Inl (UnknownUnit (uuid_str department_id)))"

section \<open>Building\<close>

definition add_business_unit ::
    "uuid \<Rightarrow> string \<Rightarrow> string \<Rightarrow> actor \<Rightarrow> string option \<Rightarrow> unit_state \<Rightarrow> dict option \<Rightarrow> business_unit firm_tx" where
  "add_business_unit company_id key name actor mission state kill_criteria =
     bindT (getsT (\<lambda>s. unit_by_key s company_id key)) (\<lambda>existing.
     bindT (checkT (existing = None) (DuplicateKey ''business unit'' key)) (\<lambda>_.
     bindT (add_row units_table (\<lambda>i. \<lparr>bu_id = i, bu_company_id = company_id, bu_key = key, bu_name = name,
       bu_mission = mission, bu_state = state, bu_kill_criteria = kill_criteria\<rparr>)) (\<lambda>u.
     bindT (firm_emit (OrganizationB (BusinessUnitCreated key name (unit_state_value state) None None)) company_id actor
       ''business_unit'' (bu_id u) None) (\<lambda>_. returnT u))))"

record new_department =
  nd_company :: uuid
  nd_key :: string
  nd_title :: string
  nd_unit_id :: "uuid option"
  nd_parent_id :: "uuid option"
  nd_purpose :: "string option"
  nd_zone :: "string option"

text \<open>A team belongs to the business of the department it is part of, whatever the caller passes.\<close>

definition inherited_unit :: "firm \<Rightarrow> new_department \<Rightarrow> err + uuid option" where
  "inherited_unit s nd =
     (case nd_parent_id nd of
        None \<Rightarrow> Inr (nd_unit_id nd)
      | Some p \<Rightarrow> bind_err (department_of_company s (nd_company nd) p) (\<lambda>parent.
          if nd_unit_id nd \<noteq> None \<and> nd_unit_id nd \<noteq> dp_business_unit_id parent then Inl (Contradiction (nd_key nd))
          else Inr (dp_business_unit_id parent)))"

definition add_department :: "new_department \<Rightarrow> actor \<Rightarrow> department firm_tx" where
  "add_department nd actor =
     bindT (getsT (\<lambda>s. department_by_key s (nd_company nd) (nd_key nd))) (\<lambda>existing.
     bindT (checkT (existing = None) (DuplicateKey ''department'' (nd_key nd))) (\<lambda>_.
     bindT (getsT (\<lambda>s. inherited_unit s nd)) (\<lambda>v.
     bindT (liftT v) (\<lambda>unit_id.
     bindT (case unit_id of
              None \<Rightarrow> returnT ()
            | Some u \<Rightarrow> bindT (getsT (\<lambda>s. unit_of_company s (nd_company nd) u)) (\<lambda>r. bindT (liftT r) (\<lambda>_. returnT ()))) (\<lambda>_.
     bindT (add_row departments_table (\<lambda>i. \<lparr>dp_id = i, dp_company_id = nd_company nd, dp_business_unit_id = unit_id,
       dp_parent_id = nd_parent_id nd, dp_key = nd_key nd, dp_name = nd_title nd, dp_purpose = nd_purpose nd,
       dp_office_zone_key = Some (case nonempty (nd_zone nd) of Some z \<Rightarrow> z | None \<Rightarrow> nd_key nd)\<rparr>)) (\<lambda>d.
     bindT (firm_emit (OrganizationB (DepartmentCreated (nd_key nd) (nd_title nd) unit_id (nd_parent_id nd))) (nd_company nd)
       actor ''department'' (dp_id d) None) (\<lambda>_. returnT d)))))))"

record new_role =
  nr_company :: uuid
  nr_key :: string
  nr_title :: string
  nr_department_id :: uuid
  nr_reports_to :: "uuid option"
  nr_is_lead :: bool
  nr_responsibilities :: "string option"
  nr_defaults :: dict

definition add_role :: "new_role \<Rightarrow> position firm_tx" where
  "add_role nr =
     bindT (getsT (\<lambda>s. role_by_key s (nr_company nr) (nr_key nr))) (\<lambda>existing.
     bindT (checkT (existing = None) (DuplicateKey ''role'' (nr_key nr))) (\<lambda>_.
     bindT (getsT (\<lambda>s. department_of_company s (nr_company nr) (nr_department_id nr))) (\<lambda>v.
     bindT (liftT v) (\<lambda>_.
     add_row positions_table (\<lambda>i. \<lparr>rl_id = i, rl_company_id = nr_company nr, rl_department_id = nr_department_id nr,
       rl_key = nr_key nr, rl_title = nr_title nr, rl_reports_to = nr_reports_to nr, rl_is_lead = nr_is_lead nr,
       rl_responsibilities = nr_responsibilities nr, rl_defaults = nr_defaults nr\<rparr>)))))"

definition add_product ::
    "uuid \<Rightarrow> string \<Rightarrow> string \<Rightarrow> uuid \<Rightarrow> actor \<Rightarrow> string option \<Rightarrow> product_state \<Rightarrow> string option \<Rightarrow> product firm_tx" where
  "add_product company_id key name unit_id actor description state public_url =
     bindT (getsT (\<lambda>s. product_by_key s company_id key)) (\<lambda>existing.
     bindT (checkT (existing = None) (DuplicateKey ''product'' key)) (\<lambda>_.
     bindT (getsT (\<lambda>s. unit_of_company s company_id unit_id)) (\<lambda>v.
     bindT (liftT v) (\<lambda>_.
     bindT (add_row products_table (\<lambda>i. \<lparr>pt_id = i, pt_company_id = company_id, pt_business_unit_id = unit_id, pt_key = key,
       pt_name = name, pt_description = description, pt_state = state, pt_public_url = public_url\<rparr>)) (\<lambda>p.
     bindT (firm_emit (OrganizationB (ProductCreated key name unit_id (product_state_value state))) company_id actor
       ''product'' (pt_id p) None) (\<lambda>_. returnT p))))))"

section \<open>The executive department\<close>

definition EXECUTIVE :: string where
  "EXECUTIVE = ''executive''"

definition executive_role :: "uuid \<Rightarrow> uuid \<Rightarrow> string \<Rightarrow> string \<Rightarrow> bool \<Rightarrow> string \<Rightarrow> new_role" where
  "executive_role company_id department_id key title lead duties = \<lparr>nr_company = company_id, nr_key = key, nr_title = title,
     nr_department_id = department_id, nr_reports_to = None, nr_is_lead = lead, nr_responsibilities = Some duties, nr_defaults = []\<rparr>"

definition CEO_DUTIES :: string where
  "CEO_DUTIES = ''Decides which businesses the company is in and what they are worth spending on. Does not do the businesses' work.''"

definition CFO_DUTIES :: string where
  "CFO_DUTIES = ''Reads the books once a cycle is measured and proposes budgets where they no longer fit. Cannot move money: every proposal is a person's decision.''"

definition BUSINESS_DUTIES :: string where
  "BUSINESS_DUTIES = ''Looks at the market and the company's numbers once a week and writes down what might be a business. Decides nothing: scoring, proposing and opening are others'.''"

definition ensure_role :: "new_role \<Rightarrow> position firm_tx" where
  "ensure_role nr =
     bindT (getsT (\<lambda>s. role_by_key s (nr_company nr) (nr_key nr))) (\<lambda>existing.
     case existing of Some r \<Rightarrow> returnT r | None \<Rightarrow> add_role nr)"

definition bootstrap_executive :: "uuid \<Rightarrow> actor \<Rightarrow> (department \<times> position) firm_tx" where
  "bootstrap_executive company_id actor =
     bindT (getsT (\<lambda>s. department_by_key s company_id EXECUTIVE)) (\<lambda>existing.
     bindT (case existing of
              Some d \<Rightarrow> returnT d
            | None \<Rightarrow> add_department \<lparr>nd_company = company_id, nd_key = EXECUTIVE, nd_title = ''Executive'', nd_unit_id = None,
                nd_parent_id = None, nd_purpose = Some ''Capital, portfolio, priorities and risk.'', nd_zone = Some ''ceo''\<rparr> actor) (\<lambda>d.
     bindT (ensure_role (executive_role company_id (dp_id d) ''ceo'' ''CEO'' True CEO_DUTIES)) (\<lambda>r.
     bindT (ensure_role (executive_role company_id (dp_id d) ''finance'' ''CFO'' False CFO_DUTIES)) (\<lambda>_.
     bindT (ensure_role (executive_role company_id (dp_id d) ''business'' ''Business Development'' False BUSINESS_DUTIES)) (\<lambda>_.
     returnT (d, r))))))"

section \<open>Where an agent sits\<close>

record placement =
  pm_department_key :: "string option"
  pm_zone :: "string option"
  pm_business_unit :: "string option"

text \<open>
  The walk up from a department until its zone and its business are known, a department is missing
  or one comes up again; each step leaves one department unseen, and the fuel is how many there are.
\<close>

fun placement_walk ::
    "nat \<Rightarrow> firm \<Rightarrow> uuid list \<Rightarrow> string option \<Rightarrow> uuid option \<Rightarrow> uuid option \<Rightarrow> string option \<times> uuid option" where
  "placement_walk 0 s seen zone unit_id parent = (zone, unit_id)"
| "placement_walk (Suc n) s seen zone unit_id parent =
     (case parent of
        None \<Rightarrow> (zone, unit_id)
      | Some p \<Rightarrow>
          if (zone \<noteq> None \<and> unit_id \<noteq> None) \<or> p \<in> set seen then (zone, unit_id)
          else (case row_of departments_table s p of
                  None \<Rightarrow> (zone, unit_id)
                | Some d \<Rightarrow> placement_walk n s (p # seen) (case nonempty zone of Some z \<Rightarrow> Some z | None \<Rightarrow> dp_office_zone_key d)
                    (case unit_id of Some u \<Rightarrow> Some u | None \<Rightarrow> dp_business_unit_id d) (dp_parent_id d)))"

definition placement_of :: "firm \<Rightarrow> department option \<Rightarrow> placement" where
  "placement_of s department =
     (case department of
        None \<Rightarrow> \<lparr>pm_department_key = None, pm_zone = None, pm_business_unit = None\<rparr>
      | Some d \<Rightarrow>
          (let (zone, unit_id) = placement_walk (Suc (length (fi_departments s))) s [dp_id d] (dp_office_zone_key d)
             (dp_business_unit_id d) (dp_parent_id d)
           in \<lparr>pm_department_key = Some (dp_key d), pm_zone = zone,
               pm_business_unit = (case unit_id of None \<Rightarrow> None | Some u \<Rightarrow> map_option bu_key (row_of units_table s u))\<rparr>))"

section \<open>Agents\<close>

primrec agent_status_value :: "agent_status \<Rightarrow> string" where
  "agent_status_value AG_ACTIVE = ''active''"
| "agent_status_value AG_PAUSED = ''paused''"
| "agent_status_value AG_RETIRED = ''retired''"

definition upd_agent :: "uuid \<Rightarrow> (agent \<Rightarrow> agent) \<Rightarrow> unit db_tx" where
  "upd_agent i f = modifyT (\<lambda>s. s\<lparr>agents := update_row a_id i f (agents s)\<rparr>)"

definition agent_emit :: "payload \<Rightarrow> agent \<Rightarrow> actor \<Rightarrow> unit db_tx" where
  "agent_emit p ag actor =
     bindT (new_event p (a_company_id ag) actor ''agent'' (a_id ag) (no_refs\<lparr>ref_agent_id := Some (a_id ag)\<rparr>) None)
       (\<lambda>envelope. bindT (emit envelope) (\<lambda>_. returnT ()))"

text \<open>The role string, the position and the department of an agent are set together.\<close>

definition take_position :: "position \<Rightarrow> agent \<Rightarrow> agent" where
  "take_position r ag = ag\<lparr>a_role := rl_key r, a_role_id := Some (rl_id r), a_department_id := Some (rl_department_id r)\<rparr>"

definition assign_position :: "uuid \<Rightarrow> position \<Rightarrow> actor \<Rightarrow> unit firm_tx" where
  "assign_position agent_id r actor =
     bindT (in_runtime (get_agent agent_id)) (\<lambda>ag.
     bindT (checkT (rl_company_id r = a_company_id ag) (Contradiction ''an agent cannot hold a role of another company'')) (\<lambda>_.
     bindT (in_runtime (upd_agent agent_id (take_position r))) (\<lambda>_.
     if a_department_id ag = Some (rl_department_id r) \<and> a_role ag = rl_key r then returnT ()
     else
       bindT (getsT (\<lambda>s. row_of departments_table s (rl_department_id r))) (\<lambda>department.
       bindT (getsT (\<lambda>s. placement_of s department)) (\<lambda>place.
       in_runtime (agent_emit (CompanyP (AgentAssigned (rl_key r) (rl_id r) (rl_department_id r) (map_option dp_key department)
         (pm_zone place) (pm_business_unit place) (Some (a_role ag)) (a_department_id ag))) ag actor))))))"

record hiring =
  hi_company :: uuid
  hi_role :: string
  hi_name :: string
  hi_description :: "string option"
  hi_capabilities :: "string list"
  hi_tools :: "string list"
  hi_per_run_usd :: "money option"
  hi_avatar :: string

definition agent_checks :: "agent \<Rightarrow> bool" where
  "agent_checks ag \<longleftrightarrow> plain_ident (a_role ag)"

text \<open>
  \<open>position.defaults\<close>: the tools a position gives when the hiring names none; the capabilities and
  the budget are read from it in the same way (\<open>position_budget\<close> is what it says of a run).
\<close>

definition position_list :: "position \<Rightarrow> string \<Rightarrow> string list" where
  "position_list r key = (case map_of (rl_defaults r) key of
     Some (JArr xs) \<Rightarrow> List.map_filter (\<lambda>v. case v of JStr t \<Rightarrow> Some t | _ \<Rightarrow> None) xs | _ \<Rightarrow> [])"

definition position_budget :: "position \<Rightarrow> money option" where
  "position_budget r =
     (case map_of (rl_defaults r) ''budget'' of
        Some (JObj d) \<Rightarrow> (case decimal_of (map_of d ''per_run_usd'') of Some (Fin q) \<Rightarrow> Some q | _ \<Rightarrow> None)
      | _ \<Rightarrow> None)"

definition hire_agent :: "hiring \<Rightarrow> position option \<Rightarrow> actor \<Rightarrow> uuid firm_tx" where
  "hire_agent h position actor =
     bindT (case position of
              None \<Rightarrow> returnT ()
            | Some r \<Rightarrow>
                bindT (checkT (rl_company_id r = hi_company h) (WrongCompany ''a role of another company cannot be filled here'')) (\<lambda>_.
                checkT (rl_key r = hi_role h) (WrongCompany (hi_role h)))) (\<lambda>_.
     let from_position = (\<lambda>key given. case position of None \<Rightarrow> given | Some r \<Rightarrow> if given = [] then position_list r key else given);
         capabilities = from_position ''capabilities'' (hi_capabilities h)
     in bindT time_now (\<lambda>now.
        bindT (in_runtime uuid7) (\<lambda>i.
        let ag = \<lparr>a_id = i, a_company_id = hi_company h, a_role = hi_role h, a_role_id = map_option rl_id position,
              a_department_id = map_option rl_department_id position, a_display_name = hi_name h,
              a_description = hi_description h, a_avatar_key = hi_avatar h, a_tools = from_position ''tools'' (hi_tools h),
              a_per_run_usd = (case hi_per_run_usd h of Some q \<Rightarrow> Some q | None \<Rightarrow>
                (case position of None \<Rightarrow> None | Some r \<Rightarrow> position_budget r)),
              a_status = AG_ACTIVE, a_created_at = now\<rparr>
        in bindT (getsT (\<lambda>s. list_ex (\<lambda>o1. a_company_id o1 = hi_company h \<and> a_display_name o1 = hi_name h) (agents (fi_db s)))) (\<lambda>taken.
           bindT (checkT (agent_checks ag \<and> \<not> taken) (IntegrityError ''agents'')) (\<lambda>_.
           bindT (in_runtime (modifyT (\<lambda>d. d\<lparr>agents := agents d @ [ag]\<rparr>))) (\<lambda>_.
           bindT (getsT (\<lambda>s. case position of None \<Rightarrow> None | Some r \<Rightarrow> row_of departments_table s (rl_department_id r))) (\<lambda>department.
           bindT (getsT (\<lambda>s. placement_of s department)) (\<lambda>place.
           bindT (in_runtime (agent_emit (AgentP (AgentCreated (hi_role h) (hi_name h) capabilities (hi_avatar h)
             (map_option dp_id department) (map_option dp_key department) (pm_zone place) (pm_business_unit place))) ag actor)) (\<lambda>_.
           bindT (in_runtime (initialize_activity ag actor)) (\<lambda>_. returnT i))))))))))"

definition set_agent_status :: "agent \<Rightarrow> agent_status \<Rightarrow> agent_payload option \<Rightarrow> actor \<Rightarrow> unit db_tx" where
  "set_agent_status ag st p actor =
     bindT (upd_agent (a_id ag) (\<lambda>ag. ag\<lparr>a_status := st\<rparr>)) (\<lambda>_.
     case p of
       None \<Rightarrow> returnT ()
     | Some p \<Rightarrow> bindT (set_activity ag p actor no_context) (\<lambda>_. returnT ()))"

definition pause_agent :: "uuid \<Rightarrow> actor \<Rightarrow> string option \<Rightarrow> unit db_tx" where
  "pause_agent i actor reason =
     bindT (get_agent i) (\<lambda>ag.
     if a_status ag = AG_PAUSED then returnT ()
     else if a_status ag = AG_RETIRED then throwT (RosterBusy (a_display_name ag))
     else set_agent_status ag AG_PAUSED (Some (AgentPaused reason)) actor)"

definition resume_agent :: "uuid \<Rightarrow> actor \<Rightarrow> string option \<Rightarrow> unit db_tx" where
  "resume_agent i actor reason =
     bindT (get_agent i) (\<lambda>ag.
     if a_status ag = AG_ACTIVE then returnT ()
     else if a_status ag = AG_RETIRED then throwT (RosterBusy (a_display_name ag))
     else set_agent_status ag AG_ACTIVE (Some (AgentResumed reason)) actor)"

definition retire_agent :: "uuid \<Rightarrow> actor \<Rightarrow> string option \<Rightarrow> unit db_tx" where
  "retire_agent i actor reason =
     bindT (get_agent i) (\<lambda>ag.
     if a_status ag = AG_RETIRED then returnT ()
     else
       bindT (getsT (\<lambda>s. open_run_of_agent i s)) (\<lambda>busy.
       bindT (checkT (busy = None) (RosterBusy (a_display_name ag))) (\<lambda>_.
       bindT (set_agent_status ag AG_RETIRED None actor) (\<lambda>_.
       agent_emit (AgentP (AgentRetired (a_role ag) (a_display_name ag) reason)) ag actor))))"

section \<open>The chart\<close>

datatype department_node = Department_node
  (no_department: department) (no_roles: "position list") (no_agents: "agent list") (no_teams: "department_node list")

record unit_node =
  uo_unit :: "business_unit option"
  uo_departments :: "department_node list"
  uo_products :: "product list"

record org_chart =
  oc_company_id :: uuid
  oc_shared :: unit_node
  oc_units :: "unit_node list"
  oc_unplaced :: "agent list"

primrec node_headcount :: "department_node \<Rightarrow> nat" where
  "node_headcount (Department_node d rs ags teams) = length ags + sum_list (map node_headcount teams)"

definition chart_headcount :: "org_chart \<Rightarrow> nat" where
  "chart_headcount c = sum_list (map (\<lambda>u. sum_list (map node_headcount (uo_departments u))) (oc_shared c # oc_units c)) +
     length (oc_unplaced c)"

text \<open>What the chart is assembled from: the rows of the company, in the order the chart shows them.\<close>

record org_rows =
  or_departments :: "department list"
  or_roles :: "position list"
  or_agents :: "agent list"

text \<open>
  \<open>node\<close>: a department with the teams inside it. A chain of teams never repeats a department, and
  the fuel is how many there are.
\<close>

fun chart_node :: "nat \<Rightarrow> org_rows \<Rightarrow> department \<Rightarrow> department_node" where
  "chart_node n o1 d = Department_node d (filter (\<lambda>r. rl_department_id r = dp_id d) (or_roles o1))
     (filter (\<lambda>a. a_department_id a = Some (dp_id d)) (or_agents o1))
     (case n of 0 \<Rightarrow> [] | Suc m \<Rightarrow> map (chart_node m o1) (filter (\<lambda>t. dp_parent_id t = Some (dp_id d)) (or_departments o1)))"

declare chart_node.simps [simp del]

definition company_rows :: "firm \<Rightarrow> uuid \<Rightarrow> org_rows" where
  "company_rows s company_id = \<lparr>
     or_departments = sort_key dp_key (filter (\<lambda>d. dp_company_id d = company_id) (fi_departments s)),
     or_roles = sort_key rl_key (filter (\<lambda>r. rl_company_id r = company_id) (fi_positions s)),
     or_agents = sort_key a_display_name (filter (\<lambda>a. a_company_id a = company_id \<and> a_status a \<noteq> AG_RETIRED) (agents (fi_db s)))\<rparr>"

definition org_chart_of :: "firm \<Rightarrow> uuid \<Rightarrow> org_chart" where
  "org_chart_of s company_id =
     (let o1 = company_rows s company_id;
          units = sort_key bu_key (filter (\<lambda>u. bu_company_id u = company_id) (fi_units s));
          products = sort_key pt_key (filter (\<lambda>p. pt_company_id p = company_id) (fi_products s));
          tops = filter (\<lambda>d. dp_parent_id d = None) (or_departments o1);
          nodes = (\<lambda>u. map (chart_node (length (or_departments o1)) o1) (filter (\<lambda>d. dp_business_unit_id d = u) tops))
      in \<lparr>oc_company_id = company_id,
          oc_shared = \<lparr>uo_unit = None, uo_departments = nodes None, uo_products = []\<rparr>,
          oc_units = map (\<lambda>u. \<lparr>uo_unit = Some u, uo_departments = nodes (Some (bu_id u)),
            uo_products = filter (\<lambda>p. pt_business_unit_id p = bu_id u) products\<rparr>) units,
          oc_unplaced = filter (\<lambda>a. a_department_id a = None) (or_agents o1)\<rparr>)"

end
