(* ===== verification/Verbs.thy ===== *)
theory Verbs
  imports Commands Organization
begin

text \<open>
  What a company can be asked to do (\<open>company/verbs.py\<close>): the payloads, with the constraints their
  fields declare, and the handlers. A handler checks what a policy cannot know and refuses before it
  writes anything; starting a workflow also asks the policy engine again (\<open>company/workflows.py\<close>).
\<close>

section \<open>Payloads\<close>

record signal_input =
  si_source :: string
  si_summary :: string
  si_metric :: "string option"
  si_value :: "rat option"
  si_business_unit_id :: "uuid option"
  si_evidence_ref :: "string option"

datatype company_command =
    CreateCycleGoal string string rat "uuid option"
      \<comment> \<open>title, metric, target, business unit\<close>
  | AllocateBudget money string "uuid option" "uuid option" bool
      \<comment> \<open>amount, period, project, business unit, hard cap\<close>
  | InstantiateWorkflow string uuid dict int
  | CreateProject string "string option" "uuid option" dict
  | PauseProject uuid "string option"
  | ResumeProject uuid "string option"
  | KillProject uuid string
  | UpdateStrategy string
  | PauseAgent uuid string
  | RestartWorkflow uuid "string option"
  | AllocateExplorationBudget uuid money string
  | ScoreOpportunity uuid rat "string option"
  | AdvanceOpportunity uuid string "string option" "uuid option"
  | RejectOpportunity uuid string
  | DiscoverOpportunity string string string "string option" "signal_input list"
  | RecordOpportunitySignal uuid signal_input
  | DraftProposal uuid string proposal_plan
  | SubmitProposal uuid
  | CreateBusinessUnit uuid money "string option" "string option"
      \<comment> \<open>proposal, capital, key, reason\<close>
  | ScaleBusinessUnit uuid money "string option"
  | PauseBusinessUnit uuid string
  | WindDownBusinessUnit uuid string

definition metric_like :: "string \<Rightarrow> bool" where
  "metric_like t \<longleftrightarrow> t \<noteq> [] \<and> hd t \<in> set ''abcdefghijklmnopqrstuvwxyz'' \<and>
     set t \<subseteq> set ''abcdefghijklmnopqrstuvwxyz0123456789_.''"

definition between :: "nat \<Rightarrow> nat \<Rightarrow> string \<Rightarrow> bool" where
  "between lo hi t \<longleftrightarrow> lo \<le> length t \<and> length t \<le> hi"

definition optional :: "('a \<Rightarrow> bool) \<Rightarrow> 'a option \<Rightarrow> bool" where
  "optional p v \<longleftrightarrow> (case v of None \<Rightarrow> True | Some x \<Rightarrow> p x)"

definition valid_signal :: "signal_input \<Rightarrow> bool" where
  "valid_signal si \<longleftrightarrow> si_source si \<in> {''company'', ''web'', ''person''} \<and> between 1 1000 (si_summary si) \<and>
     optional (\<lambda>m. metric_like m \<and> length m \<le> 80) (si_metric si) \<and> optional (between 0 500) (si_evidence_ref si)"

definition valid_plan :: "proposal_plan \<Rightarrow> bool" where
  "valid_plan pp \<longleftrightarrow> optional (between 0 2000) (pp_business_model pp) \<and> optional (between 0 2000) (pp_target_market pp) \<and>
     optional (between 0 2000) (pp_target_customer pp) \<and> optional (between 0 2000) (pp_revenue_model pp) \<and>
     optional (\<lambda>m. 0 \<le> m \<and> m \<le> 1) (pp_expected_margin pp) \<and> optional (\<lambda>c. 0 \<le> c) (pp_startup_cost pp) \<and>
     optional (\<lambda>c. 0 \<le> c) (pp_monthly_cost pp) \<and> pp_kill_criteria pp \<noteq> None"

text \<open>The constraints of the fields: what pydantic has checked of a payload that was loaded.\<close>

fun valid_command :: "company_command \<Rightarrow> bool" where
  "valid_command (CreateCycleGoal title metric target unit_id) = (between 1 200 title \<and> metric_like metric \<and> 0 < target)"
| "valid_command (AllocateBudget amount period p u hard) = (0 \<le> amount \<and> period \<in> {''cycle'', ''day'', ''month''})"
| "valid_command (CreateProject name description u kill) = between 1 200 name"
| "valid_command (KillProject p reason) = (reason \<noteq> [])"
| "valid_command (UpdateStrategy summary) = between 1 4000 summary"
| "valid_command (PauseAgent a reason) = (reason \<noteq> [])"
| "valid_command (AllocateExplorationBudget p amount period) = (0 \<le> amount)"
| "valid_command (RejectOpportunity o1 reason) = (reason \<noteq> [])"
| "valid_command (DiscoverOpportunity key title thesis market signals) =
     (plain_ident key \<and> length key \<le> 80 \<and> between 1 200 title \<and> between 20 2000 thesis \<and>
      optional (between 0 1000) market \<and> 1 \<le> length signals \<and> length signals \<le> 5 \<and> list_all valid_signal signals)"
| "valid_command (RecordOpportunitySignal o1 si) = valid_signal si"
| "valid_command (DraftProposal o1 title plan) = (between 1 200 title \<and> valid_plan plan)"
| "valid_command (CreateBusinessUnit p capital key reason) = (0 \<le> capital \<and> optional plain_ident key)"
| "valid_command (PauseBusinessUnit u reason) = (reason \<noteq> [])"
| "valid_command (WindDownBusinessUnit u reason) = (reason \<noteq> [])"
| "valid_command _ = True"

text \<open>
  The settings the verbs read: the ledger with its base currency, \<open>str\<close> of a decimal of a payload,
  and \<open>str\<close> of an exception a handler turns into a refusal.
\<close>

record verb_settings =
  vs_ledger :: ledger
  vs_decimal :: "rat \<Rightarrow> string"
  vs_explain :: "err \<Rightarrow> string"

definition no_such :: "string \<Rightarrow> uuid \<Rightarrow> string" where
  "no_such what i = ''no '' @ what @ '' '' @ uuid_str i @ '' in this company''"

definition company_project :: "command_context \<Rightarrow> uuid \<Rightarrow> project attempt" where
  "company_project cx i =
     bindT (getsT (\<lambda>s. row_of projects_table s i)) (\<lambda>found.
     case found of
       None \<Rightarrow> refuse (no_such ''project'' i)
     | Some p \<Rightarrow> unless (pj_company_id p \<noteq> cx_company_id cx) (no_such ''project'' i) (returnT (Inr p)))"

definition company_unit :: "command_context \<Rightarrow> uuid \<Rightarrow> business_unit attempt" where
  "company_unit cx i =
     bindT (getsT (\<lambda>s. row_of units_table s i)) (\<lambda>found.
     case found of
       None \<Rightarrow> refuse (no_such ''business unit'' i)
     | Some u \<Rightarrow> unless (bu_company_id u \<noteq> cx_company_id cx) (no_such ''business unit'' i) (returnT (Inr u)))"

definition verb_emit :: "command_context \<Rightarrow> business_payload \<Rightarrow> string \<Rightarrow> uuid \<Rightarrow> unit attempt" where
  "verb_emit cx p aggregate_type i = perform (firm_emit p (cx_company_id cx) (cx_actor cx) aggregate_type i None)"

section \<open>Goals and budgets\<close>

definition create_cycle_goal :: "command_context \<Rightarrow> string \<Rightarrow> string \<Rightarrow> rat \<Rightarrow> uuid option \<Rightarrow> dict attempt" where
  "create_cycle_goal cx title metric target unit_id =
     after (perform (add_row goals_table (\<lambda>i. \<lparr>gl_id = i, gl_company_id = cx_company_id cx, gl_business_unit_id = unit_id,
       gl_level = ''cycle'', gl_title = title, gl_metric = metric, gl_target = target, gl_current = None,
       gl_deadline = None, gl_status = Goal_active\<rparr>))) (\<lambda>g.
     after (verb_emit cx (GoalB (GoalCreated title ''cycle'' metric target None None)) ''company_goal'' (gl_id g)) (\<lambda>_.
     returnT (Inr [(''goal_id'', JStr (uuid_str (gl_id g)))])))"

definition blocked_in_scope :: "firm \<Rightarrow> uuid \<Rightarrow> uuid option \<Rightarrow> uuid option \<Rightarrow> task list" where
  "blocked_in_scope s company_id project_id unit_id =
     filter (\<lambda>t. t_company_id t = company_id \<and> t_state t = T_BLOCKED_BUDGET \<and>
       (case project_id of
          Some p \<Rightarrow> t_project_id t = p
        | None \<Rightarrow> (case unit_id of
              None \<Rightarrow> True
            | Some u \<Rightarrow> list_ex (\<lambda>p. pj_id p = t_project_id t \<and> pj_business_unit_id p = Some u) (fi_projects s))))
       (tasks (fi_db s))"

definition release_scope :: "uuid \<Rightarrow> uuid option \<Rightarrow> uuid option \<Rightarrow> uuid list firm_tx" where
  "release_scope company_id project_id unit_id =
     bindT (getsT (\<lambda>s. blocked_in_scope s company_id project_id unit_id)) (\<lambda>blocked.
     let ready = filter (\<lambda>t. t_attempt t < t_max_attempts t) blocked
     in bindT (forT (map t_id ready) (\<lambda>i. in_runtime (mark_ready i))) (\<lambda>_. returnT (map t_id ready)))"

definition budget_of_scope :: "firm \<Rightarrow> uuid \<Rightarrow> uuid option \<Rightarrow> uuid option \<Rightarrow> string \<Rightarrow> budget option" where
  "budget_of_scope s company_id project_id unit_id period =
     first_some (filter (\<lambda>b. bg_company_id b = company_id \<and> bg_project_id b = project_id \<and>
       bg_business_unit_id b = unit_id \<and> bg_period b = period) (cs_budgets (fi_costs s)))"

definition set_budget :: "verb_settings \<Rightarrow> uuid \<Rightarrow> money \<Rightarrow> string \<Rightarrow> uuid option \<Rightarrow> uuid option \<Rightarrow> bool \<Rightarrow> (budget \<times> money option) firm_tx" where
  "set_budget vs company_id amount period project_id unit_id hard_cap =
     bindT (getsT (\<lambda>s. budget_of_scope s company_id project_id unit_id period)) (\<lambda>existing.
     case existing of
       None \<Rightarrow>
         bindT (add_row budgets_table (\<lambda>i. \<lparr>bg_id = i, bg_company_id = company_id, bg_project_id = project_id,
           bg_business_unit_id = unit_id, bg_period = period, bg_amount = amount,
           bg_currency = fx_base (ld_fx (vs_ledger vs)), bg_hard_cap = hard_cap\<rparr>)) (\<lambda>b. returnT (b, None))
     | Some b \<Rightarrow>
         bindT (change_row budgets_table (bg_id b) (\<lambda>b. b\<lparr>bg_amount := amount, bg_hard_cap := hard_cap\<rparr>))
           (\<lambda>_. returnT (b, Some (bg_amount b))))"

definition announce_budget ::
    "verb_settings \<Rightarrow> command_context \<Rightarrow> money \<Rightarrow> string \<Rightarrow> uuid option \<Rightarrow> uuid option \<Rightarrow> budget \<times> money option \<Rightarrow> dict attempt" where
  "announce_budget vs cx amount period project_id unit_id found =
     after (verb_emit cx (MoneyB (BudgetAllocated (bg_id (fst found)) project_id period amount (bg_currency (fst found))))
       ''budget'' (bg_id (fst found))) (\<lambda>_.
     let more_money = (case snd found of None \<Rightarrow> True | Some was \<Rightarrow> was < amount)
     in after (if more_money then perform (release_scope (cx_company_id cx) project_id unit_id) else returnT (Inr [])) (\<lambda>released.
        returnT (Inr [(''budget_id'', JStr (uuid_str (bg_id (fst found)))), (''amount'', JStr (vs_decimal vs amount)),
          (''released_tasks'', JArr (map (\<lambda>i. JStr (uuid_str i)) released))])))"

definition allocate_budget ::
    "verb_settings \<Rightarrow> command_context \<Rightarrow> money \<Rightarrow> string \<Rightarrow> uuid option \<Rightarrow> uuid option \<Rightarrow> bool \<Rightarrow> dict attempt" where
  "allocate_budget vs cx amount period project_id unit_id hard_cap =
     unless (project_id \<noteq> None \<and> unit_id \<noteq> None) ''a budget belongs to a project or a business, not both''
       (after (case project_id of None \<Rightarrow> returnT (Inr ()) | Some p \<Rightarrow> after (company_project cx p) (\<lambda>_. returnT (Inr ()))) (\<lambda>_.
        after (case unit_id of None \<Rightarrow> returnT (Inr ()) | Some u \<Rightarrow> after (company_unit cx u) (\<lambda>_. returnT (Inr ()))) (\<lambda>_.
        after (perform (set_budget vs (cx_company_id cx) amount period project_id unit_id hard_cap))
          (announce_budget vs cx amount period project_id unit_id))))"

section \<open>Projects\<close>

definition create_project :: "command_context \<Rightarrow> string \<Rightarrow> string option \<Rightarrow> uuid option \<Rightarrow> dict \<Rightarrow> dict attempt" where
  "create_project cx name description unit_id kill_criteria =
     after (case unit_id of None \<Rightarrow> returnT (Inr ()) | Some u \<Rightarrow> after (company_unit cx u) (\<lambda>_. returnT (Inr ()))) (\<lambda>_.
     after (perform (add_row projects_table (\<lambda>i. \<lparr>pj_id = i, pj_company_id = cx_company_id cx, pj_business_unit_id = unit_id,
       pj_opportunity_id = None, pj_name = name, pj_description = description, pj_state = J_active,
       pj_kill_criteria = Some kill_criteria, pj_created_by_run_id = None, pj_approved_by = Some (cx_actor cx),
       pj_override_reason = None\<rparr>))) (\<lambda>p.
     after (verb_emit cx (ProjectB (ProjectProposed name None)) ''project'' (pj_id p)) (\<lambda>_.
     returnT (Inr [(''project_id'', JStr (uuid_str (pj_id p))), (''state'', JStr (project_state_value J_active))]))))"

text \<open>Who stopped it: a pause by the system is a governance rule firing.\<close>

definition pause_trigger :: "command_context \<Rightarrow> string" where
  "pause_trigger cx = (if actor_kind (cx_actor cx) = K_system then ''kill_criteria''
     else if cx_role cx = Some ''ceo'' then ''ceo'' else ''human'')"

definition move_project :: "command_context \<Rightarrow> project \<Rightarrow> project_state \<Rightarrow> project_payload \<Rightarrow> dict attempt" where
  "move_project cx p st payload =
     after (perform (change_row projects_table (pj_id p) (\<lambda>p. p\<lparr>pj_state := st\<rparr>))) (\<lambda>_.
     after (verb_emit cx (ProjectB payload) ''project'' (pj_id p)) (\<lambda>_.
     returnT (Inr [(''project_id'', JStr (uuid_str (pj_id p))), (''state'', JStr (project_state_value st))])))"

definition pause_project :: "command_context \<Rightarrow> uuid \<Rightarrow> string option \<Rightarrow> dict attempt" where
  "pause_project cx i reason =
     after (company_project cx i) (\<lambda>p.
     unless (pj_state p \<noteq> J_active) (pj_name p @ '' is '' @ project_state_value (pj_state p) @ '', not ACTIVE'')
       (move_project cx p J_paused (ProjectPaused (pj_name p) reason (pause_trigger cx))))"

definition resume_project :: "command_context \<Rightarrow> uuid \<Rightarrow> string option \<Rightarrow> dict attempt" where
  "resume_project cx i reason =
     after (company_project cx i) (\<lambda>p.
     unless (pj_state p \<noteq> J_paused) (pj_name p @ '' is '' @ project_state_value (pj_state p) @ '', not PAUSED'')
       (move_project cx p J_active (ProjectResumed (pj_name p) reason)))"

definition kill_project :: "command_context \<Rightarrow> uuid \<Rightarrow> string \<Rightarrow> dict attempt" where
  "kill_project cx i reason =
     after (company_project cx i) (\<lambda>p.
     unless (pj_state p \<in> {J_killed, J_completed}) (pj_name p @ '' is already '' @ project_state_value (pj_state p))
       (move_project cx p J_killed (ProjectKilled (pj_name p) (Some reason))))"

section \<open>Agents and strategy\<close>

definition pause_agent_verb :: "command_context \<Rightarrow> uuid \<Rightarrow> string \<Rightarrow> dict attempt" where
  "pause_agent_verb cx i reason =
     bindT (getsT (\<lambda>s. agent_of (fi_db s) i)) (\<lambda>found.
     case found of
       None \<Rightarrow> refuse (no_such ''agent'' i)
     | Some ag \<Rightarrow>
         unless (a_company_id ag \<noteq> cx_company_id cx) (no_such ''agent'' i)
           (unless (a_status ag \<noteq> AG_ACTIVE) (a_display_name ag @ '' is already '' @ agent_status_value (a_status ag))
             (after (perform (in_runtime (pause_agent i (cx_actor cx) (Some reason)))) (\<lambda>_.
              returnT (Inr [(''agent_id'', JStr (uuid_str i)), (''status'', JStr (agent_status_value AG_PAUSED))])))))"

definition STRATEGY_POLICY :: string where
  "STRATEGY_POLICY = ''company.strategy_summary''"

definition set_policy :: "uuid \<Rightarrow> string \<Rightarrow> json \<Rightarrow> (uuid \<times> string \<times> json) list \<Rightarrow> (uuid \<times> string \<times> json) list" where
  "set_policy company_id key v rows =
     (if list_ex (\<lambda>(c, k, _). c = company_id \<and> k = key) rows
      then map (\<lambda>(c, k, w). if c = company_id \<and> k = key then (c, k, v) else (c, k, w)) rows
      else rows @ [(company_id, key, v)])"

definition upsert_policy :: "uuid \<Rightarrow> string \<Rightarrow> json \<Rightarrow> unit firm_tx" where
  "upsert_policy company_id key v = modifyT (\<lambda>s. s\<lparr>fi_policies := set_policy company_id key v (fi_policies s)\<rparr>)"

definition update_strategy :: "command_context \<Rightarrow> string \<Rightarrow> dict attempt" where
  "update_strategy cx summary =
     after (perform (upsert_policy (cx_company_id cx) STRATEGY_POLICY (JStr summary))) (\<lambda>_.
     after (verb_emit cx (GoalB (StrategyUpdated (take 500 summary) None)) ''company'' (cx_company_id cx)) (\<lambda>_.
     returnT (Inr [(''summary'', JStr summary)])))"

section \<open>Workflows\<close>

text \<open>
  \<open>start_workflow\<close>: what it raises is a value here, because its callers go on from it with what was
  written before: the policy engine's record. \<open>instantiate\<close> raises before it writes.
\<close>

definition start_workflow ::
    "policy_engine \<Rightarrow> template_registry \<Rightarrow> uuid \<Rightarrow> uuid \<Rightarrow> string \<Rightarrow> dict \<Rightarrow> actor \<Rightarrow> string option \<Rightarrow> dict \<Rightarrow>
     (err + uuid \<times> (string \<times> uuid) list) firm_tx" where
  "start_workflow pe reg company_id project_id template params actor role facts =
     bindT (getsT (\<lambda>s. row_of projects_table s project_id)) (\<lambda>found.
     case found of
       None \<Rightarrow> returnT (Inl (StartWorkflowError (''project '' @ uuid_str project_id @ '' not found in company '' @ uuid_str company_id)))
     | Some p \<Rightarrow>
         if pj_company_id p \<noteq> company_id
         then returnT (Inl (StartWorkflowError (''project '' @ uuid_str project_id @ '' not found in company '' @ uuid_str company_id)))
         else if pj_state p \<noteq> J_active
         then returnT (Inl (StartWorkflowError (''project '' @ uuid_str project_id @ '' is '' @ project_state_value (pj_state p) @
           ''; work runs in ACTIVE ones'')))
         else if map_of reg template = None
         then returnT (Inl (StartWorkflowError (''unknown workflow template '' @ repr_str template)))
         else
           bindT (getsT (\<lambda>s. get_policies s company_id)) (\<lambda>policies.
           bindT (in_runtime (decide_and_record pe actor ''instantiate_workflow'' company_id role
             [(''template'', JStr template), (''project_id'', JStr (uuid_str project_id)), (''params'', JObj params)] facts policies
             \<lparr>dr_agent_id = None, dr_run_id = None, dr_task_id = None\<rparr>)) (\<lambda>d.
           if dc_outcome d \<noteq> Allow then returnT (Inl (WorkflowNotAllowed (outcome_value (dc_outcome d)) (dc_reason d)))
           else
             tryT (bindT (in_runtime (workflow_instantiate reg template company_id project_id (Some params) None)) (\<lambda>r. returnT (Inr r)))
               (\<lambda>e. returnT (Inl (case e of WorkflowError t \<Rightarrow> StartWorkflowError t | _ \<Rightarrow> e))))))"

definition workflow_refusal :: "verb_settings \<Rightarrow> err \<Rightarrow> string" where
  "workflow_refusal vs e =
     (case e of
        WorkflowNotAllowed decided reason \<Rightarrow> ''instantiate_workflow '' @ decided @ '': '' @ reason
      | StartWorkflowError t \<Rightarrow> t
      | _ \<Rightarrow> vs_explain vs e)"

definition join_cycle :: "cycle option \<Rightarrow> uuid \<times> (string \<times> uuid) list \<Rightarrow> unit firm_tx" where
  "join_cycle c r =
     (case c of
        None \<Rightarrow> returnT ()
      | Some c \<Rightarrow> in_runtime (
          bindT (upd_workflow (fst r) (\<lambda>w. w\<lparr>w_cycle_id := Some (cy_id c)\<rparr>)) (\<lambda>_.
          forT (map snd (snd r)) (\<lambda>i. upd_task i (\<lambda>t. t\<lparr>t_cycle_id := Some (cy_id c)\<rparr>)))))"

definition instantiate_verb :: "verb_settings \<Rightarrow> command_context \<Rightarrow> string \<Rightarrow> uuid \<Rightarrow> dict \<Rightarrow> dict attempt" where
  "instantiate_verb vs cx template project_id params =
     bindT (getsT (\<lambda>s. open_cycle s (cx_company_id cx))) (\<lambda>c.
     case (cx_policy cx, cx_workflows cx) of
       (Some pe, Some reg) \<Rightarrow>
         bindT (start_workflow pe reg (cx_company_id cx) project_id template params (cx_actor cx) (cx_role cx) []) (\<lambda>started.
         (case started of
            Inl e \<Rightarrow> refuse (workflow_refusal vs e)
          | Inr r \<Rightarrow>
              after (perform (join_cycle c r)) (\<lambda>_.
              returnT (Inr [(''workflow_run_id'', JStr (uuid_str (fst r))), (''template'', JStr template),
                (''tasks'', JInt (int (length (snd r))))]))))
     | _ \<Rightarrow> refuse ''this bus cannot start workflows: it was built without the engine'')"

text \<open>\<open>jsonb\<close> compares objects without the order of their keys.\<close>

definition superseded_by :: "firm \<Rightarrow> workflow_run \<Rightarrow> workflow_run option" where
  "superseded_by s w =
     last_some (sort_key w_id (filter (\<lambda>v. w_company_id v = w_company_id w \<and> w_template_name v = w_template_name w \<and>
       sort_json (JObj (w_params v)) = sort_json (JObj (w_params w)) \<and> w_id w < w_id v \<and>
       w_state v \<in> {W_SUCCEEDED, W_RUNNING}) (workflows (fi_db s))))"

definition restart_workflow :: "verb_settings \<Rightarrow> command_context \<Rightarrow> uuid \<Rightarrow> dict attempt" where
  "restart_workflow vs cx i =
     bindT (getsT (\<lambda>s. workflow_of (fi_db s) i)) (\<lambda>found.
     case found of
       None \<Rightarrow> refuse (no_such ''workflow run'' i)
     | Some w \<Rightarrow>
         unless (w_company_id w \<noteq> cx_company_id cx) (no_such ''workflow run'' i)
           (unless (w_state w \<notin> set (terminal_states WORKFLOW_RUN_FSM))
             (''that run is still '' @ workflow_run_state_value (w_state w) @ ''; only a finished one can be restarted'')
             (bindT (getsT (\<lambda>s. superseded_by s w)) (\<lambda>later.
              case later of
                Some v \<Rightarrow> refuse (''the same work already ran again ('' @ uuid_str (w_id v) @ '', '' @
                  lower (workflow_run_state_value (w_state v)) @ ''): restarting this one would do it twice'')
              | None \<Rightarrow>
                  after (instantiate_verb vs cx (w_template_name w) (w_project_id w) (w_params w)) (\<lambda>fresh.
                  returnT (Inr (dict_set ''restarted_from'' (JStr (uuid_str i)) fresh)))))))"

definition workflows_this_cycle :: "firm \<Rightarrow> uuid \<Rightarrow> dict" where
  "workflows_this_cycle s company_id =
     [(''workflows_in_cycle'', JInt (case open_cycle s company_id of
        None \<Rightarrow> 0
      | Some c \<Rightarrow> int (length (filter (\<lambda>w. w_cycle_id w = Some (cy_id c)) (workflows (fi_db s))))))]"

end
