(* ===== verification/BusinessVerbs.thy ===== *)
theory BusinessVerbs
  imports Verbs
begin

text \<open>
  The commands of the business loop (\<open>company/verbs_business.py\<close>), and the bus with every verb
  registered. Opening a business takes everything from the frozen proposal: the business, its first
  product, both decisions and the capital in one transaction.
\<close>

definition CAPITAL_CATEGORY :: string where
  "CAPITAL_CATEGORY = ''capital_allocation''"

definition MAX_DISCOVERED_PER_RUN :: nat where
  "MAX_DISCOVERED_PER_RUN = 3"

definition company_opportunity :: "command_context \<Rightarrow> uuid \<Rightarrow> opportunity attempt" where
  "company_opportunity cx i =
     bindT (getsT (\<lambda>s. row_of opportunities_table s i)) (\<lambda>found.
     case found of
       None \<Rightarrow> refuse (no_such ''opportunity'' i)
     | Some o1 \<Rightarrow> unless (op_company_id o1 \<noteq> cx_company_id cx) (no_such ''opportunity'' i) (returnT (Inr o1)))"

text \<open>The arguments of the nested command are validated by its model: a wrong period is an error there.\<close>

section \<open>Opportunities\<close>

definition allocate_exploration :: "verb_settings \<Rightarrow> command_context \<Rightarrow> uuid \<Rightarrow> money \<Rightarrow> string \<Rightarrow> dict attempt" where
  "allocate_exploration vs cx project_id amount period =
     after (company_project cx project_id) (\<lambda>p.
     case pj_opportunity_id p of
       None \<Rightarrow> refuse (''project '' @ repr_str (pj_name p) @ '' explores no opportunity; ordinary work is funded with AllocateBudget'')
     | Some o1 \<Rightarrow>
         if \<not> valid_command (AllocateBudget amount period (Some project_id) None True) then throwT (ValueError ''period'')
         else after (allocate_budget vs cx amount period (Some project_id) None True) (\<lambda>result.
           returnT (Inr (dict_set ''opportunity_id'' (JStr (uuid_str o1)) result))))"

definition score_verb :: "verb_settings \<Rightarrow> command_context \<Rightarrow> uuid \<Rightarrow> rat \<Rightarrow> string option \<Rightarrow> dict attempt" where
  "score_verb vs cx i value reason =
     after (company_opportunity cx i) (\<lambda>o1.
     after (perform (score_opportunity i value (cx_actor cx) reason)) (\<lambda>_.
     returnT (Inr [(''opportunity_id'', JStr (uuid_str i)), (''score'', JStr (vs_decimal vs value))])))"

definition opportunity_state_of :: "string \<Rightarrow> opportunity_state option" where
  "opportunity_state_of t = first_some (filter (\<lambda>st. opportunity_state_value st = t)
     [O_discovered, O_evaluating, O_validating, O_approved, O_rejected, O_expired])"

text \<open>An error of the opportunity service is a refusal; an illegal transition is not one of them.\<close>

definition or_refuse :: "verb_settings \<Rightarrow> 'a firm_tx \<Rightarrow> 'a attempt" where
  "or_refuse vs m = tryT (perform m) (\<lambda>e. case e of
     OpportunityError t \<Rightarrow> refuse t | DuplicateOpportunity t \<Rightarrow> refuse (vs_explain vs e) | _ \<Rightarrow> throwT e)"

definition advance_verb ::
    "verb_settings \<Rightarrow> command_context \<Rightarrow> uuid \<Rightarrow> string \<Rightarrow> string option \<Rightarrow> uuid option \<Rightarrow> dict attempt" where
  "advance_verb vs cx i to_state reason unit_id =
     after (company_opportunity cx i) (\<lambda>o1.
     case opportunity_state_of to_state of
       None \<Rightarrow> refuse (repr_str to_state @ '' is not a state an opportunity has'')
     | Some st \<Rightarrow>
         unless (st = O_rejected) ''use RejectOpportunity, which records why''
           (after (or_refuse vs (advance_opportunity i st (cx_actor cx) reason unit_id)) (\<lambda>_.
            returnT (Inr [(''opportunity_id'', JStr (uuid_str i)), (''state'', JStr (opportunity_state_value st))]))))"

definition reject_verb :: "command_context \<Rightarrow> uuid \<Rightarrow> string \<Rightarrow> dict attempt" where
  "reject_verb cx i reason =
     after (company_opportunity cx i) (\<lambda>o1.
     after (perform (advance_opportunity i O_rejected (cx_actor cx) (Some reason) None)) (\<lambda>_.
     returnT (Inr [(''opportunity_id'', JStr (uuid_str i)), (''state'', JStr (opportunity_state_value O_rejected))])))"

section \<open>Signals\<close>

text \<open>What the tool calls of the run's task produced, any attempt: the type by identifier.\<close>

definition produced_by_run :: "firm \<Rightarrow> uuid \<Rightarrow> (uuid \<times> string) list" where
  "produced_by_run s run_id =
     (case run_of (fi_db s) run_id of
        None \<Rightarrow> []
      | Some r \<Rightarrow> concat (List.map_filter (\<lambda>e.
          if e_task_id e = Some (r_task_id r)
          then (case e_payload e of ToolP (ToolCompleted a b c d m refs) \<Rightarrow> Some (map (\<lambda>p. (pr_id p, pr_type p)) refs) | _ \<Rightarrow> None)
          else None) (events (fi_db s))))"

definition discovered_by_run :: "firm \<Rightarrow> uuid \<Rightarrow> nat" where
  "discovered_by_run s run_id =
     length (filter (\<lambda>r. cm_run_id r = Some run_id \<and> cm_command r = ''DiscoverOpportunity'' \<and> cm_outcome r = Command_done)
       (fi_commands s))"

text \<open>\<open>rsplit(':', 1)[-1].strip()\<close>, and \<open>uuid.UUID\<close> of it, which is a parameter.\<close>

definition after_last_colon :: "string \<Rightarrow> string" where
  "after_last_colon t = strip (rev (takeWhile (\<lambda>c. c \<noteq> CHR '':'') (rev t)))"

definition company_signal_issue :: "verb_settings \<Rightarrow> firm \<Rightarrow> uuid \<Rightarrow> signal_input \<Rightarrow> string option" where
  "company_signal_issue vs s company_id si =
     (case (si_metric si, si_value si) of
        (Some m, Some v) \<Rightarrow> figure_issue s company_id m (vs_decimal vs v)
          (if si_business_unit_id si = None then Scope_company else Scope_business_unit) (si_business_unit_id si)
      | _ \<Rightarrow> Some ''a company signal cites a metric and its value from the report'')"

definition checked_signal ::
    "verb_settings \<Rightarrow> (string \<Rightarrow> uuid option) \<Rightarrow> command_context \<Rightarrow> signal_input \<Rightarrow> string option attempt" where
  "checked_signal vs read_uuid cx si =
     (case cx_run_id cx of
        None \<Rightarrow> returnT (Inr (si_evidence_ref si))
      | Some run_id \<Rightarrow>
          if si_source si = ''person'' then refuse ''an agent's observation is not a person's; say where it came from''
          else if si_source si = ''company'' then
            bindT (getsT (\<lambda>s. company_signal_issue vs s (cx_company_id cx) si)) (\<lambda>issue.
            case nonempty issue of Some t \<Rightarrow> refuse t | None \<Rightarrow> returnT (Inr None))
          else
            (case read_uuid (after_last_colon (case si_evidence_ref si of None \<Rightarrow> [] | Some t \<Rightarrow> t)) of
               None \<Rightarrow> refuse ''a web signal cites the id of a page captured in this run (fetch_url's evidence_id)''
             | Some cited \<Rightarrow>
                 bindT (getsT (\<lambda>s. map_of (rev (produced_by_run s run_id)) cited)) (\<lambda>found.
                 case found of
                   None \<Rightarrow> refuse (uuid_str cited @ '' was not captured in this run; fetch the page first'')
                 | Some ty \<Rightarrow> returnT (Inr (Some (ty @ '':'' @ uuid_str cited))))))"

definition record_signal :: "command_context \<Rightarrow> opportunity \<Rightarrow> signal_input \<times> string option \<Rightarrow> opportunity_signal firm_tx" where
  "record_signal cx o1 p =
     add_signal o1 \<lparr>ob_source = si_source (fst p), ob_summary = si_summary (fst p), ob_metric = si_metric (fst p),
       ob_value = si_value (fst p), ob_observed_at = None, ob_evidence_ref = snd p, ob_run_id = cx_run_id cx\<rparr> (cx_actor cx)"

fun check_signals ::
    "verb_settings \<Rightarrow> (string \<Rightarrow> uuid option) \<Rightarrow> command_context \<Rightarrow> signal_input list \<Rightarrow> (signal_input \<times> string option) list attempt" where
  "check_signals vs read_uuid cx [] = returnT (Inr [])"
| "check_signals vs read_uuid cx (si # rest) =
     after (checked_signal vs read_uuid cx si) (\<lambda>ref.
     after (check_signals vs read_uuid cx rest) (\<lambda>refs. returnT (Inr ((si, ref) # refs))))"

section \<open>Discovering\<close>

definition discover_verb ::
    "verb_settings \<Rightarrow> (string \<Rightarrow> uuid option) \<Rightarrow> command_context \<Rightarrow> string \<Rightarrow> string \<Rightarrow> string \<Rightarrow> string option \<Rightarrow>
     signal_input list \<Rightarrow> dict attempt" where
  "discover_verb vs read_uuid cx key title thesis market signals =
     bindT (getsT (\<lambda>s. case cx_run_id cx of None \<Rightarrow> 0 | Some r \<Rightarrow> discovered_by_run s r)) (\<lambda>found.
     unless (cx_run_id cx \<noteq> None \<and> MAX_DISCOVERED_PER_RUN \<le> found)
       (''this run already recorded '' @ nat_str found @ '' new opportunities; '' @ nat_str MAX_DISCOVERED_PER_RUN @
        '' is the most one look at the market may add'')
       (after (check_signals vs read_uuid cx signals) (\<lambda>checked.
        after (tryT (perform (discover (cx_company_id cx) \<lparr>ds_key = key, ds_title = title, ds_thesis = Some thesis,
            ds_market = market, ds_expires_at = None, ds_run_id = cx_run_id cx\<rparr> (cx_actor cx)))
          (\<lambda>e. case e of
             DuplicateOpportunity _ \<Rightarrow> refuse (''the company already has an opportunity '' @ repr_str key @
               '' (it may have been rejected: that is kept on purpose); add a signal to it instead, or pick a new key'')
           | _ \<Rightarrow> throwT e)) (\<lambda>o1.
        after (perform (mapT checked (record_signal cx o1))) (\<lambda>recorded.
        returnT (Inr [(''opportunity_id'', JStr (uuid_str (op_id o1))), (''key'', JStr (op_key o1)),
          (''signal_ids'', JArr (map (\<lambda>g. JStr (uuid_str (sg_id g))) recorded))]))))))"

definition decided_already :: "opportunity \<Rightarrow> string" where
  "decided_already o1 = ''opportunity '' @ op_key o1 @ '' is '' @ opportunity_state_value (op_state o1) @ ''; it was decided already''"

definition record_opportunity_signal ::
    "verb_settings \<Rightarrow> (string \<Rightarrow> uuid option) \<Rightarrow> command_context \<Rightarrow> uuid \<Rightarrow> signal_input \<Rightarrow> dict attempt" where
  "record_opportunity_signal vs read_uuid cx i si =
     after (company_opportunity cx i) (\<lambda>o1.
     unless (op_state o1 \<notin> set OPEN_OPPORTUNITIES) (decided_already o1)
       (after (checked_signal vs read_uuid cx si) (\<lambda>ref.
        after (perform (record_signal cx o1 (si, ref))) (\<lambda>g.
        returnT (Inr [(''opportunity_id'', JStr (uuid_str i)), (''signal_ids'', JArr [JStr (uuid_str (sg_id g))])])))))"

section \<open>Proposals\<close>

definition draft_verb :: "command_context \<Rightarrow> uuid \<Rightarrow> string \<Rightarrow> proposal_plan \<Rightarrow> dict attempt" where
  "draft_verb cx i title plan =
     after (company_opportunity cx i) (\<lambda>o1.
     unless (op_state o1 \<notin> set OPEN_OPPORTUNITIES) (decided_already o1)
       (unless (case pp_kill_criteria plan of None \<Rightarrow> True | Some d \<Rightarrow> d = [])
         ''a proposal must say what would make this business not worth running''
         (after (perform (draft_proposal o1 title plan (cx_actor cx) (cx_run_id cx))) (\<lambda>p.
          returnT (Inr [(''proposal_id'', JStr (uuid_str (bp_id p))), (''version'', JInt (int (bp_version p))),
            (''opportunity_id'', JStr (uuid_str i))])))))"

definition company_proposal :: "command_context \<Rightarrow> uuid \<Rightarrow> business_proposal attempt" where
  "company_proposal cx i =
     bindT (getsT (\<lambda>s. row_of proposals_table s i)) (\<lambda>found.
     case found of
       None \<Rightarrow> refuse (no_such ''proposal'' i)
     | Some p \<Rightarrow> unless (bp_company_id p \<noteq> cx_company_id cx) (no_such ''proposal'' i) (returnT (Inr p)))"

definition proposal_is :: "business_proposal \<Rightarrow> string" where
  "proposal_is p = ''proposal v'' @ nat_str (bp_version p) @ '' is '' @ proposal_state_value (bp_state p)"

definition submit_verb :: "command_context \<Rightarrow> uuid \<Rightarrow> dict attempt" where
  "submit_verb cx i =
     after (company_proposal cx i) (\<lambda>p.
     unless (bp_state p \<noteq> V_draft) (proposal_is p @ ''; only a draft is put up'')
       (after (perform (submit_proposal i (cx_actor cx))) (\<lambda>_.
        returnT (Inr [(''proposal_id'', JStr (uuid_str i)), (''version'', JInt (int (bp_version p))),
          (''state'', JStr (proposal_state_value V_submitted))]))))"

section \<open>Businesses\<close>

text \<open>A product the proposal describes by a key that is not text is an error of the database.\<close>

definition first_product :: "command_context \<Rightarrow> business_unit \<Rightarrow> business_proposal \<Rightarrow> string option firm_tx" where
  "first_product cx u p =
     (let described = (case pp_proposed_product (bp_plan p) of None \<Rightarrow> [] | Some d \<Rightarrow> d);
          key = (case map_of described ''key'' of None \<Rightarrow> JNull | Some j \<Rightarrow> j);
          name = (case map_of described ''name'' of None \<Rightarrow> JNull | Some j \<Rightarrow> if json_truthy j then j else JNull)
      in if \<not> json_truthy key then returnT None
         else
           (case (key, if name = JNull then JStr (bp_title p) else name) of
              (JStr k, JStr n) \<Rightarrow>
                bindT (add_row products_table (\<lambda>i. \<lparr>pt_id = i, pt_company_id = cx_company_id cx, pt_business_unit_id = bu_id u,
                  pt_key = k, pt_name = n, pt_description = None, pt_state = Product_draft, pt_public_url = None\<rparr>)) (\<lambda>r.
                bindT (firm_emit (OrganizationB (ProductCreated k n (bu_id u) (product_state_value Product_draft)))
                  (cx_company_id cx) (cx_actor cx) ''product'' (pt_id r) None) (\<lambda>_.
                returnT (Some (uuid_str (pt_id r)))))
            | _ \<Rightarrow> throwT TypeError))"

definition capital_posting ::
    "command_context \<Rightarrow> business_unit \<Rightarrow> money \<Rightarrow> string \<Rightarrow> transaction_source \<Rightarrow> (string \<times> uuid) option \<Rightarrow> string \<Rightarrow> posting" where
  "capital_posting cx u amount key source ref memo = \<lparr>po_company_id = cx_company_id cx, po_kind = K_transfer,
     po_category = CAPITAL_CATEGORY, po_amount = amount, po_idempotency_key = key, po_actor = Some (cx_actor cx),
     po_project_id = None, po_business_unit_id = Some (bu_id u), po_product_id = None, po_customer_id = None,
     po_occurred_at = None, po_source = source, po_ref_type = map_option fst ref, po_ref_id = map_option snd ref,
     po_memo = Some memo, po_currency = None\<rparr>"

definition unit_with_key :: "firm \<Rightarrow> uuid \<Rightarrow> string \<Rightarrow> business_unit option" where
  "unit_with_key s company_id key =
     first_some (filter (\<lambda>u. bu_company_id u = company_id \<and> bu_key u = key) (fi_units s))"

definition opening_business ::
    "verb_settings \<Rightarrow> command_context \<Rightarrow> business_proposal \<Rightarrow> string \<Rightarrow> money \<Rightarrow> string option \<Rightarrow> dict firm_tx" where
  "opening_business vs cx p key capital reason =
     bindT (add_row units_table (\<lambda>i. \<lparr>bu_id = i, bu_company_id = cx_company_id cx, bu_key = key, bu_name = bp_title p,
       bu_mission = pp_business_model (bp_plan p), bu_state = U_active,
       bu_kill_criteria = pp_kill_criteria (bp_plan p)\<rparr>)) (\<lambda>u.
     bindT (firm_emit (OrganizationB (BusinessUnitCreated key (bp_title p) (unit_state_value U_active) (Some (bp_id p))
       (if capital = 0 then None else Some capital))) (cx_company_id cx) (cx_actor cx) ''business_unit'' (bu_id u) None) (\<lambda>_.
     bindT (first_product cx u p) (\<lambda>product_id.
     bindT (change_row proposals_table (bp_id p) (\<lambda>p. p\<lparr>bp_business_unit_id := Some (bu_id u)\<rparr>)) (\<lambda>_.
     bindT (decide_proposal (bp_id p) V_approved (cx_actor cx) reason None) (\<lambda>_.
     bindT (advance_opportunity (bp_opportunity_id p) O_approved (cx_actor cx)
       (Some (case nonempty reason of Some t \<Rightarrow> t | None \<Rightarrow> ''approved proposal v'' @ nat_str (bp_version p))) (Some (bu_id u))) (\<lambda>_.
     bindT (if 0 < capital
       then bindT (ledger_record (vs_ledger vs) (capital_posting cx u capital
              (''business_unit:'' @ uuid_str (bu_id u) @ '':capital'') From_human (Some (''business_proposal'', bp_id p))
              (''opening capital for '' @ bu_name u))) (\<lambda>_. returnT ())
       else returnT ()) (\<lambda>_.
     returnT [(''business_unit_id'', JStr (uuid_str (bu_id u))), (''key'', JStr key),
       (''product_id'', case product_id of None \<Rightarrow> JNull | Some t \<Rightarrow> JStr t),
       (''proposal_version'', JInt (int (bp_version p))), (''capital'', JStr (vs_decimal vs capital))])))))))"

definition create_business_unit ::
    "verb_settings \<Rightarrow> command_context \<Rightarrow> uuid \<Rightarrow> money \<Rightarrow> string option \<Rightarrow> string option \<Rightarrow> dict attempt" where
  "create_business_unit vs cx proposal_id capital key reason =
     after (company_proposal cx proposal_id) (\<lambda>p.
     unless (bp_state p \<noteq> V_submitted) (proposal_is p @ ''; only a submitted one can be approved (a draft is still being '' @
       ''written, a decided one is already answered)'')
       (bindT (get_row opportunities_table (bp_opportunity_id p) AssertionError) (\<lambda>o1.
        let k = (case nonempty key of Some k \<Rightarrow> k | None \<Rightarrow> op_key o1)
        in bindT (getsT (\<lambda>s. unit_with_key s (cx_company_id cx) k)) (\<lambda>clash.
           unless (clash \<noteq> None) (''the company already has a business '' @ repr_str k)
             (perform (opening_business vs cx p k capital reason))))))"

definition scale_business_unit ::
    "verb_settings \<Rightarrow> command_context \<Rightarrow> uuid \<Rightarrow> money \<Rightarrow> string option \<Rightarrow> dict attempt" where
  "scale_business_unit vs cx i amount reason =
     after (company_unit cx i) (\<lambda>u.
     unless (bu_state u \<noteq> U_active) (bu_name u @ '' is '' @ unit_state_value (bu_state u) @
       '': capital goes to a business that is running'')
       (unless (amount = 0) ''scaling by nothing is not a decision''
         (after (verb_emit cx (OrganizationB (BusinessUnitScaled (bu_key u) (bu_name u) amount reason)) ''business_unit'' i) (\<lambda>_.
          after (perform (ledger_record (vs_ledger vs) (capital_posting cx u \<bar>amount\<bar>
            (''business_unit:'' @ uuid_str i @ '':scale:'' @ (case cx_key cx of None \<Rightarrow> ''None'' | Some k \<Rightarrow> k))
            (if actor_kind (cx_actor cx) = K_human then From_human else From_system) None
            (case nonempty reason of Some t \<Rightarrow> t | None \<Rightarrow> ''capital change for '' @ bu_name u)))) (\<lambda>moved.
          returnT (Inr [(''business_unit_id'', JStr (uuid_str i)), (''amount'', JStr (vs_decimal vs amount)),
            (''transaction_id'', case moved of None \<Rightarrow> JNull | Some r \<Rightarrow> JStr (uuid_str (tn_id r)))]))))))"

definition pause_business_unit :: "command_context \<Rightarrow> uuid \<Rightarrow> string \<Rightarrow> dict attempt" where
  "pause_business_unit cx i reason =
     after (company_unit cx i) (\<lambda>u.
     unless (bu_state u \<noteq> U_active) (bu_name u @ '' is already '' @ unit_state_value (bu_state u))
       (after (perform (change_row units_table i (\<lambda>u. u\<lparr>bu_state := U_paused\<rparr>))) (\<lambda>_.
        after (verb_emit cx (OrganizationB (BusinessUnitPaused (bu_key u) (bu_name u) (Some reason)
          (if actor_kind (cx_actor cx) = K_agent then ''ceo'' else ''human''))) ''business_unit'' i) (\<lambda>_.
        returnT (Inr [(''business_unit_id'', JStr (uuid_str i)), (''state'', JStr (unit_state_value U_paused))])))))"

definition products_of :: "firm \<Rightarrow> uuid \<Rightarrow> product list" where
  "products_of s unit_id =
     filter (\<lambda>p. pt_business_unit_id p = unit_id \<and> pt_state p \<noteq> Product_retired) (fi_products s)"

definition retire_products :: "uuid list \<Rightarrow> unit firm_tx" where
  "retire_products ids = forT ids (\<lambda>i. change_row products_table i (\<lambda>p. p\<lparr>pt_state := Product_retired\<rparr>))"

definition wind_down_business_unit :: "command_context \<Rightarrow> uuid \<Rightarrow> string \<Rightarrow> dict attempt" where
  "wind_down_business_unit cx i reason =
     after (company_unit cx i) (\<lambda>u.
     unless (bu_state u = U_wound_down) (bu_name u @ '' is already wound down'')
       (bindT (getsT (\<lambda>s. map pt_id (products_of s i))) (\<lambda>retiring.
        after (perform (change_row units_table i (\<lambda>u. u\<lparr>bu_state := U_wound_down\<rparr>))) (\<lambda>_.
        after (perform (retire_products retiring)) (\<lambda>_.
        after (verb_emit cx (OrganizationB (BusinessUnitWoundDown (bu_key u) (bu_name u) reason)) ''business_unit'' i) (\<lambda>_.
        returnT (Inr [(''business_unit_id'', JStr (uuid_str i)), (''state'', JStr (unit_state_value U_wound_down)),
          (''products_retired'', JInt (int (length retiring)))])))))))"

section \<open>Every verb on the bus\<close>

text \<open>
  The pydantic models as parameters: a payload loaded as the command of a name, or its problems, and
  a command dumped; \<open>cc_uuid\<close> is \<open>uuid.UUID\<close> of a text.
\<close>

record command_codec =
  cc_load :: "string \<Rightarrow> dict \<Rightarrow> string + company_command"
  cc_dump :: "company_command \<Rightarrow> dict"
  cc_uuid :: "string \<Rightarrow> uuid option"

fun command_name :: "company_command \<Rightarrow> string" where
  "command_name (CreateCycleGoal _ _ _ _) = ''CreateCycleGoal''"
| "command_name (AllocateBudget _ _ _ _ _) = ''AllocateBudget''"
| "command_name (InstantiateWorkflow _ _ _ _) = ''InstantiateWorkflow''"
| "command_name (CreateProject _ _ _ _) = ''CreateProject''"
| "command_name (PauseProject _ _) = ''PauseProject''"
| "command_name (ResumeProject _ _) = ''ResumeProject''"
| "command_name (KillProject _ _) = ''KillProject''"
| "command_name (UpdateStrategy _) = ''UpdateStrategy''"
| "command_name (PauseAgent _ _) = ''PauseAgent''"
| "command_name (RestartWorkflow _ _) = ''RestartWorkflow''"
| "command_name (AllocateExplorationBudget _ _ _) = ''AllocateExplorationBudget''"
| "command_name (ScoreOpportunity _ _ _) = ''ScoreOpportunity''"
| "command_name (AdvanceOpportunity _ _ _ _) = ''AdvanceOpportunity''"
| "command_name (RejectOpportunity _ _) = ''RejectOpportunity''"
| "command_name (DiscoverOpportunity _ _ _ _ _) = ''DiscoverOpportunity''"
| "command_name (RecordOpportunitySignal _ _) = ''RecordOpportunitySignal''"
| "command_name (DraftProposal _ _ _) = ''DraftProposal''"
| "command_name (SubmitProposal _) = ''SubmitProposal''"
| "command_name (CreateBusinessUnit _ _ _ _) = ''CreateBusinessUnit''"
| "command_name (ScaleBusinessUnit _ _ _) = ''ScaleBusinessUnit''"
| "command_name (PauseBusinessUnit _ _) = ''PauseBusinessUnit''"
| "command_name (WindDownBusinessUnit _ _) = ''WindDownBusinessUnit''"

fun handle_command ::
    "verb_settings \<Rightarrow> command_codec \<Rightarrow> command_context \<Rightarrow> company_command \<Rightarrow> dict attempt" where
  "handle_command vs cc cx (CreateCycleGoal title metric target u) = create_cycle_goal cx title metric target u"
| "handle_command vs cc cx (AllocateBudget amount period p u hard) = allocate_budget vs cx amount period p u hard"
| "handle_command vs cc cx (InstantiateWorkflow template p params priority) = instantiate_verb vs cx template p params"
| "handle_command vs cc cx (CreateProject name description u kill) = create_project cx name description u kill"
| "handle_command vs cc cx (PauseProject p reason) = pause_project cx p reason"
| "handle_command vs cc cx (ResumeProject p reason) = resume_project cx p reason"
| "handle_command vs cc cx (KillProject p reason) = kill_project cx p reason"
| "handle_command vs cc cx (UpdateStrategy summary) = update_strategy cx summary"
| "handle_command vs cc cx (PauseAgent i reason) = pause_agent_verb cx i reason"
| "handle_command vs cc cx (RestartWorkflow i reason) = restart_workflow vs cx i"
| "handle_command vs cc cx (AllocateExplorationBudget p amount period) = allocate_exploration vs cx p amount period"
| "handle_command vs cc cx (ScoreOpportunity i v reason) = score_verb vs cx i v reason"
| "handle_command vs cc cx (AdvanceOpportunity i to_state reason u) = advance_verb vs cx i to_state reason u"
| "handle_command vs cc cx (RejectOpportunity i reason) = reject_verb cx i reason"
| "handle_command vs cc cx (DiscoverOpportunity key title thesis market signals) =
     discover_verb vs (cc_uuid cc) cx key title thesis market signals"
| "handle_command vs cc cx (RecordOpportunitySignal i si) = record_opportunity_signal vs (cc_uuid cc) cx i si"
| "handle_command vs cc cx (DraftProposal i title plan) = draft_verb cx i title plan"
| "handle_command vs cc cx (SubmitProposal i) = submit_verb cx i"
| "handle_command vs cc cx (CreateBusinessUnit p capital key reason) = create_business_unit vs cx p capital key reason"
| "handle_command vs cc cx (ScaleBusinessUnit i amount reason) = scale_business_unit vs cx i amount reason"
| "handle_command vs cc cx (PauseBusinessUnit i reason) = pause_business_unit cx i reason"
| "handle_command vs cc cx (WindDownBusinessUnit i reason) = wind_down_business_unit cx i reason"

text \<open>The name of a verb and the policy action that decides it; restarting is decided as starting is.\<close>

definition COMPANY_VERBS :: "(string \<times> string) list" where
  "COMPANY_VERBS =
     [(''CreateCycleGoal'', ''create_cycle_goal''), (''AllocateBudget'', ''allocate_budget''),
      (''InstantiateWorkflow'', ''instantiate_workflow''), (''CreateProject'', ''create_project''),
      (''PauseProject'', ''pause_project''), (''ResumeProject'', ''resume_project''), (''KillProject'', ''kill_project''),
      (''UpdateStrategy'', ''update_strategy''), (''PauseAgent'', ''pause_agent''),
      (''RestartWorkflow'', ''instantiate_workflow'')]"

definition BUSINESS_VERBS :: "(string \<times> string) list" where
  "BUSINESS_VERBS =
     [(''AllocateExplorationBudget'', ''allocate_exploration_budget''), (''ScoreOpportunity'', ''score_opportunity''),
      (''AdvanceOpportunity'', ''advance_opportunity''), (''RejectOpportunity'', ''reject_opportunity''),
      (''DiscoverOpportunity'', ''discover_opportunity''), (''RecordOpportunitySignal'', ''record_opportunity_signal''),
      (''DraftProposal'', ''draft_proposal''), (''SubmitProposal'', ''submit_proposal''),
      (''CreateBusinessUnit'', ''create_business_unit''), (''ScaleBusinessUnit'', ''scale_business_unit''),
      (''PauseBusinessUnit'', ''pause_business_unit''), (''WindDownBusinessUnit'', ''wind_down_business_unit'')]"

text \<open>\<open>format_money\<close> in the base currency; the text of a fraction is \<open>str\<close> of the decimal.\<close>

definition format_money :: "verb_settings \<Rightarrow> money \<Rightarrow> string" where
  "format_money vs amount =
     (let figure = (if amount = of_int (floor amount) then int_str (floor amount) else vs_decimal vs amount);
          currency = fx_base (ld_fx (vs_ledger vs))
      in case map_of [(''TWD'', ''NT$''), (''USD'', ''$'')] currency of
           Some symbol \<Rightarrow> symbol @ figure
         | None \<Rightarrow> currency @ '' '' @ figure)"

fun command_summary :: "verb_settings \<Rightarrow> company_command \<Rightarrow> string" where
  "command_summary vs (CreateCycleGoal title metric target u) =
     ''Goal: '' @ title @ '' ('' @ metric @ '' -> '' @ vs_decimal vs target @ '')''"
| "command_summary vs (AllocateBudget amount period p u hard) = ''Allocate '' @ format_money vs amount @ '' per '' @ period"
| "command_summary vs (InstantiateWorkflow template p params priority) = ''Start '' @ template"
| "command_summary vs (CreateProject name description u kill) = ''New project: '' @ name"
| "command_summary vs (PauseProject p reason) = ''Pause project '' @ uuid_str p @ '': '' @
     (case nonempty reason of Some t \<Rightarrow> t | None \<Rightarrow> ''no reason given'')"
| "command_summary vs (ResumeProject p reason) = ''Resume project '' @ uuid_str p"
| "command_summary vs (KillProject p reason) = ''Kill project '' @ uuid_str p @ '': '' @ reason"
| "command_summary vs (UpdateStrategy summary) = ''New strategy: '' @ take 120 summary"
| "command_summary vs (PauseAgent i reason) = ''Pause agent '' @ uuid_str i @ '': '' @ reason"
| "command_summary vs (RestartWorkflow i reason) = ''Run workflow '' @ uuid_str i @ '' again''"
| "command_summary vs (AllocateExplorationBudget p amount period) = format_money vs amount @ '' per '' @ period @ '' to explore''"
| "command_summary vs (ScoreOpportunity i v reason) = ''Score '' @ uuid_str i @ '' at '' @ vs_decimal vs v"
| "command_summary vs (AdvanceOpportunity i to_state reason u) = ''Move '' @ uuid_str i @ '' to '' @ to_state"
| "command_summary vs (RejectOpportunity i reason) = ''Reject '' @ uuid_str i @ '': '' @ reason"
| "command_summary vs (DiscoverOpportunity key title thesis market signals) = ''Discovered: '' @ title"
| "command_summary vs (RecordOpportunitySignal i si) = ''Observed about '' @ uuid_str i @ '': '' @ take 100 (si_summary si)"
| "command_summary vs (DraftProposal i title plan) = ''Draft a proposal: '' @ title"
| "command_summary vs (SubmitProposal p) = ''Put proposal '' @ uuid_str p @ '' up for decision''"
| "command_summary vs (CreateBusinessUnit p capital key reason) =
     ''Open a business from proposal '' @ uuid_str p @ '' with '' @ format_money vs capital"
| "command_summary vs (ScaleBusinessUnit i amount reason) = ''Move '' @ format_money vs amount @ '' of capital in '' @ uuid_str i"
| "command_summary vs (PauseBusinessUnit i reason) = ''Pause business '' @ uuid_str i @ '': '' @ reason"
| "command_summary vs (WindDownBusinessUnit i reason) = ''Wind down business '' @ uuid_str i @ '': '' @ reason"

definition verb_facts :: "string \<Rightarrow> firm \<Rightarrow> uuid \<Rightarrow> company_command \<Rightarrow> dict" where
  "verb_facts name s company_id c = (if name = ''InstantiateWorkflow'' then workflows_this_cycle s company_id else [])"

definition verb_spec :: "verb_settings \<Rightarrow> command_codec \<Rightarrow> string \<times> string \<Rightarrow> company_command command_spec" where
  "verb_spec vs cc v = \<lparr>sp_name = fst v, sp_load = cc_load cc (fst v), sp_dump = cc_dump cc, sp_action = snd v,
     sp_handler = handle_command vs cc, sp_facts = verb_facts (fst v),
     sp_summary = command_summary vs\<rparr>"

fun register_all :: "'c command_spec list \<Rightarrow> 'c command_bus \<Rightarrow> err + 'c command_bus" where
  "register_all [] bus = Inr bus"
| "register_all (sp # rest) bus =
     (case command_register sp bus of Inl e \<Rightarrow> Inl e | Inr bus \<Rightarrow> register_all rest bus)"

definition company_bus ::
    "policy_engine \<Rightarrow> approval_service \<Rightarrow> template_registry option \<Rightarrow> verb_settings \<Rightarrow> command_codec \<Rightarrow>
     err + company_command command_bus" where
  "company_bus pe svc workflows_registry vs cc =
     register_all (map (verb_spec vs cc) (COMPANY_VERBS @ BUSINESS_VERBS))
       \<lparr>cb_policy = pe, cb_approvals = svc, cb_workflows = workflows_registry, cb_specs = []\<rparr>"

end
