(* ===== verification/Governance.thy ===== *)
theory Governance
  imports Commands
begin

text \<open>
  Governance (\<open>company/governance.py\<close>): the rules that run between measuring a cycle and reviewing
  it. Kill criteria are compared as floats, so the rounding of \<open>float\<close>, the text of \<open>:g\<close> and the
  shortest digits of \<open>str\<close> are written out; the sign of a zero is the only thing left out of them.
\<close>

section \<open>Floats\<close>

fun bit_length :: "nat \<Rightarrow> nat" where
  "bit_length n = (if n = 0 then 0 else Suc (bit_length (n div 2)))"

declare bit_length.simps [simp del]

definition pow2 :: "int \<Rightarrow> rat" where
  "pow2 k = (if 0 \<le> k then 2 ^ nat k else 1 / 2 ^ nat (- k))"

definition binary_exponent :: "rat \<Rightarrow> int" where
  "binary_exponent q =
     (let (a, b) = quotient_of \<bar>q\<bar>;
          e = int (bit_length (nat a)) - int (bit_length (nat b))
      in if pow2 e \<le> \<bar>q\<bar> then e else e - 1)"

text \<open>The nearest double, ties to even; \<open>float\<close> of a decimal that is too large is infinite.\<close>

definition double_of :: "rat \<Rightarrow> decimal" where
  "double_of q =
     (if q = 0 then Fin 0
      else let u = pow2 (max (binary_exponent q) (- 1022) - 52);
               v = of_int (round_half_even (q / u)) * u
           in if pow2 1024 \<le> \<bar>v\<bar> then Inf (q < 0) else Fin v)"

fun float_of :: "decimal \<Rightarrow> decimal" where
  "float_of (Fin q) = double_of q"
| "float_of d = d"

text \<open>\<open>_number\<close>: \<open>float(Decimal(str(value)))\<close>, or nothing.\<close>

definition number_of :: "json \<Rightarrow> decimal option" where
  "number_of v = (case v of JNull \<Rightarrow> None | JBool _ \<Rightarrow> None | _ \<Rightarrow> map_option float_of (parse_decimal (json_str v)))"

fun dbl_less :: "decimal \<Rightarrow> decimal \<Rightarrow> bool" where
  "dbl_less (Fin a) (Fin b) = (a < b)"
| "dbl_less NaN _ = False"
| "dbl_less _ NaN = False"
| "dbl_less (Inf neg) (Fin _) = neg"
| "dbl_less (Fin _) (Inf neg) = (\<not> neg)"
| "dbl_less (Inf a) (Inf b) = (a \<and> \<not> b)"

definition dbl_eq :: "decimal \<Rightarrow> decimal \<Rightarrow> bool" where
  "dbl_eq a b \<longleftrightarrow> a = b \<and> a \<noteq> NaN"

definition OPS :: "(string \<times> (decimal \<Rightarrow> decimal \<Rightarrow> bool)) list" where
  "OPS = [(''>'', \<lambda>a b. dbl_less b a), (''>='', \<lambda>a b. dbl_less b a \<or> dbl_eq a b), (''<'', dbl_less),
     (''<='', \<lambda>a b. dbl_less a b \<or> dbl_eq a b), (''=='', dbl_eq), (''!='', \<lambda>a b. \<not> dbl_eq a b)]"

text \<open>Some digits of a positive number, the last one rounded: the digits as a number and the exponent of the first.\<close>

definition significant :: "nat \<Rightarrow> rat \<Rightarrow> int \<times> int" where
  "significant n q =
     (let e = leading_exponent q; m = round_half_even (q / pow10 (e - int n + 1))
      in if m = 10 ^ n then (10 ^ (n - 1), e + 1) else (m, e))"

definition drop_zeros :: "string \<Rightarrow> string" where
  "drop_zeros t = rev (dropWhile (\<lambda>c. c = CHR ''0'') (rev t))"

definition point :: "string \<Rightarrow> string \<Rightarrow> string" where
  "point whole part = (if drop_zeros part = [] then whole else whole @ ''.'' @ drop_zeros part)"

definition exponent_text :: "int \<Rightarrow> string" where
  "exponent_text e = (if e < 0 then ''-'' else ''+'') @ pad 2 (nat \<bar>e\<bar>)"

text \<open>\<open>format(x, "g")\<close>.\<close>

definition general_text :: "rat \<Rightarrow> string" where
  "general_text q =
     (if q = 0 then ''0''
      else let (m, e) = significant 6 \<bar>q\<bar>; ds = nat_str (nat m)
           in (if q < 0 then ''-'' else []) @
              (if e < - 4 \<or> 6 \<le> e then point (take 1 ds) (drop 1 ds) @ ''e'' @ exponent_text e
               else if 0 \<le> e then point (take (nat e + 1) ds) (drop (nat e + 1) ds)
               else point ''0'' (replicate (nat (- e) - 1) (CHR ''0'') @ ds)))"

fun general :: "decimal \<Rightarrow> string" where
  "general (Fin q) = general_text q"
| "general (Inf neg) = (if neg then ''-inf'' else ''inf'')"
| "general NaN = ''nan''"

text \<open>\<open>Decimal(str(x))\<close> of a finite double: the shortest digits that are read back as it.\<close>

definition shortest_decimal :: "rat \<Rightarrow> rat" where
  "shortest_decimal q =
     (if q = 0 then 0
      else let value_of = (\<lambda>n. case significant n \<bar>q\<bar> of (m, e) \<Rightarrow> of_int m * pow10 (e - int n + 1))
           in sgn q * value_of (case first_some (filter (\<lambda>n. double_of (value_of n) = Fin \<bar>q\<bar>) [1..<18]) of
                Some n \<Rightarrow> n | None \<Rightarrow> 17))"

section \<open>What the rules leave behind\<close>

definition FAILURES_BEFORE_PAUSE :: nat where
  "FAILURES_BEFORE_PAUSE = 3"

definition NOT_THE_AGENT_S_FAULT :: "string list" where
  "NOT_THE_AGENT_S_FAULT = [''ProviderError'', ''LeaseExpired'', ''BudgetExhausted'', ''Aborted:'']"

definition WARN_AT :: rat where
  "WARN_AT = (case double_of (8 / 10) of Fin q \<Rightarrow> q | _ \<Rightarrow> 0)"

record breach =
  br_scope :: string
  br_scope_id :: uuid
  br_metric :: string
  br_op :: string
  br_threshold :: decimal
  br_observed :: decimal
  br_cycles :: int

definition breach_text :: "breach \<Rightarrow> string" where
  "breach_text b = br_metric b @ '' is '' @ general (br_observed b) @ '', which is '' @ br_op b @ '' '' @
     general (br_threshold b) @ (if 1 < br_cycles b then '' for '' @ int_str (br_cycles b) @ '' cycles'' else [])"

record governed =
  gd_projects :: "uuid list"
  gd_units :: "uuid list"
  gd_agents :: "uuid list"
  gd_warnings :: "string list"
  gd_breaches :: "breach list"
  gd_checked :: "(string \<times> nat) list"

definition nothing_governed :: governed where
  "nothing_governed = \<lparr>gd_projects = [], gd_units = [], gd_agents = [], gd_warnings = [], gd_breaches = [], gd_checked = []\<rparr>"

definition counted_json :: "string \<times> nat \<Rightarrow> string \<times> json" where
  "counted_json p = (fst p, JInt (int (snd p)))"

definition uuid_json :: "uuid \<Rightarrow> json" where
  "uuid_json i = JStr (uuid_str i)"

definition breach_json :: "breach \<Rightarrow> json" where
  "breach_json b = JStr (breach_text b)"

definition as_record :: "governed \<Rightarrow> dict" where
  "as_record d =
     [(''checked'', JObj (map counted_json (gd_checked d))),
      (''paused_projects'', JArr (map uuid_json (gd_projects d))),
      (''paused_business_units'', JArr (map uuid_json (gd_units d))),
      (''paused_agents'', JArr (map uuid_json (gd_agents d))),
      (''warnings'', JArr (map JStr (gd_warnings d))),
      (''breaches'', JArr (map breach_json (gd_breaches d)))]"

definition governance_actor :: actor where
  "governance_actor = Actor_system ''governance''"

definition checked :: "string \<Rightarrow> nat \<Rightarrow> governed \<Rightarrow> governed" where
  "checked what n d = d\<lparr>gd_checked := gd_checked d @ [(what, n)]\<rparr>"

primrec foldT :: "('x \<Rightarrow> 'd \<Rightarrow> 'd firm_tx) \<Rightarrow> 'x list \<Rightarrow> 'd \<Rightarrow> 'd firm_tx" where
  "foldT f [] d = returnT d"
| "foldT f (x # xs) d = bindT (f x d) (foldT f xs)"

section \<open>Kill criteria\<close>

definition key_of :: "dict \<Rightarrow> string \<Rightarrow> json" where
  "key_of d k = (case map_of d k of None \<Rightarrow> JNull | Some v \<Rightarrow> v)"

fun json_nat_like :: "json \<Rightarrow> int option" where
  "json_nat_like (JInt n) = Some n"
| "json_nat_like (JBool b) = Some (if b then 1 else 0)"
| "json_nat_like _ = None"

fun unhashable :: "json \<Rightarrow> bool" where
  "unhashable (JArr _) = True"
| "unhashable (JObj _) = True"
| "unhashable _ = False"

definition metric_in :: "json \<Rightarrow> kpi_snapshot \<Rightarrow> json" where
  "metric_in metric k = (case metric of JStr m \<Rightarrow> key_of (kp_metrics k) m | _ \<Rightarrow> JNull)"

text \<open>How many cycles in a row: a text is read as a number, and one that is none is an error.\<close>

definition needed_cycles :: "dict \<Rightarrow> err + int" where
  "needed_cycles rule = (let v = key_of rule ''consecutive_cycles'' in if falsy v then Inr 1 else json_int v)"

text \<open>The figures of the last cycles against the limit; the database refuses a limit that is no count.\<close>

definition judged_by ::
    "firm \<Rightarrow> uuid \<Rightarrow> kpi_scope \<Rightarrow> uuid option \<Rightarrow> uuid option \<Rightarrow> json \<Rightarrow> (decimal \<Rightarrow> decimal \<Rightarrow> bool) \<Rightarrow> json \<Rightarrow> int \<Rightarrow>
     err + (decimal \<times> decimal) option" where
  "judged_by s company_id sc unit_id project_id metric op threshold needed =
     (if needed < 0 \<or> 2 ^ 63 \<le> needed then Inl (RuntimeError ''limit'')
      else let rows = snapshot_history s company_id sc unit_id project_id (nat needed)
           in if unhashable metric \<and> rows \<noteq> [] then Inl TypeError
              else let numbers = map (\<lambda>k. number_of (metric_in metric k)) rows
                   in if int (length numbers) < needed \<or> None \<in> set numbers then Inr None
                      else case number_of threshold of
                             None \<Rightarrow> Inr None
                           | Some limit \<Rightarrow>
                               if \<not> list_all (\<lambda>v. op v limit) (map the numbers) then Inr None
                               else case numbers of
                                      [] \<Rightarrow> Inl IndexError
                                    | v # _ \<Rightarrow> Inr (Some (the v, limit)))"

definition breached ::
    "firm \<Rightarrow> cycle \<Rightarrow> dict option \<Rightarrow> kpi_scope \<Rightarrow> string \<Rightarrow> uuid \<Rightarrow> uuid option \<Rightarrow> uuid option \<Rightarrow> err + breach option" where
  "breached s c criteria sc scope_name scope_id project_id unit_id =
     (let terms = (case criteria of None \<Rightarrow> [] | Some d \<Rightarrow> d)
      in case key_of terms ''auto_pause_if'' of
           JObj rule \<Rightarrow>
             (let metric = key_of rule ''metric''; op = key_of rule ''op''; threshold = key_of rule ''value''
              in if (case json_nat_like (key_of terms ''evaluate_after_cycles'') of
                     None \<Rightarrow> False | Some n \<Rightarrow> int (cy_seq c) < n) then Inr None
                 else if falsy metric then Inr None
                 else if unhashable op then Inl TypeError
                 else case (case op of JStr t \<Rightarrow> map_of OPS t | _ \<Rightarrow> None) of
                        None \<Rightarrow> Inr None
                      | Some cmp \<Rightarrow>
                          bind_err (needed_cycles rule) (\<lambda>needed.
                          bind_err (judged_by s (cy_company_id c) sc unit_id project_id metric cmp threshold needed) (\<lambda>found.
                          Inr (map_option (\<lambda>(observed, limit). \<lparr>br_scope = scope_name, br_scope_id = scope_id,
                            br_metric = json_str metric, br_op = json_str op, br_threshold = limit, br_observed = observed,
                            br_cycles = needed\<rparr>) found))))
         | _ \<Rightarrow> Inr None)"

definition governance_asking :: "cycle \<Rightarrow> string \<Rightarrow> uuid \<Rightarrow> asking" where
  "governance_asking c what i = \<lparr>ak_company_id = cy_company_id c, ak_actor = governance_actor,
     ak_key = ''cycle:'' @ uuid_str (cy_id c) @ '':autopause:'' @ what @ '':'' @ uuid_str i,
     ak_role = None, ak_policies = [], ak_task_id = None, ak_run_id = None\<rparr>"

definition pause_breached :: "'c command_bus \<Rightarrow> cycle \<Rightarrow> uuid \<Rightarrow> breach \<Rightarrow> bool firm_tx" where
  "pause_breached bus c i b =
     bindT (get_row projects_table i AttributeError) (\<lambda>p.
     if pj_state p \<noteq> J_active then returnT False
     else bindT (submit bus ''PauseProject''
            (Inl [(''project_id'', JStr (uuid_str i)), (''reason'', JStr (''kill criteria: '' @ breach_text b))])
            (governance_asking c ''project'' i)) (\<lambda>r.
          returnT (cm_outcome r = Command_done)))"

definition pause_and_note :: "'c command_bus \<Rightarrow> cycle \<Rightarrow> breach \<Rightarrow> uuid \<Rightarrow> governed \<Rightarrow> governed firm_tx" where
  "pause_and_note bus c b i d =
     bindT (pause_breached bus c i b) (\<lambda>stopped.
     returnT (if stopped then d\<lparr>gd_projects := gd_projects d @ [i]\<rparr> else d))"

definition judge_project :: "'c command_bus \<Rightarrow> cycle \<Rightarrow> project \<Rightarrow> governed \<Rightarrow> governed firm_tx" where
  "judge_project bus c p d =
     bindT (getsT (\<lambda>s. breached s c (pj_kill_criteria p) Scope_project ''project'' (pj_id p) (Some (pj_id p)) None)) (\<lambda>r.
     bindT (liftT r) (\<lambda>found.
     case found of
       None \<Rightarrow> returnT d
     | Some b \<Rightarrow> pause_and_note bus c b (pj_id p) (d\<lparr>gd_breaches := gd_breaches d @ [b]\<rparr>)))"

definition pause_project_of_unit ::
    "'c command_bus \<Rightarrow> cycle \<Rightarrow> uuid \<Rightarrow> breach \<Rightarrow> project \<Rightarrow> governed \<Rightarrow> governed firm_tx" where
  "pause_project_of_unit bus c unit_id b p d =
     (if pj_business_unit_id p = Some unit_id \<and> pj_id p \<notin> set (gd_projects d)
      then pause_and_note bus c b (pj_id p) d else returnT d)"

definition judge_unit :: "'c command_bus \<Rightarrow> cycle \<Rightarrow> project list \<Rightarrow> business_unit \<Rightarrow> governed \<Rightarrow> governed firm_tx" where
  "judge_unit bus c projects u d =
     bindT (getsT (\<lambda>s. breached s c (bu_kill_criteria u) Scope_business_unit ''business unit'' (bu_id u) None (Some (bu_id u)))) (\<lambda>r.
     bindT (liftT r) (\<lambda>found.
     case found of
       None \<Rightarrow> returnT d
     | Some b \<Rightarrow>
         bindT (change_row units_table (bu_id u) (\<lambda>u. u\<lparr>bu_state := U_paused\<rparr>)) (\<lambda>_.
         bindT (firm_emit (OrganizationB (BusinessUnitPaused (bu_key u) (bu_name u)
           (Some (''kill criteria: '' @ breach_text b)) ''kill_criteria'')) (cy_company_id c) governance_actor
           ''business_unit'' (bu_id u) (Some (cy_id c))) (\<lambda>_.
         foldT (pause_project_of_unit bus c (bu_id u) b) projects
           (d\<lparr>gd_breaches := gd_breaches d @ [b], gd_units := gd_units d @ [bu_id u]\<rparr>)))))"

definition governed_projects :: "firm \<Rightarrow> uuid \<Rightarrow> project list" where
  "governed_projects s company_id = filter (\<lambda>p. pj_company_id p = company_id \<and> pj_state p = J_active) (fi_projects s)"

definition governed_units :: "firm \<Rightarrow> uuid \<Rightarrow> business_unit list" where
  "governed_units s company_id = filter (\<lambda>u. bu_company_id u = company_id \<and> bu_state u = U_active) (fi_units s)"

definition apply_kill_criteria :: "'c command_bus \<Rightarrow> cycle \<Rightarrow> governed \<Rightarrow> governed firm_tx" where
  "apply_kill_criteria bus c d =
     bindT (getsT (\<lambda>s. governed_projects s (cy_company_id c))) (\<lambda>projects.
     bindT (foldT (judge_project bus c) projects (checked ''projects'' (length projects) d)) (\<lambda>d1.
     bindT (getsT (\<lambda>s. governed_units s (cy_company_id c))) (\<lambda>units.
     foldT (judge_unit bus c projects) units (checked ''business_units'' (length units) d1))))"

section \<open>Agents that keep failing\<close>

definition is_infrastructure :: "(string \<times> string) option \<Rightarrow> bool" where
  "is_infrastructure error =
     (let name = (case error of None \<Rightarrow> [] | Some (cls, _) \<Rightarrow> cls)
      in list_ex (\<lambda>p. take (length p) name = p) NOT_THE_AGENT_S_FAULT)"

definition recent_runs :: "firm \<Rightarrow> uuid \<Rightarrow> nat \<Rightarrow> agent_run list" where
  "recent_runs s agent_id n =
     take n (rev (sort_key r_created_at (filter (\<lambda>r. r_agent_id r = agent_id) (runs (fi_db s)))))"

definition runs_that_judge :: "firm \<Rightarrow> uuid \<Rightarrow> agent_run_state list" where
  "runs_that_judge s agent_id =
     take FAILURES_BEFORE_PAUSE (map r_state (filter (\<lambda>r. \<not> (r_state r = R_FAILED \<and> is_infrastructure (r_error r)))
       (recent_runs s agent_id (FAILURES_BEFORE_PAUSE * 4))))"

definition keeps_failing :: "firm \<Rightarrow> uuid \<Rightarrow> bool" where
  "keeps_failing s agent_id =
     (let judged = runs_that_judge s agent_id
      in FAILURES_BEFORE_PAUSE \<le> length judged \<and> list_all (\<lambda>st. st = R_FAILED) judged)"

definition judge_agent :: "'c command_bus \<Rightarrow> cycle \<Rightarrow> uuid \<Rightarrow> governed \<Rightarrow> governed firm_tx" where
  "judge_agent bus c i d =
     bindT (getsT (\<lambda>s. keeps_failing s i)) (\<lambda>failing.
     if \<not> failing then returnT d
     else bindT (submit bus ''PauseAgent''
            (Inl [(''agent_id'', JStr (uuid_str i)), (''reason'', JStr (nat_str FAILURES_BEFORE_PAUSE @ '' runs in a row failed''))])
            (governance_asking c ''agent'' i)) (\<lambda>r.
          returnT (if cm_outcome r = Command_done then d\<lparr>gd_agents := gd_agents d @ [i]\<rparr> else d)))"

definition judge_agents :: "'c command_bus \<Rightarrow> cycle \<Rightarrow> governed \<Rightarrow> governed firm_tx" where
  "judge_agents bus c d =
     bindT (getsT (\<lambda>s. map a_id (filter (\<lambda>a. a_company_id a = cy_company_id c \<and> a_status a = AG_ACTIVE) (agents (fi_db s))))) (\<lambda>ids.
     foldT (judge_agent bus c) ids (checked ''agents'' (length ids) d))"

section \<open>Spending near a cap\<close>

definition measured_cost :: "firm \<Rightarrow> cycle \<Rightarrow> budget \<Rightarrow> decimal option" where
  "measured_cost s c b =
     (case latest_snapshot s (cy_company_id c) (if bg_project_id b = None then Scope_business_unit else Scope_project)
          (bg_business_unit_id b) (bg_project_id b) of
        None \<Rightarrow> None
      | Some k \<Rightarrow> if kp_cycle_id k = Some (cy_id c) then number_of (key_of (kp_metrics k) ''cost'') else None)"

definition spent_for :: "firm \<Rightarrow> cycle \<Rightarrow> budget \<Rightarrow> err + decimal" where
  "spent_for s c b =
     (case measured_cost s c b of
        Some (Fin q) \<Rightarrow> Inr (Fin (shortest_decimal q))
      | Some d \<Rightarrow> Inr d
      | None \<Rightarrow> bind_err (ledger_spent s (cy_company_id c) \<lparr>sf_project_id = bg_project_id b,
          sf_since = (if bg_period b = ''cycle'' then Some (cy_started_at c) else None), sf_until = None, sf_category = None\<rparr>)
          (\<lambda>q. Inr (Fin q)))"

text \<open>A cost that is no number is an error of the warning's model; an infinite one is past the wall.\<close>

definition warning_ratio :: "firm \<Rightarrow> cycle \<Rightarrow> budget \<Rightarrow> err + (money \<times> rat) option" where
  "warning_ratio s c b =
     (if bg_amount b \<le> 0 then Inr None
      else bind_err (spent_for s c b) (\<lambda>spent.
        case spent of
          NaN \<Rightarrow> Inl (ValueError ''spent'')
        | Inf _ \<Rightarrow> Inr None
        | Fin q \<Rightarrow>
            (case double_of (dec_div q (bg_amount b)) of
               Fin ratio \<Rightarrow> Inr (if ratio < WARN_AT \<or> 1 \<le> ratio then None else Some (q, ratio))
             | _ \<Rightarrow> Inr None)))"

definition rounded_ratio :: "rat \<Rightarrow> rat" where
  "rounded_ratio r = (case double_of (of_int (round_half_even (r * 10000)) / 10000) of Fin q \<Rightarrow> q | _ \<Rightarrow> r)"

definition percent :: "rat \<Rightarrow> int" where
  "percent r = (case double_of (r * 100) of Fin q \<Rightarrow> \<lfloor>q\<rfloor> | _ \<Rightarrow> 0)"

definition warn_budget :: "cycle \<Rightarrow> budget \<Rightarrow> governed \<Rightarrow> governed firm_tx" where
  "warn_budget c b d =
     bindT (getsT (\<lambda>s. warning_ratio s c b)) (\<lambda>r.
     bindT (liftT r) (\<lambda>found.
     case found of
       None \<Rightarrow> returnT d
     | Some (used, ratio) \<Rightarrow>
         bindT (firm_emit (MoneyB (BudgetWarning (Some (bg_id b)) (bg_project_id b) (bg_business_unit_id b) (bg_period b)
           used (bg_amount b) (rounded_ratio ratio))) (cy_company_id c) governance_actor ''budget'' (bg_id b) (Some (cy_id c))) (\<lambda>_.
         returnT (d\<lparr>gd_warnings := gd_warnings d @
           [int_str (percent ratio) @ ''% of a '' @ bg_period b @ '' budget is spent'']\<rparr>))))"

definition near_the_cap :: "cycle \<Rightarrow> governed \<Rightarrow> governed firm_tx" where
  "near_the_cap c d =
     bindT (getsT (\<lambda>s. filter (\<lambda>b. bg_company_id b = cy_company_id c \<and> bg_hard_cap b) (cs_budgets (fi_costs s)))) (\<lambda>budgets.
     foldT (warn_budget c) budgets (checked ''budgets'' (length budgets) d))"

section \<open>The review\<close>

definition governance_review :: "'c command_bus \<Rightarrow> cycle \<Rightarrow> governed firm_tx" where
  "governance_review bus c =
     bindT (apply_kill_criteria bus c nothing_governed) (\<lambda>d1.
     bindT (judge_agents bus c d1) (\<lambda>d2.
     bindT (near_the_cap c d2) (\<lambda>d.
     bindT (change_row cycles_table (cy_id c) (\<lambda>c. c\<lparr>cy_governance := Some (as_record d)\<rparr>)) (\<lambda>_.
     returnT d))))"

definition governance_hook :: "'c command_bus \<Rightarrow> uuid \<Rightarrow> unit firm_tx" where
  "governance_hook bus i =
     bindT (get_row cycles_table i AttributeError) (\<lambda>c. bindT (governance_review bus c) (\<lambda>_. returnT ()))"

end
