(* ===== verification/CommandLaws.thy ===== *)
theory CommandLaws
  imports BusinessVerbs Governance CycleLaws
begin

text \<open>
  What a command leaves alone: a handler writes no command and no stage of a cycle, whatever the
  verb, so that the bus alone keeps the record and the cycle runner alone moves the cycle.
\<close>

section \<open>The frame of a handler\<close>

definition verb_frame :: "firm \<Rightarrow> firm \<Rightarrow> bool" where
  "verb_frame s s' \<longleftrightarrow> cycle_frame s s' \<and> fi_commands s' = fi_commands s"

interpretation verb: step_preorder verb_frame
  by unfold_locales (auto simp: verb_frame_def cycle.refl intro: cycle.trans)

named_theorems verb_intros \<open>operations that leave commands and the stages of cycles alone\<close>

lemmas [verb_intros] = verb.rules

lemma verb_runtime:
  assumes "\<And>n. keeps (\<lambda>d. n \<le> next_id d) m"
  shows "obeys verb_frame (in_runtime m)"
proof (rule obeysI)
  fix s x s'
  assume run: "in_runtime m s = Inr (x, s')"
  then have "fi_commands s' = fi_commands s" by (auto simp: in_runtime_def tx_run fi_put_db_def split: sum.splits)
  with obeysD [OF cycle_runtime [OF assms] run] show "verb_frame s s'" by (simp add: verb_frame_def)
qed

lemma verb_frames: "frames m \<Longrightarrow> obeys verb_frame (in_runtime m)"
  by (rule verb_runtime, rule keepsI) (fastforce dest: framesD)

lemma verb_untouched:
  assumes "\<And>rs s. firm_cycles (tb_put tb rs s) = firm_cycles s" "\<And>rs s. fi_db (tb_put tb rs s) = fi_db s"
    "\<And>rs s. fi_commands (tb_put tb rs s) = fi_commands s"
  shows "obeys verb_frame (insert_row tb r)" "obeys verb_frame (change_row tb i f)"
  unfolding obeys_def verb_frame_def cycle_frame_def
  by (auto simp: insert_row_def change_row_def tx_run Let_def assms kept_all split: if_splits)

lemma verb_inserts [verb_intros]:
  "obeys verb_frame (insert_row transactions_table tr)" "obeys verb_frame (insert_row projects_table pj)"
  "obeys verb_frame (insert_row opportunities_table op)" "obeys verb_frame (insert_row proposals_table bp)"
  "obeys verb_frame (insert_row signals_table sg)" "obeys verb_frame (insert_row goals_table gl)"
  "obeys verb_frame (insert_row budgets_table bg)" "obeys verb_frame (insert_row units_table bu)"
  "obeys verb_frame (insert_row products_table pt)" "obeys verb_frame (insert_row kpis_table kp)"
  by (rule verb_untouched; simp add: table_defs fi_db_def firm_cycles_def)+

lemma verb_changes [verb_intros]:
  "obeys verb_frame (change_row projects_table i f1)" "obeys verb_frame (change_row opportunities_table i f2)"
  "obeys verb_frame (change_row proposals_table i f3)" "obeys verb_frame (change_row units_table i f4)"
  "obeys verb_frame (change_row budgets_table i f5)" "obeys verb_frame (change_row products_table i f6)"
  "obeys verb_frame (change_row kpis_table i f7)"
  by (rule verb_untouched; simp add: table_defs fi_db_def firm_cycles_def)+

lemma verb_basics [verb_intros]:
  "obeys verb_frame time_now" "obeys verb_frame (get_row tb i e)" "obeys verb_frame (firm_emit p co a ty j c)"
  "obeys verb_frame (in_runtime uuid7)"
  unfolding time_now_def get_row_def firm_emit_def by (intro verb_intros verb_frames frame_intros)+

lemma verb_add_row [verb_intros]: "(\<And>i. obeys verb_frame (insert_row tb (r i))) \<Longrightarrow> obeys verb_frame (add_row tb r)"
  unfolding add_row_def by (intro verb_intros)

lemma verb_row_transition [verb_intros]:
  "(\<And>st. obeys verb_frame (change_row tb i (set_state st))) \<Longrightarrow>
   obeys verb_frame (row_transition m tb state set_state company i st actor rs)"
  unfolding row_transition_def by (intro verb_intros verb_frames frame_intros)

lemma verb_case_sum [verb_intros]:
  "(\<And>a. x = Inl a \<Longrightarrow> obeys verb_frame (f a)) \<Longrightarrow> (\<And>b. x = Inr b \<Longrightarrow> obeys verb_frame (g b)) \<Longrightarrow>
   obeys verb_frame (case x of Inl a \<Rightarrow> f a | Inr b \<Rightarrow> g b)"
  by (cases x) simp_all

lemma verb_attempts [verb_intros]:
  "obeys verb_frame (refuse t)"
  "obeys verb_frame m \<Longrightarrow> obeys verb_frame (perform m)"
  "obeys verb_frame a \<Longrightarrow> (\<And>x. obeys verb_frame (f x)) \<Longrightarrow> obeys verb_frame (after a f)"
  "obeys verb_frame a \<Longrightarrow> obeys verb_frame (unless b t a)"
  unfolding refuse_def perform_def after_def unless_def by (intro verb_intros | assumption)+

section \<open>Every verb\<close>

lemma frame_opportunity_emit [verb_intros]: "obeys verb_frame (opportunity_emit o1 p a r)"
  unfolding opportunity_emit_def by (intro verb_intros verb_frames frame_intros)

lemma frame_services [verb_intros]:
  "obeys verb_frame (discover co d a)" "obeys verb_frame (add_signal o1 ob a)" "obeys verb_frame (score_opportunity i v a rs)"
  "obeys verb_frame (advance_opportunity i st a rs u)" "obeys verb_frame (draft_proposal o1 ti pl a r)"
  "obeys verb_frame (submit_proposal j a)" "obeys verb_frame (decide_proposal j vst a rs ap)"
  unfolding discover_def add_signal_def score_opportunity_def advance_opportunity_def draft_proposal_def
    submit_proposal_def decide_proposal_def supersede_def by (intro verb_intros)+

lemma frame_ledger [verb_intros]: "obeys verb_frame (ledger_record ld po)"
  unfolding ledger_record_def by (intro verb_intros)

lemma frame_lookups [verb_intros]:
  "obeys verb_frame (company_project cx i)" "obeys verb_frame (company_unit cx i)"
  "obeys verb_frame (company_opportunity cx i)" "obeys verb_frame (company_proposal cx i)"
  unfolding company_project_def company_unit_def company_opportunity_def company_proposal_def
  by (intro verb_intros)+

lemma frame_verb_emit [verb_intros]: "obeys verb_frame (verb_emit cx p ty i)"
  unfolding verb_emit_def by (intro verb_intros)

lemma frame_budgets [verb_intros]: "obeys verb_frame (allocate_budget vs cx amount period p u hard)"
  unfolding allocate_budget_def set_budget_def announce_budget_def release_scope_def Let_def
  by (intro verb_intros verb_runtime id_supply.mark_ready_keeps)

lemma frame_projects [verb_intros]:
  "obeys verb_frame (create_cycle_goal cx ti me ta u)" "obeys verb_frame (create_project cx na de u ki)"
  "obeys verb_frame (pause_project cx i r1)" "obeys verb_frame (resume_project cx i r1)" "obeys verb_frame (kill_project cx i r2)"
  unfolding create_cycle_goal_def create_project_def pause_project_def resume_project_def kill_project_def move_project_def
  by (intro verb_intros)+

lemma frames_pause_agent: "frames (pause_agent i actor reason)"
  unfolding pause_agent_def set_agent_status_def upd_agent_def by (intro frame_intros frames_modify) simp

lemma frame_agents [verb_intros]: "obeys verb_frame (pause_agent_verb cx i r)"
  unfolding pause_agent_verb_def by (intro verb_intros verb_frames frames_pause_agent)

lemma frame_strategy [verb_intros]: "obeys verb_frame (update_strategy cx su)"
proof -
  have "obeys verb_frame (upsert_policy co k v)" for co k v
    by (auto simp: obeys_def upsert_policy_def tx_run verb_frame_def cycle_frame_def firm_cycles_def fi_db_def kept_all)
  then show ?thesis unfolding update_strategy_def by (intro verb_intros)
qed

lemma frame_join [verb_intros]: "obeys verb_frame (join_cycle c r)"
  unfolding join_cycle_def by (intro verb_intros verb_runtime id_supply.basics id_supply.parts) simp_all

lemma frame_start [verb_intros]: "obeys verb_frame (start_workflow pe reg co p te pa a r fa)"
  unfolding start_workflow_def
  by (intro verb_intros verb_runtime id_supply.decide_and_record_keeps id_supply.instantiate_keeps)

lemma frame_workflows [verb_intros]: "obeys verb_frame (instantiate_verb vs cx te p pa)" "obeys verb_frame (restart_workflow vs cx i)"
proof -
  show start: "obeys verb_frame (instantiate_verb vs cx te p pa)" for te p pa
    unfolding instantiate_verb_def by (intro verb_intros)
  show "obeys verb_frame (restart_workflow vs cx i)"
    unfolding restart_workflow_def by (intro verb_intros start)
qed

lemma frame_exploration [verb_intros]: "obeys verb_frame (allocate_exploration vs cx p am pe)"
  unfolding allocate_exploration_def by (intro verb_intros)

lemma frame_or_refuse [verb_intros]: "obeys verb_frame m \<Longrightarrow> obeys verb_frame (or_refuse vs m)"
  unfolding or_refuse_def by (intro verb_intros) (auto split: err.split intro!: verb_intros)

lemma frame_opportunities [verb_intros]:
  "obeys verb_frame (score_verb vs cx i v r)" "obeys verb_frame (advance_verb vs cx i st r u)" "obeys verb_frame (reject_verb cx i rs)"
  unfolding score_verb_def advance_verb_def reject_verb_def by (intro verb_intros)+

lemma frame_checked_signal [verb_intros]: "obeys verb_frame (checked_signal vs ru cx si)"
  unfolding checked_signal_def by (intro verb_intros)

lemma frame_check_signals [verb_intros]: "obeys verb_frame (check_signals vs ru cx sis)"
  by (induction sis) (auto intro!: verb_intros)

lemma frame_signals [verb_intros]:
  "obeys verb_frame (discover_verb vs ru cx ke ti th ma sis)" "obeys verb_frame (record_opportunity_signal vs ru cx i si)"
  unfolding discover_verb_def record_opportunity_signal_def record_signal_def
  by (intro verb_intros; auto split: err.split intro!: verb_intros)+

lemma frame_proposals [verb_intros]: "obeys verb_frame (draft_verb cx i ti pl)" "obeys verb_frame (submit_verb cx i)"
  unfolding draft_verb_def submit_verb_def by (intro verb_intros)+

lemma frame_first_product [verb_intros]: "obeys verb_frame (first_product cx u p)"
  unfolding first_product_def Let_def by (auto split: json.split intro!: verb_intros)

lemma frame_units [verb_intros]:
  "obeys verb_frame (create_business_unit vs cx i ca k r)" "obeys verb_frame (scale_business_unit vs cx i am r)"
  "obeys verb_frame (pause_business_unit cx i rs)" "obeys verb_frame (wind_down_business_unit cx i rs)"
  unfolding create_business_unit_def opening_business_def scale_business_unit_def pause_business_unit_def
    wind_down_business_unit_def retire_products_def
  by (intro verb_intros)+

lemma frame_handle: "obeys verb_frame (handle_command vs cc cx c)"
  by (cases c) (auto intro!: verb_intros)

section \<open>The bus with every verb\<close>

definition verb_bus ::
    "policy_engine \<Rightarrow> approval_service \<Rightarrow> template_registry option \<Rightarrow> verb_settings \<Rightarrow> command_codec \<Rightarrow> company_command command_bus" where
  "verb_bus pe svc reg vs cc = \<lparr>cb_policy = pe, cb_approvals = svc, cb_workflows = reg,
     cb_specs = map (\<lambda>v. (fst v, verb_spec vs cc v)) (COMPANY_VERBS @ BUSINESS_VERBS)\<rparr>"

lemma register_all_fresh:
  "distinct (map sp_name specs) \<Longrightarrow> sp_name ` set specs \<inter> fst ` set (cb_specs bus) = {} \<Longrightarrow>
   register_all specs bus = Inr (bus\<lparr>cb_specs := cb_specs bus @ map (\<lambda>sp. (sp_name sp, sp)) specs\<rparr>)"
proof (induction specs arbitrary: bus)
  case (Cons sp specs)
  then have "map_of (cb_specs bus) (sp_name sp) = None" by (force simp: map_of_eq_None_iff)
  with Cons show ?case by (auto simp: command_register_def Cons.IH)
qed simp

lemma company_bus_is: "company_bus pe svc reg vs cc = Inr (verb_bus pe svc reg vs cc)"
  unfolding company_bus_def verb_bus_def
  by (subst register_all_fresh) (auto simp: verb_spec_def COMPANY_VERBS_def BUSINESS_VERBS_def)

lemma verb_bus_spec: "command_get (verb_bus pe svc reg vs cc) name = Inr sp \<Longrightarrow>
    \<exists>action. (name, action) \<in> set (COMPANY_VERBS @ BUSINESS_VERBS) \<and> sp = verb_spec vs cc (name, action)"
  by (auto simp: command_get_def verb_bus_def split: option.splits dest!: map_of_SomeD) blast+

lemma frame_verb_spec: "obeys verb_frame (sp_handler (verb_spec vs cc v) cx c)"
  by (simp add: verb_spec_def frame_handle)

section \<open>What the bus promises\<close>

text \<open>The identifiers of the record are drawn ones: what the bus finds by identifier is its own row.\<close>

definition record_sound :: "firm \<Rightarrow> bool" where
  "record_sound s \<longleftrightarrow> (\<forall>r\<in>set (fi_commands s). cm_id r < next_id (fi_db s))"

lemma table_of_commands: "tb_rows commands_table s = fi_commands s" "tb_id commands_table = cm_id"
  by (simp_all add: commands_table_def)

lemma record_frame: "record_sound s \<Longrightarrow> verb_frame s s' \<Longrightarrow> record_sound s'"
  by (fastforce simp: record_sound_def verb_frame_def cycle_frame_def)

lemma record_command_frame: "obeys cycle_frame (record_command name args ak vd)"
  unfolding record_command_def by (intro cycle_intros)

lemma new_record:
  assumes run: "record_command name args ak vd s = Inr (r, s')" and sound: "record_sound s"
  shows "fi_commands s' = fi_commands s @ [r]" "cm_idempotency_key r = ak_key ak" "cm_outcome r = vd_outcome vd"
    "record_sound s'" "cm_id r \<notin> cm_id ` set (fi_commands s)"
proof -
  have new: "r = command_row name args ak vd (next_id (fi_db s))" and rows: "fi_commands s' = fi_commands s @ [r]"
    using commands.add_rows [OF run [unfolded record_command_def]] by (simp_all add: table_of_commands)
  have next_id: "next_id (fi_db s') = Suc (next_id (fi_db s))"
    using run by (auto simp: record_command_def add_row_def insert_row_def steps_return in_runtime_def zoomT_def uuid7_def
        commands_table_def fi_put_db_def fi_db_def returnT_def split: if_splits)
  show "fi_commands s' = fi_commands s @ [r]" by (rule rows)
  show "cm_idempotency_key r = ak_key ak" "cm_outcome r = vd_outcome vd" by (simp_all add: new command_row_def)
  show "record_sound s'" "cm_id r \<notin> cm_id ` set (fi_commands s)"
    using sound by (auto simp: record_sound_def rows next_id new command_row_def dest: less_SucI)
qed

lemma replayed: "cm_idempotency_key r = k \<Longrightarrow> replay_command s k = None \<Longrightarrow> fi_commands s' = fi_commands s @ [r] \<Longrightarrow>
    replay_command s' k = Some r"
  by (simp add: replay_command_def first_some_def split: list.splits)

lemma bind_lift: "bindT (liftT (Inr x)) f = f x"
  by (rule ext) (simp add: bindT_def liftT_def returnT_def)

lemma submit_known:
  assumes "command_get bus name = Inr sp"
  shows "submit bus name payload ak = bindT (getsT (\<lambda>s. replay_command s (ak_key ak))) (\<lambda>replay.
    case replay of
      Some r \<Rightarrow> returnT r
    | None \<Rightarrow> (case payload of
          Inr c \<Rightarrow> decide_command bus sp c ak
        | Inl d \<Rightarrow> (case sp_load sp d of
            Inl problems \<Rightarrow> record_command (sp_name sp) d ak (refusal_verdict (outcome_value Deny) problems)
          | Inr c \<Rightarrow> decide_command bus sp c ak)))"
  unfolding submit_def assms bind_lift ..

text \<open>A bus whose handlers leave the record of commands to it.\<close>

locale recording_bus =
  fixes bus :: "'c command_bus"
  assumes handlers: "command_get bus name = Inr sp \<Longrightarrow> obeys verb_frame (sp_handler sp cx c)"
begin

text \<open>A command that is decided leaves one new row, under its key, and the stages of cycles.\<close>

definition records :: "asking \<Rightarrow> command_record firm_tx \<Rightarrow> bool" where
  "records ak m \<longleftrightarrow> (\<forall>s r s'. record_sound s \<longrightarrow> m s = Inr (r, s') \<longrightarrow>
     fi_commands s' = fi_commands s @ [r] \<and> cm_idempotency_key r = ak_key ak \<and> record_sound s')"

lemma records_row: "records ak (record_command name args ak vd)"
  by (auto simp: records_def dest: new_record)

lemma records_after: "obeys verb_frame m \<Longrightarrow> (\<And>x. records ak (f x)) \<Longrightarrow> records ak (bindT m f)"
  unfolding records_def bindT_Inr_iff by (metis obeysD record_frame verb_frame_def)

lemma records_ask: "records ak (ask_person bus sp c ak d)"
  unfolding records_def
proof (intro allI impI)
  fix s r s'
  assume sound: "record_sound s" and run: "ask_person bus sp c ak d s = Inr (r, s')"
  then obtain r1 s1 i s2 where row: "record_command (sp_name sp) (sp_dump sp c) ak
      \<lparr>vd_decision = outcome_value (dc_outcome d), vd_outcome = Command_awaiting, vd_reason = Some (dc_reason d),
       vd_result = None, vd_event_ids = []\<rparr> s = Inr (r1, s1)"
    and ask: "in_runtime (request_standalone (cb_approvals bus) (ak_company_id ak) ''command'' ''command'' (cm_id r1)
       (sp_summary sp c) (ak_actor ak) (Some APPROVAL_ACTION) (Some (approval_request (sp_name sp) (sp_dump sp c) ak)) None) s1 = Inr (i, s2)"
    and change: "change_row commands_table (cm_id r1) (\<lambda>r. r\<lparr>cm_approval_id := Some i\<rparr>) s2 = Inr ((), s')"
    and r: "r = r1\<lparr>cm_approval_id := Some i\<rparr>"
    by (auto simp: ask_person_def steps_return)
  note new = new_record [OF row sound]
  have frame: "verb_frame s1 s2"
    by (rule obeysD [OF verb_runtime ask]) (rule id_supply.request_keeps(3))
  have "fi_commands s' = update_row cm_id (cm_id r1) (\<lambda>r. r\<lparr>cm_approval_id := Some i\<rparr>) (fi_commands s @ [r1])"
    using commands.change_rows [OF change] frame new(1) by (simp add: table_of_commands verb_frame_def)
  also have "\<dots> = fi_commands s @ [r]"
    using new(5) by (auto simp: update_row_def r intro!: map_idI) (metis imageI)
  finally have rows: "fi_commands s' = fi_commands s @ [r]" .
  have "fi_db s' = fi_db s2"
    using change by (auto simp: change_row_def tx_run Let_def commands_table_def fi_db_def split: if_splits)
  then have "record_sound s'"
    using record_frame [OF new(4) frame] frame new(1) by (auto simp: record_sound_def rows r verb_frame_def)
  with rows show "fi_commands s' = fi_commands s @ [r] \<and> cm_idempotency_key r = ak_key ak \<and> record_sound s'"
    using new(2) by (simp add: r)
qed

lemma records_run: "obeys verb_frame (sp_handler sp (context_of bus ak) c) \<Longrightarrow> records ak (run_command bus sp c ak decided)"
  unfolding run_command_def by (intro records_after verb_intros) (auto split: sum.split intro: records_row records_after verb_intros)

lemma records_decided: "command_get bus name = Inr sp \<Longrightarrow> records ak (decide_command bus sp c ak)"
  unfolding decide_command_def
  by (intro records_after verb_intros verb_runtime id_supply.decide_and_record_keeps)
    (auto split: outcome.split intro: records_row records_ask records_run handlers)

lemma submit_records:
  assumes run: "submit bus name payload ak s = Inr (r, s')" and sound: "record_sound s"
  shows "record_sound s' \<and> replay_command s' (ak_key ak) = Some r \<and>
    (if replay_command s (ak_key ak) = None then fi_commands s' = fi_commands s @ [r] else s' = s)"
proof -
  from run obtain sp where sp: "command_get bus name = Inr sp" by (auto simp: submit_def steps_return)
  show ?thesis
  proof (cases "replay_command s (ak_key ak)")
    case (Some q)
    then show ?thesis using run sound sp by (simp add: submit_def steps_return)
  next
    case None
    let ?go = "case payload of Inr c \<Rightarrow> decide_command bus sp c ak
      | Inl d \<Rightarrow> (case sp_load sp d of
          Inl problems \<Rightarrow> record_command (sp_name sp) d ak (refusal_verdict (outcome_value Deny) problems)
        | Inr c \<Rightarrow> decide_command bus sp c ak)"
    have "records ak ?go"
      by (auto split: sum.split intro: records_row records_decided [OF sp])
    moreover have "?go s = Inr (r, s')"
      using run None by (simp add: submit_known [OF sp] bindT_def getsT_def)
    ultimately have "fi_commands s' = fi_commands s @ [r]" "cm_idempotency_key r = ak_key ak" "record_sound s'"
      using sound unfolding records_def by blast+
    then show ?thesis using None replayed [of r "ak_key ak" s s'] by simp
  qed
qed

text \<open>A used key answers with its row, whatever is asked under it.\<close>

lemma used_key:
  assumes "replay_command s (ak_key ak) = Some r" "command_get bus name = Inr sp"
  shows "submit bus name payload ak s = Inr (r, s)"
  using assms by (simp add: submit_def steps_return)

lemma submit_frame: "obeys cycle_frame (submit bus name payload ak)"
proof (rule obeysI)
  fix s r s'
  assume run: "submit bus name payload ak s = Inr (r, s')"
  then obtain sp where sp: "command_get bus name = Inr sp" by (auto simp: submit_def steps_return)
  have handler: "obeys cycle_frame (sp_handler sp cx c)" for cx c
    using handlers [OF sp] by (auto simp: obeys_def verb_frame_def)
  have ask: "obeys cycle_frame (ask_person bus sp c ak d)" for c d
    unfolding ask_person_def by (intro cycle_intros record_command_frame cycle_runtime id_supply.request_keeps(3))
  have decide: "obeys cycle_frame (decide_command bus sp c ak)" for c
    unfolding decide_command_def run_command_def
    by (intro cycle_intros cycle_runtime id_supply.decide_and_record_keeps)
      (auto split: outcome.split sum.split intro!: cycle_intros ask record_command_frame handler)
  have "obeys cycle_frame (submit bus name payload ak)"
    unfolding submit_known [OF sp] by (auto split: option.split sum.split intro!: cycle_intros decide record_command_frame)
  with run show "cycle_frame s s'" by (rule obeysD [rotated])
qed

end

interpretation verbs: recording_bus "verb_bus pe svc reg vs cc" for pe svc reg vs cc
  by unfold_locales (auto dest!: verb_bus_spec simp: frame_verb_spec)

end
