(* ===== verification/Company.thy ===== *)
theory Company
  imports Desks CycleRecords CommandLaws
begin

text \<open>
  The cycle runner of the application (\<open>app.py\<close>, \<open>build_runtime\<close>): the hooks and checks of every
  desk, in the order they are installed, and what they promise the runner.
\<close>

section \<open>The composition\<close>

definition empty_runner :: cycle_runner where
  "empty_runner = \<lparr>ry_on_enter = (\<lambda>_. []), ry_is_done = (\<lambda>_. [])\<rparr>"

definition install_exploration :: "template_registry \<Rightarrow> cycle_runner \<Rightarrow> cycle_runner" where
  "install_exploration reg = when_entering C_EXECUTING (exploration_hook reg)"

definition install_watch :: "template_registry \<Rightarrow> cycle_runner \<Rightarrow> cycle_runner" where
  "install_watch reg = when_entering C_EXECUTING (watch_hook reg)"

text \<open>The parts the application builds: the templates, the ledger, reporting and the command bus.\<close>

record company_parts =
  pa_templates :: template_registry
  pa_ledger :: ledger
  pa_reporting :: reporting
  pa_policy :: policy_engine
  pa_approvals :: approval_service
  pa_settings :: verb_settings
  pa_codec :: command_codec

definition parts_bus :: "company_parts \<Rightarrow> company_command command_bus" where
  "parts_bus pa = verb_bus (pa_policy pa) (pa_approvals pa) (Some (pa_templates pa)) (pa_settings pa) (pa_codec pa)"

definition governance_stage :: "company_parts \<Rightarrow> uuid \<Rightarrow> unit firm_tx" where
  "governance_stage pa i = governance_hook (parts_bus pa) i"

text \<open>The summary of the day, the last hook, writes a message for people and is left out.\<close>

definition company_runner :: "company_parts \<Rightarrow> cycle_runner" where
  "company_runner pa =
     install_watch (pa_templates pa)
       (install_exploration (pa_templates pa)
       (install_executive (pa_templates pa)
       (when_entering C_REVIEWING (governance_stage pa)
       (when_entering C_REVIEWING opportunities_hook
       (install_finance (pa_templates pa)
       (when_entering C_MEASURING (reporting_hook (pa_reporting pa))
       (when_entering C_MEASURING (ledger_stage_hook (pa_ledger pa))
       (when_entering C_MEASURING memberships_hook
       (finishes_when C_EXECUTING work_is_finished empty_runner)))))))))"

section \<open>What the hooks leave to the runner\<close>

lemma cycle_return [cycle_intros]: "obeys cycle_frame (returnT x)"
  by (rule cycle.basic)

lemma frame_record: "obeys cycle_frame (ledger_record ld po)"
  unfolding ledger_record_def by (intro cycle_intros)

lemma frame_settle_projects: "obeys cycle_frame (settle_projects ld c ps st)"
  by (induction ps arbitrary: st) (auto intro!: cycle_intros frame_record)

lemma frame_ledger_hook: "obeys cycle_frame (ledger_stage_hook ld i)"
  unfolding ledger_stage_hook_def settle_cycle_def by (intro cycle_intros frame_settle_projects)

lemma frame_churn: "obeys cycle_frame (churn i actor reason t)"
  unfolding churn_def by (intro cycle_intros)

lemma frame_memberships_hook: "obeys cycle_frame (memberships_hook i)"
  unfolding memberships_hook_def expire_due_memberships_def expire_membership_def
  by (intro cycle_intros frame_churn)

lemma frame_opportunities_hook: "obeys cycle_frame (opportunities_hook i)"
  unfolding opportunities_hook_def expire_opportunities_def advance_opportunity_def opportunity_emit_def
  by (intro cycle_intros cycle_frames frame_intros)

lemma frame_instantiate_run: "obeys cycle_frame (instantiate_run reg template c p params)"
  unfolding instantiate_run_def by (intro cycle_intros)

lemma frame_standing_project: "obeys cycle_frame (standing_project co found o1 name description kill actor)"
  unfolding standing_project_def by (intro cycle_intros)

lemmas frame_desks = frame_instantiate_run frame_standing_project

lemma frame_executive_start: "obeys cycle_frame (executive_start reg template i)"
  unfolding executive_start_def operations_project_def by (intro cycle_intros frame_desks)

lemma frame_finance_start: "obeys cycle_frame (finance_start reg i)"
  unfolding finance_start_def operations_project_def by (intro cycle_intros frame_desks)

lemma frame_exploration_hook: "obeys cycle_frame (exploration_hook reg i)"
  unfolding exploration_hook_def exploration_start_def exploration_project_def by (intro cycle_intros frame_desks)

lemma frame_watch_hook: "obeys cycle_frame (watch_hook reg i)"
  unfolding watch_hook_def watch_start_def market_watch_project_def by (intro cycle_intros frame_desks)

lemma frame_settle_plan: "obeys cycle_frame (settle_plan i)"
  unfolding settle_plan_def by (intro cycle_intros cycle_note) (simp_all add: kept_def skeleton_def)

lemma frame_settle_review: "obeys cycle_frame (settle_review i)"
  unfolding settle_review_def by (intro cycle_intros cycle_note) (simp_all add: kept_def skeleton_def)

lemma frame_reporting_hook: "obeys cycle_frame (reporting_hook rg i)"
  unfolding reporting_hook_def measure_cycle_def store_snapshot_def by (intro cycle_intros)

lemma frame_submit: "obeys cycle_frame (submit (parts_bus pa) name payload ak)"
  unfolding parts_bus_def by (rule verbs.submit_frame)

lemma frame_fold: "(\<And>x d. obeys cycle_frame (f x d)) \<Longrightarrow> obeys cycle_frame (foldT f xs d)"
  by (induction xs arbitrary: d) (auto intro!: cycle_intros)

lemma frame_pause_and_note: "obeys cycle_frame (pause_and_note (parts_bus pa) c b i d)"
  unfolding pause_and_note_def pause_breached_def by (intro cycle_intros frame_submit)

lemma frame_judges:
  "obeys cycle_frame (judge_project (parts_bus pa) c p d)" "obeys cycle_frame (judge_unit (parts_bus pa) c ps u d)"
  "obeys cycle_frame (judge_agent (parts_bus pa) c i d)" "obeys cycle_frame (warn_budget c b d)"
  unfolding judge_project_def judge_unit_def judge_agent_def warn_budget_def pause_project_of_unit_def
  by (intro cycle_intros frame_pause_and_note frame_fold frame_submit)+

lemma frame_rules:
  "obeys cycle_frame (apply_kill_criteria (parts_bus pa) c d)" "obeys cycle_frame (judge_agents (parts_bus pa) c d)"
  "obeys cycle_frame (near_the_cap c d)"
  unfolding apply_kill_criteria_def judge_agents_def near_the_cap_def by (intro cycle_intros frame_fold frame_judges)+

lemma frame_governance_stage: "obeys cycle_frame (governance_stage pa i)"
  unfolding governance_stage_def governance_hook_def governance_review_def
  by (intro cycle_intros frame_rules cycle_note) (simp add: kept_def skeleton_def)

lemmas installs = company_runner_def install_watch_def install_exploration_def install_executive_def install_finance_def
  when_entering_def finishes_when_def empty_runner_def

interpretation company: cycle_hooks "company_runner pa" for pa
proof
  show "obeys cycle_frame (h i)" if "h \<in> set (ry_on_enter (company_runner pa) st)" for h st i
    using that by (cases st) (auto simp: installs frame_memberships_hook frame_ledger_hook frame_finance_start
      frame_opportunities_hook frame_reporting_hook frame_governance_stage frame_executive_start frame_settle_plan frame_settle_review frame_exploration_hook frame_watch_hook)
  show "obeys (=) (k i)" if "k \<in> set (ry_is_done (company_runner pa) st)" for k st i
    using that by (cases st) (auto simp: installs asked_is_done_def work_is_finished_def steps_return obeys_def)
qed

section \<open>What the executive leaves on record\<close>

lemma noted_row: "row_of cycles_table s i = Some c \<Longrightarrow> what c \<noteq> None \<Longrightarrow> noted what s i"
  by (simp add: noted_def row_of_cycles)

lemma noted_after:
  assumes "change_row cycles_table i f s = Inr (x, s')" "row_of cycles_table s i = Some c" "\<And>c. cy_id (f c) = cy_id c"
    "\<And>c. what (f c) \<noteq> None"
  shows "noted what s' i"
proof -
  have "firm_cycles s' = update_row cy_id i f (firm_cycles s)" using change_cycles [OF assms(1)] by simp
  then show ?thesis using assms(2) assms(4) [of c] by (auto simp: noted_def row_of_cycles find_row_update assms(3))
qed

lemma settle_plan_noted:
  assumes run: "settle_plan i s = Inr (x, s')"
  shows "noted cy_plan s' i"
proof -
  from run obtain c where c: "row_of cycles_table s i = Some c" by (auto simp: settle_plan_def steps_return)
  show ?thesis
  proof (cases "cy_plan c = None")
    case False
    then show ?thesis using run c noted_row [OF c, of cy_plan] by (auto simp: settle_plan_def steps_return)
  next
    case True
    then obtain plan s1 where change: "change_row cycles_table i (\<lambda>c. c\<lparr>cy_plan := Some plan\<rparr>) s = Inr ((), s1)"
      and told: "cycle_frame s1 s'"
      using run c by (auto simp: settle_plan_def steps_return cycle.refl dest: obeysD [OF cycle_emits(1)] split: option.splits)
    show ?thesis by (rule noted_frame [OF told noted_after [OF change c]]) simp_all
  qed
qed

lemma settle_review_noted:
  assumes run: "settle_review i s = Inr (x, s')"
  shows "noted cy_review s' i"
proof -
  from run obtain c where c: "row_of cycles_table s i = Some c" by (auto simp: settle_review_def steps_return)
  show ?thesis
  proof (cases "cy_review c = None")
    case False
    then show ?thesis using run c noted_row [OF c, of cy_review] by (auto simp: settle_review_def steps_return)
  next
    case True
    then obtain review where "change_row cycles_table i (\<lambda>c. c\<lparr>cy_review := Some review\<rparr>) s = Inr ((), s')"
      using run c by (auto simp: settle_review_def steps_return Let_def)
    then show ?thesis by (rule noted_after [OF _ c]) simp_all
  qed
qed

lemma governance_noted:
  assumes run: "governance_stage pa i s = Inr (x, s')"
  shows "noted cy_governance s' i"
proof -
  from run obtain c d s1 where c: "row_of cycles_table s i = Some c" and rules: "cycle_frame s s1"
    and change: "change_row cycles_table (cy_id c) (\<lambda>c. c\<lparr>cy_governance := Some (as_record d)\<rparr>) s1 = Inr ((), s')"
    unfolding governance_stage_def governance_hook_def governance_review_def
    by (auto simp: steps_return) (meson cycle.trans frame_rules obeysD)
  have "stage_at s1 i = Some (cy_stage c)" using frame_stage_at [OF rules] stage_at_row [OF c] by simp
  then obtain c1 where "row_of cycles_table s1 i = Some c1" by (auto simp: stage_at_def row_of_cycles)
  moreover have "cy_id c = i" using c by (auto simp: row_of_cycles dest: find_row_key)
  ultimately show ?thesis by (intro noted_after [OF change [unfolded \<open>cy_id c = i\<close>]]) simp_all
qed

interpretation company: documenting_hooks "company_runner pa" for pa
proof
  fix i s x s'
  assume run: "enter_stage (company_runner pa) i s = Inr (x, s')"
  show "noted cy_plan s' i" if "stage_at s i = Some C_EXECUTING"
  proof -
    from run that obtain s1 s2 where plan: "settle_plan i s = Inr ((), s1)"
      and explore: "exploration_hook (pa_templates pa) i s1 = Inr ((), s2)" and watch: "watch_hook (pa_templates pa) i s2 = Inr ((), s')"
      by (auto simp: enter_stage_def installs steps_return stage_at_def row_of_cycles)
    show ?thesis
      by (rule noted_frame [OF obeysD [OF frame_watch_hook watch]
            noted_frame [OF obeysD [OF frame_exploration_hook explore] settle_plan_noted [OF plan]]]) simp_all
  qed
  show "noted cy_governance s' i" if "stage_at s i = Some C_REVIEWING"
  proof -
    from run that obtain s1 s2 where rules: "governance_stage pa i s1 = Inr ((), s2)"
      and review: "executive_start (pa_templates pa) REVIEW_TEMPLATE i s2 = Inr ((), s')"
      by (auto simp: enter_stage_def installs steps_return stage_at_def row_of_cycles)
    show ?thesis
      by (rule noted_frame [OF obeysD [OF frame_executive_start review] governance_noted [OF rules]]) simp
  qed
  show "noted cy_review s' i" if "stage_at s i = Some C_DONE"
    using run that by (auto simp: enter_stage_def installs steps_return stage_at_def row_of_cycles intro: settle_review_noted)
qed

end
