(* ===== verification/CycleProps.thy ===== *)
theory CycleProps
  imports Company CommerceDemo
begin

text \<open>
  Properties of the operating cycle: the states that starts, ticks, the daily schedule and the
  maintenance job can reach, with anything else the company does between them.
\<close>

section \<open>Reachable companies\<close>

inductive cycle_reachable :: "company_parts \<Rightarrow> firm \<Rightarrow> bool" for pa where
  founded: "firm_cycles s = [] \<Longrightarrow> cycle_reachable pa s"
| started: "cycle_reachable pa s \<Longrightarrow> cycle_start (company_runner pa) co s = Inr (i, s') \<Longrightarrow> cycle_reachable pa s'"
| scheduled: "cycle_reachable pa s \<Longrightarrow> cycle_schedule_handler (company_runner pa) co s = Inr ((), s') \<Longrightarrow>
    cycle_reachable pa s'"
| ticked: "cycle_reachable pa s \<Longrightarrow> tick 5 (company_runner pa) co s = Inr (r, s') \<Longrightarrow> cycle_reachable pa s'"
| maintained: "cycle_reachable pa s \<Longrightarrow> cycle_maintenance_job 5 (company_runner pa) ids s = Inr ((), s') \<Longrightarrow>
    cycle_reachable pa s'"
| elsewhere: "cycle_reachable pa s \<Longrightarrow> cycle_frame s s' \<Longrightarrow> cycle_reachable pa s'"

definition cycles_sound :: "firm \<Rightarrow> bool" where
  "cycles_sound s \<longleftrightarrow> cycles_ok s \<and> all_documented s"

lemma sound_frame: "cycles_sound s \<Longrightarrow> cycle_frame s s' \<Longrightarrow> cycles_sound s'"
  unfolding cycles_sound_def using cycles_frame documented_frame by blast

lemma sound_start: "keeps cycles_sound (cycle_start (company_runner pa) co)"
  by (rule keepsI) (auto simp: cycles_sound_def dest: company.starts company.start_documents)

lemma sound_tick: "keeps cycles_sound (tick n (company_runner pa) co)"
  unfolding tick_def
proof (intro keeps_intros)
  show "keeps cycles_sound (tick_loop n (company_runner pa) i moved)" for i moved
    by (rule keepsI) (auto simp: cycles_sound_def dest: company.loop_documents)
qed

lemma sound_handler: "keeps cycles_sound (cycle_schedule_handler (company_runner pa) co)"
proof (rule keepsI)
  fix s x s'
  assume sound: "cycles_sound s" and run: "cycle_schedule_handler (company_runner pa) co s = Inr (x, s')"
  have "s' = s \<or> (\<exists>i. cycle_start (company_runner pa) co s = Inr (i, s'))"
    using run by (auto simp: cycle_schedule_handler_def tx_run split: sum.splits err.splits)
  then show "cycles_sound s'" using sound keepsD [OF sound_start sound] by blast
qed

lemma sound_job: "keeps cycles_sound (cycle_maintenance_job n (company_runner pa) ids)"
  unfolding cycle_maintenance_job_def by (intro keeps_intros sound_tick)

lemma cycles_reach_sound: "cycle_reachable pa s \<Longrightarrow> cycles_sound s"
proof (induction rule: cycle_reachable.induct)
  case (founded s)
  then show ?case by (simp add: cycles_sound_def cycles_ok_def numbered_def all_documented_def)
next
  case (elsewhere s s')
  then show ?case using sound_frame by blast
qed (auto dest: keepsD [OF sound_start] keepsD [OF sound_handler] keepsD [OF sound_tick] keepsD [OF sound_job])

lemma sound_row:
  assumes "cycles_sound s" "c \<in> set (firm_cycles s)"
  shows "row_of cycles_table s (cy_id c) = Some c"
  using find_row_unique [OF cycles_distinct assms(2)] assms(1) by (simp add: row_of_cycles cycles_sound_def)

section \<open>A company on its first day\<close>

text \<open>Nobody is employed: every stage is left as soon as it is looked at, on the fallback plan.\<close>

definition demo_explain :: "err \<Rightarrow> string" where
  "demo_explain e = ''error''"

definition demo_settings :: verb_settings where
  "demo_settings = \<lparr>vs_ledger = demo_ledger, vs_decimal = money_text, vs_explain = demo_explain\<rparr>"

definition demo_load :: "string \<Rightarrow> dict \<Rightarrow> string + company_command" where
  "demo_load name d = (case (name = ''UpdateStrategy'', map_of d ''summary'') of
     (True, Some (JStr t)) \<Rightarrow> if valid_command (UpdateStrategy t) then Inr (UpdateStrategy t) else Inl ''summary''
   | _ \<Rightarrow> Inl ''payload'')"

definition demo_dump :: "company_command \<Rightarrow> dict" where
  "demo_dump c = (case c of UpdateStrategy t \<Rightarrow> [(''summary'', JStr t)] | _ \<Rightarrow> [])"

definition demo_uuid :: "string \<Rightarrow> uuid option" where
  "demo_uuid t = None"

definition demo_codec :: command_codec where
  "demo_codec = \<lparr>cc_load = demo_load, cc_dump = demo_dump, cc_uuid = demo_uuid\<rparr>"

definition demo_parts :: company_parts where
  "demo_parts = \<lparr>pa_templates = [], pa_ledger = demo_ledger, pa_reporting = \<lparr>rg_fx = ld_fx demo_ledger, rg_hooks = []\<rparr>,
     pa_policy = empty_engine, pa_approvals = demo_service, pa_settings = demo_settings, pa_codec = demo_codec\<rparr>"

definition demo_runner :: cycle_runner where
  "demo_runner = company_runner demo_parts"

definition demo_morning :: firm where
  "demo_morning = (case cycle_start demo_runner 1 demo_firm of Inr r \<Rightarrow> snd r | Inl e \<Rightarrow> demo_firm)"

definition demo_evening :: firm where
  "demo_evening = (case tick 5 demo_runner 1 demo_morning of Inr r \<Rightarrow> snd r | Inl e \<Rightarrow> demo_morning)"

definition demo_day :: cycle where
  "demo_day = \<lparr>cy_id = 10, cy_company_id = 1, cy_seq = 1, cy_stage = C_PLANNING, cy_plan = None, cy_review = None,
     cy_governance = None, cy_started_at = 0, cy_stage_deadline = Some 3600000000, cy_ended_at = None\<rparr>"

lemma demo_start_run: "(case cycle_start demo_runner 1 demo_firm of Inl e \<Rightarrow> False | Inr r \<Rightarrow> firm_cycles (snd r) = [demo_day])"
  by code_simp

lemma demo_tick_run:
  "(case tick 5 demo_runner 1 demo_morning of Inl e \<Rightarrow> False
    | Inr r \<Rightarrow> fst r = Some 10 \<and> map (\<lambda>c. (cy_id c, cy_stage c, cy_plan c = None, cy_review c = None)) (firm_cycles (snd r)) =
        [(10, C_DONE, False, False)])"
  by code_simp

lemma demo_started: "cycle_start demo_runner 1 demo_firm = Inr (fst (projr (cycle_start demo_runner 1 demo_firm)), demo_morning)"
  using demo_start_run by (auto simp: demo_morning_def split: sum.splits)

lemma demo_morning_cycles: "firm_cycles demo_morning = [demo_day]"
  using demo_start_run by (auto simp: demo_morning_def split: sum.splits)

lemma demo_ticked: "tick 5 demo_runner 1 demo_morning = Inr (Some 10, demo_evening)"
  using demo_tick_run by (auto simp: demo_evening_def split: sum.splits)

lemma demo_evening_cycles:
  "map (\<lambda>c. (cy_id c, cy_stage c, cy_plan c = None, cy_review c = None)) (firm_cycles demo_evening) = [(10, C_DONE, False, False)]"
  using demo_tick_run by (auto simp: demo_evening_def split: sum.splits)

lemma demo_morning_reachable: "cycle_reachable demo_parts demo_morning"
proof -
  have "cycle_reachable demo_parts demo_firm" by (rule founded) (simp add: firm_cycles_def demo_firm_def)
  then show ?thesis using demo_started unfolding demo_runner_def by (rule started)
qed

lemma demo_evening_reachable: "cycle_reachable demo_parts demo_evening"
  using demo_morning_reachable demo_ticked unfolding demo_runner_def by (rule ticked)

lemma demo_open: "open_cycle demo_morning 1 = Some demo_day"
  by (simp add: open_cycle_def company_cycles_def demo_morning_cycles demo_day_def last_some_def first_some_def)

section \<open>Properties\<close>

text \<open>C9. In every reachable state the cycles of a company are numbered 1, 2, 3 and so on in the order
  they were started, and at most one of them is open.\<close>

theorem cycles_are_numbered:
  assumes "cycle_reachable pa s"
  shows "map cy_seq (company_cycles s co) = [1..<Suc (length (company_cycles s co))] \<and>
    length (filter (\<lambda>c. cy_stage c \<noteq> C_DONE) (company_cycles s co)) \<le> 1"
proof -
  let ?own = "company_cycles s co"
  have "numbered (firm_cycles s) (next_id (fi_db s))"
    using cycles_reach_sound [OF assms] by (simp add: cycles_sound_def cycles_ok_def numbered_skeleton)
  then have own: "map cy_seq ?own = [1..<Suc (length ?own)]" "\<forall>c\<in>set (butlast ?own). cy_stage c = C_DONE"
    unfolding numbered_def Let_def company_cycles_def by blast+
  have "length (filter (\<lambda>c. cy_stage c \<noteq> C_DONE) ?own) \<le> 1"
  proof (cases ?own rule: rev_cases)
    case (snoc xs c)
    then have "filter (\<lambda>c. cy_stage c \<noteq> C_DONE) xs = []" using own(2) by (simp add: filter_empty_conv)
    then show ?thesis using snoc by simp
  qed simp
  with own(1) show ?thesis by blast
qed

theorem cycles_are_numbered_witness:
  "map cy_seq (company_cycles demo_morning 1) = [1] \<and> length (company_cycles demo_morning 1) = 1"
  using cycles_are_numbered [OF demo_morning_reachable, of 1]
  by (simp add: company_cycles_def demo_morning_cycles demo_day_def)

text \<open>C12. In every reachable state a cycle that has left PLANNING has a plan, a cycle under review or DONE
  has the record of what governance did, and a cycle that is DONE a review: what the CEO produced, or the
  fallback and the note that nothing was.\<close>

theorem cycles_leave_records:
  assumes "cycle_reachable pa s" "c \<in> set (firm_cycles s)"
  shows "(cy_stage c = C_PLANNING \<or> cy_plan c \<noteq> None) \<and>
    (cy_stage c = C_REVIEWING \<or> cy_stage c = C_DONE \<longrightarrow> cy_governance c \<noteq> None) \<and>
    (cy_stage c = C_DONE \<longrightarrow> cy_review c \<noteq> None)"
proof -
  have "documented c" using cycles_reach_sound [OF assms(1)] assms(2) by (simp add: cycles_sound_def all_documented_def)
  then show ?thesis by (cases "cy_stage c") (auto simp: documented_def rank_def STAGE_ORDER_def)
qed

theorem cycles_leave_records_witness:
  "map (\<lambda>c. cy_stage c = C_DONE \<and> cy_plan c \<noteq> None \<and> cy_governance c \<noteq> None \<and> cy_review c \<noteq> None)
    (firm_cycles demo_evening) = [True]"
proof -
  obtain c where c: "firm_cycles demo_evening = [c]" "cy_stage c = C_DONE" using demo_evening_cycles by auto
  then show ?thesis using cycles_leave_records [OF demo_evening_reachable, of c] by simp
qed

text \<open>C11. The loop of a tick ends: four passes and a last look are enough for any cycle, and allowing
  more of them changes nothing.\<close>

theorem tick_needs_five:
  assumes "cycle_reachable pa s"
  shows "tick_loop (5 + k) (company_runner pa) i moved s = tick_loop 5 (company_runner pa) i moved s \<and>
    (\<forall>s'. tick_loop 5 (company_runner pa) i moved s \<noteq> Inr (None, s'))"
proof -
  let ?ry = "company_runner pa"
  have enough: "tick_loop 5 ?ry i moved s \<noteq> Inr (None, s')" for s'
  proof
    assume run: "tick_loop 5 ?ry i moved s = Inr (None, s')"
    then obtain c where "row_of cycles_table s i = Some c"
      by (auto simp: steps_return eval_nat_numeral)
    then have at: "stage_at s i = Some (cy_stage c)" by (rule stage_at_row)
    show False
      using company.loop_ends [OF run _ at] cycles_reach_sound [OF assms] by (simp add: cycles_sound_def)
  qed
  show ?thesis using loop_more [of 5 ?ry i moved s, OF enough, of k] enough by blast
qed

theorem tick_needs_five_witness:
  "tick_loop 9 demo_runner 10 False demo_morning = tick_loop 5 demo_runner 10 False demo_morning"
  using tick_needs_five [OF demo_morning_reachable, of 4 10 False] unfolding demo_runner_def by simp

text \<open>C10. A tick leaves no stage waiting that could be left: when it returns, the cycle that was open is
  done, or its stage is neither past its deadline nor finished by every check; and it reports the cycle
  exactly when a stage was left.\<close>

theorem tick_stops_where_it_must:
  assumes reach: "cycle_reachable pa s" and found: "open_cycle s co = Some c"
    and run: "tick 5 (company_runner pa) co s = Inr (r, s')"
  shows "\<exists>c'. row_of cycles_table s' (cy_id c) = Some c' \<and>
    (cy_stage c' = C_DONE \<or> \<not> overdue (clock (fi_db s')) c' \<and> stage_finished (company_runner pa) c' s' = Inr (False, s')) \<and>
    (if r = None then cy_stage c' = cy_stage c else r = Some (cy_id c) \<and> rank (cy_stage c) < rank (cy_stage c'))"
proof -
  let ?ry = "company_runner pa"
  note sound = cycles_reach_sound [OF reach]
  have c: "row_of cycles_table s (cy_id c) = Some c" using sound_row [OF sound] open_cycle_some [OF found] by blast
  from run found obtain moved where loop: "tick_loop 5 ?ry (cy_id c) False s = Inr (moved, s')"
    and r: "r = (if moved = Some True then Some (cy_id c) else None)"
    by (auto simp: tick_def steps_return)
  obtain b st' where ends: "moved = Some b" "stage_at s' (cy_id c) = Some st'" "rank (cy_stage c) \<le> rank st'"
    "if b then False \<or> rank (cy_stage c) < rank st' else s' = s"
    using company.loop_ends [OF loop _ stage_at_row [OF c]] sound by (auto simp: cycles_sound_def)
  obtain c' where c': "row_of cycles_table s' (cy_id c) = Some c'"
    "cy_stage c' = C_DONE \<or> \<not> overdue (clock (fi_db s')) c' \<and> stage_finished ?ry c' s' = Inr (False, s')"
    using company.loop_stops [OF loop [unfolded ends(1)]] by blast
  have "cy_stage c' = st'" using ends(2) stage_at_row [OF c'(1)] by simp
  moreover have "st' = cy_stage c" if "\<not> b"
    using ends(2,4) that stage_at_row [OF c] by simp
  ultimately show ?thesis using c' r ends by (cases b) auto
qed

theorem tick_stops_where_it_must_witness:
  "\<exists>c'. row_of cycles_table demo_evening 10 = Some c' \<and> cy_stage c' = C_DONE \<and> rank C_PLANNING < rank (cy_stage c')"
proof -
  have "\<exists>c'. row_of cycles_table demo_evening 10 = Some c' \<and> rank C_PLANNING < rank (cy_stage c')"
    using tick_stops_where_it_must [OF demo_morning_reachable demo_open demo_ticked [unfolded demo_runner_def]]
    by (auto simp: demo_day_def)
  then show ?thesis using demo_evening_cycles by (auto simp: row_of_cycles)
qed

end
