(* ===== verification/CommandProps.thy ===== *)
theory CommandProps
  imports CycleProps PolicyProps
begin

text \<open>
  Properties of the command bus with every verb registered: a key is used once, what the policy does
  not allow touches nothing, and what only a person may decide is never done for anyone else.
\<close>

section \<open>What is left alone until a command is allowed\<close>

text \<open>The work of the runtime: its tasks, runs, workflows and agents. Events, approvals and decisions are not.\<close>

definition same_work :: "db \<Rightarrow> db \<Rightarrow> bool" where
  "same_work d d' \<longleftrightarrow> tasks d' = tasks d \<and> runs d' = runs d \<and> workflows d' = workflows d \<and> agents d' = agents d"

interpretation work: step_preorder same_work
  by unfold_locales (auto simp: same_work_def)

lemma work_modify: "(\<And>d. same_work d (f d)) \<Longrightarrow> obeys same_work (modifyT f)"
  by (auto simp: obeys_def tx_run)

lemma work_uuid7: "obeys same_work uuid7"
  by (auto simp: obeys_def uuid7_def same_work_def)

lemma work_new_event: "obeys same_work (new_event p c a at1 ai refs o1)"
  unfolding new_event_def Let_def by (intro work.rules work_uuid7)

lemma work_emit: "obeys same_work (emit e)"
  unfolding emit_def Let_def by (intro work.rules work_modify) (simp_all add: same_work_def)

lemma work_get_approval: "obeys same_work (get_approval i)"
  unfolding get_approval_def by (intro work.rules)

lemma work_decide: "obeys same_work (decide_and_record e actor action co role args facts ps refs)"
  unfolding decide_and_record_def
  by (intro work.rules work_modify work_new_event work_emit) (simp add: same_work_def)

lemma work_request: "obeys same_work (request_standalone svc co k rt ri su by2 ac p ex)"
  unfolding request_standalone_def create_approval_def approval_emit_def Let_def
  by (intro work.rules work_modify work_uuid7 work_new_event work_emit work_get_approval) (simp_all add: same_work_def)

text \<open>Every table of the company but the record of commands, and the work of the runtime.\<close>

definition untouched :: "firm \<Rightarrow> firm \<Rightarrow> bool" where
  "untouched s s' \<longleftrightarrow> fi_put_db (fi_db s) (s'\<lparr>fi_commands := fi_commands s\<rparr>) = s \<and> same_work (fi_db s) (fi_db s')"

lemma untouched_iff:
  "untouched s s' \<longleftrightarrow> (\<exists>cms d. s' = fi_put_db d (s\<lparr>fi_commands := cms\<rparr>) \<and> same_work (fi_db s) d)"
proof
  assume un: "untouched s s'"
  then have same: "fi_put_db (fi_db s) (s'\<lparr>fi_commands := fi_commands s\<rparr>) = s" by (simp add: untouched_def)
  have "s' = fi_put_db (fi_db s') ((fi_put_db (fi_db s) (s'\<lparr>fi_commands := fi_commands s\<rparr>))\<lparr>fi_commands := fi_commands s'\<rparr>)"
    by (simp add: fi_put_db_def fi_db_def)
  with un same show "\<exists>cms d. s' = fi_put_db d (s\<lparr>fi_commands := cms\<rparr>) \<and> same_work (fi_db s) d"
    by (metis untouched_def)
qed (auto simp: untouched_def fi_put_db_def fi_db_def)

interpretation untouched: step_preorder untouched
proof
  show "untouched s s" for s by (auto simp: untouched_def fi_put_db_def fi_db_def work.refl)
  show "untouched s u" if "untouched s t" "untouched t u" for s t u
    using that unfolding untouched_iff by (fastforce simp: fi_put_db_def fi_db_def intro: work.trans)
qed

lemma untouched_runtime: "obeys same_work m \<Longrightarrow> obeys untouched (in_runtime m)"
  by (rule obeysI) (auto simp: in_runtime_def tx_run untouched_def fi_put_db_def fi_db_def split: sum.splits dest: obeysD)

lemma untouched_commands: "obeys untouched (insert_row commands_table r)" "obeys untouched (change_row commands_table i f)"
  by (auto simp: obeys_def insert_row_def change_row_def tx_run Let_def commands_table_def untouched_def fi_put_db_def
      fi_db_def work.refl split: if_splits)

lemmas untouched_intros = untouched.rules untouched_runtime untouched_commands work_uuid7 work_decide work_request

lemma untouched_record: "obeys untouched (record_command name args ak vd)"
  unfolding record_command_def add_row_def by (intro untouched_intros)

lemma untouched_ask: "obeys untouched (ask_person bus sp c ak d)"
  unfolding ask_person_def by (intro untouched_intros untouched_record)

text \<open>A command that is not decided \<open>allow\<close> is recorded, perhaps asked for, and nothing else.\<close>

lemma not_allowed:
  assumes run: "decide_command bus sp c ak s = Inr (r, s')"
    and denied: "\<And>facts d. decide (cb_policy bus) (ak_actor ak) (sp_action sp) (ak_role ak) (sp_dump sp c) facts (ak_policies ak) = Inr d \<Longrightarrow>
      dc_outcome d \<noteq> Allow"
  shows "untouched s s' \<and> cm_outcome r \<noteq> Command_done"
proof -
  let ?decide = "in_runtime (decide_and_record (cb_policy bus) (ak_actor ak) (sp_action sp) (ak_company_id ak) (ak_role ak)
    (sp_dump sp c) (sp_facts sp s (ak_company_id ak) c) (ak_policies ak) \<lparr>dr_agent_id = None, dr_run_id = None, dr_task_id = None\<rparr>)"
  from run obtain d s1 where d: "?decide s = Inr (d, s1)" and rest: "(case dc_outcome d of
       Deny \<Rightarrow> record_command (sp_name sp) (sp_dump sp c) ak (refusal_verdict (outcome_value Deny) (dc_reason d))
     | Needs_approval \<Rightarrow> ask_person bus sp c ak d
     | Allow \<Rightarrow> run_command bus sp c ak (outcome_value Allow)) s1 = Inr (r, s')"
    unfolding decide_command_def by (auto simp: steps_return)
  have first: "untouched s s1" by (rule obeysD [OF untouched_runtime [OF work_decide] d])
  have "dc_outcome d \<noteq> Allow"
    using d denied by (auto simp: in_runtime_def decide_and_record_def tx_run split: sum.splits if_splits)
  then consider "record_command (sp_name sp) (sp_dump sp c) ak (refusal_verdict (outcome_value Deny) (dc_reason d)) s1 = Inr (r, s')"
    | "ask_person bus sp c ak d s1 = Inr (r, s')"
    using rest by (cases "dc_outcome d") auto
  then show ?thesis
  proof cases
    case 1
    then have "cm_outcome r = Command_refused"
      by (auto simp: record_command_def add_row_def steps_return command_row_def refusal_verdict_def)
    with untouched.trans [OF first obeysD [OF untouched_record 1]] show ?thesis by simp
  next
    case 2
    then have "cm_outcome r = Command_awaiting"
      by (auto simp: ask_person_def record_command_def add_row_def steps_return command_row_def)
    with untouched.trans [OF first obeysD [OF untouched_ask 2]] show ?thesis by simp
  qed
qed

lemma not_allowed_submit:
  assumes run: "submit bus name payload ak s = Inr (r, s')" and sp: "command_get bus name = Inr sp"
    and denied: "\<And>c facts d. decide (cb_policy bus) (ak_actor ak) (sp_action sp) (ak_role ak) (sp_dump sp c) facts (ak_policies ak) = Inr d \<Longrightarrow>
      dc_outcome d \<noteq> Allow"
  shows "untouched s s' \<and> (replay_command s (ak_key ak) = None \<longrightarrow> cm_outcome r \<noteq> Command_done)"
proof (cases "replay_command s (ak_key ak)")
  case (Some q)
  then show ?thesis using run by (auto simp: submit_known [OF sp] steps_return untouched.refl)
next
  case None
  have decided: "untouched s s' \<and> cm_outcome r \<noteq> Command_done" if "decide_command bus sp c ak s = Inr (r, s')" for c
    by (rule not_allowed [OF that]) (rule denied)
  have refused: "untouched s s' \<and> cm_outcome r \<noteq> Command_done"
    if "record_command (sp_name sp) d ak (refusal_verdict (outcome_value Deny) t) s = Inr (r, s')" for d t
    using that obeysD [OF untouched_record that]
    by (auto simp: record_command_def add_row_def steps_return command_row_def refusal_verdict_def)
  show ?thesis
  proof (cases payload)
    case (Inr c)
    then show ?thesis using run None decided by (auto simp: submit_known [OF sp] steps_return)
  next
    case (Inl d)
    then show ?thesis using run None decided refused
      by (cases "sp_load sp d") (auto simp: submit_known [OF sp] steps_return)
  qed
qed

section \<open>A bus at work\<close>

definition demo_bus :: "company_command command_bus" where
  "demo_bus = verb_bus company_engine demo_service None demo_settings demo_codec"

definition demo_asking :: "actor \<Rightarrow> string \<Rightarrow> asking" where
  "demo_asking a key = \<lparr>ak_company_id = 1, ak_actor = a, ak_key = key, ak_role = Some ''ceo'', ak_policies = [],
     ak_task_id = None, ak_run_id = None\<rparr>"

definition demo_opening :: "(err + command_record \<times> firm)" where
  "demo_opening = submit demo_bus ''CreateBusinessUnit'' (Inr (CreateBusinessUnit 5 100 None None))
     (demo_asking (Actor_agent 1) ''k1'') demo_firm"

text \<open>A person is asked by no rule: an engine that only declares the action will do.\<close>

definition owner_bus :: "company_command command_bus" where
  "owner_bus = verb_bus \<lparr>pe_actions = [(''update_strategy'', SE_write)], pe_rules = []\<rparr> demo_service None demo_settings demo_codec"

definition demo_strategy :: "(err + command_record \<times> firm)" where
  "demo_strategy = submit owner_bus ''UpdateStrategy'' (Inl [(''summary'', JStr ''one business'')])
     (demo_asking (Actor_human ''owner'') ''k2'') demo_firm"

lemma demo_opening_run: "(case demo_opening of Inl e \<Rightarrow> False | Inr x \<Rightarrow> cm_outcome (fst x) = Command_awaiting)"
  by code_simp

lemma demo_strategy_run: "(case demo_strategy of Inl e \<Rightarrow> False | Inr x \<Rightarrow> cm_outcome (fst x) = Command_done \<and>
    get_policy (snd x) 1 STRATEGY_POLICY = Some (JStr ''one business'') \<and> cm_idempotency_key (fst x) = ''k2'')"
  by code_simp

section \<open>Properties\<close>

text \<open>C13. A command's key is used once. Whatever is asked under a key, the bus with every verb answers with
  one row of the record: the first time it adds that row and nothing else to the record, and from then on
  any command under the key, another verb included, is answered with the row and changes nothing at all.\<close>

theorem a_key_is_used_once:
  assumes sound: "record_sound s" and run: "submit (verb_bus pe svc reg vs cc) name payload ak s = Inr (r, s')"
    and known: "command_get (verb_bus pe svc reg vs cc) name' = Inr sp" and key: "ak_key ak' = ak_key ak"
  shows "record_sound s' \<and> submit (verb_bus pe svc reg vs cc) name' payload' ak' s' = Inr (r, s') \<and>
    (if replay_command s (ak_key ak) = None then fi_commands s' = fi_commands s @ [r] else s' = s)"
  using verbs.submit_records [OF run sound] verbs.used_key [of s' ak' r, OF _ known] key by simp

theorem a_key_is_used_once_witness:
  "\<exists>r s'. demo_strategy = Inr (r, s') \<and> cm_outcome r = Command_done \<and>
    submit owner_bus ''CreateBusinessUnit'' (Inl []) (demo_asking (Actor_agent 1) ''k2'') s' = Inr (r, s')"
proof -
  obtain r s' where run: "demo_strategy = Inr (r, s')" "cm_outcome r = Command_done"
    using demo_strategy_run by (auto split: sum.splits)
  have "(case command_get owner_bus ''CreateBusinessUnit'' of Inl e \<Rightarrow> False | Inr x \<Rightarrow> True)" by code_simp
  then obtain sp where sp: "command_get owner_bus ''CreateBusinessUnit'' = Inr sp" by (auto split: sum.splits)
  have "record_sound demo_firm" by (simp add: record_sound_def demo_firm_def)
  from a_key_is_used_once [OF this run(1) [unfolded demo_strategy_def owner_bus_def] sp [unfolded owner_bus_def],
      of "demo_asking (Actor_agent 1) ''k2''" "Inl []"]
  have "submit owner_bus ''CreateBusinessUnit'' (Inl []) (demo_asking (Actor_agent 1) ''k2'') s' = Inr (r, s')"
    by (simp add: owner_bus_def demo_asking_def)
  with run show ?thesis by (intro exI [of _ r] exI [of _ s'] conjI)
qed

text \<open>C14. Opening and winding down a business is the decision of a person. Under the company's policy no agent
  and no part of the system gets such a command done, whatever its role, its payload and the company's
  settings: no table of the company changes and neither does the work of the runtime; what is left is the
  row in the record, the decision and the question to a person.\<close>

theorem business_needs_a_person:
  assumes "name = ''CreateBusinessUnit'' \<or> name = ''WindDownBusinessUnit''" "actor_kind (ak_actor ak) \<noteq> K_human"
    "submit (verb_bus company_engine svc reg vs cc) name payload ak s = Inr (r, s')"
  shows "untouched s s' \<and> (replay_command s (ak_key ak) = None \<longrightarrow> cm_outcome r \<noteq> Command_done)"
proof -
  let ?bus = "verb_bus company_engine svc reg vs cc"
  from assms(3) obtain sp where sp: "command_get ?bus name = Inr sp" by (auto simp: submit_def steps_return)
  then obtain action where action: "(name, action) \<in> set (COMPANY_VERBS @ BUSINESS_VERBS)" "sp = verb_spec vs cc (name, action)"
    using verb_bus_spec by blast
  then have "action \<in> {''create_business_unit'', ''wind_down_business_unit''}"
    using assms(1) by (auto simp: COMPANY_VERBS_def BUSINESS_VERBS_def)
  moreover have "map_of (pe_actions company_engine) ''create_business_unit'' = Some SE_irreversible \<and>
      map_of (pe_actions company_engine) ''wind_down_business_unit'' = Some SE_irreversible" by code_simp
  ultimately have irreversible: "map_of (pe_actions company_engine) (sp_action sp) = Some SE_irreversible"
    using action(2) by (auto simp: verb_spec_def)
  show ?thesis
  proof (rule not_allowed_submit [OF assms(3) sp])
    fix c facts d
    assume "decide (cb_policy ?bus) (ak_actor ak) (sp_action sp) (ak_role ak) (sp_dump sp c) facts (ak_policies ak) = Inr d"
    then have decided: "decide company_engine (ak_actor ak) (sp_action sp) (ak_role ak) (sp_dump sp c) facts (ak_policies ak) = Inr d"
      by (simp add: verb_bus_def)
    show "dc_outcome d \<noteq> Allow"
      by (rule notI, rule allowed_by_rule [OF decided assms(2)]) (use irreversible in auto)
  qed
qed

theorem business_needs_a_person_witness:
  "\<exists>r s'. demo_opening = Inr (r, s') \<and> untouched demo_firm s' \<and> cm_outcome r = Command_awaiting"
proof -
  obtain r s' where run: "demo_opening = Inr (r, s')" "cm_outcome r = Command_awaiting"
    using demo_opening_run by (auto split: sum.splits)
  have "untouched demo_firm s'"
    using business_needs_a_person [OF _ _ run(1) [unfolded demo_opening_def demo_bus_def]] by (simp add: demo_asking_def)
  with run show ?thesis by (intro exI [of _ r] exI [of _ s'] conjI)
qed

section \<open>The cap on workflows\<close>

definition ceo_decides :: "string \<Rightarrow> dict \<Rightarrow> dict \<Rightarrow> outcome option" where
  "ceo_decides action args facts =
     (case decide company_engine (Actor_agent 1) action (Some ''ceo'') args facts [] of Inr d \<Rightarrow> Some (dc_outcome d) | Inl _ \<Rightarrow> None)"

lemma ceo_workflow_rule:
  obtains r where "find_rule company_engine K_agent ''instantiate_workflow'' ''ceo'' = Some r" "ru_outcome r = Allow"
    "ru_limit r = Some \<lparr>lm_check = max_workflows, lm_over = Deny, lm_description = ''max workflows per cycle''\<rparr>"
proof -
  have "outcome_for ''instantiate_workflow'' [] [] = Some Allow" by code_simp
  then obtain d where d: "decide company_engine (Actor_agent 1) ''instantiate_workflow'' (Some ''ceo'') [] [] [] = Inr d"
    "dc_outcome d = Allow" by (auto dest: outcome_for_decides)
  then obtain r where r: "find_rule company_engine K_agent ''instantiate_workflow'' ''ceo'' = Some r"
    by (auto simp: decide_def split: if_splits option.splits)
  note rule = company_rules [OF company_engine_registered r]
  then show thesis by (intro that [OF r]) (auto simp: RULES_def allow_def needs_approval_def ANY_AGENT_def)
qed

lemma ceo_starts:
  "ceo_decides ''instantiate_workflow'' args facts =
     (case json_int_or facts ''workflows_in_cycle'' 0 of
        Inl _ \<Rightarrow> None
      | Inr n \<Rightarrow> Some (if n < DEFAULT_MAX_WORKFLOWS_PER_CYCLE then Allow else Deny))"
proof -
  obtain r where r: "find_rule company_engine K_agent ''instantiate_workflow'' ''ceo'' = Some r" "ru_outcome r = Allow"
    "ru_limit r = Some \<lparr>lm_check = max_workflows, lm_over = Deny, lm_description = ''max workflows per cycle''\<rparr>"
    by (rule ceo_workflow_rule)
  have declared: "map_of (pe_actions company_engine) ''instantiate_workflow'' = Some SE_write" by code_simp
  have cap: "max_workflows args facts [] = bind_err (json_int_or facts ''workflows_in_cycle'' 0) (\<lambda>n.
      Inr (if n < DEFAULT_MAX_WORKFLOWS_PER_CYCLE then None
        else Some (int_str n @ '' workflows already started this cycle (cap '' @ int_str DEFAULT_MAX_WORKFLOWS_PER_CYCLE @ '')'')))"
    by (simp add: max_workflows_def json_int_or_def bind_err_def)
  show ?thesis
    by (auto simp: ceo_decides_def decide_def r declared apply_limit_def Let_def cap bind_err_def policy_override_def
        json_field_def apply_override_def raise_irreversible_def split: sum.splits)
qed

text \<open>The cap on workflows per cycle does not hold for a restart. Once the cycle has as many workflows as the
  cap allows, the chief executive is refused an \<open>InstantiateWorkflow\<close> and still allowed a \<open>RestartWorkflow\<close>,
  which starts one as well: the bus is told no facts about the cycle for it.\<close>

theorem restart_escapes_the_cap:
  assumes "command_get (verb_bus pe svc reg vs cc) ''InstantiateWorkflow'' = Inr start"
    "command_get (verb_bus pe svc reg vs cc) ''RestartWorkflow'' = Inr again"
    "open_cycle s company_id = Some c"
    "DEFAULT_MAX_WORKFLOWS_PER_CYCLE \<le> int (length (filter (\<lambda>w. w_cycle_id w = Some (cy_id c)) (workflows (fi_db s))))"
  shows "ceo_decides (sp_action start) args (sp_facts start s company_id c1) = Some Deny \<and>
    ceo_decides (sp_action again) args (sp_facts again s company_id c2) = Some Allow"
proof -
  have specs: "start = verb_spec vs cc (''InstantiateWorkflow'', ''instantiate_workflow'')"
    "again = verb_spec vs cc (''RestartWorkflow'', ''instantiate_workflow'')"
    using assms(1,2) by (auto dest!: verb_bus_spec simp: COMPANY_VERBS_def BUSINESS_VERBS_def)
  have "json_int_or (workflows_this_cycle s company_id) ''workflows_in_cycle'' 0 =
      Inr (int (length (filter (\<lambda>w. w_cycle_id w = Some (cy_id c)) (workflows (fi_db s)))))"
    by (simp add: workflows_this_cycle_def json_int_or_def assms(3))
  then show ?thesis
    using assms(4) by (simp add: specs verb_spec_def verb_facts_def ceo_starts json_int_or_def DEFAULT_MAX_WORKFLOWS_PER_CYCLE_def)
qed

definition busy_run :: workflow_run where
  "busy_run = \<lparr>w_id = 50, w_company_id = 1, w_project_id = 2, w_cycle_id = Some 10, w_template_name = ''daily'', w_params = [],
     w_state = W_FAILED, w_finished_at = Some 0, w_created_at = 0\<rparr>"

definition busy_morning :: firm where
  "busy_morning = fi_put_db ((fi_db demo_morning)\<lparr>workflows := replicate 5 busy_run\<rparr>) demo_morning"

theorem restart_escapes_the_cap_witness:
  "ceo_decides ''instantiate_workflow'' [] (workflows_this_cycle busy_morning 1) = Some Deny \<and>
   ceo_decides ''instantiate_workflow'' [] [] = Some Allow"
proof -
  have specs: "command_get (verb_bus company_engine demo_service None demo_settings demo_codec) ''InstantiateWorkflow'' =
      Inr (verb_spec demo_settings demo_codec (''InstantiateWorkflow'', ''instantiate_workflow''))"
    "command_get (verb_bus company_engine demo_service None demo_settings demo_codec) ''RestartWorkflow'' =
      Inr (verb_spec demo_settings demo_codec (''RestartWorkflow'', ''instantiate_workflow''))"
    by (simp_all add: command_get_def verb_bus_def COMPANY_VERBS_def BUSINESS_VERBS_def verb_spec_def)
  have "company_cycles busy_morning 1 = company_cycles demo_morning 1"
    by (simp add: busy_morning_def company_cycles_def firm_cycles_def fi_put_db_def)
  then have cycle: "open_cycle busy_morning 1 = Some demo_day"
    using demo_open by (simp add: open_cycle_def)
  have "workflows (fi_db busy_morning) = replicate 5 busy_run"
    by (simp add: busy_morning_def fi_put_db_def fi_db_def)
  then have "DEFAULT_MAX_WORKFLOWS_PER_CYCLE \<le>
      int (length (filter (\<lambda>w. w_cycle_id w = Some (cy_id demo_day)) (workflows (fi_db busy_morning))))"
    by (simp add: DEFAULT_MAX_WORKFLOWS_PER_CYCLE_def busy_run_def demo_day_def numeral_eq_Suc)
  from restart_escapes_the_cap [OF specs cycle this, of "[]"] show ?thesis
    by (simp add: verb_spec_def verb_facts_def)
qed

end
