(* ===== verification/GovernanceProps.thy ===== *)
theory GovernanceProps
  imports CommandProps
begin

text \<open>
  Properties of governance: its rules stop work and never end it, a breached criterion stops the
  project it is about, and which failures it does not see.
\<close>

section \<open>What stopping is\<close>

text \<open>Rows that are as they were or paused, and nothing added or taken away.\<close>

definition project_stops :: "project \<Rightarrow> project \<Rightarrow> bool" where
  "project_stops p p' \<longleftrightarrow> p' = p \<or> p' = p\<lparr>pj_state := J_paused\<rparr>"

definition unit_stops :: "business_unit \<Rightarrow> business_unit \<Rightarrow> bool" where
  "unit_stops u u' \<longleftrightarrow> u' = u \<or> u' = u\<lparr>bu_state := U_paused\<rparr>"

definition agent_stops :: "agent \<Rightarrow> agent \<Rightarrow> bool" where
  "agent_stops a a' \<longleftrightarrow> a' = a \<or> a' = a\<lparr>a_status := AG_PAUSED\<rparr>"

definition work_stops :: "db \<Rightarrow> db \<Rightarrow> bool" where
  "work_stops d d' \<longleftrightarrow> tasks d' = tasks d \<and> runs d' = runs d \<and> workflows d' = workflows d \<and>
     list_all2 agent_stops (agents d) (agents d')"

text \<open>The tables of money, offers and decisions, which no rule writes.\<close>

definition rest_of :: "firm \<Rightarrow> firm" where
  "rest_of s = s\<lparr>fi_costs := (fi_costs s)\<lparr>cs_db := demo_db, cs_cycles := []\<rparr>, fi_projects := [], fi_units := [], fi_commands := []\<rparr>"

definition only_stops :: "firm \<Rightarrow> firm \<Rightarrow> bool" where
  "only_stops s s' \<longleftrightarrow> list_all2 project_stops (fi_projects s) (fi_projects s') \<and>
     list_all2 unit_stops (fi_units s) (fi_units s') \<and> work_stops (fi_db s) (fi_db s') \<and> rest_of s' = rest_of s"

lemma stops_refl: "list_all2 project_stops ps ps" "list_all2 unit_stops us us" "list_all2 agent_stops as as"
  by (simp_all add: list.rel_refl project_stops_def unit_stops_def agent_stops_def)

lemma stops_trans:
  "list_all2 project_stops ps qs \<Longrightarrow> list_all2 project_stops qs rs \<Longrightarrow> list_all2 project_stops ps rs"
  "list_all2 unit_stops us vs \<Longrightarrow> list_all2 unit_stops vs ws \<Longrightarrow> list_all2 unit_stops us ws"
  "list_all2 agent_stops as bs \<Longrightarrow> list_all2 agent_stops bs cs \<Longrightarrow> list_all2 agent_stops as cs"
  by (erule (1) list_all2_trans [rotated], auto simp: project_stops_def unit_stops_def agent_stops_def)+

lemma stops_update:
  "list_all2 project_stops ps (update_row pj_id i (\<lambda>p. p\<lparr>pj_state := J_paused\<rparr>) ps)"
  "list_all2 unit_stops us (update_row bu_id i (\<lambda>u. u\<lparr>bu_state := U_paused\<rparr>) us)"
  "list_all2 agent_stops as (update_row a_id i (\<lambda>a. a\<lparr>a_status := AG_PAUSED\<rparr>) as)"
  by (simp_all add: update_row_def list_all2_conv_all_nth project_stops_def unit_stops_def agent_stops_def)

interpretation stopping: step_preorder work_stops
  by unfold_locales (auto simp: work_stops_def stops_refl intro: stops_trans)

interpretation governing: step_preorder only_stops
  by unfold_locales (auto simp: only_stops_def stops_refl stopping.refl intro: stops_trans stopping.trans)

lemma work_is_stopping: "obeys same_work m \<Longrightarrow> obeys work_stops m"
  unfolding obeys_def same_work_def work_stops_def by (metis stops_refl(3))

lemma governing_runtime: "obeys work_stops m \<Longrightarrow> obeys only_stops (in_runtime m)"
  by (rule obeysI) (auto simp: in_runtime_def tx_run only_stops_def stops_refl rest_of_def fi_put_db_def fi_db_def
      split: sum.splits dest: obeysD)

lemma governing_rows:
  "obeys only_stops (insert_row commands_table r)" "obeys only_stops (change_row commands_table i f)"
  "obeys only_stops (change_row cycles_table i g)"
  "obeys only_stops (change_row projects_table i (\<lambda>p. p\<lparr>pj_state := J_paused\<rparr>))"
  "obeys only_stops (change_row units_table i (\<lambda>u. u\<lparr>bu_state := U_paused\<rparr>))"
  by (auto simp: obeys_def insert_row_def change_row_def tx_run Let_def table_defs only_stops_def stops_refl stops_update
      stopping.refl rest_of_def fi_db_def split: if_splits)

lemma governing_get_row: "obeys only_stops (get_row tb i e)"
  unfolding get_row_def by (intro governing.rules)

lemma governing_emit: "obeys only_stops (firm_emit p co a ty i c)"
  unfolding firm_emit_def
  by (intro governing_runtime work_is_stopping work.rules work_new_event work_emit)

lemma governing_attempts:
  "obeys only_stops (refuse t)"
  "obeys only_stops m \<Longrightarrow> obeys only_stops (perform m)"
  "obeys only_stops a \<Longrightarrow> (\<And>x. obeys only_stops (f x)) \<Longrightarrow> obeys only_stops (after a f)"
  "obeys only_stops a \<Longrightarrow> obeys only_stops (unless b t a)"
  unfolding refuse_def perform_def after_def unless_def
  by (auto intro!: governing.rules split: sum.split)

lemmas governing_intros = governing.rules governing_attempts governing_rows governing_get_row governing_emit

lemma governing_pause_project: "obeys only_stops (pause_project cx i r)"
  unfolding pause_project_def company_project_def move_project_def verb_emit_def by (intro governing_intros)

lemma work_set_activity: "obeys same_work (set_activity ag p actor cx)"
  unfolding set_activity_def write_activity_def Let_def
  by (intro work.rules work_modify work_new_event work_emit) (simp_all add: same_work_def upsert_activity_def)

lemma stopping_pause_agent: "obeys work_stops (pause_agent i actor reason)"
proof -
  have "obeys work_stops (upd_agent j (\<lambda>a. a\<lparr>a_status := AG_PAUSED\<rparr>))" for j
    by (auto simp: obeys_def upd_agent_def tx_run work_stops_def stops_update)
  moreover have "obeys work_stops (get_agent j)" for j
    unfolding get_agent_def by (intro stopping.rules)
  ultimately show ?thesis
    unfolding pause_agent_def set_agent_status_def
    by (intro stopping.rules work_is_stopping [OF work_set_activity]) auto
qed

lemma governing_pause_agent: "obeys only_stops (pause_agent_verb cx i r)"
  unfolding pause_agent_verb_def by (intro governing_intros governing_runtime stopping_pause_agent)

lemma governing_record: "obeys only_stops (record_command name args ak vd)"
  unfolding record_command_def add_row_def
  by (intro governing_intros governing_runtime work_is_stopping [OF work_uuid7])

lemma governing_ask: "obeys only_stops (ask_person bus sp c ak d)"
  unfolding ask_person_def
  by (intro governing_intros governing_runtime work_is_stopping [OF work_request] governing_record)

text \<open>A codec that loads a payload as the command it was asked to load.\<close>

definition honest :: "command_codec \<Rightarrow> bool" where
  "honest cc \<longleftrightarrow> (\<forall>name d c. cc_load cc name d = Inr c \<longrightarrow> command_name c = name)"

lemma governing_handle:
  "command_name c = ''PauseProject'' \<or> command_name c = ''PauseAgent'' \<Longrightarrow> obeys only_stops (handle_command vs cc cx c)"
  by (cases c) (simp_all add: governing_pause_project governing_pause_agent)

lemma governing_submit:
  assumes honest: "honest (pa_codec pa)" and name: "name = ''PauseProject'' \<or> name = ''PauseAgent''"
  shows "obeys only_stops (submit (parts_bus pa) name (Inl d) ak)"
proof (rule obeysI)
  fix s r s'
  assume run: "submit (parts_bus pa) name (Inl d) ak s = Inr (r, s')"
  then obtain sp where sp: "command_get (parts_bus pa) name = Inr sp" by (auto simp: submit_def steps_return)
  obtain action where action: "sp = verb_spec (pa_settings pa) (pa_codec pa) (name, action)"
    using verb_bus_spec [OF sp [unfolded parts_bus_def]] by blast
  have decided: "obeys only_stops (decide_command (parts_bus pa) sp c ak)" if "sp_load sp d = Inr c" for c
  proof -
    have "command_name c = name" using that honest by (simp add: action verb_spec_def honest_def)
    then have "obeys only_stops (sp_handler sp cx c)" for cx
      using governing_handle name by (simp add: action verb_spec_def)
    then show ?thesis
      unfolding decide_command_def run_command_def
      by (intro governing_intros governing_runtime work_is_stopping [OF work_decide])
        (auto split: outcome.split sum.split intro!: governing_intros governing_ask governing_record)
  qed
  have "obeys only_stops (submit (parts_bus pa) name (Inl d) ak)"
    unfolding submit_known [OF sp]
    by (intro governing_intros) (auto split: sum.split intro!: governing_record decided)
  with run show "only_stops s s'" by (rule obeysD [rotated])
qed

lemma governing_fold: "(\<And>x d. obeys only_stops (f x d)) \<Longrightarrow> obeys only_stops (foldT f xs d)"
  by (induction xs arbitrary: d) (auto intro!: governing.rules)

lemma governing_rules:
  assumes "honest (pa_codec pa)"
  shows "obeys only_stops (apply_kill_criteria (parts_bus pa) c d)" "obeys only_stops (judge_agents (parts_bus pa) c d)"
    "obeys only_stops (near_the_cap c d)"
proof -
  have pausing: "obeys only_stops (pause_and_note (parts_bus pa) c b i d)" for b i d
    unfolding pause_and_note_def pause_breached_def by (intro governing_intros governing_submit [OF assms]) simp_all
  show "obeys only_stops (apply_kill_criteria (parts_bus pa) c d)"
    unfolding apply_kill_criteria_def judge_project_def judge_unit_def pause_project_of_unit_def
    by (intro governing_intros governing_fold pausing)
  show "obeys only_stops (judge_agents (parts_bus pa) c d)"
    unfolding judge_agents_def judge_agent_def
    by (intro governing_intros governing_fold governing_submit [OF assms]) simp_all
  show "obeys only_stops (near_the_cap c d)"
    unfolding near_the_cap_def warn_budget_def by (intro governing_intros governing_fold)
qed

section \<open>Failures it does not see\<close>

definition outage :: "agent_run \<Rightarrow> bool" where
  "outage r \<longleftrightarrow> r_state r = R_FAILED \<and> is_infrastructure (r_error r)"

text \<open>Of the last twelve runs the outages are dropped; ten of them leave two, whatever lies underneath.\<close>

lemma outages_hide_failures:
  assumes "10 \<le> length (filter outage (recent_runs s i 12))"
  shows "\<not> keeps_failing s i"
proof -
  let ?rs = "recent_runs s i 12"
  have "length ?rs \<le> 12" by (simp add: recent_runs_def)
  moreover have "length (filter outage ?rs) + length (filter (\<lambda>r. \<not> outage r) ?rs) = length ?rs"
    by (rule sum_length_filter_compl)
  ultimately have "length (filter (\<lambda>r. \<not> outage r) ?rs) \<le> 2" using assms by linarith
  then show ?thesis
    by (auto simp: keeps_failing_def runs_that_judge_def FAILURES_BEFORE_PAUSE_def outage_def Let_def)
qed

section \<open>Properties\<close>


section \<open>A pause that goes through\<close>

lemma firm_emit_runs: "\<exists>d. firm_emit p co a ty i c s = Inr ((), fi_put_db d s)"
  by (simp add: firm_emit_def in_runtime_def zoomT_def new_event_def emit_def bindT_def uuid7_def getsT_def returnT_def
      modifyT_def e_persistence_def Let_def) (rule exI, rule refl)

lemma record_runs:
  assumes "replay_command s (ak_key ak) = None" "command_name_like name"
  shows "\<exists>r d. record_command name args ak vd s = Inr (r, fi_put_db d (s\<lparr>fi_commands := fi_commands s @ [r]\<rparr>)) \<and>
    cm_outcome r = vd_outcome vd"
proof -
  have "\<not> list_ex (\<lambda>r. ak_key ak = cm_idempotency_key r) (fi_commands s)"
    using assms(1) by (auto simp: replay_command_def list_ex_iff filter_empty_conv)
  then show ?thesis
    using assms(2) by (auto simp: record_command_def add_row_def insert_row_def in_runtime_def zoomT_def uuid7_def bindT_def
        getsT_def returnT_def modifyT_def checkT_def commands_table_def command_row_def fi_put_db_def)
      (rule exI [of _ "(fi_db s)\<lparr>next_id := Suc (next_id (fi_db s))\<rparr>"], simp)
qed

lemma system_may_pause:
  "\<exists>d db. in_runtime (decide_and_record company_engine governance_actor ''pause_project'' co None args facts []
    \<lparr>dr_agent_id = None, dr_run_id = None, dr_task_id = None\<rparr>) s = Inr (d, fi_put_db db s) \<and> dc_outcome d = Allow"
proof -
  have "(case decide company_engine governance_actor ''pause_project'' None [] [] [] of Inr d \<Rightarrow> dc_outcome d = Allow | Inl e \<Rightarrow> False)"
    by code_simp
  then obtain d where d: "decide company_engine governance_actor ''pause_project'' None [] [] [] = Inr d" "dc_outcome d = Allow"
    by (auto split: sum.splits)
  have role: "role_of governance_actor None = Some ''system''" by (simp add: role_of_def governance_actor_def)
  obtain r where r: "find_rule company_engine K_system ''pause_project'' ''system'' = Some r"
    using allowed_by_rule [OF d(1) _ d(2)] role by (auto simp: governance_actor_def)
  have "ru_limit r = None"
    using company_rules [OF company_engine_registered r] by (auto simp: RULES_def allow_def needs_approval_def ANY_AGENT_def)
  then have "decide company_engine governance_actor ''pause_project'' None args facts [] = Inr d"
    using d(1) by (auto simp: decide_def governance_actor_def r apply_limit_def split: if_splits option.splits)
  then show ?thesis
    using d(2) by (auto simp: in_runtime_def zoomT_def decide_and_record_def bindT_def liftT_def modifyT_def returnT_def)
qed

lemma find_row_replaced: "find_row key i rows = Some r \<Longrightarrow> (\<And>r. key (f r) = key r) \<Longrightarrow> find_row key i (update_row key i f rows) = Some (f r)"
  by (simp add: find_row_update)

text \<open>The pause itself: the project found active is paused, nothing else of the company changes.\<close>

lemma pause_project_runs:
  assumes p: "row_of projects_table s i = Some p" "pj_state p = J_active" "pj_company_id p = cx_company_id cx"
    and sound: "distinct (map pj_id (fi_projects s))" "pj_kill_criteria p \<noteq> None"
  shows "\<exists>d r. pause_project cx i reason s = Inr (Inr r, fi_put_db d
    (s\<lparr>fi_projects := update_row pj_id i (\<lambda>p. p\<lparr>pj_state := J_paused\<rparr>) (fi_projects s)\<rparr>))"
proof -
  have id: "pj_id p = i" using p(1) by (auto simp: row_of_def projects_table_def dest: find_row_key)
  let ?s = "s\<lparr>fi_projects := update_row pj_id i (\<lambda>p. p\<lparr>pj_state := J_paused\<rparr>) (fi_projects s)\<rparr>"
  have "list_all (\<lambda>r. pj_id r \<noteq> i \<or> pj_kill_criteria r \<noteq> None) (fi_projects s)"
    unfolding list_all_iff
  proof
    fix r assume "r \<in> set (fi_projects s)"
    from find_row_unique [OF sound(1) this] p(1) sound(2)
    show "pj_id r \<noteq> i \<or> pj_kill_criteria r \<noteq> None" by (auto simp: row_of_def projects_table_def)
  qed
  then have checks: "list_all (\<lambda>r. pj_id r \<noteq> i \<or> tb_checks projects_table r)
      (update_row pj_id i (\<lambda>p. p\<lparr>pj_state := J_paused\<rparr>) (fi_projects s))"
    by (simp add: update_row_def list_all_length projects_table_def)
  have change: "change_row projects_table i (\<lambda>p. p\<lparr>pj_state := J_paused\<rparr>) s = Inr ((), ?s)"
    using checks by (simp add: change_row_def bindT_def getsT_def Let_def checkT_def modifyT_def returnT_def projects_table_def)
  obtain d where emit: "firm_emit (ProjectB (ProjectPaused (pj_name p) reason (pause_trigger cx))) (cx_company_id cx) (cx_actor cx)
      ''project'' i None ?s = Inr ((), fi_put_db d ?s)"
    using firm_emit_runs by blast
  show ?thesis
    by (intro exI [of _ d]) (simp add: pause_project_def company_project_def after_def unless_def perform_def verb_emit_def
        move_project_def bindT_def getsT_def returnT_def p id change emit)
qed

text \<open>A command the policy allows and the handler does is recorded as done.\<close>

lemma submit_done:
  assumes get: "command_get bus name = Inr sp" and load: "sp_load sp d = Inr c" and named: "command_name_like (sp_name sp)"
    and unused: "replay_command s (ak_key ak) = None"
    and decided: "in_runtime (decide_and_record (cb_policy bus) (ak_actor ak) (sp_action sp) (ak_company_id ak) (ak_role ak)
      (sp_dump sp c) (sp_facts sp s (ak_company_id ak) c) (ak_policies ak)
      \<lparr>dr_agent_id = None, dr_run_id = None, dr_task_id = None\<rparr>) s = Inr (dec, s1)" "dc_outcome dec = Allow"
    and handled: "sp_handler sp (context_of bus ak) c s1 = Inr (Inr x, s2)"
    and free: "replay_command s2 (ak_key ak) = None"
  shows "\<exists>r db. submit bus name (Inl d) ak s = Inr (r, fi_put_db db (s2\<lparr>fi_commands := fi_commands s2 @ [r]\<rparr>)) \<and>
    cm_outcome r = Command_done"
proof -
  define allowed where "allowed = outcome_value Allow"
  define vd where "vd = \<lparr>vd_decision = allowed, vd_outcome = Command_done, vd_reason = None, vd_result = Some x,
    vd_event_ids = events_since s2 (ak_company_id ak) (last_event_seq s1 (ak_company_id ak))\<rparr>"
  from record_runs [OF free named] obtain r db where
    recorded: "record_command (sp_name sp) (sp_dump sp c) ak vd s2 = Inr (r, fi_put_db db (s2\<lparr>fi_commands := fi_commands s2 @ [r]\<rparr>))"
    and r: "cm_outcome r = vd_outcome vd" by blast
  have "run_command bus sp c ak allowed s1 = Inr (r, fi_put_db db (s2\<lparr>fi_commands := fi_commands s2 @ [r]\<rparr>))"
    using recorded by (simp add: run_command_def bindT_def getsT_def handled vd_def)
  then have "decide_command bus sp c ak s = Inr (r, fi_put_db db (s2\<lparr>fi_commands := fi_commands s2 @ [r]\<rparr>))"
    by (simp add: decide_command_def bindT_def getsT_def decided allowed_def)
  then have "submit bus name (Inl d) ak s = Inr (r, fi_put_db db (s2\<lparr>fi_commands := fi_commands s2 @ [r]\<rparr>))"
    using unused unfolding submit_known [OF get] by (simp add: bindT_def getsT_def liftT_def load)
  then show ?thesis using r by (intro exI [of _ r] exI [of _ db]) (simp add: vd_def)
qed

text \<open>What the codec owes the pause: the payload governance writes is read as the command it means.\<close>

definition reads_pauses :: "command_codec \<Rightarrow> uuid \<Rightarrow> bool" where
  "reads_pauses cc i \<longleftrightarrow> (\<forall>t. cc_load cc ''PauseProject'' [(''project_id'', JStr (uuid_str i)), (''reason'', JStr t)] =
     Inr (PauseProject i (Some t)))"

text \<open>C16. A criterion that is met stops the project it is about. Under the company's policy, judging an active
  project whose own figures breach its criteria always succeeds, leaves it paused, and lists the breach and
  the project in what governance did.\<close>

theorem breach_stops_the_project:
  assumes codec: "reads_pauses cc (pj_id p)" and p: "row_of projects_table s (pj_id p) = Some p" "pj_state p = J_active"
      "pj_company_id p = cy_company_id c" "distinct (map pj_id (fi_projects s))"
    and breach: "breached s c (pj_kill_criteria p) Scope_project ''project'' (pj_id p) (Some (pj_id p)) None = Inr (Some b)"
    and unused: "replay_command s (ak_key (governance_asking c ''project'' (pj_id p))) = None"
  shows "\<exists>s'. judge_project (verb_bus company_engine svc reg vs cc) c p d s =
      Inr (d\<lparr>gd_breaches := gd_breaches d @ [b], gd_projects := gd_projects d @ [pj_id p]\<rparr>, s') \<and>
    row_of projects_table s' (pj_id p) = Some (p\<lparr>pj_state := J_paused\<rparr>)"
proof -
  define why where "why = ''kill criteria: '' @ breach_text b"
  define ak where "ak = governance_asking c ''project'' (pj_id p)"
  define bus where "bus = verb_bus company_engine svc reg vs cc"
  define sp where "sp = verb_spec vs cc (''PauseProject'', ''pause_project'')"
  let ?cmd = "PauseProject (pj_id p) (Some why)"
  let ?paused = "\<lambda>s. s\<lparr>fi_projects := update_row pj_id (pj_id p) (\<lambda>p. p\<lparr>pj_state := J_paused\<rparr>) (fi_projects s)\<rparr>"
  have sp: "command_get bus ''PauseProject'' = Inr sp"
    by (simp add: command_get_def bus_def sp_def verb_bus_def COMPANY_VERBS_def verb_spec_def)
  have criteria: "pj_kill_criteria p \<noteq> None"
    using breach by (cases "pj_kill_criteria p") (simp_all add: breached_def key_of_def)
  have asks: "ak_actor ak = governance_actor" "ak_role ak = None" "ak_policies ak = []" "ak_company_id ak = cy_company_id c"
    by (simp_all add: ak_def governance_asking_def)
  have spec: "sp_name sp = ''PauseProject''" "sp_action sp = ''pause_project''" "sp_dump sp = cc_dump cc"
    "sp_facts sp = verb_facts ''PauseProject''" "sp_handler sp = handle_command vs cc" "cb_policy bus = company_engine"
    "sp_load sp [(''project_id'', JStr (uuid_str (pj_id p))), (''reason'', JStr t)] = Inr (PauseProject (pj_id p) (Some t))" for t
    using codec by (simp_all add: sp_def bus_def verb_spec_def verb_bus_def reads_pauses_def)
  obtain dec db1 where decided: "in_runtime (decide_and_record company_engine governance_actor ''pause_project'' (cy_company_id c) None
      (cc_dump cc ?cmd) (verb_facts ''PauseProject'' s (cy_company_id c) ?cmd) []
      \<lparr>dr_agent_id = None, dr_run_id = None, dr_task_id = None\<rparr>) s = Inr (dec, fi_put_db db1 s)" "dc_outcome dec = Allow"
    using system_may_pause by blast
  define s1 where "s1 = fi_put_db db1 s"
  have row1: "row_of projects_table s1 (pj_id p) = Some p"
    using p(1) by (simp add: s1_def row_of_def projects_table_def fi_put_db_def)
  have "pj_company_id p = cx_company_id (context_of bus ak)" "distinct (map pj_id (fi_projects s1))"
    using p by (simp_all add: context_of_def asks s1_def fi_put_db_def)
  from pause_project_runs [OF row1 p(2) this criteria] obtain db2 x s2 where
    handled: "pause_project (context_of bus ak) (pj_id p) (Some why) s1 = Inr (Inr x, s2)"
    and s2: "s2 = fi_put_db db2 (?paused s1)" by blast
  have free: "replay_command s2 (ak_key ak) = None" "replay_command s (ak_key ak) = None"
    using unused by (simp_all add: replay_command_def fi_put_db_def s2 s1_def ak_def)
  have named: "command_name_like (sp_name sp)" unfolding spec by code_simp
  have "in_runtime (decide_and_record (cb_policy bus) (ak_actor ak) (sp_action sp) (ak_company_id ak) (ak_role ak)
      (sp_dump sp ?cmd) (sp_facts sp s (ak_company_id ak) ?cmd) (ak_policies ak)
      \<lparr>dr_agent_id = None, dr_run_id = None, dr_task_id = None\<rparr>) s = Inr (dec, s1)"
    "sp_handler sp (context_of bus ak) ?cmd s1 = Inr (Inr x, s2)"
    using decided(1) handled by (simp_all add: spec asks s1_def)
  from submit_done [OF sp spec(7) named free(2) this(1) decided(2) this(2) free(1)]
  obtain r db3 s3 where
    submitted: "submit bus ''PauseProject'' (Inl [(''project_id'', JStr (uuid_str (pj_id p))), (''reason'', JStr why)]) ak s = Inr (r, s3)"
    and r: "cm_outcome r = Command_done" and s3: "s3 = fi_put_db db3 (s2\<lparr>fi_commands := fi_commands s2 @ [r]\<rparr>)"
    by blast
  have "get_row projects_table (pj_id p) AttributeError s = Inr (p, s)"
    using p(1) by (simp add: get_row_Inr_iff)
  then have "pause_breached bus c (pj_id p) b s = Inr (True, s3)"
    using submitted r by (simp add: pause_breached_def bindT_def p(2) returnT_def why_def ak_def)
  then have "judge_project bus c p d s = Inr (d\<lparr>gd_breaches := gd_breaches d @ [b], gd_projects := gd_projects d @ [pj_id p]\<rparr>, s3)"
    by (simp add: judge_project_def pause_and_note_def bindT_def getsT_def liftT_def breach returnT_def)
  moreover have "row_of projects_table s3 (pj_id p) = Some (p\<lparr>pj_state := J_paused\<rparr>)"
    using p(1) by (simp add: s1_def s2 s3 row_of_def projects_table_def fi_put_db_def find_row_update)
  ultimately show ?thesis unfolding bus_def by blast
qed

section \<open>A project that loses money\<close>

definition failing_project :: project where
  "failing_project = \<lparr>pj_id = 20, pj_company_id = 1, pj_business_unit_id = None, pj_opportunity_id = None, pj_name = ''letters'',
     pj_description = None, pj_state = J_active,
     pj_kill_criteria = Some [(''auto_pause_if'', JObj [(''metric'', JStr ''profit''), (''op'', JStr ''<''), (''value'', JInt 0)])],
     pj_created_by_run_id = None, pj_approved_by = None, pj_override_reason = None\<rparr>"

definition failing_figures :: kpi_snapshot where
  "failing_figures = \<lparr>kp_id = 21, kp_company_id = 1, kp_cycle_id = Some 10, kp_business_unit_id = None, kp_project_id = Some 20,
     kp_scope = Scope_project, kp_metrics = [(''profit'', JStr ''-3'')], kp_period_start = 0, kp_period_end = 1\<rparr>"

definition failing_morning :: firm where
  "failing_morning = demo_morning\<lparr>fi_projects := [failing_project], fi_kpis := [failing_figures]\<rparr>"

definition pausing_load :: "string \<Rightarrow> dict \<Rightarrow> string + company_command" where
  "pausing_load name d = (case (name = ''PauseProject'', map_of d ''project_id'', map_of d ''reason'') of
     (True, Some (JStr i), Some (JStr t)) \<Rightarrow> if i = uuid_str 20 then Inr (PauseProject 20 (Some t)) else Inl ''project_id''
   | _ \<Rightarrow> Inl ''payload'')"

definition pausing_codec :: command_codec where
  "pausing_codec = demo_codec\<lparr>cc_load := pausing_load\<rparr>"

definition failing_breach :: breach where
  "failing_breach = \<lparr>br_scope = ''project'', br_scope_id = 20, br_metric = ''profit'', br_op = ''<'', br_threshold = Fin 0,
     br_observed = Fin (- 3), br_cycles = 1\<rparr>"

lemma failing_breached:
  "breached failing_morning demo_day (pj_kill_criteria failing_project) Scope_project ''project'' 20 (Some 20) None =
    Inr (Some failing_breach)"
  by code_simp

lemma failing_unused: "replay_command failing_morning (ak_key (governance_asking demo_day ''project'' 20)) = None"
  by code_simp

theorem breach_stops_the_project_witness:
  "\<exists>s'. judge_project (verb_bus company_engine demo_service None demo_settings pausing_codec) demo_day failing_project
      nothing_governed failing_morning =
      Inr (nothing_governed\<lparr>gd_breaches := [failing_breach], gd_projects := [20]\<rparr>, s') \<and>
    row_of projects_table s' 20 = Some (failing_project\<lparr>pj_state := J_paused\<rparr>)"
proof -
  have i: "pj_id failing_project = 20" by (simp add: failing_project_def)
  have "reads_pauses pausing_codec (pj_id failing_project)"
    by (simp add: i reads_pauses_def pausing_codec_def pausing_load_def)
  moreover have "row_of projects_table failing_morning (pj_id failing_project) = Some failing_project"
    "pj_state failing_project = J_active" "pj_company_id failing_project = cy_company_id demo_day"
    "distinct (map pj_id (fi_projects failing_morning))"
    by (simp_all add: failing_morning_def failing_project_def row_of_def projects_table_def find_row_def demo_day_def)
  ultimately have "\<exists>s'. judge_project (verb_bus company_engine demo_service None demo_settings pausing_codec) demo_day failing_project
      nothing_governed failing_morning =
      Inr (nothing_governed\<lparr>gd_breaches := gd_breaches nothing_governed @ [failing_breach],
        gd_projects := gd_projects nothing_governed @ [pj_id failing_project]\<rparr>, s') \<and>
    row_of projects_table s' (pj_id failing_project) = Some (failing_project\<lparr>pj_state := J_paused\<rparr>)"
    by (rule breach_stops_the_project) (simp_all add: i failing_breached failing_unused)
  then show ?thesis by (simp add: i nothing_governed_def)
qed

text \<open>A first morning with a project that was not measured yet: it is judged and left alone.\<close>

definition quiet_morning :: firm where
  "quiet_morning = demo_morning\<lparr>fi_projects := [failing_project]\<rparr>"

lemma quiet_morning_governed:
  "(case governance_stage demo_parts 10 quiet_morning of Inl e \<Rightarrow> False | Inr x \<Rightarrow> map pj_state (fi_projects (snd x)) = [J_active])"
  by code_simp


section \<open>Where a rule misreads\<close>

text \<open>A criterion whose count of cycles is a word raises: the stage it is judged in cannot be entered.\<close>

lemma wordy_count_raises:
  "breached s c (Some [(''auto_pause_if'', JObj [(''metric'', JStr ''profit''), (''op'', JStr ''<''), (''value'', JInt 0),
    (''consecutive_cycles'', JStr ''two'')])]) sc scope_name i project_id unit_id = Inl (ValueError ''two'')"
proof -
  have "needed_cycles [(''metric'', JStr ''profit''), (''op'', JStr ''<''), (''value'', JInt 0), (''consecutive_cycles'', JStr ''two'')] =
      Inl (ValueError ''two'')" by code_simp
  then show ?thesis by (simp add: breached_def Let_def key_of_def OPS_def bind_err_def json_nat_like.simps)
qed

text \<open>The cap of a whole company is measured by the business that was measured last.\<close>

definition two_businesses :: firm where
  "two_businesses = demo_morning\<lparr>fi_kpis :=
     [failing_figures\<lparr>kp_scope := Scope_business_unit, kp_business_unit_id := Some 5, kp_project_id := None,
        kp_metrics := [(''cost'', JStr ''90'')]\<rparr>,
      failing_figures\<lparr>kp_id := 22, kp_scope := Scope_business_unit, kp_business_unit_id := Some 6, kp_project_id := None,
        kp_metrics := [(''cost'', JStr ''2'')]\<rparr>]\<rparr>"

lemma company_cap_reads_one_business:
  "measured_cost two_businesses demo_day \<lparr>bg_id = 30, bg_company_id = 1, bg_project_id = None, bg_business_unit_id = None,
    bg_period = ''cycle'', bg_amount = 100, bg_currency = ''TWD'', bg_hard_cap = True\<rparr> = Some (Fin 2)"
  by code_simp

end
