(* ===== verification/Spec2Isabelle.thy ===== *)
theory Spec2Isabelle
  imports RuntimeProps SystemProps Templates FsmPaths PolicyProps CostProps Ids TaskProps MirrorProps SchedulerProps ReducerProps Memory Money ServicesProps RunnerProps ToolProps CommerceProps CycleProps CommandProps GovernanceProps
begin

text \<open>
  Verification of the backend of autora (\<open>src/backend/autora\<close>): a company run by agents. The \<^emph>\<open>runtime\<close>
  (\<open>runtime/\<close>) keeps a queue of tasks in a database, has workers claim them under leases, runs agents on
  them and records what they do; the \<^emph>\<open>company\<close> (\<open>company/\<close>) is the business on top of it: a daily cycle,
  a ledger, customers, an organisation, and the commands through which agents and people act.

  \<^bold>\<open>How the program is put together, and where it is modelled.\<close>

  Ground. \<open>Prelude\<close> has the transaction monad: a handler is a function from a state to an error or a result
  with the next state, and an error undoes what the transaction wrote. It also has the frames and triples
  in which invariants are stated, and tables as lists of rows with a key, in the order of insertion.
  \<open>Pystr\<close> models strings, decimals' texts and JSON; \<open>Money\<close> the decimal arithmetic of Python's default context
  (\<open>infra/money.py\<close>) and the model prices of \<open>runtime/models/router.py\<close>; \<open>Calendar\<close> dates; \<open>Ids\<close> the identifiers of
  \<open>infra/ids.py\<close> at their 128 bits; \<open>Models\<close> and \<open>Db\<close> the enumerations and rows of \<open>db/models\<close>; \<open>Events\<close> the
  catalogue of \<open>runtime/events\<close> and \<open>company/events.py\<close>.

  Runtime. \<open>Fsm\<close>: \<open>runtime/fsm.py\<close> and \<open>lifecycles.py\<close>. \<open>Outbox\<close>: \<open>events/outbox.py\<close>. \<open>Activity\<close>: \<open>activity/service.py\<close>.
  \<open>TaskManager\<close>: \<open>task_manager.py\<close>. \<open>Dag\<close>: \<open>dag.py\<close>. \<open>Approvals\<close>: \<open>approvals/service.py\<close>. \<open>Policy\<close>:
  \<open>policy/engine.py\<close>. \<open>CostGuard\<close>: \<open>cost/guard.py\<close> and \<open>models/gateway.py\<close>. \<open>Messages\<close>: \<open>models/types.py\<close>. \<open>Scheduler\<close>,
  \<open>Memory\<close>, \<open>Services\<close>, \<open>Tools\<close> (with \<open>trace\<close>), \<open>Runner\<close> and \<open>RunnerLoop\<close> (\<open>agent_runner.py\<close>): the modules of these
  names. \<open>Reducer\<close>: \<open>realtime/projection.py\<close> and \<open>reducer.py\<close>. \<open>Engine\<close>, \<open>System\<close> and \<open>Runtime\<close> compose them: the task
  manager calls the engine's hooks as its parameters, and a step of the system is one transaction that
  committed. \<open>World\<close> is the state of an agent's run, which commits many times and lets other workers commit
  in between.

  Company. \<open>Firm\<close>: the tables with their CHECK constraints and unique keys. \<open>CompanyPolicy\<close>: \<open>policy.py\<close>. \<open>Ledger\<close>:
  \<open>ledger.py\<close>. \<open>Commerce\<close>: \<open>customers.py\<close>, \<open>memberships.py\<close>, \<open>orders.py\<close>, \<open>revenue.py\<close>. \<open>Opportunities\<close>,
  \<open>Reporting\<close>, \<open>Organization\<close>, \<open>Governance\<close>, \<open>Commands\<close>: the modules of these names. \<open>Verbs\<close> and \<open>BusinessVerbs\<close>:
  \<open>verbs.py\<close> and \<open>verbs_business.py\<close>, every handler, and the bus with all of them registered. \<open>Cycle\<close>: \<open>cycle.py\<close>.
  \<open>Desks\<close>: the hooks of \<open>executive.py\<close>, \<open>finance.py\<close>, \<open>exploration.py\<close> and \<open>market_watch.py\<close>. \<open>Company\<close>: the cycle
  runner as \<open>app.py\<close> composes it. The company's state contains the runtime's (\<open>fi_db\<close>), and a command runs in it
  with \<open>in_runtime\<close>.

  \<^bold>\<open>What is shown.\<close>

  \<^item> State machines and graphs: \<open>FsmPaths\<close> (breadth-first search), \<open>Templates\<close> (topological order, closure).
  \<^item> Invariants of every reachable state. A locale lists the primitive writes (\<open>KeepsAll\<close>) or what an operation
  may leave changed (\<open>Frame\<close>, \<open>Cells\<close>, \<open>TaskOps\<close>); its lemmas carry an invariant through every operation, and
  each invariant is an interpretation: \<open>Logs\<close> with \<open>SystemProps\<close> (event log, audit log, approvals), \<open>TaskOps\<close>,
  \<open>TaskLife\<close>, \<open>TaskClosing\<close> and \<open>RuntimeInv\<close> with \<open>RuntimeProps\<close> (tasks, leases and runs), \<open>Mirror\<close> and \<open>MirrorOps\<close> with
  \<open>MirrorProps\<close> (the realtime reducer refines the task manager), \<open>FirmTables\<close>, \<open>Books\<close> and \<open>Shop\<close> with
  \<open>CommerceProps\<close> (memberships, payments and ledger agree), \<open>CycleLaws\<close> and \<open>CycleRecords\<close> with \<open>CycleProps\<close>
  (cycles), \<open>CommandLaws\<close> with \<open>CommandProps\<close> (the record of commands).
  \<^item> Behaviour of single operations, errors included: \<open>TaskProps\<close>, \<open>RunEnds\<close>, \<open>RunnerProps\<close>, \<open>ToolProps\<close>,
  \<open>ServicesProps\<close>, \<open>SchedulerProps\<close>, \<open>ReducerProps\<close>, \<open>CostProps\<close>, \<open>PolicyProps\<close>, \<open>GovernanceProps\<close>, and the second halves of
  \<open>Ids\<close> and \<open>Memory\<close>.
  \<^item> \<open>RunnerDemo\<close>, \<open>CommerceDemo\<close> and the last sections of the property theories are concrete systems on which
  the theorems are applied.

  \<^bold>\<open>Fuel and bounds.\<close> Loops that shrink their data are recursive functions with a measure. Fuel is given to: the
  engine's hooks, by the number of tasks, as each round ends or creates at least one; an agent's loop,
  \<open>max_steps + 2\<close>, and more changes nothing (\<open>run_ends\<close>); a tick, 5, as a cycle has four stages to leave
  (\<open>tick_needs_five\<close>); the walk up the organisation chart, by the number of rows. Sums of money are rationals
  rounded where the code rounds, with errors where a decimal leaves the precision of the context; floats of
  governance and of prices are rounded to IEEE doubles exactly.

  \<^bold>\<open>What stands for the outside.\<close> Tools, model providers, domain hooks, croniter's next slot, \<open>json.loads\<close>, SHA-256,
  the loading and dumping of payloads by Pydantic and the text of a decimal in a command are parameters, and
  what is assumed of them is a named hypothesis (\<open>honest\<close>, \<open>reads_pauses\<close>, the assumptions of the locales). Row
  locks and advisory locks are not modelled: an operation is atomic, and interleaving is the order of the
  steps. The clock does not move within a transaction. What other parts do between steps is any change that
  keeps the tables a theorem is about (\<open>others\<close>, \<open>elsewhere\<close>). Strings are Latin-1. Floats in JSON are kept by their
  \<open>repr\<close>, and zero has no sign. Rows come in the order of insertion where a query names no order. Blobs are
  undone with their transaction.

  \<^bold>\<open>Not modelled.\<close> The worker process, the WebSocket gateway and the HTTP routes, which poll, stream and answer around the
  modelled operations; clients of external services, configuration, migrations and SQLAlchemy's plumbing;
  the generator of TypeScript types; \<open>company/summary.py\<close>, \<open>snapshot.py\<close>, \<open>simulation.py\<close>, \<open>team_chat.py\<close> and the
  prompts of the agents, which render texts for people and models; reader accounts; the newsroom domain,
  most of which fetches and writes articles and market data around external services.
\<close>

end
